(* ===== verification/Go_Prelude.thy ===== *)
theory Go_Prelude
  imports Main "HOL-Library.AList" "HOL-Library.List_Lexorder" "HOL-Library.Char_ord" "HOL-Library.Word"
begin

text \<open>
  The prelude of the development: the part of Go and of its standard library that the
  modelled code uses, and the generic lemmas the component theories share.

  \<^item> A Go \<open>string\<close> is a sequence of bytes, here a \<^typ>\<open>string\<close> (a list of 8-bit
    characters); \<open><\<close> on strings is the byte-wise lexicographic order.
  \<^item> A Go map is an association list with distinct keys; a lookup is \<^const>\<open>map_of\<close>, a
    store is \<^const>\<open>AList.update\<close>, a delete is \<^const>\<open>AList.delete\<close>. Go iterates a
    map in an unspecified order: a definition that ranges over a map goes through the list
    from left to right, and the theorems hold for every such list.
  \<^item> A Go \<open>int\<close> is a 64-bit two's complement number, here an \<^typ>\<open>int\<close>; where an
    operation of the source can leave the range, the wrap-around is written out with
    \<open>int64\<close>.
  \<^item> A \<open>time.Time\<close> is the number of nanoseconds since an epoch, and \<open>0\<close> is the zero
    time; \<open>time.Now()\<close> is always an argument.
\<close>

section \<open>Named collections\<close>

named_theorems go_simps \<open>equations for the modelled Go library\<close>
named_theorems engine_simps \<open>field equations of the workflow engine's updates\<close>
named_theorems status_simps \<open>how operations change the status of a node\<close>

section \<open>Results\<close>

type_synonym time = int
type_synonym duration = int

text \<open>A call that may run into a run-time panic (a nil dereference) instead of returning.\<close>

datatype 'a go = Panic | Ret 'a

section \<open>Machine integers\<close>

text \<open>The value a 64-bit signed operation leaves for the mathematical result \<open>x\<close>.\<close>

definition int64 :: "int \<Rightarrow> int" where
  "int64 x = signed_take_bit 63 x"

definition int64_range :: "int \<Rightarrow> bool" where
  "int64_range x \<longleftrightarrow> - (2 ^ 63) \<le> x \<and> x < 2 ^ 63"

lemma int64_in_range [simp]: "int64_range (int64 x)"
  using signed_take_bit_int_less_exp [of 63 x] signed_take_bit_int_greater_eq_minus_exp [of 63 x]
  by (simp add: int64_range_def int64_def)

lemma int64_bounds: "- (2 ^ 63) \<le> int64 x" "int64 x < 2 ^ 63"
  using int64_in_range [of x] by (simp_all only: int64_range_def)

lemma int64_id: "int64_range x \<Longrightarrow> int64 x = x"
  by (simp add: int64_range_def int64_def signed_take_bit_int_eq_self)

section \<open>Strings\<close>

text \<open>
  \<open>strings.TrimSpace\<close> removes the leading and trailing white space as Unicode defines it.
  The white-space code points are listed by their UTF-8 bytes; bytes that are not the
  encoding of one of them stop the trimming, as an invalid or another rune does in Go.
\<close>

definition byte :: "nat \<Rightarrow> char" where
  "byte n = char_of n"

definition space_runes :: "string list" where
  "space_runes =
     map (\<lambda>b. [byte b]) [9, 10, 11, 12, 13, 32]
     @ [[byte 194, byte 133], [byte 194, byte 160], [byte 225, byte 154, byte 128]]
     @ map (\<lambda>b. [byte 226, byte 128, byte b]) [128, 129, 130, 131, 132, 133, 134, 135, 136, 137, 138, 168, 169, 175]
     @ [[byte 226, byte 129, byte 159], [byte 227, byte 128, byte 128]]"

text \<open>The length of the first listed rune that \<open>s\<close> starts with, 0 if there is none.\<close>

definition rune_len :: "string list \<Rightarrow> string \<Rightarrow> nat" where
  "rune_len ps s = (case find (\<lambda>p. take (length p) s = p) ps of None \<Rightarrow> 0 | Some p \<Rightarrow> length p)"

function trim_left :: "string list \<Rightarrow> string \<Rightarrow> string" where
  "trim_left ps s =
     (if rune_len ps s = 0 \<or> s = [] then s else trim_left ps (drop (rune_len ps s) s))"
  by pat_completeness auto
termination
  by (relation "measure (\<lambda>(ps, s). length s)") auto

declare trim_left.simps [simp del]

definition trim_space :: "string \<Rightarrow> string" where
  "trim_space s = rev (trim_left (map rev space_runes) (rev (trim_left space_runes s)))"

definition no_rune :: "string list \<Rightarrow> string \<Rightarrow> bool" where
  "no_rune ps s \<longleftrightarrow> (\<forall>p \<in> set ps. take (length p) s \<noteq> p)"

lemma rune_len_eq_0: "[] \<notin> set ps \<Longrightarrow> rune_len ps s = 0 \<longleftrightarrow> no_rune ps s"
proof (cases "find (\<lambda>p. take (length p) s = p) ps")
  case None
  then have "rune_len ps s = 0" by (simp add: rune_len_def)
  moreover from None have "no_rune ps s" by (simp add: no_rune_def find_None_iff)
  ultimately show ?thesis by simp
next
  case (Some p)
  then have "p \<in> set ps" and "take (length p) s = p"
    by (auto simp: find_Some_iff)
  moreover assume "[] \<notin> set ps"
  ultimately show ?thesis using Some by (auto simp: rune_len_def no_rune_def)
qed

lemma no_rune_take: "no_rune ps s \<Longrightarrow> no_rune ps (take n s)"
  by (auto simp: no_rune_def min_def split: if_splits dest!: arg_cong [where f = length])

lemma trim_left_suffix: "\<exists>n. trim_left ps s = drop n s"
proof (induction ps s rule: trim_left.induct)
  case (1 ps s)
  show ?case
  proof (cases "rune_len ps s = 0 \<or> s = []")
    case True
    then have "trim_left ps s = drop 0 s" by (simp add: trim_left.simps)
    then show ?thesis by blast
  next
    case False
    with 1 obtain n where "trim_left ps (drop (rune_len ps s) s) = drop n (drop (rune_len ps s) s)"
      by blast
    with False have "trim_left ps s = drop (n + rune_len ps s) s"
      by (simp add: trim_left.simps [of ps s] add.commute)
    then show ?thesis by blast
  qed
qed

lemma trim_left_no_rune: "[] \<notin> set ps \<Longrightarrow> no_rune ps (trim_left ps s)"
proof (induction ps s rule: trim_left.induct)
  case (1 ps s)
  show ?case
  proof (cases "rune_len ps s = 0 \<or> s = []")
    case True
    with 1(2) show ?thesis
      by (auto simp: trim_left.simps [of ps s] rune_len_eq_0 no_rune_def)
  next
    case False
    with 1 show ?thesis by (simp add: trim_left.simps [of ps s])
  qed
qed

lemma trim_left_id: "[] \<notin> set ps \<Longrightarrow> no_rune ps s \<Longrightarrow> trim_left ps s = s"
  by (simp add: trim_left.simps rune_len_eq_0)

lemma space_runes_nonempty: "[] \<notin> set space_runes" "[] \<notin> set (map rev space_runes)"
  by (auto simp: space_runes_def)

lemma trim_space_trimmed:
  "no_rune space_runes (trim_space s)" "no_rune (map rev space_runes) (rev (trim_space s))"
proof -
  let ?t = "trim_left space_runes s"
  obtain n where "trim_left (map rev space_runes) (rev ?t) = drop n (rev ?t)"
    using trim_left_suffix by blast
  then have "trim_space s = take (length ?t - n) ?t"
    by (simp add: trim_space_def drop_rev)
  then show "no_rune space_runes (trim_space s)"
    using trim_left_no_rune [OF space_runes_nonempty(1), of s] by (simp add: no_rune_take)
  show "no_rune (map rev space_runes) (rev (trim_space s))"
    using trim_left_no_rune [OF space_runes_nonempty(2)] by (simp add: trim_space_def)
qed

lemma trim_space_idem [simp, go_simps]: "trim_space (trim_space s) = trim_space s"
  using trim_left_id [OF space_runes_nonempty(1) trim_space_trimmed(1)]
    trim_left_id [OF space_runes_nonempty(2) trim_space_trimmed(2)]
  by (simp only: trim_space_def [of "trim_space s"] rev_rev_ident)

lemma trim_space_Nil [simp, go_simps]: "trim_space [] = []"
  by (simp add: trim_space_def trim_left.simps)

text \<open>
  \<open>strings.ToLower\<close>, as far as a comparison with an ASCII literal can see it: the ASCII
  letters are mapped, and so are the two other code points whose lower case is ASCII (the
  dotted capital I, U+0130, and the Kelvin sign, U+212A). All other bytes are kept.
\<close>

definition lower_byte :: "char \<Rightarrow> char" where
  "lower_byte c = (let n = of_char c :: nat in if 65 \<le> n \<and> n \<le> 90 then byte (n + 32) else c)"

fun to_lower :: "string \<Rightarrow> string" where
  "to_lower (a # b # c # s) =
     (if a = byte 196 \<and> b = byte 176 then byte 105 # to_lower (c # s)
      else if a = byte 226 \<and> b = byte 132 \<and> c = byte 170 then byte 107 # to_lower s
      else lower_byte a # to_lower (b # c # s))"
| "to_lower [a, b] =
     (if a = byte 196 \<and> b = byte 176 then [byte 105] else lower_byte a # to_lower [b])"
| "to_lower [a] = [lower_byte a]"
| "to_lower [] = []"

definition has_prefix :: "string \<Rightarrow> string \<Rightarrow> bool" where
  "has_prefix s p \<longleftrightarrow> take (length p) s = p"

text \<open>\<open>strings.Contains\<close>: some suffix of \<open>s\<close> starts with \<open>p\<close>.\<close>

fun str_contains :: "string \<Rightarrow> string \<Rightarrow> bool" where
  "str_contains [] p \<longleftrightarrow> p = []"
| "str_contains (c # s) p \<longleftrightarrow> has_prefix (c # s) p \<or> str_contains s p"

section \<open>Maps\<close>

type_synonym ('k, 'v) gomap = "('k \<times> 'v) list"

text \<open>
  A Go map whose values are pointers: \<open>upd_at k f m\<close> mutates the object that key \<open>k\<close>
  points to, and leaves the map itself as it is.
\<close>

definition upd_at :: "'k \<Rightarrow> ('v \<Rightarrow> 'v) \<Rightarrow> ('k, 'v) gomap \<Rightarrow> ('k, 'v) gomap" where
  "upd_at k f m = map (\<lambda>(j, v). (j, if j = k then f v else v)) m"

lemma map_fst_upd_at [simp]: "map fst (upd_at k f m) = map fst m"
  by (auto simp: upd_at_def)

lemma map_of_upd_at [simp]:
  "map_of (upd_at k f m) j = (if j = k then map_option f (map_of m j) else map_of m j)"
  by (induction m) (auto simp: upd_at_def)

lemma upd_at_Nil [simp]: "upd_at k f [] = []"
  by (simp add: upd_at_def)

lemma dom_map_of: "dom (map_of m) = set (map fst m)"
  by (simp add: dom_map_of_conv_image_fst)

lemma map_of_in_keys: "map_of m k = Some v \<Longrightarrow> k \<in> set (map fst m)"
  by (metis domI dom_map_of)

section \<open>Lists\<close>

lemma find_SomeD: "find P xs = Some x \<Longrightarrow> x \<in> set xs \<and> P x"
  by (auto simp: find_Some_iff)

lemma distinct_remove: "distinct xs \<Longrightarrow> distinct (take n xs @ drop (Suc n) xs)"
  by (simp add: set_take_disj_set_drop_if_distinct)

end
