(* ===== verification/Go_Value.thy ===== *)
theory Go_Value
  imports Go_Prelude
begin

text \<open>
  Dynamic values: Go's \<open>any\<close> as the workflow code sees it, with the type assertions and
  the conversions between numbers that the code uses. A \<open>float64\<close> is its IEEE 754 bit
  pattern; the conversions from and to integers are written out on the bits.
\<close>

section \<open>IEEE 754 numbers\<close>

type_synonym float64 = "64 word"
type_synonym float32 = "32 word"

text \<open>The position of the highest set bit of a positive number.\<close>

fun high_bit :: "nat \<Rightarrow> nat" where
  "high_bit n = (if n < 2 then 0 else Suc (high_bit (n div 2)))"

declare high_bit.simps [simp del]

text \<open>The 53-bit significand of a number whose highest bit is \<open>k\<close>, rounded to nearest even.\<close>

definition significand :: "nat \<Rightarrow> nat \<Rightarrow> nat" where
  "significand n k =
     (if k \<le> 52 then n * 2 ^ (52 - k)
      else let d = 2 ^ (k - 52); q = n div d; r = n mod d
           in if d < 2 * r \<or> (2 * r = d \<and> odd q) then Suc q else q)"

text \<open>A carry out of the significand moves into the exponent, which is what rounding up needs.\<close>

definition float64_bits :: "nat \<Rightarrow> nat" where
  "float64_bits n =
     (if n = 0 then 0 else let k = high_bit n in (k + 1022) * 2 ^ 52 + significand n k)"

definition float64_of_int :: "int \<Rightarrow> float64" where
  "float64_of_int i =
     (if i < 0 then of_nat (2 ^ 63 + float64_bits (nat (- i))) else of_nat (float64_bits (nat i)))"

definition f64_exponent :: "float64 \<Rightarrow> nat" where
  "f64_exponent w = unat w div 2 ^ 52 mod 2 ^ 11"

definition f64_fraction :: "float64 \<Rightarrow> nat" where
  "f64_fraction w = unat w mod 2 ^ 52"

definition f64_negative :: "float64 \<Rightarrow> bool" where
  "f64_negative w \<longleftrightarrow> 2 ^ 63 \<le> unat w"

text \<open>
  \<open>int64(f)\<close>: truncation toward zero. Go leaves the result of an out-of-range conversion
  to the implementation; the value here is the one of the amd64 instruction.
\<close>

definition int64_of_float64 :: "float64 \<Rightarrow> int" where
  "int64_of_float64 w =
     (let e = f64_exponent w; m = 2 ^ 52 + f64_fraction w;
          a = (if e < 1023 then 0
               else if e \<le> 1075 then m div 2 ^ (1075 - e)
               else m * 2 ^ (e - 1075));
          i = (if f64_negative w then - int a else int a)
      in if e < 2047 \<and> int64_range i then i else - (2 ^ 63))"

text \<open>\<open>float64(f)\<close> of a \<open>float32\<close>, which is exact.\<close>

definition float64_of_float32 :: "float32 \<Rightarrow> float64" where
  "float64_of_float32 w =
     (let sgn = unat w div 2 ^ 31; e = unat w div 2 ^ 23 mod 2 ^ 8; f = unat w mod 2 ^ 23;
          mag = (if e = 255 then 2047 * 2 ^ 52 + f * 2 ^ 29
                 else if e \<noteq> 0 then (e + 896) * 2 ^ 52 + f * 2 ^ 29
                 else if f = 0 then 0
                 else let k = high_bit f in (k + 874) * 2 ^ 52 + (f - 2 ^ k) * 2 ^ (52 - k))
      in of_nat (sgn * 2 ^ 63 + mag))"

section \<open>Files\<close>

record go_file =
  f_ID :: string
  f_WorkspaceID :: string
  f_Type :: string
  f_TransferMethod :: string
  f_RemoteURL :: string
  f_Filename :: string
  f_Extension :: string
  f_MimeType :: string
  f_Size :: int
  f_StorageKey :: string

text \<open>The file of package \<open>workflow/file\<close>; a pointer field is an option.\<close>

record wfile =
  w_ZgiModelIdentity :: string
  w_ID :: "string option"
  w_TenantID :: string
  w_Type :: string
  w_TransferMethod :: string
  w_RemoteURL :: "string option"
  w_RelatedID :: "string option"
  w_Filename :: "string option"
  w_Extension :: "string option"
  w_MimeType :: "string option"
  w_Size :: int
  w_storageKey :: string
  w_URL :: "string option"

section \<open>Values of type any\<close>

datatype int_kind = Kint | Kint8 | Kint16 | Kint32 | Kint64
  | Kuint | Kuint8 | Kuint16 | Kuint32 | Kuint64

text \<open>
  One constructor per dynamic type that the code asks for; \<open>VOther\<close> is a value of any
  other type, with the name of the type. \<open>VTime\<close> and \<open>VOther\<close> carry the text that
  \<open>fmt.Sprintf("%v", x)\<close> gives for them.
\<close>

datatype goval =
    VNil
  | VString string
  | VBool bool
  | VInt int_kind int
  | VFloat64 float64
  | VFloat32 float32
  | VMap "(string \<times> goval) list"
  | VList "goval list"
  | VMapList "(string \<times> goval) list list"
  | VStrings "string list"
  | VBools "bool list"
  | VInts "int list"
  | VFile "go_file option"
  | VFileList "go_file option list"
  | VWFile "wfile option"
  | VWFileList "wfile option list"
  | VTime time string
  | VOther string string

type_synonym dict = "(string, goval) gomap"

text \<open>
  The comma-ok type assertions on an element of a \<open>map[string]any\<close>. A missing key reads as
  nil, on which every assertion fails.
\<close>

definition is_string :: "dict \<Rightarrow> string \<Rightarrow> string option" where
  "is_string m k = (case map_of m k of Some (VString s) \<Rightarrow> Some s | _ \<Rightarrow> None)"

definition is_map :: "dict \<Rightarrow> string \<Rightarrow> dict option" where
  "is_map m k = (case map_of m k of Some (VMap d) \<Rightarrow> Some d | _ \<Rightarrow> None)"

definition str_at :: "dict \<Rightarrow> string \<Rightarrow> string" where
  "str_at m k = (case is_string m k of Some s \<Rightarrow> s | None \<Rightarrow> [])"

text \<open>A string that is present and not empty, as in \<open>s, ok := m[k].(string); ok && s != ""\<close>.\<close>

definition nonempty_at :: "dict \<Rightarrow> string \<Rightarrow> string option" where
  "nonempty_at m k = (case is_string m k of Some s \<Rightarrow> if s = [] then None else Some s | None \<Rightarrow> None)"

section \<open>Formatting with \%v\<close>

fun show_nat :: "nat \<Rightarrow> string" where
  "show_nat n = (if n < 10 then [byte (48 + n)] else show_nat (n div 10) @ [byte (48 + n mod 10)])"

declare show_nat.simps [simp del]

definition show_int :: "int \<Rightarrow> string" where
  "show_int i = (if i < 0 then ''-'' @ show_nat (nat (- i)) else show_nat (nat i))"

definition show_bool :: "bool \<Rightarrow> string" where
  "show_bool b = (if b then ''true'' else ''false'')"

fun join_with :: "string \<Rightarrow> string list \<Rightarrow> string" where
  "join_with sep [] = []"
| "join_with sep [x] = x"
| "join_with sep (x # y # zs) = x @ sep @ join_with sep (y # zs)"

section \<open>Conversions between integers and floats\<close>

lemma high_bit_bounds: "0 < n \<Longrightarrow> 2 ^ high_bit n \<le> n \<and> n < 2 * 2 ^ high_bit n"
proof (induction n rule: high_bit.induct)
  case (1 n)
  show ?case
  proof (cases "n < 2")
    case True
    with 1 show ?thesis by (simp add: high_bit.simps [of n])
  next
    case False
    with 1 have "2 ^ high_bit (n div 2) \<le> n div 2 \<and> n div 2 < 2 * 2 ^ high_bit (n div 2)"
      by simp
    with False show ?thesis by (simp add: high_bit.simps [of n]) linarith
  qed
qed

lemma high_bit_le: "0 < n \<Longrightarrow> n < 2 ^ Suc k \<Longrightarrow> high_bit n \<le> k"
proof -
  assume "0 < n" and "n < 2 ^ Suc k"
  then have "(2::nat) ^ high_bit n < 2 ^ Suc k"
    using high_bit_bounds [of n] by linarith
  then have "high_bit n < Suc k" by (rule power_less_imp_less_exp [rotated]) simp
  then show "high_bit n \<le> k" by simp
qed

lemma significand_exact:
  assumes "0 < n" and "n \<le> 2 ^ 53"
  shows "significand n (high_bit n) * 2 ^ (high_bit n - 52) = n * 2 ^ (52 - high_bit n)"
    and "2 ^ 52 \<le> significand n (high_bit n)" and "significand n (high_bit n) < 2 ^ 53"
proof -
  note hb = high_bit_bounds [OF assms(1)]
  have le: "high_bit n \<le> 53" using high_bit_le [of n 53] assms by simp
  show "significand n (high_bit n) * 2 ^ (high_bit n - 52) = n * 2 ^ (52 - high_bit n)"
    and "2 ^ 52 \<le> significand n (high_bit n)" and "significand n (high_bit n) < 2 ^ 53"
  proof -
    have "high_bit n = 53 \<Longrightarrow> n = 2 ^ 53" using hb assms(2) by simp
    then consider (small) "high_bit n \<le> 52" | (top) "high_bit n = 53" "n = 2 ^ 53"
      using le by linarith
    then have "significand n (high_bit n) * 2 ^ (high_bit n - 52) = n * 2 ^ (52 - high_bit n)
      \<and> 2 ^ 52 \<le> significand n (high_bit n) \<and> significand n (high_bit n) < 2 ^ 53"
    proof cases
      case small
      have p: "(2::nat) ^ high_bit n * 2 ^ (52 - high_bit n) = 2 ^ 52"
        using small by (simp flip: power_add)
      have "2 ^ high_bit n * 2 ^ (52 - high_bit n) \<le> n * 2 ^ (52 - high_bit n)"
        and "n * 2 ^ (52 - high_bit n) < (2 * 2 ^ high_bit n) * 2 ^ (52 - high_bit n)"
        using hb by (simp_all only: mult_le_mono1 mult_less_mono1 zero_less_power zero_less_numeral)
      then have "2 ^ 52 \<le> n * 2 ^ (52 - high_bit n)" and "n * 2 ^ (52 - high_bit n) < 2 * 2 ^ 52"
        by (simp_all only: mult.assoc p)
      with small show ?thesis by (simp add: significand_def)
    next
      case top
      then show ?thesis by (simp add: significand_def)
    qed
    then show "significand n (high_bit n) * 2 ^ (high_bit n - 52) = n * 2 ^ (52 - high_bit n)"
      and "2 ^ 52 \<le> significand n (high_bit n)" and "significand n (high_bit n) < 2 ^ 53"
      by blast+
  qed
qed

lemma float64_bits_parts:
  assumes "0 < n" and "n \<le> 2 ^ 53"
  shows "float64_bits n div 2 ^ 52 = high_bit n + 1023"
    and "float64_bits n mod 2 ^ 52 = significand n (high_bit n) - 2 ^ 52"
    and "float64_bits n < 2 ^ 63"
proof -
  have eq: "float64_bits n = (high_bit n + 1023) * 2 ^ 52 + (significand n (high_bit n) - 2 ^ 52)"
    using assms significand_exact(2) [OF assms] by (simp add: float64_bits_def Let_def)
  have small: "significand n (high_bit n) - 2 ^ 52 < 2 ^ 52"
    using significand_exact(3) [OF assms] by simp
  have hb: "high_bit n \<le> 53" using high_bit_le [of n 53] assms by simp
  show "float64_bits n div 2 ^ 52 = high_bit n + 1023"
    and "float64_bits n mod 2 ^ 52 = significand n (high_bit n) - 2 ^ 52"
    using small by (simp_all only: eq div_mult_self3 mod_mult_self3 mod_less div_less power_not_zero, simp_all)
  show "float64_bits n < 2 ^ 63" using small hb eq by simp
qed

text \<open>Every integer up to \<open>2 ^ 53\<close> in absolute value survives the way to \<open>float64\<close> and back.\<close>

lemma int64_of_float64_of_nat:
  assumes "0 < n" and "n \<le> 2 ^ 53"
    and w: "unat w mod 2 ^ 63 = float64_bits n"
  shows "int64_of_float64 w = (if f64_negative w then - int n else int n)"
proof -
  let ?k = "high_bit n" and ?s = "significand n (high_bit n)"
  have k: "?k \<le> 53" using high_bit_le [of n 53] assms by simp
  have e: "f64_exponent w = ?k + 1023"
  proof -
    have "unat w mod (2 ^ 52 * 2 ^ 11) = 2 ^ 52 * (unat w div 2 ^ 52 mod 2 ^ 11) + unat w mod 2 ^ 52"
      by (rule mod_mult2_eq)
    then have "unat w div 2 ^ 52 mod 2 ^ 11 = unat w mod 2 ^ 63 div 2 ^ 52"
      by simp
    then show ?thesis
      by (simp only: f64_exponent_def w float64_bits_parts(1) [OF assms(1,2)])
  qed
  have f: "f64_fraction w = ?s - 2 ^ 52"
  proof -
    have "unat w mod 2 ^ 52 = unat w mod 2 ^ 63 mod 2 ^ 52"
      by (simp add: mod_mod_cancel)
    then show ?thesis
      by (simp only: f64_fraction_def w float64_bits_parts(2) [OF assms(1,2)])
  qed
  have m: "4503599627370496 + f64_fraction w = ?s"
    using significand_exact(2) [OF assms(1,2)] by (simp add: f)
  have a: "(if ?k \<le> 52 then ?s div 2 ^ (52 - ?k) else ?s * 2 ^ (?k - 52)) = n"
    using significand_exact(1) [OF assms(1,2)] by auto
  have range: "int64_range (int n)" "int64_range (- int n)"
    using assms(2) by (simp_all add: int64_range_def)
  show ?thesis
  proof (cases "?k \<le> 52")
    case True
    with a have "?s div 2 ^ (52 - ?k) = n" by simp
    with True k range show ?thesis
      by (simp add: int64_of_float64_def e m Let_def)
  next
    case False
    with k have k53: "?k = 53" by simp
    with a have "?s * 2 = n" by simp
    note this k53
    with range show ?thesis by (simp add: int64_of_float64_def e m Let_def)
  qed
qed

theorem float64_roundtrip:
  assumes "\<bar>i\<bar> \<le> 2 ^ 53"
  shows "int64_of_float64 (float64_of_int i) = i"
proof -
  have bits: "float64_bits (nat \<bar>i\<bar>) < 2 ^ 63"
    using float64_bits_parts(3) [of "nat \<bar>i\<bar>"] assms by (cases "i = 0") (auto simp: float64_bits_def)
  show ?thesis
  proof (cases "i < 0")
    case True
    have "unat (word_of_nat (2 ^ 63 + float64_bits (nat (- i))) :: float64)
        = 2 ^ 63 + float64_bits (nat (- i))"
      using True bits by (simp only: unat_of_nat) simp
    with True have w: "unat (float64_of_int i) = 2 ^ 63 + float64_bits (nat (- i))"
      by (simp only: float64_of_int_def if_True)
    with True bits have "unat (float64_of_int i) mod 2 ^ 63 = float64_bits (nat (- i))" by simp
    with True assms w show ?thesis
      using int64_of_float64_of_nat [of "nat (- i)" "float64_of_int i"] by (simp add: f64_negative_def)
  next
    case False
    then have w: "unat (float64_of_int i) = float64_bits (nat i)"
      using bits by (simp add: float64_of_int_def unat_of_nat)
    show ?thesis
    proof (cases "i = 0")
      case True
      then show ?thesis
        by (simp add: float64_of_int_def float64_bits_def int64_of_float64_def f64_exponent_def
            f64_negative_def int64_range_def)
    next
      case nz: False
      from w bits False have "unat (float64_of_int i) mod 2 ^ 63 = float64_bits (nat i)" by simp
      with False nz assms w bits show ?thesis
        using int64_of_float64_of_nat [of "nat i" "float64_of_int i"] by (simp add: f64_negative_def)
    qed
  qed
qed

end
