(* ===== verification/Variable_Pool.thy ===== *)
theory Variable_Pool
  imports Go_Value
begin

text \<open>
  The variable pool of a workflow run (package \<open>graph_engine/entities\<close>): the store that
  node outputs are written to and that selectors \<open>[node, name, attribute, ...]\<close> are read
  from. Modelled are the conversion of dynamic values to segments, the recognition of file
  structures, the pool operations and the lookup of nested attributes. The textual
  renderings of segments (\<open>Text\<close>, \<open>Log\<close>, \<open>Markdown\<close>) and \<open>ConvertTemplate\<close>
  are not part of this theory.
\<close>

section \<open>Segments and variables\<close>

datatype segment_type =
    TypeString | TypeSecret | TypeFloat | TypeInteger | TypeBoolean | TypeObject | TypeNone
  | TypeFile | TypeArrayAny | TypeArrayString | TypeArrayNumber | TypeArrayObject
  | TypeArrayFile | TypeArrayBoolean | TypeGroup

datatype segment =
    StringSegment string
  | SecretSegment string
  | NumberSegment float64
  | FloatSegment float64
  | IntegerSegment int
  | BooleanSegment bool
  | ObjectSegment dict
  | NoneSegment
  | FileSegment "go_file option"
  | ArrayAnySegment "goval list"
  | ArrayStringSegment "string list"
  | ArrayNumberSegment "float64 list"
  | ArrayObjectSegment "dict list"
  | ArrayFileSegment "go_file option list"
  | ArrayBooleanSegment "bool list"
  | SegmentGroup "segment list"

fun GetType :: "segment \<Rightarrow> segment_type" where
  "GetType (StringSegment _) = TypeString"
| "GetType (SecretSegment _) = TypeSecret"
| "GetType (NumberSegment _) = TypeFloat"
| "GetType (FloatSegment _) = TypeFloat"
| "GetType (IntegerSegment _) = TypeInteger"
| "GetType (BooleanSegment _) = TypeBoolean"
| "GetType (ObjectSegment _) = TypeObject"
| "GetType NoneSegment = TypeNone"
| "GetType (FileSegment _) = TypeFile"
| "GetType (ArrayAnySegment _) = TypeArrayAny"
| "GetType (ArrayStringSegment _) = TypeArrayString"
| "GetType (ArrayNumberSegment _) = TypeArrayNumber"
| "GetType (ArrayObjectSegment _) = TypeArrayObject"
| "GetType (ArrayFileSegment _) = TypeArrayFile"
| "GetType (ArrayBooleanSegment _) = TypeArrayBoolean"
| "GetType (SegmentGroup _) = TypeGroup"

text \<open>
  The two implementations of the \<open>Variable\<close> interface: \<open>variableWrapper\<close> of this
  package, and the \<open>conversationVariableWrapper\<close> that \<open>workflow_executor.go\<close> builds for
  conversation and environment variables. Both have the same fields.
\<close>

datatype wrapper_kind = VariableWrapper | ConversationVariableWrapper

record go_variable =
  v_kind :: wrapper_kind
  v_segment :: segment
  v_name :: string
  v_selector :: "string list"

record system_variable =
  s_TenantID :: string
  s_WorkspaceID :: string
  s_OrganizationID :: string
  s_BillingSubjectType :: string
  s_UserID :: string
  s_AppID :: string
  s_WorkflowID :: string
  s_WorkflowRunID :: string
  s_WorkflowType :: string
  s_Query :: string
  s_ConversationID :: string
  s_DialogueCount :: int

record variable_pool =
  VariableDictionary :: "(string, (string, go_variable) gomap) gomap"
  UserInputs :: dict
  SystemVariables :: "system_variable option"
  EnvironmentVariables :: "go_variable list"
  ConversationVariables :: "go_variable list"

definition SelectorsLength :: nat where "SelectorsLength = 2"
definition SystemVariableNodeId :: string where "SystemVariableNodeId = ''sys''"
definition EnvironmentVariableNodeId :: string where "EnvironmentVariableNodeId = ''environment''"
definition ConversationVariableNodeId :: string where "ConversationVariableNodeId = ''conversation''"

definition SystemVariable_ToDict :: "system_variable \<Rightarrow> dict" where
  "SystemVariable_ToDict sv =
     [(''tenant_id'', VString (s_TenantID sv)),
      (''workspace_id'', VString (s_WorkspaceID sv)),
      (''organization_id'', VString (s_OrganizationID sv)),
      (''billing_subject_type'', VString (s_BillingSubjectType sv)),
      (''user_id'', VString (s_UserID sv)),
      (''app_id'', VString (s_AppID sv)),
      (''agent_id'', VString (s_AppID sv)),
      (''workflow_id'', VString (s_WorkflowID sv)),
      (''workflow_run_id'', VString (s_WorkflowRunID sv)),
      (''workflow_type'', VString (s_WorkflowType sv)),
      (''query'', VString (s_Query sv)),
      (''conversation_id'', VString (s_ConversationID sv)),
      (''dialogue_count'', VInt Kint (s_DialogueCount sv))]"

definition SystemVariableEmpty :: system_variable where
  "SystemVariableEmpty =
     \<lparr>s_TenantID = [], s_WorkspaceID = [], s_OrganizationID = [], s_BillingSubjectType = [],
      s_UserID = [], s_AppID = [], s_WorkflowID = [], s_WorkflowRunID = [], s_WorkflowType = [],
      s_Query = [], s_ConversationID = [], s_DialogueCount = 0\<rparr>"

section \<open>File structures\<close>

definition isDocumentMimeType :: "string \<Rightarrow> bool" where
  "isDocumentMimeType m \<longleftrightarrow>
     m \<in> {''application/pdf'', ''application/msword'', ''application/vnd.ms-excel'',
          ''application/vnd.openxmlformats-officedocument.wordprocessingml.document'',
          ''application/vnd.openxmlformats-officedocument.spreadsheetml.sheet'',
          ''application/json'', ''application/xml'', ''text/plain'', ''text/markdown'',
          ''text/html'', ''text/csv'', ''text/xml''}
     \<or> has_prefix m ''text/''"

definition trim_prefix :: "string \<Rightarrow> string \<Rightarrow> string" where
  "trim_prefix s p = (if has_prefix s p then drop (length p) s else s)"

definition InferFileType :: "string \<Rightarrow> string \<Rightarrow> string" where
  "InferFileType extension mimeType =
     (let m = to_lower (trim_space mimeType);
          x = trim_prefix (to_lower (trim_space extension)) ''.''
      in if has_prefix m ''image/'' then ''image''
         else if has_prefix m ''audio/'' then ''audio''
         else if has_prefix m ''video/'' then ''video''
         else if isDocumentMimeType m then ''document''
         else if x \<in> {''jpg'', ''jpeg'', ''png'', ''gif'', ''webp'', ''svg'', ''bmp'', ''tiff'', ''tif''}
           then ''image''
         else if x \<in> {''mp3'', ''wav'', ''flac'', ''aac'', ''ogg'', ''wma'', ''m4a''} then ''audio''
         else if x \<in> {''mp4'', ''mov'', ''avi'', ''mkv'', ''flv'', ''wmv'', ''webm''} then ''video''
         else if x \<in> {''txt'', ''md'', ''mdx'', ''markdown'', ''pdf'', ''html'', ''htm'', ''xlsx'',
                       ''xls'', ''doc'', ''docx'', ''csv'', ''eml'', ''msg'', ''xml'', ''epub''}
           then ''document''
         else ''custom'')"

definition NormalizeFileType :: "string \<Rightarrow> string \<Rightarrow> string \<Rightarrow> string" where
  "NormalizeFileType rawType extension mimeType =
     (let t = to_lower (trim_space rawType)
      in if t \<in> {''image'', ''document'', ''audio'', ''video'', ''custom''} then t
         else if t = [] \<or> t = ''file''
           then (let i = InferFileType extension mimeType in if i \<noteq> ''custom'' then i else ''file'')
         else t)"

definition empty_file :: go_file where
  "empty_file = \<lparr>f_ID = [], f_WorkspaceID = [], f_Type = [], f_TransferMethod = [], f_RemoteURL = [],
     f_Filename = [], f_Extension = [], f_MimeType = [], f_Size = 0, f_StorageKey = []\<rparr>"

text \<open>The first of several keys that holds a non-empty string, the empty string if none does.\<close>

fun first_nonempty :: "dict \<Rightarrow> string list \<Rightarrow> string" where
  "first_nonempty m [] = []"
| "first_nonempty m (k # ks) = (case nonempty_at m k of Some s \<Rightarrow> s | None \<Rightarrow> first_nonempty m ks)"

text \<open>The first of several keys that holds a string, possibly an empty one.\<close>

fun first_string :: "dict \<Rightarrow> string list \<Rightarrow> string" where
  "first_string m [] = []"
| "first_string m (k # ks) = (case is_string m k of Some s \<Rightarrow> s | None \<Rightarrow> first_string m ks)"

definition file_size_at :: "dict \<Rightarrow> int" where
  "file_size_at m =
     (case map_of m ''size'' of
        Some (VInt Kint64 n) \<Rightarrow> n
      | Some (VInt Kint n) \<Rightarrow> n
      | Some (VFloat64 f) \<Rightarrow> int64_of_float64 f
      | _ \<Rightarrow> 0)"

definition mapToFile :: "dict \<Rightarrow> go_file" where
  "mapToFile data =
     (let extension = first_nonempty data [''extension'', ''ext''];
          mime = first_nonempty data [''mime_type'', ''content_type'']
      in \<lparr>f_ID = first_nonempty data [''upload_file_id'', ''id'', ''related_id''],
          f_WorkspaceID = first_string data [''workspace_id'', ''tenant_id''],
          f_Type = NormalizeFileType (str_at data ''type'') extension mime,
          f_TransferMethod =
            (case nonempty_at data ''transfer_method'' of Some t \<Rightarrow> t | None \<Rightarrow> ''local_file''),
          f_RemoteURL = first_string data [''remote_url'', ''url''],
          f_Filename = first_nonempty data [''filename'', ''name''],
          f_Extension = extension,
          f_MimeType = mime,
          f_Size = file_size_at data,
          f_StorageKey = str_at data ''storage_key''\<rparr>)"

definition deref_or_empty :: "string option \<Rightarrow> string" where
  "deref_or_empty p = (case p of Some s \<Rightarrow> s | None \<Rightarrow> [])"

definition workflowFileToFile :: "wfile option \<Rightarrow> go_file option" where
  "workflowFileToFile data =
     (case data of
        None \<Rightarrow> None
      | Some w \<Rightarrow> Some (empty_file
          \<lparr>f_WorkspaceID := w_TenantID w,
           f_Type := w_Type w,
           f_TransferMethod := w_TransferMethod w,
           f_Size := w_Size w,
           f_ID := deref_or_empty (w_ID w),
           f_Filename := deref_or_empty (w_Filename w),
           f_Extension := deref_or_empty (w_Extension w),
           f_MimeType := deref_or_empty (w_MimeType w),
           f_RemoteURL :=
             (if deref_or_empty (w_URL w) \<noteq> [] then deref_or_empty (w_URL w)
              else deref_or_empty (w_RemoteURL w))\<rparr>))"

definition workflowFilesToFiles :: "wfile option list \<Rightarrow> go_file option list" where
  "workflowFilesToFiles data = map workflowFileToFile data"

fun mapArrayToFiles :: "goval list \<Rightarrow> go_file option list" where
  "mapArrayToFiles [] = []"
| "mapArrayToFiles (VMap m # vs) = Some (mapToFile m) # mapArrayToFiles vs"
| "mapArrayToFiles (_ # vs) = mapArrayToFiles vs"

definition isFileStructure :: "dict \<Rightarrow> bool" where
  "isFileStructure data \<longleftrightarrow>
     str_at data ''type'' \<in> {''document'', ''image'', ''video'', ''audio'', ''file''}
     \<or> nonempty_at data ''upload_file_id'' \<noteq> None
     \<or> (nonempty_at data ''id'' \<noteq> None \<and> map_of data ''transfer_method'' \<noteq> None)
     \<or> nonempty_at data ''related_id'' \<noteq> None"

definition is_file_item :: "goval \<Rightarrow> bool" where
  "is_file_item v \<longleftrightarrow> (case v of VMap m \<Rightarrow> isFileStructure m | _ \<Rightarrow> False)"

definition isFileArray :: "goval list \<Rightarrow> bool" where
  "isFileArray data \<longleftrightarrow> data \<noteq> [] \<and> list_all is_file_item data"

section \<open>From values to segments\<close>

text \<open>
  The text of \<open>fmt.Sprintf("%v", v)\<close> for the values that reach the default case of
  \<open>buildSegment\<close>; the other values never get there.
\<close>

definition sprintf_v :: "goval \<Rightarrow> string" where
  "sprintf_v v =
     (case v of
        VBool b \<Rightarrow> show_bool b
      | VInt _ n \<Rightarrow> show_int n
      | VStrings xs \<Rightarrow> ''['' @ join_with '' '' xs @ '']''
      | VBools xs \<Rightarrow> ''['' @ join_with '' '' (map show_bool xs) @ '']''
      | VInts xs \<Rightarrow> ''['' @ join_with '' '' (map show_int xs) @ '']''
      | VTime _ t \<Rightarrow> t
      | VOther _ t \<Rightarrow> t
      | _ \<Rightarrow> [])"

definition buildSegment :: "goval \<Rightarrow> segment" where
  "buildSegment value =
     (case value of
        VString s \<Rightarrow> StringSegment s
      | VInt Kint n \<Rightarrow> NumberSegment (float64_of_int n)
      | VInt Kint64 n \<Rightarrow> NumberSegment (float64_of_int n)
      | VFloat64 f \<Rightarrow> NumberSegment f
      | VFloat32 f \<Rightarrow> NumberSegment (float64_of_float32 f)
      | VMap m \<Rightarrow> if isFileStructure m then FileSegment (Some (mapToFile m)) else ObjectSegment m
      | VWFile w \<Rightarrow> FileSegment (workflowFileToFile w)
      | VWFileList ws \<Rightarrow> ArrayFileSegment (workflowFilesToFiles ws)
      | VFile f \<Rightarrow> FileSegment f
      | VFileList fs \<Rightarrow> ArrayFileSegment fs
      | VMapList ms \<Rightarrow> ArrayObjectSegment ms
      | VList vs \<Rightarrow> if isFileArray vs then ArrayFileSegment (mapArrayToFiles vs) else ArrayAnySegment vs
      | VNil \<Rightarrow> NoneSegment
      | v \<Rightarrow> StringSegment (sprintf_v v))"

definition segmentToVariable :: "segment \<Rightarrow> string list \<Rightarrow> go_variable" where
  "segmentToVariable seg selector =
     \<lparr>v_kind = VariableWrapper, v_segment = seg, v_name = selector ! 1, v_selector = selector\<rparr>"

section \<open>The pool\<close>

definition dict_get :: "(string, (string, 'v) gomap) gomap \<Rightarrow> string \<Rightarrow> string \<Rightarrow> 'v option" where
  "dict_get vd n k = (case map_of vd n of None \<Rightarrow> None | Some d \<Rightarrow> map_of d k)"

text \<open>Write through both levels, creating the inner map when the node has none.\<close>

definition dict_put ::
  "string \<Rightarrow> string \<Rightarrow> 'v \<Rightarrow> (string, (string, 'v) gomap) gomap \<Rightarrow> (string, (string, 'v) gomap) gomap" where
  "dict_put n k v vd =
     AList.update n (AList.update k v (case map_of vd n of None \<Rightarrow> [] | Some d \<Rightarrow> d)) vd"

definition selectorToKeys :: "string list \<Rightarrow> string \<times> string" where
  "selectorToKeys selector = (selector ! 0, selector ! 1)"

definition getLocked :: "variable_pool \<Rightarrow> string list \<Rightarrow> go_variable option" where
  "getLocked vp selector =
     (let (nodeID, valName) = selectorToKeys selector
      in dict_get (VariableDictionary vp) nodeID valName)"

definition put_variable :: "string list \<Rightarrow> go_variable \<Rightarrow> variable_pool \<Rightarrow> variable_pool" where
  "put_variable selector v vp =
     (let (nodeID, variableKey) = selectorToKeys selector
      in vp\<lparr>VariableDictionary := dict_put nodeID variableKey v (VariableDictionary vp)\<rparr>)"

definition pool_Add :: "variable_pool \<Rightarrow> string list \<Rightarrow> goval \<Rightarrow> variable_pool" where
  "pool_Add vp selector value =
     (if length selector < SelectorsLength then vp
      else put_variable selector (segmentToVariable (buildSegment value) selector) vp)"

definition pool_AddSegment :: "variable_pool \<Rightarrow> string list \<Rightarrow> segment option \<Rightarrow> variable_pool" where
  "pool_AddSegment vp selector seg =
     (case seg of
        None \<Rightarrow> vp
      | Some s \<Rightarrow>
          if length selector < SelectorsLength then vp
          else put_variable selector
            \<lparr>v_kind = VariableWrapper, v_segment = s, v_name = snd (selectorToKeys selector),
             v_selector = selector\<rparr> vp)"

definition pool_Get :: "variable_pool \<Rightarrow> string list \<Rightarrow> go_variable option" where
  "pool_Get vp selector =
     (if length selector < SelectorsLength then None else getLocked vp selector)"

definition pool_Has :: "variable_pool \<Rightarrow> string list \<Rightarrow> bool" where
  "pool_Has vp selector \<longleftrightarrow> pool_Get vp selector \<noteq> None"


definition pool_Remove :: "variable_pool \<Rightarrow> string list \<Rightarrow> variable_pool" where
  "pool_Remove vp selector =
     (case selector of
        [] \<Rightarrow> vp
      | [n] \<Rightarrow> vp\<lparr>VariableDictionary := AList.update n [] (VariableDictionary vp)\<rparr>
      | _ \<Rightarrow>
          (let (nodeID, variableKey) = selectorToKeys selector
           in case map_of (VariableDictionary vp) nodeID of
                None \<Rightarrow> vp
              | Some d \<Rightarrow>
                  vp\<lparr>VariableDictionary :=
                    AList.update nodeID (AList.delete variableKey d) (VariableDictionary vp)\<rparr>))"

section \<open>Nested attributes\<close>

definition isValidFileAttribute :: "string \<Rightarrow> bool" where
  "isValidFileAttribute attr \<longleftrightarrow>
     attr \<in> {''url'', ''name'', ''size'', ''type'', ''extension'', ''mime_type'', ''transfer_method''}"

definition getFileAttribute :: "go_file \<Rightarrow> string \<Rightarrow> goval" where
  "getFileAttribute f attr =
     (if attr = ''url'' then VString (f_RemoteURL f)
      else if attr = ''name'' then VString (f_Filename f)
      else if attr = ''size'' then VInt Kint64 (f_Size f)
      else if attr = ''type'' then VString (f_Type f)
      else if attr = ''extension'' then VString (f_Extension f)
      else if attr = ''mime_type'' then VString (f_MimeType f)
      else if attr = ''transfer_method'' then VString (f_TransferMethod f)
      else VNil)"

text \<open>
  Only a \<open>variableWrapper\<close> is unwrapped; the value of another implementation of
  \<open>Variable\<close> is neither an object nor a file segment. A file segment without a file
  makes the attribute access dereference nil.
\<close>

definition getNestedAttributeSegment :: "go_variable \<Rightarrow> string \<Rightarrow> segment option go" where
  "getNestedAttributeSegment var attr =
     (case v_kind var of
        ConversationVariableWrapper \<Rightarrow> Ret None
      | VariableWrapper \<Rightarrow>
          (case v_segment var of
             ObjectSegment m \<Rightarrow> Ret (map_option buildSegment (map_of m attr))
           | FileSegment f \<Rightarrow>
               if isValidFileAttribute attr
               then (case f of None \<Rightarrow> Panic | Some x \<Rightarrow> Ret (Some (buildSegment (getFileAttribute x attr))))
               else Ret None
           | _ \<Rightarrow> Ret None))"

fun nested_path :: "string list \<Rightarrow> go_variable \<Rightarrow> string list \<Rightarrow> go_variable option go" where
  "nested_path selector var [] = Ret (Some var)"
| "nested_path selector var (attr # attrs) =
     (case getNestedAttributeSegment var attr of
        Panic \<Rightarrow> Panic
      | Ret None \<Rightarrow> Ret None
      | Ret (Some seg) \<Rightarrow> nested_path selector (segmentToVariable seg selector) attrs)"

definition pool_GetWithPath :: "variable_pool \<Rightarrow> string list \<Rightarrow> go_variable option go" where
  "pool_GetWithPath vp selector =
     (if length selector < SelectorsLength then Ret None
      else if length selector = SelectorsLength then Ret (getLocked vp selector)
      else case getLocked vp (take 2 selector) of
             None \<Rightarrow> Ret None
           | Some var \<Rightarrow> nested_path selector var (drop 2 selector))"

section \<open>Initialisation\<close>

fun add_system_variables :: "dict \<Rightarrow> variable_pool \<Rightarrow> variable_pool" where
  "add_system_variables [] vp = vp"
| "add_system_variables ((key, v) # rest) vp =
     add_system_variables rest
       (let selector = [SystemVariableNodeId, key]
        in if v = VNil then vp
           else if getLocked vp selector \<noteq> None then vp
           else put_variable selector (segmentToVariable (buildSegment v) selector) vp)"

definition addSystemVariablesLocked :: "system_variable option \<Rightarrow> variable_pool \<Rightarrow> variable_pool" where
  "addSystemVariablesLocked sv vp =
     (case sv of None \<Rightarrow> vp | Some s \<Rightarrow> add_system_variables (SystemVariable_ToDict s) vp)"

fun register_variables :: "string \<Rightarrow> go_variable list \<Rightarrow> variable_pool \<Rightarrow> variable_pool" where
  "register_variables nodeID [] vp = vp"
| "register_variables nodeID (v # vs) vp =
     register_variables nodeID vs (put_variable [nodeID, v_name v] v vp)"

definition modelPostInitLocked :: "variable_pool \<Rightarrow> variable_pool" where
  "modelPostInitLocked vp =
     register_variables ConversationVariableNodeId (ConversationVariables vp)
       (register_variables EnvironmentVariableNodeId (EnvironmentVariables vp)
         (addSystemVariablesLocked (SystemVariables vp) vp))"

definition pool_Initialize :: "variable_pool \<Rightarrow> variable_pool" where
  "pool_Initialize vp = modelPostInitLocked vp"

definition EmptyVariablePool :: variable_pool where
  "EmptyVariablePool =
     \<lparr>VariableDictionary = [], UserInputs = [], SystemVariables = Some SystemVariableEmpty,
      EnvironmentVariables = [], ConversationVariables = []\<rparr>"

definition NewVariablePool :: variable_pool where
  "NewVariablePool = modelPostInitLocked EmptyVariablePool"

section \<open>The store interface\<close>

text \<open>
  What the engine relies on when it publishes the outputs of a node: a store addressed by
  pairs of node and name, where a write is read back at its own address and nowhere else.
\<close>

locale selector_store =
  fixes put :: "'s \<Rightarrow> string list \<Rightarrow> 'v \<Rightarrow> 's"
    and get :: "'s \<Rightarrow> string list \<Rightarrow> 'r option"
    and stored :: "string list \<Rightarrow> 'v \<Rightarrow> 'r"
  assumes get_put_same: "get (put s [n, k] v) [n, k] = Some (stored [n, k] v)"
    and get_put_other: "(n, k) \<noteq> (n', k') \<Longrightarrow> get (put s [n, k] v) [n', k'] = get s [n', k']"
begin

text \<open>Publishing a whole map of outputs of node \<open>n\<close>, entry by entry.\<close>

definition put_all :: "string \<Rightarrow> (string \<times> 'v) list \<Rightarrow> 's \<Rightarrow> 's" where
  "put_all n kvs s = fold (\<lambda>(k, v) s. put s [n, k] v) kvs s"

lemma put_all_other_node: "n \<noteq> n' \<Longrightarrow> get (put_all n kvs s) [n', k'] = get s [n', k']"
  by (induction kvs arbitrary: s) (auto simp: put_all_def get_put_other)

lemma put_all_absent: "k' \<notin> fst ` set kvs \<Longrightarrow> get (put_all n kvs s) [n, k'] = get s [n, k']"
  by (induction kvs arbitrary: s) (auto simp: put_all_def get_put_other)

lemma put_all_present:
  "distinct (map fst kvs) \<Longrightarrow> (k, v) \<in> set kvs \<Longrightarrow>
   get (put_all n kvs s) [n, k] = Some (stored [n, k] v)"
proof (induction kvs arbitrary: s)
  case Nil
  then show ?case by simp
next
  case (Cons kv kvs)
  obtain k0 v0 where kv: "kv = (k0, v0)" by (cases kv)
  show ?case
  proof (cases "k0 = k")
    case True
    with Cons.prems kv have "v0 = v" and "k \<notin> fst ` set kvs"
      by (auto simp: rev_image_eqI)
    with True kv show ?thesis
      using put_all_absent [of k kvs n "put s [n, k] v"] by (simp add: put_all_def get_put_same)
  next
    case False
    with Cons.prems kv have "(k, v) \<in> set kvs" and "distinct (map fst kvs)" by auto
    then have "get (put_all n kvs (put s [n, k0] v0)) [n, k] = Some (stored [n, k] v)"
      by (intro Cons.IH) simp_all
    with kv show ?thesis by (simp add: put_all_def)
  qed
qed

end

lemma dict_get_put [simp]:
  "dict_get (dict_put n k v vd) n' k' = (if n = n' \<and> k = k' then Some v else dict_get vd n' k')"
  by (auto simp: dict_get_def dict_put_def update_conv' split: option.split)

lemma getLocked_put_variable:
  "length sel \<ge> 2 \<Longrightarrow> length sel' \<ge> 2 \<Longrightarrow>
   getLocked (put_variable sel v vp) sel' =
     (if sel ! 0 = sel' ! 0 \<and> sel ! 1 = sel' ! 1 then Some v else getLocked vp sel')"
  by (simp add: getLocked_def put_variable_def selectorToKeys_def)

lemma pool_Get_Add:
  "length sel \<ge> 2 \<Longrightarrow> length sel' \<ge> 2 \<Longrightarrow>
   pool_Get (pool_Add vp sel v) sel' =
     (if sel ! 0 = sel' ! 0 \<and> sel ! 1 = sel' ! 1
      then Some (segmentToVariable (buildSegment v) sel) else pool_Get vp sel')"
  by (simp add: pool_Get_def pool_Add_def SelectorsLength_def getLocked_put_variable)

interpretation pool: selector_store pool_Add pool_Get "\<lambda>sel v. segmentToVariable (buildSegment v) sel"
  by unfold_locales (auto simp: pool_Get_Add)

section \<open>Laws of the pool\<close>

lemma getLocked_modelPostInit_frame [simp]:
  "UserInputs (modelPostInitLocked vp) = UserInputs vp"
  "SystemVariables (modelPostInitLocked vp) = SystemVariables vp"
  "EnvironmentVariables (modelPostInitLocked vp) = EnvironmentVariables vp"
  "ConversationVariables (modelPostInitLocked vp) = ConversationVariables vp"
proof -
  have put: "UserInputs (put_variable sel v p) = UserInputs p"
    "SystemVariables (put_variable sel v p) = SystemVariables p"
    "EnvironmentVariables (put_variable sel v p) = EnvironmentVariables p"
    "ConversationVariables (put_variable sel v p) = ConversationVariables p" for sel v p
    by (simp_all add: put_variable_def selectorToKeys_def)
  have reg: "UserInputs (register_variables n vs p) = UserInputs p"
    "SystemVariables (register_variables n vs p) = SystemVariables p"
    "EnvironmentVariables (register_variables n vs p) = EnvironmentVariables p"
    "ConversationVariables (register_variables n vs p) = ConversationVariables p" for n vs p
    by (induction vs arbitrary: p) (simp_all add: put)
  have sys: "UserInputs (add_system_variables d p) = UserInputs p"
    "SystemVariables (add_system_variables d p) = SystemVariables p"
    "EnvironmentVariables (add_system_variables d p) = EnvironmentVariables p"
    "ConversationVariables (add_system_variables d p) = ConversationVariables p" for d p
    by (induction d p rule: add_system_variables.induct) (simp_all add: put Let_def)
  show "UserInputs (modelPostInitLocked vp) = UserInputs vp"
    "SystemVariables (modelPostInitLocked vp) = SystemVariables vp"
    "EnvironmentVariables (modelPostInitLocked vp) = EnvironmentVariables vp"
    "ConversationVariables (modelPostInitLocked vp) = ConversationVariables vp"
    by (simp_all add: modelPostInitLocked_def reg sys addSystemVariablesLocked_def split: option.split)
qed

text \<open>Registering a list of variables under one node: the last one of a name wins.\<close>

lemma getLocked_register:
  "getLocked (register_variables n vs vp) [n', k] =
     (if n' = n then (case find (\<lambda>v. v_name v = k) (rev vs) of Some v \<Rightarrow> Some v | None \<Rightarrow> getLocked vp [n', k])
      else getLocked vp [n', k])"
proof (induction vs arbitrary: vp)
  case Nil
  then show ?case by simp
next
  case (Cons v vs)
  have app: "find P (xs @ [y]) = (case find P xs of None \<Rightarrow> if P y then Some y else None | Some z \<Rightarrow> Some z)"
    for P :: "go_variable \<Rightarrow> bool" and xs y
    by (induction xs) auto
  show ?case by (auto simp: Cons.IH app getLocked_put_variable split: option.split)
qed

lemma getLocked_add_system:
  "distinct (map fst d) \<Longrightarrow>
   getLocked (add_system_variables d vp) [n, k] =
     (if n = SystemVariableNodeId \<and> getLocked vp [n, k] = None
      then (case map_of d k of
              Some v \<Rightarrow> if v = VNil then None else Some (segmentToVariable (buildSegment v) [n, k])
            | None \<Rightarrow> None)
      else getLocked vp [n, k])"
proof (induction d vp rule: add_system_variables.induct)
  case (1 vp)
  then show ?case by auto
next
  case (2 key v rest vp)
  let ?vp' = "let selector = [SystemVariableNodeId, key]
        in if v = VNil then vp
           else if getLocked vp selector \<noteq> None then vp
           else put_variable selector (segmentToVariable (buildSegment v) selector) vp"
  have key: "map_of rest key = None" using "2.prems" by (simp add: map_of_eq_None_iff)
  have "getLocked (add_system_variables rest ?vp') [n, k] =
     (if n = SystemVariableNodeId \<and> getLocked ?vp' [n, k] = None
      then (case map_of rest k of
              Some v \<Rightarrow> if v = VNil then None else Some (segmentToVariable (buildSegment v) [n, k])
            | None \<Rightarrow> None)
      else getLocked ?vp' [n, k])"
    by (rule "2.IH") (use "2.prems" in simp)
  note ih = this
  show ?case
  proof (cases "n = SystemVariableNodeId \<and> k = key")
    case True
    with key ih show ?thesis by (auto simp: Let_def getLocked_put_variable)
  next
    case False
    then have "getLocked ?vp' [n, k] = getLocked vp [n, k]"
      by (auto simp: Let_def getLocked_put_variable)
    then have "getLocked (add_system_variables rest ?vp') [n, k] =
       (if n = SystemVariableNodeId \<and> getLocked vp [n, k] = None
        then (case map_of rest k of
                Some v \<Rightarrow> if v = VNil then None else Some (segmentToVariable (buildSegment v) [n, k])
              | None \<Rightarrow> None)
        else getLocked vp [n, k])"
      using ih by (simp only:)
    then show ?thesis using False unfolding add_system_variables.simps
      by (cases "n = SystemVariableNodeId") auto
  qed
qed

section \<open>Properties of the pool\<close>

text \<open>The value a path of attributes selects from a dynamic value, without going through segments.\<close>

definition file_of_value :: "goval \<Rightarrow> go_file option option" where
  "file_of_value v =
     (case v of
        VMap m \<Rightarrow> if isFileStructure m then Some (Some (mapToFile m)) else None
      | VFile f \<Rightarrow> Some f
      | VWFile w \<Rightarrow> Some (workflowFileToFile w)
      | _ \<Rightarrow> None)"

fun value_path :: "goval \<Rightarrow> string list \<Rightarrow> goval option go" where
  "value_path v [] = Ret (Some v)"
| "value_path v (a # as) =
     (case file_of_value v of
        Some f \<Rightarrow>
          if isValidFileAttribute a
          then (case f of None \<Rightarrow> Panic | Some x \<Rightarrow> value_path (getFileAttribute x a) as)
          else Ret None
      | None \<Rightarrow>
          (case v of
             VMap m \<Rightarrow> (case map_of m a of None \<Rightarrow> Ret None | Some w \<Rightarrow> value_path w as)
           | _ \<Rightarrow> Ret None))"

lemma getNestedAttribute_buildSegment:
  "getNestedAttributeSegment (segmentToVariable (buildSegment v) sel) a =
     (case file_of_value v of
        Some f \<Rightarrow>
          if isValidFileAttribute a
          then (case f of None \<Rightarrow> Panic | Some x \<Rightarrow> Ret (Some (buildSegment (getFileAttribute x a))))
          else Ret None
      | None \<Rightarrow> (case v of VMap m \<Rightarrow> Ret (map_option buildSegment (map_of m a)) | _ \<Rightarrow> Ret None))"
  by (simp add: getNestedAttributeSegment_def segmentToVariable_def buildSegment_def file_of_value_def
      split: goval.split int_kind.split)

lemma nested_path_value:
  "nested_path sel (segmentToVariable (buildSegment v) sel') as =
     (case value_path v as of
        Panic \<Rightarrow> Panic
      | Ret None \<Rightarrow> Ret None
      | Ret (Some w) \<Rightarrow> Ret (Some (segmentToVariable (buildSegment w) (if as = [] then sel' else sel))))"
proof (induction v as arbitrary: sel' rule: value_path.induct)
  case (1 v)
  then show ?case by simp
next
  case (2 v a as)
  show ?case
  proof (cases "file_of_value v")
    case None
    show ?thesis
    proof (cases v)
      case (VMap m)
      show ?thesis
      proof (cases "map_of m a")
        case (Some w)
        note ih = 2(1) [OF None VMap Some, of sel]
        from None VMap Some show ?thesis
          by (simp add: getNestedAttribute_buildSegment ih split: go.split option.split)
      qed (use None VMap in \<open>simp add: getNestedAttribute_buildSegment\<close>)
    qed (use None in \<open>simp_all add: getNestedAttribute_buildSegment\<close>)
  next
    case (Some f)
    with 2(2) show ?thesis
      by (cases f) (auto simp: getNestedAttribute_buildSegment split: go.split option.split)
  qed
qed

text \<open>
  reading back through a path. After a value has been added under a selector, a lookup with
  further attributes gives what following the attributes in the value itself gives, converted to
  a segment: keys of nested objects, and the seven attributes of files, where maps that look
  like files count as files. Both panic alike, on an attribute of a missing file.
\<close>

theorem GetWithPath_Add:
  "as \<noteq> [] \<Longrightarrow>
   pool_GetWithPath (pool_Add vp [n, k] v) (n # k # as) =
     (case value_path v as of
        Panic \<Rightarrow> Panic
      | Ret None \<Rightarrow> Ret None
      | Ret (Some w) \<Rightarrow> Ret (Some (segmentToVariable (buildSegment w) (n # k # as))))"
  by (simp add: pool_GetWithPath_def SelectorsLength_def pool_Add_def getLocked_put_variable
      numeral_2_eq_2 nested_path_value split: go.split option.split)

theorem GetWithPath_Add_witness:
  "pool_GetWithPath (pool_Add EmptyVariablePool [''a'', ''out''] (VMap [(''x'', VMap [(''y'', VString ''z'')])]))
     [''a'', ''out'', ''x'', ''y''] =
   Ret (Some (segmentToVariable (StringSegment ''z'') [''a'', ''out'', ''x'', ''y'']))"
  using GetWithPath_Add [of "[''x'', ''y'']" EmptyVariablePool "''a''" "''out''" "VMap [(''x'', VMap [(''y'', VString ''z'')])]"]
  by (simp add: file_of_value_def isFileStructure_def str_at_def is_string_def nonempty_at_def buildSegment_def)

text \<open>
  what an initialised pool holds. Conversation and environment variables are found under
  their node and name, the last of several with one name; a system variable is found under the
  node \<open>sys\<close> unless the pool already had one there; every other entry is as before.
\<close>

theorem pool_Initialize_lookup:
  "getLocked (pool_Initialize vp) [n, k] =
     (let sys = (case SystemVariables vp of None \<Rightarrow> None | Some sv \<Rightarrow> map_of (SystemVariable_ToDict sv) k);
          old = getLocked vp [n, k]
      in if n = ConversationVariableNodeId
         then (case find (\<lambda>v. v_name v = k) (rev (ConversationVariables vp)) of Some v \<Rightarrow> Some v | None \<Rightarrow> old)
         else if n = EnvironmentVariableNodeId
         then (case find (\<lambda>v. v_name v = k) (rev (EnvironmentVariables vp)) of Some v \<Rightarrow> Some v | None \<Rightarrow> old)
         else if n = SystemVariableNodeId \<and> old = None
         then map_option (\<lambda>v. segmentToVariable (buildSegment v) [n, k]) sys
         else old)"
proof -
  have d: "distinct (map fst (SystemVariable_ToDict sv))" for sv by (simp add: SystemVariable_ToDict_def)
  have nn: "map_of (SystemVariable_ToDict sv) k \<noteq> Some VNil" for sv
    by (simp add: SystemVariable_ToDict_def)
  have ids: "ConversationVariableNodeId \<noteq> EnvironmentVariableNodeId" "ConversationVariableNodeId \<noteq> SystemVariableNodeId"
    "EnvironmentVariableNodeId \<noteq> SystemVariableNodeId"
    by (simp_all add: ConversationVariableNodeId_def EnvironmentVariableNodeId_def SystemVariableNodeId_def)
  have sys: "getLocked (addSystemVariablesLocked (SystemVariables vp) vp) [n', k] =
      (if n' = SystemVariableNodeId \<and> getLocked vp [n', k] = None
       then map_option (\<lambda>v. segmentToVariable (buildSegment v) [n', k])
         (case SystemVariables vp of None \<Rightarrow> None | Some sv \<Rightarrow> map_of (SystemVariable_ToDict sv) k)
       else getLocked vp [n', k])" for n'
    using nn by (auto simp: addSystemVariablesLocked_def getLocked_add_system [OF d] split: option.split)
  show ?thesis
    using ids
    by (auto simp: pool_Initialize_def modelPostInitLocked_def getLocked_register sys Let_def split: option.split)
qed



text \<open>
  Removing. With one component a selector removes all variables of a node, with two or more
  the one variable; other variables stay, and what is removed is not found until it is added
  again.
\<close>

theorem pool_Remove_lookup:
  "pool_Get (pool_Remove vp sel) [n, k] =
     (case sel of
        [] \<Rightarrow> pool_Get vp [n, k]
      | [m] \<Rightarrow> if n = m then None else pool_Get vp [n, k]
      | m # j # _ \<Rightarrow> if n = m \<and> k = j then None else pool_Get vp [n, k])"
  by (auto simp: pool_Get_def pool_Remove_def SelectorsLength_def getLocked_def selectorToKeys_def dict_get_def
      update_conv' delete_conv' split: list.split option.split)

end
