(* ===== verification/Engine_State.thy ===== *)
theory Engine_State
  imports Variable_Pool
begin

text \<open>
  The state of the workflow engine (package \<open>graph_engine\<close>): node states, run results,
  the run-time state, the graph, the engine itself, and the operations that build an engine
  or change its flags. The callbacks of the engine are code of its clients: the model keeps
  which of them are set and appends what is passed to them to the list \<open>emitted\<close>. The
  prices and token usage of \<open>LLMUsage\<close>, tracing spans and log output are left out.
\<close>

section \<open>Statuses and results\<close>

text \<open>
  \<open>WorkflowNodeExecutionStatus\<close> is a string type with eight named constants; \<open>OTHER s\<close>
  is any other string, in particular the zero value \<open>OTHER []\<close>.
\<close>

datatype exec_status =
  PENDING | RUNNING | SUCCEEDED | FAILED | EXCEPTION | RETRY | SKIPPED | PAUSED | OTHER string

fun status_string :: "exec_status \<Rightarrow> string" where
  "status_string PENDING = ''pending''"
| "status_string RUNNING = ''running''"
| "status_string SUCCEEDED = ''succeeded''"
| "status_string FAILED = ''failed''"
| "status_string EXCEPTION = ''exception''"
| "status_string RETRY = ''retry''"
| "status_string SKIPPED = ''skipped''"
| "status_string PAUSED = ''paused''"
| "status_string (OTHER s) = s"

datatype route_status =
  RouteRunning | RouteSuccess | RouteFailed | RoutePaused | RouteException

text \<open>An \<open>error\<close> value is seen through its message only.\<close>

type_synonym go_error = string

record run_result =
  r_Status :: exec_status
  r_Inputs :: "dict option"
  r_ProcessData :: "dict option"
  r_Outputs :: "dict option"
  r_Metadata :: "dict option"
  r_EdgeSourceHandle :: string
  r_Err :: "go_error option"
  r_ErrMsg :: string
  r_ErrType :: string

definition empty_result :: run_result where
  "empty_result = \<lparr>r_Status = OTHER [], r_Inputs = None, r_ProcessData = None, r_Outputs = None,
     r_Metadata = None, r_EdgeSourceHandle = [], r_Err = None, r_ErrMsg = [], r_ErrType = []\<rparr>"

definition errorFromNodeRunResult :: "run_result option \<Rightarrow> go_error option" where
  "errorFromNodeRunResult result =
     (case result of
        None \<Rightarrow> None
      | Some r \<Rightarrow>
          (case r_Err r of
             Some e \<Rightarrow> Some e
           | None \<Rightarrow>
               if r_ErrMsg r \<noteq> [] then Some (r_ErrMsg r)
               else Some (''node execution failed with status: '' @ status_string (r_Status r))))"

section \<open>Run-time state\<close>

record route_node_state =
  rn_ID :: string
  rn_NodeID :: string
  rn_NodeRunResult :: "run_result option"
  rn_Status :: route_status
  rn_StartAt :: time
  rn_FinishedAt :: "time option"
  rn_PausedAt :: "time option"
  rn_PausedBy :: "string option"
  rn_FailedReason :: "string option"
  rn_Index :: int

record route_state =
  Routes :: "(string, string list) gomap"
  NodeStateMapping :: "(string, route_node_state) gomap"

record runtime_state =
  VariablePool :: "variable_pool option"
  TotalTokens :: int
  Outputs :: "dict option"
  NodeRunSteps :: int
  NodeRunState :: "route_state option"

definition NewRuntimeRouteState :: route_state where
  "NewRuntimeRouteState = \<lparr>Routes = [], NodeStateMapping = []\<rparr>"

definition NewGraphRuntimeState :: "variable_pool option \<Rightarrow> runtime_state" where
  "NewGraphRuntimeState vp =
     \<lparr>VariablePool = vp, TotalTokens = 0, Outputs = Some [], NodeRunSteps = 0,
      NodeRunState = Some NewRuntimeRouteState\<rparr>"

definition NewGraphRuntimeStateWithDefaults :: runtime_state where
  "NewGraphRuntimeStateWithDefaults = NewGraphRuntimeState (Some NewVariablePool)"

text \<open>\<open>generateUUID\<close> renders the current time in nanoseconds.\<close>

definition generateUUID :: "time \<Rightarrow> string" where
  "generateUUID now = show_int now"

definition CreateNodeState :: "time \<Rightarrow> string \<Rightarrow> route_state \<Rightarrow> route_node_state \<times> route_state" where
  "CreateNodeState now nodeID rrs =
     (let st = \<lparr>rn_ID = generateUUID now, rn_NodeID = nodeID, rn_NodeRunResult = None,
                rn_Status = RouteRunning, rn_StartAt = now, rn_FinishedAt = None, rn_PausedAt = None,
                rn_PausedBy = None, rn_FailedReason = None,
                rn_Index = int (length (NodeStateMapping rrs)) + 1\<rparr>
      in (st, rrs\<lparr>NodeStateMapping := AList.update (rn_ID st) st (NodeStateMapping rrs)\<rparr>))"

definition routes_of :: "route_state \<Rightarrow> string \<Rightarrow> string list" where
  "routes_of rrs src = (case map_of (Routes rrs) src of None \<Rightarrow> [] | Some ts \<Rightarrow> ts)"

definition AddRoute :: "string \<Rightarrow> string \<Rightarrow> route_state \<Rightarrow> route_state" where
  "AddRoute src tgt rrs = rrs\<lparr>Routes := AList.update src (routes_of rrs src @ [tgt]) (Routes rrs)\<rparr>"

definition GetRoutesWithNodeStateBySourceNodeStateID ::
  "string \<Rightarrow> route_state \<Rightarrow> route_node_state list" where
  "GetRoutesWithNodeStateBySourceNodeStateID src rrs =
     List.map_filter (map_of (NodeStateMapping rrs)) (routes_of rrs src)"

datatype route_error = AlreadyFinished string | InvalidRouteStatus exec_status

definition SetFinished ::
  "time \<Rightarrow> run_result \<Rightarrow> route_node_state \<Rightarrow> route_error + route_node_state" where
  "SetFinished now res rns =
     (if rn_Status rns \<in> {RouteSuccess, RouteFailed, RouteException} then Inl (AlreadyFinished (rn_ID rns))
      else case r_Status res of
             SUCCEEDED \<Rightarrow> Inr (rns\<lparr>rn_Status := RouteSuccess, rn_NodeRunResult := Some res,
                                   rn_FinishedAt := Some now\<rparr>)
           | FAILED \<Rightarrow> Inr (rns\<lparr>rn_Status := RouteFailed, rn_FailedReason := Some (r_ErrMsg res),
                                rn_NodeRunResult := Some res, rn_FinishedAt := Some now\<rparr>)
           | EXCEPTION \<Rightarrow> Inr (rns\<lparr>rn_Status := RouteException, rn_FailedReason := Some (r_ErrMsg res),
                                   rn_NodeRunResult := Some res, rn_FinishedAt := Some now\<rparr>)
           | PAUSED \<Rightarrow> Inr (rns\<lparr>rn_Status := RoutePaused, rn_PausedAt := Some now,
                                rn_NodeRunResult := Some res\<rparr>)
           | st \<Rightarrow> Inl (InvalidRouteStatus st))"

text \<open>A nil receiver does nothing; the token count is a 64-bit sum.\<close>

definition AddTotalTokens :: "int \<Rightarrow> runtime_state option \<Rightarrow> runtime_state option" where
  "AddTotalTokens tokens s =
     (if tokens \<le> 0 then s
      else map_option (\<lambda>st. st\<lparr>TotalTokens := int64 (TotalTokens st + tokens)\<rparr>) s)"

definition TotalTokenCount :: "runtime_state option \<Rightarrow> int" where
  "TotalTokenCount s = (case s of None \<Rightarrow> 0 | Some st \<Rightarrow> TotalTokens st)"

definition UpdateOutputs ::
  "(dict option \<Rightarrow> dict option) \<Rightarrow> runtime_state option \<Rightarrow> runtime_state option" where
  "UpdateOutputs update s = map_option (\<lambda>st. st\<lparr>Outputs := update (Outputs st)\<rparr>) s"

definition OutputsSnapshot :: "runtime_state option \<Rightarrow> dict option" where
  "OutputsSnapshot s = (case s of None \<Rightarrow> None | Some st \<Rightarrow> Outputs st)"

definition UpsertRouteNodeState ::
  "string \<Rightarrow> route_node_state option \<Rightarrow> runtime_state option \<Rightarrow> runtime_state option" where
  "UpsertRouteNodeState nodeID rns s =
     (case (s, rns) of
        (Some st, Some r) \<Rightarrow>
          (case NodeRunState st of
             None \<Rightarrow> Some st
           | Some nrs \<Rightarrow>
               if nodeID = [] then Some st
               else Some (st\<lparr>NodeRunState :=
                      Some (nrs\<lparr>NodeStateMapping := AList.update nodeID r (NodeStateMapping nrs)\<rparr>)\<rparr>))
      | _ \<Rightarrow> s)"

section \<open>Outputs of the run\<close>

definition merge_output :: "string \<times> goval \<Rightarrow> dict \<Rightarrow> dict" where
  "merge_output = (\<lambda>(key, v) base.
     if has_prefix key ''sys.'' then base
     else if key = ''answer'' then
       (case (map_of base key, v) of
          (Some (VString current), VString nxt) \<Rightarrow> AList.update key (VString (current @ nxt)) base
        | _ \<Rightarrow> AList.update key v base)
     else AList.update key v base)"

definition mergeRuntimeOutputs :: "dict option \<Rightarrow> dict \<Rightarrow> dict" where
  "mergeRuntimeOutputs base incoming =
     fold merge_output incoming (case base of None \<Rightarrow> [] | Some b \<Rightarrow> b)"

definition updateRuntimeOutputsForNode ::
  "string \<Rightarrow> dict option \<Rightarrow> runtime_state option \<Rightarrow> runtime_state option" where
  "updateRuntimeOutputsForNode nodeType outputs rs =
     (case outputs of
        None \<Rightarrow> rs
      | Some outs \<Rightarrow>
          if nodeType \<noteq> ''answer'' \<and> nodeType \<noteq> ''end'' then rs
          else UpdateOutputs (\<lambda>current. Some (mergeRuntimeOutputs current outs)) rs)"

text \<open>\<open>fmt_v\<close> is the rendering of a value by the verb \%v.\<close>

definition buildInternalExecutionID :: "(goval \<Rightarrow> string) \<Rightarrow> string \<Rightarrow> dict option \<Rightarrow> string" where
  "buildInternalExecutionID fmt_v nodeID metadata =
     (case metadata of
        None \<Rightarrow> ''exec-'' @ nodeID
      | Some m \<Rightarrow>
          (case map_of m ''loop_id'' of
             Some loopID \<Rightarrow>
               (case map_of m ''loop_index'' of
                  Some index \<Rightarrow> ''exec-'' @ nodeID @ ''-'' @ fmt_v loopID @ ''-'' @ fmt_v index
                | None \<Rightarrow> ''exec-'' @ nodeID @ ''-'' @ fmt_v loopID)
           | None \<Rightarrow>
               (case map_of m ''iteration_id'' of
                  Some iterationID \<Rightarrow>
                    (case map_of m ''iteration_index'' of
                       Some index \<Rightarrow> ''exec-'' @ nodeID @ ''-'' @ fmt_v iterationID @ ''-'' @ fmt_v index
                     | None \<Rightarrow> ''exec-'' @ nodeID @ ''-'' @ fmt_v iterationID)
                | None \<Rightarrow> ''exec-'' @ nodeID)))"

section \<open>The graph\<close>

record graph =
  g_ID :: string
  g_Type :: string
  g_Config :: "dict option"
  g_Nodes :: dict
  g_Edges :: "goval list"
  g_Variables :: dict
  g_Metadata :: dict

definition GetRootNodeID :: "graph \<Rightarrow> string" where
  "GetRootNodeID g = (case g_Config g of None \<Rightarrow> [] | Some c \<Rightarrow> str_at c ''root_node_id'')"

definition GetNodeIDs :: "graph \<Rightarrow> string list" where
  "GetNodeIDs g = map fst (g_Nodes g)"

definition GetNodeConfig :: "string \<Rightarrow> graph \<Rightarrow> dict option" where
  "GetNodeConfig nodeID g = is_map (g_Nodes g) nodeID"

definition edge_source :: "goval \<Rightarrow> string option" where
  "edge_source edge = (case edge of VMap m \<Rightarrow> is_string m ''source'' | _ \<Rightarrow> None)"

definition GetEdges :: "graph \<Rightarrow> (string, goval list) gomap" where
  "GetEdges g =
     fold (\<lambda>edge m. case edge_source edge of
             None \<Rightarrow> m
           | Some s \<Rightarrow> AList.update s ((case map_of m s of None \<Rightarrow> [] | Some es \<Rightarrow> es) @ [edge]) m)
       (g_Edges g) []"

definition node_id_of :: "goval \<Rightarrow> string" where
  "node_id_of raw = (case raw of VMap m \<Rightarrow> str_at m ''id'' | _ \<Rightarrow> [])"

fun node_order :: "int \<Rightarrow> goval list \<Rightarrow> (string, int) gomap \<Rightarrow> (string, int) gomap" where
  "node_order i [] order = order"
| "node_order i (raw # nodes) order =
     node_order (i + 1) nodes
       (if node_id_of raw \<noteq> [] then AList.update (node_id_of raw) i order else order)"

definition graphNodeOrder :: "graph option \<Rightarrow> (string, int) gomap" where
  "graphNodeOrder g =
     (case g of
        None \<Rightarrow> []
      | Some gr \<Rightarrow>
          (case g_Config gr of
             None \<Rightarrow> []
           | Some c \<Rightarrow> (case map_of c ''nodes'' of Some (VList nodes) \<Rightarrow> node_order 0 nodes [] | _ \<Rightarrow> [])))"

end
