(* ===== verification/Workflow_Engine.thy ===== *)
theory Workflow_Engine
  imports Engine_State
begin

text \<open>
  The workflow engine: its record, its construction (\<open>workflow_engine.go\<close>,
  \<open>engine_factory.go\<close>), its flags and leases, the reset, and the check for circular
  dependencies that runs before every execution (\<open>engine_scheduler.go\<close>).
\<close>

section \<open>Events passed to the callbacks\<close>

record ready_scope =
  sc_Kind :: string
  sc_ParentNodeID :: string
  sc_Index :: int

record stream_chunk =
  ch_Content :: string
  ch_FromVariableSelector :: "string list"
  ch_Scope :: "ready_scope option"

record node_event =
  ne_ExecutionID :: string
  ne_Type :: string
  ne_NodeID :: string
  ne_NodeType :: string
  ne_Inputs :: "dict option"
  ne_Outputs :: "dict option"
  ne_Status :: string
  ne_Error :: string
  ne_Metadata :: "dict option"
  ne_Timestamp :: time
  ne_StartedAt :: time
  ne_FinishedAt :: time

record iteration_event =
  ie_Type :: string
  ie_NodeID :: string
  ie_Index :: int
  ie_Inputs :: "dict option"
  ie_Outputs :: "dict option"
  ie_Metadata :: "dict option"
  ie_Steps :: int
  ie_Error :: string
  ie_Timestamp :: time
  ie_StartedAt :: time

record loop_event =
  le_Type :: string
  le_NodeID :: string
  le_Index :: int
  le_Inputs :: "dict option"
  le_Outputs :: "dict option"
  le_PreLoopOutput :: "dict option"
  le_Metadata :: "dict option"
  le_Steps :: int
  le_Error :: string
  le_Timestamp :: time
  le_StartedAt :: time

record finished_event =
  fe_NodeID :: string
  fe_NodeType :: string
  fe_Status :: string
  fe_Outputs :: "dict option"
  fe_Err :: "go_error option"
  fe_EdgeSourceHandle :: string
  fe_StartedAt :: time
  fe_FinishedAt :: time
  fe_ElapsedTime :: duration

datatype engine_event =
    StreamEv string "stream_chunk option"
  | IterationEv iteration_event
  | LoopEv loop_event
  | InternalNodeEv node_event
  | NodeStartedEv string string "dict option"
  | NodeFinishedEv string string string "dict option" string "go_error option"
  | NodeFinishedDetailedEv finished_event
  | NodeSkippedEv string string
  | ReadyBatchEv ready_scope "string list"

text \<open>Which callbacks are set.\<close>

record callbacks =
  cb_Stream :: bool
  cb_Iteration :: bool
  cb_Loop :: bool
  cb_InternalNode :: bool
  cb_NodeStarted :: bool
  cb_NodeFinished :: bool
  cb_NodeFinishedDetailed :: bool
  cb_NodeSkipped :: bool
  cb_ReadyBatch :: bool

definition no_callbacks :: callbacks where
  "no_callbacks = \<lparr>cb_Stream = False, cb_Iteration = False, cb_Loop = False, cb_InternalNode = False,
     cb_NodeStarted = False, cb_NodeFinished = False, cb_NodeFinishedDetailed = False,
     cb_NodeSkipped = False, cb_ReadyBatch = False\<rparr>"

section \<open>Node states and the engine\<close>

text \<open>
  The maps \<open>Upstreams\<close> and \<open>Downstreams\<close> only ever hold the value true and are
  the lists of their keys; so is the set of handles kept per upstream.
\<close>

record node_state =
  ns_ID :: string
  ns_NodeType :: string
  ns_Status :: exec_status
  ns_Error :: "go_error option"
  ns_Inputs :: "dict option"
  ns_ProcessData :: "dict option"
  ns_Outputs :: "dict option"
  ns_Metadata :: "dict option"
  ns_Config :: "dict option"
  ns_Upstreams :: "string list"
  ns_Downstreams :: "string list"
  ns_UpstreamEdges :: "(string, string list) gomap"
  ns_StartTime :: time
  ns_EndTime :: time
  ns_RetryCount :: int
  ns_MaxRetries :: int
  ns_EdgeSourceHandle :: string

type_synonym step_map = "(string, node_state) gomap"

text \<open>
  \<open>leaseBucket\<close> is a buffered channel of capacity \<open>maxConcurrency\<close>: the model keeps the
  number of tokens in it, None for a nil channel.
\<close>

record engine =
  maxConcurrency :: int
  steps :: step_map
  isRunning :: bool
  isStopped :: bool
  isPaused :: bool
  pausedNodeIDs :: "string list"
  pausedNodeSet :: "string list"
  leaseBucket :: "nat option"
  runtimeState :: "runtime_state option"
  graph_of :: "graph option"
  callbacks_of :: callbacks
  readyScope :: ready_scope
  nodeOrder :: "(string, int) gomap"
  emitted :: "engine_event list"

definition emit :: "(callbacks \<Rightarrow> bool) \<Rightarrow> engine_event \<Rightarrow> engine \<Rightarrow> engine" where
  "emit cb ev e = (if cb (callbacks_of e) then e\<lparr>emitted := emitted e @ [ev]\<rparr> else e)"

definition upd_node :: "string \<Rightarrow> (node_state \<Rightarrow> node_state) \<Rightarrow> engine \<Rightarrow> engine" where
  "upd_node n f e = e\<lparr>steps := upd_at n f (steps e)\<rparr>"

definition DefaultMaxConcurrency :: int where "DefaultMaxConcurrency = 10"
definition MaxConcurrencyLimit :: int where "MaxConcurrencyLimit = 15"

definition NormalizeMaxConcurrency :: "int \<Rightarrow> int" where
  "NormalizeMaxConcurrency m =
     (if m \<le> 0 then DefaultMaxConcurrency else if m > MaxConcurrencyLimit then MaxConcurrencyLimit else m)"

definition NewWorkflowEngine :: "int \<Rightarrow> engine" where
  "NewWorkflowEngine m =
     (let mc = NormalizeMaxConcurrency m
      in \<lparr>maxConcurrency = mc, steps = [], isRunning = False, isStopped = False, isPaused = False,
          pausedNodeIDs = [], pausedNodeSet = [],
          leaseBucket = (if mc > 0 then Some 0 else None),
          runtimeState = None, graph_of = None, callbacks_of = no_callbacks,
          readyScope = \<lparr>sc_Kind = [], sc_ParentNodeID = [], sc_Index = 0\<rparr>, nodeOrder = [], emitted = []\<rparr>)"

definition AddNode :: "string \<Rightarrow> string \<Rightarrow> dict option \<Rightarrow> engine \<Rightarrow> engine" where
  "AddNode nodeID nodeType config e =
     e\<lparr>steps := AList.update nodeID
        \<lparr>ns_ID = nodeID, ns_NodeType = nodeType, ns_Status = PENDING, ns_Error = None,
         ns_Inputs = None, ns_ProcessData = None, ns_Outputs = None, ns_Metadata = None,
         ns_Config = config, ns_Upstreams = [], ns_Downstreams = [], ns_UpstreamEdges = [],
         ns_StartTime = 0, ns_EndTime = 0, ns_RetryCount = 0, ns_MaxRetries = 3,
         ns_EdgeSourceHandle = []\<rparr> (steps e)\<rparr>"

datatype engine_error =
    SourceNodeNotFound string
  | TargetNodeNotFound string
  | AlreadyRunning
  | CircularDependency
  | StoppedByUser
  | FailedAtNode "string list" go_error
  | FailedNodes "string list"

definition edge_handles :: "node_state \<Rightarrow> string \<Rightarrow> string list" where
  "edge_handles st u = (case map_of (ns_UpstreamEdges st) u of None \<Rightarrow> [] | Some hs \<Rightarrow> hs)"

definition AddDependencyWithHandle ::
  "string \<Rightarrow> string \<Rightarrow> string \<Rightarrow> engine \<Rightarrow> engine_error + engine" where
  "AddDependencyWithHandle src tgt sourceHandle e =
     (if map_of (steps e) src = None then Inl (SourceNodeNotFound src)
      else if map_of (steps e) tgt = None then Inl (TargetNodeNotFound tgt)
      else let h = (if sourceHandle = [] then ''source'' else sourceHandle);
               e1 = upd_node src (\<lambda>st. st\<lparr>ns_Downstreams := List.insert tgt (ns_Downstreams st)\<rparr>) e
           in Inr (upd_node tgt
                (\<lambda>st. st\<lparr>ns_Upstreams := List.insert src (ns_Upstreams st),
                         ns_UpstreamEdges := AList.update src (List.insert h (edge_handles st src))
                                               (ns_UpstreamEdges st)\<rparr>) e1))"

definition AddDependency :: "string \<Rightarrow> string \<Rightarrow> engine \<Rightarrow> engine_error + engine" where
  "AddDependency src tgt e = AddDependencyWithHandle src tgt ''source'' e"

definition SetRuntimeState :: "runtime_state option \<Rightarrow> graph option \<Rightarrow> engine \<Rightarrow> engine" where
  "SetRuntimeState rs g e = e\<lparr>runtimeState := rs, graph_of := g, nodeOrder := graphNodeOrder g\<rparr>"

definition SetReadyBatchCallback :: "ready_scope \<Rightarrow> bool \<Rightarrow> engine \<Rightarrow> engine" where
  "SetReadyBatchCallback scope cb e =
     e\<lparr>readyScope := (if sc_Kind scope = [] then scope\<lparr>sc_Kind := ''top''\<rparr> else scope),
       callbacks_of := (callbacks_of e)\<lparr>cb_ReadyBatch := cb\<rparr>\<rparr>"

text \<open>
  A factory keeps a normalised concurrency; a nil factory stands for the default. The node
  runner it hands on is a parameter of \<open>executeNode\<close>.
\<close>

definition NewEngineFactory :: "int \<Rightarrow> int" where
  "NewEngineFactory m = NormalizeMaxConcurrency m"

record run_config =
  c_RuntimeState :: "runtime_state option"
  c_Graph :: "graph option"
  c_Callbacks :: callbacks
  c_MaxConcurrency :: int
  c_ReadyScope :: ready_scope

definition factory_New :: "int option \<Rightarrow> run_config \<Rightarrow> engine" where
  "factory_New f config =
     (let mc = (case f of None \<Rightarrow> DefaultMaxConcurrency | Some m \<Rightarrow> m);
          mc = (if c_MaxConcurrency config > 0 then c_MaxConcurrency config else mc);
          mc = NormalizeMaxConcurrency mc;
          e = SetRuntimeState (c_RuntimeState config) (c_Graph config) (NewWorkflowEngine mc)
      in SetReadyBatchCallback (c_ReadyScope config) (cb_ReadyBatch (c_Callbacks config))
           (e\<lparr>callbacks_of := c_Callbacks config\<rparr>))"

section \<open>Locking, flags and leases\<close>

definition tryLock :: "engine \<Rightarrow> bool \<times> engine" where
  "tryLock e = (if isRunning e then (False, e) else (True, e\<lparr>isRunning := True\<rparr>))"

definition unlock :: "engine \<Rightarrow> engine" where
  "unlock e = e\<lparr>isRunning := False\<rparr>"

definition reset_node :: "node_state \<Rightarrow> node_state" where
  "reset_node st = st\<lparr>ns_Status := PENDING, ns_Error := None, ns_StartTime := 0, ns_EndTime := 0,
     ns_RetryCount := 0\<rparr>"

definition engine_reset :: "engine \<Rightarrow> engine" where
  "engine_reset e = e\<lparr>steps := map (\<lambda>(k, st). (k, reset_node st)) (steps e)\<rparr>"

definition ClearNodes :: "engine \<Rightarrow> engine" where
  "ClearNodes e = e\<lparr>steps := []\<rparr>"

definition Stop :: "engine \<Rightarrow> engine" where
  "Stop e = (if isRunning e then e\<lparr>isStopped := True\<rparr> else e)"

definition markPaused :: "string \<Rightarrow> engine \<Rightarrow> engine" where
  "markPaused nodeID e =
     (let e1 = e\<lparr>isPaused := True\<rparr>
      in if nodeID \<notin> set (pausedNodeSet e1)
         then e1\<lparr>pausedNodeSet := nodeID # pausedNodeSet e1, pausedNodeIDs := pausedNodeIDs e1 @ [nodeID]\<rparr>
         else e1)"

definition PausedNodeIDs :: "engine \<Rightarrow> string list" where
  "PausedNodeIDs e = sort (pausedNodeIDs e)"

definition PausedNodeID :: "engine \<Rightarrow> string" where
  "PausedNodeID e = (case PausedNodeIDs e of [] \<Rightarrow> [] | n # _ \<Rightarrow> n)"

text \<open>A receive on an empty channel blocks: releasing a lease that nobody holds never returns.\<close>

definition lease :: "engine \<Rightarrow> bool \<times> engine" where
  "lease e =
     (case leaseBucket e of
        None \<Rightarrow> (True, e)
      | Some n \<Rightarrow>
          if n < nat (maxConcurrency e) then (True, e\<lparr>leaseBucket := Some (n + 1)\<rparr>) else (False, e))"

definition unlease :: "engine \<Rightarrow> engine option" where
  "unlease e =
     (case leaseBucket e of
        None \<Rightarrow> Some e
      | Some n \<Rightarrow> if n = 0 then None else Some (e\<lparr>leaseBucket := Some (n - 1)\<rparr>))"

definition isStatusTerminated :: "exec_status \<Rightarrow> bool" where
  "isStatusTerminated s \<longleftrightarrow>
     s = SUCCEEDED \<or> s = FAILED \<or> s = EXCEPTION \<or> s = SKIPPED \<or> s = PAUSED"

definition isTerminated :: "engine \<Rightarrow> bool" where
  "isTerminated e \<longleftrightarrow> list_all (\<lambda>(_, st). isStatusTerminated (ns_Status st)) (steps e)"

section \<open>Circular dependencies\<close>

text \<open>
  The depth-first search over the upstreams. The maps \<open>visited\<close> and \<open>recStack\<close> are
  shared by all calls and are passed on as the lists of the nodes that are true in them. The
  first argument bounds the depth of the recursion; None is the answer when it is used up,
  and the search started by \<open>preflight\<close> never uses it up. A node that is not in
  \<open>steps\<close> is a nil dereference.
\<close>

type_synonym dfs_result = "(bool \<times> string list \<times> string list) go option"

function (sequential) hasCycle ::
    "nat \<Rightarrow> step_map \<Rightarrow> string \<Rightarrow> string list \<Rightarrow> string list \<Rightarrow> dfs_result"
  and hasCycle_upstreams ::
    "nat \<Rightarrow> step_map \<Rightarrow> string \<Rightarrow> string list \<Rightarrow> string list \<Rightarrow> string list \<Rightarrow> dfs_result" where
  "hasCycle 0 sts n visited recStack = None"
| "hasCycle (Suc f) sts n visited recStack =
     (case map_of sts n of
        None \<Rightarrow> Some Panic
      | Some st \<Rightarrow>
          hasCycle_upstreams f sts n (ns_Upstreams st) (List.insert n visited) (List.insert n recStack))"
| "hasCycle_upstreams f sts n [] visited recStack = Some (Ret (False, visited, removeAll n recStack))"
| "hasCycle_upstreams f sts n (u # us) visited recStack =
     (if u \<notin> set visited
      then (case hasCycle f sts u visited recStack of
              Some (Ret (False, visited', recStack')) \<Rightarrow> hasCycle_upstreams f sts n us visited' recStack'
            | r \<Rightarrow> r)
      else if u \<in> set recStack then Some (Ret (True, visited, recStack))
      else hasCycle_upstreams f sts n us visited recStack)"
  by pat_completeness auto
termination
  by (relation "inv_image (less_than <*lex*> less_than)
        (case_sum (\<lambda>(f, sts, n, v, r). (f, 0)) (\<lambda>(f, sts, n, us, v, r). (f, Suc (length us))))")
    auto

text \<open>The loop over all nodes, in the order \<open>ns\<close> in which the map is iterated.\<close>

fun preflight_loop ::
  "nat \<Rightarrow> step_map \<Rightarrow> string list \<Rightarrow> string list \<Rightarrow> string list \<Rightarrow> engine_error option go option" where
  "preflight_loop f sts [] visited recStack = Some (Ret None)"
| "preflight_loop f sts (n # ns) visited recStack =
     (if n \<notin> set visited
      then (case hasCycle f sts n visited recStack of
              None \<Rightarrow> None
            | Some Panic \<Rightarrow> Some Panic
            | Some (Ret (True, _)) \<Rightarrow> Some (Ret (Some CircularDependency))
            | Some (Ret (False, visited', recStack')) \<Rightarrow> preflight_loop f sts ns visited' recStack')
      else preflight_loop f sts ns visited recStack)"

definition preflight :: "string list \<Rightarrow> engine \<Rightarrow> engine_error option go option" where
  "preflight ord e = preflight_loop (length (steps e)) (steps e) ord [] []"

end
