(* ===== verification/Engine_Preflight.thy ===== *)
theory Engine_Preflight
  imports Workflow_Engine
begin

text \<open>
  What the construction of an engine guarantees, and the correctness of the check for
  circular dependencies: on a graph built by \<open>AddNode\<close> and \<open>AddDependencyWithHandle\<close> the
  depth-first search neither dereferences nil nor exhausts its depth, and it reports an error
  exactly when the dependency relation has a cycle.
\<close>

section \<open>Well-formed graphs\<close>

definition node_ids :: "step_map \<Rightarrow> string set" where
  "node_ids sts = set (map fst sts)"

text \<open>\<open>(n, u)\<close> is a dependency when \<open>u\<close> is an upstream of \<open>n\<close>.\<close>

definition depends :: "step_map \<Rightarrow> (string \<times> string) set" where
  "depends sts = {(n, u). \<exists>st. map_of sts n = Some st \<and> u \<in> set (ns_Upstreams st)}"

definition node_wf :: "string set \<Rightarrow> node_state \<Rightarrow> bool" where
  "node_wf ids st \<longleftrightarrow> set (ns_Upstreams st) \<subseteq> ids \<and> distinct (ns_Upstreams st)
     \<and> set (map fst (ns_UpstreamEdges st)) = set (ns_Upstreams st)
     \<and> (\<forall>u \<in> set (ns_Upstreams st). edge_handles st u \<noteq> [])"

definition steps_wf :: "step_map \<Rightarrow> bool" where
  "steps_wf sts \<longleftrightarrow> distinct (map fst sts) \<and> list_all (\<lambda>(n, st). node_wf (node_ids sts) st) sts"

lemma node_ids_iff: "n \<in> node_ids sts \<longleftrightarrow> (\<exists>st. map_of sts n = Some st)"
proof -
  have "n \<in> node_ids sts \<longleftrightarrow> n \<in> dom (map_of sts)"
    by (simp add: node_ids_def dom_map_of_conv_image_fst)
  then show ?thesis by (simp add: dom_def)
qed

lemma steps_wf_iff:
  "steps_wf sts \<longleftrightarrow>
     distinct (map fst sts) \<and> (\<forall>n st. map_of sts n = Some st \<longrightarrow> node_wf (node_ids sts) st)"
  by (auto simp: steps_wf_def list_all_iff dest: map_of_SomeD)

lemma steps_wfD:
  assumes "steps_wf sts" and "map_of sts n = Some st"
  shows "set (ns_Upstreams st) \<subseteq> node_ids sts" and "distinct (ns_Upstreams st)"
    and "set (map fst (ns_UpstreamEdges st)) = set (ns_Upstreams st)"
    and "\<And>u. u \<in> set (ns_Upstreams st) \<Longrightarrow> edge_handles st u \<noteq> []"
proof -
  from assms have "node_wf (node_ids sts) st" by (simp add: steps_wf_iff)
  then show "set (ns_Upstreams st) \<subseteq> node_ids sts" and "distinct (ns_Upstreams st)"
    and "set (map fst (ns_UpstreamEdges st)) = set (ns_Upstreams st)"
    and "\<And>u. u \<in> set (ns_Upstreams st) \<Longrightarrow> edge_handles st u \<noteq> []"
    by (simp_all add: node_wf_def)
qed

lemma depends_closed: "steps_wf sts \<Longrightarrow> (n, u) \<in> depends sts \<Longrightarrow> u \<in> node_ids sts"
  using steps_wfD(1) by (fastforce simp: depends_def)

lemma depends_node: "(n, u) \<in> depends sts \<Longrightarrow> n \<in> node_ids sts"
  by (auto simp: depends_def node_ids_iff)

lemma node_ids_upd_at [simp]: "node_ids (upd_at n f sts) = node_ids sts"
  by (simp only: node_ids_def map_fst_upd_at)

lemma node_ids_update [simp]: "node_ids (AList.update n st sts) = insert n (node_ids sts)"
  by (simp add: node_ids_def dom_update)

text \<open>An update that keeps the edges of a node keeps the graph.\<close>

lemma steps_wf_upd_at:
  assumes "\<And>st. ns_Upstreams (f st) = ns_Upstreams st"
    and "\<And>st. ns_UpstreamEdges (f st) = ns_UpstreamEdges st"
  shows "steps_wf (upd_at n f sts) = steps_wf sts"
proof -
  have "node_wf ids (f st) = node_wf ids st" for ids st
    by (simp add: node_wf_def assms edge_handles_def)
  then show ?thesis by (auto simp: steps_wf_iff)
qed

lemma depends_upd_at:
  assumes "\<And>st. ns_Upstreams (f st) = ns_Upstreams st"
  shows "depends (upd_at n f sts) = depends sts"
  by (auto simp: depends_def assms split: if_splits)

lemma node_wf_mono: "node_wf ids st \<Longrightarrow> ids \<subseteq> ids' \<Longrightarrow> node_wf ids' st"
  by (auto simp: node_wf_def)

lemma steps_wf_AddNode: "steps_wf (steps e) \<Longrightarrow> steps_wf (steps (AddNode n ty cfg e))"
proof -
  assume wf: "steps_wf (steps e)"
  have "node_wf (insert n (node_ids (steps e))) st" if "map_of (steps e) k = Some st" for k st
    using wf that node_wf_mono [of "node_ids (steps e)" st] unfolding steps_wf_iff by blast
  with wf show ?thesis
    by (auto simp: steps_wf_iff AddNode_def distinct_update update_conv' node_wf_def split: if_splits)
qed

lemma steps_wf_AddDependencyWithHandle:
  assumes wf: "steps_wf (steps e)" and ok: "AddDependencyWithHandle src tgt h e = Inr e'"
  shows "steps_wf (steps e')"
proof -
  let ?h = "if h = [] then ''source'' else h"
  let ?f = "\<lambda>st. st\<lparr>ns_Upstreams := List.insert src (ns_Upstreams st),
    ns_UpstreamEdges := AList.update src (List.insert ?h (edge_handles st src)) (ns_UpstreamEdges st)\<rparr>"
  let ?e1 = "upd_node src (\<lambda>st. st\<lparr>ns_Downstreams := List.insert tgt (ns_Downstreams st)\<rparr>) e"
  from ok have src: "src \<in> node_ids (steps e)" and e': "e' = upd_node tgt ?f ?e1"
    by (auto simp: AddDependencyWithHandle_def node_ids_iff Let_def split: if_splits)
  have wf1: "steps_wf (steps ?e1)" using wf by (simp add: upd_node_def steps_wf_upd_at)
  have ids: "node_ids (steps ?e1) = node_ids (steps e)" by (simp add: upd_node_def)
  have "node_wf (node_ids (steps e)) (?f st)" if "node_wf (node_ids (steps e)) st" for st
  proof -
    have "edge_handles (?f st) u = (if u = src then List.insert ?h (edge_handles st src) else edge_handles st u)"
      for u by (simp add: edge_handles_def update_conv')
    moreover have "List.insert x xs \<noteq> []" for x :: string and xs by (auto simp: List.insert_def)
    ultimately show ?thesis using that src by (auto simp: node_wf_def dom_update)
  qed
  with wf1 show ?thesis by (auto simp: e' steps_wf_iff ids upd_node_def [of tgt])
qed

section \<open>The depth-first search\<close>

text \<open>
  A node is finished when it is visited and no longer on the recursion stack. Finished nodes
  depend on finished nodes only, and none of them is on a cycle.
\<close>

definition finished_ok :: "step_map \<Rightarrow> string set \<Rightarrow> bool" where
  "finished_ok sts B \<longleftrightarrow>
     (\<forall>b \<in> B. \<forall>u. (b, u) \<in> depends sts \<longrightarrow> u \<in> B) \<and> (\<forall>b \<in> B. (b, b) \<notin> (depends sts)\<^sup>+)"

definition dfs_inv :: "step_map \<Rightarrow> string list \<Rightarrow> string list \<Rightarrow> bool" where
  "dfs_inv sts vis recs \<longleftrightarrow>
     set recs \<subseteq> set vis \<and> set vis \<subseteq> node_ids sts \<and> finished_ok sts (set vis - set recs)"

definition dfs_ok ::
  "step_map \<Rightarrow> string list \<Rightarrow> string set \<Rightarrow> string set \<Rightarrow> dfs_result \<Rightarrow> bool" where
  "dfs_ok sts vis seen recs' r \<longleftrightarrow>
     (case r of
        Some (Ret (True, _)) \<Rightarrow> \<not> acyclic (depends sts)
      | Some (Ret (False, vis', rec')) \<Rightarrow>
          set rec' = recs' \<and> set vis \<union> seen \<subseteq> set vis' \<and> dfs_inv sts vis' rec'
      | _ \<Rightarrow> False)"

lemma closed_trancl: "(\<And>b u. b \<in> B \<Longrightarrow> (b, u) \<in> r \<Longrightarrow> u \<in> B) \<Longrightarrow> (x, y) \<in> r\<^sup>+ \<Longrightarrow> x \<in> B \<Longrightarrow> y \<in> B"
  by (erule trancl_induct) auto

text \<open>Finishing a node whose upstreams are all finished.\<close>

lemma dfs_inv_finish:
  assumes inv: "dfs_inv sts vis recs" and n: "n \<in> set recs"
    and ups: "\<And>u. (n, u) \<in> depends sts \<Longrightarrow> u \<in> set vis - set recs"
  shows "dfs_inv sts vis (removeAll n recs)"
proof -
  let ?B = "set vis - set recs"
  have closed: "\<And>b u. b \<in> ?B \<Longrightarrow> (b, u) \<in> depends sts \<Longrightarrow> u \<in> ?B"
    using inv unfolding dfs_inv_def finished_ok_def by blast
  have "(n, n) \<notin> (depends sts)\<^sup>+"
  proof
    assume "(n, n) \<in> (depends sts)\<^sup>+"
    then obtain u where "(n, u) \<in> depends sts" and "u = n \<or> (u, n) \<in> (depends sts)\<^sup>+"
      by (meson tranclD rtranclD)
    moreover have "u \<in> ?B \<Longrightarrow> (u, n) \<in> (depends sts)\<^sup>+ \<Longrightarrow> n \<in> ?B"
      by (rule closed_trancl) (rule closed)
    ultimately have "n \<in> ?B" using ups [of u] by blast
    with n show False by simp
  qed
  with closed ups inv have "finished_ok sts (insert n ?B)"
    unfolding dfs_inv_def finished_ok_def by blast
  moreover have "set vis - set (removeAll n recs) = insert n ?B"
    using inv n by (auto simp: dfs_inv_def)
  ultimately show ?thesis
    using inv by (auto simp: dfs_inv_def)
qed

lemma dfs_correct:
  "steps_wf sts \<Longrightarrow> dfs_inv sts vis recs \<Longrightarrow> n \<in> node_ids sts \<Longrightarrow> n \<notin> set vis \<Longrightarrow>
   (\<And>r. r \<in> set recs \<Longrightarrow> (r, n) \<in> (depends sts)\<^sup>+) \<Longrightarrow> card (node_ids sts - set vis) \<le> f \<Longrightarrow>
   dfs_ok sts vis {n} (set recs) (hasCycle f sts n vis recs)"
  "steps_wf sts \<Longrightarrow> dfs_inv sts vis recs \<Longrightarrow> n \<in> set recs \<Longrightarrow>
   (\<And>u. u \<in> set us \<Longrightarrow> (n, u) \<in> depends sts) \<Longrightarrow>
   (\<And>u. (n, u) \<in> depends sts \<Longrightarrow> u \<notin> set us \<Longrightarrow> u \<in> set vis - set recs) \<Longrightarrow>
   (\<And>r. r \<in> set recs \<Longrightarrow> (r, n) \<in> (depends sts)\<^sup>*) \<Longrightarrow> card (node_ids sts - set vis) \<le> f \<Longrightarrow>
   dfs_ok sts vis {} (set recs - {n}) (hasCycle_upstreams f sts n us vis recs)"
proof (induction f sts n vis recs and f sts n us vis recs rule: hasCycle_hasCycle_upstreams.induct)
  case (1 sts n vis recs)
  have "finite (node_ids sts - set vis)" by (simp add: node_ids_def)
  with 1 show ?case by auto
next
  case (2 f sts n vis recs)
  from 2(4) obtain st where st: "map_of sts n = Some st" by (auto simp: node_ids_iff)
  have fin: "finite (node_ids sts)" by (simp add: node_ids_def)
  have sub: "n \<in> set recs \<Longrightarrow> False" using 2(3,5) by (auto simp: dfs_inv_def)
  have "dfs_ok sts (List.insert n vis) {} (set (List.insert n recs) - {n})
     (hasCycle_upstreams f sts n (ns_Upstreams st) (List.insert n vis) (List.insert n recs))"
  proof (rule 2(1) [OF st 2(2)])
    have "set (List.insert n vis) - set (List.insert n recs) = set vis - set recs"
      using 2(5) by auto
    with 2(3,4) show "dfs_inv sts (List.insert n vis) (List.insert n recs)"
      by (simp add: dfs_inv_def) blast
    show "(r, n) \<in> (depends sts)\<^sup>*" if "r \<in> set (List.insert n recs)" for r
      using that 2(6) by (auto intro: trancl_into_rtrancl)
    have "node_ids sts - set (List.insert n vis) = node_ids sts - set vis - {n}" by auto
    then show "card (node_ids sts - set (List.insert n vis)) \<le> f"
      using 2(4,5,7) fin by simp
  qed (auto simp: depends_def st)
  moreover have "set (List.insert n recs) - {n} = set recs" using sub by auto
  ultimately show ?case by (auto simp: st dfs_ok_def split: option.splits go.splits bool.splits)
next
  case (3 f sts n vis recs)
  have "dfs_inv sts vis (removeAll n recs)"
    by (rule dfs_inv_finish) (use 3 in auto)
  then show ?case by (simp add: dfs_ok_def)
next
  case (4 f sts n u us vis recs)
  have nu: "(n, u) \<in> depends sts" using 4(7) by simp
  consider (new) "u \<notin> set vis" | (cycle) "u \<in> set vis" "u \<in> set recs" | (finished) "u \<in> set vis" "u \<notin> set recs"
    by blast
  then show ?case
  proof cases
    case new
    have ok: "dfs_ok sts vis {u} (set recs) (hasCycle f sts u vis recs)"
      by (rule 4(1) [OF new 4(4,5) depends_closed [OF 4(4) nu] new])
        (use 4(9,10) nu in \<open>auto intro: rtrancl_into_trancl1\<close>)
    then obtain b vis' recs' where res: "hasCycle f sts u vis recs = Some (Ret (b, vis', recs'))"
      by (auto simp: dfs_ok_def split: option.splits go.splits)
    show ?thesis
    proof (cases b)
      case True
      with ok res new show ?thesis by (simp add: dfs_ok_def)
    next
      case False
      with ok res have recs': "set recs' = set recs" and vis': "insert u (set vis) \<subseteq> set vis'"
        and inv': "dfs_inv sts vis' recs'"
        by (simp_all add: dfs_ok_def)
      have u: "u \<notin> set recs'" using new 4(5) recs' by (auto simp: dfs_inv_def)
      have "card (node_ids sts - set vis') \<le> card (node_ids sts - set vis)"
        by (rule card_mono) (use vis' in \<open>auto simp: node_ids_def\<close>)
      then have "dfs_ok sts vis' {} (set recs' - {n}) (hasCycle_upstreams f sts n us vis' recs')"
      proof (intro 4(2) [OF new res])
        fix v assume "(n, v) \<in> depends sts" and "v \<notin> set us"
        then show "v \<in> set vis' - set recs'" using 4(8) [of v] vis' recs' u by (cases "v = u") auto
      qed (use False 4(4-) inv' recs' in auto)
      with False res new recs' vis' show ?thesis
        by (auto simp: dfs_ok_def split: option.splits go.splits bool.splits)
    qed
  next
    case cycle
    with 4(9) nu have "(u, u) \<in> (depends sts)\<^sup>+" by (auto intro: rtrancl_into_trancl1)
    with cycle show ?thesis by (auto simp: dfs_ok_def acyclic_def)
  next
    case finished
    have "dfs_ok sts vis {} (set recs - {n}) (hasCycle_upstreams f sts n us vis recs)"
      by (rule 4(3)) (use 4(4-) finished in auto)
    with finished show ?thesis by simp
  qed
qed

lemma preflight_loop_correct:
  "steps_wf sts \<Longrightarrow> dfs_inv sts vis recs \<Longrightarrow> recs = [] \<Longrightarrow> set ns \<subseteq> node_ids sts \<Longrightarrow>
   node_ids sts \<subseteq> set vis \<union> set ns \<Longrightarrow> card (node_ids sts) \<le> f \<Longrightarrow>
   preflight_loop f sts ns vis recs =
     Some (Ret (if acyclic (depends sts) then None else Some CircularDependency))"
proof (induction f sts ns vis recs rule: preflight_loop.induct)
  case (1 f sts vis recs)
  then have "set vis = node_ids sts" and "finished_ok sts (set vis)"
    by (auto simp: dfs_inv_def)
  then have "acyclic (depends sts)"
    unfolding acyclic_def finished_ok_def by (metis depends_node tranclD)
  then show ?case by simp
next
  case (2 f sts n ns vis recs)
  show ?case
  proof (cases "n \<in> set vis")
    case True
    have "preflight_loop f sts ns vis recs =
        Some (Ret (if acyclic (depends sts) then None else Some CircularDependency))"
      by (rule 2(2)) (use 2(3-) True in auto)
    with True show ?thesis by simp
  next
    case False
    have "card (node_ids sts - set vis) \<le> f"
      using 2(8) card_mono [of "node_ids sts" "node_ids sts - set vis"] by (auto simp: node_ids_def)
    then have ok: "dfs_ok sts vis {n} (set recs) (hasCycle f sts n vis recs)"
      using 2(3-6) False by (intro dfs_correct(1)) auto
    then obtain b vis' recs' where res: "hasCycle f sts n vis recs = Some (Ret (b, vis', recs'))"
      by (auto simp: dfs_ok_def split: option.splits go.splits)
    show ?thesis
    proof (cases b)
      case True
      with ok res False show ?thesis by (simp add: dfs_ok_def)
    next
      case nb: False
      with ok res 2(5) have r: "recs' = []" "insert n (set vis) \<subseteq> set vis'" "dfs_inv sts vis' recs'"
        by (auto simp: dfs_ok_def)
      have "preflight_loop f sts ns vis' recs' =
          Some (Ret (if acyclic (depends sts) then None else Some CircularDependency))"
        by (rule 2(1) [OF False res]) (use 2(3-) nb r in auto)
      with nb res False show ?thesis by simp
    qed
  qed
qed

lemma preflight_decides:
  assumes "steps_wf (steps e)" and "set ord = node_ids (steps e)"
  shows "preflight ord e =
    Some (Ret (if acyclic (depends (steps e)) then None else Some CircularDependency))"
  unfolding preflight_def
proof (rule preflight_loop_correct)
  show "card (node_ids (steps e)) \<le> length (steps e)"
    by (metis card_length length_map node_ids_def)
qed (use assms in \<open>auto simp: dfs_inv_def finished_ok_def\<close>)

section \<open>Engines as they are built\<close>

text \<open>An engine before its first run: created by the factory, then filled with nodes and edges.\<close>

inductive built :: "engine \<Rightarrow> bool" where
  new: "built (NewWorkflowEngine m)"
| factory: "built (factory_New f config)"
| state: "built e \<Longrightarrow> built (SetRuntimeState rs g e)"
| scope: "built e \<Longrightarrow> built (SetReadyBatchCallback sc cb e)"
| callbacks: "built e \<Longrightarrow> built (e\<lparr>callbacks_of := cbs\<rparr>)"
| node: "built e \<Longrightarrow> built (AddNode n ty cfg e)"
| dependency: "built e \<Longrightarrow> AddDependencyWithHandle src tgt h e = Inr e' \<Longrightarrow> built e'"
| clear: "built e \<Longrightarrow> built (ClearNodes e)"

lemma NormalizeMaxConcurrency_bounds: "1 \<le> NormalizeMaxConcurrency m \<and> NormalizeMaxConcurrency m \<le> 15"
  by (simp add: NormalizeMaxConcurrency_def DefaultMaxConcurrency_def MaxConcurrencyLimit_def)

lemma NewWorkflowEngine_fields:
  "steps (NewWorkflowEngine m) = []" "leaseBucket (NewWorkflowEngine m) = Some 0"
  "maxConcurrency (NewWorkflowEngine m) = NormalizeMaxConcurrency m" "\<not> isRunning (NewWorkflowEngine m)"
  using NormalizeMaxConcurrency_bounds [of m] by (simp_all add: NewWorkflowEngine_def Let_def)

lemma AddDependencyWithHandle_fields:
  assumes "AddDependencyWithHandle src tgt h e = Inr e'"
  shows "leaseBucket e' = leaseBucket e" "maxConcurrency e' = maxConcurrency e" "isRunning e' = isRunning e"
    "node_ids (steps e') = node_ids (steps e)"
  using assms by (auto simp: AddDependencyWithHandle_def Let_def upd_node_def split: if_splits)

lemma built_ok:
  "built e \<Longrightarrow> steps_wf (steps e) \<and> leaseBucket e = Some 0 \<and> 1 \<le> maxConcurrency e \<and> maxConcurrency e \<le> 15
     \<and> \<not> isRunning e"
proof (induction rule: built.induct)
  case (new m)
  then show ?case
    using NormalizeMaxConcurrency_bounds [of m] by (simp add: NewWorkflowEngine_fields steps_wf_def)
next
  case (factory f config)
  have "\<exists>m. maxConcurrency (factory_New f config) = NormalizeMaxConcurrency m"
    by (auto simp: factory_New_def Let_def SetReadyBatchCallback_def SetRuntimeState_def NewWorkflowEngine_fields)
  then show ?case
    using NormalizeMaxConcurrency_bounds
    by (auto simp: factory_New_def Let_def SetReadyBatchCallback_def SetRuntimeState_def NewWorkflowEngine_fields
        steps_wf_def)
next
  case (node e n ty cfg)
  then show ?case by (simp add: steps_wf_AddNode) (simp add: AddNode_def)
next
  case (dependency e src tgt h e')
  with AddDependencyWithHandle_fields [OF dependency(2)] steps_wf_AddDependencyWithHandle [OF _ dependency(2)]
  show ?case by simp
qed (auto simp: SetRuntimeState_def SetReadyBatchCallback_def ClearNodes_def steps_wf_def)

end
