(* ===== verification/Engine_Scheduler.thy ===== *)
theory Engine_Scheduler
  imports Engine_Preflight "HOL-Library.Product_Lexorder" "HOL-Library.Multiset"
begin

text \<open>
  The scheduler (\<open>engine_scheduler.go\<close>): readiness of nodes, branch activation, the scan of
  one tick, the start of a batch of ready nodes, and the parts of \<open>Execute\<close> before and after
  its loop (with \<open>engine_status.go\<close>). The order in which Go iterates the map of nodes is
  the argument \<open>ord\<close>.
\<close>

section \<open>Readiness\<close>

fun upstreams_terminated :: "step_map \<Rightarrow> string list \<Rightarrow> bool go" where
  "upstreams_terminated sts [] = Ret True"
| "upstreams_terminated sts (u # us) =
     (case map_of sts u of
        None \<Rightarrow> Panic
      | Some up \<Rightarrow>
          if \<not> isStatusTerminated (ns_Status up) then Ret False else upstreams_terminated sts us)"

definition allUpstreamsTerminated :: "engine \<Rightarrow> string \<Rightarrow> bool go" where
  "allUpstreamsTerminated e nodeID =
     (case map_of (steps e) nodeID of
        None \<Rightarrow> Panic
      | Some st \<Rightarrow> upstreams_terminated (steps e) (ns_Upstreams st))"

definition edge_active :: "node_state \<Rightarrow> string \<Rightarrow> node_state \<Rightarrow> bool" where
  "edge_active st u up \<longleftrightarrow>
     (if ns_Status up = SKIPPED \<or> ns_Status up = FAILED \<or> ns_Status up = PAUSED then False
      else edge_handles st u = [] \<or> ''source'' \<in> set (edge_handles st u)
           \<or> ns_EdgeSourceHandle up \<in> set (edge_handles st u))"

fun any_edge_active :: "step_map \<Rightarrow> node_state \<Rightarrow> string list \<Rightarrow> bool go" where
  "any_edge_active sts st [] = Ret False"
| "any_edge_active sts st (u # us) =
     (case map_of sts u of
        None \<Rightarrow> Panic
      | Some up \<Rightarrow> if edge_active st u up then Ret True else any_edge_active sts st us)"

definition hasAnyActiveUpstreamEdge :: "engine \<Rightarrow> string \<Rightarrow> bool go" where
  "hasAnyActiveUpstreamEdge e nodeID =
     (case map_of (steps e) nodeID of
        None \<Rightarrow> Panic
      | Some st \<Rightarrow> any_edge_active (steps e) st (ns_Upstreams st))"

definition claimNodeForExecution :: "string \<Rightarrow> engine \<Rightarrow> bool \<times> engine" where
  "claimNodeForExecution nodeID e =
     (case map_of (steps e) nodeID of
        None \<Rightarrow> (False, e)
      | Some st \<Rightarrow>
          if ns_Status st \<noteq> PENDING then (False, e)
          else (True, upd_node nodeID (\<lambda>s. s\<lparr>ns_Status := RUNNING\<rparr>) e))"

definition skip_node :: "time \<Rightarrow> string \<Rightarrow> node_state \<Rightarrow> engine \<Rightarrow> engine" where
  "skip_node now nodeID st e =
     emit cb_NodeSkipped (NodeSkippedEv nodeID (ns_NodeType st))
       (upd_node nodeID (\<lambda>s. s\<lparr>ns_Status := SKIPPED, ns_Outputs := Some [], ns_EndTime := now\<rparr>) e)"

section \<open>One tick\<close>

text \<open>
  A tick scans all nodes with the flag \<open>forceTick\<close> and the batch collected so far, until it
  is through or sees that the run is paused. The work for one node is one step of the model: the
  tests of \<open>IsPaused\<close> that the source repeats within it, to return without any effect,
  all see the same flag, and a lease that is given back at once (after a pause or a lost claim)
  leaves the engine as it was.
\<close>

datatype scan = Scanning engine bool "string list" | PausedReturn engine

definition tick_node :: "time \<Rightarrow> string \<Rightarrow> engine \<Rightarrow> bool \<Rightarrow> string list \<Rightarrow> scan go" where
  "tick_node now nodeID e forceTick batch =
     (if isPaused e then Ret (PausedReturn e)
      else case map_of (steps e) nodeID of
        None \<Rightarrow> Panic
      | Some st \<Rightarrow>
          if ns_Status st \<noteq> PENDING then Ret (Scanning e forceTick batch)
          else case allUpstreamsTerminated e nodeID of
            Panic \<Rightarrow> Panic
          | Ret False \<Rightarrow> Ret (Scanning e forceTick batch)
          | Ret True \<Rightarrow>
              (case (if ns_Upstreams st = [] then Ret True else hasAnyActiveUpstreamEdge e nodeID) of
                 Panic \<Rightarrow> Panic
               | Ret False \<Rightarrow> Ret (Scanning (skip_node now nodeID st e) True batch)
               | Ret True \<Rightarrow>
                   (case lease e of
                      (False, _) \<Rightarrow> Ret (Scanning e forceTick batch)
                    | (True, e1) \<Rightarrow>
                        (case claimNodeForExecution nodeID e1 of
                           (False, _) \<Rightarrow> Ret (Scanning e forceTick batch)
                         | (True, e2) \<Rightarrow> Ret (Scanning e2 forceTick (batch @ [nodeID]))))))"

text \<open>What a tick checks first: whether the run is over.\<close>

definition tick_done :: "bool \<Rightarrow> engine \<Rightarrow> bool" where
  "tick_done ctxDone e \<longleftrightarrow> isStopped e \<or> isPaused e \<or> ctxDone \<or> isTerminated e"

section \<open>Starting a batch\<close>

definition batch_less :: "(string, int) gomap \<Rightarrow> string \<Rightarrow> string \<Rightarrow> bool" where
  "batch_less order a b =
     (case (map_of order a, map_of order b) of
        (Some l, Some r) \<Rightarrow> if l \<noteq> r then l < r else a < b
      | (Some _, None) \<Rightarrow> True
      | (None, Some _) \<Rightarrow> False
      | (None, None) \<Rightarrow> a < b)"

text \<open>\<open>sort.SliceStable\<close>: a stable sort with the given order.\<close>

fun insert_by :: "('a \<Rightarrow> 'a \<Rightarrow> bool) \<Rightarrow> 'a \<Rightarrow> 'a list \<Rightarrow> 'a list" where
  "insert_by lt x [] = [x]"
| "insert_by lt x (y # ys) = (if lt y x then y # insert_by lt x ys else x # y # ys)"

definition slice_stable :: "('a \<Rightarrow> 'a \<Rightarrow> bool) \<Rightarrow> 'a list \<Rightarrow> 'a list" where
  "slice_stable lt xs = foldr (insert_by lt) xs []"

text \<open>
  Undoing the claims of a batch when the run has been paused meanwhile. Each node of the batch
  holds a lease; None means that \<open>unlease\<close> blocks.
\<close>

fun rollback_batch :: "string list \<Rightarrow> engine \<Rightarrow> engine option" where
  "rollback_batch [] e = Some e"
| "rollback_batch (n # ns) e =
     (case unlease (upd_node n (\<lambda>s. if ns_Status s = RUNNING then s\<lparr>ns_Status := PENDING\<rparr> else s) e) of
        None \<Rightarrow> None
      | Some e1 \<Rightarrow> rollback_batch ns e1)"

text \<open>The result is the engine and the nodes for which a goroutine is started, in this order.\<close>

definition startReadyBatch :: "string list \<Rightarrow> engine \<Rightarrow> (engine \<times> string list) option" where
  "startReadyBatch batch e =
     (if batch = [] then Some (e, [])
      else let nodeIDs = slice_stable (batch_less (nodeOrder e)) batch
           in if isPaused e then map_option (\<lambda>e1. (e1, [])) (rollback_batch nodeIDs e)
              else Some (emit cb_ReadyBatch (ReadyBatchEv (readyScope e) nodeIDs) e, nodeIDs))"

section \<open>Before and after the loop\<close>

datatype exec_start = ReturnErr "engine_error option" engine | EnterLoop engine

definition clear_flags :: "engine \<Rightarrow> engine" where
  "clear_flags e = e\<lparr>isStopped := False, isPaused := False, pausedNodeIDs := [], pausedNodeSet := []\<rparr>"

definition Execute_begin :: "string list \<Rightarrow> engine \<Rightarrow> exec_start go option" where
  "Execute_begin ord e =
     (case tryLock e of
        (False, _) \<Rightarrow> Some (Ret (ReturnErr (Some AlreadyRunning) e))
      | (True, e1) \<Rightarrow>
          if steps e1 = [] then Some (Ret (ReturnErr None (unlock e1)))
          else let e2 = clear_flags (engine_reset e1)
               in case preflight ord e2 of
                    None \<Rightarrow> None
                  | Some Panic \<Rightarrow> Some Panic
                  | Some (Ret (Some err)) \<Rightarrow> Some (Ret (ReturnErr (Some err) (unlock e2)))
                  | Some (Ret None) \<Rightarrow> Some (Ret (EnterLoop e2)))"

definition failed_nodes :: "string list \<Rightarrow> step_map \<Rightarrow> string list" where
  "failed_nodes ord sts =
     filter (\<lambda>n. case map_of sts n of Some st \<Rightarrow> ns_Status st = FAILED | None \<Rightarrow> False) ord"

fun first_error :: "string list \<Rightarrow> step_map \<Rightarrow> go_error option" where
  "first_error [] sts = None"
| "first_error (n # ns) sts =
     (case map_of sts n of
        Some st \<Rightarrow> (case ns_Error st of Some err \<Rightarrow> Some err | None \<Rightarrow> first_error ns sts)
      | None \<Rightarrow> first_error ns sts)"

definition getExecutionResult :: "string list \<Rightarrow> engine \<Rightarrow> engine_error option" where
  "getExecutionResult ord e =
     (if isStopped e then Some StoppedByUser
      else let failedNodes = failed_nodes ord (steps e)
           in if failedNodes \<noteq> []
              then (case first_error failedNodes (steps e) of
                      Some err \<Rightarrow> Some (FailedAtNode failedNodes err)
                    | None \<Rightarrow> Some (FailedNodes failedNodes))
              else None)"

definition route_status_of :: "exec_status \<Rightarrow> route_status" where
  "route_status_of s =
     (case s of
        SUCCEEDED \<Rightarrow> RouteSuccess
      | FAILED \<Rightarrow> RouteFailed
      | EXCEPTION \<Rightarrow> RouteException
      | SKIPPED \<Rightarrow> RouteSuccess
      | PAUSED \<Rightarrow> RoutePaused
      | _ \<Rightarrow> RouteRunning)"

definition route_node_of :: "string \<Rightarrow> node_state \<Rightarrow> route_node_state" where
  "route_node_of nodeID st =
     \<lparr>rn_ID = nodeID, rn_NodeID = nodeID,
      rn_NodeRunResult = Some (empty_result\<lparr>r_Status := ns_Status st, r_Inputs := ns_Inputs st,
        r_Outputs := ns_Outputs st,
        r_ErrMsg := (case ns_Error st of Some err \<Rightarrow> err | None \<Rightarrow> [])\<rparr>),
      rn_Status = route_status_of (ns_Status st), rn_StartAt = ns_StartTime st,
      rn_FinishedAt = (if ns_EndTime st \<noteq> 0 then Some (ns_EndTime st) else None),
      rn_PausedAt = None, rn_PausedBy = None, rn_FailedReason = ns_Error st, rn_Index = 0\<rparr>"

definition syncNodeStatesToRuntimeState :: "engine \<Rightarrow> engine" where
  "syncNodeStatesToRuntimeState e =
     (case runtimeState e of
        None \<Rightarrow> e
      | Some rs \<Rightarrow>
          (case NodeRunState rs of
             None \<Rightarrow> e
           | Some _ \<Rightarrow>
               e\<lparr>runtimeState :=
                 fold (\<lambda>(n, st). UpsertRouteNodeState n (Some (route_node_of n st))) (steps e) (Some rs)\<rparr>))"

definition Execute_end :: "string list \<Rightarrow> engine \<Rightarrow> engine_error option \<times> engine" where
  "Execute_end ord e =
     (let e1 = syncNodeStatesToRuntimeState e
      in (getExecutionResult ord e1, unlock e1))"

section \<open>Views of the engine\<close>

record node_snapshot =
  sn_NodeID :: string
  sn_NodeType :: string
  sn_Status :: exec_status
  sn_Error :: string
  sn_Inputs :: "dict option"
  sn_ProcessData :: "dict option"
  sn_Outputs :: "dict option"
  sn_Metadata :: "dict option"
  sn_StartTime :: time
  sn_EndTime :: time
  sn_EdgeSourceHandle :: string

definition snapshot_of :: "string \<Rightarrow> node_state \<Rightarrow> node_snapshot" where
  "snapshot_of nodeID st =
     \<lparr>sn_NodeID = nodeID, sn_NodeType = ns_NodeType st, sn_Status = ns_Status st,
      sn_Error = (case ns_Error st of Some err \<Rightarrow> err | None \<Rightarrow> []),
      sn_Inputs = ns_Inputs st, sn_ProcessData = ns_ProcessData st, sn_Outputs = ns_Outputs st,
      sn_Metadata = ns_Metadata st, sn_StartTime = ns_StartTime st, sn_EndTime = ns_EndTime st,
      sn_EdgeSourceHandle = ns_EdgeSourceHandle st\<rparr>"

definition GetNodeExecutionSnapshots :: "engine option \<Rightarrow> node_snapshot list" where
  "GetNodeExecutionSnapshots e =
     (case e of None \<Rightarrow> [] | Some en \<Rightarrow> map (\<lambda>(n, st). snapshot_of n st) (steps en))"

definition GetNodeStatus :: "string \<Rightarrow> engine \<Rightarrow> node_state option" where
  "GetNodeStatus nodeID e = map_of (steps e) nodeID"

text \<open>Status, error message, start and end time of every node.\<close>

definition GetWorkflowStatus :: "engine \<Rightarrow> (string, exec_status \<times> string \<times> time \<times> time) gomap" where
  "GetWorkflowStatus e =
     map (\<lambda>(n, st). (n, ns_Status st, case ns_Error st of Some err \<Rightarrow> err | None \<Rightarrow> [],
                      ns_StartTime st, ns_EndTime st)) (steps e)"

section \<open>What the checks mean\<close>

definition terminated :: "step_map \<Rightarrow> string \<Rightarrow> bool" where
  "terminated sts n \<longleftrightarrow> (case map_of sts n of None \<Rightarrow> False | Some st \<Rightarrow> isStatusTerminated (ns_Status st))"

definition ups_terminated :: "step_map \<Rightarrow> node_state \<Rightarrow> bool" where
  "ups_terminated sts st \<longleftrightarrow> list_all (terminated sts) (ns_Upstreams st)"

definition active_from :: "step_map \<Rightarrow> node_state \<Rightarrow> string \<Rightarrow> bool" where
  "active_from sts st u \<longleftrightarrow> (case map_of sts u of None \<Rightarrow> False | Some up \<Rightarrow> edge_active st u up)"

text \<open>A node is to be run when it is a root or one of its upstream edges is active.\<close>

definition enabled :: "step_map \<Rightarrow> node_state \<Rightarrow> bool" where
  "enabled sts st \<longleftrightarrow> ns_Upstreams st = [] \<or> list_ex (active_from sts st) (ns_Upstreams st)"

lemma upstreams_terminated_eq:
  "set us \<subseteq> node_ids sts \<Longrightarrow> upstreams_terminated sts us = Ret (list_all (terminated sts) us)"
  by (induction us) (auto simp: node_ids_iff terminated_def)

lemma any_edge_active_eq:
  "set us \<subseteq> node_ids sts \<Longrightarrow> any_edge_active sts st us = Ret (list_ex (active_from sts st) us)"
  by (induction us) (auto simp: node_ids_iff active_from_def)

text \<open>On a well-formed graph the scan of a node does exactly this.\<close>

lemma tick_node_eq:
  assumes wf: "steps_wf (steps e)" and st: "map_of (steps e) n = Some st"
  shows "tick_node now n e force batch =
    (if isPaused e then Ret (PausedReturn e)
     else if ns_Status st \<noteq> PENDING \<or> \<not> ups_terminated (steps e) st then Ret (Scanning e force batch)
     else if \<not> enabled (steps e) st then Ret (Scanning (skip_node now n st e) True batch)
     else if \<not> fst (lease e) then Ret (Scanning e force batch)
     else Ret (Scanning (upd_node n (\<lambda>s. s\<lparr>ns_Status := RUNNING\<rparr>) (snd (lease e))) force (batch @ [n])))"
proof -
  have ups: "set (ns_Upstreams st) \<subseteq> node_ids (steps e)" by (rule steps_wfD(1) [OF wf st])
  have l: "steps (snd (lease e)) = steps e" by (auto simp: lease_def split: option.split)
  show ?thesis
    using st l
    by (auto simp: tick_node_def allUpstreamsTerminated_def hasAnyActiveUpstreamEdge_def
        upstreams_terminated_eq [OF ups] any_edge_active_eq [OF ups] ups_terminated_def enabled_def
        claimNodeForExecution_def split: prod.split bool.split)
qed

text \<open>What the routing of a node depends on: the final states of its upstreams.\<close>

definition agree_on_terminated :: "step_map \<Rightarrow> step_map \<Rightarrow> bool" where
  "agree_on_terminated sts sts' \<longleftrightarrow> (\<forall>u. terminated sts u \<longrightarrow> map_of sts' u = map_of sts u)"

lemma ups_terminated_agree:
  assumes "agree_on_terminated sts sts'" and "ups_terminated sts st"
  shows "ups_terminated sts' st" and "enabled sts' st = enabled sts st"
proof -
  have eq: "map_of sts' u = map_of sts u" if "u \<in> set (ns_Upstreams st)" for u
    using that assms by (auto simp: agree_on_terminated_def ups_terminated_def list_all_iff)
  with assms(2) show "ups_terminated sts' st"
    by (auto simp: ups_terminated_def list_all_iff terminated_def)
  show "enabled sts' st = enabled sts st"
    using eq by (auto simp: enabled_def list_ex_iff active_from_def)
qed

lemma ups_terminated_cong:
  "ns_Upstreams st' = ns_Upstreams st \<Longrightarrow> ups_terminated sts st' = ups_terminated sts st"
  by (simp add: ups_terminated_def)

lemma enabled_cong:
  "ns_Upstreams st' = ns_Upstreams st \<Longrightarrow> ns_UpstreamEdges st' = ns_UpstreamEdges st \<Longrightarrow>
   enabled sts st' = enabled sts st"
  by (simp add: enabled_def list_ex_iff active_from_def edge_active_def edge_handles_def cong: option.case_cong)

lemma agree_upd_at:
  "\<not> terminated sts n \<Longrightarrow> agree_on_terminated sts (upd_at n f sts)"
  by (auto simp: agree_on_terminated_def)

section \<open>The order of a batch\<close>

text \<open>Nodes listed in the graph first, by position, then the others, by name.\<close>

definition batch_key :: "(string, int) gomap \<Rightarrow> string \<Rightarrow> bool \<times> int \<times> string" where
  "batch_key order n = (case map_of order n of Some i \<Rightarrow> (False, i, n) | None \<Rightarrow> (True, 0, n))"

lemma batch_less_key: "batch_less order a b \<longleftrightarrow> batch_key order a < batch_key order b"
  by (auto simp: batch_less_def batch_key_def less_prod_def' split: option.split)

lemma insert_by_insort_key:
  "(\<And>a b. lt a b \<longleftrightarrow> f a < f b) \<Longrightarrow> insert_by lt x xs = insort_key f x xs"
  for f :: "'a \<Rightarrow> 'b :: linorder"
  by (induction xs) (auto simp: not_less)

lemma slice_stable_sort_key:
  "(\<And>a b. lt a b \<longleftrightarrow> f a < f b) \<Longrightarrow> slice_stable lt xs = sort_key f xs"
  for f :: "'a \<Rightarrow> 'b :: linorder"
  by (induction xs) (auto simp: slice_stable_def insert_by_insort_key sort_key_def)

lemma slice_stable_batch: "slice_stable (batch_less order) xs = sort_key (batch_key order) xs"
  by (rule slice_stable_sort_key) (rule batch_less_key)

lemma inj_batch_key: "inj (batch_key order)"
  by (auto simp: inj_def batch_key_def split: option.splits)

end
