(* ===== verification/Engine_Execution.thy ===== *)
theory Engine_Execution
  imports Engine_Scheduler
begin

text \<open>
  The execution of one node: the events its runner sends (\<open>engine_events.go\<close>), the
  parameters passed to the runner (\<open>engine_init_params.go\<close>), and \<open>executeNode\<close> with the
  deferred function that records the outcome (\<open>engine_execution.go\<close>). The node runner itself
  is an interface: its outcome, that is the events it sends, its result and its error, is an
  argument.
\<close>

section \<open>Events of a node runner\<close>

datatype event_type =
    EventTypeRunCompleted | EventTypeRunFailed | EventTypeRunStarted | EventTypeRunStreamChunk
  | EventTypeModelInvokeCompleted | EventTypeRetrieverResource | EventTypeLLMStructuredOutput
  | EventTypeIterationStarted | EventTypeIterationNext | EventTypeIterationSucceeded
  | EventTypeIterationFailed | EventTypeLoopStarted | EventTypeLoopNext | EventTypeLoopSucceeded
  | EventTypeLoopFailed | EventTypeInternalNodeStarted | EventTypeInternalNodeFinished
  | EventTypeInternalReadyBatch | EventTypeOther string

record run_completed =
  rc_RunResult :: "run_result option"
  rc_StartedAt :: time
  rc_FinishedAt :: time

record ready_batch =
  rb_Scope :: ready_scope
  rb_NodeIDs :: "string list"

text \<open>
  The dynamic types that \<open>event.Data\<close> is asked for; a pointer is an option. \<open>DStruct\<close> is any
  other struct or pointer to one, with the getter methods it has (and what they return) and its
  fields; a nil pointer has no fields.
\<close>

datatype event_data =
    DRunCompleted "run_completed option"
  | DRunFailed "run_result option option"
  | DModelInvoke string
  | DStreamChunk "stream_chunk option"
  | DReadyBatch "ready_batch option"
  | DMap dict
  | DStruct "(string, goval) gomap" "(string, goval) gomap"

record node_event_ch =
  ev_Type :: event_type
  ev_NodeID :: string
  ev_Data :: "event_data option"
  ev_Error :: "go_error option"
  ev_Timestamp :: time

definition as_map :: "goval \<Rightarrow> dict option" where
  "as_map v = (case v of VMap d \<Rightarrow> Some d | _ \<Rightarrow> None)"

definition as_int :: "goval \<Rightarrow> int" where
  "as_int v = (case v of VInt Kint n \<Rightarrow> n | _ \<Rightarrow> 0)"

definition getter :: "event_data \<Rightarrow> string \<Rightarrow> goval option" where
  "getter d name = (case d of DStruct gs _ \<Rightarrow> map_of gs name | _ \<Rightarrow> None)"

text \<open>
  The field \<open>fieldName\<close> of a struct, for the names the engine asks for; of the structs of
  the engine's own packages only \<open>ReadyBatchEvent\<close> has a field with such a name.
\<close>

definition getFieldValue :: "event_data \<Rightarrow> string \<Rightarrow> goval option" where
  "getFieldValue d fieldName =
     (case d of
        DStruct _ fs \<Rightarrow> map_of fs fieldName
      | DReadyBatch (Some rb) \<Rightarrow>
          if fieldName = ''Index'' then Some (VInt Kint (sc_Index (rb_Scope rb))) else None
      | _ \<Rightarrow> None)"

definition field_map :: "event_data \<Rightarrow> string \<Rightarrow> dict option" where
  "field_map d name = (case getFieldValue d name of Some v \<Rightarrow> as_map v | None \<Rightarrow> None)"

definition field_int :: "event_data \<Rightarrow> string \<Rightarrow> int" where
  "field_int d name = (case getFieldValue d name of Some v \<Rightarrow> as_int v | None \<Rightarrow> 0)"

definition nonZeroTime :: "time \<Rightarrow> time \<Rightarrow> time" where
  "nonZeroTime v fallback = (if v \<noteq> 0 then v else fallback)"

definition eventStartedAtFromData :: "event_data \<Rightarrow> time \<Rightarrow> time" where
  "eventStartedAtFromData d fallback =
     (case getFieldValue d ''StartAt'' of
        Some (VTime t _) \<Rightarrow> if t \<noteq> 0 then t else fallback
      | _ \<Rightarrow>
          (case d of
             DMap m \<Rightarrow> (case map_of m ''start_at'' of
                          Some (VTime t _) \<Rightarrow> if t \<noteq> 0 then t else fallback
                        | _ \<Rightarrow> fallback)
           | _ \<Rightarrow> fallback))"

definition iteration_event_of :: "string \<Rightarrow> string \<Rightarrow> time \<Rightarrow> iteration_event" where
  "iteration_event_of ty nodeID ts =
     \<lparr>ie_Type = ty, ie_NodeID = nodeID, ie_Index = 0, ie_Inputs = None, ie_Outputs = None,
      ie_Metadata = None, ie_Steps = 0, ie_Error = [], ie_Timestamp = ts, ie_StartedAt = 0\<rparr>"

definition loop_event_of :: "string \<Rightarrow> string \<Rightarrow> time \<Rightarrow> loop_event" where
  "loop_event_of ty nodeID ts =
     \<lparr>le_Type = ty, le_NodeID = nodeID, le_Index = 0, le_Inputs = None, le_Outputs = None,
      le_PreLoopOutput = None, le_Metadata = None, le_Steps = 0, le_Error = [], le_Timestamp = ts,
      le_StartedAt = 0\<rparr>"

section \<open>Iteration and loop events\<close>

definition handleIterationStartedEvent :: "string \<Rightarrow> event_data \<Rightarrow> time \<Rightarrow> iteration_event" where
  "handleIterationStartedEvent nodeID d ts =
     (iteration_event_of ''started'' nodeID ts)
       \<lparr>ie_StartedAt := eventStartedAtFromData d ts,
        ie_Inputs := field_map d ''Inputs'', ie_Metadata := field_map d ''Metadata''\<rparr>"

definition iteration_started :: "string \<Rightarrow> event_data \<Rightarrow> time \<Rightarrow> iteration_event" where
  "iteration_started nodeID d ts =
     (case getter d ''GetInputs'' of
        Some inputs \<Rightarrow>
          (iteration_event_of ''started'' nodeID ts)
            \<lparr>ie_Inputs := as_map inputs,
             ie_Metadata := (case getter d ''GetMetadata'' of Some m \<Rightarrow> as_map m | None \<Rightarrow> None),
             ie_StartedAt := eventStartedAtFromData d ts\<rparr>
      | None \<Rightarrow>
          (case d of
             DMap m \<Rightarrow>
               (iteration_event_of ''started'' nodeID ts)
                 \<lparr>ie_Inputs := is_map m ''inputs'', ie_Metadata := is_map m ''metadata'',
                  ie_StartedAt := eventStartedAtFromData d ts\<rparr>
           | _ \<Rightarrow> handleIterationStartedEvent nodeID d ts))"

definition handleIterationNextEvent :: "string \<Rightarrow> event_data \<Rightarrow> time \<Rightarrow> iteration_event" where
  "handleIterationNextEvent nodeID d ts =
     (iteration_event_of ''next'' nodeID ts)\<lparr>ie_Index := field_int d ''Index''\<rparr>"

definition map_int :: "dict \<Rightarrow> string \<Rightarrow> int" where
  "map_int m k = (case map_of m k of Some v \<Rightarrow> as_int v | None \<Rightarrow> 0)"

definition iteration_next :: "string \<Rightarrow> event_data \<Rightarrow> time \<Rightarrow> iteration_event" where
  "iteration_next nodeID d ts =
     (case getter d ''GetIndex'' of
        Some i \<Rightarrow> (iteration_event_of ''next'' nodeID ts)\<lparr>ie_Index := as_int i\<rparr>
      | None \<Rightarrow>
          (case d of
             DMap m \<Rightarrow> (iteration_event_of ''next'' nodeID ts)\<lparr>ie_Index := map_int m ''index''\<rparr>
           | _ \<Rightarrow> handleIterationNextEvent nodeID d ts))"

text \<open>The error of a completed event: the one passed in, else the field \<open>Error\<close>.\<close>

definition completed_error :: "event_data \<Rightarrow> string \<Rightarrow> string" where
  "completed_error d errMsg =
     (if errMsg \<noteq> [] then errMsg
      else case getFieldValue d ''Error'' of Some (VString s) \<Rightarrow> s | _ \<Rightarrow> [])"

definition getter_error :: "event_data \<Rightarrow> string" where
  "getter_error d = (case getter d ''GetError'' of Some (VString s) \<Rightarrow> s | _ \<Rightarrow> [])"

definition handleIterationCompletedEvent ::
  "string \<Rightarrow> event_data \<Rightarrow> time \<Rightarrow> string \<Rightarrow> string \<Rightarrow> iteration_event" where
  "handleIterationCompletedEvent nodeID d ts eventType errMsg =
     (iteration_event_of eventType nodeID ts)
       \<lparr>ie_StartedAt := eventStartedAtFromData d 0,
        ie_Inputs := field_map d ''Inputs'', ie_Outputs := field_map d ''Outputs'',
        ie_Steps := field_int d ''Steps'', ie_Metadata := field_map d ''Metadata'',
        ie_Error := completed_error d errMsg\<rparr>"

definition handleLoopStartedEvent :: "string \<Rightarrow> event_data \<Rightarrow> time \<Rightarrow> loop_event" where
  "handleLoopStartedEvent nodeID d ts =
     (loop_event_of ''started'' nodeID ts)
       \<lparr>le_StartedAt := eventStartedAtFromData d ts,
        le_Inputs := field_map d ''Inputs'', le_Metadata := field_map d ''Metadata''\<rparr>"

definition loop_started :: "string \<Rightarrow> event_data \<Rightarrow> time \<Rightarrow> loop_event" where
  "loop_started nodeID d ts =
     (case getter d ''GetInputs'' of
        Some inputs \<Rightarrow>
          (loop_event_of ''started'' nodeID ts)
            \<lparr>le_Inputs := as_map inputs,
             le_Metadata := (case getter d ''GetMetadata'' of Some m \<Rightarrow> as_map m | None \<Rightarrow> None),
             le_StartedAt := eventStartedAtFromData d ts\<rparr>
      | None \<Rightarrow>
          (case d of
             DMap m \<Rightarrow>
               (loop_event_of ''started'' nodeID ts)
                 \<lparr>le_Inputs := is_map m ''inputs'', le_Metadata := is_map m ''metadata'',
                  le_StartedAt := eventStartedAtFromData d ts\<rparr>
           | _ \<Rightarrow> handleLoopStartedEvent nodeID d ts))"

definition handleLoopNextEvent :: "string \<Rightarrow> event_data \<Rightarrow> time \<Rightarrow> loop_event" where
  "handleLoopNextEvent nodeID d ts =
     (loop_event_of ''next'' nodeID ts)
       \<lparr>le_Index := field_int d ''Index'', le_PreLoopOutput := field_map d ''PreLoopOutput''\<rparr>"

definition loop_next :: "string \<Rightarrow> event_data \<Rightarrow> time \<Rightarrow> loop_event" where
  "loop_next nodeID d ts =
     (case getter d ''GetIndex'' of
        Some i \<Rightarrow>
          (loop_event_of ''next'' nodeID ts)
            \<lparr>le_Index := as_int i,
             le_PreLoopOutput := (case getter d ''GetPreLoopOutput'' of Some m \<Rightarrow> as_map m | None \<Rightarrow> None)\<rparr>
      | None \<Rightarrow>
          (case d of
             DMap m \<Rightarrow>
               (loop_event_of ''next'' nodeID ts)
                 \<lparr>le_Index := map_int m ''index'', le_PreLoopOutput := is_map m ''pre_loop_output''\<rparr>
           | _ \<Rightarrow> handleLoopNextEvent nodeID d ts))"

definition handleLoopCompletedEvent ::
  "string \<Rightarrow> event_data \<Rightarrow> time \<Rightarrow> string \<Rightarrow> string \<Rightarrow> loop_event" where
  "handleLoopCompletedEvent nodeID d ts eventType errMsg =
     (loop_event_of eventType nodeID ts)
       \<lparr>le_StartedAt := eventStartedAtFromData d 0,
        le_Inputs := field_map d ''Inputs'', le_Outputs := field_map d ''Outputs'',
        le_Steps := field_int d ''Steps'', le_Metadata := field_map d ''Metadata'',
        le_Error := completed_error d errMsg\<rparr>"

section \<open>Consuming the events\<close>

definition internal_event ::
  "(goval \<Rightarrow> string) \<Rightarrow> string \<Rightarrow> node_event_ch \<Rightarrow> run_completed \<Rightarrow> run_result \<Rightarrow> dict \<Rightarrow> node_event" where
  "internal_event fmt_v ty ev rc r metadata =
     \<lparr>ne_ExecutionID = buildInternalExecutionID fmt_v (ev_NodeID ev) (Some metadata),
      ne_Type = ty, ne_NodeID = ev_NodeID ev, ne_NodeType = [], ne_Inputs = r_Inputs r,
      ne_Outputs = None, ne_Status = [], ne_Error = [], ne_Metadata = Some metadata,
      ne_Timestamp = ev_Timestamp ev, ne_StartedAt = nonZeroTime (rc_StartedAt rc) (ev_Timestamp ev),
      ne_FinishedAt = 0\<rparr>"

definition metadata_or_empty :: "run_result \<Rightarrow> dict" where
  "metadata_or_empty r = (case r_Metadata r of None \<Rightarrow> [] | Some m \<Rightarrow> m)"

text \<open>Whether a metadata entry is present and not the empty string.\<close>

definition has_entry :: "dict \<Rightarrow> string \<Rightarrow> bool" where
  "has_entry m k \<longleftrightarrow> (case map_of m k of None \<Rightarrow> False | Some v \<Rightarrow> v \<noteq> VString [])"

definition run_completed_event ::
  "(goval \<Rightarrow> string) \<Rightarrow> node_event_ch \<Rightarrow> run_completed \<Rightarrow> run_result \<Rightarrow> engine \<Rightarrow> engine" where
  "run_completed_event fmt_v ev rc r e =
     (case r_Metadata r of
        None \<Rightarrow> e
      | Some m \<Rightarrow>
          if has_entry m ''iteration_id'' \<or> has_entry m ''loop_id''
          then emit cb_InternalNode (InternalNodeEv
                 ((internal_event fmt_v ''finished'' ev rc r m)
                    \<lparr>ne_Outputs := r_Outputs r, ne_Status := status_string (r_Status r),
                     ne_FinishedAt := nonZeroTime (rc_FinishedAt rc) (ev_Timestamp ev)\<rparr>)) e
          else e)"

definition internal_finished ::
  "(goval \<Rightarrow> string) \<Rightarrow> node_event_ch \<Rightarrow> run_completed \<Rightarrow> run_result \<Rightarrow> node_event" where
  "internal_finished fmt_v ev rc r =
     (let failed = (r_Status r = FAILED \<or> r_Status r = EXCEPTION)
      in (internal_event fmt_v ''finished'' ev rc r (metadata_or_empty r))
           \<lparr>ne_Outputs := r_Outputs r,
            ne_Status := (if failed then ''failed'' else ''succeeded''),
            ne_Error := (if failed then r_ErrMsg r else []),
            ne_FinishedAt := nonZeroTime (rc_FinishedAt rc) (ev_Timestamp ev)\<rparr>)"

definition stream_source :: "string \<Rightarrow> node_event_ch \<Rightarrow> stream_chunk \<Rightarrow> string" where
  "stream_source nodeID ev ch =
     (if ev_NodeID ev \<noteq> [] then ev_NodeID ev
      else case ch_FromVariableSelector ch of
             s # _ \<Rightarrow> if s \<noteq> [] then s else nodeID
           | [] \<Rightarrow> nodeID)"

type_synonym exec_vars = "run_result option \<times> go_error option"

text \<open>
  One event, with the variables \<open>result\<close> and \<open>err\<close> of the caller. A \<open>RunCompleted\<close>
  event without a result is a nil dereference (in the log statement), and so is a field access
  through a nil pointer.
\<close>

definition consume_event ::
  "(goval \<Rightarrow> string) \<Rightarrow> string \<Rightarrow> node_event_ch \<Rightarrow> exec_vars \<Rightarrow> engine \<Rightarrow> (exec_vars \<times> engine) go" where
  "consume_event fmt_v nodeID ev vars e =
     (let ts = ev_Timestamp ev; (result, err) = vars
      in case ev_Type ev of
        EventTypeRunCompleted \<Rightarrow>
          (case ev_Data ev of
             Some (DRunCompleted None) \<Rightarrow> Panic
           | Some (DRunCompleted (Some rc)) \<Rightarrow>
               (case rc_RunResult rc of
                  None \<Rightarrow> Panic
                | Some r \<Rightarrow> Ret ((Some r, err), run_completed_event fmt_v ev rc r e))
           | _ \<Rightarrow> Ret (vars, e))
      | EventTypeRunFailed \<Rightarrow>
          (case ev_Data ev of
             Some (DRunFailed None) \<Rightarrow> Panic
           | Some (DRunFailed (Some (Some r))) \<Rightarrow>
               Ret ((Some r, case ev_Error ev of Some er \<Rightarrow> Some er | None \<Rightarrow> err), e)
           | _ \<Rightarrow> Ret ((result, case ev_Error ev of Some er \<Rightarrow> Some er | None \<Rightarrow> err), e))
      | EventTypeRunStreamChunk \<Rightarrow>
          (case ev_Data ev of
             Some (DStreamChunk None) \<Rightarrow>
               if cb_Stream (callbacks_of e) \<and> ev_NodeID ev = [] then Panic
               else Ret (vars, emit cb_Stream (StreamEv (ev_NodeID ev) None) e)
           | Some (DStreamChunk (Some ch)) \<Rightarrow>
               Ret (vars, emit cb_Stream (StreamEv (stream_source nodeID ev ch) (Some ch)) e)
           | _ \<Rightarrow> Ret (vars, e))
      | EventTypeIterationStarted \<Rightarrow>
          (case ev_Data ev of
             Some d \<Rightarrow> Ret (vars, emit cb_Iteration (IterationEv (iteration_started nodeID d ts)) e)
           | None \<Rightarrow> Ret (vars, e))
      | EventTypeIterationNext \<Rightarrow>
          (case ev_Data ev of
             Some d \<Rightarrow> Ret (vars, emit cb_Iteration (IterationEv (iteration_next nodeID d ts)) e)
           | None \<Rightarrow> Ret (vars, e))
      | EventTypeIterationSucceeded \<Rightarrow>
          (case ev_Data ev of
             Some d \<Rightarrow> Ret (vars, emit cb_Iteration
                         (IterationEv (handleIterationCompletedEvent nodeID d ts ''completed'' [])) e)
           | None \<Rightarrow> Ret (vars, e))
      | EventTypeIterationFailed \<Rightarrow>
          (case ev_Data ev of
             Some d \<Rightarrow> Ret (vars, emit cb_Iteration
                         (IterationEv (handleIterationCompletedEvent nodeID d ts ''failed'' (getter_error d))) e)
           | None \<Rightarrow> Ret (vars, e))
      | EventTypeLoopStarted \<Rightarrow>
          (case ev_Data ev of
             Some d \<Rightarrow> Ret (vars, emit cb_Loop (LoopEv (loop_started nodeID d ts)) e)
           | None \<Rightarrow> Ret (vars, e))
      | EventTypeLoopNext \<Rightarrow>
          (case ev_Data ev of
             Some d \<Rightarrow> Ret (vars, emit cb_Loop (LoopEv (loop_next nodeID d ts)) e)
           | None \<Rightarrow> Ret (vars, e))
      | EventTypeLoopSucceeded \<Rightarrow>
          (case ev_Data ev of
             Some d \<Rightarrow> Ret (vars, emit cb_Loop
                         (LoopEv (handleLoopCompletedEvent nodeID d ts ''completed'' [])) e)
           | None \<Rightarrow> Ret (vars, e))
      | EventTypeLoopFailed \<Rightarrow>
          (case ev_Data ev of
             Some d \<Rightarrow> Ret (vars, emit cb_Loop
                         (LoopEv (handleLoopCompletedEvent nodeID d ts ''failed'' (getter_error d))) e)
           | None \<Rightarrow> Ret (vars, e))
      | EventTypeInternalNodeStarted \<Rightarrow>
          (case ev_Data ev of
             Some (DRunCompleted None) \<Rightarrow> if cb_InternalNode (callbacks_of e) then Panic else Ret (vars, e)
           | Some (DRunCompleted (Some rc)) \<Rightarrow>
               (case rc_RunResult rc of
                  None \<Rightarrow> Ret (vars, e)
                | Some r \<Rightarrow> Ret (vars, emit cb_InternalNode (InternalNodeEv
                    (internal_event fmt_v ''started'' ev rc r (metadata_or_empty r))) e))
           | _ \<Rightarrow> Ret (vars, e))
      | EventTypeInternalReadyBatch \<Rightarrow>
          (case ev_Data ev of
             Some (DReadyBatch None) \<Rightarrow> if cb_ReadyBatch (callbacks_of e) then Panic else Ret (vars, e)
           | Some (DReadyBatch (Some rb)) \<Rightarrow>
               if rb_NodeIDs rb \<noteq> []
               then Ret (vars, emit cb_ReadyBatch (ReadyBatchEv (rb_Scope rb) (rb_NodeIDs rb)) e)
               else Ret (vars, e)
           | _ \<Rightarrow> Ret (vars, e))
      | EventTypeInternalNodeFinished \<Rightarrow>
          (case ev_Data ev of
             Some (DRunCompleted None) \<Rightarrow> if cb_InternalNode (callbacks_of e) then Panic else Ret (vars, e)
           | Some (DRunCompleted (Some rc)) \<Rightarrow>
               (case rc_RunResult rc of
                  None \<Rightarrow> Ret (vars, e)
                | Some r \<Rightarrow> Ret (vars, emit cb_InternalNode (InternalNodeEv (internal_finished fmt_v ev rc r)) e))
           | _ \<Rightarrow> Ret (vars, e))
      | _ \<Rightarrow> Ret (vars, e))"

definition node_stopped :: "time \<Rightarrow> string \<Rightarrow> engine \<Rightarrow> engine" where
  "node_stopped now nodeID e =
     upd_node nodeID (\<lambda>s. s\<lparr>ns_Status := FAILED, ns_Error := Some ''workflow stopped by user'',
                            ns_EndTime := now\<rparr>) e"

text \<open>The answer False means that the run was stopped and the loop left early.\<close>

fun consumeNodeEvents ::
  "(goval \<Rightarrow> string) \<Rightarrow> time \<Rightarrow> string \<Rightarrow> node_event_ch list \<Rightarrow> exec_vars \<Rightarrow> engine
   \<Rightarrow> (bool \<times> exec_vars \<times> engine) go" where
  "consumeNodeEvents fmt_v now nodeID [] vars e = Ret (True, vars, e)"
| "consumeNodeEvents fmt_v now nodeID (ev # evs) vars e =
     (if isStopped e then Ret (False, vars, node_stopped now nodeID e)
      else case consume_event fmt_v nodeID ev vars e of
             Panic \<Rightarrow> Panic
           | Ret (vars', e') \<Rightarrow> consumeNodeEvents fmt_v now nodeID evs vars' e')"

section \<open>Parameters of the runner\<close>

datatype workflow_type = WorkflowTypeWorkflow | WorkflowTypeChat

record graph_init_params =
  gi_TenantID :: string
  gi_WorkspaceID :: string
  gi_OrganizationID :: string
  gi_BillingSubjectType :: string
  gi_AppID :: string
  gi_WorkflowType :: workflow_type
  gi_WorkflowID :: string
  gi_UserFrom :: string
  gi_UserID :: string
  gi_GraphConfig :: dict
  gi_InvokeFrom :: string
  gi_CallDepth :: int

definition engine_sys_dict :: "engine \<Rightarrow> dict" where
  "engine_sys_dict e =
     (case runtimeState e of
        None \<Rightarrow> []
      | Some rs \<Rightarrow>
          (case VariablePool rs of
             None \<Rightarrow> []
           | Some vp \<Rightarrow> (case SystemVariables vp of None \<Rightarrow> [] | Some sv \<Rightarrow> SystemVariable_ToDict sv)))"

definition getGraphInitParams :: "engine \<Rightarrow> graph_init_params" where
  "getGraphInitParams e =
     (let d = engine_sys_dict e
      in \<lparr>gi_TenantID = str_at d ''workspace_id'', gi_WorkspaceID = str_at d ''workspace_id'',
          gi_OrganizationID = str_at d ''organization_id'',
          gi_BillingSubjectType = str_at d ''billing_subject_type'',
          gi_AppID = str_at d ''agent_id'',
          gi_WorkflowType =
            (if str_at d ''workflow_type'' \<in> {''chat'', ''advanced-chat'', ''CONVERSATION_WORKFLOW''}
             then WorkflowTypeChat else WorkflowTypeWorkflow),
          gi_WorkflowID = str_at d ''workflow_id'',
          gi_UserFrom = ''account'', gi_UserID = str_at d ''user_id'',
          gi_GraphConfig =
            (case graph_of e of None \<Rightarrow> []
             | Some g \<Rightarrow> (case g_Config g of None \<Rightarrow> [] | Some c \<Rightarrow> c)),
          gi_InvokeFrom = ''external-api'', gi_CallDepth = 0\<rparr>)"

section \<open>Executing a node\<close>

definition node_begin :: "time \<Rightarrow> string \<Rightarrow> engine \<Rightarrow> engine" where
  "node_begin now nodeID e =
     (let e1 = upd_node nodeID (\<lambda>s. s\<lparr>ns_Status := RUNNING, ns_StartTime := now\<rparr>) e
      in case map_of (steps e1) nodeID of
           None \<Rightarrow> e1
         | Some st \<Rightarrow> emit cb_NodeStarted (NodeStartedEv nodeID (ns_NodeType st) (ns_Inputs st)) e1)"

definition copy_result :: "run_result option \<Rightarrow> node_state \<Rightarrow> node_state" where
  "copy_result result st =
     (case result of
        None \<Rightarrow> st
      | Some r \<Rightarrow> st\<lparr>ns_Inputs := r_Inputs r, ns_ProcessData := r_ProcessData r, ns_Outputs := r_Outputs r,
                      ns_Metadata := r_Metadata r, ns_EdgeSourceHandle := r_EdgeSourceHandle r\<rparr>)"

text \<open>The status and the error that the deferred function records.\<close>

definition final_status :: "exec_vars \<Rightarrow> exec_status" where
  "final_status = (\<lambda>(result, err).
     case err of
       Some _ \<Rightarrow> (case result of
                    Some r \<Rightarrow> if r_Status r \<noteq> OTHER [] then r_Status r else FAILED
                  | None \<Rightarrow> FAILED)
     | None \<Rightarrow> (case result of Some r \<Rightarrow> r_Status r | None \<Rightarrow> SUCCEEDED))"

definition final_error :: "exec_vars \<Rightarrow> go_error option \<Rightarrow> go_error option" where
  "final_error = (\<lambda>(result, err) old.
     case err of
       Some er \<Rightarrow> Some er
     | None \<Rightarrow>
         (case result of
            None \<Rightarrow> old
          | Some r \<Rightarrow>
              if r_Status r \<in> {SUCCEEDED, PAUSED, SKIPPED} then old else errorFromNodeRunResult result))"

text \<open>Writing the outputs of a node to the variable pool, if there is one.\<close>

definition publish_outputs :: "string \<Rightarrow> dict option \<Rightarrow> runtime_state option \<Rightarrow> runtime_state option" where
  "publish_outputs nodeID outputs rs =
     map_option (\<lambda>st. st\<lparr>VariablePool :=
         map_option (\<lambda>vp. fold (\<lambda>(k, v) p. pool_Add p [nodeID, k] v)
                            (case outputs of None \<Rightarrow> [] | Some os \<Rightarrow> os) vp) (VariablePool st)\<rparr>) rs"

text \<open>\<open>Time.Sub\<close> saturates at the bounds of a 64-bit duration.\<close>

definition time_sub :: "time \<Rightarrow> time \<Rightarrow> duration" where
  "time_sub t u = max (- (2 ^ 63)) (min (2 ^ 63 - 1) (t - u))"

definition finished_event_of :: "string \<Rightarrow> node_state \<Rightarrow> finished_event" where
  "finished_event_of nodeID st =
     \<lparr>fe_NodeID = nodeID, fe_NodeType = ns_NodeType st, fe_Status = status_string (ns_Status st),
      fe_Outputs = ns_Outputs st, fe_Err = ns_Error st, fe_EdgeSourceHandle = ns_EdgeSourceHandle st,
      fe_StartedAt = ns_StartTime st, fe_FinishedAt = ns_EndTime st,
      fe_ElapsedTime = time_sub (ns_EndTime st) (ns_StartTime st)\<rparr>"

definition emit_finished :: "string \<Rightarrow> engine \<Rightarrow> engine" where
  "emit_finished nodeID e =
     (case map_of (steps e) nodeID of
        None \<Rightarrow> e
      | Some st \<Rightarrow>
          emit cb_NodeFinishedDetailed (NodeFinishedDetailedEv (finished_event_of nodeID st))
            (emit cb_NodeFinished (NodeFinishedEv nodeID (ns_NodeType st) (status_string (ns_Status st))
                (ns_Outputs st) (ns_EdgeSourceHandle st) (ns_Error st)) e))"

definition record_result :: "time \<Rightarrow> exec_vars \<Rightarrow> node_state \<Rightarrow> node_state" where
  "record_result now vars st =
     (copy_result (fst vars) st)
       \<lparr>ns_EndTime := now, ns_Status := final_status vars, ns_Error := final_error vars (ns_Error st)\<rparr>"

definition node_type_of :: "string \<Rightarrow> engine \<Rightarrow> string" where
  "node_type_of nodeID e = (case map_of (steps e) nodeID of None \<Rightarrow> [] | Some st \<Rightarrow> ns_NodeType st)"

text \<open>The deferred function of \<open>executeNode\<close>; the signal it ends with is a step of its own.\<close>

definition node_finish :: "time \<Rightarrow> string \<Rightarrow> exec_vars \<Rightarrow> engine \<Rightarrow> engine" where
  "node_finish now nodeID vars e =
     (let e1 = upd_node nodeID (record_result now vars) e;
          e2 = (case vars of
                  (Some r, None) \<Rightarrow>
                    (let e' = e1\<lparr>runtimeState :=
                           updateRuntimeOutputsForNode (node_type_of nodeID e) (r_Outputs r)
                             (publish_outputs nodeID (r_Outputs r) (runtimeState e1))\<rparr>
                     in if r_Status r = PAUSED then markPaused nodeID e' else e')
                | _ \<Rightarrow> e1)
      in emit_finished nodeID e2)"

text \<open>The variables of \<open>executeNode\<close> after the runner has returned \<open>nodeResult\<close>, \<open>nodeErr\<close>.\<close>

definition merge_outcome :: "exec_vars \<Rightarrow> exec_vars \<Rightarrow> exec_vars" where
  "merge_outcome vars outcome =
     (case fst vars of Some r \<Rightarrow> Some r | None \<Rightarrow> fst outcome,
      case snd outcome of Some er \<Rightarrow> Some er | None \<Rightarrow> snd vars)"

text \<open>
  The whole of \<open>executeNode\<close>, when nothing else happens meanwhile. The outcome of the runner
  is None when no runner is set, else its events, its result and its error; \<open>t0\<close>, \<open>t1\<close>,
  \<open>t2\<close> are the readings of the clock.
\<close>

definition executeNode ::
  "(goval \<Rightarrow> string) \<Rightarrow> time \<Rightarrow> time \<Rightarrow> time \<Rightarrow> string \<Rightarrow> (node_event_ch list \<times> exec_vars) option
   \<Rightarrow> engine \<Rightarrow> engine go" where
  "executeNode fmt_v t0 t1 t2 nodeID outcome e =
     (if isStopped e then Ret (node_stopped t0 nodeID e)
      else let e1 = node_begin t0 nodeID e
           in case outcome of
                None \<Rightarrow> Ret (node_finish t2 nodeID (None, Some ''node runner is required'') e1)
              | Some (evs, ret) \<Rightarrow>
                  (case consumeNodeEvents fmt_v t1 nodeID evs (None, None) e1 of
                     Panic \<Rightarrow> Panic
                   | Ret (False, vars, e2) \<Rightarrow> Ret (node_finish t2 nodeID vars e2)
                   | Ret (True, vars, e2) \<Rightarrow> Ret (node_finish t2 nodeID (merge_outcome vars ret) e2)))"

section \<open>What the operations change\<close>

lemma emit_fields [engine_simps]:
  "steps (emit cb ev e) = steps e" "isPaused (emit cb ev e) = isPaused e"
  "isStopped (emit cb ev e) = isStopped e" "isRunning (emit cb ev e) = isRunning e"
  "leaseBucket (emit cb ev e) = leaseBucket e" "maxConcurrency (emit cb ev e) = maxConcurrency e"
  "runtimeState (emit cb ev e) = runtimeState e" "nodeOrder (emit cb ev e) = nodeOrder e"
  "callbacks_of (emit cb ev e) = callbacks_of e" "pausedNodeIDs (emit cb ev e) = pausedNodeIDs e"
  by (simp_all add: emit_def)

lemma upd_node_fields [engine_simps]:
  "steps (upd_node n f e) = upd_at n f (steps e)" "isPaused (upd_node n f e) = isPaused e"
  "isStopped (upd_node n f e) = isStopped e" "isRunning (upd_node n f e) = isRunning e"
  "leaseBucket (upd_node n f e) = leaseBucket e" "maxConcurrency (upd_node n f e) = maxConcurrency e"
  "runtimeState (upd_node n f e) = runtimeState e" "nodeOrder (upd_node n f e) = nodeOrder e"
  "callbacks_of (upd_node n f e) = callbacks_of e" "pausedNodeIDs (upd_node n f e) = pausedNodeIDs e"
  by (simp_all add: upd_node_def)

lemma markPaused_fields [engine_simps]:
  "steps (markPaused n e) = steps e" "isPaused (markPaused n e)" "isStopped (markPaused n e) = isStopped e"
  "isRunning (markPaused n e) = isRunning e" "leaseBucket (markPaused n e) = leaseBucket e"
  "maxConcurrency (markPaused n e) = maxConcurrency e" "runtimeState (markPaused n e) = runtimeState e"
  "nodeOrder (markPaused n e) = nodeOrder e" "callbacks_of (markPaused n e) = callbacks_of e"
  by (simp_all add: markPaused_def Let_def)

lemma emit_finished_fields [engine_simps]:
  "steps (emit_finished n e) = steps e" "isPaused (emit_finished n e) = isPaused e"
  "isStopped (emit_finished n e) = isStopped e" "isRunning (emit_finished n e) = isRunning e"
  "leaseBucket (emit_finished n e) = leaseBucket e" "maxConcurrency (emit_finished n e) = maxConcurrency e"
  "runtimeState (emit_finished n e) = runtimeState e" "nodeOrder (emit_finished n e) = nodeOrder e"
  by (simp_all add: emit_finished_def engine_simps split: option.split)

lemma node_stopped_fields [engine_simps]:
  "steps (node_stopped now n e) = upd_at n (\<lambda>s. s\<lparr>ns_Status := FAILED,
      ns_Error := Some ''workflow stopped by user'', ns_EndTime := now\<rparr>) (steps e)"
  "isPaused (node_stopped now n e) = isPaused e" "isStopped (node_stopped now n e) = isStopped e"
  "isRunning (node_stopped now n e) = isRunning e" "leaseBucket (node_stopped now n e) = leaseBucket e"
  "maxConcurrency (node_stopped now n e) = maxConcurrency e"
  "runtimeState (node_stopped now n e) = runtimeState e"
  by (simp_all add: node_stopped_def engine_simps)

lemma node_begin_fields [engine_simps]:
  "steps (node_begin now n e) = upd_at n (\<lambda>s. s\<lparr>ns_Status := RUNNING, ns_StartTime := now\<rparr>) (steps e)"
  "isPaused (node_begin now n e) = isPaused e" "isStopped (node_begin now n e) = isStopped e"
  "isRunning (node_begin now n e) = isRunning e" "leaseBucket (node_begin now n e) = leaseBucket e"
  "maxConcurrency (node_begin now n e) = maxConcurrency e"
  "runtimeState (node_begin now n e) = runtimeState e"
  by (simp_all add: node_begin_def Let_def engine_simps split: option.split)

text \<open>Whether an outcome pauses the run.\<close>

definition pauses :: "exec_vars \<Rightarrow> bool" where
  "pauses vars \<longleftrightarrow> (case vars of (Some r, None) \<Rightarrow> r_Status r = PAUSED | _ \<Rightarrow> False)"

lemma node_finish_fields [engine_simps]:
  "steps (node_finish now n vars e) = upd_at n (record_result now vars) (steps e)"
  "isPaused (node_finish now n vars e) \<longleftrightarrow> isPaused e \<or> pauses vars"
  "isStopped (node_finish now n vars e) = isStopped e"
  "isRunning (node_finish now n vars e) = isRunning e"
  "leaseBucket (node_finish now n vars e) = leaseBucket e"
  "maxConcurrency (node_finish now n vars e) = maxConcurrency e"
  by (auto simp: node_finish_def Let_def engine_simps pauses_def split: prod.split option.split)

definition emits_only :: "engine \<Rightarrow> engine \<Rightarrow> bool" where
  "emits_only e e' \<longleftrightarrow> (\<exists>es. e' = e\<lparr>emitted := es\<rparr>)"

lemma emits_only_self [simp]: "emits_only e e"
  unfolding emits_only_def by (rule exI [of _ "emitted e"]) simp

lemma emits_only_emit [simp]: "emits_only e (emit cb ev e)"
  by (simp add: emit_def) (auto simp: emits_only_def)

lemma emits_only_run_completed [simp]: "emits_only e (run_completed_event fmt_v ev rc r e)"
  by (simp add: run_completed_event_def split: option.split)

text \<open>Consuming an event changes nothing of the engine but the list of emitted events.\<close>

lemma consume_event_frame:
  "consume_event fmt_v n ev vars e = Ret (vars', e') \<Longrightarrow> emits_only e e'"
  by (cases "ev_Type ev"; cases "ev_Data ev")
    (auto simp: consume_event_def Let_def split: option.splits event_data.splits if_splits prod.splits)

lemma emits_only_fields:
  assumes "emits_only e e'"
  shows "steps e' = steps e" "isPaused e' = isPaused e" "isStopped e' = isStopped e"
    "isRunning e' = isRunning e" "leaseBucket e' = leaseBucket e" "maxConcurrency e' = maxConcurrency e"
    "runtimeState e' = runtimeState e" "nodeOrder e' = nodeOrder e"
  using assms by (auto simp: emits_only_def)

end
