(* ===== verification/Transition_System.thy ===== *)
theory Transition_System
  imports Main
begin

text \<open>
  The interfaces under which the components that run step by step are reasoned about: an
  invariant of a step relation, and a system that makes progress along a well-founded order.
\<close>

locale step_invariant =
  fixes step :: "'s \<Rightarrow> 's \<Rightarrow> bool" and inv :: "'s \<Rightarrow> bool"
  assumes preserved: "inv s \<Longrightarrow> step s s' \<Longrightarrow> inv s'"
begin

lemma holds_reachable: "step\<^sup>*\<^sup>* s t \<Longrightarrow> inv s \<Longrightarrow> inv t"
  by (induction rule: rtranclp_induct) (auto intro: preserved)

lemma holds_along: "inv (run 0) \<Longrightarrow> (\<And>i. step (run i) (run (Suc i))) \<Longrightarrow> inv (run i)"
  by (induction i) (auto intro: preserved)

end

text \<open>
  Every step goes down in a well-founded relation, and a state that is not final has a step:
  all runs are finite, and every run that cannot be continued has ended in a final state.
\<close>

locale progress_system = step_invariant +
  fixes rel :: "('s \<times> 's) set" and final :: "'s \<Rightarrow> bool"
  assumes wf_rel: "wf rel"
    and decreases: "inv s \<Longrightarrow> step s s' \<Longrightarrow> (s', s) \<in> rel"
    and progress: "inv s \<Longrightarrow> \<not> final s \<Longrightarrow> \<exists>s'. step s s'"
begin

lemma no_infinite_run: "inv (run 0) \<Longrightarrow> \<not> (\<forall>i. step (run i) (run (Suc i)))"
proof
  assume "inv (run 0)" and "\<forall>i. step (run i) (run (Suc i))"
  then have "\<forall>i. (run (Suc i), run i) \<in> rel"
    using holds_along decreases by blast
  with wf_rel show False unfolding wf_iff_no_infinite_down_chain by blast
qed

lemma reaches_final: "inv s \<Longrightarrow> \<exists>t. step\<^sup>*\<^sup>* s t \<and> final t"
proof (induction s rule: wf_induct_rule [OF wf_rel])
  case (1 s)
  show ?case
  proof (cases "final s")
    case True
    then show ?thesis by blast
  next
    case False
    with 1 progress obtain s' where s': "step s s'" by blast
    with 1 decreases preserved have "\<exists>t. step\<^sup>*\<^sup>* s' t \<and> final t" by blast
    with s' show ?thesis by (meson converse_rtranclp_into_rtranclp)
  qed
qed

lemma stuck_is_final: "step\<^sup>*\<^sup>* s t \<Longrightarrow> inv s \<Longrightarrow> (\<And>t'. \<not> step t t') \<Longrightarrow> final t"
  using holds_reachable progress by blast

end

end
