(* ===== verification/Engine_Concurrency.thy ===== *)
theory Engine_Concurrency
  imports Engine_Execution Transition_System
begin

text \<open>
  The loop of \<open>Execute\<close> and the goroutines it starts, as a step relation on interleavings.
  The main goroutine holds the lock of the condition variable \<open>statusChange\<close> except while it
  waits; a node's goroutine runs \<open>executeNode\<close>, takes that lock to signal, and then
  releases its lease. Stopping the engine and cancelling the context are steps of the
  environment.
\<close>

section \<open>The system\<close>

text \<open>
  Where the main goroutine is: about to call \<open>tick\<close>, in the scan (with the nodes still to
  come, \<open>forceTick\<close> and the batch), in \<open>Wait\<close>, woken but not yet holding the lock, in
  \<open>waitGroup.Wait\<close>, or returned.
\<close>

datatype main_pc =
    AtTick
  | Scan "string list" bool "string list"
  | Waiting
  | Woken
  | Draining
  | Returned

text \<open>
  Where the goroutine of a node is: started, consuming events (with those to come, its
  variables, and what the runner will return), about to run the deferred function, about to
  signal, about to release its lease.
\<close>

datatype phase =
    GStarted
  | GRun "node_event_ch list" exec_vars exec_vars
  | GFinish exec_vars
  | GSignal
  | GUnlease

record sys =
  eng :: engine
  pc :: main_pc
  gors :: "(string \<times> phase) list"
  ctxDone :: bool

text \<open>The condition variable wakes the main goroutine if it waits; otherwise the signal is lost.\<close>

definition wake :: "main_pc \<Rightarrow> main_pc" where
  "wake p = (if p = Waiting then Woken else p)"

definition holds_lock :: "main_pc \<Rightarrow> bool" where
  "holds_lock p \<longleftrightarrow> (case p of AtTick \<Rightarrow> True | Scan _ _ _ \<Rightarrow> True | _ \<Rightarrow> False)"

text \<open>
  \<open>runner n evs ret\<close>: the runner may, for node \<open>n\<close>, send the events \<open>evs\<close> and return
  \<open>ret\<close>. A step that would panic does not exist.
\<close>

inductive engine_step ::
  "(string \<Rightarrow> node_event_ch list \<Rightarrow> exec_vars \<Rightarrow> bool) \<Rightarrow> (goval \<Rightarrow> string) \<Rightarrow> sys \<Rightarrow> sys \<Rightarrow> bool"
  for runner fmt_v where
  tick_over:
    "pc s = AtTick \<Longrightarrow> tick_done (ctxDone s) (eng s) \<Longrightarrow>
     engine_step runner fmt_v s (s\<lparr>pc := Draining\<rparr>)"
| tick_scan:
    "pc s = AtTick \<Longrightarrow> \<not> tick_done (ctxDone s) (eng s) \<Longrightarrow>
     set ord = node_ids (steps (eng s)) \<Longrightarrow> distinct ord \<Longrightarrow>
     engine_step runner fmt_v s (s\<lparr>pc := Scan ord False []\<rparr>)"
| scan_node:
    "pc s = Scan (n # todo) force batch \<Longrightarrow>
     tick_node now n (eng s) force batch = Ret (Scanning e' force' batch') \<Longrightarrow>
     engine_step runner fmt_v s (s\<lparr>eng := e', pc := Scan todo force' batch'\<rparr>)"
| scan_paused:
    "pc s = Scan (n # todo) force batch \<Longrightarrow>
     tick_node now n (eng s) force batch = Ret (PausedReturn e') \<Longrightarrow>
     engine_step runner fmt_v s (s\<lparr>eng := e', pc := Draining\<rparr>)"
| scan_end:
    "pc s = Scan [] force batch \<Longrightarrow> startReadyBatch batch (eng s) = Some (e', started) \<Longrightarrow>
     engine_step runner fmt_v s
       (s\<lparr>eng := e', pc := (if force then AtTick else Waiting),
          gors := gors s @ map (\<lambda>n. (n, GStarted)) started\<rparr>)"
| main_locks:
    "pc s = Woken \<Longrightarrow> engine_step runner fmt_v s (s\<lparr>pc := AtTick\<rparr>)"
| main_returns:
    "pc s = Draining \<Longrightarrow> gors s = [] \<Longrightarrow> engine_step runner fmt_v s (s\<lparr>pc := Returned\<rparr>)"
| node_refused:
    "gors s = gs @ (n, GStarted) # hs \<Longrightarrow> isStopped (eng s) \<Longrightarrow>
     engine_step runner fmt_v s
       (s\<lparr>eng := node_stopped now n (eng s), gors := gs @ (n, GUnlease) # hs\<rparr>)"
| node_starts:
    "gors s = gs @ (n, GStarted) # hs \<Longrightarrow> \<not> isStopped (eng s) \<Longrightarrow> runner n evs ret \<Longrightarrow>
     engine_step runner fmt_v s
       (s\<lparr>eng := node_begin now n (eng s), gors := gs @ (n, GRun evs (None, None) ret) # hs\<rparr>)"
| node_event:
    "gors s = gs @ (n, GRun (ev # evs) vars ret) # hs \<Longrightarrow> \<not> isStopped (eng s) \<Longrightarrow>
     consume_event fmt_v n ev vars (eng s) = Ret (vars', e') \<Longrightarrow>
     engine_step runner fmt_v s (s\<lparr>eng := e', gors := gs @ (n, GRun evs vars' ret) # hs\<rparr>)"
| node_interrupted:
    "gors s = gs @ (n, GRun (ev # evs) vars ret) # hs \<Longrightarrow> isStopped (eng s) \<Longrightarrow>
     engine_step runner fmt_v s
       (s\<lparr>eng := node_stopped now n (eng s), gors := gs @ (n, GFinish vars) # hs\<rparr>)"
| node_returns:
    "gors s = gs @ (n, GRun [] vars ret) # hs \<Longrightarrow>
     engine_step runner fmt_v s (s\<lparr>gors := gs @ (n, GFinish (merge_outcome vars ret)) # hs\<rparr>)"
| node_finishes:
    "gors s = gs @ (n, GFinish vars) # hs \<Longrightarrow>
     engine_step runner fmt_v s
       (s\<lparr>eng := node_finish now n vars (eng s), gors := gs @ (n, GSignal) # hs,
          pc := (if pauses vars then wake (pc s) else pc s)\<rparr>)"
| node_signals:
    "gors s = gs @ (n, GSignal) # hs \<Longrightarrow> \<not> holds_lock (pc s) \<Longrightarrow>
     engine_step runner fmt_v s (s\<lparr>gors := gs @ (n, GUnlease) # hs, pc := wake (pc s)\<rparr>)"
| node_unleases:
    "gors s = gs @ (n, GUnlease) # hs \<Longrightarrow> unlease (eng s) = Some e' \<Longrightarrow>
     engine_step runner fmt_v s (s\<lparr>eng := e', gors := gs @ hs\<rparr>)"

text \<open>Steps of the environment: \<open>Stop\<close>, which signals without the lock, and a cancelled context.\<close>

inductive env_step :: "sys \<Rightarrow> sys \<Rightarrow> bool" where
  env_stop: "isRunning (eng s) \<Longrightarrow> env_step s (s\<lparr>eng := Stop (eng s), pc := wake (pc s)\<rparr>)"
| env_stop_idle: "\<not> isRunning (eng s) \<Longrightarrow> env_step s (s\<lparr>eng := Stop (eng s)\<rparr>)"
| env_cancel: "env_step s (s\<lparr>ctxDone := True\<rparr>)"

definition any_step ::
  "(string \<Rightarrow> node_event_ch list \<Rightarrow> exec_vars \<Rightarrow> bool) \<Rightarrow> (goval \<Rightarrow> string) \<Rightarrow> sys \<Rightarrow> sys \<Rightarrow> bool" where
  "any_step runner fmt_v s s' \<longleftrightarrow> engine_step runner fmt_v s s' \<or> env_step s s'"

text \<open>The state in which \<open>Execute\<close> enters its loop.\<close>

definition loop_start :: "engine \<Rightarrow> sys" where
  "loop_start e = \<lparr>eng = e, pc = AtTick, gors = [], ctxDone = False\<rparr>"

fun batch_of :: "main_pc \<Rightarrow> string list" where
  "batch_of (Scan _ _ batch) = batch"
| "batch_of _ = []"

definition finishing :: "main_pc \<Rightarrow> bool" where
  "finishing p \<longleftrightarrow> p = Draining \<or> p = Returned"

lemma finishing_simps [simp]:
  "finishing Draining" "finishing Returned" "\<not> finishing AtTick" "\<not> finishing (Scan todo force batch)"
  "\<not> finishing Waiting" "\<not> finishing Woken"
  by (simp_all add: finishing_def)

section \<open>Leases\<close>

text \<open>
  Every goroutine and every node of the batch holds a lease, and while the loop runs there are
  no other leases. (A tick that is left because of a pause drops its batch: then the leases of
  the batch stay taken.)
\<close>

definition lease_inv :: "int \<Rightarrow> sys \<Rightarrow> bool" where
  "lease_inv cap s \<longleftrightarrow>
     maxConcurrency (eng s) = cap \<and>
     (case leaseBucket (eng s) of
        None \<Rightarrow> False
      | Some k \<Rightarrow>
          k \<le> nat cap \<and> length (gors s) + length (batch_of (pc s)) \<le> k \<and>
          (finishing (pc s) \<or> length (gors s) + length (batch_of (pc s)) = k))"

lemma lease_inv_iff:
  "lease_inv cap s \<longleftrightarrow> maxConcurrency (eng s) = cap \<and>
     (\<exists>k. leaseBucket (eng s) = Some k \<and> k \<le> nat cap \<and> length (gors s) + length (batch_of (pc s)) \<le> k \<and>
       (finishing (pc s) \<or> length (gors s) + length (batch_of (pc s)) = k))"
  by (auto simp: lease_inv_def split: option.split)

lemma tick_node_lease:
  assumes "tick_node now n e force batch = Ret (Scanning e' force' batch')"
  shows "maxConcurrency e' = maxConcurrency e"
    and "leaseBucket e = Some k \<Longrightarrow> leaseBucket e' = Some (k + (length batch' - length batch))"
    and "length batch \<le> length batch'"
    and "leaseBucket e = Some k \<Longrightarrow> length batch < length batch' \<Longrightarrow>
      length batch' = Suc (length batch) \<and> k < nat (maxConcurrency e)"
proof -
  have "maxConcurrency e' = maxConcurrency e \<and> length batch \<le> length batch'
    \<and> (leaseBucket e = Some k \<longrightarrow> leaseBucket e' = Some (k + (length batch' - length batch))
      \<and> (length batch < length batch' \<longrightarrow> length batch' = Suc (length batch) \<and> k < nat (maxConcurrency e)))"
    using assms
    by (auto simp: tick_node_def skip_node_def lease_def claimNodeForExecution_def engine_simps
        split: if_splits option.splits go.splits bool.splits)
  then show "maxConcurrency e' = maxConcurrency e"
    and "leaseBucket e = Some k \<Longrightarrow> leaseBucket e' = Some (k + (length batch' - length batch))"
    and "length batch \<le> length batch'"
    and "leaseBucket e = Some k \<Longrightarrow> length batch < length batch' \<Longrightarrow>
      length batch' = Suc (length batch) \<and> k < nat (maxConcurrency e)"
    by blast+
qed

lemma tick_node_paused: "tick_node now n e force batch = Ret (PausedReturn e') \<Longrightarrow> e' = e \<and> isPaused e"
  by (auto simp: tick_node_def split: if_splits option.splits go.splits bool.splits prod.splits)

lemma rollback_batch_fields:
  "rollback_batch ns e = Some e' \<Longrightarrow>
   maxConcurrency e' = maxConcurrency e \<and> isStopped e' = isStopped e \<and> isPaused e' = isPaused e
   \<and> (\<forall>k. leaseBucket e = Some k \<longrightarrow> leaseBucket e' = Some (k - length ns) \<and> length ns \<le> k)"
proof (induction ns arbitrary: e)
  case (Cons n ns)
  let ?f = "\<lambda>s. if ns_Status s = RUNNING then s\<lparr>ns_Status := PENDING\<rparr> else s"
  from Cons.prems obtain e1 where e1: "unlease (upd_node n ?f e) = Some e1" "rollback_batch ns e1 = Some e'"
    by (auto split: option.splits)
  then have "maxConcurrency e1 = maxConcurrency e \<and> isStopped e1 = isStopped e \<and> isPaused e1 = isPaused e
    \<and> (\<forall>k. leaseBucket e = Some k \<longrightarrow> leaseBucket e1 = Some (k - 1) \<and> k \<noteq> 0)"
    by (auto simp: unlease_def engine_simps split: option.splits if_splits)
  with Cons.IH [OF e1(2)] show ?case by auto
qed simp

lemma rollback_batch_total:
  "leaseBucket e = Some k \<Longrightarrow> length ns \<le> k \<Longrightarrow> \<exists>e'. rollback_batch ns e = Some e'"
proof (induction ns arbitrary: e k)
  case (Cons n ns)
  let ?f = "\<lambda>s. if ns_Status s = RUNNING then s\<lparr>ns_Status := PENDING\<rparr> else s"
  let ?e1 = "(upd_node n ?f e)\<lparr>leaseBucket := Some (k - 1)\<rparr>"
  have "unlease (upd_node n ?f e) = Some ?e1"
    using Cons.prems by (simp add: unlease_def engine_simps)
  moreover have "\<exists>e'. rollback_batch ns ?e1 = Some e'"
    using Cons.prems by (intro Cons.IH [of _ "k - 1"]) auto
  ultimately show ?case by auto
qed simp

lemma length_slice_stable [simp]: "length (slice_stable (batch_less order) xs) = length xs"
  and set_slice_stable [simp]: "set (slice_stable (batch_less order) xs) = set xs"
  and distinct_slice_stable [simp]: "distinct (slice_stable (batch_less order) xs) = distinct xs"
  by (simp_all add: slice_stable_batch)

lemma startReadyBatch_cases:
  assumes "startReadyBatch batch e = Some (e', started)"
  obtains (rollback) ns where "isPaused e" "started = []" "rollback_batch ns e = Some e'" "set ns = set batch"
      "length ns = length batch" "distinct ns = distinct batch"
  | (start) es where "batch = [] \<or> \<not> isPaused e" "e' = e\<lparr>emitted := es\<rparr>" "set started = set batch"
      "length started = length batch" "distinct started = distinct batch"
proof (cases "batch = [] \<or> \<not> isPaused e")
  case True
  have "\<exists>es. e' = e\<lparr>emitted := es\<rparr>"
    using True assms emits_only_emit [of e] emits_only_self [of e]
    unfolding startReadyBatch_def emits_only_def by (fastforce simp: Let_def split: if_splits)
  moreover have "set started = set batch" "length started = length batch" "distinct started = distinct batch"
    using True assms by (auto simp: startReadyBatch_def Let_def split: if_splits)
  ultimately show ?thesis using True start by blast
next
  case False
  with assms show ?thesis
    by (intro rollback [of "slice_stable (batch_less (nodeOrder e)) batch"])
      (auto simp: startReadyBatch_def Let_def)
qed

lemma batch_of_wake [simp]: "batch_of (wake p) = batch_of p"
  and finishing_wake [simp]: "finishing (wake p) = finishing p"
  by (auto simp: wake_def finishing_def)

lemma lease_inv_startReadyBatch:
  assumes inv: "lease_inv cap s" and pc: "pc s = Scan [] force batch"
    and start: "startReadyBatch batch (eng s) = Some (e', started)"
    and p: "batch_of p = []"
  shows "lease_inv cap (s\<lparr>eng := e', pc := p, gors := gors s @ map (\<lambda>n. (n, GStarted)) started\<rparr>)"
proof -
  from inv pc obtain k where k: "leaseBucket (eng s) = Some k" "k \<le> nat cap"
    "length (gors s) + length batch = k" "maxConcurrency (eng s) = cap"
    by (auto simp: lease_inv_iff finishing_def)
  from start show ?thesis
  proof (cases rule: startReadyBatch_cases)
    case (rollback ns)
    from rollback_batch_fields [OF this(3)] k(1,4)
    have "leaseBucket e' = Some (k - length batch)" "maxConcurrency e' = cap"
      using rollback(5) by simp_all
    moreover have "k - length batch = length (gors s)" "length (gors s) \<le> nat cap"
      using k(2,3) by simp_all
    ultimately show ?thesis using p rollback(2) by (simp add: lease_inv_iff)
  next
    case (start es)
    with k p show ?thesis by (auto simp: lease_inv_iff)
  qed
qed

lemma lease_inv_step:
  assumes "lease_inv cap s" and "engine_step runner fmt_v s s'"
  shows "lease_inv cap s'"
  using assms(2,1)
proof cases
  case (scan_node n todo force batch now e' force' batch')
  from assms(1) scan_node(2) obtain k where k: "leaseBucket (eng s) = Some k" "k \<le> nat cap"
    "length (gors s) + length batch = k" "maxConcurrency (eng s) = cap"
    by (auto simp: lease_inv_iff finishing_def)
  note t = tick_node_lease [OF scan_node(3)]
  have "k + (length batch' - length batch) \<le> nat cap"
    using t(4) [OF k(1)] k by (cases "length batch < length batch'") auto
  moreover have "length (gors s) + length batch' = k + (length batch' - length batch)"
    using t(3) k(3) by simp
  ultimately show ?thesis
    using t(1) t(2) [OF k(1)] k(4) scan_node(1) by (simp add: lease_inv_iff finishing_def)
next
  case (scan_paused n todo force batch now e')
  with assms(1) tick_node_paused [OF scan_paused(3)] show ?thesis
    by (auto simp: lease_inv_iff finishing_def)
next
  case (scan_end force batch e' started)
  with assms(1) show ?thesis by (auto intro!: lease_inv_startReadyBatch)
next
  case (node_event gs n ev evs vars ret hs vars' e')
  with assms(1) emits_only_fields [OF consume_event_frame [OF node_event(4)]] show ?thesis
    by (auto simp: lease_inv_iff)
next
  case (node_unleases gs n hs e')
  from assms(1) node_unleases(2) obtain k where k: "leaseBucket (eng s) = Some (Suc k)" "Suc k \<le> nat cap"
    "length gs + length hs + length (batch_of (pc s)) \<le> k" "maxConcurrency (eng s) = cap"
    "finishing (pc s) \<or> length gs + length hs + length (batch_of (pc s)) = k"
    by (auto simp: lease_inv_iff Suc_le_eq dest!: less_imp_Suc_add)
  with node_unleases(1,3) show ?thesis by (auto simp: lease_inv_iff unlease_def)
qed (use assms(1) in \<open>auto simp: lease_inv_iff engine_simps\<close>)

lemma lease_inv_env: "lease_inv cap s \<Longrightarrow> env_step s s' \<Longrightarrow> lease_inv cap s'"
  by (auto elim!: env_step.cases simp: lease_inv_iff Stop_def)

interpretation leases: step_invariant "any_step runner fmt_v" "lease_inv cap"
  for runner fmt_v cap
  by unfold_locales (auto simp: any_step_def intro: lease_inv_step lease_inv_env)

end
