(* ===== verification/Engine_Safety.thy ===== *)
theory Engine_Safety
  imports Engine_Concurrency
begin

text \<open>
  What holds in every state of a run that nobody stops, provided the node runner reports
  results with a final status only: which goroutine a running node has, that a node runs only
  after all its upstreams are over, and that branches are routed by the final states of the
  upstreams.
\<close>

section \<open>Outcomes\<close>

text \<open>
  \<open>A\<close> is the set of statuses that results have. An event that stands for a result carries one,
  and no event carries a nil pointer.
\<close>

definition result_ok :: "exec_status set \<Rightarrow> run_result option \<Rightarrow> bool" where
  "result_ok A r \<longleftrightarrow> (case r of None \<Rightarrow> True | Some r \<Rightarrow> r_Status r \<in> A)"

definition event_ok :: "exec_status set \<Rightarrow> node_event_ch \<Rightarrow> bool" where
  "event_ok A ev \<longleftrightarrow>
     (case ev_Data ev of
        Some (DRunCompleted d) \<Rightarrow>
          (case d of
             None \<Rightarrow> False
           | Some rc \<Rightarrow> (case rc_RunResult rc of
                           None \<Rightarrow> ev_Type ev \<noteq> EventTypeRunCompleted
                         | Some r \<Rightarrow> ev_Type ev = EventTypeRunCompleted \<longrightarrow> r_Status r \<in> A))
      | Some (DRunFailed d) \<Rightarrow> (case d of None \<Rightarrow> False | Some r \<Rightarrow> result_ok A r)
      | Some (DStreamChunk d) \<Rightarrow> d \<noteq> None
      | Some (DReadyBatch d) \<Rightarrow> d \<noteq> None
      | _ \<Rightarrow> True)"

definition runner_ok ::
  "exec_status set \<Rightarrow> (string \<Rightarrow> node_event_ch list \<Rightarrow> exec_vars \<Rightarrow> bool) \<Rightarrow> bool" where
  "runner_ok A runner \<longleftrightarrow>
     (\<forall>n evs ret. runner n evs ret \<longrightarrow> list_all (event_ok A) evs \<and> result_ok A (fst ret))"

lemma consume_event_ok:
  assumes "event_ok A ev" and "result_ok A (fst vars)"
  shows "\<exists>vars' e'. consume_event fmt_v n ev vars e = Ret (vars', e') \<and> result_ok A (fst vars')"
  using assms
  by (cases "ev_Type ev"; cases "ev_Data ev"; cases vars)
    (auto simp: consume_event_def Let_def event_ok_def result_ok_def
      split: option.splits event_data.splits)

lemma consume_event_result:
  assumes "consume_event fmt_v n ev vars e = Ret (vars', e')" "event_ok A ev" "result_ok A (fst vars)"
  shows "result_ok A (fst vars')"
  using consume_event_ok [OF assms(2,3), of fmt_v n e] assms(1) by auto

lemma merge_outcome_ok: "result_ok A (fst vars) \<Longrightarrow> result_ok A (fst ret) \<Longrightarrow> result_ok A (fst (merge_outcome vars ret))"
  by (auto simp: merge_outcome_def result_ok_def split: option.splits)

lemma final_status_ok:
  assumes "result_ok A (fst vars)" shows "final_status vars \<in> A \<union> {SUCCEEDED, FAILED}"
  using assms by (cases vars) (auto simp: final_status_def result_ok_def split: option.splits)

section \<open>The invariant\<close>

definition phase_ok :: "exec_status set \<Rightarrow> node_state \<Rightarrow> phase \<Rightarrow> bool" where
  "phase_ok A st ph \<longleftrightarrow>
     (case ph of
        GStarted \<Rightarrow> ns_Status st = RUNNING
      | GRun evs vars ret \<Rightarrow>
          ns_Status st = RUNNING \<and> list_all (event_ok A) evs \<and> result_ok A (fst vars) \<and> result_ok A (fst ret)
      | GFinish vars \<Rightarrow> ns_Status st = RUNNING \<and> result_ok A (fst vars)
      | GSignal \<Rightarrow> isStatusTerminated (ns_Status st)
      | GUnlease \<Rightarrow> isStatusTerminated (ns_Status st))"

text \<open>The routing of a node that is no longer pending.\<close>

definition routed :: "exec_status set \<Rightarrow> step_map \<Rightarrow> node_state \<Rightarrow> bool" where
  "routed A sts st \<longleftrightarrow>
     (ns_Status st \<noteq> PENDING \<longrightarrow> ups_terminated sts st) \<and>
     (ns_Status st \<noteq> PENDING \<and> ns_Status st \<noteq> SKIPPED \<longrightarrow> enabled sts st) \<and>
     (ns_Status st = SKIPPED \<and> SKIPPED \<notin> A \<longrightarrow> \<not> enabled sts st)"

text \<open>A node and its goroutine \<open>g\<close>, if it has one.\<close>

definition node_ok :: "exec_status set \<Rightarrow> main_pc \<Rightarrow> string \<Rightarrow> phase option \<Rightarrow> node_state \<Rightarrow> bool" where
  "node_ok A p n g st \<longleftrightarrow>
     (case g of
        Some ph \<Rightarrow> phase_ok A st ph
      | None \<Rightarrow>
          if n \<in> set (batch_of p) then ns_Status st = RUNNING
          else ns_Status st = PENDING \<or> (ns_Status st = RUNNING \<and> finishing p)
               \<or> isStatusTerminated (ns_Status st))"

definition run_inv :: "exec_status set \<Rightarrow> sys \<Rightarrow> bool" where
  "run_inv A s \<longleftrightarrow>
     steps_wf (steps (eng s)) \<and> \<not> isStopped (eng s) \<and>
     distinct (map fst (gors s) @ batch_of (pc s)) \<and>
     set (map fst (gors s) @ batch_of (pc s)) \<subseteq> node_ids (steps (eng s)) \<and>
     (\<forall>n st. map_of (steps (eng s)) n = Some st \<longrightarrow>
        node_ok A (pc s) n (map_of (gors s) n) st \<and> routed A (steps (eng s)) st)"

lemma node_ok_cong:
  "(n \<in> set (batch_of p') \<longleftrightarrow> n \<in> set (batch_of p)) \<Longrightarrow> finishing p' = finishing p \<Longrightarrow>
   node_ok A p' n g st = node_ok A p n g st"
  by (cases g) (simp_all add: node_ok_def)

lemma node_ok_finish:
  "node_ok A p n g st \<Longrightarrow> finishing p' \<Longrightarrow> batch_of p' = [] \<Longrightarrow> node_ok A p' n g st"
  by (auto simp: node_ok_def split: option.splits if_splits)

lemma routed_agree:
  "agree_on_terminated sts sts' \<Longrightarrow> routed A sts st \<Longrightarrow> routed A sts' st"
  using ups_terminated_agree [of sts sts' st] by (auto simp: routed_def)

lemma map_of_phase:
  assumes "distinct (map fst (gs @ (n, ph) # hs))"
  shows "map_of (gs @ (n, ph) # hs) n = Some ph"
    and "map_of (gs @ (n, ph') # hs) m = (if m = n then Some ph' else map_of (gs @ (n, ph) # hs) m)"
    and "map_of (gs @ hs) m = (if m = n then None else map_of (gs @ (n, ph) # hs) m)"
proof -
  have no: "map_of gs n = None" "map_of hs n = None"
    using assms by (auto simp: map_of_eq_None_iff)
  then show "map_of (gs @ (n, ph) # hs) n = Some ph"
    and "map_of (gs @ (n, ph') # hs) m = (if m = n then Some ph' else map_of (gs @ (n, ph) # hs) m)"
    and "map_of (gs @ hs) m = (if m = n then None else map_of (gs @ (n, ph) # hs) m)"
    by (auto simp: map_add_def split: option.split)
qed

text \<open>
  A step of the goroutine of node \<open>n\<close>, from phase \<open>ph\<close> to \<open>ph'\<close>: it may change the state of
  \<open>n\<close> only, by \<open>f\<close>, and not once \<open>n\<close> is over.
\<close>

lemma run_inv_phase:
  assumes inv: "run_inv A s" and g: "gors s = gs @ (n, ph) # hs"
    and s': "gors s' = gs @ (n, ph') # hs" "batch_of (pc s') = batch_of (pc s)"
      "finishing (pc s') = finishing (pc s)" "\<not> isStopped (eng s')"
      "steps (eng s') = upd_at n f (steps (eng s))"
    and edges: "\<And>st. ns_Upstreams (f st) = ns_Upstreams st" "\<And>st. ns_UpstreamEdges (f st) = ns_UpstreamEdges st"
    and f: "\<And>st. phase_ok A st ph \<Longrightarrow> routed A (steps (eng s)) st \<Longrightarrow>
      phase_ok A (f st) ph' \<and> routed A (steps (eng s)) (f st)"
    and over: "\<And>st. phase_ok A st ph \<Longrightarrow> isStatusTerminated (ns_Status st) \<Longrightarrow> f st = st"
  shows "run_inv A s'"
proof -
  let ?sts = "steps (eng s)"
  have d: "distinct (map fst (gs @ (n, ph) # hs))" using inv g by (auto simp: run_inv_def)
  have ok: "node_ok A (pc s) m (map_of (gors s) m) st \<and> routed A ?sts st"
    if "map_of ?sts m = Some st" for m st
    using inv that by (simp add: run_inv_def)
  have agree: "agree_on_terminated ?sts (upd_at n f ?sts)"
  proof (unfold agree_on_terminated_def, intro allI impI)
    fix u assume "terminated ?sts u"
    then obtain st where st: "map_of ?sts u = Some st" "isStatusTerminated (ns_Status st)"
      by (auto simp: terminated_def split: option.splits)
    show "map_of (upd_at n f ?sts) u = map_of ?sts u"
    proof (cases "u = n")
      case True
      with ok [OF st(1)] map_of_phase(1) [OF d] g have "phase_ok A st ph" by (simp add: node_ok_def)
      with st True over show ?thesis by simp
    qed (use st in simp)
  qed
  have "node_ok A (pc s') m (map_of (gors s') m) st' \<and> routed A (upd_at n f ?sts) st'"
    if m: "map_of (upd_at n f ?sts) m = Some st'" for m st'
  proof (cases "m = n")
    case True
    with m obtain st where st: "map_of ?sts n = Some st" "st' = f st" by auto
    with ok [OF st(1)] map_of_phase(1) [OF d] g have "phase_ok A st ph" "routed A ?sts st"
      by (simp_all add: node_ok_def)
    with f st have "phase_ok A st' ph'" "routed A ?sts st'" by simp_all
    moreover have "map_of (gors s') n = Some ph'" using s'(1) map_of_phase(2) [OF d, of ph' n] by simp
    ultimately show ?thesis using True routed_agree [OF agree] by (simp add: node_ok_def)
  next
    case False
    with m ok have "node_ok A (pc s) m (map_of (gors s) m) st'" "routed A ?sts st'" by simp_all
    moreover have "map_of (gors s') m = map_of (gors s) m"
      using False s'(1) g map_of_phase(2) [OF d, of ph' m] by simp
    ultimately show ?thesis
      using routed_agree [OF agree] node_ok_cong [of m "pc s'" "pc s"] s'(2,3) by simp
  qed
  moreover have "steps_wf (steps (eng s'))"
    using inv edges by (simp add: s'(5) steps_wf_upd_at run_inv_def)
  ultimately show ?thesis using inv g s'(1,2,4,5) by (simp add: run_inv_def)
qed

text \<open>A step of the main goroutine that leaves the nodes alone.\<close>

lemma run_inv_pc:
  assumes inv: "run_inv A s" and "batch_of p = batch_of (pc s)" "finishing p = finishing (pc s)"
  shows "run_inv A (s\<lparr>pc := p\<rparr>)"
  using inv node_ok_cong [of _ p "pc s"] assms(2,3) by (simp add: run_inv_def)

lemma run_inv_drain:
  assumes inv: "run_inv A s" and "finishing p" "batch_of p = []"
  shows "run_inv A (s\<lparr>pc := p\<rparr>)"
  using inv node_ok_finish [of A "pc s" _ _ _ p] assms(2,3) by (simp add: run_inv_def)

section \<open>Steps of the scheduler\<close>

text \<open>A pending node that becomes skipped or claimed in the scan.\<close>

lemma run_inv_scan_update:
  assumes inv: "run_inv A s" and st: "map_of (steps (eng s)) n = Some st" "ns_Status st = PENDING"
    and s': "gors s' = gors s" "\<not> isStopped (eng s')" "steps (eng s') = upd_at n f (steps (eng s))"
      "batch_of (pc s') = batch_of (pc s) @ (if ns_Status (f st) = RUNNING then [n] else [])"
      "finishing (pc s') = finishing (pc s)"
    and edges: "\<And>st. ns_Upstreams (f st) = ns_Upstreams st" "\<And>st. ns_UpstreamEdges (f st) = ns_UpstreamEdges st"
    and new: "ns_Status (f st) = RUNNING \<or> isStatusTerminated (ns_Status (f st))" "routed A (steps (eng s)) (f st)"
  shows "run_inv A s'"
proof -
  let ?sts = "steps (eng s)"
  have ok: "node_ok A (pc s) m (map_of (gors s) m) st \<and> routed A ?sts st"
    if "map_of ?sts m = Some st" for m st
    using inv that by (simp add: run_inv_def)
  have idle: "map_of (gors s) n = None" "n \<notin> set (batch_of (pc s))"
    using ok [OF st(1)] st(2)
    by (auto simp: node_ok_def phase_ok_def isStatusTerminated_def split: option.splits phase.splits if_splits)
  then have ng: "n \<notin> fst ` set (gors s)" by (simp add: map_of_eq_None_iff)
  have agree: "agree_on_terminated ?sts (upd_at n f ?sts)"
    by (rule agree_upd_at) (simp add: terminated_def st isStatusTerminated_def)
  have "node_ok A (pc s') m (map_of (gors s') m) st' \<and> routed A (upd_at n f ?sts) st'"
    if m: "map_of (upd_at n f ?sts) m = Some st'" for m st'
  proof (cases "m = n")
    case True
    with m st have "st' = f st" by simp
    with True idle new s'(1,4) routed_agree [OF agree new(2)] show ?thesis
      by (auto simp: node_ok_def)
  next
    case False
    with m ok have "node_ok A (pc s) m (map_of (gors s) m) st'" "routed A ?sts st'" by simp_all
    with False show ?thesis
      using routed_agree [OF agree] node_ok_cong [of m "pc s'" "pc s"] s'(1,4,5) by simp
  qed
  moreover have "steps_wf (steps (eng s'))"
    using inv edges by (simp add: s'(3) steps_wf_upd_at run_inv_def)
  moreover have "n \<in> node_ids ?sts" using st(1) by (auto simp: node_ids_iff)
  ultimately show ?thesis using inv idle ng s'(1-4) by (simp add: run_inv_def)
qed

lemma run_inv_scan_node:
  assumes inv: "run_inv A s" and pc: "pc s = Scan (n # todo) force batch"
    and t: "tick_node now n (eng s) force batch = Ret (Scanning e' force' batch')"
  shows "run_inv A (s\<lparr>eng := e', pc := Scan todo force' batch'\<rparr>)"
proof -
  have wf: "steps_wf (steps (eng s))" using inv by (simp add: run_inv_def)
  from t obtain st where st: "map_of (steps (eng s)) n = Some st"
    by (auto simp: tick_node_def split: if_splits option.splits)
  note eq = tick_node_eq [OF wf st, of now force batch, unfolded t]
  have same: "run_inv A (s\<lparr>eng := eng s, pc := Scan todo force batch\<rparr>)"
    using run_inv_pc [OF inv, of "Scan todo force batch"] pc by simp
  consider (idle) "e' = eng s" "force' = force" "batch' = batch"
    | (skip) "e' = skip_node now n st (eng s)" "batch' = batch" "ns_Status st = PENDING"
        "ups_terminated (steps (eng s)) st" "\<not> enabled (steps (eng s)) st"
    | (claim) "e' = upd_node n (\<lambda>s. s\<lparr>ns_Status := RUNNING\<rparr>) (snd (lease (eng s)))" "batch' = batch @ [n]"
        "ns_Status st = PENDING" "ups_terminated (steps (eng s)) st" "enabled (steps (eng s)) st"
    using eq by (auto split: if_splits)
  then show ?thesis
  proof cases
    case idle
    with same show ?thesis by simp
  next
    case skip
    let ?f = "\<lambda>s. s\<lparr>ns_Status := SKIPPED, ns_Outputs := Some [], ns_EndTime := now\<rparr>"
    have "routed A (steps (eng s)) (?f st)"
      using skip by (simp add: routed_def ups_terminated_cong [of "?f st" st] enabled_cong [of "?f st" st])
    with skip pc inv show ?thesis
      by (intro run_inv_scan_update [OF inv st, where f = ?f])
        (auto simp: skip_node_def engine_simps isStatusTerminated_def run_inv_def)
  next
    case claim
    let ?f = "\<lambda>s. s\<lparr>ns_Status := RUNNING\<rparr>"
    have l: "steps (snd (lease (eng s))) = steps (eng s)" "isStopped (snd (lease (eng s))) = isStopped (eng s)"
      by (auto simp: lease_def split: option.split)
    have "routed A (steps (eng s)) (?f st)"
      using claim by (simp add: routed_def ups_terminated_cong [of "?f st" st] enabled_cong [of "?f st" st])
    with claim pc inv l show ?thesis
      by (intro run_inv_scan_update [OF inv st, where f = ?f])
        (auto simp: engine_simps run_inv_def)
  qed
qed

definition unclaim :: "node_state \<Rightarrow> node_state" where
  "unclaim s = (if ns_Status s = RUNNING then s\<lparr>ns_Status := PENDING\<rparr> else s)"

lemma unclaim_fields [simp]:
  "ns_Upstreams (unclaim s) = ns_Upstreams s" "ns_UpstreamEdges (unclaim s) = ns_UpstreamEdges s"
  by (simp_all add: unclaim_def)

lemma node_wf_unclaim [simp]: "node_wf ids (unclaim s) = node_wf ids s"
  by (simp add: node_wf_def edge_handles_def)

lemma rollback_batch_steps:
  "rollback_batch ns e = Some e' \<Longrightarrow> distinct ns \<Longrightarrow>
   map_of (steps e') m = (if m \<in> set ns then map_option unclaim (map_of (steps e) m) else map_of (steps e) m)
   \<and> map fst (steps e') = map fst (steps e)"
proof (induction ns arbitrary: e)
  case (Cons n ns)
  from Cons.prems obtain e1 where e1: "unlease (upd_node n unclaim e) = Some e1" "rollback_batch ns e1 = Some e'"
    by (auto simp: unclaim_def [abs_def] split: option.splits)
  then have "steps e1 = upd_at n unclaim (steps e)"
    by (auto simp: unlease_def engine_simps split: option.splits if_splits)
  with Cons.IH [OF e1(2)] Cons.prems show ?case by auto
qed simp

lemma run_inv_scan_end:
  assumes inv: "run_inv A s" and pc: "pc s = Scan [] force batch" and p: "batch_of p = []" "\<not> finishing p"
    and start: "startReadyBatch batch (eng s) = Some (e', started)"
  shows "run_inv A (s\<lparr>eng := e', pc := p, gors := gors s @ map (\<lambda>n. (n, GStarted)) started\<rparr>)"
proof -
  let ?sts = "steps (eng s)"
  have wf: "steps_wf ?sts" and d: "distinct (map fst (gors s) @ batch)"
    and sub: "set (map fst (gors s) @ batch) \<subseteq> node_ids ?sts" and stop: "\<not> isStopped (eng s)"
    using inv pc by (simp_all add: run_inv_def)
  have ok: "node_ok A (Scan [] force batch) m (map_of (gors s) m) st \<and> routed A ?sts st"
    if "map_of ?sts m = Some st" for m st
    using inv that pc by (simp add: run_inv_def)
  have batch: "map_of (gors s) m = None" if "m \<in> set batch" for m
    using d that by (auto simp: map_of_eq_None_iff)
  from start show ?thesis
  proof (cases rule: startReadyBatch_cases)
    case (rollback ns)
    have dn: "distinct ns" using d rollback(6) by simp
    note r = rollback_batch_steps [OF rollback(3) dn]
    have agree: "agree_on_terminated ?sts (steps e')"
    proof (unfold agree_on_terminated_def, intro allI impI)
      fix u assume "terminated ?sts u"
      then obtain st where st: "map_of ?sts u = Some st" "isStatusTerminated (ns_Status st)"
        by (auto simp: terminated_def split: option.splits)
      then show "map_of (steps e') u = map_of ?sts u"
        using r [of u] by (auto simp: unclaim_def isStatusTerminated_def)
    qed
    have "node_ok A p m (map_of (gors s) m) st' \<and> routed A (steps e') st'"
      if m: "map_of (steps e') m = Some st'" for m st'
    proof (cases "m \<in> set ns")
      case True
      with m r [of m] obtain st where st: "map_of ?sts m = Some st" "st' = unclaim st" by auto
      with ok [OF st(1)] batch [of m] True rollback(4) have "ns_Status st' = PENDING"
        by (auto simp: node_ok_def unclaim_def)
      with True rollback(4) batch [of m] p show ?thesis by (simp add: node_ok_def routed_def)
    next
      case False
      with m r [of m] have st': "map_of ?sts m = Some st'" by simp
      have "node_ok A p m (map_of (gors s) m) st'"
        using ok [OF st'] False rollback(4) p by (cases "map_of (gors s) m") (auto simp: node_ok_def)
      with ok [OF st'] routed_agree [OF agree] show ?thesis by simp
    qed
    moreover have "node_ids (steps e') = node_ids ?sts" using r by (simp add: node_ids_def)
    moreover have "steps_wf (steps e')"
    proof -
      have "node_wf (node_ids ?sts) st'" if m: "map_of (steps e') m = Some st'" for m st'
      proof -
        from m r [of m] obtain st where st: "map_of ?sts m = Some st" "st' = unclaim st \<or> st' = st"
          by (auto split: if_splits)
        moreover have "node_wf (node_ids ?sts) st" using wf st(1) unfolding steps_wf_iff by blast
        ultimately show ?thesis by auto
      qed
      with wf r show ?thesis by (simp add: steps_wf_iff node_ids_def)
    qed
    ultimately show ?thesis
      using d sub stop p rollback(2) rollback_batch_fields [OF rollback(3)] by (simp add: run_inv_def)
  next
    case (start es)
    have new: "map_of (gors s @ map (\<lambda>n. (n, GStarted)) started) m =
        (if m \<in> set batch then Some GStarted else map_of (gors s) m)" for m
    proof -
      have "map_of (map (\<lambda>n. (n, GStarted)) started) m = (if m \<in> set started then Some GStarted else None)"
        by (induction started) auto
      with start(3) batch [of m] show ?thesis by (auto simp: map_add_def split: option.split)
    qed
    have "node_ok A p m (map_of (gors s @ map (\<lambda>n. (n, GStarted)) started) m) st"
      if "map_of ?sts m = Some st" for m st
      using ok [OF that] batch [of m] p unfolding new
      by (cases "map_of (gors s) m") (auto simp: node_ok_def phase_ok_def)
    moreover have "map (fst \<circ> (\<lambda>n. (n, GStarted))) started = started" by (simp add: comp_def)
    ultimately show ?thesis
      using d sub stop wf p start ok by (auto simp: run_inv_def)
  qed
qed

section \<open>The invariant is kept\<close>

lemma record_result_fields [simp]:
  "ns_Upstreams (record_result now vars st) = ns_Upstreams st"
  "ns_UpstreamEdges (record_result now vars st) = ns_UpstreamEdges st"
  "ns_Status (record_result now vars st) = final_status vars"
  by (auto simp: record_result_def copy_result_def split: option.split)

lemma routed_status:
  assumes "routed A sts st" "ns_Status st = RUNNING" "ns_Upstreams st' = ns_Upstreams st"
    "ns_UpstreamEdges st' = ns_UpstreamEdges st" "ns_Status st' = SKIPPED \<longrightarrow> SKIPPED \<in> A"
  shows "routed A sts st'"
  using assms ups_terminated_cong [of st' st] enabled_cong [of st' st] by (auto simp: routed_def)

lemma upd_at_id: "upd_at n (\<lambda>st. st) m = m"
  by (induction m) (auto simp: upd_at_def)

lemma run_inv_step:
  assumes A: "A \<subseteq> Collect isStatusTerminated" and runner: "runner_ok A runner"
    and inv: "run_inv A s" and step: "engine_step runner fmt_v s s'"
  shows "run_inv A s'"
proof -
  have stop: "\<not> isStopped (eng s)" using inv by (simp add: run_inv_def)
  note simps = engine_simps phase_ok_def isStatusTerminated_def upd_at_id
  note phase = run_inv_phase [OF inv, where f = "\<lambda>st. st"]
  from step show ?thesis
  proof cases
    case tick_over
    with inv show ?thesis by (auto intro: run_inv_drain)
  next
    case (tick_scan ord)
    with inv show ?thesis by (auto intro: run_inv_pc)
  next
    case (scan_node n todo force batch now e' force' batch')
    with inv show ?thesis by (auto intro: run_inv_scan_node)
  next
    case (scan_paused n todo force batch now e')
    with run_inv_drain [OF inv, of Draining] tick_node_paused [OF scan_paused(3)] show ?thesis by simp
  next
    case (scan_end force batch e' started)
    with inv show ?thesis by (auto intro!: run_inv_scan_end)
  next
    case main_locks
    with inv show ?thesis by (auto intro: run_inv_pc)
  next
    case main_returns
    with inv show ?thesis by (auto intro: run_inv_drain)
  next
    case (node_refused gs n hs now)
    with stop show ?thesis by simp
  next
    case (node_starts gs n hs evs ret now)
    with runner have "list_all (event_ok A) evs" "result_ok A (fst ret)" unfolding runner_ok_def by blast+
    with node_starts stop show ?thesis
      by (intro run_inv_phase [OF inv node_starts(2),
            where f = "\<lambda>s. s\<lparr>ns_Status := RUNNING, ns_StartTime := now\<rparr>"])
        (auto simp: simps result_ok_def [of _ None] intro: routed_status)
  next
    case (node_event gs n ev evs vars ret hs vars' e')
    note fr = emits_only_fields [OF consume_event_frame [OF node_event(4)]]
    from node_event fr stop consume_event_result [OF node_event(4), of A] show ?thesis
      by (intro phase [OF node_event(2)]) (auto simp: simps)
  next
    case (node_interrupted gs n ev evs vars ret hs now)
    with stop show ?thesis by simp
  next
    case (node_returns gs n vars ret hs)
    with stop show ?thesis
      by (intro phase [OF node_returns(2)]) (auto simp: simps intro: merge_outcome_ok)
  next
    case (node_finishes gs n vars hs now)
    have fin: "isStatusTerminated (final_status vars)" "final_status vars = SKIPPED \<longrightarrow> SKIPPED \<in> A"
      if "result_ok A (fst vars)"
      using final_status_ok [OF that] A by (auto simp: isStatusTerminated_def)
    show ?thesis
    proof (rule run_inv_phase [OF inv node_finishes(2), where f = "record_result now vars" and ph' = GSignal])
      fix st assume st: "phase_ok A st (GFinish vars)" "routed A (steps (eng s)) st"
      then show "phase_ok A (record_result now vars st) GSignal
          \<and> routed A (steps (eng s)) (record_result now vars st)"
        using fin routed_status [OF st(2)] by (simp add: phase_ok_def)
    next
      fix st assume "phase_ok A st (GFinish vars)" "isStatusTerminated (ns_Status st)"
      then show "record_result now vars st = st" by (simp add: phase_ok_def isStatusTerminated_def)
    qed (use node_finishes stop in \<open>simp_all add: engine_simps\<close>)
  next
    case (node_signals gs n hs)
    with stop show ?thesis by (intro phase [OF node_signals(2)]) (auto simp: simps)
  next
    case (node_unleases gs n hs e')
    have d: "distinct (map fst (gs @ (n, GUnlease) # hs))" using inv node_unleases(2) by (auto simp: run_inv_def)
    have e': "steps e' = steps (eng s)" "isStopped e' = isStopped (eng s)"
      using node_unleases(3) by (auto simp: unlease_def split: option.splits if_splits)
    have "node_ok A (pc s) m (map_of (gs @ hs) m) st" if "map_of (steps (eng s)) m = Some st" for m st
    proof -
      have "node_ok A (pc s) m (map_of (gors s) m) st" using inv that by (simp add: run_inv_def)
      moreover have "n \<notin> set (batch_of (pc s))" using inv node_unleases(2) by (auto simp: run_inv_def)
      moreover have "map_of (gs @ hs) m = (if m = n then None else map_of (gors s) m)"
        "map_of (gors s) n = Some GUnlease"
        using map_of_phase(1,3) [OF d] by (simp_all only: node_unleases(2))
      ultimately show ?thesis
        by (cases "m = n") (simp_all add: node_ok_def phase_ok_def del: map_of_append)
    qed
    with inv node_unleases e' show ?thesis by (auto simp: run_inv_def)
  qed
qed

end
