(* ===== verification/Engine_Liveness.thy ===== *)
theory Engine_Liveness
  imports Engine_Safety
begin

text \<open>
  Why \<open>Execute\<close> returns: on an acyclic graph with at least as many leases as nodes, a run that
  nobody stops never gets stuck before the loop is over, and it has no infinite executions. The
  bound on the leases is needed: with fewer of them the loop can miss its last wake-up.
\<close>

section \<open>The graph stays as it is\<close>

definition node_view :: "step_map \<Rightarrow> string \<Rightarrow> (exec_status \<times> string list) option" where
  "node_view sts n = map_option (\<lambda>st. (ns_Status st, ns_Upstreams st)) (map_of sts n)"

lemma terminated_view:
  "terminated sts n = (case node_view sts n of None \<Rightarrow> False | Some (s, _) \<Rightarrow> isStatusTerminated s)"
  by (simp add: terminated_def node_view_def split: option.split)

lemma terminated_view_cong: "node_view sts' = node_view sts \<Longrightarrow> terminated sts' = terminated sts"
  by (simp add: terminated_view fun_eq_iff)

lemma isTerminated_iff:
  "steps_wf (steps e) \<Longrightarrow> isTerminated e \<longleftrightarrow> (\<forall>n \<in> node_ids (steps e). terminated (steps e) n)"
  by (force simp: isTerminated_def list_all_iff steps_wf_def terminated_def node_ids_def)

lemma depends_rollback:
  assumes "rollback_batch ns e = Some e'" and "distinct ns"
  shows "depends (steps e') = depends (steps e)"
  using rollback_batch_steps [OF assms] by (auto simp: depends_def split: if_splits)

lemma step_graph:
  assumes inv: "run_inv A s" and step: "engine_step runner fmt_v s s'"
  shows "node_ids (steps (eng s')) = node_ids (steps (eng s))"
    and "depends (steps (eng s')) = depends (steps (eng s))"
proof -
  from step have "node_ids (steps (eng s')) = node_ids (steps (eng s))
    \<and> depends (steps (eng s')) = depends (steps (eng s))"
  proof cases
    case (scan_node n todo force batch now e' force' batch')
    have wf: "steps_wf (steps (eng s))" using inv by (simp add: run_inv_def)
    from scan_node(3) obtain st where st: "map_of (steps (eng s)) n = Some st"
      by (auto simp: tick_node_def split: if_splits option.splits)
    have l: "steps (snd (lease (eng s))) = steps (eng s)" by (auto simp: lease_def split: option.split)
    from tick_node_eq [OF wf st, of now force batch] scan_node(1,3) show ?thesis
      by (auto simp: skip_node_def engine_simps l depends_upd_at split: if_splits)
  next
    case (scan_paused n todo force batch now e')
    with tick_node_paused [OF scan_paused(3)] show ?thesis by simp
  next
    case (scan_end force batch e' started)
    from scan_end(3) show ?thesis
    proof (cases rule: startReadyBatch_cases)
      case (rollback ns)
      then have d: "distinct ns" using inv scan_end(2) by (simp add: run_inv_def)
      from rollback_batch_steps [OF rollback(3) d] depends_rollback [OF rollback(3) d] scan_end(1)
      show ?thesis by (simp add: node_ids_def)
    next
      case (start es)
      with scan_end(1) show ?thesis by simp
    qed
  next
    case (node_event gs n ev evs vars ret hs vars' e')
    with emits_only_fields [OF consume_event_frame [OF node_event(4)]] show ?thesis by simp
  next
    case (node_unleases gs n hs e')
    then show ?thesis by (auto simp: unlease_def split: option.splits if_splits)
  qed (simp_all add: engine_simps depends_upd_at)
  then show "node_ids (steps (eng s')) = node_ids (steps (eng s))"
    and "depends (steps (eng s')) = depends (steps (eng s))" by simp_all
qed

section \<open>Nobody waits in vain\<close>

definition signalling :: "sys \<Rightarrow> bool" where
  "signalling s \<longleftrightarrow> (\<exists>n. (n, GSignal) \<in> set (gors s))"

text \<open>A goroutine that will still signal.\<close>

definition to_signal :: "sys \<Rightarrow> bool" where
  "to_signal s \<longleftrightarrow> (\<exists>n ph. (n, ph) \<in> set (gors s) \<and> ph \<noteq> GUnlease)"

text \<open>A node that is not to be run yet.\<close>

definition blocked :: "step_map \<Rightarrow> string \<Rightarrow> bool" where
  "blocked sts n \<longleftrightarrow> (\<forall>ups. node_view sts n = Some (PENDING, ups) \<longrightarrow> \<not> list_all (terminated sts) ups)"

definition wait_ok :: "sys \<Rightarrow> bool" where
  "wait_ok s \<longleftrightarrow>
     (case pc s of
        AtTick \<Rightarrow> True
      | Scan todo force batch \<Rightarrow>
          set todo \<subseteq> node_ids (steps (eng s)) \<and> (isPaused (eng s) \<longrightarrow> signalling s) \<and>
          (\<not> force \<and> \<not> signalling s \<longrightarrow>
             (\<exists>n \<in> node_ids (steps (eng s)). \<not> terminated (steps (eng s)) n) \<and>
             (\<forall>n. n \<notin> set todo \<longrightarrow> blocked (steps (eng s)) n))
      | Waiting \<Rightarrow> to_signal s
      | Woken \<Rightarrow> True
      | _ \<Rightarrow> isPaused (eng s) \<or> ctxDone s \<or> isTerminated (eng s))"

lemma signalling_to_signal: "signalling s \<Longrightarrow> to_signal s"
  by (auto simp: signalling_def to_signal_def)

text \<open>A step of a goroutine that changes no status.\<close>

lemma wait_ok_quiet:
  assumes "wait_ok s" and "steps_wf (steps (eng s))" "steps_wf (steps (eng s'))"
    and "pc s' = pc s" "ctxDone s' = ctxDone s" "isPaused (eng s') = isPaused (eng s)"
    and "node_view (steps (eng s')) = node_view (steps (eng s))"
      "node_ids (steps (eng s')) = node_ids (steps (eng s))"
    and "signalling s' = signalling s" "to_signal s \<Longrightarrow> to_signal s'"
  shows "wait_ok s'"
proof -
  have t: "terminated (steps (eng s')) = terminated (steps (eng s))"
    by (rule terminated_view_cong) fact
  show ?thesis
    using assms by (simp add: wait_ok_def t isTerminated_iff blocked_def split: main_pc.splits)
qed

lemma view_upd_same:
  assumes "\<And>st. map_of sts n = Some st \<Longrightarrow> ns_Status (f st) = ns_Status st \<and> ns_Upstreams (f st) = ns_Upstreams st"
  shows "node_view (upd_at n f sts) = node_view sts"
  using assms by (auto simp: node_view_def fun_eq_iff option.map_comp intro!: option.map_cong0 split: option.split)

definition live_inv :: "exec_status set \<Rightarrow> int \<Rightarrow> sys \<Rightarrow> bool" where
  "live_inv A cap s \<longleftrightarrow>
     run_inv A s \<and> lease_inv cap s \<and> int (card (node_ids (steps (eng s)))) \<le> cap \<and>
     acyclic (depends (steps (eng s))) \<and> wait_ok s"

text \<open>With a lease for every node, a pending node never fails to get one.\<close>

lemma lease_available:
  assumes inv: "run_inv A s" "lease_inv cap s" "int (card (node_ids (steps (eng s)))) \<le> cap"
    and st: "map_of (steps (eng s)) n = Some st" "ns_Status st = PENDING" and pc: "\<not> finishing (pc s)"
  shows "fst (lease (eng s))"
proof -
  let ?used = "map fst (gors s) @ batch_of (pc s)"
  have ok: "node_ok A (pc s) n (map_of (gors s) n) st" using inv(1) st by (simp add: run_inv_def)
  have "map_of (gors s) n = None" "n \<notin> set (batch_of (pc s))"
    using ok st(2)
    by (auto simp: node_ok_def phase_ok_def isStatusTerminated_def split: option.splits phase.splits if_splits)
  then have n: "n \<notin> set ?used" by (simp add: map_of_eq_None_iff)
  have sub: "set ?used \<subseteq> node_ids (steps (eng s)) - {n}" and d: "distinct ?used"
    using inv(1) n by (auto simp: run_inv_def)
  have fin: "finite (node_ids (steps (eng s)))" by (simp add: node_ids_def)
  have "n \<in> node_ids (steps (eng s))" using st by (auto simp: node_ids_iff)
  with fin have "card (node_ids (steps (eng s)) - {n}) < card (node_ids (steps (eng s)))"
    by (meson card_Diff1_less)
  moreover have "length ?used \<le> card (node_ids (steps (eng s)) - {n})"
    using card_mono [OF _ sub] fin distinct_card [OF d] by simp
  ultimately have "int (length ?used) < cap" using inv(3) by linarith
  with inv(2) pc show ?thesis by (auto simp: lease_inv_iff lease_def)
qed

lemma wait_ok_scan_node:
  assumes inv: "live_inv A cap s" and pc: "pc s = Scan (n # todo) force batch"
    and t: "tick_node now n (eng s) force batch = Ret (Scanning e' force' batch')"
  shows "wait_ok (s\<lparr>eng := e', pc := Scan todo force' batch'\<rparr>)"
proof -
  have r: "run_inv A s" "lease_inv cap s" "int (card (node_ids (steps (eng s)))) \<le> cap" and w: "wait_ok s"
    using inv by (simp_all add: live_inv_def)
  have wf: "steps_wf (steps (eng s))" using r by (simp add: run_inv_def)
  from t obtain st where st: "map_of (steps (eng s)) n = Some st"
    by (auto simp: tick_node_def split: if_splits option.splits)
  have lv: "ns_Status st = PENDING \<Longrightarrow> fst (lease (eng s))"
    by (rule lease_available [OF r st]) (simp_all add: pc)
  note eq = tick_node_eq [OF wf st, of now force batch, unfolded t]
  have sig: "signalling (s\<lparr>eng := e', pc := Scan todo force' batch'\<rparr>) = signalling s"
    by (simp add: signalling_def)
  from eq consider (idle) "e' = eng s" "force' = force" "ns_Status st \<noteq> PENDING \<or> \<not> ups_terminated (steps (eng s)) st"
    | (skip) "e' = skip_node now n st (eng s)" force' "\<not> isPaused (eng s)"
    | (claim) "e' = upd_node n (\<lambda>s. s\<lparr>ns_Status := RUNNING\<rparr>) (snd (lease (eng s)))" "force' = force"
        "\<not> isPaused (eng s)" "ns_Status st = PENDING"
    using lv by (auto split: if_splits)
  then show ?thesis
  proof cases
    case idle
    then have "blocked (steps (eng s)) n"
      using st by (auto simp: blocked_def node_view_def ups_terminated_def)
    with w pc idle show ?thesis unfolding wait_ok_def sig by auto
  next
    case skip
    with w pc show ?thesis unfolding wait_ok_def sig by (auto simp: skip_node_def engine_simps)
  next
    case claim
    have l: "steps (snd (lease (eng s))) = steps (eng s)" "isPaused (snd (lease (eng s))) = isPaused (eng s)"
      by (auto simp: lease_def split: option.split)
    have nt: "\<not> terminated (steps (eng s)) n"
      using st claim(4) by (simp add: terminated_def isStatusTerminated_def)
    have steps': "steps e' = upd_at n (\<lambda>s. s\<lparr>ns_Status := RUNNING\<rparr>) (steps (eng s))"
      using claim(1) l by (simp add: engine_simps)
    have tt: "terminated (steps e') = terminated (steps (eng s))"
      unfolding steps' using st nt by (auto simp: terminated_def fun_eq_iff isStatusTerminated_def)
    have v: "blocked (steps e') m" if "m \<noteq> n \<Longrightarrow> blocked (steps (eng s)) m" for m
      using that by (auto simp: blocked_def tt) (auto simp: node_view_def steps' split: if_splits)
    have "n \<in> node_ids (steps (eng s))" using st by (auto simp: node_ids_iff)
    moreover have "node_ids (steps e') = node_ids (steps (eng s))" by (simp add: steps')
    moreover have "\<not> isPaused e'" using claim(1,3) l by (simp add: engine_simps)
    ultimately show ?thesis
      using w pc claim(2) nt v unfolding wait_ok_def sig by (auto simp: tt)
  qed
qed

text \<open>
  At the end of a scan without skipped nodes a goroutine is left that will signal: a pending
  node waits for an upstream that is not over, and the last such upstream has a goroutine.
\<close>

lemma wait_ok_scan_end:
  assumes inv: "live_inv A cap s" and pc: "pc s = Scan [] False batch"
    and start: "startReadyBatch batch (eng s) = Some (e', started)"
  shows "to_signal (s\<lparr>eng := e', pc := Waiting, gors := gors s @ map (\<lambda>n. (n, GStarted)) started\<rparr>)"
proof (cases "signalling s")
  case True
  then show ?thesis by (auto simp: signalling_def to_signal_def)
next
  case False
  let ?sts = "steps (eng s)"
  have run: "run_inv A s" and w: "wait_ok s" and ac: "acyclic (depends ?sts)"
    using inv by (simp_all add: live_inv_def)
  have np: "\<not> isPaused (eng s)"
    and ex: "\<exists>n \<in> node_ids ?sts. \<not> terminated ?sts n"
    and pend: "\<And>n. blocked ?sts n"
    using w pc False by (auto simp: wait_ok_def)
  have "depends ?sts \<subseteq> node_ids ?sts \<times> node_ids ?sts"
    using run depends_closed [of ?sts] depends_node [of _ _ ?sts] by (auto simp: run_inv_def)
  then have "finite (depends ?sts)"
    by (rule finite_subset) (simp add: node_ids_def)
  then have wf: "wf ((depends ?sts)\<inverse>)"
    using ac by (simp add: finite_acyclic_wf_converse)
  let ?open = "{n \<in> node_ids ?sts. \<not> terminated ?sts n}"
  from ex obtain n0 where "n0 \<in> ?open" by blast
  with wf obtain n where "n \<in> ?open" and m: "\<And>u. (u, n) \<in> (depends ?sts)\<inverse> \<Longrightarrow> u \<notin> ?open"
    by (rule wfE_min) blast
  then have n: "n \<in> node_ids ?sts" "\<not> terminated ?sts n"
    and min: "\<And>u. (n, u) \<in> depends ?sts \<Longrightarrow> u \<in> node_ids ?sts \<Longrightarrow> terminated ?sts u"
    by auto
  from n(1) obtain st where st: "map_of ?sts n = Some st" by (auto simp: node_ids_iff)
  have "list_all (terminated ?sts) (ns_Upstreams st)"
  proof (unfold list_all_iff, intro ballI)
    fix u assume "u \<in> set (ns_Upstreams st)"
    then have "(n, u) \<in> depends ?sts" using st by (auto simp: depends_def)
    moreover from this run have "u \<in> node_ids ?sts" by (auto simp: run_inv_def intro: depends_closed)
    ultimately show "terminated ?sts u" by (rule min)
  qed
  then have "ns_Status st \<noteq> PENDING" using pend [of n] st by (auto simp: blocked_def node_view_def)
  moreover have "node_ok A (pc s) n (map_of (gors s) n) st" using run st by (simp add: run_inv_def)
  ultimately have "(\<exists>ph. map_of (gors s) n = Some ph \<and> ph \<noteq> GUnlease) \<or> n \<in> set batch"
    using n(2) st pc
    by (cases "map_of (gors s) n") (auto simp: node_ok_def phase_ok_def terminated_def split: if_splits)
  then show ?thesis
  proof
    assume "\<exists>ph. map_of (gors s) n = Some ph \<and> ph \<noteq> GUnlease"
    then show ?thesis by (auto simp: to_signal_def dest: map_of_SomeD)
  next
    assume b: "n \<in> set batch"
    from start have "n \<in> set started"
      by (cases rule: startReadyBatch_cases) (use b np in auto)
    then show ?thesis by (auto simp: to_signal_def)
  qed
qed

lemma in_gors: "(n, ph) \<in> set (gs @ (m, ph') # hs) \<longleftrightarrow> (n, ph) \<in> set gs \<or> (n, ph) = (m, ph') \<or> (n, ph) \<in> set hs"
  by auto

lemma wait_ok_step:
  assumes A: "A \<subseteq> Collect isStatusTerminated" and inv: "live_inv A cap s"
    and step: "engine_step runner fmt_v s s'" and inv': "run_inv A s'"
  shows "wait_ok s'"
proof -
  have run: "run_inv A s" and w: "wait_ok s" using inv by (simp_all add: live_inv_def)
  have wf: "steps_wf (steps (eng s))" "steps_wf (steps (eng s'))" and stop: "\<not> isStopped (eng s)"
    using run inv' by (simp_all add: run_inv_def)
  have phase: "\<exists>st. map_of (steps (eng s)) n = Some st \<and> phase_ok A st ph"
    if "gors s = gs @ (n, ph) # hs" for gs n ph hs
  proof -
    from that run have n: "n \<in> node_ids (steps (eng s))" and d: "distinct (map fst (gs @ (n, ph) # hs))"
      by (auto simp: run_inv_def)
    from n obtain st where st: "map_of (steps (eng s)) n = Some st" by (auto simp: node_ids_iff)
    with run have "node_ok A (pc s) n (map_of (gors s) n) st" by (simp add: run_inv_def)
    with st map_of_phase(1) [OF d] that show ?thesis by (simp add: node_ok_def)
  qed
  note quiet = wait_ok_quiet [OF w wf]
  from step show ?thesis
  proof cases
    case tick_over
    with stop show ?thesis by (auto simp: wait_ok_def tick_done_def)
  next
    case (tick_scan ord)
    then have "\<exists>n \<in> node_ids (steps (eng s)). \<not> terminated (steps (eng s)) n" "\<not> isPaused (eng s)"
      using wf(1) by (auto simp: tick_done_def isTerminated_iff)
    moreover have "blocked (steps (eng s)) n" if "n \<notin> set ord" for n
      using that tick_scan(4) by (auto simp: blocked_def node_view_def node_ids_iff)
    ultimately show ?thesis using tick_scan by (simp add: wait_ok_def)
  next
    case (scan_node n todo force batch now e' force' batch')
    with wait_ok_scan_node [OF inv] show ?thesis by simp
  next
    case (scan_paused n todo force batch now e')
    with tick_node_paused [OF scan_paused(3)] show ?thesis by (simp add: wait_ok_def)
  next
    case (scan_end force batch e' started)
    with wait_ok_scan_end [OF inv] show ?thesis by (cases force) (simp_all add: wait_ok_def)
  next
    case main_returns
    with w show ?thesis by (simp add: wait_ok_def)
  next
    case (node_starts gs n hs evs ret now)
    from phase [OF node_starts(2)] have "node_view (steps (eng s')) = node_view (steps (eng s))"
      unfolding node_starts(1) by (auto simp: engine_simps phase_ok_def intro!: view_upd_same)
    with node_starts show ?thesis
      by (intro quiet) (auto simp: engine_simps signalling_def to_signal_def)
  next
    case (node_event gs n ev evs vars ret hs vars' e')
    with emits_only_fields [OF consume_event_frame [OF node_event(4)]] show ?thesis
      by (intro quiet) (auto simp: signalling_def to_signal_def)
  next
    case (node_returns gs n vars ret hs)
    then show ?thesis by (intro quiet) (auto simp: signalling_def to_signal_def)
  next
    case (node_finishes gs n vars hs now)
    have sig: "signalling s'" using node_finishes(1) by (auto simp: signalling_def)
    obtain st where st: "map_of (steps (eng s)) n = Some st" "ns_Status st = RUNNING"
      using phase [OF node_finishes(2)] by (auto simp: phase_ok_def)
    then have "n \<in> node_ids (steps (eng s))" "\<not> terminated (steps (eng s)) n"
      by (auto simp: node_ids_iff terminated_def isStatusTerminated_def)
    then have nt: "\<not> isTerminated (eng s)" using wf(1) by (auto simp: isTerminated_iff)
    show ?thesis
      using w sig nt signalling_to_signal [OF sig] node_finishes(1)
      by (cases "pc s") (auto simp: wait_ok_def wake_def engine_simps)
  next
    case (node_signals gs n hs)
    with w show ?thesis by (cases "pc s") (auto simp: wait_ok_def wake_def holds_lock_def)
  next
    case (node_unleases gs n hs e')
    have "steps e' = steps (eng s)" "isPaused e' = isPaused (eng s)"
      using node_unleases(3) by (auto simp: unlease_def split: option.splits if_splits)
    with node_unleases show ?thesis by (intro quiet) (auto simp: signalling_def to_signal_def)
  qed (use stop in \<open>simp_all add: wait_ok_def\<close>)
qed

lemma live_inv_step:
  assumes "A \<subseteq> Collect isStatusTerminated" and "runner_ok A runner"
    and "live_inv A cap s" and "engine_step runner fmt_v s s'"
  shows "live_inv A cap s'"
proof -
  have inv: "run_inv A s" "lease_inv cap s" using assms(3) by (simp_all add: live_inv_def)
  have "run_inv A s'" by (rule run_inv_step [OF assms(1,2) inv(1) assms(4)])
  moreover have "lease_inv cap s'" by (rule lease_inv_step [OF inv(2) assms(4)])
  moreover have "wait_ok s'" using wait_ok_step [OF assms(1,3,4)] calculation(1) by blast
  ultimately show ?thesis
    using assms(3) step_graph [OF inv(1) assms(4)] by (simp add: live_inv_def)
qed

section \<open>Progress\<close>

definition runner_total :: "(string \<Rightarrow> node_event_ch list \<Rightarrow> exec_vars \<Rightarrow> bool) \<Rightarrow> bool" where
  "runner_total runner \<longleftrightarrow> (\<forall>n. \<exists>evs ret. runner n evs ret)"

lemma goroutine_progress:
  assumes inv: "run_inv A s" "lease_inv cap s" and total: "runner_total runner"
    and g: "(n, ph) \<in> set (gors s)" and lock: "\<not> holds_lock (pc s)"
  shows "\<exists>s'. engine_step runner fmt_v s s'"
proof -
  from g obtain gs hs where gs: "gors s = gs @ (n, ph) # hs" by (meson split_list)
  have stop: "\<not> isStopped (eng s)" using inv(1) by (simp add: run_inv_def)
  show ?thesis
  proof (cases ph)
    case GStarted
    obtain evs ret where "runner n evs ret" using total unfolding runner_total_def by blast
    with GStarted gs stop show ?thesis by (blast intro: engine_step.node_starts)
  next
    case (GRun evs vars ret)
    have "n \<in> node_ids (steps (eng s))" using inv(1) gs by (auto simp: run_inv_def)
    then obtain st where st: "map_of (steps (eng s)) n = Some st" by (auto simp: node_ids_iff)
    have d: "distinct (map fst (gs @ (n, ph) # hs))" using inv(1) gs by (auto simp: run_inv_def)
    have "node_ok A (pc s) n (map_of (gors s) n) st" using inv(1) st by (simp add: run_inv_def)
    with map_of_phase(1) [OF d] gs have "phase_ok A st ph" by (simp add: node_ok_def)
    then have ok: "list_all (event_ok A) evs" "result_ok A (fst vars)" using GRun by (simp_all add: phase_ok_def)
    show ?thesis
    proof (cases evs)
      case Nil
      with GRun gs show ?thesis by (blast intro: engine_step.node_returns)
    next
      case (Cons ev evs')
      with ok obtain vars' e' where "consume_event fmt_v n ev vars (eng s) = Ret (vars', e')"
        using consume_event_ok [of A ev vars] by fastforce
      with Cons GRun gs stop show ?thesis by (blast intro: engine_step.node_event)
    qed
  next
    case (GFinish vars)
    with gs show ?thesis by (blast intro: engine_step.node_finishes)
  next
    case GSignal
    with gs lock show ?thesis by (blast intro: engine_step.node_signals)
  next
    case GUnlease
    obtain k where "leaseBucket (eng s) = Some k" "length (gors s) \<le> k"
      using inv(2) by (auto simp: lease_inv_iff)
    with gs have "\<exists>e'. unlease (eng s) = Some e'" by (auto simp: unlease_def)
    with GUnlease gs show ?thesis by (blast intro: engine_step.node_unleases)
  qed
qed

lemma live_progress:
  assumes inv: "live_inv A cap s" and total: "runner_total runner" and pc: "pc s \<noteq> Returned"
  shows "\<exists>s'. engine_step runner fmt_v s s'"
proof -
  have r: "run_inv A s" "lease_inv cap s" and w: "wait_ok s" using inv by (simp_all add: live_inv_def)
  have wf: "steps_wf (steps (eng s))" using r(1) by (simp add: run_inv_def)
  show ?thesis
  proof (cases "pc s")
    case AtTick
    show ?thesis
    proof (cases "tick_done (ctxDone s) (eng s)")
      case True
      with AtTick show ?thesis by (blast intro: engine_step.tick_over)
    next
      case False
      have "set (map fst (steps (eng s))) = node_ids (steps (eng s))" "distinct (map fst (steps (eng s)))"
        using wf by (simp_all add: node_ids_def steps_wf_def)
      with AtTick False show ?thesis by (blast intro: engine_step.tick_scan)
    qed
  next
    case (Scan todo force batch)
    show ?thesis
    proof (cases todo)
      case Nil
      have "\<exists>e' started. startReadyBatch batch (eng s) = Some (e', started)"
      proof -
        obtain k where "leaseBucket (eng s) = Some k" "length batch \<le> k"
          using r(2) Scan by (auto simp: lease_inv_iff)
        then have "\<exists>e'. rollback_batch (slice_stable (batch_less (nodeOrder (eng s))) batch) (eng s) = Some e'"
          by (intro rollback_batch_total) simp_all
        then show ?thesis by (auto simp: startReadyBatch_def Let_def)
      qed
      with Scan Nil show ?thesis by (blast intro: engine_step.scan_end)
    next
      case (Cons n todo')
      with w Scan obtain st where st: "map_of (steps (eng s)) n = Some st"
        by (auto simp: wait_ok_def node_ids_iff)
      have "\<exists>r. tick_node 0 n (eng s) force batch = Ret r"
        by (simp add: tick_node_eq [OF wf st])
      then obtain r where t: "tick_node 0 n (eng s) force batch = Ret r" ..
      show ?thesis
      proof (cases r)
        case (Scanning e' force' batch')
        with t Cons Scan show ?thesis by (blast intro: engine_step.scan_node)
      next
        case (PausedReturn e')
        with t Cons Scan show ?thesis by (blast intro: engine_step.scan_paused)
      qed
    qed
  next
    case Waiting
    with w obtain n ph where "(n, ph) \<in> set (gors s)" by (auto simp: wait_ok_def to_signal_def)
    with Waiting show ?thesis by (intro goroutine_progress [OF r total]) (auto simp: holds_lock_def)
  next
    case Woken
    then show ?thesis by (blast intro: engine_step.main_locks)
  next
    case Draining
    show ?thesis
    proof (cases "gors s")
      case Nil
      with Draining show ?thesis by (blast intro: engine_step.main_returns)
    next
      case (Cons g gs)
      with Draining show ?thesis
        by (intro goroutine_progress [OF r total, of "fst g" "snd g"]) (auto simp: holds_lock_def)
    qed
  qed (use pc in simp)
qed

section \<open>Termination\<close>

definition pending :: "step_map \<Rightarrow> string set" where
  "pending sts = {n \<in> node_ids sts. \<exists>ups. node_view sts n = Some (PENDING, ups)}"

fun force_of :: "main_pc \<Rightarrow> bool" where
  "force_of (Scan _ force _) = force"
| "force_of _ = False"

text \<open>How far the main goroutine is from waiting again, and how far from the end once paused.\<close>

fun loop_rank :: "nat \<Rightarrow> main_pc \<Rightarrow> nat" where
  "loop_rank N Woken = N + 5"
| "loop_rank N AtTick = N + 4"
| "loop_rank N (Scan todo _ _) = length todo + 3"
| "loop_rank N Waiting = 2"
| "loop_rank N Draining = 1"
| "loop_rank N Returned = 0"

fun paused_rank :: "main_pc \<Rightarrow> nat" where
  "paused_rank (Scan todo _ _) = length todo + 6"
| "paused_rank Waiting = 5"
| "paused_rank Woken = 4"
| "paused_rank AtTick = 3"
| "paused_rank Draining = 1"
| "paused_rank Returned = 0"

fun phase_rank :: "phase \<Rightarrow> nat" where
  "phase_rank GStarted = 0"
| "phase_rank (GRun evs _ _) = length evs + 4"
| "phase_rank (GFinish _) = 3"
| "phase_rank GSignal = 2"
| "phase_rank GUnlease = 1"

definition starting :: "sys \<Rightarrow> nat" where
  "starting s = 2 * length (batch_of (pc s)) + length (filter (\<lambda>(n, ph). ph = GStarted) (gors s))"

definition phases :: "sys \<Rightarrow> nat" where
  "phases s = sum_list (map (\<lambda>(n, ph). phase_rank ph) (gors s))"

definition run_measure :: "sys \<Rightarrow> nat \<times> nat \<times> nat \<times> nat \<times> nat" where
  "run_measure s =
     (if isPaused (eng s) then 0 else 1,
      if isPaused (eng s) then paused_rank (pc s)
      else 2 * card (pending (steps (eng s))) + (if force_of (pc s) then 1 else 0),
      starting s, phases s, loop_rank (card (node_ids (steps (eng s)))) (pc s))"

definition run_rel :: "(sys \<times> sys) set" where
  "run_rel = inv_image (less_than <*lex*> less_than <*lex*> less_than <*lex*> less_than <*lex*> less_than) run_measure"

lemma wf_run_rel: "wf run_rel"
  by (auto simp: run_rel_def)

lemma paused_rank_wake: "paused_rank (wake p) \<le> paused_rank p"
  by (simp add: wake_def)

lemma force_of_wake [simp]: "force_of (wake p) = force_of p"
  by (auto simp: wake_def)

lemma pending_view: "node_view sts' = node_view sts \<Longrightarrow> node_ids sts' = node_ids sts \<Longrightarrow> pending sts' = pending sts"
  by (simp add: pending_def)

lemma pending_remove:
  assumes st: "map_of sts n = Some st" "ns_Status st = PENDING" and f: "ns_Status (f st) \<noteq> PENDING"
  shows "card (pending (upd_at n f sts)) < card (pending sts)"
proof -
  have "pending (upd_at n f sts) = pending sts - {n}"
    using st f by (auto simp: pending_def node_view_def)
  moreover have "n \<in> pending sts" using st by (auto simp: pending_def node_view_def node_ids_iff)
  moreover have "finite (pending sts)" by (simp add: pending_def node_ids_def)
  ultimately show ?thesis by (metis card_Diff1_less)
qed

lemma pending_keep:
  assumes "\<And>st. map_of sts n = Some st \<Longrightarrow> ns_Status st \<noteq> PENDING \<and> ns_Status (f st) \<noteq> PENDING"
  shows "pending (upd_at n f sts) = pending sts"
proof (rule set_eqI)
  fix m
  show "m \<in> pending (upd_at n f sts) \<longleftrightarrow> m \<in> pending sts"
    using assms by (cases "m = n") (auto simp: pending_def node_view_def)
qed

text \<open>A goroutine that goes on from \<open>ph\<close> to \<open>ph'\<close> without pausing the run.\<close>

lemma run_rel_phase:
  assumes "gors s = gs @ (n, ph) # hs" "gors s' = gs @ (n, ph') # hs"
    and "isPaused (eng s') = isPaused (eng s)" "pending (steps (eng s')) = pending (steps (eng s))"
    and "pc s' = pc s \<or> pc s' = wake (pc s)"
    and "(ph = GStarted \<and> ph' \<noteq> GStarted) \<or> (ph \<noteq> GStarted \<and> ph' \<noteq> GStarted \<and> phase_rank ph' < phase_rank ph)"
  shows "(s', s) \<in> run_rel"
  using assms paused_rank_wake [of "pc s"]
  by (auto simp: run_rel_def run_measure_def starting_def phases_def)

lemma run_rel_remove:
  assumes "gors s = gs @ (n, GUnlease) # hs" "gors s' = gs @ hs" "pc s' = pc s"
    and "isPaused (eng s') = isPaused (eng s)" "pending (steps (eng s')) = pending (steps (eng s))"
  shows "(s', s) \<in> run_rel"
  using assms by (auto simp: run_rel_def run_measure_def starting_def phases_def)

lemma run_rel_scan_node:
  assumes inv: "run_inv A s" and pc: "pc s = Scan (n # todo) force batch"
    and t: "tick_node now n (eng s) force batch = Ret (Scanning e' force' batch')"
  shows "(s\<lparr>eng := e', pc := Scan todo force' batch'\<rparr>, s) \<in> run_rel"
proof -
  have wf: "steps_wf (steps (eng s))" using inv by (simp add: run_inv_def)
  from t obtain st where st: "map_of (steps (eng s)) n = Some st"
    by (auto simp: tick_node_def split: if_splits option.splits)
  have l: "steps (snd (lease (eng s))) = steps (eng s)" "isPaused (snd (lease (eng s))) = isPaused (eng s)"
    by (auto simp: lease_def split: option.split)
  have less: "card (pending (upd_at n f (steps (eng s)))) < card (pending (steps (eng s)))"
    if "ns_Status st = PENDING" "ns_Status (f st) \<noteq> PENDING" for f
    using pending_remove [of "steps (eng s)" n st f] st that by simp
  from tick_node_eq [OF wf st, of now force batch, unfolded t]
  consider (idle) "\<not> isPaused (eng s)" "e' = eng s" "force' = force" "batch' = batch"
    | (skip) "\<not> isPaused (eng s)" "e' = skip_node now n st (eng s)" "ns_Status st = PENDING"
    | (claim) "\<not> isPaused (eng s)" "e' = upd_node n (\<lambda>s. s\<lparr>ns_Status := RUNNING\<rparr>) (snd (lease (eng s)))"
        "force' = force" "ns_Status st = PENDING"
    by (auto split: if_splits)
  then show ?thesis
  proof cases
    case idle
    with pc show ?thesis by (simp add: run_rel_def run_measure_def starting_def phases_def)
  next
    case skip
    with pc less [of "\<lambda>s. s\<lparr>ns_Status := SKIPPED, ns_Outputs := Some [], ns_EndTime := now\<rparr>"] show ?thesis
      by (auto simp: run_rel_def run_measure_def skip_node_def engine_simps)
  next
    case claim
    with pc less [of "\<lambda>s. s\<lparr>ns_Status := RUNNING\<rparr>"] l show ?thesis
      by (auto simp: run_rel_def run_measure_def engine_simps)
  qed
qed

lemma run_rel_scan_end:
  assumes pc: "pc s = Scan [] force batch" and start: "startReadyBatch batch (eng s) = Some (e', started)"
  shows "(s\<lparr>eng := e', pc := (if force then AtTick else Waiting),
            gors := gors s @ map (\<lambda>n. (n, GStarted)) started\<rparr>, s) \<in> run_rel"
  using start
proof (cases rule: startReadyBatch_cases)
  case (rollback ns)
  with pc rollback_batch_fields [OF rollback(3)] show ?thesis
    by (simp add: run_rel_def run_measure_def)
next
  case (start es)
  have "filter ((\<lambda>(n, ph). ph = GStarted) \<circ> (\<lambda>n. (n, GStarted))) started = started"
    by (simp add: comp_def)
  with start pc show ?thesis
    by (cases "batch = []"; cases "isPaused (eng s)")
      (auto simp: run_rel_def run_measure_def starting_def phases_def filter_map comp_def sum_list_0)
qed

lemma live_decreases:
  assumes A: "A \<subseteq> Collect isStatusTerminated" and inv: "live_inv A cap s"
    and step: "engine_step runner fmt_v s s'"
  shows "(s', s) \<in> run_rel"
proof -
  have run: "run_inv A s" using inv by (simp add: live_inv_def)
  have stop: "\<not> isStopped (eng s)" using run by (simp add: run_inv_def)
  have phase: "phase_ok A st ph"
    if g: "gors s = gs @ (n, ph) # hs" and st: "map_of (steps (eng s)) n = Some st" for gs n ph hs st
  proof -
    have d: "distinct (map fst (gs @ (n, ph) # hs))" using run g by (auto simp: run_inv_def)
    from run st have "node_ok A (pc s) n (map_of (gors s) n) st" by (simp add: run_inv_def)
    with map_of_phase(1) [OF d] g show ?thesis by (simp add: node_ok_def)
  qed
  from step show ?thesis
  proof cases
    case tick_over
    then show ?thesis by (simp add: run_rel_def run_measure_def starting_def phases_def)
  next
    case (tick_scan ord)
    then have "length ord = card (node_ids (steps (eng s)))" "\<not> isPaused (eng s)"
      using distinct_card [of ord] by (auto simp: tick_done_def)
    with tick_scan show ?thesis by (simp add: run_rel_def run_measure_def starting_def phases_def)
  next
    case (scan_node n todo force batch now e' force' batch')
    with run_rel_scan_node [OF run] show ?thesis by simp
  next
    case (scan_paused n todo force batch now e')
    with tick_node_paused [OF scan_paused(3)] show ?thesis by (simp add: run_rel_def run_measure_def)
  next
    case (scan_end force batch e' started)
    with run_rel_scan_end show ?thesis by simp
  next
    case main_locks
    then show ?thesis by (simp add: run_rel_def run_measure_def starting_def phases_def)
  next
    case main_returns
    then show ?thesis by (simp add: run_rel_def run_measure_def starting_def phases_def)
  next
    case (node_starts gs n hs evs ret now)
    have "pending (steps (eng s')) = pending (steps (eng s))"
      unfolding node_starts(1) using phase [OF node_starts(2)]
      by (auto simp: engine_simps phase_ok_def intro!: pending_keep)
    with node_starts show ?thesis by (intro run_rel_phase [OF node_starts(2)]) (auto simp: engine_simps)
  next
    case (node_event gs n ev evs vars ret hs vars' e')
    with emits_only_fields [OF consume_event_frame [OF node_event(4)]] show ?thesis
      by (intro run_rel_phase [OF node_event(2)]) auto
  next
    case (node_returns gs n vars ret hs)
    then show ?thesis by (intro run_rel_phase [OF node_returns(2)]) auto
  next
    case (node_finishes gs n vars hs now)
    have "final_status vars \<noteq> PENDING" if "result_ok A (fst vars)"
      using final_status_ok [OF that] A by (auto simp: isStatusTerminated_def)
    then have "pending (steps (eng s')) = pending (steps (eng s))"
      unfolding node_finishes(1) using phase [OF node_finishes(2)]
      by (auto simp: engine_simps phase_ok_def intro!: pending_keep)
    moreover have "(s', s) \<in> run_rel" if "\<not> isPaused (eng s)" "pauses vars"
      using that node_finishes(1) by (simp add: run_rel_def run_measure_def engine_simps)
    ultimately show ?thesis
      using node_finishes(1) by (cases "\<not> isPaused (eng s) \<and> pauses vars")
        (auto intro!: run_rel_phase [OF node_finishes(2)] simp: engine_simps)
  next
    case (node_signals gs n hs)
    then show ?thesis by (intro run_rel_phase [OF node_signals(2)]) auto
  next
    case (node_unleases gs n hs e')
    have "steps e' = steps (eng s)" "isPaused e' = isPaused (eng s)"
      using node_unleases(3) by (auto simp: unlease_def split: option.splits if_splits)
    with node_unleases(1) show ?thesis by (intro run_rel_remove [OF node_unleases(2)]) auto
  qed (use stop in simp_all)
qed

text \<open>Everything the engine relies on: what a node runner promises, and enough leases.\<close>

definition good_run ::
  "exec_status set \<Rightarrow> int \<Rightarrow> (string \<Rightarrow> node_event_ch list \<Rightarrow> exec_vars \<Rightarrow> bool) \<Rightarrow> sys \<Rightarrow> bool" where
  "good_run A cap runner s \<longleftrightarrow>
     A \<subseteq> Collect isStatusTerminated \<and> runner_ok A runner \<and> runner_total runner \<and> live_inv A cap s"

interpretation live: progress_system "engine_step runner fmt_v" "good_run A cap runner" run_rel
  "\<lambda>s. pc s = Returned" for runner fmt_v A cap
  by unfold_locales
    (auto simp: good_run_def wf_run_rel intro: live_inv_step live_decreases live_progress)

definition safe_run ::
  "exec_status set \<Rightarrow> (string \<Rightarrow> node_event_ch list \<Rightarrow> exec_vars \<Rightarrow> bool) \<Rightarrow> sys \<Rightarrow> bool" where
  "safe_run A runner s \<longleftrightarrow> A \<subseteq> Collect isStatusTerminated \<and> runner_ok A runner \<and> run_inv A s"

interpretation safe: step_invariant "engine_step runner fmt_v" "safe_run A runner" for runner fmt_v A
  by unfold_locales (auto simp: safe_run_def intro: run_inv_step)

end
