(* ===== verification/Engine_Run.thy ===== *)
theory Engine_Run
  imports Engine_Liveness
begin

text \<open>
  The properties of whole runs of the engine, for every interleaving of the loop of \<open>Execute\<close>
  with the goroutines of the nodes, and examples of runs that go wrong where a hypothesis of
  these properties fails.
\<close>

section \<open>Entering the loop\<close>

lemma reset_graph:
  assumes wf: "steps_wf (steps e)"
  defines "e2 \<equiv> clear_flags (engine_reset (e\<lparr>isRunning := True\<rparr>))"
  shows "node_ids (steps e2) = node_ids (steps e)" and "depends (steps e2) = depends (steps e)"
    and "steps_wf (steps e2)" and "map_of (steps e2) n = map_option reset_node (map_of (steps e) n)"
proof -
  have m: "map_of (steps e2) n = map_option reset_node (map_of (steps e) n)" for n
    by (simp add: e2_def clear_flags_def engine_reset_def map_of_map)
  have fst: "map fst (steps e2) = map fst (steps e)"
    by (auto simp: e2_def clear_flags_def engine_reset_def)
  then show ids: "node_ids (steps e2) = node_ids (steps e)" by (simp only: node_ids_def)
  show "depends (steps e2) = depends (steps e)"
    by (auto simp: depends_def m reset_node_def)
  have nw: "node_wf ids (reset_node st) = node_wf ids st" for ids st
    by (simp add: node_wf_def reset_node_def edge_handles_def)
  show "steps_wf (steps e2)"
    using wf fst by (auto simp: steps_wf_iff m ids nw)
  show "map_of (steps e2) n = map_option reset_node (map_of (steps e) n)" by (rule m)
qed

lemma Execute_begin_enters:
  assumes wf: "steps_wf (steps e)" and ord: "set ord = node_ids (steps e)"
    and enter: "Execute_begin ord e = Some (Ret (EnterLoop e'))"
  shows "e' = clear_flags (engine_reset (e\<lparr>isRunning := True\<rparr>))"
    and "steps_wf (steps e')" and "acyclic (depends (steps e'))" and "node_ids (steps e') = node_ids (steps e)"
    and "\<And>n st. map_of (steps e') n = Some st \<Longrightarrow> ns_Status st = PENDING"
    and "leaseBucket e' = leaseBucket e" and "maxConcurrency e' = maxConcurrency e"
    and "\<not> isStopped e'" and "\<not> isPaused e'"
proof -
  let ?e2 = "clear_flags (engine_reset (e\<lparr>isRunning := True\<rparr>))"
  from enter show e': "e' = ?e2"
    by (auto simp: Execute_begin_def tryLock_def Let_def split: if_splits option.splits go.splits)
  note m = reset_graph(4) [OF wf] and ids = reset_graph(1) [OF wf] and wf2 = reset_graph(3) [OF wf]
  have "preflight ord ?e2 = Some (Ret None)"
    using enter by (auto simp: Execute_begin_def tryLock_def Let_def split: if_splits option.splits go.splits)
  with preflight_decides [OF wf2] ord ids have "acyclic (depends (steps ?e2))"
    by (auto split: if_splits)
  with e' wf2 ids m show "steps_wf (steps e')" and "acyclic (depends (steps e'))"
    and "node_ids (steps e') = node_ids (steps e)"
    and "\<And>n st. map_of (steps e') n = Some st \<Longrightarrow> ns_Status st = PENDING"
    by (auto simp: reset_node_def)
  show "leaseBucket e' = leaseBucket e" and "maxConcurrency e' = maxConcurrency e"
    and "\<not> isStopped e'" and "\<not> isPaused e'"
    by (simp_all add: e' clear_flags_def engine_reset_def)
qed

lemma loop_start_run_inv:
  assumes "steps_wf (steps e)" "\<not> isStopped e" "\<And>n st. map_of (steps e) n = Some st \<Longrightarrow> ns_Status st = PENDING"
  shows "run_inv A (loop_start e)"
  using assms by (auto simp: run_inv_def loop_start_def node_ok_def routed_def)

lemma loop_start_lease_inv:
  "leaseBucket e = Some 0 \<Longrightarrow> maxConcurrency e = cap \<Longrightarrow> lease_inv cap (loop_start e)"
  by (simp add: lease_inv_def loop_start_def)

text \<open>An engine that was built and has just entered its loop.\<close>

definition entered :: "string list \<Rightarrow> engine \<Rightarrow> engine \<Rightarrow> bool" where
  "entered ord e e' \<longleftrightarrow> built e \<and> set ord = node_ids (steps e) \<and> Execute_begin ord e = Some (Ret (EnterLoop e'))"

lemma enteredD:
  assumes "entered ord e e'"
  shows "steps_wf (steps e')" "acyclic (depends (steps e'))" "node_ids (steps e') = node_ids (steps e)"
    "\<And>n st. map_of (steps e') n = Some st \<Longrightarrow> ns_Status st = PENDING"
    "leaseBucket e' = Some 0" "maxConcurrency e' = maxConcurrency e" "\<not> isStopped e'" "\<not> isPaused e'"
proof -
  have b: "built e" "set ord = node_ids (steps e)" "Execute_begin ord e = Some (Ret (EnterLoop e'))"
    using assms by (simp_all add: entered_def)
  have wf: "steps_wf (steps e)" and l: "leaseBucket e = Some 0" using built_ok [OF b(1)] by simp_all
  note en = Execute_begin_enters [OF wf b(2,3)]
  show "steps_wf (steps e')" "acyclic (depends (steps e'))" "node_ids (steps e') = node_ids (steps e)"
    "\<And>n st. map_of (steps e') n = Some st \<Longrightarrow> ns_Status st = PENDING"
    "leaseBucket e' = Some 0" "maxConcurrency e' = maxConcurrency e" "\<not> isStopped e'" "\<not> isPaused e'"
    using en(2-9) l by simp_all
qed

lemma entered_run_inv: "entered ord e e' \<Longrightarrow> run_inv A (loop_start e')"
  by (rule loop_start_run_inv) (auto dest: enteredD)

lemma entered_lease_inv: "entered ord e e' \<Longrightarrow> lease_inv (maxConcurrency e) (loop_start e')"
  by (rule loop_start_lease_inv) (auto dest: enteredD)

lemma entered_live_inv:
  assumes "entered ord e e'" and "int (card (node_ids (steps e))) \<le> maxConcurrency e"
  shows "live_inv A (maxConcurrency e) (loop_start e')"
  using assms enteredD [OF assms(1)] entered_run_inv [OF assms(1)] entered_lease_inv [OF assms(1)]
  by (simp add: live_inv_def loop_start_def wait_ok_def)

section \<open>What is over stays as it is\<close>

lemma step_agree:
  assumes A: "A \<subseteq> Collect isStatusTerminated" and inv: "run_inv A s" and step: "engine_step runner fmt_v s s'"
  shows "agree_on_terminated (steps (eng s)) (steps (eng s'))"
proof -
  have wf: "steps_wf (steps (eng s))" and stop: "\<not> isStopped (eng s)" using inv by (simp_all add: run_inv_def)
  have self: "agree_on_terminated sts sts" for sts by (simp add: agree_on_terminated_def)
  have open_: "\<not> terminated (steps (eng s)) n"
    if g: "gors s = gs @ (n, ph) # hs" and ph: "\<And>st. phase_ok A st ph \<Longrightarrow> ns_Status st = RUNNING" for gs n ph hs
  proof
    assume "terminated (steps (eng s)) n"
    then obtain st where st: "map_of (steps (eng s)) n = Some st" "isStatusTerminated (ns_Status st)"
      by (auto simp: terminated_def split: option.splits)
    have d: "distinct (map fst (gs @ (n, ph) # hs))" using inv g by (auto simp: run_inv_def)
    from inv st(1) have "node_ok A (pc s) n (map_of (gors s) n) st" by (simp add: run_inv_def)
    with map_of_phase(1) [OF d] g have "phase_ok A st ph" by (simp add: node_ok_def)
    with ph st show False by (auto simp: isStatusTerminated_def)
  qed
  from step show ?thesis
  proof cases
    case (scan_node n todo force batch now e' force' batch')
    from scan_node(3) obtain st where st: "map_of (steps (eng s)) n = Some st"
      by (auto simp: tick_node_def split: if_splits option.splits)
    have l: "steps (snd (lease (eng s))) = steps (eng s)" by (auto simp: lease_def split: option.split)
    have "ns_Status st = PENDING \<Longrightarrow> \<not> terminated (steps (eng s)) n"
      using st by (simp add: terminated_def isStatusTerminated_def)
    with tick_node_eq [OF wf st, of now force batch] scan_node(1,3) show ?thesis
      by (auto simp: skip_node_def engine_simps l self intro: agree_upd_at split: if_splits)
  next
    case (scan_paused n todo force batch now e')
    with tick_node_paused [OF scan_paused(3)] show ?thesis by (simp add: self)
  next
    case (scan_end force batch e' started)
    from scan_end(3) show ?thesis
    proof (cases rule: startReadyBatch_cases)
      case (rollback ns)
      then have d: "distinct ns" using inv scan_end(2) by (simp add: run_inv_def)
      show ?thesis
      proof (unfold agree_on_terminated_def, intro allI impI)
        fix u assume "terminated (steps (eng s)) u"
        then obtain st where "map_of (steps (eng s)) u = Some st" "isStatusTerminated (ns_Status st)"
          by (auto simp: terminated_def split: option.splits)
        then show "map_of (steps (eng s')) u = map_of (steps (eng s)) u"
          using rollback_batch_steps [OF rollback(3) d, of u] scan_end(1)
          by (auto simp: unclaim_def isStatusTerminated_def)
      qed
    next
      case (start es)
      with scan_end(1) show ?thesis by (simp add: self)
    qed
  next
    case (node_starts gs n hs evs ret now)
    with open_ [OF node_starts(2)] show ?thesis by (auto simp: engine_simps phase_ok_def intro: agree_upd_at)
  next
    case (node_event gs n ev evs vars ret hs vars' e')
    with emits_only_fields [OF consume_event_frame [OF node_event(4)]] show ?thesis by (simp add: self)
  next
    case (node_finishes gs n vars hs now)
    with open_ [OF node_finishes(2)] show ?thesis by (auto simp: engine_simps phase_ok_def intro: agree_upd_at)
  next
    case (node_unleases gs n hs e')
    then show ?thesis by (auto simp: unlease_def self split: option.splits if_splits)
  qed (use stop in \<open>simp_all add: self\<close>)
qed

section \<open>Reachable states\<close>

lemma reachable_run_inv:
  assumes "entered ord e e'" "A \<subseteq> Collect isStatusTerminated" "runner_ok A runner"
    and "(engine_step runner fmt_v)\<^sup>*\<^sup>* (loop_start e') s"
  shows "run_inv A s"
  using safe.holds_reachable [OF assms(4), of A] assms entered_run_inv [OF assms(1)]
  by (simp add: safe_run_def)

lemma reachable_graph:
  assumes "entered ord e e'" "A \<subseteq> Collect isStatusTerminated" "runner_ok A runner"
    and "(engine_step runner fmt_v)\<^sup>*\<^sup>* (loop_start e') s"
  shows "node_ids (steps (eng s)) = node_ids (steps e)"
  using assms(4)
proof (induction rule: rtranclp_induct)
  case base
  then show ?case using enteredD(3) [OF assms(1)] by (simp add: loop_start_def)
next
  case (step s s')
  from reachable_run_inv [OF assms(1-3) step(1)] step_graph(1) [OF _ step(2)] step(3) show ?case by simp
qed

lemma reachable_agree:
  assumes "entered ord e e'" "A \<subseteq> Collect isStatusTerminated" "runner_ok A runner"
    and "(engine_step runner fmt_v)\<^sup>*\<^sup>* (loop_start e') s" and "(engine_step runner fmt_v)\<^sup>*\<^sup>* s t"
  shows "agree_on_terminated (steps (eng s)) (steps (eng t))"
  using assms(5)
proof (induction rule: rtranclp_induct)
  case base
  then show ?case by (simp add: agree_on_terminated_def)
next
  case (step t t')
  have "run_inv A t" using reachable_run_inv [OF assms(1-3)] assms(4) step(1) by (meson rtranclp_trans)
  from step_agree [OF assms(2) this step(2)] step(3) show ?case
    by (auto simp: agree_on_terminated_def terminated_def)
qed

text \<open>Where the loop can be left.\<close>

definition over_inv :: "sys \<Rightarrow> bool" where
  "over_inv s \<longleftrightarrow> (finishing (pc s) \<longrightarrow> isPaused (eng s) \<or> ctxDone s \<or> isTerminated (eng s))"

lemma over_inv_step:
  assumes A: "A \<subseteq> Collect isStatusTerminated" and runner: "runner_ok A runner"
    and inv: "run_inv A s" and over: "over_inv s" and step: "engine_step runner fmt_v s s'"
  shows "over_inv s'"
proof -
  have inv': "run_inv A s'" by (rule run_inv_step [OF A runner inv step])
  have wf: "steps_wf (steps (eng s))" "steps_wf (steps (eng s'))" and stop: "\<not> isStopped (eng s)"
    using inv inv' by (simp_all add: run_inv_def)
  have keep: "isTerminated (eng s) \<Longrightarrow> isTerminated (eng s')"
    using step_agree [OF A inv step] step_graph(1) [OF inv step] wf
    by (auto simp: isTerminated_iff agree_on_terminated_def terminated_def)
  from step show ?thesis
  proof cases
    case tick_over
    with stop show ?thesis by (auto simp: over_inv_def tick_done_def)
  next
    case (scan_paused n todo force batch now e')
    with tick_node_paused [OF scan_paused(3)] show ?thesis by (simp add: over_inv_def)
  next
    case (node_event gs n ev evs vars ret hs vars' e')
    with over keep emits_only_fields [OF consume_event_frame [OF node_event(4)]] show ?thesis
      by (auto simp: over_inv_def)
  next
    case (node_unleases gs n hs e')
    with over keep show ?thesis by (auto simp: over_inv_def unlease_def split: option.splits if_splits)
  qed (use over keep stop in \<open>auto simp: over_inv_def engine_simps\<close>)
qed

lemma reachable_over:
  assumes "entered ord e e'" "A \<subseteq> Collect isStatusTerminated" "runner_ok A runner"
    and "(engine_step runner fmt_v)\<^sup>*\<^sup>* (loop_start e') s"
  shows "over_inv s"
  using assms(4)
proof (induction rule: rtranclp_induct)
  case base
  then show ?case by (simp add: over_inv_def loop_start_def)
next
  case (step s s')
  from over_inv_step [OF assms(2,3) reachable_run_inv [OF assms(1-3) step(1)] step(3,2)] show ?case .
qed

lemma reachable_no_cancel:
  assumes "(engine_step runner fmt_v)\<^sup>*\<^sup>* s t" shows "ctxDone t = ctxDone s"
  using assms by (induction rule: rtranclp_induct) (auto elim!: engine_step.cases)

lemma getExecutionResult_None:
  assumes "\<not> isStopped e" and "set ord = node_ids (steps e)"
  shows "getExecutionResult ord e = None \<longleftrightarrow> (\<forall>n st. map_of (steps e) n = Some st \<longrightarrow> ns_Status st \<noteq> FAILED)"
proof -
  have "getExecutionResult ord e = None \<longleftrightarrow> failed_nodes ord (steps e) = []"
    using assms(1) by (auto simp: getExecutionResult_def Let_def split: option.splits)
  also have "\<dots> \<longleftrightarrow> (\<forall>n \<in> node_ids (steps e). case map_of (steps e) n of Some st \<Rightarrow> ns_Status st \<noteq> FAILED | None \<Rightarrow> True)"
    by (auto simp: failed_nodes_def filter_empty_conv assms(2)[symmetric] split: option.splits)
  also have "\<dots> \<longleftrightarrow> (\<forall>n st. map_of (steps e) n = Some st \<longrightarrow> ns_Status st \<noteq> FAILED)"
    by (auto simp: node_ids_iff split: option.splits)
  finally show ?thesis .
qed


section \<open>A small workflow\<close>

text \<open>
  A start node and an end node after it, on an engine with room for \<open>m\<close> nodes at a time, and a
  runner that answers every node with the same result.
\<close>

definition demo_engine :: "int \<Rightarrow> engine" where
  "demo_engine m =
     (case AddDependency ''a'' ''b''
        (AddNode ''b'' ''end'' None (AddNode ''a'' ''start'' None (NewWorkflowEngine m))) of
        Inr e \<Rightarrow> e
      | Inl _ \<Rightarrow> NewWorkflowEngine m)"

definition demo_loop :: "int \<Rightarrow> engine" where
  "demo_loop m = clear_flags (engine_reset ((demo_engine m)\<lparr>isRunning := True\<rparr>))"

definition demo_result :: "exec_status \<Rightarrow> run_result" where
  "demo_result st = empty_result\<lparr>r_Status := st\<rparr>"

definition demo_runner :: "exec_status \<Rightarrow> string \<Rightarrow> node_event_ch list \<Rightarrow> exec_vars \<Rightarrow> bool" where
  "demo_runner st n evs ret \<longleftrightarrow> evs = [] \<and> ret = (Some (demo_result st), None)"

lemma demo_runner_ok: "runner_ok (insert st A) (demo_runner st)" "runner_total (demo_runner st)"
  by (auto simp: runner_ok_def runner_total_def demo_runner_def result_ok_def demo_result_def)

lemma built_demo: "built (demo_engine m)"
proof -
  have "built (AddNode ''b'' ''end'' None (AddNode ''a'' ''start'' None (NewWorkflowEngine m)))"
    by (intro built.node built.new)
  then show ?thesis
    unfolding demo_engine_def AddDependency_def
    by (auto intro: built.new built.dependency split: sum.split)
qed

lemma demo_engine_steps: "map fst (steps (demo_engine m)) = [''a'', ''b'']"
  by (simp add: demo_engine_def AddDependency_def AddDependencyWithHandle_def AddNode_def
      NewWorkflowEngine_fields upd_node_def Let_def)

lemma demo_entered: "entered [''a'', ''b''] (demo_engine m) (demo_loop m)"
proof -
  have e: "steps (demo_engine m) \<noteq> []" using demo_engine_steps [of m] by auto
  have "preflight [''a'', ''b''] (demo_loop m) = Some (Ret None)"
    by (simp add: demo_loop_def demo_engine_def AddDependency_def AddDependencyWithHandle_def AddNode_def
        NewWorkflowEngine_fields upd_node_def upd_at_def Let_def clear_flags_def engine_reset_def
        reset_node_def preflight_def numeral_2_eq_2)
  then have "Execute_begin [''a'', ''b''] (demo_engine m) = Some (Ret (EnterLoop (demo_loop m)))"
    using built_ok [OF built_demo] e by (simp add: Execute_begin_def tryLock_def Let_def demo_loop_def)
  moreover have "set [''a'', ''b''] = node_ids (steps (demo_engine m))"
    unfolding node_ids_def demo_engine_steps ..
  ultimately show ?thesis by (simp add: entered_def built_demo)
qed

lemma demo_concurrency: "maxConcurrency (demo_engine m) = NormalizeMaxConcurrency m"
  by (simp add: demo_engine_def AddDependency_def AddDependencyWithHandle_def AddNode_def
      NewWorkflowEngine_fields upd_node_def Let_def)

lemma demo_node_count: "card (node_ids (steps (demo_engine m))) = 2"
  by (simp only: node_ids_def demo_engine_steps) simp

lemma step_not_paused:
  assumes inv: "run_inv A s" and A: "PAUSED \<notin> A" and step: "engine_step runner fmt_v s s'" and p: "\<not> isPaused (eng s)"
  shows "\<not> isPaused (eng s')"
  using step
proof cases
  case (scan_node n todo force batch now e' force' batch')
  have wf: "steps_wf (steps (eng s))" using inv by (simp add: run_inv_def)
  from scan_node(3) obtain st where st: "map_of (steps (eng s)) n = Some st"
    by (auto simp: tick_node_def split: if_splits option.splits)
  have "isPaused (snd (lease (eng s))) = isPaused (eng s)" by (auto simp: lease_def split: option.split)
  with tick_node_eq [OF wf st, of now force batch] scan_node(1,3) p show ?thesis
    by (auto simp: skip_node_def engine_simps split: if_splits)
next
  case (scan_end force batch e' started)
  from scan_end(3) show ?thesis
    by (cases rule: startReadyBatch_cases) (use p scan_end(1) in auto)
next
  case (node_event gs n ev evs vars ret hs vars' e')
  with p emits_only_fields [OF consume_event_frame [OF node_event(4)]] show ?thesis by simp
next
  case (node_finishes gs n vars hs now)
  have "n \<in> node_ids (steps (eng s))" and d: "distinct (map fst (gs @ (n, GFinish vars) # hs))"
    using inv node_finishes(2) by (auto simp: run_inv_def)
  then obtain st where "map_of (steps (eng s)) n = Some st" by (auto simp: node_ids_iff)
  then have "node_ok A (pc s) n (map_of (gors s) n) st" using inv by (simp add: run_inv_def)
  with map_of_phase(1) [OF d] node_finishes(2) have "phase_ok A st (GFinish vars)" by (simp add: node_ok_def)
  with A have "\<not> pauses vars"
    by (auto simp: phase_ok_def pauses_def result_ok_def split: option.splits prod.splits)
  with node_finishes(1) p show ?thesis by (simp add: engine_simps)
next
  case (node_unleases gs n hs e')
  with p show ?thesis by (auto simp: unlease_def split: option.splits if_splits)
qed (use p tick_node_paused in \<open>auto simp: engine_simps\<close>)

lemma reachable_not_paused:
  assumes "entered ord e e'" "A \<subseteq> Collect isStatusTerminated" "runner_ok A runner" "PAUSED \<notin> A"
    and "(engine_step runner fmt_v)\<^sup>*\<^sup>* (loop_start e') s"
  shows "\<not> isPaused (eng s)"
  using assms(5)
proof (induction rule: rtranclp_induct)
  case base
  then show ?case using enteredD(8) [OF assms(1)] by (simp add: loop_start_def)
next
  case (step s s')
  from step_not_paused [OF reachable_run_inv [OF assms(1-3) step(1)] assms(4) step(2,3)] show ?case .
qed

lemma demo_end:
  obtains s where "(engine_step (demo_runner SUCCEEDED) sprintf_v)\<^sup>*\<^sup>* (loop_start (demo_loop 2)) s"
    "pc s = Returned" "\<not> isPaused (eng s)" "isTerminated (eng s)" "node_ids (steps (eng s)) = {''a'', ''b''}"
proof -
  have A: "{SUCCEEDED} \<subseteq> Collect isStatusTerminated" by (simp add: isStatusTerminated_def)
  note demo = demo_entered [of 2] A demo_runner_ok(1) [of SUCCEEDED "{}"]
  have "live_inv {SUCCEEDED} (maxConcurrency (demo_engine 2)) (loop_start (demo_loop 2))"
    by (rule entered_live_inv [OF demo(1)])
      (simp add: demo_concurrency demo_node_count NormalizeMaxConcurrency_def MaxConcurrencyLimit_def)
  then have "good_run {SUCCEEDED} (maxConcurrency (demo_engine 2)) (demo_runner SUCCEEDED) (loop_start (demo_loop 2))"
    using demo demo_runner_ok by (simp add: good_run_def)
  from live.reaches_final [OF this, of sprintf_v] obtain s
    where s: "(engine_step (demo_runner SUCCEEDED) sprintf_v)\<^sup>*\<^sup>* (loop_start (demo_loop 2)) s" "pc s = Returned"
    by blast
  have "\<not> isPaused (eng s)" by (rule reachable_not_paused [OF demo _ s(1)]) simp
  moreover have "\<not> ctxDone s" using reachable_no_cancel [OF s(1)] by (simp add: loop_start_def)
  moreover have "over_inv s" by (rule reachable_over [OF demo s(1)])
  moreover have "node_ids (steps (eng s)) = {''a'', ''b''}"
    using reachable_graph [OF demo s(1)] by (simp add: node_ids_def demo_engine_steps flip: set_map)
  ultimately show ?thesis using s that by (auto simp: over_inv_def)
qed

section \<open>Properties of runs\<close>



text \<open>
  C5: the check for circular dependencies is exact. On every engine built by the constructors,
  for every order in which Go iterates the nodes, the depth-first search ends without a nil
  dereference; \<open>Execute\<close> then enters its loop, with all nodes pending and the flags cleared,
  exactly when the dependency relation is acyclic, and otherwise returns the error and leaves
  the engine unlocked. Without nodes it returns at once.
\<close>

theorem preflight_exact:
  assumes "built e" and "set ord = node_ids (steps e)"
  shows "Execute_begin ord e = Some (Ret
    (if steps e = [] then ReturnErr None e
     else if acyclic (depends (steps e))
     then EnterLoop (clear_flags (engine_reset (e\<lparr>isRunning := True\<rparr>)))
     else ReturnErr (Some CircularDependency) (clear_flags (engine_reset e))))"
proof -
  have wf: "steps_wf (steps e)" and run: "\<not> isRunning e" using built_ok [OF assms(1)] by simp_all
  let ?e2 = "clear_flags (engine_reset (e\<lparr>isRunning := True\<rparr>))"
  have idle: "e\<lparr>isRunning := False\<rparr> = e" using run by (cases e) simp
  then have unl: "unlock ?e2 = clear_flags (engine_reset e)" "unlock (e\<lparr>isRunning := True\<rparr>) = e"
    by (cases e, simp add: unlock_def clear_flags_def engine_reset_def)+
  have dep: "depends (steps ?e2) = depends (steps e)" and ids: "node_ids (steps ?e2) = node_ids (steps e)"
    and wf2: "steps_wf (steps ?e2)"
    using reset_graph [OF wf] by simp_all
  show ?thesis
    using run assms(2) unl preflight_decides [OF wf2, of ord] dep ids
    by (simp add: Execute_begin_def tryLock_def Let_def)
qed

theorem preflight_exact_witness:
  "Execute_begin [''a'', ''b''] (demo_engine 2) = Some (Ret (EnterLoop (demo_loop 2)))
   \<or> Execute_begin [''a'', ''b''] (demo_engine 2) =
       Some (Ret (ReturnErr (Some CircularDependency) (clear_flags (engine_reset (demo_engine 2)))))"
proof -
  have "set [''a'', ''b''] = node_ids (steps (demo_engine 2))"
    unfolding node_ids_def demo_engine_steps ..
  moreover have "steps (demo_engine 2) \<noteq> []" using demo_engine_steps [of 2] by auto
  ultimately show ?thesis
    using preflight_exact [OF built_demo, of "[''a'', ''b'']" 2] by (simp add: demo_loop_def)
qed

text \<open>
  C20: when \<open>Execute\<close> has returned from a run that was neither paused nor stopped nor
  cancelled, every node has a final status, and the error it reports is nil exactly when no node
  has the status failed.
\<close>

theorem execute_result:
  assumes "entered ord e e'" and "A \<subseteq> Collect isStatusTerminated" and "runner_ok A runner"
    and "(engine_step runner fmt_v)\<^sup>*\<^sup>* (loop_start e') s" and "pc s = Returned" and "\<not> isPaused (eng s)"
    and "set ord' = node_ids (steps e)"
  shows "(\<forall>n \<in> node_ids (steps e). terminated (steps (eng s)) n) \<and>
    (getExecutionResult ord' (eng s) = None \<longleftrightarrow>
      (\<forall>n st. map_of (steps (eng s)) n = Some st \<longrightarrow> ns_Status st \<noteq> FAILED))"
proof -
  note reach = reachable_run_inv [OF assms(1-4)] reachable_graph [OF assms(1-4)] reachable_over [OF assms(1-4)]
  have "\<not> ctxDone s" using reachable_no_cancel [OF assms(4)] by (simp add: loop_start_def)
  with reach(3) assms(5,6) have "isTerminated (eng s)" by (simp add: over_inv_def)
  moreover have "steps_wf (steps (eng s))" "\<not> isStopped (eng s)" using reach(1) by (simp_all add: run_inv_def)
  ultimately show ?thesis
    using reach(2) assms(7) getExecutionResult_None [of "eng s" ord'] by (simp add: isTerminated_iff)
qed

theorem execute_result_witness:
  "\<exists>s :: sys. pc s = Returned \<and> (\<forall>n \<in> node_ids (steps (demo_engine 2)). terminated (steps (eng s)) n) \<and>
     (getExecutionResult [''b'', ''a''] (eng s) = None \<longleftrightarrow>
       (\<forall>n st. map_of (steps (eng s)) n = Some st \<longrightarrow> ns_Status st \<noteq> FAILED))"
proof -
  obtain s where s: "(engine_step (demo_runner SUCCEEDED) sprintf_v)\<^sup>*\<^sup>* (loop_start (demo_loop 2)) s"
    "pc s = Returned" "\<not> isPaused (eng s)" by (rule demo_end)
  have ids: "set [''b'', ''a''] = node_ids (steps (demo_engine 2))"
    unfolding node_ids_def demo_engine_steps by auto
  have "{SUCCEEDED} \<subseteq> Collect isStatusTerminated" by (simp add: isStatusTerminated_def)
  note r = execute_result [OF demo_entered this demo_runner_ok(1) s ids]
  show ?thesis by (rule exI [of _ s], rule conjI [OF s(2) r])
qed



text \<open>
  C6: never more than \<open>maxConcurrency\<close> nodes are in execution, whatever happens: also when the
  run is stopped, cancelled or paused. And the goroutine of a node always finds a lease to
  release.
\<close>

theorem concurrency_bound:
  assumes "entered ord e e'" and "(any_step runner fmt_v)\<^sup>*\<^sup>* (loop_start e') s"
  shows "int (length (gors s)) \<le> maxConcurrency e \<and> 1 \<le> maxConcurrency e \<and> maxConcurrency e \<le> 15 \<and>
    (gors s \<noteq> [] \<longrightarrow> unlease (eng s) \<noteq> None)"
proof -
  have "lease_inv (maxConcurrency e) s"
    by (rule leases.holds_reachable [OF assms(2) entered_lease_inv [OF assms(1)]])
  moreover have "1 \<le> maxConcurrency e \<and> maxConcurrency e \<le> 15"
    using assms(1) built_ok by (simp add: entered_def)
  ultimately show ?thesis by (cases "gors s") (auto simp: lease_inv_iff unlease_def)
qed

theorem concurrency_bound_witness:
  "\<exists>s. (any_step (demo_runner PAUSED) sprintf_v)\<^sup>*\<^sup>* (loop_start (demo_loop 99)) s \<and>
     int (length (gors s)) \<le> maxConcurrency (demo_engine 99)"
  using concurrency_bound [OF demo_entered, of "demo_runner PAUSED" sprintf_v 99 "loop_start (demo_loop 99)"]
  by blast

text \<open>
  a node is executed once. In every reachable state at most one goroutine belongs to a node,
  and a node that is over keeps its state, with its outputs and the handle it chose, for the
  rest of the run.
\<close>

theorem executed_once:
  assumes "entered ord e e'" and "A \<subseteq> Collect isStatusTerminated" and "runner_ok A runner"
    and "(engine_step runner fmt_v)\<^sup>*\<^sup>* (loop_start e') s" and "(engine_step runner fmt_v)\<^sup>*\<^sup>* s t"
  shows "distinct (map fst (gors s)) \<and>
    (\<forall>n st. map_of (steps (eng s)) n = Some st \<and> isStatusTerminated (ns_Status st) \<longrightarrow>
       map_of (steps (eng t)) n = Some st)"
proof -
  have "run_inv A s" by (rule reachable_run_inv [OF assms(1-4)])
  moreover note reachable_agree [OF assms]
  ultimately show ?thesis by (auto simp: run_inv_def agree_on_terminated_def terminated_def)
qed

theorem executed_once_witness:
  "\<exists>s. (engine_step (demo_runner SUCCEEDED) sprintf_v)\<^sup>*\<^sup>* (loop_start (demo_loop 2)) s \<and>
     pc s = Returned \<and> distinct (map fst (gors s))"
proof -
  obtain s where s: "(engine_step (demo_runner SUCCEEDED) sprintf_v)\<^sup>*\<^sup>* (loop_start (demo_loop 2)) s"
    "pc s = Returned" by (rule demo_end)
  have "{SUCCEEDED} \<subseteq> Collect isStatusTerminated" by (simp add: isStatusTerminated_def)
  from executed_once [OF demo_entered this demo_runner_ok(1) s(1)] s show ?thesis by blast
qed

end
