(* ===== verification/Engine_Anomalies.thy ===== *)
theory Engine_Anomalies
  imports Engine_Run
begin

text \<open>
  Runs of small workflows in which the engine misbehaves: a wake-up that is lost because a
  goroutine signals before it releases its lease, a stop request that is lost because it is
  signalled without the lock, and a batch that is dropped when a pause interrupts the scan. Each
  is a path of the step relation, found state by state.
\<close>

section \<open>Paths\<close>

definition scanned :: "string \<Rightarrow> engine \<Rightarrow> engine" where
  "scanned n e = (case tick_node 0 n e False [] of Ret (Scanning e' _ _) \<Rightarrow> e' | _ \<Rightarrow> e)"

definition launched :: "string list \<Rightarrow> engine \<Rightarrow> engine" where
  "launched batch e = (case startReadyBatch batch e of Some (e', _) \<Rightarrow> e' | None \<Rightarrow> e)"

definition released :: "engine \<Rightarrow> engine" where
  "released e = (case unlease e of Some e' \<Rightarrow> e' | None \<Rightarrow> e)"

definition at :: "engine \<Rightarrow> main_pc \<Rightarrow> (string \<times> phase) list \<Rightarrow> sys" where
  "at e p gs = \<lparr>eng = e, pc = p, gors = gs, ctxDone = False\<rparr>"

lemma at_simps [simp]:
  "eng (at e p gs) = e" "pc (at e p gs) = p" "gors (at e p gs) = gs" "\<not> ctxDone (at e p gs)"
  "(at e p gs)\<lparr>eng := e'\<rparr> = at e' p gs" "(at e p gs)\<lparr>pc := p'\<rparr> = at e p' gs"
  "(at e p gs)\<lparr>gors := gs'\<rparr> = at e p gs'"
  by (simp_all add: at_def)

lemma at_tick_scan:
  "\<not> tick_done False e \<Longrightarrow> set ord = node_ids (steps e) \<Longrightarrow> distinct ord \<Longrightarrow>
   engine_step runner fmt_v (at e AtTick gs) (at e (Scan ord False []) gs)"
  using engine_step.tick_scan [of "at e AtTick gs" ord runner fmt_v] by simp

lemma at_scan_node:
  "tick_node 0 n e force batch = Ret (Scanning e' force' batch') \<Longrightarrow>
   engine_step runner fmt_v (at e (Scan (n # todo) force batch) gs) (at e' (Scan todo force' batch') gs)"
  using engine_step.scan_node [of "at e (Scan (n # todo) force batch) gs" n todo force batch 0 e' force' batch' runner fmt_v]
  by simp

lemma at_scan_end:
  "startReadyBatch batch e = Some (e', started) \<Longrightarrow>
   engine_step runner fmt_v (at e (Scan [] False batch) gs)
     (at e' Waiting (gs @ map (\<lambda>n. (n, GStarted)) started))"
  using engine_step.scan_end [of "at e (Scan [] False batch) gs" False batch e' started runner fmt_v] by simp

text \<open>A node runs from start to signal while the main goroutine waits.\<close>

lemma at_node_runs:
  assumes "runner n [] ret" and "\<not> isStopped e" and "\<not> pauses (merge_outcome (None, None) ret)"
  shows "(engine_step runner fmt_v)\<^sup>*\<^sup>* (at e Waiting (gs @ (n, GStarted) # hs))
    (at (node_finish 0 n (merge_outcome (None, None) ret) (node_begin 0 n e)) AtTick (gs @ (n, GUnlease) # hs))"
proof -
  let ?e1 = "node_begin 0 n e" and ?v = "merge_outcome (None, None) ret"
  let ?e2 = "node_finish 0 n ?v ?e1"
  have "engine_step runner fmt_v (at e Waiting (gs @ (n, GStarted) # hs))
      (at ?e1 Waiting (gs @ (n, GRun [] (None, None) ret) # hs))"
    using engine_step.node_starts [of "at e Waiting (gs @ (n, GStarted) # hs)" gs n hs runner "[]" ret fmt_v 0] assms
    by simp
  moreover have "engine_step runner fmt_v (at ?e1 Waiting (gs @ (n, GRun [] (None, None) ret) # hs))
      (at ?e1 Waiting (gs @ (n, GFinish ?v) # hs))"
    using engine_step.node_returns [of "at ?e1 Waiting (gs @ (n, GRun [] (None, None) ret) # hs)" gs n "(None, None)" ret hs]
    by simp
  moreover have "engine_step runner fmt_v (at ?e1 Waiting (gs @ (n, GFinish ?v) # hs))
      (at ?e2 Waiting (gs @ (n, GSignal) # hs))"
    using engine_step.node_finishes [of "at ?e1 Waiting (gs @ (n, GFinish ?v) # hs)" gs n ?v hs runner fmt_v 0] assms(3)
    by simp
  moreover have "engine_step runner fmt_v (at ?e2 Waiting (gs @ (n, GSignal) # hs))
      (at ?e2 Woken (gs @ (n, GUnlease) # hs))"
    using engine_step.node_signals [of "at ?e2 Waiting (gs @ (n, GSignal) # hs)" gs n hs runner fmt_v]
    by (simp add: holds_lock_def wake_def)
  moreover have "engine_step runner fmt_v (at ?e2 Woken (gs @ (n, GUnlease) # hs))
      (at ?e2 AtTick (gs @ (n, GUnlease) # hs))"
    using engine_step.main_locks [of "at ?e2 Woken (gs @ (n, GUnlease) # hs)" runner fmt_v] by simp
  ultimately show ?thesis by (meson converse_rtranclp_into_rtranclp rtranclp.rtrancl_refl)
qed

lemma at_unlease:
  "unlease e = Some e' \<Longrightarrow> engine_step runner fmt_v (at e p (gs @ (n, GUnlease) # hs)) (at e' p (gs @ hs))"
  using engine_step.node_unleases [of "at e p (gs @ (n, GUnlease) # hs)" gs n hs e' runner fmt_v] by simp

lemma stuck_waiting: "\<not> engine_step runner fmt_v (at e Waiting []) s"
  by (auto elim!: engine_step.cases)

section \<open>A lost wake-up\<close>

text \<open>Two nodes in a row and one lease: the states of the engine along the path.\<close>

definition lw1 :: engine where "lw1 = scanned ''a'' (demo_loop 1)"
definition lw2 :: engine where
  "lw2 = node_finish 0 ''a'' (Some (demo_result SUCCEEDED), None) (node_begin 0 ''a'' (launched [''a''] lw1))"
definition lw3 :: engine where "lw3 = released lw2"

lemma lw_first_tick:
  "\<not> tick_done False (demo_loop 1)" "set [''a'', ''b''] = node_ids (steps (demo_loop 1))"
  "tick_node 0 ''a'' (demo_loop 1) False [] = Ret (Scanning lw1 False [''a''])"
  "tick_node 0 ''b'' lw1 False [''a''] = Ret (Scanning lw1 False [''a''])"
  "startReadyBatch [''a''] lw1 = Some (launched [''a''] lw1, [''a''])"
  "\<not> isStopped (launched [''a''] lw1)"
  by (code_simp, code_simp, code_simp, code_simp, code_simp, code_simp)

lemma lw_second_tick:
  "\<not> tick_done False lw2" "set [''a'', ''b''] = node_ids (steps lw2)"
  "tick_node 0 ''a'' lw2 False [] = Ret (Scanning lw2 False [])"
  "tick_node 0 ''b'' lw2 False [] = Ret (Scanning lw2 False [])"
  "startReadyBatch [] lw2 = Some (lw2, [])" "unlease lw2 = Some lw3"
  "map_option ns_Status (map_of (steps lw3) ''b'') = Some PENDING"
  "leaseBucket lw3 = Some 0"
  by (code_simp, code_simp, code_simp, code_simp, code_simp, code_simp, code_simp, code_simp)

text \<open>
  C34: the engine can hang. With one lease, as a workflow may configure, on a start node followed
  by an end node: the goroutine of the start node signals before it releases its lease, the tick
  that the signal starts finds no lease for the end node and waits, and the lease is released
  afterwards without any further signal. All goroutines are gone, a lease is free, the end node
  is pending, and \<open>Execute\<close> waits for ever.
\<close>

theorem lost_wakeup:
  "\<exists>s. (engine_step (demo_runner SUCCEEDED) sprintf_v)\<^sup>*\<^sup>* (loop_start (demo_loop 1)) s \<and>
     pc s = Waiting \<and> gors s = [] \<and> leaseBucket (eng s) = Some 0 \<and>
     map_option ns_Status (map_of (steps (eng s)) ''b'') = Some PENDING \<and>
     (\<forall>t. \<not> engine_step (demo_runner SUCCEEDED) sprintf_v s t)"
proof -
  let ?step = "engine_step (demo_runner SUCCEEDED) sprintf_v"
  let ?ab = "[''a'', ''b'']"
  have "?step (loop_start (demo_loop 1)) (at (demo_loop 1) (Scan ?ab False []) [])"
    using at_tick_scan [OF lw_first_tick(1,2)] by (simp add: at_def loop_start_def)
  moreover have "?step (at (demo_loop 1) (Scan ?ab False []) []) (at lw1 (Scan [''b''] False [''a'']) [])"
    by (rule at_scan_node [OF lw_first_tick(3)])
  moreover have "?step (at lw1 (Scan [''b''] False [''a'']) []) (at lw1 (Scan [] False [''a'']) [])"
    by (rule at_scan_node [OF lw_first_tick(4)])
  moreover have "?step (at lw1 (Scan [] False [''a'']) []) (at (launched [''a''] lw1) Waiting [(''a'', GStarted)])"
    using at_scan_end [OF lw_first_tick(5), of _ _ "[]"] by simp
  moreover have "?step\<^sup>*\<^sup>* (at (launched [''a''] lw1) Waiting [(''a'', GStarted)]) (at lw2 AtTick [(''a'', GUnlease)])"
    using at_node_runs [of "demo_runner SUCCEEDED" "''a''" "(Some (demo_result SUCCEEDED), None)" _ sprintf_v "[]" "[]"]
      lw_first_tick(6)
    by (simp add: demo_runner_def demo_result_def merge_outcome_def pauses_def lw2_def empty_result_def)
  moreover have "?step (at lw2 AtTick [(''a'', GUnlease)]) (at lw2 (Scan ?ab False []) [(''a'', GUnlease)])"
    by (rule at_tick_scan [OF lw_second_tick(1,2)]) simp
  moreover have "?step (at lw2 (Scan ?ab False []) [(''a'', GUnlease)]) (at lw2 (Scan [''b''] False []) [(''a'', GUnlease)])"
    by (rule at_scan_node [OF lw_second_tick(3)])
  moreover have "?step (at lw2 (Scan [''b''] False []) [(''a'', GUnlease)]) (at lw2 (Scan [] False []) [(''a'', GUnlease)])"
    by (rule at_scan_node [OF lw_second_tick(4)])
  moreover have "?step (at lw2 (Scan [] False []) [(''a'', GUnlease)]) (at lw2 Waiting [(''a'', GUnlease)])"
    using at_scan_end [OF lw_second_tick(5)] by simp
  moreover have "?step (at lw2 Waiting [(''a'', GUnlease)]) (at lw3 Waiting [])"
    using at_unlease [OF lw_second_tick(6), of _ _ Waiting "[]" "''a''" "[]"] by simp
  ultimately have "?step\<^sup>*\<^sup>* (loop_start (demo_loop 1)) (at lw3 Waiting [])"
    by (meson converse_rtranclp_into_rtranclp rtranclp_trans rtranclp.rtrancl_refl)
  with lw_second_tick(7,8) stuck_waiting show ?thesis by (intro exI [of _ "at lw3 Waiting []"]) simp
qed

section \<open>A lost stop request\<close>

definition ls1 :: engine where "ls1 = scanned ''a'' (demo_loop 2)"
definition ls2 :: engine where "ls2 = Stop ls1"
definition ls3 :: engine where "ls3 = released (node_stopped 0 ''a'' (launched [''a''] ls2))"

lemma ls_facts:
  "\<not> tick_done False (demo_loop 2)" "set [''a'', ''b''] = node_ids (steps (demo_loop 2))"
  "tick_node 0 ''a'' (demo_loop 2) False [] = Ret (Scanning ls1 False [''a''])"
  "tick_node 0 ''b'' ls1 False [''a''] = Ret (Scanning ls1 False [''a''])"
  "isRunning ls1"
  "startReadyBatch [''a''] ls2 = Some (launched [''a''] ls2, [''a''])"
  "isStopped (launched [''a''] ls2)"
  "unlease (node_stopped 0 ''a'' (launched [''a''] ls2)) = Some ls3"
  "isStopped ls3"
  by (code_simp, code_simp, code_simp, code_simp, code_simp, code_simp, code_simp, code_simp, code_simp)

text \<open>
  C35: a stop request can be lost, and the engine hangs. \<open>Stop\<close> signals without holding the lock:
  when it comes after the check at the start of a tick and before the wait that follows, nobody
  is woken. A node that was started by this tick sees that the engine is stopped and returns
  before \<open>executeNode\<close> has arranged for its own signal. There are enough leases here.
\<close>

theorem lost_stop:
  "\<exists>s. (any_step (demo_runner SUCCEEDED) sprintf_v)\<^sup>*\<^sup>* (loop_start (demo_loop 2)) s \<and>
     pc s = Waiting \<and> gors s = [] \<and> isStopped (eng s) \<and>
     (\<forall>t. \<not> engine_step (demo_runner SUCCEEDED) sprintf_v s t)"
proof -
  let ?estep = "engine_step (demo_runner SUCCEEDED) sprintf_v"
  let ?step = "any_step (demo_runner SUCCEEDED) sprintf_v"
  let ?ab = "[''a'', ''b'']"
  have e: "?estep s t \<Longrightarrow> ?step s t" for s t by (simp add: any_step_def)
  have "?step (loop_start (demo_loop 2)) (at (demo_loop 2) (Scan ?ab False []) [])"
    using at_tick_scan [OF ls_facts(1,2), THEN e] by (simp add: at_def loop_start_def)
  moreover have "?step (at (demo_loop 2) (Scan ?ab False []) []) (at ls1 (Scan [''b''] False [''a'']) [])"
    by (rule e [OF at_scan_node [OF ls_facts(3)]])
  moreover have "?step (at ls1 (Scan [''b''] False [''a'']) []) (at ls1 (Scan [] False [''a'']) [])"
    by (rule e [OF at_scan_node [OF ls_facts(4)]])
  moreover have "?step (at ls1 (Scan [] False [''a'']) []) (at ls2 (Scan [] False [''a'']) [])"
    using env_step.env_stop [of "at ls1 (Scan [] False [''a'']) []"] ls_facts(5)
    by (simp add: any_step_def wake_def ls2_def)
  moreover have "?step (at ls2 (Scan [] False [''a'']) []) (at (launched [''a''] ls2) Waiting [(''a'', GStarted)])"
    using at_scan_end [OF ls_facts(6), of _ _ "[]", THEN e] by simp
  moreover have "?step (at (launched [''a''] ls2) Waiting [(''a'', GStarted)])
      (at (node_stopped 0 ''a'' (launched [''a''] ls2)) Waiting [(''a'', GUnlease)])"
    using engine_step.node_refused [of "at (launched [''a''] ls2) Waiting [(''a'', GStarted)]" "[]" "''a''" "[]"
        "demo_runner SUCCEEDED" sprintf_v 0] ls_facts(7)
    by (simp add: any_step_def)
  moreover have "?step (at (node_stopped 0 ''a'' (launched [''a''] ls2)) Waiting [(''a'', GUnlease)]) (at ls3 Waiting [])"
    using at_unlease [OF ls_facts(8), of _ _ Waiting "[]" "''a''" "[]", THEN e] by simp
  ultimately have "?step\<^sup>*\<^sup>* (loop_start (demo_loop 2)) (at ls3 Waiting [])"
    by (meson converse_rtranclp_into_rtranclp rtranclp.rtrancl_refl)
  with ls_facts(9) stuck_waiting show ?thesis by (intro exI [of _ "at ls3 Waiting []"]) simp
qed

section \<open>A dropped batch\<close>

text \<open>Two roots, \<open>a\<close> and \<open>p\<close>, and a node \<open>b\<close> after \<open>a\<close>; node \<open>p\<close> pauses the run.\<close>

definition db_engine :: engine where
  "db_engine =
     (case AddDependency ''a'' ''b'' (AddNode ''b'' ''end'' None (AddNode ''p'' ''approval'' None
        (AddNode ''a'' ''start'' None (NewWorkflowEngine 3)))) of
        Inr e \<Rightarrow> e
      | Inl _ \<Rightarrow> NewWorkflowEngine 3)"

definition db_loop :: engine where
  "db_loop = clear_flags (engine_reset (db_engine\<lparr>isRunning := True\<rparr>))"

definition db_runner :: "string \<Rightarrow> node_event_ch list \<Rightarrow> exec_vars \<Rightarrow> bool" where
  "db_runner n evs ret \<longleftrightarrow>
     evs = [] \<and> ret = (Some (demo_result (if n = ''p'' then PAUSED else SUCCEEDED)), None)"

definition db_paused :: exec_vars where "db_paused = (Some (demo_result PAUSED), None)"

definition db1 :: engine where "db1 = scanned ''a'' db_loop"
definition db2 :: engine where "db2 = scanned ''p'' db1"
definition db3 :: engine where "db3 = launched [''a'', ''p''] db2"
definition db4 :: engine where
  "db4 = node_finish 0 ''a'' (Some (demo_result SUCCEEDED), None) (node_begin 0 ''a'' db3)"
definition db5 :: engine where "db5 = scanned ''b'' db4"
definition db6 :: engine where "db6 = node_finish 0 ''p'' db_paused (node_begin 0 ''p'' db5)"
definition db7 :: engine where "db7 = released (released db6)"

lemma db_entered: "Execute_begin [''a'', ''p'', ''b''] db_engine = Some (Ret (EnterLoop db_loop))"
  by code_simp

lemma db_facts:
  "\<not> tick_done False db_loop" "set [''a'', ''p'', ''b''] = node_ids (steps db_loop)"
  "tick_node 0 ''a'' db_loop False [] = Ret (Scanning db1 False [''a''])"
  "tick_node 0 ''p'' db1 False [''a''] = Ret (Scanning db2 False [''a'', ''p''])"
  "tick_node 0 ''b'' db2 False [''a'', ''p''] = Ret (Scanning db2 False [''a'', ''p''])"
  "startReadyBatch [''a'', ''p''] db2 = Some (db3, [''a'', ''p''])"
  "\<not> isStopped db3"
  by (code_simp, code_simp, code_simp, code_simp, code_simp, code_simp, code_simp)

lemma db_facts2:
  "\<not> tick_done False db4" "set [''b'', ''a'', ''p''] = node_ids (steps db4)"
  "tick_node 0 ''b'' db4 False [] = Ret (Scanning db5 False [''b''])" "\<not> isStopped db5"
  "tick_node 0 ''a'' db6 False [''b''] = Ret (PausedReturn db6)"
  "unlease db6 = Some (released db6)" "unlease (released db6) = Some db7"
  "map_option ns_Status (map_of (steps db7) ''b'') = Some RUNNING" "leaseBucket db7 = Some 1"
  by (code_simp, code_simp, code_simp, code_simp, code_simp, code_simp, code_simp, code_simp, code_simp)

lemma at_node_pauses:
  assumes "runner n [] ret" and "\<not> isStopped e"
  shows "(engine_step runner fmt_v)\<^sup>*\<^sup>* (at e (Scan todo force batch) (gs @ (n, GStarted) # hs))
    (at (node_finish 0 n (merge_outcome (None, None) ret) (node_begin 0 n e)) (Scan todo force batch)
      (gs @ (n, GSignal) # hs))"
proof -
  let ?p = "Scan todo force batch" and ?e1 = "node_begin 0 n e" and ?v = "merge_outcome (None, None) ret"
  have "engine_step runner fmt_v (at e ?p (gs @ (n, GStarted) # hs)) (at ?e1 ?p (gs @ (n, GRun [] (None, None) ret) # hs))"
    using engine_step.node_starts [of "at e ?p (gs @ (n, GStarted) # hs)" gs n hs runner "[]" ret fmt_v 0] assms
    by simp
  moreover have "engine_step runner fmt_v (at ?e1 ?p (gs @ (n, GRun [] (None, None) ret) # hs))
      (at ?e1 ?p (gs @ (n, GFinish ?v) # hs))"
    using engine_step.node_returns [of "at ?e1 ?p (gs @ (n, GRun [] (None, None) ret) # hs)" gs n "(None, None)" ret hs]
    by simp
  moreover have "engine_step runner fmt_v (at ?e1 ?p (gs @ (n, GFinish ?v) # hs))
      (at (node_finish 0 n ?v ?e1) ?p (gs @ (n, GSignal) # hs))"
    using engine_step.node_finishes [of "at ?e1 ?p (gs @ (n, GFinish ?v) # hs)" gs n ?v hs runner fmt_v 0]
    by (simp add: wake_def split: if_splits)
  ultimately show ?thesis by (meson converse_rtranclp_into_rtranclp rtranclp.rtrancl_refl)
qed

lemma dropped_batch_start: "(engine_step db_runner sprintf_v)\<^sup>*\<^sup>* (loop_start db_loop) (at db4 AtTick [(''a'', GUnlease), (''p'', GStarted)])"
proof -
  let ?step = "engine_step db_runner sprintf_v"
  let ?apb = "[''a'', ''p'', ''b'']" and ?bap = "[''b'', ''a'', ''p'']"
  let ?ap = "[''a'', ''p'']"
  have "?step (loop_start db_loop) (at db_loop (Scan ?apb False []) [])"
    using at_tick_scan [OF db_facts(1,2)] by (simp add: at_def loop_start_def)
  moreover have "?step (at db_loop (Scan ?apb False []) []) (at db1 (Scan [''p'', ''b''] False [''a'']) [])"
    by (rule at_scan_node [OF db_facts(3)])
  moreover have "?step (at db1 (Scan [''p'', ''b''] False [''a'']) []) (at db2 (Scan [''b''] False ?ap) [])"
    by (rule at_scan_node [OF db_facts(4)])
  moreover have "?step (at db2 (Scan [''b''] False ?ap) []) (at db2 (Scan [] False ?ap) [])"
    by (rule at_scan_node [OF db_facts(5)])
  moreover have "?step (at db2 (Scan [] False ?ap) []) (at db3 Waiting [(''a'', GStarted), (''p'', GStarted)])"
    using at_scan_end [OF db_facts(6), of _ _ "[]"] by simp
  moreover have "?step\<^sup>*\<^sup>* (at db3 Waiting [(''a'', GStarted), (''p'', GStarted)])
      (at db4 AtTick [(''a'', GUnlease), (''p'', GStarted)])"
    using at_node_runs [of db_runner "''a''" "(Some (demo_result SUCCEEDED), None)" db3 sprintf_v "[]" "[(''p'', GStarted)]"]
      db_facts(7)
    by (simp add: db_runner_def demo_result_def merge_outcome_def pauses_def db4_def empty_result_def)
  ultimately show ?thesis by (meson converse_rtranclp_into_rtranclp rtranclp_trans rtranclp.rtrancl_refl)
qed

lemma dropped_batch_pause: "(engine_step db_runner sprintf_v)\<^sup>*\<^sup>* (at db4 AtTick [(''a'', GUnlease), (''p'', GStarted)]) (at db6 Draining [(''a'', GUnlease), (''p'', GSignal)])"
proof -
  let ?step = "engine_step db_runner sprintf_v"
  let ?apb = "[''a'', ''p'', ''b'']" and ?bap = "[''b'', ''a'', ''p'']"
  let ?ap = "[''a'', ''p'']"
  have "?step (at db4 AtTick [(''a'', GUnlease), (''p'', GStarted)])
      (at db4 (Scan ?bap False []) [(''a'', GUnlease), (''p'', GStarted)])"
    by (rule at_tick_scan [OF db_facts2(1,2)]) simp
  moreover have "?step (at db4 (Scan ?bap False []) [(''a'', GUnlease), (''p'', GStarted)])
      (at db5 (Scan ?ap False [''b'']) [(''a'', GUnlease), (''p'', GStarted)])"
    by (rule at_scan_node [OF db_facts2(3)])
  moreover have "?step\<^sup>*\<^sup>* (at db5 (Scan ?ap False [''b'']) [(''a'', GUnlease), (''p'', GStarted)])
      (at db6 (Scan ?ap False [''b'']) [(''a'', GUnlease), (''p'', GSignal)])"
    using at_node_pauses [of db_runner "''p''" db_paused db5 sprintf_v ?ap False "[''b'']" "[(''a'', GUnlease)]" "[]"]
      db_facts2(4)
    by (simp add: db_runner_def db_paused_def merge_outcome_def db6_def)
  moreover have "?step (at db6 (Scan ?ap False [''b'']) [(''a'', GUnlease), (''p'', GSignal)])
      (at db6 Draining [(''a'', GUnlease), (''p'', GSignal)])"
    using engine_step.scan_paused [of "at db6 (Scan ?ap False [''b'']) [(''a'', GUnlease), (''p'', GSignal)]"]
      db_facts2(5) by fastforce
  ultimately show ?thesis by (meson converse_rtranclp_into_rtranclp rtranclp_trans rtranclp.rtrancl_refl)
qed

lemma dropped_batch_end: "(engine_step db_runner sprintf_v)\<^sup>*\<^sup>* (at db6 Draining [(''a'', GUnlease), (''p'', GSignal)]) (at db7 Returned [])"
proof -
  let ?step = "engine_step db_runner sprintf_v"
  let ?apb = "[''a'', ''p'', ''b'']" and ?bap = "[''b'', ''a'', ''p'']"
  let ?ap = "[''a'', ''p'']"
  have "?step (at db6 Draining [(''a'', GUnlease), (''p'', GSignal)])
      (at db6 Draining [(''a'', GUnlease), (''p'', GUnlease)])"
    using engine_step.node_signals [of "at db6 Draining [(''a'', GUnlease), (''p'', GSignal)]" "[(''a'', GUnlease)]" "''p''" "[]"]
    by (simp add: holds_lock_def wake_def)
  moreover have "?step (at db6 Draining [(''a'', GUnlease), (''p'', GUnlease)]) (at (released db6) Draining [(''p'', GUnlease)])"
    using at_unlease [OF db_facts2(6), of _ _ Draining "[]" "''a''" "[(''p'', GUnlease)]"] by simp
  moreover have "?step (at (released db6) Draining [(''p'', GUnlease)]) (at db7 Draining [])"
    using at_unlease [OF db_facts2(7), of _ _ Draining "[]" "''p''" "[]"] by simp
  moreover have "?step (at db7 Draining []) (at db7 Returned [])"
    using engine_step.main_returns [of "at db7 Draining []"] by simp
  ultimately show ?thesis by (meson converse_rtranclp_into_rtranclp rtranclp_trans rtranclp.rtrancl_refl)
qed

text \<open>
  C36: a pause can strand a node. When one node pauses the run while the scan has already claimed
  another one, the tick returns at once and the claimed batch is forgotten, unlike in
  \<open>startReadyBatch\<close>, which takes such claims back. \<open>Execute\<close> returns with all goroutines
  gone, the claimed node still has the status running although it was never started, and its
  lease stays taken.
\<close>

theorem dropped_batch:
  "\<exists>s. (engine_step db_runner sprintf_v)\<^sup>*\<^sup>* (loop_start db_loop) s \<and> pc s = Returned \<and> gors s = [] \<and>
     map_option ns_Status (map_of (steps (eng s)) ''b'') = Some RUNNING \<and> leaseBucket (eng s) = Some 1"
proof -
  have "(engine_step db_runner sprintf_v)\<^sup>*\<^sup>* (loop_start db_loop) (at db7 Returned [])"
    by (meson dropped_batch_start dropped_batch_pause dropped_batch_end rtranclp_trans)
  with db_facts2(8,9) show ?thesis by (intro exI [of _ "at db7 Returned []"]) simp
qed

end
