(* ===== verification/Engine_Outputs.thy ===== *)
theory Engine_Outputs
  imports Engine_Run
begin

text \<open>
  What the end of a node's execution leaves behind: its outputs in the variable pool and in the
  outputs of the run, its state, and the order in which a batch of nodes is started.
\<close>

section \<open>Outputs in the variable pool\<close>

lemma publish_outputs_pool:
  "runtimeState (node_finish now n (Some r, None) e) =
     updateRuntimeOutputsForNode (node_type_of n e) (r_Outputs r) (publish_outputs n (r_Outputs r) (runtimeState e))"
  by (simp add: node_finish_def Let_def engine_simps)

lemma updateRuntimeOutputs_pool:
  "map_option VariablePool (updateRuntimeOutputsForNode ty outs rs) = map_option VariablePool rs"
  by (auto simp: updateRuntimeOutputsForNode_def UpdateOutputs_def option.map_comp comp_def split: option.split)

text \<open>
  C21: the outputs of a node reach the nodes after it. When a node ends with a result and without
  an error, every output can be read from the variable pool under the selector of the node and
  the output's name, as the segment the value is converted to; nothing else in the pool changes.
\<close>

theorem finish_publishes:
  assumes "runtimeState e = Some rs" and "VariablePool rs = Some vp" and "r_Outputs r = Some outs"
    and "distinct (map fst outs)"
  shows "\<exists>rs' vp'. runtimeState (node_finish now n (Some r, None) e) = Some rs' \<and> VariablePool rs' = Some vp' \<and>
    (\<forall>k v. (k, v) \<in> set outs \<longrightarrow> pool_Get vp' [n, k] = Some (segmentToVariable (buildSegment v) [n, k])) \<and>
    (\<forall>m k. m \<noteq> n \<or> k \<notin> fst ` set outs \<longrightarrow> pool_Get vp' [m, k] = pool_Get vp [m, k])"
proof -
  let ?vp' = "pool.put_all n outs vp"
  have "map_option VariablePool (runtimeState (node_finish now n (Some r, None) e)) = Some (Some ?vp')"
    using assms(1-3)
    by (simp add: publish_outputs_pool updateRuntimeOutputs_pool publish_outputs_def pool.put_all_def)
  then obtain rs' where "runtimeState (node_finish now n (Some r, None) e) = Some rs'" "VariablePool rs' = Some ?vp'"
    by auto
  moreover have "pool_Get ?vp' [m, k] = pool_Get vp [m, k]" if "m \<noteq> n \<or> k \<notin> fst ` set outs" for m k
    using that pool.put_all_other_node [of n m outs vp k] pool.put_all_absent [of k outs n vp] by auto
  ultimately show ?thesis using pool.put_all_present [OF assms(4)] by blast
qed

theorem finish_publishes_witness:
  "\<exists>rs' vp'. runtimeState (node_finish 7 ''a'' (Some (empty_result\<lparr>r_Outputs := Some [(''text'', VString ''hi'')]\<rparr>), None)
       ((NewWorkflowEngine 1)\<lparr>runtimeState := Some NewGraphRuntimeStateWithDefaults\<rparr>)) = Some rs' \<and>
     VariablePool rs' = Some vp' \<and>
     pool_Get vp' [''a'', ''text''] = Some (segmentToVariable (StringSegment ''hi'') [''a'', ''text''])"
  using finish_publishes [of "(NewWorkflowEngine 1)\<lparr>runtimeState := Some NewGraphRuntimeStateWithDefaults\<rparr>"
      NewGraphRuntimeStateWithDefaults NewVariablePool
      "empty_result\<lparr>r_Outputs := Some [(''text'', VString ''hi'')]\<rparr>" "[(''text'', VString ''hi'')]" 7 "''a''"]
  by (fastforce simp: NewGraphRuntimeStateWithDefaults_def NewGraphRuntimeState_def buildSegment_def)

section \<open>Outputs of the run\<close>

definition merged_output :: "goval option \<Rightarrow> string \<Rightarrow> goval \<Rightarrow> goval" where
  "merged_output old k v =
     (case (old, v) of
        (Some (VString current), VString nxt) \<Rightarrow> if k = ''answer'' then VString (current @ nxt) else v
      | _ \<Rightarrow> v)"

lemma map_of_merge_output:
  "map_of (merge_output (k, v) base) j =
     (if j = k \<and> \<not> has_prefix k ''sys.'' then Some (merged_output (map_of base k) k v) else map_of base j)"
  by (auto simp: merge_output_def merged_output_def update_conv' split: option.split goval.split)

text \<open>
  The outputs of answer and end nodes are merged into those of the run: keys with the prefix
  \<open>sys.\<close> are left out, a text answer is appended to the text answer so far, every other key is
  overwritten, and keys that do not occur in the node's outputs are kept. The order in which
  Go iterates the node's outputs does not matter.
\<close>

theorem mergeRuntimeOutputs_lookup:
  assumes "distinct (map fst incoming)"
  shows "map_of (mergeRuntimeOutputs base incoming) k =
    (let old = map_of (case base of None \<Rightarrow> [] | Some b \<Rightarrow> b) k
     in case map_of incoming k of
          Some v \<Rightarrow> if has_prefix k ''sys.'' then old else Some (merged_output old k v)
        | None \<Rightarrow> old)"
proof -
  have "map_of (fold merge_output incoming b) k =
    (case map_of incoming k of
       Some v \<Rightarrow> if has_prefix k ''sys.'' then map_of b k else Some (merged_output (map_of b k) k v)
     | None \<Rightarrow> map_of b k)" for b
    using assms
  proof (induction incoming arbitrary: b)
    case (Cons kv incoming)
    obtain k' v' where kv: "kv = (k', v')" by (cases kv)
    with Cons.prems have "k = k' \<Longrightarrow> map_of incoming k = None" by (auto simp: map_of_eq_None_iff)
    with Cons kv show ?case by (auto simp: map_of_merge_output split: option.split)
  qed simp
  then show ?thesis by (simp add: mergeRuntimeOutputs_def Let_def)
qed

theorem mergeRuntimeOutputs_lookup_witness:
  "map_of (mergeRuntimeOutputs (Some [(''answer'', VString ''ab'')]) [(''sys.query'', VString ''q''), (''answer'', VString ''cd'')])
     ''answer'' = Some (VString ''abcd'')"
  using mergeRuntimeOutputs_lookup [of "[(''sys.query'', VString ''q''), (''answer'', VString ''cd'')]"
      "Some [(''answer'', VString ''ab'')]" "''answer''"]
  by (simp add: merged_output_def has_prefix_def)

section \<open>The state of a node\<close>

text \<open>
  C37: a node that is interrupted by a stop request ends up as succeeded. Consuming the events of
  its runner, the engine marks the node as failed when it sees that it was stopped; but the
  function deferred by \<open>executeNode\<close> then runs with neither a result nor an error and
  overwrites the status, keeping the error message.
\<close>

theorem interrupted_node_succeeds:
  assumes "isStopped e" and "map_of (steps e) n = Some st"
  shows "\<exists>vars e1 st'. consumeNodeEvents fmt_v t1 n (ev # evs) (None, None) e = Ret (False, vars, e1) \<and>
    map_option ns_Status (map_of (steps e1) n) = Some FAILED \<and>
    map_of (steps (node_finish t2 n vars e1)) n = Some st' \<and>
    ns_Status st' = SUCCEEDED \<and> ns_Error st' = Some ''workflow stopped by user''"
  using assms
  by (auto simp: engine_simps record_result_def copy_result_def final_status_def final_error_def)

theorem interrupted_node_succeeds_witness:
  "\<exists>vars e1 st'. consumeNodeEvents sprintf_v 5 ''a''
       [\<lparr>ev_Type = EventTypeRunStarted, ev_NodeID = [], ev_Data = None, ev_Error = None, ev_Timestamp = 4\<rparr>]
       (None, None) (Stop (demo_loop 2)) = Ret (False, vars, e1) \<and>
     map_of (steps (node_finish 6 ''a'' vars e1)) ''a'' = Some st' \<and> ns_Status st' = SUCCEEDED"
proof -
  have "isStopped (Stop (demo_loop 2))" by code_simp
  moreover have "map_of (steps (Stop (demo_loop 2))) ''a'' \<noteq> None" by code_simp
  then obtain st where "map_of (steps (Stop (demo_loop 2))) ''a'' = Some st" by blast
  ultimately show ?thesis
    using interrupted_node_succeeds [of "Stop (demo_loop 2)" "''a''" st sprintf_v 5 _ "[]" 6] by blast
qed

text \<open>
  An event that reports the end of a node without a result crashes the process: a nil
  dereference in the event loop, from which nothing recovers, whatever the engine and the events
  that follow.
\<close>

theorem missing_result_panics:
  "\<not> isStopped e \<Longrightarrow>
   consumeNodeEvents fmt_v now n (\<lparr>ev_Type = EventTypeRunCompleted, ev_NodeID = m,
      ev_Data = Some (DRunCompleted (Some \<lparr>rc_RunResult = None, rc_StartedAt = t1, rc_FinishedAt = t2\<rparr>)),
      ev_Error = er, ev_Timestamp = ts\<rparr> # evs) vars e = Panic"
  by (cases vars) (simp add: consume_event_def)

theorem missing_result_panics_witness:
  "consumeNodeEvents sprintf_v 5 ''a'' [\<lparr>ev_Type = EventTypeRunCompleted, ev_NodeID = ''a'',
      ev_Data = Some (DRunCompleted (Some \<lparr>rc_RunResult = None, rc_StartedAt = 1, rc_FinishedAt = 2\<rparr>)),
      ev_Error = None, ev_Timestamp = 3\<rparr>] (None, None) (demo_loop 2) = Panic"
  by (rule missing_result_panics) code_simp

text \<open>
  A finished route state is final. \<open>SetFinished\<close> either leaves an error and the state as it
  was, exactly when the state is already finished or the result has no final status, or takes the
  state to the status the result stands for; a paused state can still be finished.
\<close>

theorem SetFinished_spec:
  "(case SetFinished now res rns of
      Inl err \<Rightarrow> rn_Status rns \<in> {RouteSuccess, RouteFailed, RouteException} \<or>
        r_Status res \<notin> {SUCCEEDED, FAILED, EXCEPTION, PAUSED}
    | Inr rns' \<Rightarrow> rn_Status rns \<in> {RouteRunning, RoutePaused} \<and>
        rn_Status rns' = route_status_of (r_Status res) \<and> rn_NodeRunResult rns' = Some res \<and>
        (rn_FinishedAt rns' = (if r_Status res = PAUSED then rn_FinishedAt rns else Some now)) \<and>
        (\<forall>now' res'. r_Status res \<noteq> PAUSED \<longrightarrow> SetFinished now' res' rns' = Inl (AlreadyFinished (rn_ID rns))))"
  by (cases "rn_Status rns"; cases "r_Status res") (simp_all add: SetFinished_def route_status_of_def)

theorem SetFinished_spec_witness:
  "case SetFinished 9 (empty_result\<lparr>r_Status := SUCCEEDED\<rparr>) (fst (CreateNodeState 5 ''a'' NewRuntimeRouteState)) of
     Inl err \<Rightarrow> False
   | Inr rns' \<Rightarrow> rn_Status rns' = RouteSuccess \<and> rn_FinishedAt rns' = Some 9"
  using SetFinished_spec [where now = 9 and res = "empty_result\<lparr>r_Status := SUCCEEDED\<rparr>"
      and rns = "fst (CreateNodeState 5 ''a'' NewRuntimeRouteState)"]
  by (simp add: SetFinished_def CreateNodeState_def Let_def)

section \<open>Batches\<close>

text \<open>
  the nodes of a batch start in a fixed order. The nodes for which goroutines are started are
  those of the batch, sorted by their position in the graph, those without a position last and
  by name; so the order does not depend on the order in which Go iterated the map of nodes.
\<close>

theorem batch_order:
  assumes "mset batch = mset batch'" and "\<not> isPaused e"
  shows "\<exists>e' started. startReadyBatch batch e = Some (e', started) \<and> mset started = mset batch \<and>
    sorted (map (batch_key (nodeOrder e)) started) \<and> startReadyBatch batch' e = Some (e', started)"
proof -
  let ?f = "batch_key (nodeOrder e)"
  have "sort_key ?f batch = sort_key ?f batch'"
    using assms(1) by (intro sort_key_inj_key_eq inj_on_subset [OF inj_batch_key]) simp_all
  then show ?thesis
    using assms
    by (auto simp: startReadyBatch_def Let_def slice_stable_batch)
qed

theorem batch_order_witness:
  "\<exists>e' started. startReadyBatch [''b'', ''a''] (demo_loop 2) = Some (e', started) \<and>
     startReadyBatch [''a'', ''b''] (demo_loop 2) = Some (e', started)"
proof -
  have "mset [''b'', ''a''] = mset [''a'', ''b'']" by simp
  moreover have "\<not> isPaused (demo_loop 2)" by code_simp
  ultimately show ?thesis using batch_order [of "[''b'', ''a'']" "[''a'', ''b'']" "demo_loop 2"] by blast
qed

end
