(* ===== verification/Go_Strings.thy ===== *)
theory Go_Strings
  imports Go_Value
begin

text \<open>
  More of Go's \<open>strings\<close> package: case folding, and the facts about trimming and
  lower-casing that make the normalisations of the code idempotent.
\<close>

section \<open>Case folding\<close>

text \<open>
  \<open>strings.EqualFold\<close> on ASCII text; the Kelvin sign folds to k and the long s to s, which
  are the only other code points that fold to ASCII letters. Other bytes are compared as they
  are.
\<close>

fun fold_case :: "string \<Rightarrow> string" where
  "fold_case (a # b # c # s) =
     (if a = byte 197 \<and> b = byte 191 then byte 115 # fold_case (c # s)
      else if a = byte 226 \<and> b = byte 132 \<and> c = byte 170 then byte 107 # fold_case s
      else lower_byte a # fold_case (b # c # s))"
| "fold_case [a, b] =
     (if a = byte 197 \<and> b = byte 191 then [byte 115] else lower_byte a # fold_case [b])"
| "fold_case [a] = [lower_byte a]"
| "fold_case [] = []"

definition equal_fold :: "string \<Rightarrow> string \<Rightarrow> bool" where
  "equal_fold s t \<longleftrightarrow> fold_case s = fold_case t"

lemma equal_fold_refl [simp]: "equal_fold s s"
  by (simp add: equal_fold_def)

definition trim_prefix :: "string \<Rightarrow> string \<Rightarrow> string" where
  "trim_prefix s p = (if has_prefix s p then drop (length p) s else s)"

section \<open>Lower case and white space\<close>

text \<open>
  Lower-casing keeps every byte that is not an ASCII letter and never joins bytes that were
  apart, so it neither makes nor moves white space; normalising twice is normalising once.
\<close>

definition letter_byte :: "char \<Rightarrow> bool" where
  "letter_byte c \<longleftrightarrow> (97::nat) \<le> of_char c \<and> (of_char c :: nat) \<le> 122"

lemma of_char_byte: "n < 256 \<Longrightarrow> of_char (byte n) = n"
  by (simp add: byte_def)

lemma lower_byte_cases: "lower_byte c = c \<or> letter_byte (lower_byte c)"
  by (auto simp: lower_byte_def letter_byte_def Let_def of_char_byte)

lemma lower_byte_keep: "\<not> letter_byte d \<Longrightarrow> lower_byte c = d \<Longrightarrow> c = d"
  using lower_byte_cases by metis

lemma lower_byte_idem [simp]: "lower_byte (lower_byte c) = lower_byte c"
  by (auto simp: lower_byte_def Let_def of_char_byte)

lemma letter_bytes: "letter_byte (byte 105)" "letter_byte (byte 107)"
  by (simp_all add: letter_byte_def of_char_byte)


lemma to_lower_Cons_keep:
  assumes "to_lower s = d # r" and "\<not> letter_byte d"
  shows "\<exists>s'. s = d # s' \<and> to_lower s' = r"
  using assms letter_bytes
  by (induction s rule: to_lower.induct) (auto simp: Let_def dest: lower_byte_keep split: if_splits)

lemma to_lower_prefix:
  assumes "take (length p) (to_lower s) = p" and "\<forall>d \<in> set p. \<not> letter_byte d"
  shows "take (length p) s = p"
  using assms
proof (induction p arbitrary: s)
  case (Cons d p)
  then obtain r where "to_lower s = d # r" and r: "take (length p) r = p"
    by (cases "to_lower s") auto
  with Cons.prems obtain s' where "s = d # s'" and "to_lower s' = r"
    using to_lower_Cons_keep by fastforce
  with Cons.IH [of s'] Cons.prems r show ?case by simp
qed simp

lemma to_lower_Cons_tail: "to_lower s = x # r \<Longrightarrow> \<exists>pre t. s = pre @ t \<and> to_lower t = r"
  by (cases s rule: to_lower.cases)
    (auto split: if_splits intro: exI [of _ "[_]"] exI [of _ "[_, _]"] exI [of _ "[_, _, _]"])

lemma to_lower_eq_Nil [simp]: "to_lower s = [] \<longleftrightarrow> s = []"
  by (cases s rule: to_lower.cases) auto

lemma to_lower_keep: "to_lower s = p \<Longrightarrow> \<forall>d \<in> set p. \<not> letter_byte d \<Longrightarrow> s = p"
proof (induction p arbitrary: s)
  case (Cons d p)
  then obtain s' where "s = d # s'" and "to_lower s' = p"
    using to_lower_Cons_keep [of s d p] by auto
  with Cons.IH [of s'] Cons.prems(2) show ?case by simp
qed simp

lemma to_lower_suffix:
  "to_lower s = u @ p \<Longrightarrow> \<forall>d \<in> set p. \<not> letter_byte d \<Longrightarrow> \<exists>u'. s = u' @ p"
proof (induction u arbitrary: s)
  case Nil
  then have "s = [] @ p" using to_lower_keep [of s p] by simp
  then show ?case by blast
next
  case (Cons x u)
  then obtain pre t where "s = pre @ t" and "to_lower t = u @ p"
    using to_lower_Cons_tail [of s x "u @ p"] by auto
  with Cons obtain u' where "s = (pre @ u') @ p" by (metis append.assoc)
  then show ?case by blast
qed

text \<open>No byte sequence that lower-casing would change appears in its result.\<close>

lemma to_lower_Cons:
  "to_lower (a # s) =
     (if take 1 s = [byte 176] \<and> a = byte 196 then byte 105 # to_lower (drop 1 s)
      else if take 2 s = [byte 132, byte 170] \<and> a = byte 226 then byte 107 # to_lower (drop 2 s)
      else lower_byte a # to_lower s)"
  by (cases "a # s" rule: to_lower.cases) auto

lemma kept_bytes:
  "\<not> letter_byte (byte 196)" "\<not> letter_byte (byte 176)" "\<not> letter_byte (byte 226)"
  "\<not> letter_byte (byte 132)" "\<not> letter_byte (byte 170)"
  by (simp_all add: letter_byte_def of_char_byte)

lemma to_lower_head:
  "take 1 (to_lower s) = [byte 176] \<Longrightarrow> take 1 s = [byte 176]"
  "take 2 (to_lower s) = [byte 132, byte 170] \<Longrightarrow> take 2 s = [byte 132, byte 170]"
  using to_lower_prefix [of "[byte 176]" s] to_lower_prefix [of "[byte 132, byte 170]" s] kept_bytes
  by (simp_all add: numeral_2_eq_2)

lemma to_lower_idem [simp]: "to_lower (to_lower s) = to_lower s"
proof (induction s rule: length_induct)
  case (1 s)
  show ?case
  proof (cases s)
    case (Cons a t)
    have IH: "to_lower (to_lower (drop n t)) = to_lower (drop n t)" for n
      using 1 Cons by simp
    have special: "byte 105 \<noteq> byte 196" "byte 105 \<noteq> byte 226" "byte 107 \<noteq> byte 196" "byte 107 \<noteq> byte 226"
      "lower_byte (byte 105) = byte 105" "lower_byte (byte 107) = byte 107"
      by (simp_all add: byte_def lower_byte_def)
    show ?thesis
      using IH [of 0] IH [of 1] IH [of 2] special to_lower_head [of t] kept_bytes
        lower_byte_keep [of "byte 196" a] lower_byte_keep [of "byte 226" a]
      unfolding Cons to_lower_Cons [of a t]
      by (auto simp: to_lower_Cons)
  qed simp
qed

lemma space_bytes: "p \<in> set space_runes \<Longrightarrow> \<forall>d \<in> set p. \<not> letter_byte d"
  by (auto simp: space_runes_def letter_byte_def of_char_byte)

lemma no_rune_to_lower: "no_rune space_runes s \<Longrightarrow> no_rune space_runes (to_lower s)"
  using to_lower_prefix space_bytes by (fastforce simp: no_rune_def)

lemma no_rune_rev_iff:
  "no_rune (map rev ps) (rev s) \<longleftrightarrow> (\<forall>p \<in> set ps. \<nexists>u. s = u @ p)"
proof -
  have "take (length p) (rev s) = rev p \<longleftrightarrow> (\<exists>u. s = u @ p)" for p :: string
    by (metis append_take_drop_id length_rev rev_append rev_rev_ident append_eq_conv_conj)
  then show ?thesis by (simp add: no_rune_def)
qed

lemma trim_space_id:
  assumes "no_rune space_runes s" and "no_rune (map rev space_runes) (rev s)"
  shows "trim_space s = s"
  using assms trim_left_id space_runes_nonempty by (simp add: trim_space_def)

lemma trim_space_to_lower [simp]: "trim_space (to_lower (trim_space s)) = to_lower (trim_space s)"
proof (rule trim_space_id)
  show "no_rune space_runes (to_lower (trim_space s))"
    by (rule no_rune_to_lower) (rule trim_space_trimmed)
  have "\<nexists>u. to_lower (trim_space s) = u @ p" if "p \<in> set space_runes" for p
    using that trim_space_trimmed(2) [of s] to_lower_suffix [OF _ space_bytes [OF that]]
    unfolding no_rune_rev_iff by blast
  then show "no_rune (map rev space_runes) (rev (to_lower (trim_space s)))"
    unfolding no_rune_rev_iff by blast
qed

text \<open>Visible ASCII text has no white space at its ends.\<close>

definition graphic :: "char \<Rightarrow> bool" where
  "graphic c \<longleftrightarrow> (33::nat) \<le> of_char c \<and> (of_char c :: nat) \<le> 126"

lemma space_not_graphic: "p \<in> set space_runes \<Longrightarrow> p \<noteq> [] \<and> (\<forall>d \<in> set p. \<not> graphic d)"
  by (auto simp: space_runes_def graphic_def of_char_byte)

lemma graphic_trim_space: "\<forall>c \<in> set s. graphic c \<Longrightarrow> trim_space s = s"
proof (rule trim_space_id)
  assume graphic: "\<forall>c \<in> set s. graphic c"
  have "take (length p) s \<noteq> p" and "s \<noteq> u @ p" if "p \<in> set space_runes" for p u
    using space_not_graphic [OF that] graphic in_set_takeD [of "hd p" "length p" s] by (cases p; auto)+
  then show "no_rune space_runes s" "no_rune (map rev space_runes) (rev s)"
    unfolding no_rune_rev_iff by (auto simp: no_rune_def)
qed

text \<open>Names of lower-case ASCII letters and underscores are their own normal form.\<close>

definition plain_byte :: "char \<Rightarrow> bool" where
  "plain_byte c \<longleftrightarrow> letter_byte c \<or> (of_char c :: nat) = 95"

lemma plain_trim_space: "\<forall>c \<in> set s. plain_byte c \<Longrightarrow> trim_space s = s"
  by (rule graphic_trim_space) (auto simp: plain_byte_def letter_byte_def graphic_def)

text \<open>ASCII text without capital letters is in lower case.\<close>

definition lower_ascii :: "char \<Rightarrow> bool" where
  "lower_ascii c \<longleftrightarrow> (of_char c :: nat) < 128 \<and> ((of_char c :: nat) < 65 \<or> 90 < (of_char c :: nat))"

lemma lower_ascii_to_lower: "\<forall>c \<in> set s. lower_ascii c \<Longrightarrow> to_lower s = s"
proof (induction s)
  case (Cons a s)
  then have "lower_ascii a" by simp
  then have "a \<noteq> byte 196" "a \<noteq> byte 226" "lower_byte a = a"
    by (auto simp: lower_ascii_def lower_byte_def of_char_byte Let_def)
  with Cons show ?case by (simp add: to_lower_Cons)
qed simp

lemma plain_to_lower: "\<forall>c \<in> set s. plain_byte c \<Longrightarrow> to_lower s = s"
  by (rule lower_ascii_to_lower) (auto simp: plain_byte_def letter_byte_def lower_ascii_def)

lemmas plain_norm = plain_trim_space plain_to_lower

text \<open>The equations of the two scanners match at three places at once and are only used by name.\<close>

declare to_lower.simps [simp del] fold_case.simps [simp del]

lemma to_lower_Nil [simp]: "to_lower [] = []"
  by (simp add: to_lower.simps)

end
