(* ===== verification/Tool_Governance.thy ===== *)
theory Tool_Governance
  imports Go_Strings
begin

text \<open>
  Governance of tool calls (package \<open>capabilities/toolgovernance\<close>), first part: the
  types of \<open>types.go\<close>, the normalisation of everything that enters a decision
  (\<open>normalize.go\<close>) and the predicates of a policy and of a permission tier
  (\<open>policy.go\<close>). The \<open>Effect\<close>, \<open>RiskLevel\<close>, \<open>PermissionTier\<close>, \<open>ApprovalPolicy\<close> and
  \<open>ApprovalMode\<close> of the source are strings that any text can be stored in, and they are
  strings here. Lower-casing is that of the prelude: exact on ASCII text and on the code points
  whose lower case is ASCII, while other letters are kept, so the asset types, domains and
  scopes of the model are compared as if they were written in lower case already. Identifiers
  that are nil and slices that are empty are not told apart (the code only asks for lengths).
\<close>

section \<open>Types\<close>

abbreviation EffectNone :: string where "EffectNone \<equiv> ''none''"
abbreviation EffectRead :: string where "EffectRead \<equiv> ''read''"
abbreviation EffectCreate :: string where "EffectCreate \<equiv> ''create''"
abbreviation EffectUpdate :: string where "EffectUpdate \<equiv> ''update''"
abbreviation EffectDelete :: string where "EffectDelete \<equiv> ''delete''"
abbreviation EffectPublish :: string where "EffectPublish \<equiv> ''publish''"
abbreviation EffectInvoke :: string where "EffectInvoke \<equiv> ''invoke''"
abbreviation EffectSchedule :: string where "EffectSchedule \<equiv> ''schedule''"
abbreviation EffectExternalSend :: string where "EffectExternalSend \<equiv> ''external_send''"

abbreviation RiskLevelLow :: string where "RiskLevelLow \<equiv> ''low''"
abbreviation RiskLevelMedium :: string where "RiskLevelMedium \<equiv> ''medium''"
abbreviation RiskLevelHigh :: string where "RiskLevelHigh \<equiv> ''high''"
abbreviation RiskLevelCritical :: string where "RiskLevelCritical \<equiv> ''critical''"

abbreviation PermissionTierBasic :: string where "PermissionTierBasic \<equiv> ''basic''"
abbreviation PermissionTierAdvanced :: string where "PermissionTierAdvanced \<equiv> ''advanced''"
abbreviation PermissionTierFull :: string where "PermissionTierFull \<equiv> ''full''"

abbreviation ApprovalPolicyAutoByPermissionTier :: string where "ApprovalPolicyAutoByPermissionTier \<equiv> ''auto_by_permission_tier''"
abbreviation ApprovalPolicyAlwaysAsk :: string where "ApprovalPolicyAlwaysAsk \<equiv> ''always_ask''"
abbreviation ApprovalPolicyNeverAsk :: string where "ApprovalPolicyNeverAsk \<equiv> ''never_ask''"

abbreviation ApprovalModeInteractive :: string where "ApprovalModeInteractive \<equiv> ''interactive''"
abbreviation ApprovalModeNonInteractive :: string where "ApprovalModeNonInteractive \<equiv> ''non_interactive''"

datatype decision_status =
    DecisionStatusAllowed | DecisionStatusNeedsApproval | DecisionStatusDenied
  | DecisionStatusNeedsResolution | DecisionStatusBlocked

fun decision_string :: "decision_status \<Rightarrow> string" where
  "decision_string DecisionStatusAllowed = ''allowed''"
| "decision_string DecisionStatusNeedsApproval = ''needs_approval''"
| "decision_string DecisionStatusDenied = ''denied''"
| "decision_string DecisionStatusNeedsResolution = ''needs_resolution''"
| "decision_string DecisionStatusBlocked = ''blocked''"

record manifest =
  m_ToolID :: string
  m_SkillID :: string
  m_Domain :: string
  m_Effect :: string
  m_AssetType :: string
  m_RiskLevel :: string
  m_RequiresAssetResolution :: bool
  m_Reversible :: bool
  m_BulkSensitive :: bool
  m_ExternalSideEffect :: bool
  m_PermissionScopes :: "string list"
  m_DefaultApprovalPolicy :: string
  m_AllowedPermissionTiers :: "string list"
  m_AuditRequired :: bool
  m_IdempotencyRequired :: bool

record asset_ref =
  a_ID :: string
  a_Type :: string
  a_Name :: string
  a_WorkspaceID :: string
  a_Source :: string
  a_Metadata :: dict

record session_grant =
  g_ConversationID :: string
  g_OrganizationID :: string
  g_UserID :: string
  g_SkillID :: string
  g_ProviderType :: string
  g_ProviderID :: string
  g_ToolID :: string
  g_Effect :: string
  g_AssetType :: string
  g_Assets :: "asset_ref list"
  g_RiskLevel :: string
  g_ApprovalCorrelationID :: string
  g_GrantedAt :: time
  g_ExpiresAt :: time

record preauthorization =
  p_Required :: bool
  p_Matched :: bool
  p_Source :: string
  p_BindingType :: string
  p_AuthorizedBy :: string
  p_AuthorizedAt :: "time option"
  p_Resources :: "asset_ref list"
  p_Code :: string
  p_Reason :: string

record frozen_invocation =
  fi_ID :: string
  fi_IdempotencyKey :: string
  fi_Hash :: string
  fi_Status :: string
  fi_CorrelationID :: string
  fi_SkillID :: string
  fi_ToolName :: string
  fi_ToolID :: string
  fi_ProviderType :: string
  fi_ProviderID :: string
  fi_Effect :: string
  fi_AssetType :: string
  fi_RiskLevel :: string
  fi_Arguments :: dict
  fi_Assets :: "asset_ref list"
  fi_ExpectedAssets :: "asset_ref list"
  fi_CreatedAt :: "time option"
  fi_ExpiresAt :: "time option"

record approval_event =
  ae_Type :: string
  ae_CorrelationID :: string
  ae_ToolID :: string
  ae_SkillID :: string
  ae_Domain :: string
  ae_Effect :: string
  ae_AssetType :: string
  ae_RiskLevel :: string
  ae_Assets :: "asset_ref list"
  ae_Reversible :: bool
  ae_BulkSensitive :: bool
  ae_ExternalSideEffect :: bool
  ae_PermissionTier :: string
  ae_Grant :: session_grant
  ae_FrozenInvocation :: "frozen_invocation option"

text \<open>The values that the audit record and the feedback for the model hold.\<close>

datatype gov_value =
    GString string
  | GBool bool
  | GInt int
  | GStrings "string list"
  | GAssets "asset_ref list"
  | GGrant session_grant
  | GPre preauthorization
  | GTime time
  | GMap "(string \<times> gov_value) list"

type_synonym gov_map = "(string, gov_value) gomap"

record decision =
  d_Status :: decision_status
  d_RequiresApproval :: bool
  d_Reason :: string
  d_CorrelationID :: string
  d_ApprovedByCorrelationID :: string
  d_MatchedGrant :: "session_grant option"
  d_Preauthorization :: "preauthorization option"
  d_Manifest :: manifest
  d_Assets :: "asset_ref list"
  d_ExpectedAssets :: "asset_ref list"
  d_ApprovalEvent :: "approval_event option"
  d_FrozenInvocation :: "frozen_invocation option"
  d_AssetOperationAudit :: gov_map
  d_ModelFeedback :: gov_map

record request =
  q_Manifest :: manifest
  q_PermissionTier :: string
  q_ApprovalMode :: string
  q_Preauthorization :: "preauthorization option"
  q_ConversationID :: string
  q_OrganizationID :: string
  q_UserID :: string
  q_SkillID :: string
  q_ProviderType :: string
  q_ProviderID :: string
  q_Assets :: "asset_ref list"
  q_ExpectedAssets :: "asset_ref list"
  q_SessionGrants :: "session_grant list"
  q_CorrelationID :: string

record policy =
  po_DefaultPermissionTier :: string
  po_CriticalRiskBlocked :: bool
  po_HighRiskRequiresApproval :: bool
  po_CriticalRiskRequiresApproval :: bool
  po_DeleteRequiresApproval :: bool
  po_BulkSensitiveRequiresApproval :: bool
  po_ExternalSideEffectRequiresApproval :: bool

definition DefaultSessionGrantTTL :: duration where
  "DefaultSessionGrantTTL = 24 * 3600 * 10 ^ 9"

section \<open>Normalisation\<close>

definition one_of :: "string list \<Rightarrow> string \<Rightarrow> string \<Rightarrow> string" where
  "one_of names dflt s = (let t = to_lower (trim_space s) in if t \<in> set names then t else dflt)"

definition effects :: "string list" where
  "effects = [EffectRead, EffectCreate, EffectUpdate, EffectDelete, EffectPublish, EffectInvoke,
     EffectSchedule, EffectExternalSend]"

definition NormalizeEffect :: "string \<Rightarrow> string" where
  "NormalizeEffect effect = one_of effects EffectNone effect"

definition NormalizeRiskLevel :: "string \<Rightarrow> string" where
  "NormalizeRiskLevel risk = one_of [RiskLevelCritical, RiskLevelHigh, RiskLevelMedium] RiskLevelLow risk"

definition NormalizePermissionTier :: "string \<Rightarrow> string" where
  "NormalizePermissionTier tier = one_of [PermissionTierFull, PermissionTierAdvanced, PermissionTierBasic] [] tier"

definition NormalizeApprovalPolicy :: "string \<Rightarrow> string" where
  "NormalizeApprovalPolicy policy = one_of [ApprovalPolicyAlwaysAsk, ApprovalPolicyNeverAsk] ApprovalPolicyAutoByPermissionTier policy"

definition normalizeApprovalMode :: "string \<Rightarrow> string" where
  "normalizeApprovalMode mode = one_of [ApprovalModeNonInteractive] ApprovalModeInteractive mode"

definition RiskRank :: "string \<Rightarrow> int" where
  "RiskRank risk =
     (let r = NormalizeRiskLevel risk
      in if r = RiskLevelCritical then 4 else if r = RiskLevelHigh then 3 else if r = RiskLevelMedium then 2 else 1)"

definition normalizeAssetType :: "string \<Rightarrow> string" where
  "normalizeAssetType v = to_lower (trim_space v)"

text \<open>Lists without empty entries and without repetitions, in the order of first occurrence.\<close>

fun norm_list :: "(string \<Rightarrow> string) \<Rightarrow> string list \<Rightarrow> string list \<Rightarrow> string list" where
  "norm_list f seen [] = []"
| "norm_list f seen (raw # rest) =
     (let v = f raw
      in if v = [] \<or> v \<in> set seen then norm_list f seen rest else v # norm_list f (v # seen) rest)"

definition normalizeStringList :: "string list \<Rightarrow> string list" where
  "normalizeStringList values = norm_list (\<lambda>raw. to_lower (trim_space raw)) [] values"

definition normalizePermissionTierList :: "string list \<Rightarrow> string list" where
  "normalizePermissionTierList values = norm_list NormalizePermissionTier [] values"

definition NormalizeManifest :: "manifest \<Rightarrow> manifest" where
  "NormalizeManifest m = m
     \<lparr>m_ToolID := trim_space (m_ToolID m),
      m_SkillID := trim_space (m_SkillID m),
      m_Domain := to_lower (trim_space (m_Domain m)),
      m_Effect := NormalizeEffect (m_Effect m),
      m_AssetType := normalizeAssetType (m_AssetType m),
      m_RiskLevel := NormalizeRiskLevel (m_RiskLevel m),
      m_DefaultApprovalPolicy := NormalizeApprovalPolicy (m_DefaultApprovalPolicy m),
      m_PermissionScopes := normalizeStringList (m_PermissionScopes m),
      m_AllowedPermissionTiers := normalizePermissionTierList (m_AllowedPermissionTiers m)\<rparr>"

definition normalize_asset :: "asset_ref \<Rightarrow> asset_ref" where
  "normalize_asset a = a
     \<lparr>a_ID := trim_space (a_ID a), a_Type := normalizeAssetType (a_Type a), a_Name := trim_space (a_Name a),
      a_WorkspaceID := trim_space (a_WorkspaceID a), a_Source := trim_space (a_Source a)\<rparr>"

definition empty_asset :: "asset_ref \<Rightarrow> bool" where
  "empty_asset a \<longleftrightarrow> a_ID a = [] \<and> a_Name a = [] \<and> a_Type a = []"

definition normalizeAssets :: "asset_ref list \<Rightarrow> asset_ref list" where
  "normalizeAssets assets = filter (\<lambda>a. \<not> empty_asset a) (map normalize_asset assets)"

definition normalizeSessionGrant :: "session_grant \<Rightarrow> session_grant" where
  "normalizeSessionGrant g = g
     \<lparr>g_ConversationID := trim_space (g_ConversationID g),
      g_OrganizationID := trim_space (g_OrganizationID g),
      g_UserID := trim_space (g_UserID g),
      g_SkillID := trim_space (g_SkillID g),
      g_ProviderType := trim_space (g_ProviderType g),
      g_ProviderID := trim_space (g_ProviderID g),
      g_ToolID := trim_space (g_ToolID g),
      g_Effect := NormalizeEffect (g_Effect g),
      g_AssetType := normalizeAssetType (g_AssetType g),
      g_Assets := map (\<lambda>a. if a_Type a = [] then a\<lparr>a_Type := normalizeAssetType (g_AssetType g)\<rparr> else a)
                    (normalizeAssets (g_Assets g)),
      g_RiskLevel := NormalizeRiskLevel (g_RiskLevel g),
      g_ApprovalCorrelationID := trim_space (g_ApprovalCorrelationID g)\<rparr>"

definition normalizePreauthorization :: "preauthorization option \<Rightarrow> preauthorization option" where
  "normalizePreauthorization pre =
     map_option (\<lambda>p. p
       \<lparr>p_Source := to_lower (trim_space (p_Source p)),
        p_BindingType := to_lower (trim_space (p_BindingType p)),
        p_AuthorizedBy := trim_space (p_AuthorizedBy p),
        p_Resources := normalizeAssets (p_Resources p),
        p_Code := to_lower (trim_space (p_Code p)),
        p_Reason := trim_space (p_Reason p)\<rparr>) pre"

fun firstNonEmptyString :: "string list \<Rightarrow> string" where
  "firstNonEmptyString [] = []"
| "firstNonEmptyString (v # vs) = (if trim_space v \<noteq> [] then trim_space v else firstNonEmptyString vs)"

section \<open>Policies\<close>

definition DefaultPolicy :: policy where
  "DefaultPolicy =
     \<lparr>po_DefaultPermissionTier = PermissionTierBasic, po_CriticalRiskBlocked = False,
      po_HighRiskRequiresApproval = True, po_CriticalRiskRequiresApproval = True,
      po_DeleteRequiresApproval = True, po_BulkSensitiveRequiresApproval = True,
      po_ExternalSideEffectRequiresApproval = True\<rparr>"

definition withDefaults :: "policy \<Rightarrow> policy" where
  "withDefaults p =
     (let d = DefaultPolicy
      in p\<lparr>po_DefaultPermissionTier :=
             (if po_DefaultPermissionTier p = [] then po_DefaultPermissionTier d else po_DefaultPermissionTier p),
           po_HighRiskRequiresApproval :=
             (if \<not> po_HighRiskRequiresApproval p then po_HighRiskRequiresApproval d else po_HighRiskRequiresApproval p),
           po_CriticalRiskRequiresApproval :=
             (if \<not> po_CriticalRiskRequiresApproval p then po_CriticalRiskRequiresApproval d
              else po_CriticalRiskRequiresApproval p),
           po_DeleteRequiresApproval :=
             (if \<not> po_DeleteRequiresApproval p then po_DeleteRequiresApproval d else po_DeleteRequiresApproval p),
           po_BulkSensitiveRequiresApproval :=
             (if \<not> po_BulkSensitiveRequiresApproval p then po_BulkSensitiveRequiresApproval d
              else po_BulkSensitiveRequiresApproval p),
           po_ExternalSideEffectRequiresApproval :=
             (if \<not> po_ExternalSideEffectRequiresApproval p then po_ExternalSideEffectRequiresApproval d
              else po_ExternalSideEffectRequiresApproval p)\<rparr>)"

definition hardRequiresApproval :: "policy \<Rightarrow> manifest \<Rightarrow> bool" where
  "hardRequiresApproval p m \<longleftrightarrow>
     (if po_ExternalSideEffectRequiresApproval p \<and> m_ExternalSideEffect m then True
      else if po_BulkSensitiveRequiresApproval p \<and> m_BulkSensitive m then True
      else if po_DeleteRequiresApproval p \<and> m_Effect m = EffectDelete then True
      else if po_CriticalRiskRequiresApproval p \<and> m_RiskLevel m = RiskLevelCritical then True
      else po_HighRiskRequiresApproval p \<and> RiskRank (m_RiskLevel m) \<ge> RiskRank RiskLevelHigh)"

definition hardApprovalReason :: "policy \<Rightarrow> manifest \<Rightarrow> string" where
  "hardApprovalReason p m =
     (if po_ExternalSideEffectRequiresApproval p \<and> m_ExternalSideEffect m
      then ''external side effect requires user approval''
      else if po_BulkSensitiveRequiresApproval p \<and> m_BulkSensitive m
      then ''bulk-sensitive tool requires user approval''
      else if po_DeleteRequiresApproval p \<and> m_Effect m = EffectDelete
      then ''delete effect requires user approval''
      else if po_CriticalRiskRequiresApproval p \<and> m_RiskLevel m = RiskLevelCritical
      then ''critical risk requires user approval''
      else if po_HighRiskRequiresApproval p \<and> RiskRank (m_RiskLevel m) \<ge> RiskRank RiskLevelHigh
      then ''high risk requires user approval''
      else ''tool requires user approval'')"

definition isAssetOperation :: "manifest \<Rightarrow> bool" where
  "isAssetOperation m \<longleftrightarrow> (if m_AssetType m \<noteq> [] then True else m_Effect m \<in> set effects)"

definition basicTierAllows :: "manifest \<Rightarrow> bool" where
  "basicTierAllows m \<longleftrightarrow>
     (if \<not> isAssetOperation m then RiskRank (m_RiskLevel m) \<le> RiskRank RiskLevelLow
      else m_Effect m = EffectRead \<and> RiskRank (m_RiskLevel m) \<le> RiskRank RiskLevelLow
           \<and> \<not> m_BulkSensitive m \<and> \<not> m_ExternalSideEffect m)"

definition advancedTierAllows :: "manifest \<Rightarrow> bool" where
  "advancedTierAllows m \<longleftrightarrow>
     (if \<not> isAssetOperation m then RiskRank (m_RiskLevel m) \<le> RiskRank RiskLevelMedium
      else m_Effect m \<in> {EffectRead, EffectCreate, EffectUpdate}
           \<and> RiskRank (m_RiskLevel m) \<le> RiskRank RiskLevelMedium
           \<and> \<not> m_BulkSensitive m \<and> \<not> m_ExternalSideEffect m)"

definition tierAllowed :: "manifest \<Rightarrow> string \<Rightarrow> bool" where
  "tierAllowed m tier \<longleftrightarrow>
     (if m_AllowedPermissionTiers m = [] then True else tier \<in> set (m_AllowedPermissionTiers m))"

section \<open>Normalisation is idempotent\<close>

text \<open>
  What a normaliser of an enumeration promises: the result is one of the valid values, a valid
  value is its own normal form, and only the trimmed text counts.
\<close>

locale enum_normaliser =
  fixes canon :: "string \<Rightarrow> string" and norm :: "string \<Rightarrow> string" and valid :: "string set"
  assumes norm_valid: "norm s \<in> valid"
    and norm_fixed: "v \<in> valid \<Longrightarrow> norm v = v"
    and norm_canon: "norm (canon s) = norm s"
begin

lemma norm_idem: "norm (norm s) = norm s"
  by (rule norm_fixed) (rule norm_valid)

lemma norm_of_valid: "canon s \<in> valid \<Longrightarrow> norm s = canon s"
  using norm_fixed [of "canon s"] norm_canon [of s] by simp

lemma norm_eq_iff: "v \<in> valid \<Longrightarrow> norm s = norm v \<longleftrightarrow> norm s = v"
  by (simp add: norm_fixed)

end

lemma one_of_cases: "one_of names dflt s \<in> insert dflt (set names)"
  by (simp add: one_of_def Let_def)

lemma one_of_fixed:
  assumes "\<forall>v \<in> insert dflt (set names). \<forall>c \<in> set v. plain_byte c" and "v \<in> insert dflt (set names)"
  shows "one_of names dflt v = v"
proof -
  have "to_lower (trim_space v) = v"
    using bspec [OF assms] by (simp add: plain_norm)
  with assms(2) show ?thesis by (auto simp: one_of_def)
qed

lemma one_of_canon: "one_of names dflt (to_lower (trim_space s)) = one_of names dflt s"
  by (simp add: one_of_def)

interpretation effect: enum_normaliser "\<lambda>s. to_lower (trim_space s)" NormalizeEffect "insert EffectNone (set effects)"
proof
  show "NormalizeEffect v = v" if "v \<in> insert EffectNone (set effects)" for v
    using that unfolding NormalizeEffect_def by (rule one_of_fixed [rotated]) (simp add: effects_def plain_byte_def letter_byte_def)
qed (simp_all only: NormalizeEffect_def one_of_cases one_of_canon)

interpretation risk: enum_normaliser "\<lambda>s. to_lower (trim_space s)" NormalizeRiskLevel
  "insert RiskLevelLow (set [RiskLevelCritical, RiskLevelHigh, RiskLevelMedium])"
proof
  show "NormalizeRiskLevel v = v"
    if "v \<in> insert RiskLevelLow (set [RiskLevelCritical, RiskLevelHigh, RiskLevelMedium])" for v
    using that unfolding NormalizeRiskLevel_def by (rule one_of_fixed [rotated]) (simp add: effects_def plain_byte_def letter_byte_def)
qed (simp_all only: NormalizeRiskLevel_def one_of_cases one_of_canon)

interpretation tier: enum_normaliser "\<lambda>s. to_lower (trim_space s)" NormalizePermissionTier
  "insert [] (set [PermissionTierFull, PermissionTierAdvanced, PermissionTierBasic])"
proof
  show "NormalizePermissionTier v = v"
    if "v \<in> insert [] (set [PermissionTierFull, PermissionTierAdvanced, PermissionTierBasic])" for v
    using that unfolding NormalizePermissionTier_def by (rule one_of_fixed [rotated]) (simp add: effects_def plain_byte_def letter_byte_def)
qed (simp_all only: NormalizePermissionTier_def one_of_cases one_of_canon)

interpretation approval: enum_normaliser "\<lambda>s. to_lower (trim_space s)" NormalizeApprovalPolicy
  "insert ApprovalPolicyAutoByPermissionTier (set [ApprovalPolicyAlwaysAsk, ApprovalPolicyNeverAsk])"
proof
  show "NormalizeApprovalPolicy v = v"
    if "v \<in> insert ApprovalPolicyAutoByPermissionTier (set [ApprovalPolicyAlwaysAsk, ApprovalPolicyNeverAsk])" for v
    using that unfolding NormalizeApprovalPolicy_def by (rule one_of_fixed [rotated]) (simp add: effects_def plain_byte_def letter_byte_def)
qed (simp_all only: NormalizeApprovalPolicy_def one_of_cases one_of_canon)

interpretation mode: enum_normaliser "\<lambda>s. to_lower (trim_space s)" normalizeApprovalMode
  "insert ApprovalModeInteractive (set [ApprovalModeNonInteractive])"
proof
  show "normalizeApprovalMode v = v" if "v \<in> insert ApprovalModeInteractive (set [ApprovalModeNonInteractive])" for v
    using that unfolding normalizeApprovalMode_def by (rule one_of_fixed [rotated]) (simp add: effects_def plain_byte_def letter_byte_def)
qed (simp_all only: normalizeApprovalMode_def one_of_cases one_of_canon)

lemmas enum_idem [simp] =
  effect.norm_idem risk.norm_idem tier.norm_idem approval.norm_idem mode.norm_idem

lemma normalizeAssetType_idem [simp]: "normalizeAssetType (normalizeAssetType v) = normalizeAssetType v"
  by (simp add: normalizeAssetType_def)

text \<open>The elements of a normalised list.\<close>

lemma set_norm_list: "set (norm_list f seen vs) = {v \<in> f ` set vs. v \<noteq> []} - set seen"
  by (induction f seen vs rule: norm_list.induct) (auto simp: Let_def)

lemma distinct_norm_list: "distinct (norm_list f seen vs)"
  by (induction f seen vs rule: norm_list.induct) (auto simp: Let_def set_norm_list)

lemma norm_list_fixed:
  "distinct vs \<Longrightarrow> set vs \<inter> set seen = {} \<Longrightarrow> \<forall>v \<in> set vs. f v = v \<and> v \<noteq> [] \<Longrightarrow> norm_list f seen vs = vs"
  by (induction f seen vs rule: norm_list.induct) (auto simp: Let_def)

lemma norm_list_idem:
  assumes "\<And>v. f (f v) = f v"
  shows "norm_list f [] (norm_list f [] vs) = norm_list f [] vs"
  using assms by (intro norm_list_fixed distinct_norm_list) (auto simp: set_norm_list)

lemma norm_lists_idem [simp]:
  "normalizeStringList (normalizeStringList vs) = normalizeStringList vs"
  "normalizePermissionTierList (normalizePermissionTierList vs) = normalizePermissionTierList vs"
  by (simp_all add: normalizeStringList_def normalizePermissionTierList_def norm_list_idem)

lemma NormalizeManifest_idem [simp]: "NormalizeManifest (NormalizeManifest m) = NormalizeManifest m"
  by (simp add: NormalizeManifest_def)

lemma normalize_asset_idem [simp]: "normalize_asset (normalize_asset a) = normalize_asset a"
  by (simp add: normalize_asset_def)

lemma normalizeAssets_normal:
  "a \<in> set (normalizeAssets as) \<Longrightarrow> normalize_asset a = a \<and> \<not> empty_asset a"
  by (auto simp: normalizeAssets_def)

lemma normalizeAssets_fixed:
  "\<forall>a \<in> set as. normalize_asset a = a \<and> \<not> empty_asset a \<Longrightarrow> normalizeAssets as = as"
  by (induction as) (auto simp: normalizeAssets_def)

lemma normalizeAssets_idem [simp]: "normalizeAssets (normalizeAssets as) = normalizeAssets as"
  by (rule normalizeAssets_fixed) (blast dest: normalizeAssets_normal)

lemma RiskRank_norm [simp]: "RiskRank (NormalizeRiskLevel r) = RiskRank r"
  by (simp add: RiskRank_def)

end
