(* ===== verification/Governance_Decision.thy ===== *)
theory Governance_Decision
  imports Tool_Governance
begin

text \<open>
  Governance of tool calls, second part: the decision on a request (\<open>Decide\<close> of
  \<open>policy.go\<close>) with the search for a session grant, the approval event, the audit record
  and the feedback for the model, and the validation of manifests (\<open>validate.go\<close>). A fresh
  correlation id (\<open>uuid.NewString\<close>) and the two readings of the clock, in
  \<open>matchingSessionGrant\<close> and in \<open>approvalEvent\<close>, are arguments.
\<close>

section \<open>Assets and grants\<close>

definition assetMatchesExpectedAsset :: "asset_ref \<Rightarrow> asset_ref \<Rightarrow> bool" where
  "assetMatchesExpectedAsset asset expected \<longleftrightarrow>
     (if a_Type asset \<noteq> [] \<and> a_Type expected \<noteq> [] \<and> a_Type asset \<noteq> a_Type expected then False
      else if a_WorkspaceID asset \<noteq> [] \<and> a_WorkspaceID expected \<noteq> [] \<and> a_WorkspaceID asset \<noteq> a_WorkspaceID expected
      then False
      else if a_ID asset \<noteq> [] \<or> a_ID expected \<noteq> []
      then a_ID asset \<noteq> [] \<and> a_ID expected \<noteq> [] \<and> a_ID asset = a_ID expected
      else if a_Name asset \<noteq> [] \<or> a_Name expected \<noteq> []
      then a_Name asset \<noteq> [] \<and> a_Name expected \<noteq> [] \<and> equal_fold (a_Name asset) (a_Name expected)
      else False)"

definition assetsMatchExpectedAssets :: "asset_ref list \<Rightarrow> asset_ref list \<Rightarrow> bool" where
  "assetsMatchExpectedAssets assets expected \<longleftrightarrow>
     (if assets = [] \<or> expected = [] then True
      else list_all (\<lambda>asset. list_ex (assetMatchesExpectedAsset asset) expected) assets)"

definition grantScopeMatches :: "string \<Rightarrow> string \<Rightarrow> bool" where
  "grantScopeMatches requestValue grantValue \<longleftrightarrow>
     (let r = trim_space requestValue; g = trim_space grantValue in if r = [] then g = [] else g = r)"

definition requiresScopedGrantExpiry :: "request \<Rightarrow> session_grant \<Rightarrow> bool" where
  "requiresScopedGrantExpiry req grant \<longleftrightarrow>
     trim_space (q_OrganizationID req) \<noteq> [] \<or> trim_space (q_UserID req) \<noteq> []
     \<or> trim_space (q_SkillID req) \<noteq> [] \<or> trim_space (q_ProviderType req) \<noteq> []
     \<or> trim_space (q_ProviderID req) \<noteq> []
     \<or> trim_space (g_OrganizationID grant) \<noteq> [] \<or> trim_space (g_UserID grant) \<noteq> []
     \<or> trim_space (g_SkillID grant) \<noteq> [] \<or> trim_space (g_ProviderType grant) \<noteq> []
     \<or> trim_space (g_ProviderID grant) \<noteq> []"

text \<open>One turn of the loop over the grants, on a normalised grant: it is taken, or skipped.\<close>

definition grant_matches ::
    "time \<Rightarrow> request \<Rightarrow> manifest \<Rightarrow> asset_ref list \<Rightarrow> session_grant \<Rightarrow> bool" where
  "grant_matches now req m assets grant \<longleftrightarrow>
     (if g_ConversationID grant \<noteq> trim_space (q_ConversationID req) then False
      else if \<not> grantScopeMatches (trim_space (q_OrganizationID req)) (g_OrganizationID grant)
        \<or> \<not> grantScopeMatches (trim_space (q_UserID req)) (g_UserID grant)
        \<or> \<not> grantScopeMatches (trim_space (q_SkillID req)) (g_SkillID grant)
        \<or> \<not> grantScopeMatches (trim_space (q_ProviderType req)) (g_ProviderType grant)
        \<or> \<not> grantScopeMatches (trim_space (q_ProviderID req)) (g_ProviderID grant) then False
      else if g_ToolID grant \<noteq> m_ToolID m \<or> g_Effect grant \<noteq> m_Effect m \<or> g_AssetType grant \<noteq> m_AssetType m then False
      else if RiskRank (g_RiskLevel grant) < RiskRank (m_RiskLevel m) then False
      else if requiresScopedGrantExpiry req grant \<and> g_ExpiresAt grant = 0 then False
      else if g_ExpiresAt grant \<noteq> 0 \<and> \<not> now < g_ExpiresAt grant then False
      else if g_Assets grant \<noteq> [] \<and> \<not> assetsMatchExpectedAssets assets (g_Assets grant) then False
      else True)"

definition matchingSessionGrant ::
    "time \<Rightarrow> request \<Rightarrow> manifest \<Rightarrow> asset_ref list \<Rightarrow> session_grant option" where
  "matchingSessionGrant now req m assets =
     (if trim_space (q_ConversationID req) = [] then None
      else find (grant_matches now req m assets) (map normalizeSessionGrant (q_SessionGrants req)))"

section \<open>Parts of a decision\<close>

definition withStatus :: "decision \<Rightarrow> decision_status \<Rightarrow> string \<Rightarrow> bool \<Rightarrow> decision" where
  "withStatus d status reason requiresApproval =
     d\<lparr>d_Status := status, d_Reason := reason, d_RequiresApproval := requiresApproval\<rparr>"

definition withMatchedGrant :: "decision \<Rightarrow> session_grant \<Rightarrow> decision" where
  "withMatchedGrant d grant =
     (let g = normalizeSessionGrant grant
      in d\<lparr>d_MatchedGrant := Some g, d_ApprovedByCorrelationID := trim_space (g_ApprovalCorrelationID g)\<rparr>)"

definition approvalEvent :: "time \<Rightarrow> decision \<Rightarrow> string \<Rightarrow> request \<Rightarrow> approval_event" where
  "approvalEvent now d tier req =
     (let m = d_Manifest d in
      \<lparr>ae_Type = ''asset_tool_approval'', ae_CorrelationID = d_CorrelationID d, ae_ToolID = m_ToolID m,
       ae_SkillID = m_SkillID m, ae_Domain = m_Domain m, ae_Effect = m_Effect m, ae_AssetType = m_AssetType m,
       ae_RiskLevel = m_RiskLevel m, ae_Assets = d_Assets d, ae_Reversible = m_Reversible m,
       ae_BulkSensitive = m_BulkSensitive m, ae_ExternalSideEffect = m_ExternalSideEffect m,
       ae_PermissionTier = tier,
       ae_Grant =
         \<lparr>g_ConversationID = trim_space (q_ConversationID req),
          g_OrganizationID = trim_space (q_OrganizationID req),
          g_UserID = trim_space (q_UserID req),
          g_SkillID = firstNonEmptyString [q_SkillID req, m_SkillID m],
          g_ProviderType = trim_space (q_ProviderType req),
          g_ProviderID = trim_space (q_ProviderID req),
          g_ToolID = m_ToolID m, g_Effect = m_Effect m, g_AssetType = m_AssetType m,
          g_Assets = d_Assets d, g_RiskLevel = m_RiskLevel m,
          g_ApprovalCorrelationID = d_CorrelationID d,
          g_GrantedAt = now, g_ExpiresAt = now + DefaultSessionGrantTTL\<rparr>,
       ae_FrozenInvocation = None\<rparr>)"

text \<open>An entry of a map literal that is only stored under a condition.\<close>

definition entry_if :: "bool \<Rightarrow> string \<Rightarrow> gov_value \<Rightarrow> gov_map \<Rightarrow> gov_map" where
  "entry_if b k v m = (if b then AList.update k v m else m)"

definition modelFeedback :: "decision \<Rightarrow> string \<Rightarrow> gov_map" where
  "modelFeedback d tier =
     (let m = d_Manifest d;
          feedback =
            [(''status'', GString (decision_string (d_Status d))),
             (''reason'', GString (d_Reason d)),
             (''correlation_id'', GString (d_CorrelationID d)),
             (''tool_id'', GString (m_ToolID m)),
             (''skill_id'', GString (m_SkillID m)),
             (''effect'', GString (m_Effect m)),
             (''asset_type'', GString (m_AssetType m)),
             (''asset_count'', GInt (int (length (d_Assets d)))),
             (''risk_level'', GString (m_RiskLevel m)),
             (''permission_tier'', GString tier),
             (''requires_approval'', GBool (d_RequiresApproval d))];
          feedback = entry_if (d_ApprovedByCorrelationID d \<noteq> []) ''approved_by_correlation_id''
            (GString (d_ApprovedByCorrelationID d)) feedback;
          feedback = (case d_MatchedGrant d of None \<Rightarrow> feedback
            | Some g \<Rightarrow> entry_if (d_Assets d \<noteq> []) ''matched_assets'' (GAssets (d_Assets d))
                (AList.update ''matched_grant'' (GGrant g) feedback));
          feedback = entry_if (d_Assets d \<noteq> []) ''assets'' (GAssets (d_Assets d)) feedback;
          feedback = (case d_Preauthorization d of None \<Rightarrow> feedback
            | Some p \<Rightarrow>
                entry_if (p_Resources p \<noteq> []) ''authorization_resources'' (GAssets (p_Resources p))
                  (entry_if (p_Code p \<noteq> []) ''authorization_code'' (GString (p_Code p))
                    (entry_if (p_Source p \<noteq> []) ''authorization_source'' (GString (p_Source p))
                      (AList.update ''preauthorization'' (GPre p) feedback))));
          feedback = entry_if (d_AssetOperationAudit d \<noteq> []) ''asset_operation_audit''
            (GMap (d_AssetOperationAudit d)) feedback
      in if d_ExpectedAssets d \<noteq> []
         then AList.update ''expected_asset_count'' (GInt (int (length (d_ExpectedAssets d))))
                (AList.update ''expected_assets'' (GAssets (d_ExpectedAssets d)) feedback)
         else feedback)"

text \<open>The entries that \<open>compactAuditPayload\<close> deletes.\<close>

fun blank_value :: "gov_value \<Rightarrow> bool" where
  "blank_value (GString s) \<longleftrightarrow> trim_space s = []"
| "blank_value (GAssets as) \<longleftrightarrow> as = []"
| "blank_value (GStrings ss) \<longleftrightarrow> ss = []"
| "blank_value _ \<longleftrightarrow> False"

definition compactAuditPayload :: "gov_map \<Rightarrow> gov_map" where
  "compactAuditPayload payload = filter (\<lambda>(k, v). \<not> blank_value v) payload"

definition audit_base :: "decision \<Rightarrow> string \<Rightarrow> request \<Rightarrow> gov_map" where
  "audit_base d tier req =
     (let m = d_Manifest d in
      [(''schema_version'', GString ''tool_governance.asset_operation.v1''),
       (''event_type'', GString ''asset_operation''),
       (''correlation_id'', GString (trim_space (d_CorrelationID d))),
       (''conversation_id'', GString (trim_space (q_ConversationID req))),
       (''organization_id'', GString (trim_space (q_OrganizationID req))),
       (''user_id'', GString (trim_space (q_UserID req))),
       (''governance_status'', GString (decision_string (d_Status d))),
       (''requires_approval'', GBool (d_RequiresApproval d)),
       (''decision_reason'', GString (trim_space (d_Reason d))),
       (''tool_id'', GString (m_ToolID m)),
       (''skill_id'', GString (firstNonEmptyString [q_SkillID req, m_SkillID m])),
       (''provider_type'', GString (trim_space (q_ProviderType req))),
       (''provider_id'', GString (trim_space (q_ProviderID req))),
       (''domain'', GString (m_Domain m)),
       (''effect'', GString (m_Effect m)),
       (''asset_type'', GString (m_AssetType m)),
       (''asset_count'', GInt (int (length (d_Assets d)))),
       (''risk_level'', GString (m_RiskLevel m)),
       (''permission_tier'', GString tier),
       (''reversible'', GBool (m_Reversible m)),
       (''bulk_sensitive'', GBool (m_BulkSensitive m)),
       (''external_side_effect'', GBool (m_ExternalSideEffect m)),
       (''audit_required'', GBool (m_AuditRequired m)),
       (''idempotency_required'', GBool (m_IdempotencyRequired m))])"

definition audit_authorization :: "preauthorization \<Rightarrow> gov_map \<Rightarrow> gov_map" where
  "audit_authorization p audit =
     (let audit = AList.update ''preauthorization'' (GPre p) audit;
          audit = AList.update ''authorization_source'' (GString (p_Source p)) audit;
          audit = AList.update ''authorization_binding_type'' (GString (p_BindingType p)) audit;
          audit = AList.update ''authorization_actor_id'' (GString (p_AuthorizedBy p)) audit;
          audit = (case p_AuthorizedAt p of None \<Rightarrow> audit
            | Some t \<Rightarrow> AList.update ''authorization_granted_at'' (GTime t) audit);
          audit = entry_if (p_Resources p \<noteq> []) ''authorization_resources'' (GAssets (p_Resources p)) audit
      in entry_if (p_Code p \<noteq> []) ''authorization_code'' (GString (p_Code p)) audit)"

definition audit_entries :: "decision \<Rightarrow> string \<Rightarrow> request \<Rightarrow> gov_map" where
  "audit_entries d tier req =
     (let m = d_Manifest d;
          audit = audit_base d tier req;
          audit = entry_if (m_PermissionScopes m \<noteq> []) ''permission_scopes'' (GStrings (m_PermissionScopes m)) audit;
          audit = entry_if (d_Assets d \<noteq> []) ''assets'' (GAssets (d_Assets d)) audit;
          audit = entry_if (d_ExpectedAssets d \<noteq> []) ''expected_assets'' (GAssets (d_ExpectedAssets d)) audit;
          audit = entry_if (d_RequiresApproval d) ''approval_status'' (GString ''pending'') audit;
          audit = (if d_ApprovedByCorrelationID d \<noteq> []
            then AList.update ''approved_by_correlation_id'' (GString (d_ApprovedByCorrelationID d))
                   (AList.update ''approval_status'' (GString ''approved'') audit)
            else audit);
          audit = (case d_MatchedGrant d of None \<Rightarrow> audit | Some g \<Rightarrow> AList.update ''matched_grant'' (GGrant g) audit)
      in case d_Preauthorization d of None \<Rightarrow> audit | Some p \<Rightarrow> audit_authorization p audit)"

definition assetOperationAuditPayload :: "decision \<Rightarrow> string \<Rightarrow> request \<Rightarrow> gov_map" where
  "assetOperationAuditPayload d tier req =
     (let m = d_Manifest d in
      if \<not> m_AuditRequired m \<and> \<not> isAssetOperation m \<and> \<not> d_RequiresApproval d \<and> d_Preauthorization d = None then []
      else compactAuditPayload (audit_entries d tier req))"

definition finalizeDecision :: "decision \<Rightarrow> string \<Rightarrow> request \<Rightarrow> decision" where
  "finalizeDecision d tier req =
     (let d' = d\<lparr>d_AssetOperationAudit := assetOperationAuditPayload d tier req\<rparr>
      in d'\<lparr>d_ModelFeedback := modelFeedback d' tier\<rparr>)"

definition unavailable :: preauthorization where
  "unavailable = \<lparr>p_Required = False, p_Matched = False, p_Source = ''non_interactive_runtime'', p_BindingType = [],
     p_AuthorizedBy = [], p_AuthorizedAt = None, p_Resources = [], p_Code = ''interactive_approval_unavailable'',
     p_Reason = ''interactive approval is unavailable in this runtime''\<rparr>"

definition needsApproval :: "time \<Rightarrow> decision \<Rightarrow> string \<Rightarrow> request \<Rightarrow> string \<Rightarrow> decision" where
  "needsApproval now d tier req reason =
     (if normalizeApprovalMode (q_ApprovalMode req) = ApprovalModeNonInteractive
      then let pre = (case d_Preauthorization d of Some p \<Rightarrow> p
                | None \<Rightarrow> (case normalizePreauthorization (q_Preauthorization req) of Some p \<Rightarrow> p | None \<Rightarrow> unavailable))
           in withStatus (d\<lparr>d_Preauthorization := Some pre\<rparr>) DecisionStatusDenied
                (firstNonEmptyString [p_Reason pre, reason]) False
      else let d = withStatus d DecisionStatusNeedsApproval reason True;
               d = d\<lparr>d_ApprovalEvent := Some (approvalEvent now d tier req)\<rparr>
           in d\<lparr>d_ModelFeedback := modelFeedback d tier\<rparr>)"

section \<open>The decision\<close>

definition base_decision :: "string \<Rightarrow> request \<Rightarrow> decision" where
  "base_decision fresh req =
     \<lparr>d_Status = DecisionStatusAllowed, d_RequiresApproval = False, d_Reason = [],
      d_CorrelationID = (if trim_space (q_CorrelationID req) = [] then fresh else trim_space (q_CorrelationID req)),
      d_ApprovedByCorrelationID = [], d_MatchedGrant = None, d_Preauthorization = None,
      d_Manifest = NormalizeManifest (q_Manifest req), d_Assets = normalizeAssets (q_Assets req),
      d_ExpectedAssets = normalizeAssets (q_ExpectedAssets req), d_ApprovalEvent = None,
      d_FrozenInvocation = None, d_AssetOperationAudit = [], d_ModelFeedback = []\<rparr>"

definition effective_tier :: "policy \<Rightarrow> request \<Rightarrow> string" where
  "effective_tier p req =
     (let t = NormalizePermissionTier (q_PermissionTier req);
          t = (if t = [] then po_DefaultPermissionTier p else t)
      in if t = [] then PermissionTierBasic else t)"

text \<open>\<open>fresh\<close> is a new correlation id, \<open>now\<close> the clock of the grant search, \<open>now'\<close> that of the approval event.\<close>

definition Decide :: "string \<Rightarrow> time \<Rightarrow> time \<Rightarrow> request \<Rightarrow> policy \<Rightarrow> decision" where
  "Decide fresh now now' req policy0 =
     (let policy = withDefaults policy0;
          m = NormalizeManifest (q_Manifest req);
          assets = normalizeAssets (q_Assets req);
          expectedAssets = normalizeAssets (q_ExpectedAssets req);
          tier = effective_tier policy req;
          pre = normalizePreauthorization (q_Preauthorization req);
          base = base_decision fresh req;
          finish = (\<lambda>d. finalizeDecision d tier req)
      in
      if m_ToolID m = [] then finish (withStatus base DecisionStatusDenied ''tool_id is required'' False)
      else if \<not> tierAllowed m tier
      then finish (withStatus base DecisionStatusDenied ''permission tier is not allowed for this tool'' False)
      else if isAssetOperation m \<and> m_RequiresAssetResolution m \<and> assets = []
      then finish (withStatus base DecisionStatusNeedsResolution
             ''asset resolution is required before this tool can run'' False)
      else if isAssetOperation m \<and> m_RequiresAssetResolution m \<and> expectedAssets \<noteq> []
        \<and> \<not> assetsMatchExpectedAssets assets expectedAssets
      then finish (withStatus base DecisionStatusNeedsResolution
             ''tool arguments do not match resolved target assets'' False)
      else if po_CriticalRiskBlocked policy \<and> m_RiskLevel m = RiskLevelCritical
      then finish (withStatus base DecisionStatusBlocked ''critical risk tools are blocked by policy'' False)
      else if (case pre of Some p \<Rightarrow> p_Required p | None \<Rightarrow> False)
      then let p = the pre; base = base\<lparr>d_Preauthorization := Some p\<rparr> in
           if p_Matched p
           then finish (withStatus base DecisionStatusAllowed
                  (firstNonEmptyString [p_Reason p, ''allowed by persistent preauthorization'']) False)
           else finish (withStatus base DecisionStatusDenied
                  (firstNonEmptyString [p_Reason p, ''persistent preauthorization is required'']) False)
      else case matchingSessionGrant now req m assets of
        Some grant \<Rightarrow>
          finish (withMatchedGrant (withStatus base DecisionStatusAllowed ''allowed by matching session grant'' False) grant)
      | None \<Rightarrow>
          if m_DefaultApprovalPolicy m = ApprovalPolicyAlwaysAsk
          then finish (needsApproval now' base tier req ''tool manifest requires approval'')
          else if m_DefaultApprovalPolicy m = ApprovalPolicyNeverAsk \<and> \<not> hardRequiresApproval policy m
          then finish (withStatus base DecisionStatusAllowed ''allowed by manifest approval policy'' False)
          else if hardRequiresApproval policy m
          then finish (needsApproval now' base tier req (hardApprovalReason policy m))
          else if tier = PermissionTierFull
          then finish (withStatus base DecisionStatusAllowed ''allowed by full permission tier'' False)
          else if tier = PermissionTierAdvanced \<and> advancedTierAllows m
          then finish (withStatus base DecisionStatusAllowed ''allowed by advanced permission tier'' False)
          else if tier = PermissionTierBasic \<and> basicTierAllows m
          then finish (withStatus base DecisionStatusAllowed ''allowed by basic permission tier'' False)
          else finish (needsApproval now' base tier req ''permission tier requires user approval for this tool''))"

section \<open>Validation of manifests\<close>

text \<open>\<open>quote s\<close> stands for \<open>fmt.Sprintf("%q", s)\<close>, which only shapes the text of an error.\<close>

definition validManifestEffect :: "string \<Rightarrow> bool" where
  "validManifestEffect effect \<longleftrightarrow> to_lower (trim_space effect) \<in> set effects"

definition validManifestRiskLevel :: "string \<Rightarrow> bool" where
  "validManifestRiskLevel risk \<longleftrightarrow>
     to_lower (trim_space risk) \<in> {RiskLevelLow, RiskLevelMedium, RiskLevelHigh, RiskLevelCritical}"

definition validManifestApprovalPolicy :: "string \<Rightarrow> bool" where
  "validManifestApprovalPolicy policy \<longleftrightarrow>
     to_lower (trim_space policy)
       \<in> {ApprovalPolicyAutoByPermissionTier, ApprovalPolicyAlwaysAsk, ApprovalPolicyNeverAsk}"

definition validManifestPermissionTier :: "string \<Rightarrow> bool" where
  "validManifestPermissionTier tier \<longleftrightarrow>
     to_lower (trim_space tier) \<in> {PermissionTierBasic, PermissionTierAdvanced, PermissionTierFull}"

definition manifest_problems :: "(string \<Rightarrow> string) \<Rightarrow> manifest \<Rightarrow> string list" where
  "manifest_problems quote m =
     (let n = NormalizeManifest m;
          problem = (\<lambda>b msg. if b then [msg] else [])
      in problem (m_ToolID n = []) ''tool_id is required''
         @ problem (m_SkillID n = []) ''skill_id is required''
         @ problem (m_Domain n = []) ''domain is required''
         @ problem (m_AssetType n = []) ''asset_type is required''
         @ problem (\<not> validManifestEffect (m_Effect m))
             (''effect '' @ quote (trim_space (m_Effect m)) @ '' is invalid'')
         @ problem (\<not> validManifestRiskLevel (m_RiskLevel m))
             (''risk_level '' @ quote (trim_space (m_RiskLevel m)) @ '' is invalid'')
         @ problem (\<not> validManifestApprovalPolicy (m_DefaultApprovalPolicy m))
             (''default_approval_policy '' @ quote (trim_space (m_DefaultApprovalPolicy m)) @ '' is invalid'')
         @ (if m_AllowedPermissionTiers m = [] then [''allowed_permission_tiers is required'']
            else concat (map (\<lambda>raw. problem (\<not> validManifestPermissionTier raw)
                   (''allowed_permission_tiers contains invalid tier '' @ quote (trim_space raw)))
                   (m_AllowedPermissionTiers m)))
         @ problem (m_PermissionScopes n = []) ''permission_scopes is required'')"

definition ValidateManifest :: "(string \<Rightarrow> string) \<Rightarrow> manifest \<Rightarrow> string + manifest" where
  "ValidateManifest quote m =
     (let problems = manifest_problems quote m
      in if problems \<noteq> [] then Inl (''invalid tool governance manifest: '' @ join_with ''; '' problems)
         else Inr (NormalizeManifest m))"

end
