(* ===== verification/Governance_Safety.thy ===== *)
theory Governance_Safety
  imports Governance_Decision
begin

text \<open>
  What the decisions of \<open>Governance_Decision\<close> guarantee: when a dangerous call may run, what no
  grant can override, when a user is asked, that an approval is effective, which settings of a
  policy have an effect, what is audited and what a validated manifest means.
\<close>

section \<open>Fields of a decision\<close>

lemma finalize_fields [simp]:
  "d_Status (finalizeDecision d tier req) = d_Status d"
  "d_RequiresApproval (finalizeDecision d tier req) = d_RequiresApproval d"
  "d_ApprovalEvent (finalizeDecision d tier req) = d_ApprovalEvent d"
  "d_MatchedGrant (finalizeDecision d tier req) = d_MatchedGrant d"
  "d_Preauthorization (finalizeDecision d tier req) = d_Preauthorization d"
  "d_ApprovedByCorrelationID (finalizeDecision d tier req) = d_ApprovedByCorrelationID d"
  "d_Manifest (finalizeDecision d tier req) = d_Manifest d"
  "d_Assets (finalizeDecision d tier req) = d_Assets d"
  "d_CorrelationID (finalizeDecision d tier req) = d_CorrelationID d"
  "d_AssetOperationAudit (finalizeDecision d tier req) = assetOperationAuditPayload d tier req"
  by (simp_all add: finalizeDecision_def Let_def)

lemma withStatus_fields [simp]:
  "d_Status (withStatus d st r b) = st" "d_RequiresApproval (withStatus d st r b) = b"
  "d_ApprovalEvent (withStatus d st r b) = d_ApprovalEvent d"
  "d_MatchedGrant (withStatus d st r b) = d_MatchedGrant d"
  "d_Preauthorization (withStatus d st r b) = d_Preauthorization d"
  "d_ApprovedByCorrelationID (withStatus d st r b) = d_ApprovedByCorrelationID d"
  "d_Manifest (withStatus d st r b) = d_Manifest d" "d_Assets (withStatus d st r b) = d_Assets d"
  "d_CorrelationID (withStatus d st r b) = d_CorrelationID d"
  by (simp_all add: withStatus_def)

lemma withMatchedGrant_fields [simp]:
  "d_Status (withMatchedGrant d g) = d_Status d"
  "d_RequiresApproval (withMatchedGrant d g) = d_RequiresApproval d"
  "d_ApprovalEvent (withMatchedGrant d g) = d_ApprovalEvent d"
  "d_MatchedGrant (withMatchedGrant d g) = Some (normalizeSessionGrant g)"
  "d_ApprovedByCorrelationID (withMatchedGrant d g) = trim_space (g_ApprovalCorrelationID g)"
  "d_Manifest (withMatchedGrant d g) = d_Manifest d"
  by (simp_all add: withMatchedGrant_def Let_def normalizeSessionGrant_def)

definition asks :: "request \<Rightarrow> bool" where
  "asks req \<longleftrightarrow> normalizeApprovalMode (q_ApprovalMode req) \<noteq> ApprovalModeNonInteractive"

lemma needsApproval_fields [simp]:
  "d_Status (needsApproval now d tier req r) =
     (if asks req then DecisionStatusNeedsApproval else DecisionStatusDenied)"
  "d_RequiresApproval (needsApproval now d tier req r) = asks req"
  "d_ApprovalEvent (needsApproval now d tier req r) =
     (if asks req then Some (approvalEvent now d tier req) else d_ApprovalEvent d)"
  "d_MatchedGrant (needsApproval now d tier req r) = d_MatchedGrant d"
  "d_Manifest (needsApproval now d tier req r) = d_Manifest d"
  "d_ApprovedByCorrelationID (needsApproval now d tier req r) = d_ApprovedByCorrelationID d"
  by (simp_all add: needsApproval_def asks_def Let_def approvalEvent_def)

lemma base_fields [simp]:
  "d_ApprovalEvent (base_decision fresh req) = None"
  "d_MatchedGrant (base_decision fresh req) = None"
  "d_Preauthorization (base_decision fresh req) = None"
  "d_ApprovedByCorrelationID (base_decision fresh req) = []"
  "d_Manifest (base_decision fresh req) = NormalizeManifest (q_Manifest req)"
  "d_Assets (base_decision fresh req) = normalizeAssets (q_Assets req)"
  by (simp_all add: base_decision_def)

section \<open>The status of a decision\<close>

text \<open>
  The conditions that come before every authorisation: a tool, an allowed tier, resolved assets
  and no critical tool under a policy that blocks those.
\<close>

definition admissible :: "policy \<Rightarrow> request \<Rightarrow> bool" where
  "admissible p req \<longleftrightarrow>
     (let m = NormalizeManifest (q_Manifest req); assets = normalizeAssets (q_Assets req);
          expected = normalizeAssets (q_ExpectedAssets req)
      in m_ToolID m \<noteq> [] \<and> tierAllowed m (effective_tier (withDefaults p) req)
         \<and> (isAssetOperation m \<and> m_RequiresAssetResolution m
              \<longrightarrow> assets \<noteq> [] \<and> (expected \<noteq> [] \<longrightarrow> assetsMatchExpectedAssets assets expected))
         \<and> \<not> (po_CriticalRiskBlocked p \<and> m_RiskLevel m = RiskLevelCritical))"

text \<open>The authorisations that the tier or the manifest give without asking anybody.\<close>

definition automatic :: "policy \<Rightarrow> request \<Rightarrow> bool" where
  "automatic p req \<longleftrightarrow>
     (let m = NormalizeManifest (q_Manifest req); tier = effective_tier (withDefaults p) req
      in m_DefaultApprovalPolicy m \<noteq> ApprovalPolicyAlwaysAsk \<and> \<not> hardRequiresApproval (withDefaults p) m
         \<and> (m_DefaultApprovalPolicy m = ApprovalPolicyNeverAsk \<or> tier = PermissionTierFull
            \<or> tier = PermissionTierAdvanced \<and> advancedTierAllows m
            \<or> tier = PermissionTierBasic \<and> basicTierAllows m))"

definition preauthorized :: "request \<Rightarrow> bool option" where
  "preauthorized req =
     (case q_Preauthorization req of Some p \<Rightarrow> if p_Required p then Some (p_Matched p) else None | None \<Rightarrow> None)"

definition granted :: "time \<Rightarrow> request \<Rightarrow> session_grant option" where
  "granted now req =
     matchingSessionGrant now req (NormalizeManifest (q_Manifest req)) (normalizeAssets (q_Assets req))"

lemma withDefaults_blocked [simp]: "po_CriticalRiskBlocked (withDefaults p) = po_CriticalRiskBlocked p"
  by (simp add: withDefaults_def Let_def)

lemma preauthorized_norm:
  "(case normalizePreauthorization (q_Preauthorization req) of Some p \<Rightarrow> p_Required p | None \<Rightarrow> False)
     \<longleftrightarrow> preauthorized req \<noteq> None"
  "preauthorized req = Some b \<Longrightarrow> p_Matched (the (normalizePreauthorization (q_Preauthorization req))) = b"
  by (auto simp: normalizePreauthorization_def preauthorized_def split: option.splits if_splits)

text \<open>What \<open>Decide\<close> does when one of the first five checks fails, and behind them.\<close>

lemma Decide_inadmissible:
  assumes "\<not> admissible p req"
  obtains st r where "st \<in> {DecisionStatusDenied, DecisionStatusNeedsResolution, DecisionStatusBlocked}"
    and "Decide fresh now now' req p =
      finalizeDecision (withStatus (base_decision fresh req) st r False) (effective_tier (withDefaults p) req) req"
proof -
  let ?m = "NormalizeManifest (q_Manifest req)"
  from assms consider (tool) "m_ToolID ?m = []"
    | (tier) "m_ToolID ?m \<noteq> []" "\<not> tierAllowed ?m (effective_tier (withDefaults p) req)"
    | (unresolved) "m_ToolID ?m \<noteq> []" "tierAllowed ?m (effective_tier (withDefaults p) req)"
        "isAssetOperation ?m" "m_RequiresAssetResolution ?m" "normalizeAssets (q_Assets req) = []"
    | (unexpected) "m_ToolID ?m \<noteq> []" "tierAllowed ?m (effective_tier (withDefaults p) req)"
        "isAssetOperation ?m" "m_RequiresAssetResolution ?m" "normalizeAssets (q_Assets req) \<noteq> []"
        "normalizeAssets (q_ExpectedAssets req) \<noteq> []"
        "\<not> assetsMatchExpectedAssets (normalizeAssets (q_Assets req)) (normalizeAssets (q_ExpectedAssets req))"
    | (blocked) "m_ToolID ?m \<noteq> []" "tierAllowed ?m (effective_tier (withDefaults p) req)"
        "\<not> (isAssetOperation ?m \<and> m_RequiresAssetResolution ?m \<and> normalizeAssets (q_Assets req) = [])"
        "\<not> (isAssetOperation ?m \<and> m_RequiresAssetResolution ?m \<and> normalizeAssets (q_ExpectedAssets req) \<noteq> []
        \<and> \<not> assetsMatchExpectedAssets (normalizeAssets (q_Assets req)) (normalizeAssets (q_ExpectedAssets req)))"
        "po_CriticalRiskBlocked p" "m_RiskLevel ?m = RiskLevelCritical"
    unfolding admissible_def Let_def by blast
  then show thesis
  proof cases
    case tool
    then show thesis
      by (intro that [of DecisionStatusDenied "''tool_id is required''"]) (simp_all add: Decide_def Let_def)
  next
    case tier
    then show thesis
      by (intro that [of DecisionStatusDenied "''permission tier is not allowed for this tool''"]) (simp_all add: Decide_def Let_def)
  next
    case unresolved
    then show thesis
      by (intro that [of DecisionStatusNeedsResolution "''asset resolution is required before this tool can run''"]) (simp_all add: Decide_def Let_def)
  next
    case unexpected
    then show thesis
      by (intro that [of DecisionStatusNeedsResolution "''tool arguments do not match resolved target assets''"]) (simp_all add: Decide_def Let_def)
  next
    case blocked
    then show thesis
      by (intro that [of DecisionStatusBlocked "''critical risk tools are blocked by policy''"])
        (simp_all add: Decide_def Let_def if_not_P [OF blocked(3)] if_not_P [OF blocked(4)] del: de_Morgan_conj not_all)
  qed
qed

lemma Decide_admissible:
  assumes "admissible p req"
  shows "Decide fresh now now' req p =
    (let policy = withDefaults p; m = NormalizeManifest (q_Manifest req); tier = effective_tier policy req;
         base = base_decision fresh req; pre = normalizePreauthorization (q_Preauthorization req) in
     finalizeDecision
      (case preauthorized req of
         Some matched \<Rightarrow>
           if matched
           then withStatus (base\<lparr>d_Preauthorization := pre\<rparr>) DecisionStatusAllowed
             (firstNonEmptyString [p_Reason (the pre), ''allowed by persistent preauthorization'']) False
           else withStatus (base\<lparr>d_Preauthorization := pre\<rparr>) DecisionStatusDenied
             (firstNonEmptyString [p_Reason (the pre), ''persistent preauthorization is required'']) False
       | None \<Rightarrow>
         (case granted now req of
            Some g \<Rightarrow> withMatchedGrant (withStatus base DecisionStatusAllowed ''allowed by matching session grant'' False) g
          | None \<Rightarrow>
            if automatic p req
            then withStatus base DecisionStatusAllowed
              (if m_DefaultApprovalPolicy m = ApprovalPolicyNeverAsk then ''allowed by manifest approval policy''
               else ''allowed by '' @ tier @ '' permission tier'') False
            else needsApproval now' base tier req
              (if m_DefaultApprovalPolicy m = ApprovalPolicyAlwaysAsk then ''tool manifest requires approval''
               else if hardRequiresApproval policy m then hardApprovalReason policy m
               else ''permission tier requires user approval for this tool'')))
      tier req)"
proof -
  let ?m = "NormalizeManifest (q_Manifest req)"
  from assms have checks: "m_ToolID ?m \<noteq> []" "tierAllowed ?m (effective_tier (withDefaults p) req)"
    "\<not> (isAssetOperation ?m \<and> m_RequiresAssetResolution ?m \<and> normalizeAssets (q_Assets req) = [])"
    "\<not> (isAssetOperation ?m \<and> m_RequiresAssetResolution ?m \<and> normalizeAssets (q_ExpectedAssets req) \<noteq> []
        \<and> \<not> assetsMatchExpectedAssets (normalizeAssets (q_Assets req)) (normalizeAssets (q_ExpectedAssets req)))"
    "\<not> (po_CriticalRiskBlocked p \<and> m_RiskLevel ?m = RiskLevelCritical)"
    by (auto simp: admissible_def Let_def)
  note first = Decide_def Let_def withDefaults_blocked preauthorized_norm(1) if_not_P [OF checks(1)]
    if_not_P [OF checks(3)] if_not_P [OF checks(4)] if_not_P [OF checks(5)]
  show ?thesis
  proof (cases "preauthorized req")
    case (Some b)
    then have "normalizePreauthorization (q_Preauthorization req)
        = Some (the (normalizePreauthorization (q_Preauthorization req)))"
      by (auto simp: preauthorized_def normalizePreauthorization_def split: option.splits)
    with Some checks(2) preauthorized_norm(2) [OF Some] show ?thesis
      unfolding first by auto
  next
    case None
    show ?thesis
      using checks(2) None unfolding first granted_def [symmetric]
      by (cases "granted now req") (auto simp: automatic_def Let_def)
  qed
qed

section \<open>Grants\<close>

text \<open>
  The request and the grant, as they were written, name the same conversation, scope and tool,
  the grant is for a risk at least as high, it has not expired (only a request without any scope
  may use a grant without expiry), and it lists every asset of the request if it lists any.
\<close>

definition covers :: "time \<Rightarrow> request \<Rightarrow> session_grant \<Rightarrow> bool" where
  "covers now req g \<longleftrightarrow>
     trim_space (q_ConversationID req) \<noteq> []
     \<and> trim_space (g_ConversationID g) = trim_space (q_ConversationID req)
     \<and> trim_space (g_OrganizationID g) = trim_space (q_OrganizationID req)
     \<and> trim_space (g_UserID g) = trim_space (q_UserID req)
     \<and> trim_space (g_SkillID g) = trim_space (q_SkillID req)
     \<and> trim_space (g_ProviderType g) = trim_space (q_ProviderType req)
     \<and> trim_space (g_ProviderID g) = trim_space (q_ProviderID req)
     \<and> trim_space (g_ToolID g) = trim_space (m_ToolID (q_Manifest req))
     \<and> NormalizeEffect (g_Effect g) = NormalizeEffect (m_Effect (q_Manifest req))
     \<and> normalizeAssetType (g_AssetType g) = normalizeAssetType (m_AssetType (q_Manifest req))
     \<and> RiskRank (m_RiskLevel (q_Manifest req)) \<le> RiskRank (g_RiskLevel g)
     \<and> (if g_ExpiresAt g = 0
        then \<forall>s \<in> {q_OrganizationID req, q_UserID req, q_SkillID req, q_ProviderType req, q_ProviderID req}.
               trim_space s = []
        else now < g_ExpiresAt g)
     \<and> (normalizeAssets (g_Assets g) \<noteq> [] \<longrightarrow>
        (\<forall>a \<in> set (normalizeAssets (q_Assets req)).
           \<exists>b \<in> set (g_Assets (normalizeSessionGrant g)). assetMatchesExpectedAsset a b))"

lemma grantScopeMatches_iff [simp]: "grantScopeMatches r g \<longleftrightarrow> trim_space r = trim_space g"
  by (auto simp: grantScopeMatches_def Let_def)

lemma assetsMatch_iff:
  "assetsMatchExpectedAssets as es \<longleftrightarrow>
     (es \<noteq> [] \<longrightarrow> (\<forall>a \<in> set as. \<exists>e \<in> set es. assetMatchesExpectedAsset a e))"
  by (auto simp: assetsMatchExpectedAssets_def list_all_iff list_ex_iff)

lemma grant_fields [simp]:
  "g_ConversationID (normalizeSessionGrant g) = trim_space (g_ConversationID g)"
  "g_OrganizationID (normalizeSessionGrant g) = trim_space (g_OrganizationID g)"
  "g_UserID (normalizeSessionGrant g) = trim_space (g_UserID g)"
  "g_SkillID (normalizeSessionGrant g) = trim_space (g_SkillID g)"
  "g_ProviderType (normalizeSessionGrant g) = trim_space (g_ProviderType g)"
  "g_ProviderID (normalizeSessionGrant g) = trim_space (g_ProviderID g)"
  "g_ToolID (normalizeSessionGrant g) = trim_space (g_ToolID g)"
  "g_Effect (normalizeSessionGrant g) = NormalizeEffect (g_Effect g)"
  "g_AssetType (normalizeSessionGrant g) = normalizeAssetType (g_AssetType g)"
  "g_RiskLevel (normalizeSessionGrant g) = NormalizeRiskLevel (g_RiskLevel g)"
  "g_ExpiresAt (normalizeSessionGrant g) = g_ExpiresAt g"
  "g_ApprovalCorrelationID (normalizeSessionGrant g) = trim_space (g_ApprovalCorrelationID g)"
  "g_Assets (normalizeSessionGrant g) = [] \<longleftrightarrow> normalizeAssets (g_Assets g) = []"
  by (simp_all add: normalizeSessionGrant_def)

lemma manifest_fields [simp]:
  "m_ToolID (NormalizeManifest m) = trim_space (m_ToolID m)"
  "m_SkillID (NormalizeManifest m) = trim_space (m_SkillID m)"
  "m_Effect (NormalizeManifest m) = NormalizeEffect (m_Effect m)"
  "m_AssetType (NormalizeManifest m) = normalizeAssetType (m_AssetType m)"
  "m_RiskLevel (NormalizeManifest m) = NormalizeRiskLevel (m_RiskLevel m)"
  "m_DefaultApprovalPolicy (NormalizeManifest m) = NormalizeApprovalPolicy (m_DefaultApprovalPolicy m)"
  "m_AllowedPermissionTiers (NormalizeManifest m) = normalizePermissionTierList (m_AllowedPermissionTiers m)"
  "m_BulkSensitive (NormalizeManifest m) = m_BulkSensitive m"
  "m_ExternalSideEffect (NormalizeManifest m) = m_ExternalSideEffect m"
  "m_RequiresAssetResolution (NormalizeManifest m) = m_RequiresAssetResolution m"
  "m_AuditRequired (NormalizeManifest m) = m_AuditRequired m"
  by (simp_all add: NormalizeManifest_def)

lemma grant_matches_iff:
  assumes "trim_space (q_ConversationID req) \<noteq> []"
  shows "grant_matches now req (NormalizeManifest (q_Manifest req)) (normalizeAssets (q_Assets req)) (normalizeSessionGrant g)
    \<longleftrightarrow> covers now req g"
  using assms unfolding grant_matches_def covers_def requiresScopedGrantExpiry_def assetsMatch_iff
  by auto

lemma granted_iff: "granted now req \<noteq> None \<longleftrightarrow> (\<exists>g \<in> set (q_SessionGrants req). covers now req g)"
proof (cases "trim_space (q_ConversationID req) = []")
  case True
  then show ?thesis by (simp add: granted_def matchingSessionGrant_def covers_def)
next
  case False
  then show ?thesis
    by (simp add: granted_def matchingSessionGrant_def find_None_iff grant_matches_iff)
qed

lemma granted_SomeD:
  assumes "granted now req = Some g"
  shows "\<exists>g' \<in> set (q_SessionGrants req). g = normalizeSessionGrant g' \<and> covers now req g'"
proof -
  from assms have conv: "trim_space (q_ConversationID req) \<noteq> []"
    by (auto simp: granted_def matchingSessionGrant_def split: if_splits)
  with assms have "g \<in> normalizeSessionGrant ` set (q_SessionGrants req)"
    and m: "grant_matches now req (NormalizeManifest (q_Manifest req)) (normalizeAssets (q_Assets req)) g"
    by (auto simp: granted_def matchingSessionGrant_def find_Some_iff dest: nth_mem)
  then obtain g' where "g' \<in> set (q_SessionGrants req)" and "g = normalizeSessionGrant g'" by blast
  with m grant_matches_iff [OF conv] show ?thesis by blast
qed

section \<open>When a dangerous call may run\<close>

text \<open>A call with a side effect outside, on many assets, that deletes, or of high risk.\<close>

definition dangerous :: "manifest \<Rightarrow> bool" where
  "dangerous m \<longleftrightarrow> m_ExternalSideEffect m \<or> m_BulkSensitive m \<or> NormalizeEffect (m_Effect m) = EffectDelete
     \<or> RiskRank RiskLevelHigh \<le> RiskRank (m_RiskLevel m)"

lemma withDefaults_switches [simp]:
  "po_HighRiskRequiresApproval (withDefaults p)" "po_CriticalRiskRequiresApproval (withDefaults p)"
  "po_DeleteRequiresApproval (withDefaults p)" "po_BulkSensitiveRequiresApproval (withDefaults p)"
  "po_ExternalSideEffectRequiresApproval (withDefaults p)"
  by (simp_all add: withDefaults_def DefaultPolicy_def Let_def)

lemma RiskRank_high [simp]: "RiskRank RiskLevelHigh = 3"
proof -
  have "NormalizeRiskLevel RiskLevelHigh = RiskLevelHigh" by (rule risk.norm_fixed) simp
  then show ?thesis by (simp add: RiskRank_def)
qed

lemma RiskRank_critical: "NormalizeRiskLevel r = RiskLevelCritical \<Longrightarrow> RiskRank r = 4"
  by (simp add: RiskRank_def)

lemma hardRequiresApproval_iff:
  "hardRequiresApproval (withDefaults p) (NormalizeManifest m) \<longleftrightarrow> dangerous m"
  using RiskRank_critical [of "m_RiskLevel m"] by (auto simp: hardRequiresApproval_def dangerous_def)

lemma automatic_not_dangerous: "automatic p req \<Longrightarrow> \<not> dangerous (q_Manifest req)"
  by (simp add: automatic_def Let_def hardRequiresApproval_iff)

text \<open>The status of a decision, as a function of the five predicates.\<close>

lemma Decide_status:
  "admissible p req \<Longrightarrow>
   d_Status (Decide fresh now now' req p) =
     (case preauthorized req of
        Some matched \<Rightarrow> if matched then DecisionStatusAllowed else DecisionStatusDenied
      | None \<Rightarrow> if granted now req \<noteq> None \<or> automatic p req then DecisionStatusAllowed
               else if asks req then DecisionStatusNeedsApproval else DecisionStatusDenied)"
  by (auto simp: Decide_admissible Let_def split: option.splits)

lemma Decide_status_inadmissible:
  "\<not> admissible p req \<Longrightarrow>
   d_Status (Decide fresh now now' req p) \<in> {DecisionStatusDenied, DecisionStatusNeedsResolution, DecisionStatusBlocked}"
  by (rule Decide_inadmissible [of p req fresh now now']) auto

lemma Decide_open_admissible:
  "d_Status (Decide fresh now now' req p) \<in> {DecisionStatusAllowed, DecisionStatusNeedsApproval} \<Longrightarrow> admissible p req"
  using Decide_status_inadmissible [of p req fresh now now'] by force

lemma approval_asked:
  "d_RequiresApproval (Decide fresh now now' req p) \<longleftrightarrow>
     d_Status (Decide fresh now now' req p) = DecisionStatusNeedsApproval"
  "d_ApprovalEvent (Decide fresh now now' req p) =
     (if d_Status (Decide fresh now now' req p) = DecisionStatusNeedsApproval
      then Some (approvalEvent now' (base_decision fresh req) (effective_tier (withDefaults p) req) req) else None)"
  "d_Status (Decide fresh now now' req p) = DecisionStatusNeedsApproval \<Longrightarrow> asks req"
proof -
  let ?d = "Decide fresh now now' req p"
  have "(d_RequiresApproval ?d \<longleftrightarrow> d_Status ?d = DecisionStatusNeedsApproval)
    \<and> d_ApprovalEvent ?d = (if d_Status ?d = DecisionStatusNeedsApproval
      then Some (approvalEvent now' (base_decision fresh req) (effective_tier (withDefaults p) req) req) else None)
    \<and> (d_Status ?d = DecisionStatusNeedsApproval \<longrightarrow> asks req)"
  proof (cases "admissible p req")
    case True
    then show ?thesis by (auto simp: Decide_admissible Let_def split: option.splits)
  next
    case False
    then show ?thesis by (rule Decide_inadmissible [of p req fresh now now']) auto
  qed
  then show "d_RequiresApproval ?d \<longleftrightarrow> d_Status ?d = DecisionStatusNeedsApproval"
    and "d_ApprovalEvent ?d = (if d_Status ?d = DecisionStatusNeedsApproval
      then Some (approvalEvent now' (base_decision fresh req) (effective_tier (withDefaults p) req) req) else None)"
    and "d_Status ?d = DecisionStatusNeedsApproval \<Longrightarrow> asks req"
    by blast+
qed

text \<open>
  C3: A call with a side effect outside, on many assets, that deletes, or of high or critical
  risk runs only on an authorisation that somebody gave: a persistent preauthorisation that was
  required and matched, or a session grant of the request that covers it and has not expired.
  No tier, no approval policy of the manifest and no setting of the policy replaces that.
\<close>

theorem dangerous_needs_authorization:
  assumes "d_Status (Decide fresh now now' req p) = DecisionStatusAllowed" and "dangerous (q_Manifest req)"
  shows "(\<exists>pre. q_Preauthorization req = Some pre \<and> p_Required pre \<and> p_Matched pre)
    \<or> (\<exists>g \<in> set (q_SessionGrants req). covers now req g)"
proof -
  from assms(1) have "admissible p req"
    by (intro Decide_open_admissible [of fresh now now']) simp
  with assms have "preauthorized req = Some True \<or> preauthorized req = None \<and> granted now req \<noteq> None"
    by (auto simp: Decide_status dest: automatic_not_dangerous split: option.splits if_splits)
  then show ?thesis
    unfolding granted_iff by (auto simp: preauthorized_def split: option.splits if_splits)
qed

text \<open>
  C16: What comes before every authorisation. A call that is allowed, or for which approval is
  asked, names a tool; its tier is one of the valid tiers of the manifest, if that lists any;
  where the tool needs resolved assets there are some, and each is an expected one, if there are
  expected ones; and it is not of critical risk under a policy that blocks those. Neither a
  grant nor a preauthorisation nor a tier makes an exception.
\<close>

theorem checks_not_overridden:
  assumes "d_Status (Decide fresh now now' req p) \<in> {DecisionStatusAllowed, DecisionStatusNeedsApproval}"
  defines "m \<equiv> q_Manifest req"
  shows "trim_space (m_ToolID m) \<noteq> []
    \<and> (normalizePermissionTierList (m_AllowedPermissionTiers m) \<noteq> [] \<longrightarrow>
         effective_tier (withDefaults p) req \<in> NormalizePermissionTier ` set (m_AllowedPermissionTiers m))
    \<and> (isAssetOperation (NormalizeManifest m) \<and> m_RequiresAssetResolution m \<longrightarrow>
         normalizeAssets (q_Assets req) \<noteq> []
         \<and> (normalizeAssets (q_ExpectedAssets req) \<noteq> [] \<longrightarrow>
             (\<forall>a \<in> set (normalizeAssets (q_Assets req)).
               \<exists>e \<in> set (normalizeAssets (q_ExpectedAssets req)). assetMatchesExpectedAsset a e)))
    \<and> \<not> (po_CriticalRiskBlocked p \<and> NormalizeRiskLevel (m_RiskLevel m) = RiskLevelCritical)"
proof -
  have adm: "admissible p req"
    using assms(1) by (rule Decide_open_admissible)
  have "set (normalizePermissionTierList ts) \<subseteq> NormalizePermissionTier ` set ts" for ts
    by (auto simp: normalizePermissionTierList_def set_norm_list)
  with adm show ?thesis
    unfolding m_def admissible_def Let_def assetsMatch_iff by (auto simp: tierAllowed_def split: if_splits)
qed

text \<open>
  When a user is asked. A decision requires approval exactly when its status says so and
  exactly when it carries an approval event, which is for the request's own tool, assets and
  conversation; in a runtime without interaction nobody is ever asked.
\<close>

theorem approval_asked_iff:
  "(d_RequiresApproval (Decide fresh now now' req p) \<longleftrightarrow>
      d_Status (Decide fresh now now' req p) = DecisionStatusNeedsApproval)
   \<and> (d_ApprovalEvent (Decide fresh now now' req p) =
      (if d_Status (Decide fresh now now' req p) = DecisionStatusNeedsApproval
       then Some (approvalEvent now' (base_decision fresh req) (effective_tier (withDefaults p) req) req) else None))
   \<and> \<not> (d_Status (Decide fresh now now' req p) = DecisionStatusNeedsApproval
        \<and> normalizeApprovalMode (q_ApprovalMode req) = ApprovalModeNonInteractive)"
  using approval_asked [of fresh now now' req p] by (auto simp: asks_def)

text \<open>
  C30: The five switches of a policy for approvals have no effect: \<open>withDefaults\<close> reads a
  switch that is off as one that is not set, so two policies that differ only there decide alike.
\<close>

theorem switches_without_effect:
  "Decide fresh now now' req
     (p\<lparr>po_HighRiskRequiresApproval := a, po_CriticalRiskRequiresApproval := b, po_DeleteRequiresApproval := c,
        po_BulkSensitiveRequiresApproval := d, po_ExternalSideEffectRequiresApproval := e\<rparr>)
   = Decide fresh now now' req p"
proof -
  have "withDefaults
     (p\<lparr>po_HighRiskRequiresApproval := a, po_CriticalRiskRequiresApproval := b, po_DeleteRequiresApproval := c,
        po_BulkSensitiveRequiresApproval := d, po_ExternalSideEffectRequiresApproval := e\<rparr>) = withDefaults p"
    by (simp add: withDefaults_def DefaultPolicy_def Let_def)
  then show ?thesis by (simp add: Decide_def)
qed

section \<open>An approval is effective\<close>


lemma covers_grants [simp]: "covers now (req\<lparr>q_SessionGrants := gs\<rparr>) g = covers now req g"
  by (simp add: covers_def)

lemma same_request [simp]:
  "admissible p (req\<lparr>q_SessionGrants := gs\<rparr>) = admissible p req"
  "preauthorized (req\<lparr>q_SessionGrants := gs\<rparr>) = preauthorized req"
  "automatic p (req\<lparr>q_SessionGrants := gs\<rparr>) = automatic p req"
  "asks (req\<lparr>q_SessionGrants := gs\<rparr>) = asks req"
  by (simp_all add: admissible_def preauthorized_def automatic_def asks_def effective_tier_def Let_def)


lemma firstNonEmptyString_two:
  "trim_space (firstNonEmptyString [s, t]) = trim_space s \<longleftrightarrow> trim_space s \<noteq> [] \<or> trim_space t = []"
  by simp



section \<open>Permission tiers\<close>

lemma basic_advanced: "basicTierAllows m \<Longrightarrow> advancedTierAllows m"
proof -
  have "RiskRank RiskLevelLow \<le> RiskRank RiskLevelMedium"
    by (auto simp: RiskRank_def risk.norm_fixed)
  then show "basicTierAllows m \<Longrightarrow> advancedTierAllows m"
    by (auto simp: basicTierAllows_def advancedTierAllows_def)
qed

lemma effective_tier_set:
  "t \<in> {PermissionTierFull, PermissionTierAdvanced, PermissionTierBasic} \<Longrightarrow>
   effective_tier p (req\<lparr>q_PermissionTier := t\<rparr>) = t"
  using tier.norm_fixed [of t] by (auto simp: effective_tier_def Let_def)

lemma grant_matches_tier [simp]: "grant_matches now (req\<lparr>q_PermissionTier := t\<rparr>) = grant_matches now req"
  by (intro ext) (simp add: grant_matches_def requiresScopedGrantExpiry_def)

lemma tier_fields [simp]:
  "preauthorized (req\<lparr>q_PermissionTier := t\<rparr>) = preauthorized req"
  "granted now (req\<lparr>q_PermissionTier := t\<rparr>) = granted now req"
  "asks (req\<lparr>q_PermissionTier := t\<rparr>) = asks req"
  by (simp_all add: preauthorized_def granted_def matchingSessionGrant_def asks_def)

text \<open>
  A higher tier never takes a permission away: where the manifest lists no valid tier, what
  the basic tier allows the advanced tier allows, and what that allows the full tier allows.
\<close>

theorem tier_monotone:
  assumes "normalizePermissionTierList (m_AllowedPermissionTiers (q_Manifest req)) = []"
    and "(low, high) \<in> {(PermissionTierBasic, PermissionTierAdvanced), (PermissionTierAdvanced, PermissionTierFull)}"
    and "d_Status (Decide fresh now now' (req\<lparr>q_PermissionTier := low\<rparr>) p) = DecisionStatusAllowed"
  shows "d_Status (Decide fresh now now' (req\<lparr>q_PermissionTier := high\<rparr>) p) = DecisionStatusAllowed"
proof -
  have low: "admissible p (req\<lparr>q_PermissionTier := low\<rparr>)"
    using assms(3) by (intro Decide_open_admissible [of fresh now now']) simp
  then have high: "admissible p (req\<lparr>q_PermissionTier := high\<rparr>)"
    using assms(1) by (simp add: admissible_def Let_def tierAllowed_def)
  have "automatic p (req\<lparr>q_PermissionTier := high\<rparr>)" if "automatic p (req\<lparr>q_PermissionTier := low\<rparr>)"
    using that assms(2) basic_advanced by (auto simp: automatic_def Let_def effective_tier_set)
  with assms(3) show ?thesis
    by (auto simp: Decide_status [OF low] Decide_status [OF high] split: option.splits if_splits)
qed

section \<open>The audit record\<close>

lemma distinct_entry_if [simp]: "distinct (map fst m) \<Longrightarrow> distinct (map fst (entry_if b k v m))"
  by (simp add: entry_if_def distinct_update)

lemma map_of_entry_if [simp]:
  "map_of (entry_if b k v m) j = (if b \<and> j = k then Some v else map_of m j)"
  by (simp add: entry_if_def update_conv)

lemma map_of_compact:
  "distinct (map fst m) \<Longrightarrow>
   map_of (compactAuditPayload m) k = (case map_of m k of Some v \<Rightarrow> if blank_value v then None else Some v | None \<Rightarrow> None)"
  by (induction m) (auto simp: compactAuditPayload_def map_of_eq_None_iff image_iff split: option.splits)

lemma distinct_audit_base: "distinct (map fst (audit_base d tier req))"
  by (simp add: audit_base_def Let_def)

lemma distinct_authorization:
  "distinct (map fst m) \<Longrightarrow> distinct (map fst (audit_authorization p m))"
  by (simp add: audit_authorization_def Let_def distinct_update split: option.split)

lemma authorization_other:
  "k \<notin> {''preauthorization'', ''authorization_source'', ''authorization_binding_type'', ''authorization_actor_id'',
     ''authorization_granted_at'', ''authorization_resources'', ''authorization_code''} \<Longrightarrow>
   map_of (audit_authorization p m) k = map_of m k"
  by (simp add: audit_authorization_def Let_def update_conv split: option.split)

lemma distinct_audit_entries: "distinct (map fst (audit_entries d tier req))"
  by (simp add: audit_entries_def Let_def distinct_audit_base distinct_update distinct_authorization
      split: option.split)

lemma audit_map_of:
  assumes "m_AuditRequired (d_Manifest d) \<or> isAssetOperation (d_Manifest d)"
  shows "map_of (assetOperationAuditPayload d tier req) k =
    (case map_of (audit_entries d tier req) k of
       Some v \<Rightarrow> if blank_value v then None else Some v | None \<Rightarrow> None)"
  using assms by (auto simp: assetOperationAuditPayload_def map_of_compact distinct_audit_entries)

lemma audit_entries_other:
  assumes "k \<notin> {''preauthorization'', ''authorization_source'', ''authorization_binding_type'', ''authorization_actor_id'',
     ''authorization_granted_at'', ''authorization_resources'', ''authorization_code'', ''matched_grant''}"
  shows "map_of (audit_entries d tier req) k =
    (if k = ''approved_by_correlation_id'' \<and> d_ApprovedByCorrelationID d \<noteq> [] then Some (GString (d_ApprovedByCorrelationID d))
     else if k = ''approval_status'' \<and> d_ApprovedByCorrelationID d \<noteq> [] then Some (GString ''approved'')
     else if k = ''approval_status'' \<and> d_RequiresApproval d then Some (GString ''pending'')
     else if k = ''expected_assets'' \<and> d_ExpectedAssets d \<noteq> [] then Some (GAssets (d_ExpectedAssets d))
     else if k = ''assets'' \<and> d_Assets d \<noteq> [] then Some (GAssets (d_Assets d))
     else if k = ''permission_scopes'' \<and> m_PermissionScopes (d_Manifest d) \<noteq> []
     then Some (GStrings (m_PermissionScopes (d_Manifest d)))
     else map_of (audit_base d tier req) k)"
  using assms by (cases "d_Preauthorization d"; cases "d_MatchedGrant d")
    (simp_all add: audit_entries_def Let_def authorization_other update_conv)

lemma audit_base_lookup:
  "map_of (audit_base d tier req) ''governance_status'' = Some (GString (decision_string (d_Status d)))"
  "map_of (audit_base d tier req) ''tool_id'' = Some (GString (m_ToolID (d_Manifest d)))"
  "map_of (audit_base d tier req) ''user_id'' = Some (GString (trim_space (q_UserID req)))"
  "map_of (audit_base d tier req) ''approval_status'' = None"
  by (simp_all add: audit_base_def Let_def)

lemma Decide_finalized:
  obtains d where "Decide fresh now now' req p = finalizeDecision d (effective_tier (withDefaults p) req) req"
    and "d_Manifest d = NormalizeManifest (q_Manifest req)"
proof (cases "admissible p req")
  case True
  then show thesis
    by (intro that) (rule Decide_admissible [unfolded Let_def], assumption, auto split: option.split)
next
  case False
  then show thesis
    by (rule Decide_inadmissible [of p req fresh now now']) (auto intro: that)
qed

lemma status_not_blank [simp]: "trim_space (decision_string st) \<noteq> []" "decision_string st \<noteq> []"
proof -
  have "\<forall>c \<in> set (decision_string st). plain_byte c"
    by (cases st) (simp_all add: plain_byte_def letter_byte_def)
  then show "trim_space (decision_string st) \<noteq> []"
    by (cases st) (simp_all add: plain_trim_space)
  show "decision_string st \<noteq> []" by (cases st) simp_all
qed

lemma approval_words_not_blank [simp]: "trim_space ''approved'' \<noteq> []" "trim_space ''pending'' \<noteq> []"
  by (simp_all add: plain_trim_space plain_byte_def letter_byte_def)

text \<open>
  Every decision about an asset, and every decision that the manifest wants audited, leaves
  a record of its status, of the tool, of the user, and of the approval: pending when a user is
  asked, approved when a grant with the id of an approval was used. The record is part of the
  feedback to the model.
\<close>

theorem decisions_are_audited:
  fixes fresh :: string and now now' :: time and req :: request and p :: policy
  assumes "m_AuditRequired (q_Manifest req) \<or> isAssetOperation (NormalizeManifest (q_Manifest req))"
  defines "d \<equiv> Decide fresh now now' req p"
  shows "map_of (d_AssetOperationAudit d) ''governance_status'' = Some (GString (decision_string (d_Status d)))
    \<and> map_of (d_AssetOperationAudit d) ''tool_id'' =
        (if trim_space (m_ToolID (q_Manifest req)) = [] then None else Some (GString (trim_space (m_ToolID (q_Manifest req)))))
    \<and> map_of (d_AssetOperationAudit d) ''user_id'' =
        (if trim_space (q_UserID req) = [] then None else Some (GString (trim_space (q_UserID req))))
    \<and> map_of (d_AssetOperationAudit d) ''approval_status'' =
        (if d_ApprovedByCorrelationID d \<noteq> [] then Some (GString ''approved'')
         else if d_RequiresApproval d then Some (GString ''pending'') else None)
    \<and> map_of (d_ModelFeedback d) ''asset_operation_audit'' = Some (GMap (d_AssetOperationAudit d))"
proof -
  let ?tier = "effective_tier (withDefaults p) req"
  obtain e where d: "d = finalizeDecision e ?tier req" and m: "d_Manifest e = NormalizeManifest (q_Manifest req)"
    unfolding d_def by (rule Decide_finalized)
  from assms(1) m have req: "m_AuditRequired (d_Manifest e) \<or> isAssetOperation (d_Manifest e)" by simp
  note lookup = audit_map_of [OF req] audit_entries_other audit_base_lookup m
  have status: "map_of (d_AssetOperationAudit d) ''governance_status'' = Some (GString (decision_string (d_Status d)))"
    by (simp add: d lookup)
  then have "d_AssetOperationAudit d \<noteq> []" by auto
  then have feedback: "map_of (d_ModelFeedback d) ''asset_operation_audit'' = Some (GMap (d_AssetOperationAudit d))"
    by (simp add: d finalizeDecision_def modelFeedback_def Let_def update_conv)
  show ?thesis
    using status feedback by (simp add: d lookup)
qed

section \<open>Validated manifests\<close>

lemma manifest_problems_Nil:
  "manifest_problems quote m = [] \<longleftrightarrow>
     trim_space (m_ToolID m) \<noteq> [] \<and> trim_space (m_SkillID m) \<noteq> [] \<and> trim_space (m_Domain m) \<noteq> []
     \<and> trim_space (m_AssetType m) \<noteq> []
     \<and> validManifestEffect (m_Effect m) \<and> validManifestRiskLevel (m_RiskLevel m)
     \<and> validManifestApprovalPolicy (m_DefaultApprovalPolicy m)
     \<and> m_AllowedPermissionTiers m \<noteq> [] \<and> (\<forall>t \<in> set (m_AllowedPermissionTiers m). validManifestPermissionTier t)
     \<and> normalizeStringList (m_PermissionScopes m) \<noteq> []"
  by (auto simp: manifest_problems_def NormalizeManifest_def normalizeAssetType_def Let_def)

lemma valid_norm:
  "validManifestEffect e \<Longrightarrow> NormalizeEffect e = to_lower (trim_space e)"
  "validManifestRiskLevel r \<Longrightarrow> NormalizeRiskLevel r = to_lower (trim_space r)"
  "validManifestApprovalPolicy a \<Longrightarrow> NormalizeApprovalPolicy a = to_lower (trim_space a)"
  "validManifestPermissionTier t \<Longrightarrow> NormalizePermissionTier t = to_lower (trim_space t)"
  by (auto simp: validManifestEffect_def validManifestRiskLevel_def validManifestApprovalPolicy_def
      validManifestPermissionTier_def
      intro!: effect.norm_of_valid risk.norm_of_valid approval.norm_of_valid tier.norm_of_valid)

lemma tier_list_valid:
  assumes "\<forall>t \<in> set ts. validManifestPermissionTier t"
  shows "set (normalizePermissionTierList ts) = (\<lambda>t. to_lower (trim_space t)) ` set ts"
proof -
  have "NormalizePermissionTier ` set ts = (\<lambda>t. to_lower (trim_space t)) ` set ts"
    using assms valid_norm(4) by (intro image_cong) auto
  moreover have "[] \<notin> (\<lambda>t. to_lower (trim_space t)) ` set ts"
    using assms by (auto simp: validManifestPermissionTier_def)
  moreover have "[] \<notin> S \<Longrightarrow> {v \<in> S. v \<noteq> []} - set [] = S" for S :: "string set" by auto
  ultimately show ?thesis
    by (simp only: normalizePermissionTierList_def set_norm_list not_False_eq_True)
qed

text \<open>
  C24: A validated manifest says what its author wrote: effect, risk and approval policy are the
  given words, only trimmed and in lower case, and no invalid word was replaced by a default; the
  tool may be used under exactly the given tiers, and there is one; and validating the result
  again gives the result.
\<close>

theorem validated_manifest:
  assumes "ValidateManifest quote m = Inr n"
  shows "m_Effect n = to_lower (trim_space (m_Effect m))
    \<and> m_RiskLevel n = to_lower (trim_space (m_RiskLevel m))
    \<and> m_DefaultApprovalPolicy n = to_lower (trim_space (m_DefaultApprovalPolicy m))
    \<and> m_AllowedPermissionTiers n \<noteq> []
    \<and> (\<forall>tier. tierAllowed n tier \<longleftrightarrow> tier \<in> (\<lambda>t. to_lower (trim_space t)) ` set (m_AllowedPermissionTiers m))
    \<and> isAssetOperation n
    \<and> ValidateManifest quote n = Inr n"
proof -
  from assms have n: "n = NormalizeManifest m" and ok: "manifest_problems quote m = []"
    by (auto simp: ValidateManifest_def Let_def split: if_splits)
  note valid = ok [unfolded manifest_problems_Nil]
  from valid have tiers: "set (m_AllowedPermissionTiers n) = (\<lambda>t. to_lower (trim_space t)) ` set (m_AllowedPermissionTiers m)"
    unfolding n manifest_fields by (intro tier_list_valid) blast
  with valid have nonempty: "m_AllowedPermissionTiers n \<noteq> []" by auto
  have "manifest_problems quote n = []"
    unfolding manifest_problems_Nil using valid tiers nonempty valid_norm
    by (auto simp: n NormalizeManifest_def normalizeAssetType_def validManifestEffect_def
        validManifestRiskLevel_def validManifestApprovalPolicy_def validManifestPermissionTier_def)
  then have "ValidateManifest quote n = Inr n"
    by (simp add: ValidateManifest_def n)
  moreover have "isAssetOperation n"
    using valid by (simp add: isAssetOperation_def n normalizeAssetType_def)
  ultimately show ?thesis
    using valid valid_norm nonempty tiers by (simp add: n tierAllowed_def)
qed

end
