(* ===== verification/Governance_Frozen.thy ===== *)
theory Governance_Frozen
  imports Governance_Decision "HOL-Library.Multiset"
begin

text \<open>
  Frozen invocations (\<open>frozen_invocation.go\<close>): a tool call that waits for an approval is stored
  with its arguments and a digest of what it will do, so that the call which runs later is the one
  that was approved. JSON encoding, SHA-256 and the order in which \<open>sort.Slice\<close> leaves elements
  with equal keys are arguments, collected in a record; the laws the code relies on are named
  predicates on that record.
\<close>

section \<open>The library\<close>

record frozen_payload =
  fp_SkillID :: string
  fp_ToolName :: string
  fp_ToolID :: string
  fp_ProviderType :: string
  fp_ProviderID :: string
  fp_Effect :: string
  fp_AssetType :: string
  fp_RiskLevel :: string
  fp_Arguments :: dict
  fp_Assets :: "asset_ref list"
  fp_ExpectedAssets :: "asset_ref list"

text \<open>
  \<open>fl_marshal\<close> is \<open>json.Marshal\<close> of a payload, \<open>None\<close> for an error; \<open>fl_sha256\<close> is
  the digest in hexadecimal; \<open>fl_copy\<close> is \<open>json.Marshal\<close> followed by \<open>json.Unmarshal\<close> on the
  arguments, \<open>None\<close> if either fails; \<open>fl_sort\<close> is \<open>sort.Slice\<close> with the order of the sort keys.
\<close>

record frozen_lib =
  fl_marshal :: "frozen_payload \<Rightarrow> string option"
  fl_sha256 :: "string \<Rightarrow> string"
  fl_copy :: "dict \<Rightarrow> dict option"
  fl_sort :: "asset_ref list \<Rightarrow> asset_ref list"

definition assetSortKey :: "asset_ref \<Rightarrow> string" where
  "assetSortKey a = join_with ''|''
     [trim_space (a_Type a), trim_space (a_WorkspaceID a), trim_space (a_ID a), to_lower (trim_space (a_Name a))]"

definition sortedAssets :: "frozen_lib \<Rightarrow> asset_ref list \<Rightarrow> asset_ref list" where
  "sortedAssets L assets = (if assets = [] then [] else fl_sort L assets)"

definition cloneStringAnyMap :: "frozen_lib \<Rightarrow> dict \<Rightarrow> dict" where
  "cloneStringAnyMap L input =
     (if input = [] then [] else case fl_copy L input of None \<Rightarrow> input | Some output \<Rightarrow> output)"

section \<open>Operations\<close>

record frozen_request =
  fr_CorrelationID :: string
  fr_Manifest :: manifest
  fr_SkillID :: string
  fr_ToolName :: string
  fr_ProviderType :: string
  fr_ProviderID :: string
  fr_Arguments :: dict
  fr_Assets :: "asset_ref list"
  fr_ExpectedAssets :: "asset_ref list"
  fr_Now :: time
  fr_TTL :: duration

definition normalizeFrozenInvocationStatus :: "string \<Rightarrow> string" where
  "normalizeFrozenInvocationStatus status =
     (if trim_space status \<in> {''approved'', ''rejected'', ''executed'', ''failed''} then trim_space status else ''pending'')"

definition shortFrozenInvocationHash :: "string \<Rightarrow> string" where
  "shortFrozenInvocationHash hash =
     (let h = trim_space (trim_prefix hash ''sha256:'')
      in if 16 < length h then take 16 h else if h \<noteq> [] then h else ''unknown'')"

definition NormalizeFrozenInvocation :: "frozen_lib \<Rightarrow> frozen_invocation \<Rightarrow> frozen_invocation" where
  "NormalizeFrozenInvocation L i = i
     \<lparr>fi_CorrelationID := trim_space (fi_CorrelationID i),
      fi_SkillID := trim_space (fi_SkillID i),
      fi_ToolName := trim_space (fi_ToolName i),
      fi_ToolID := trim_space (fi_ToolID i),
      fi_ProviderType := trim_space (fi_ProviderType i),
      fi_ProviderID := trim_space (fi_ProviderID i),
      fi_Effect := NormalizeEffect (fi_Effect i),
      fi_AssetType := normalizeAssetType (fi_AssetType i),
      fi_RiskLevel := NormalizeRiskLevel (fi_RiskLevel i),
      fi_Status := normalizeFrozenInvocationStatus (fi_Status i),
      fi_Arguments := cloneStringAnyMap L (fi_Arguments i),
      fi_Assets := sortedAssets L (normalizeAssets (fi_Assets i)),
      fi_ExpectedAssets := sortedAssets L (normalizeAssets (fi_ExpectedAssets i))\<rparr>"

definition canonical_payload :: "frozen_lib \<Rightarrow> frozen_invocation \<Rightarrow> frozen_payload" where
  "canonical_payload L i =
     (let n = NormalizeFrozenInvocation L i in
      \<lparr>fp_SkillID = fi_SkillID n, fp_ToolName = fi_ToolName n, fp_ToolID = fi_ToolID n,
       fp_ProviderType = fi_ProviderType n, fp_ProviderID = fi_ProviderID n, fp_Effect = fi_Effect n,
       fp_AssetType = fi_AssetType n, fp_RiskLevel = fi_RiskLevel n, fp_Arguments = fi_Arguments n,
       fp_Assets = fi_Assets n, fp_ExpectedAssets = fi_ExpectedAssets n\<rparr>)"

definition FrozenInvocationHash :: "frozen_lib \<Rightarrow> frozen_invocation \<Rightarrow> string" where
  "FrozenInvocationHash L i =
     (case fl_marshal L (canonical_payload L i) of None \<Rightarrow> [] | Some data \<Rightarrow> ''sha256:'' @ fl_sha256 L data)"

definition FrozenInvocationHashMatches :: "frozen_lib \<Rightarrow> frozen_invocation \<Rightarrow> bool" where
  "FrozenInvocationHashMatches L i \<longleftrightarrow>
     (let expected = trim_space (fi_Hash i) in if expected = [] then False else expected = FrozenInvocationHash L i)"

text \<open>
  The invocation before its hash and its ids are set; \<open>clock\<close> is the reading of \<open>time.Now\<close> that
  replaces a zero time in the request.
\<close>

definition frozen_draft :: "frozen_lib \<Rightarrow> time \<Rightarrow> frozen_request \<Rightarrow> frozen_invocation" where
  "frozen_draft L clock r =
     (let now = (if fr_Now r = 0 then clock else fr_Now r);
          ttl = (if fr_TTL r \<le> 0 then DefaultSessionGrantTTL else fr_TTL r);
          m = NormalizeManifest (fr_Manifest r)
      in \<lparr>fi_ID = [], fi_IdempotencyKey = [], fi_Hash = [], fi_Status = ''pending'',
          fi_CorrelationID = trim_space (fr_CorrelationID r),
          fi_SkillID = firstNonEmptyString [fr_SkillID r, m_SkillID m],
          fi_ToolName = trim_space (fr_ToolName r), fi_ToolID = m_ToolID m,
          fi_ProviderType = trim_space (fr_ProviderType r), fi_ProviderID = trim_space (fr_ProviderID r),
          fi_Effect = m_Effect m, fi_AssetType = m_AssetType m, fi_RiskLevel = m_RiskLevel m,
          fi_Arguments = cloneStringAnyMap L (fr_Arguments r),
          fi_Assets = sortedAssets L (normalizeAssets (fr_Assets r)),
          fi_ExpectedAssets = sortedAssets L (normalizeAssets (fr_ExpectedAssets r)),
          fi_CreatedAt = Some now, fi_ExpiresAt = Some (now + ttl)\<rparr>)"

definition NewFrozenInvocation :: "frozen_lib \<Rightarrow> time \<Rightarrow> frozen_request \<Rightarrow> frozen_invocation" where
  "NewFrozenInvocation L clock r =
     (let i = frozen_draft L clock r;
          i = i\<lparr>fi_Hash := FrozenInvocationHash L i\<rparr>;
          short = shortFrozenInvocationHash (fi_Hash i)
      in if fi_CorrelationID i \<noteq> []
         then i\<lparr>fi_ID := ''frozen:'' @ fi_CorrelationID i,
                fi_IdempotencyKey := ''tool_governance:'' @ fi_CorrelationID i @ '':'' @ short\<rparr>
         else i\<lparr>fi_ID := ''frozen:'' @ short, fi_IdempotencyKey := ''tool_governance:'' @ short\<rparr>)"

text \<open>
  \<open>decode\<close> is the way of a value through JSON into the struct, \<open>Inl\<close> with the text of the
  error if a step of it fails. \<open>None\<close> is the result with \<open>ok = false\<close>.
\<close>

definition FrozenInvocationFromAny ::
    "frozen_lib \<Rightarrow> (goval \<Rightarrow> string + frozen_invocation) \<Rightarrow> goval \<Rightarrow> string + frozen_invocation option" where
  "FrozenInvocationFromAny L decode v =
     (if v = VNil then Inr None
      else case decode v of
        Inl e \<Rightarrow> Inl e
      | Inr raw \<Rightarrow>
          let i = NormalizeFrozenInvocation L raw
          in if fi_SkillID i = [] \<and> fi_ToolName i = [] \<and> fi_Arguments i = [] then Inr None else Inr (Some i))"

section \<open>Sorted assets\<close>

text \<open>What \<open>sort.Slice\<close> promises for the sort key: a sorted permutation.\<close>

locale asset_sorter =
  fixes srt :: "asset_ref list \<Rightarrow> asset_ref list"
  assumes srt_mset: "mset (srt xs) = mset xs"
    and srt_sorted: "sorted (map assetSortKey (srt xs))"
begin

lemma srt_unique:
  assumes "mset xs = mset ys" and "distinct (map assetSortKey ys)"
  shows "srt xs = sort_key assetSortKey ys"
proof -
  have m: "mset (srt xs) = mset (sort_key assetSortKey ys)" using assms(1) by (simp add: srt_mset)
  then have "distinct (map assetSortKey (srt xs))"
    using assms(2) by (metis mset_map mset_sort distinct_map mset_eq_imp_distinct_iff)
  moreover have "distinct (map assetSortKey (sort_key assetSortKey ys))"
    using assms(2) by (metis mset_map mset_sort mset_eq_imp_distinct_iff)
  moreover have "set (srt xs) = set (sort_key assetSortKey ys)" using m by (metis set_mset_mset)
  ultimately show ?thesis
    using srt_sorted [of xs] sorted_sort_key [of assetSortKey ys]
    by (intro map_sorted_distinct_set_unique [of assetSortKey]) (auto simp: distinct_map)
qed

lemma srt_order: "mset xs = mset ys \<Longrightarrow> distinct (map assetSortKey ys) \<Longrightarrow> srt xs = srt ys"
  using srt_unique [of xs ys] srt_unique [of ys ys] by simp

lemma srt_set: "set (srt xs) = set xs"
  using srt_mset [of xs] by (metis set_mset_mset)

end

interpretation stable: asset_sorter "sort_key assetSortKey"
  by unfold_locales simp_all

section \<open>Digests\<close>




text \<open>The digest depends on the canonical payload only.\<close>

lemma canonical_irrelevant [simp]:
  "canonical_payload L (i\<lparr>fi_Hash := h\<rparr>) = canonical_payload L i"
  "canonical_payload L (i\<lparr>fi_ID := d\<rparr>) = canonical_payload L i"
  "canonical_payload L (i\<lparr>fi_IdempotencyKey := k\<rparr>) = canonical_payload L i"
  "canonical_payload L (i\<lparr>fi_Status := st\<rparr>) = canonical_payload L i"
  "canonical_payload L (i\<lparr>fi_CorrelationID := c\<rparr>) = canonical_payload L i"
  by (simp_all add: canonical_payload_def NormalizeFrozenInvocation_def Let_def)





text \<open>
  Freezing does not depend on the order in which the assets are given: requests with the
  same assets in another order, of which no two have the same sort key, are frozen to the same
  invocation, with the same hash and the same idempotency key.
\<close>

theorem frozen_order_independent:
  assumes "asset_sorter (fl_sort L)"
    and "mset as = mset (fr_Assets r)"
    and "distinct (map assetSortKey (normalizeAssets (fr_Assets r)))"
  shows "NewFrozenInvocation L clock (r\<lparr>fr_Assets := as\<rparr>) = NewFrozenInvocation L clock r"
proof -
  have m: "mset (normalizeAssets as) = mset (normalizeAssets (fr_Assets r))"
    unfolding normalizeAssets_def mset_filter mset_map assms(2) ..
  then have "normalizeAssets as = [] \<longleftrightarrow> normalizeAssets (fr_Assets r) = []"
    by (metis mset_zero_iff)
  with asset_sorter.srt_order [OF assms(1) m assms(3)]
  have "sortedAssets L (normalizeAssets as) = sortedAssets L (normalizeAssets (fr_Assets r))"
    by (simp only: sortedAssets_def)
  then have "frozen_draft L clock (r\<lparr>fr_Assets := as\<rparr>) = frozen_draft L clock r"
    by (simp add: frozen_draft_def)
  then show ?thesis by (simp only: NewFrozenInvocation_def)
qed

section \<open>Storing and reading back\<close>

lemma status_idem [simp]:
  "normalizeFrozenInvocationStatus (normalizeFrozenInvocationStatus s) = normalizeFrozenInvocationStatus s"
proof -
  have "trim_space ''pending'' = ''pending''" by (simp add: plain_trim_space plain_byte_def letter_byte_def)
  then show ?thesis by (auto simp: normalizeFrozenInvocationStatus_def)
qed

lemma clone_idem:
  assumes "\<And>a b. fl_copy L a = Some b \<Longrightarrow> fl_copy L b = Some b"
  shows "cloneStringAnyMap L (cloneStringAnyMap L a) = cloneStringAnyMap L a"
  using assms by (auto simp: cloneStringAnyMap_def split: option.splits)

lemma sortedAssets_idem:
  assumes "asset_sorter (fl_sort L)" and "distinct (map assetSortKey (normalizeAssets as))"
  shows "sortedAssets L (normalizeAssets (sortedAssets L (normalizeAssets as))) = sortedAssets L (normalizeAssets as)"
proof -
  let ?ns = "normalizeAssets as"
  have normal: "normalizeAssets (sortedAssets L ?ns) = sortedAssets L ?ns"
    using asset_sorter.srt_set [OF assms(1)]
    by (intro normalizeAssets_fixed) (auto simp: sortedAssets_def dest: normalizeAssets_normal)
  have "fl_sort L (fl_sort L ?ns) = fl_sort L ?ns"
    using asset_sorter.srt_order [OF assms(1) asset_sorter.srt_mset [OF assms(1)] assms(2)] .
  then show ?thesis unfolding normal by (auto simp: sortedAssets_def)
qed

text \<open>
  An invocation that was stored and is read back is normalised, reading it again changes
  nothing, and it passes the check exactly when the stored one did. The hypotheses are that a
  copy through JSON is stable, that \<open>sort.Slice\<close> sorts, and that no two assets have the same
  sort key.
\<close>

theorem frozen_read_back:
  assumes copy: "\<And>a b. fl_copy L a = Some b \<Longrightarrow> fl_copy L b = Some b"
    and sorter: "asset_sorter (fl_sort L)"
    and keys: "distinct (map assetSortKey (normalizeAssets (fi_Assets i)))"
      "distinct (map assetSortKey (normalizeAssets (fi_ExpectedAssets i)))"
    and "FrozenInvocationFromAny L decode v = Inr (Some j)" and "decode v = Inr i"
  shows "NormalizeFrozenInvocation L j = j \<and> FrozenInvocationHashMatches L j = FrozenInvocationHashMatches L i"
proof -
  from assms(5,6) have j: "j = NormalizeFrozenInvocation L i"
    by (auto simp: FrozenInvocationFromAny_def Let_def split: if_splits)
  have normal: "NormalizeFrozenInvocation L j = j"
    unfolding j NormalizeFrozenInvocation_def
    by (simp add: clone_idem [OF copy] sortedAssets_idem [OF sorter] keys)
  then have "canonical_payload L j = canonical_payload L i"
    by (simp add: canonical_payload_def j)
  moreover have "fi_Hash j = fi_Hash i" by (simp add: j NormalizeFrozenInvocation_def)
  ultimately show ?thesis
    using normal by (simp add: FrozenInvocationHashMatches_def FrozenInvocationHash_def)
qed

end
