(* ===== verification/Governance_Examples.thy ===== *)
theory Governance_Examples
  imports Governance_Safety Governance_Frozen
begin

text \<open>
  A request to delete a file, on which the theorems about decisions are applied: it is asked
  for, approved, and allowed afterwards.
\<close>

definition delete_manifest :: manifest where
  "delete_manifest =
     \<lparr>m_ToolID = ''delete_file'', m_SkillID = ''files'', m_Domain = ''files'', m_Effect = ''delete'', m_AssetType = ''file'',
      m_RiskLevel = ''high'', m_RequiresAssetResolution = True, m_Reversible = False, m_BulkSensitive = False,
      m_ExternalSideEffect = False, m_PermissionScopes = [''file_delete''], m_DefaultApprovalPolicy = ''always_ask'',
      m_AllowedPermissionTiers = [''basic'', ''full''], m_AuditRequired = True, m_IdempotencyRequired = True\<rparr>"

definition report :: asset_ref where
  "report = \<lparr>a_ID = ''report'', a_Type = ''file'', a_Name = [], a_WorkspaceID = [], a_Source = [], a_Metadata = []\<rparr>"

definition delete_grant :: session_grant where
  "delete_grant =
     \<lparr>g_ConversationID = ''chat'', g_OrganizationID = [], g_UserID = ''ann'', g_SkillID = ''files'',
      g_ProviderType = [], g_ProviderID = [], g_ToolID = ''delete_file'', g_Effect = ''delete'', g_AssetType = ''file'',
      g_Assets = [report], g_RiskLevel = ''high'', g_ApprovalCorrelationID = ''first'', g_GrantedAt = 5, g_ExpiresAt = 100\<rparr>"

definition delete_request :: request where
  "delete_request =
     \<lparr>q_Manifest = delete_manifest, q_PermissionTier = ''basic'', q_ApprovalMode = ''interactive'',
      q_Preauthorization = None, q_ConversationID = ''chat'', q_OrganizationID = [], q_UserID = ''ann'',
      q_SkillID = ''files'', q_ProviderType = [], q_ProviderID = [], q_Assets = [report], q_ExpectedAssets = [],
      q_SessionGrants = [], q_CorrelationID = ''first''\<rparr>"

definition read_request :: request where
  "read_request = delete_request
     \<lparr>q_Manifest := delete_manifest\<lparr>m_Effect := ''read'', m_RiskLevel := ''low'',
        m_DefaultApprovalPolicy := [], m_AllowedPermissionTiers := []\<rparr>\<rparr>"

lemma plain_words [simp]:
  "trim_space ''delete_file'' = ''delete_file''" "trim_space ''files'' = ''files''" "trim_space ''file'' = ''file''"
  "trim_space ''chat'' = ''chat''" "trim_space ''ann'' = ''ann''" "trim_space ''report'' = ''report''"
  "trim_space ''file_delete'' = ''file_delete''"
  "to_lower ''file'' = ''file''" "to_lower ''files'' = ''files''" "to_lower ''file_delete'' = ''file_delete''"
  by (simp_all add: plain_norm plain_byte_def letter_byte_def)

lemma enum_words [simp]:
  "NormalizeEffect ''delete'' = ''delete''" "NormalizeEffect ''read'' = ''read''"
  "NormalizeRiskLevel ''high'' = ''high''" "NormalizeRiskLevel ''low'' = ''low''"
  "NormalizePermissionTier ''basic'' = ''basic''" "NormalizePermissionTier ''full'' = ''full''"
  "NormalizeApprovalPolicy ''always_ask'' = ''always_ask''"
  "normalizeApprovalMode ''interactive'' = ''interactive''"
  by (simp_all add: effect.norm_fixed risk.norm_fixed tier.norm_fixed approval.norm_fixed mode.norm_fixed effects_def)

lemma report_normal [simp]: "normalizeAssets [report] = [report]" "normalizeAssets [] = []"
  by (simp_all add: normalizeAssets_def normalize_asset_def normalizeAssetType_def empty_asset_def report_def)

lemma request_fields [simp]:
  "q_Manifest delete_request = delete_manifest" "q_PermissionTier delete_request = ''basic''"
  "q_ApprovalMode delete_request = ''interactive''" "q_Preauthorization delete_request = None"
  "q_ConversationID delete_request = ''chat''" "q_OrganizationID delete_request = []" "q_UserID delete_request = ''ann''"
  "q_SkillID delete_request = ''files''" "q_ProviderType delete_request = []" "q_ProviderID delete_request = []"
  "q_Assets delete_request = [report]" "q_ExpectedAssets delete_request = []" "q_SessionGrants delete_request = []"
  "q_Preauthorization read_request = None" "q_Assets read_request = [report]" "q_ExpectedAssets read_request = []"
  "q_Manifest read_request = delete_manifest
     \<lparr>m_Effect := ''read'', m_RiskLevel := ''low'', m_DefaultApprovalPolicy := [], m_AllowedPermissionTiers := []\<rparr>"
  by (simp_all add: delete_request_def read_request_def)

lemma manifest_words [simp]:
  "m_ToolID delete_manifest = ''delete_file''" "m_SkillID delete_manifest = ''files''" "m_Domain delete_manifest = ''files''"
  "m_Effect delete_manifest = ''delete''" "m_AssetType delete_manifest = ''file''" "m_RiskLevel delete_manifest = ''high''"
  "m_RequiresAssetResolution delete_manifest" "\<not> m_BulkSensitive delete_manifest" "\<not> m_ExternalSideEffect delete_manifest"
  "m_PermissionScopes delete_manifest = [''file_delete'']" "m_DefaultApprovalPolicy delete_manifest = ''always_ask''"
  "m_AllowedPermissionTiers delete_manifest = [''basic'', ''full'']" "m_AuditRequired delete_manifest"
  by (simp_all add: delete_manifest_def)

lemma delete_admissible: "admissible DefaultPolicy delete_request"
  by (simp add: admissible_def Let_def effective_tier_def tierAllowed_def normalizePermissionTierList_def
      DefaultPolicy_def)

lemma delete_dangerous: "dangerous (q_Manifest delete_request)"
  by (simp add: dangerous_def)

lemma delete_covered: "covers 10 delete_request delete_grant"
  by (simp add: covers_def normalizeSessionGrant_def delete_grant_def)
    (simp add: assetMatchesExpectedAsset_def report_def)

lemma delete_granted: "granted 10 (delete_request\<lparr>q_SessionGrants := [delete_grant]\<rparr>) \<noteq> None"
  unfolding granted_iff using delete_covered by simp

lemma delete_allowed:
  "d_Status (Decide ''id'' 10 10 (delete_request\<lparr>q_SessionGrants := [delete_grant]\<rparr>) DefaultPolicy) = DecisionStatusAllowed"
  using delete_granted delete_admissible
  by (simp add: Decide_status preauthorized_def)

lemma delete_asked: "d_Status (Decide ''id'' 10 10 delete_request DefaultPolicy) = DecisionStatusNeedsApproval"
proof -
  have "granted 10 delete_request = None"
    using granted_iff [of 10 delete_request] by simp
  moreover have "\<not> automatic DefaultPolicy delete_request"
    using delete_dangerous automatic_not_dangerous by blast
  ultimately show ?thesis
    using delete_admissible by (simp add: Decide_status preauthorized_def asks_def)
qed

theorem dangerous_needs_authorization_witness:
  "(\<exists>pre. q_Preauthorization (delete_request\<lparr>q_SessionGrants := [delete_grant]\<rparr>) = Some pre \<and> p_Required pre \<and> p_Matched pre)
   \<or> (\<exists>g \<in> set (q_SessionGrants (delete_request\<lparr>q_SessionGrants := [delete_grant]\<rparr>)).
        covers 10 (delete_request\<lparr>q_SessionGrants := [delete_grant]\<rparr>) g)"
  using delete_allowed delete_dangerous by (intro dangerous_needs_authorization) simp_all

theorem checks_not_overridden_witness:
  "trim_space (m_ToolID (q_Manifest delete_request)) \<noteq> []
   \<and> effective_tier (withDefaults DefaultPolicy) delete_request
       \<in> NormalizePermissionTier ` set (m_AllowedPermissionTiers (q_Manifest delete_request))
   \<and> normalizeAssets (q_Assets delete_request) \<noteq> []"
  using checks_not_overridden [of "''id''" 10 10 delete_request DefaultPolicy] delete_asked
  by (simp add: normalizePermissionTierList_def isAssetOperation_def normalizeAssetType_def)


theorem tier_monotone_witness:
  "d_Status (Decide ''id'' 10 10 (read_request\<lparr>q_PermissionTier := PermissionTierAdvanced\<rparr>) DefaultPolicy)
   = DecisionStatusAllowed"
proof (rule tier_monotone)
  show "normalizePermissionTierList (m_AllowedPermissionTiers (q_Manifest read_request)) = []"
    by (simp add: normalizePermissionTierList_def)
  show "(PermissionTierBasic, PermissionTierAdvanced)
      \<in> {(PermissionTierBasic, PermissionTierAdvanced), (PermissionTierAdvanced, PermissionTierFull)}"
    by simp
  have "automatic DefaultPolicy (read_request\<lparr>q_PermissionTier := PermissionTierBasic\<rparr>)"
    unfolding automatic_def Let_def hardRequiresApproval_iff
    by (simp add: effective_tier_set dangerous_def basicTierAllows_def RiskRank_def
        isAssetOperation_def effects_def NormalizeApprovalPolicy_def one_of_def)
  moreover have "admissible DefaultPolicy (read_request\<lparr>q_PermissionTier := PermissionTierBasic\<rparr>)"
    by (simp add: admissible_def Let_def tierAllowed_def normalizePermissionTierList_def DefaultPolicy_def)
  ultimately show "d_Status (Decide ''id'' 10 10 (read_request\<lparr>q_PermissionTier := PermissionTierBasic\<rparr>) DefaultPolicy)
      = DecisionStatusAllowed"
    by (simp add: Decide_status preauthorized_def)
qed

theorem decisions_are_audited_witness:
  "map_of (d_AssetOperationAudit (Decide ''id'' 10 10 delete_request DefaultPolicy)) ''governance_status''
     = Some (GString ''needs_approval'')
   \<and> map_of (d_AssetOperationAudit (Decide ''id'' 10 10 delete_request DefaultPolicy)) ''user_id'' = Some (GString ''ann'')"
  using decisions_are_audited [of delete_request "''id''" 10 10 DefaultPolicy] delete_asked
  by simp

theorem validated_manifest_witness:
  "\<exists>n. ValidateManifest id delete_manifest = Inr n \<and> m_Effect n = ''delete'' \<and> (\<forall>tier. tierAllowed n tier \<longleftrightarrow> tier \<in> {''basic'', ''full''})"
proof -
  have lower: "to_lower (trim_space s) = s"
    if "s \<in> {''delete'', ''high'', ''always_ask'', ''basic'', ''full''}" for s
    using that by (auto simp: plain_norm plain_byte_def letter_byte_def)
  have "manifest_problems id delete_manifest = []"
    by (simp add: manifest_problems_Nil validManifestEffect_def validManifestRiskLevel_def
        validManifestApprovalPolicy_def validManifestPermissionTier_def lower effects_def normalizeStringList_def)
  then have "ValidateManifest id delete_manifest = Inr (NormalizeManifest delete_manifest)"
    by (simp add: ValidateManifest_def)
  with validated_manifest [OF this] show ?thesis
    by (simp add: lower)
qed

section \<open>A frozen invocation\<close>

text \<open>
  A library that encodes calls of tools of one skill without arguments and assets by the id of
  the tool, and whose digest tells \<open>delete_file\<close> from every other tool.
\<close>

definition tool_payload :: "string \<Rightarrow> frozen_payload" where
  "tool_payload tool =
     \<lparr>fp_SkillID = ''files'', fp_ToolName = ''file'', fp_ToolID = tool, fp_ProviderType = [], fp_ProviderID = [],
      fp_Effect = ''delete'', fp_AssetType = ''file'', fp_RiskLevel = ''high'', fp_Arguments = [], fp_Assets = [],
      fp_ExpectedAssets = []\<rparr>"

definition demo_lib :: frozen_lib where
  "demo_lib =
     \<lparr>fl_marshal = (\<lambda>q. if q = tool_payload (fp_ToolID q) then Some (fp_ToolID q) else None),
      fl_sha256 = (\<lambda>d. if d = ''delete_file'' then ''ab'' else ''cd''), fl_copy = Some,
      fl_sort = sort_key assetSortKey\<rparr>"

definition freeze_request :: frozen_request where
  "freeze_request =
     \<lparr>fr_CorrelationID = ''chat'', fr_Manifest = delete_manifest, fr_SkillID = [], fr_ToolName = ''file'',
      fr_ProviderType = [], fr_ProviderID = [], fr_Arguments = [], fr_Assets = [], fr_ExpectedAssets = [],
      fr_Now = 10, fr_TTL = 0\<rparr>"

definition frozen :: frozen_invocation where
  "frozen = NewFrozenInvocation demo_lib 5 freeze_request"

lemma frozen_payload: "canonical_payload demo_lib frozen = tool_payload ''delete_file''"
proof -
  have "canonical_payload demo_lib frozen = canonical_payload demo_lib (frozen_draft demo_lib 5 freeze_request)"
    by (simp add: frozen_def NewFrozenInvocation_def Let_def)
  also have "\<dots> = tool_payload ''delete_file''"
    by (simp add: frozen_draft_def canonical_payload_def NormalizeFrozenInvocation_def Let_def freeze_request_def
        cloneStringAnyMap_def sortedAssets_def tool_payload_def normalizeAssetType_def)
  finally show ?thesis .
qed


theorem frozen_order_independent_witness:
  "NewFrozenInvocation demo_lib 5 (freeze_request\<lparr>fr_Assets := [report, report\<lparr>a_ID := ''file''\<rparr>]\<rparr>)
   = NewFrozenInvocation demo_lib 5 (freeze_request\<lparr>fr_Assets := [report\<lparr>a_ID := ''file''\<rparr>, report]\<rparr>)"
proof -
  have "NewFrozenInvocation demo_lib 5 ((freeze_request\<lparr>fr_Assets := [report\<lparr>a_ID := ''file''\<rparr>, report]\<rparr>)
      \<lparr>fr_Assets := [report, report\<lparr>a_ID := ''file''\<rparr>]\<rparr>)
    = NewFrozenInvocation demo_lib 5 (freeze_request\<lparr>fr_Assets := [report\<lparr>a_ID := ''file''\<rparr>, report]\<rparr>)"
  proof (rule frozen_order_independent)
    show "asset_sorter (fl_sort demo_lib)" by (simp add: demo_lib_def stable.asset_sorter_axioms)
    show "distinct (map assetSortKey (normalizeAssets
        (fr_Assets (freeze_request\<lparr>fr_Assets := [report\<lparr>a_ID := ''file''\<rparr>, report]\<rparr>))))"
      by (simp add: normalizeAssets_def normalize_asset_def normalizeAssetType_def empty_asset_def report_def
          assetSortKey_def)
  qed simp
  then show ?thesis by simp
qed

theorem frozen_read_back_witness:
  "NormalizeFrozenInvocation demo_lib (NormalizeFrozenInvocation demo_lib frozen) = NormalizeFrozenInvocation demo_lib frozen
   \<and> FrozenInvocationHashMatches demo_lib (NormalizeFrozenInvocation demo_lib frozen)
     = FrozenInvocationHashMatches demo_lib frozen"
proof (rule frozen_read_back [where v = "VBool True" and decode = "\<lambda>_. Inr frozen"])
  show "asset_sorter (fl_sort demo_lib)" by (simp add: demo_lib_def stable.asset_sorter_axioms)
  have "fi_Assets frozen = []" "fi_ExpectedAssets frozen = []" "fi_SkillID frozen = ''files''"
    by (simp_all add: frozen_def NewFrozenInvocation_def frozen_draft_def Let_def freeze_request_def sortedAssets_def)
  then show "distinct (map assetSortKey (normalizeAssets (fi_Assets frozen)))"
    and "distinct (map assetSortKey (normalizeAssets (fi_ExpectedAssets frozen)))"
    and "FrozenInvocationFromAny demo_lib (\<lambda>_. Inr frozen) (VBool True) = Inr (Some (NormalizeFrozenInvocation demo_lib frozen))"
    by (simp_all add: FrozenInvocationFromAny_def Let_def NormalizeFrozenInvocation_def)
qed (simp_all add: demo_lib_def)

end
