(* ===== verification/Sandbox_Model.thy ===== *)
theory Sandbox_Model
  imports Go_Strings
begin

text \<open>
  The data of the sandbox service: the configuration (\<open>config/config.go\<close>, the fields that the
  modelled code reads), the sandboxes, endpoints and resource limits (\<open>sandbox/model.go\<close>) and
  the errors of the policy service. A Go \<open>int\<close> or \<open>int64\<close> is an \<^typ>\<open>int\<close>, and every product
  or sum that can leave the range of 64 bits goes through \<open>int64\<close>.
\<close>

section \<open>Configuration\<close>

record config =
  cf_MaxWorkers :: int
  cf_TimeoutSeconds :: int
  cf_OutputLimitKB :: int
  cf_MaxActive :: int
  cf_MaxConcurrentExecutions :: int
  cf_MaxConcurrentExecutionsPerProfile :: int
  cf_MaxActivePerOrganization :: int
  cf_MaxConcurrentExecutionsPerOrganization :: int
  cf_MaxExecutionsPerMinutePerOrganization :: int
  cf_MaxNetworkRequestsPerMinutePerOrganization :: int
  cf_MaxQueuedExecutionsPerOrganization :: int
  cf_MaxWorkspaceFiles :: int
  cf_MaxWorkspaceBytes :: int
  cf_MaxWorkspaceBytesPerOrganization :: int
  cf_MaxArtifactManifestFiles :: int
  cf_MaxArtifactManifestBytes :: int
  cf_MaxArtifactBytesPerOrganization :: int
  cf_MaxDependencyProfilesPerOrganization :: int
  cf_MaxDependencyProfileSizeBytes :: int
  cf_DependencyProfileBuildTimeoutSeconds :: int
  cf_QueueTimeoutMS :: int
  cf_SessionTTL :: int
  cf_InteractiveTTL :: int
  cf_CommandTimeout :: int
  cf_MaxFileSizeKB :: int
  cf_RuntimeBackend :: string
  cf_EnforceNetworkPolicy :: bool
  cf_SecureRuntimeCPUSeconds :: int
  cf_SecureRuntimeMemoryBytes :: int
  cf_SecureRuntimeProcessLimit :: int
  cf_SecureRuntimeOpenFileLimit :: int

definition RuntimeBackendName :: "config \<Rightarrow> string" where
  "RuntimeBackendName c =
     (let b = to_lower (trim_space (cf_RuntimeBackend c))
      in if b \<in> {'''', ''preview'', ''process'', ''preview-process''} then ''preview-process''
         else if b = ''linux-secure'' then ''linux-secure'' else b)"

definition NetworkPolicyEnforced :: "config \<Rightarrow> bool" where
  "NetworkPolicyEnforced c \<longleftrightarrow> cf_EnforceNetworkPolicy c \<or> RuntimeBackendName c = ''linux-secure''"

section \<open>Sandboxes\<close>

type_synonym runtime_profile = string

abbreviation RuntimeLite :: runtime_profile where "RuntimeLite \<equiv> ''lite''"
abbreviation RuntimeSession :: runtime_profile where "RuntimeSession \<equiv> ''session''"
abbreviation RuntimeInteractive :: runtime_profile where "RuntimeInteractive \<equiv> ''interactive''"

datatype sandbox_status = StatusActive | StatusExpired | StatusDeleted

record resource_limits =
  rl_RuntimeBackend :: string
  rl_NetworkPolicyEnforced :: bool
  rl_MaxWorkers :: int
  rl_MaxActiveSandboxes :: int
  rl_MaxConcurrentExecutions :: int
  rl_MaxConcurrentExecutionsPerProfile :: int
  rl_MaxActiveSandboxesPerOrganization :: int
  rl_MaxConcurrentExecutionsPerOrganization :: int
  rl_MaxExecutionsPerMinutePerOrganization :: int
  rl_MaxNetworkRequestsPerMinutePerOrganization :: int
  rl_MaxQueuedExecutionsPerOrganization :: int
  rl_MaxWorkspaceFiles :: int
  rl_MaxWorkspaceBytes :: int
  rl_MaxWorkspaceBytesPerOrganization :: int
  rl_QueueTimeoutMS :: int
  rl_DefaultTimeoutSeconds :: int
  rl_DefaultExecutionTimeoutMS :: int
  rl_OutputLimitKB :: int
  rl_MaxCommandTimeoutMS :: int
  rl_MaxCommandTimeoutSeconds :: int
  rl_OutputLimitBytes :: int
  rl_MaxFileSizeKB :: int
  rl_MaxFileSizeBytes :: int
  rl_MaxArchiveFiles :: int
  rl_MaxArchiveTotalBytes :: int
  rl_MaxArtifactManifestFiles :: int
  rl_MaxArtifactManifestTotalBytes :: int
  rl_MaxArtifactManifestBytes :: int
  rl_MaxArtifactBytesPerOrganization :: int
  rl_MaxDependencyProfilesPerOrganization :: int
  rl_MaxDependencyProfileSizeBytes :: int
  rl_DependencyProfileBuildTimeoutSeconds :: int
  rl_SecureRuntimeCPUSeconds :: int
  rl_SecureRuntimeMemoryBytes :: int
  rl_SecureRuntimeProcessLimit :: int
  rl_SecureRuntimeOpenFileLimit :: int
  rl_SessionTTLSecs :: int
  rl_SessionTTLSeconds :: int
  rl_InteractiveTTLSecs :: int
  rl_InteractiveTTLSeconds :: int
  rl_MaxCompatTTLSecs :: int
  rl_MaxCompatTTLSeconds :: int
  rl_DependencyUpdatesLocked :: bool
  rl_WorkspaceFileLimitEnforced :: bool
  rl_WorkspaceByteLimitEnforced :: bool
  rl_OrganizationWorkspaceByteLimitEnforced :: bool
  rl_OrganizationArtifactByteLimitEnforced :: bool
  rl_OrganizationDependencyProfileLimitEnforced :: bool
  rl_SecureRuntimeResourceLimitsEnforced :: bool

record sandbox =
  sb_ID :: string
  sb_RuntimeProfile :: runtime_profile
  sb_Status :: sandbox_status
  sb_CreatedAt :: time
  sb_UpdatedAt :: time
  sb_ExpiresAt :: time
  sb_RootPath :: string
  sb_Metadata :: "(string, string) gomap"
  sb_OrganizationID :: string
  sb_WorkspaceID :: string
  sb_AppID :: string
  sb_WorkflowRunID :: string
  sb_UserID :: string
  sb_NetworkEnabled :: bool
  sb_NetworkPolicy :: string
  sb_DependencyProfile :: string
  sb_DependencyProfileVersion :: string
  sb_DependencyArtifactChecksum :: string
  sb_WorkspaceBinding :: string
  sb_TTLSeconds :: int
  sb_WorkerID :: string
  sb_WorkerAddr :: string
  sb_EffectiveLimits :: "resource_limits option"

record endpoint =
  ep_SandboxID :: string
  ep_Port :: string
  ep_URL :: string
  ep_Status :: string
  ep_TargetHost :: string
  ep_TargetPort :: int
  ep_Scheme :: string
  ep_CreatedAt :: "time option"
  ep_UpdatedAt :: "time option"

section \<open>Errors\<close>

record limit_error =
  le_Code :: string
  le_Limit :: string
  le_Maximum :: int
  le_Actual :: int
  le_Details :: dict

datatype sb_error = Message string | Limit limit_error

section \<open>Durations\<close>

abbreviation Millisecond :: duration where "Millisecond \<equiv> 1000000"
abbreviation Second :: duration where "Second \<equiv> 1000000000"
abbreviation Minute :: duration where "Minute \<equiv> 60000000000"

text \<open>\<open>time.Duration(n) * unit\<close>, a product of 64-bit numbers.\<close>

definition times :: "int \<Rightarrow> duration \<Rightarrow> duration" where
  "times n unit = int64 (n * unit)"

lemma times_exact: "int64_range (n * unit) \<Longrightarrow> times n unit = n * unit"
  by (simp add: times_def int64_id)

end
