(* ===== verification/Sandbox_Dependencies.thy ===== *)
theory Sandbox_Dependencies
  imports Sandbox_Model
begin

text \<open>
  Dependency profiles of the sandbox service (\<open>policy/service.go\<close>): which packages a profile
  may have, how profiles are built, registered, loaded, removed, listed and selected. The list
  of profiles is the state; package and build policy are fixed when the service is made.
\<close>

section \<open>Types\<close>

record dependency_package =
  dp_Name :: string
  dp_Version :: string
  dp_Ecosystem :: string

record dependency_profile =
  pr_Name :: string
  pr_Version :: string
  pr_Status :: string
  pr_Enabled :: bool
  pr_OwnerScope :: string
  pr_Scope :: string
  pr_OrganizationID :: string
  pr_Languages :: "string list"
  pr_Packages :: "dependency_package list"
  pr_BaseRuntime :: string
  pr_Checksum :: string
  pr_ArtifactChecksum :: string
  pr_SizeBytes :: int
  pr_Description :: string
  pr_PublicReusable :: bool
  pr_Pinned :: bool

record package_rule =
  ru_Ecosystem :: string
  ru_Name :: string
  ru_Version :: string
  ru_Reason :: string

record package_policy =
  pp_Mode :: string
  pp_Enforced :: bool
  pp_DefaultAction :: string
  pp_AllowedPackages :: "package_rule list"
  pp_DeniedPackages :: "package_rule list"

record build_policy =
  bp_Mode :: string
  bp_Enforced :: bool
  bp_MaxProfileSizeBytes :: int
  bp_BuildTimeoutSeconds :: int
  bp_BuildsAllowedDuringRuntime :: bool

record build_request =
  br_Name :: string
  br_Version :: string
  br_Scope :: string
  br_OrganizationID :: string
  br_Languages :: "string list"
  br_Packages :: "dependency_package list"
  br_BaseRuntime :: string
  br_Checksum :: string
  br_ArtifactChecksum :: string
  br_SizeBytes :: int
  br_Description :: string
  br_PublicReusable :: bool
  br_Pinned :: bool

record build_result =
  bs_BuildID :: string
  bs_Accepted :: bool
  bs_Status :: string
  bs_Profile :: "dependency_profile option"
  bs_Error :: string

text \<open>The policies a service is made with, and the name of its runtime backend.\<close>

record dependency_env =
  de_packagePolicy :: package_policy
  de_buildPolicy :: build_policy
  de_backend :: string

section \<open>Names\<close>

definition normalizePackageEcosystem :: "string \<Rightarrow> string" where
  "normalizePackageEcosystem v =
     (let t = to_lower (trim_space v)
      in if t \<in> {''python'', ''python3'', ''pypi''} then ''python3''
         else if t \<in> {''node'', ''nodejs'', ''npm'', ''javascript''} then ''nodejs''
         else if t = ''*'' then ''*'' else t)"

definition normalizePackageName :: "string \<Rightarrow> string" where
  "normalizePackageName v = to_lower (trim_space v)"

definition normalizeLanguage :: "string \<Rightarrow> string" where
  "normalizeLanguage v =
     (let t = to_lower (trim_space v)
      in if t \<in> {''python'', ''python3''} then ''python3''
         else if t \<in> {''node'', ''nodejs'', ''javascript''} then ''nodejs'' else t)"

text \<open>
  A name ranges over the runes of a string; a byte outside ASCII is part of a rune that is not
  allowed, so it is enough to look at the bytes.
\<close>

definition name_byte :: "char \<Rightarrow> bool" where
  "name_byte c \<longleftrightarrow>
     (let n = of_char c :: nat in 97 \<le> n \<and> n \<le> 122 \<or> 48 \<le> n \<and> n \<le> 57 \<or> n = 45)"

definition validDependencyProfileName :: "string \<Rightarrow> bool" where
  "validDependencyProfileName v \<longleftrightarrow> (if v = [] then False else list_all name_byte v)"

fun profile_languages :: "string list \<Rightarrow> string list \<Rightarrow> string list" where
  "profile_languages seen [] = []"
| "profile_languages seen (v # vs) =
     (let l = normalizeLanguage v
      in if l = [] \<or> l \<in> set seen then profile_languages seen vs
         else if l \<in> {''python3'', ''nodejs''} then l # profile_languages (l # seen) vs
         else profile_languages seen vs)"

definition normalizeDependencyProfileLanguages :: "string list \<Rightarrow> string list" where
  "normalizeDependencyProfileLanguages vs = profile_languages [] vs"

definition normalizeDependencyProfilePackages ::
    "dependency_package list \<Rightarrow> string list \<Rightarrow> dependency_package list" where
  "normalizeDependencyProfilePackages packages languages =
     (let defaultEcosystem = (if length languages = 1 then hd languages else [])
      in map (\<lambda>pkg.
           let ecosystem = normalizePackageEcosystem (dp_Ecosystem pkg);
               ecosystem = (if ecosystem = [] then defaultEcosystem else ecosystem)
           in \<lparr>dp_Name = normalizePackageName (dp_Name pkg), dp_Version = trim_space (dp_Version pkg),
               dp_Ecosystem = ecosystem\<rparr>) packages)"

definition normalizeDependencyProfileScope :: "string \<Rightarrow> string \<Rightarrow> string" where
  "normalizeDependencyProfileScope scope organizationID =
     (if to_lower (trim_space scope) = ''organization'' then ''organization''
      else if trim_space organizationID \<noteq> [] then ''organization'' else ''global'')"

definition dependencyProfileIdentityKey :: "dependency_profile \<Rightarrow> string" where
  "dependencyProfileIdentityKey p =
     normalizeDependencyProfileScope (pr_Scope p) (pr_OrganizationID p) @ [byte 0] @
     trim_space (pr_OrganizationID p) @ [byte 0] @ pr_Name p"

definition dependencyProfileIdentityMatches :: "dependency_profile \<Rightarrow> dependency_profile \<Rightarrow> bool" where
  "dependencyProfileIdentityMatches l r \<longleftrightarrow> dependencyProfileIdentityKey l = dependencyProfileIdentityKey r"

definition replace_version_byte :: "char \<Rightarrow> char" where
  "replace_version_byte c = (if c \<in> {CHR ''.'', CHR ''-'', CHR '':'', CHR ''/''} then CHR ''_'' else c)"

definition dependencyProfileBuildID :: "string \<Rightarrow> string \<Rightarrow> string" where
  "dependencyProfileBuildID name0 version0 =
     (let name = (if trim_space name0 = [] then ''profile'' else trim_space name0);
          version = (if trim_space version0 = [] then ''unknown'' else trim_space version0)
      in ''build_'' @ normalizePackageName name @ ''_'' @ map replace_version_byte version)"

section \<open>Packages\<close>

definition packageRuleMatches :: "package_rule \<Rightarrow> string \<Rightarrow> string \<Rightarrow> string \<Rightarrow> bool" where
  "packageRuleMatches rule ecosystem name version \<longleftrightarrow>
     (let ruleEcosystem = normalizePackageEcosystem (ru_Ecosystem rule)
      in if ruleEcosystem \<noteq> ''*'' \<and> ruleEcosystem \<noteq> ecosystem then False
         else if normalizePackageName (ru_Name rule) \<noteq> name then False
         else let ruleVersion = trim_space (ru_Version rule)
              in ruleVersion = [] \<or> ruleVersion = ''*'' \<or> ruleVersion = version)"

text \<open>The result of a validation is \<open>None\<close>, or the text of the error.\<close>

definition validateDependencyPackage ::
    "dependency_env \<Rightarrow> string \<Rightarrow> dependency_package \<Rightarrow> bool \<Rightarrow> string option" where
  "validateDependencyPackage E ecosystem pkg allowPinnedUnlisted =
     (let name = normalizePackageName (dp_Name pkg); version = trim_space (dp_Version pkg);
          P = de_packagePolicy E
      in if name = [] then Some ''package name is required''
         else if version = [] then Some ''package version is required''
         else if version = ''latest'' \<or> str_contains version ''*'' then Some ''package version must be pinned''
         else case find (\<lambda>r. packageRuleMatches r ecosystem name version) (pp_DeniedPackages P) of
           Some rule \<Rightarrow> Some (''package denied by policy: '' @ ru_Reason rule)
         | None \<Rightarrow>
             if allowPinnedUnlisted then None
             else if pp_DefaultAction P \<noteq> ''deny-unlisted'' then None
             else if list_ex (\<lambda>r. packageRuleMatches r ecosystem name version) (pp_AllowedPackages P) then None
             else Some ''package is not in the managed allowlist'')"

definition package_ecosystem :: "dependency_profile \<Rightarrow> dependency_package \<Rightarrow> string" where
  "package_ecosystem p pkg =
     (let ecosystem = normalizePackageEcosystem (dp_Ecosystem pkg)
      in if ecosystem = [] \<and> length (pr_Languages p) = 1 then normalizeLanguage (hd (pr_Languages p)) else ecosystem)"

definition allow_unlisted :: "dependency_profile \<Rightarrow> bool" where
  "allow_unlisted p \<longleftrightarrow> pr_PublicReusable p \<and> pr_Pinned p \<and> has_prefix (pr_Name p) ''auto-''"

fun validate_packages :: "dependency_env \<Rightarrow> dependency_profile \<Rightarrow> dependency_package list \<Rightarrow> string option" where
  "validate_packages E p [] = None"
| "validate_packages E p (pkg # pkgs) =
     (case validateDependencyPackage E (package_ecosystem p pkg) pkg (allow_unlisted p) of
        Some e \<Rightarrow> Some (''dependency profile '' @ pr_Name p @ '' package '' @ dp_Name pkg @ '' is not allowed: '' @ e)
      | None \<Rightarrow> validate_packages E p pkgs)"

definition ValidateDependencyProfilePackages :: "dependency_env \<Rightarrow> dependency_profile \<Rightarrow> string option" where
  "ValidateDependencyProfilePackages E p = validate_packages E p (pr_Packages p)"

definition ValidateDependencyProfileBuildLimits :: "dependency_env \<Rightarrow> dependency_profile \<Rightarrow> string option" where
  "ValidateDependencyProfileBuildLimits E p =
     (let B = de_buildPolicy E
      in if \<not> bp_Enforced B then None
         else if bp_MaxProfileSizeBytes B > 0 \<and> pr_SizeBytes p > bp_MaxProfileSizeBytes B
         then Some (''dependency profile '' @ pr_Name p @ '' size '' @ show_int (pr_SizeBytes p)
                @ '' exceeds max profile size of '' @ show_int (bp_MaxProfileSizeBytes B) @ '' bytes'')
         else if bp_BuildTimeoutSeconds B \<le> 0 then Some ''dependency profile build timeout must be positive''
         else None)"

definition validated :: "dependency_env \<Rightarrow> dependency_profile \<Rightarrow> string + dependency_profile" where
  "validated E p =
     (case ValidateDependencyProfilePackages E p of
        Some e \<Rightarrow> Inl e
      | None \<Rightarrow> (case ValidateDependencyProfileBuildLimits E p of Some e \<Rightarrow> Inl e | None \<Rightarrow> Inr p))"

definition unpinned :: "string \<Rightarrow> bool" where
  "unpinned version \<longleftrightarrow> version = [] \<or> version = ''latest'' \<or> str_contains version ''*''"

section \<open>Building and loading\<close>

definition normalizeDependencyProfileBuildRequest ::
    "dependency_env \<Rightarrow> build_request \<Rightarrow> string + dependency_profile" where
  "normalizeDependencyProfileBuildRequest E req =
     (let name = to_lower (trim_space (br_Name req));
          scope = normalizeDependencyProfileScope (br_Scope req) (br_OrganizationID req);
          organizationID = trim_space (br_OrganizationID req);
          version = trim_space (br_Version req);
          languages = normalizeDependencyProfileLanguages (br_Languages req);
          baseRuntime = (if trim_space (br_BaseRuntime req) = [] then de_backend E else trim_space (br_BaseRuntime req));
          checksum = trim_space (br_Checksum req);
          artifactChecksum = (if trim_space (br_ArtifactChecksum req) = [] then checksum
            else trim_space (br_ArtifactChecksum req))
      in if \<not> validDependencyProfileName name
         then Inl ''dependency profile name must contain only lowercase letters, numbers, and hyphens''
         else if scope = ''organization'' \<and> organizationID = []
         then Inl ''organization dependency profile requires organization_id''
         else if unpinned version then Inl ''dependency profile version must be pinned''
         else if languages = [] then Inl ''dependency profile must include at least one supported language''
         else if checksum = [] then Inl ''dependency profile checksum is required''
         else if br_SizeBytes req \<le> 0 then Inl ''dependency profile size_bytes must be positive''
         else validated E
           \<lparr>pr_Name = name, pr_Version = version, pr_Status = ''ready'', pr_Enabled = True, pr_OwnerScope = scope,
            pr_Scope = scope, pr_OrganizationID = organizationID, pr_Languages = languages,
            pr_Packages = normalizeDependencyProfilePackages (br_Packages req) languages,
            pr_BaseRuntime = baseRuntime, pr_Checksum = checksum, pr_ArtifactChecksum = artifactChecksum,
            pr_SizeBytes = br_SizeBytes req, pr_Description = trim_space (br_Description req),
            pr_PublicReusable = (br_PublicReusable req \<or> scope = ''global''), pr_Pinned = br_Pinned req\<rparr>)"

definition normalizeCachedDependencyProfile ::
    "dependency_env \<Rightarrow> dependency_profile \<Rightarrow> string + dependency_profile" where
  "normalizeCachedDependencyProfile E p =
     (let name = to_lower (trim_space (pr_Name p));
          version = trim_space (pr_Version p);
          languages = normalizeDependencyProfileLanguages (pr_Languages p);
          status = trim_space (pr_Status p);
          ownerScope = (if trim_space (pr_OwnerScope p) = [] then ''global'' else trim_space (pr_OwnerScope p));
          scope = normalizeDependencyProfileScope (pr_Scope p) (pr_OrganizationID p);
          organizationID = trim_space (pr_OrganizationID p);
          baseRuntime = (if trim_space (pr_BaseRuntime p) = [] then de_backend E else trim_space (pr_BaseRuntime p));
          checksum = trim_space (pr_Checksum p);
          artifactChecksum = (if trim_space (pr_ArtifactChecksum p) = [] then checksum
            else trim_space (pr_ArtifactChecksum p));
          cached = (\<lambda>msg. Inl (''cached dependency profile '' @ name @ msg))
      in if \<not> validDependencyProfileName name
         then Inl ''cached dependency profile name must contain only lowercase letters, numbers, and hyphens''
         else if unpinned version then cached '' version must be pinned''
         else if languages = [] then cached '' must include at least one supported language''
         else if status \<noteq> ''ready'' then cached '' is not ready''
         else if \<not> pr_Enabled p then cached '' is disabled''
         else if scope = ''organization'' \<and> organizationID = [] then cached '' requires organization_id''
         else if checksum = [] then cached '' checksum is required''
         else if pr_SizeBytes p \<le> 0 then cached '' size_bytes must be positive''
         else validated E
           \<lparr>pr_Name = name, pr_Version = version, pr_Status = status, pr_Enabled = True, pr_OwnerScope = ownerScope,
            pr_Scope = scope, pr_OrganizationID = organizationID, pr_Languages = languages,
            pr_Packages = normalizeDependencyProfilePackages (pr_Packages p) languages,
            pr_BaseRuntime = baseRuntime, pr_Checksum = checksum, pr_ArtifactChecksum = artifactChecksum,
            pr_SizeBytes = pr_SizeBytes p, pr_Description = trim_space (pr_Description p),
            pr_PublicReusable = (pr_PublicReusable p \<or> scope = ''global''), pr_Pinned = pr_Pinned p\<rparr>)"

definition PrepareDependencyProfileBuild ::
    "dependency_env \<Rightarrow> build_request \<Rightarrow> build_result \<times> (string + dependency_profile)" where
  "PrepareDependencyProfileBuild E req =
     (let result = \<lparr>bs_BuildID = dependencyProfileBuildID (br_Name req) (br_Version req), bs_Accepted = True,
            bs_Status = ''failed'', bs_Profile = None, bs_Error = []\<rparr>
      in case normalizeDependencyProfileBuildRequest E req of
           Inl e \<Rightarrow> (result\<lparr>bs_Error := e\<rparr>, Inl e)
         | Inr p \<Rightarrow> (result\<lparr>bs_Profile := Some p\<rparr>, Inr p))"

text \<open>The position of the first profile with a given identity.\<close>

fun profile_index :: "(dependency_profile \<Rightarrow> bool) \<Rightarrow> dependency_profile list \<Rightarrow> nat option" where
  "profile_index P [] = None"
| "profile_index P (q # qs) = (if P q then Some 0 else map_option Suc (profile_index P qs))"

text \<open>The result, the error, and the list of profiles after the call.\<close>

definition RegisterDependencyProfile ::
    "dependency_profile \<Rightarrow> build_result \<Rightarrow> dependency_profile list
      \<Rightarrow> build_result \<times> string option \<times> dependency_profile list" where
  "RegisterDependencyProfile p result ps =
     (let ok = result\<lparr>bs_Status := pr_Status p, bs_Profile := Some p\<rparr>
      in case profile_index (\<lambda>existing. dependencyProfileIdentityMatches existing p) ps of
           Some i \<Rightarrow>
             if pr_Enabled (ps ! i) \<and> pr_Status (ps ! i) = ''ready''
             then let e = ''dependency profile already exists: '' @ pr_Name p in (result\<lparr>bs_Error := e\<rparr>, Some e, ps)
             else (ok, None, ps[i := p])
         | None \<Rightarrow> (ok, None, ps @ [p]))"

definition BuildDependencyProfile ::
    "dependency_env \<Rightarrow> build_request \<Rightarrow> dependency_profile list
      \<Rightarrow> build_result \<times> string option \<times> dependency_profile list" where
  "BuildDependencyProfile E req ps =
     (case PrepareDependencyProfileBuild E req of
        (result, Inl e) \<Rightarrow> (result, Some e, ps)
      | (result, Inr p) \<Rightarrow> RegisterDependencyProfile p result ps)"

definition remove_at :: "nat option \<Rightarrow> 'a list \<Rightarrow> 'a list" where
  "remove_at i xs = (case i of None \<Rightarrow> xs | Some i \<Rightarrow> take i xs @ drop (Suc i) xs)"

definition is_global :: "dependency_profile \<Rightarrow> bool" where
  "is_global p \<longleftrightarrow> normalizeDependencyProfileScope (pr_Scope p) (pr_OrganizationID p) = ''global''"

definition RemoveDependencyProfile :: "string \<Rightarrow> dependency_profile list \<Rightarrow> dependency_profile list" where
  "RemoveDependencyProfile name0 ps =
     (let name = trim_space name0
      in if name = [] then ps else remove_at (profile_index (\<lambda>p. pr_Name p = name \<and> is_global p) ps) ps)"

definition RemoveDependencyProfileRef :: "dependency_profile \<Rightarrow> dependency_profile list \<Rightarrow> dependency_profile list" where
  "RemoveDependencyProfileRef target ps =
     remove_at (profile_index (\<lambda>p. dependencyProfileIdentityMatches p target) ps) ps"

fun normalize_cached :: "dependency_env \<Rightarrow> string list \<Rightarrow> dependency_profile list \<Rightarrow> string + dependency_profile list" where
  "normalize_cached E seen [] = Inr []"
| "normalize_cached E seen (p # ps) =
     (case normalizeCachedDependencyProfile E p of
        Inl e \<Rightarrow> Inl e
      | Inr item \<Rightarrow>
          let key = dependencyProfileIdentityKey item
          in if key \<in> set seen then Inl (''duplicate cached dependency profile: '' @ pr_Name item)
             else case normalize_cached E (key # seen) ps of Inl e \<Rightarrow> Inl e | Inr items \<Rightarrow> Inr (item # items))"

text \<open>The map \<open>existing\<close> of the source holds the keys of the current list at every turn of the loop.\<close>

fun merge_profiles :: "dependency_profile list \<Rightarrow> dependency_profile list \<Rightarrow> dependency_profile list" where
  "merge_profiles [] ps = ps"
| "merge_profiles (q # qs) ps =
     (case profile_index (\<lambda>p. dependencyProfileIdentityMatches p q) ps of
        Some i \<Rightarrow> merge_profiles qs (ps[i := q])
      | None \<Rightarrow> merge_profiles qs (ps @ [q]))"

definition LoadDependencyProfiles ::
    "dependency_env \<Rightarrow> dependency_profile list \<Rightarrow> dependency_profile list \<Rightarrow> string option \<times> dependency_profile list" where
  "LoadDependencyProfiles E cached ps =
     (case normalize_cached E [] cached of Inl e \<Rightarrow> (Some e, ps) | Inr items \<Rightarrow> (None, merge_profiles items ps))"

section \<open>Listing and selecting\<close>

definition profileVisibleToOrganization :: "dependency_profile \<Rightarrow> string \<Rightarrow> bool" where
  "profileVisibleToOrganization p organizationID \<longleftrightarrow>
     (let scope = normalizeDependencyProfileScope (pr_Scope p) (pr_OrganizationID p)
      in if scope = ''global'' then True
         else if scope = ''organization'' then organizationID \<noteq> [] \<and> trim_space (pr_OrganizationID p) = organizationID
         else False)"

text \<open>The field \<open>profiles\<close> of the catalog; its other fields are constants.\<close>

definition DependencyCatalogForOrganization ::
    "string \<Rightarrow> string \<Rightarrow> dependency_profile list \<Rightarrow> dependency_profile list" where
  "DependencyCatalogForOrganization language organizationID ps =
     (let org = trim_space organizationID
      in filter (\<lambda>p. profileVisibleToOrganization p org
           \<and> (language = [] \<or> normalizeLanguage language \<in> set (pr_Languages p))) ps)"

definition validateSelectableDependencyProfile ::
    "dependency_env \<Rightarrow> dependency_profile \<Rightarrow> string \<Rightarrow> string + dependency_profile" where
  "validateSelectableDependencyProfile E p name =
     (if \<not> pr_Enabled p \<or> pr_Status p \<noteq> ''ready'' then Inl (''dependency profile is not enabled: '' @ name)
      else validated E (if trim_space (pr_ArtifactChecksum p) = [] then p\<lparr>pr_ArtifactChecksum := pr_Checksum p\<rparr> else p))"

definition normalizeDependencyProfile ::
    "dependency_env \<Rightarrow> dependency_profile list \<Rightarrow> string \<Rightarrow> string \<Rightarrow> string + dependency_profile" where
  "normalizeDependencyProfile E ps v organizationID0 =
     (let name = (if trim_space v = [] then ''stdlib'' else trim_space v);
          organizationID = trim_space organizationID0
      in case find (\<lambda>p. pr_Name p = name
             \<and> normalizeDependencyProfileScope (pr_Scope p) (pr_OrganizationID p) = ''organization''
             \<and> organizationID \<noteq> [] \<and> trim_space (pr_OrganizationID p) = organizationID) ps of
           Some p \<Rightarrow> validateSelectableDependencyProfile E p name
         | None \<Rightarrow>
             (case find (\<lambda>p. pr_Name p = name \<and> is_global p) ps of
                Some p \<Rightarrow> validateSelectableDependencyProfile E p name
              | None \<Rightarrow> Inl (''unsupported dependency profile: '' @ name)))"

definition validateDependencyProfileLanguage :: "dependency_profile \<Rightarrow> string \<Rightarrow> string + dependency_profile" where
  "validateDependencyProfileLanguage p language =
     (let l = normalizeLanguage language
      in if l \<noteq> [] \<and> l \<notin> set (pr_Languages p)
         then Inl (''dependency profile '' @ pr_Name p @ '' does not support language: '' @ l) else Inr p)"

definition ValidateDependencyProfileForOrganizationAndLanguage ::
    "dependency_env \<Rightarrow> dependency_profile list \<Rightarrow> string \<Rightarrow> string \<Rightarrow> string \<Rightarrow> string + dependency_profile" where
  "ValidateDependencyProfileForOrganizationAndLanguage E ps v organizationID language =
     (case normalizeDependencyProfile E ps v organizationID of
        Inl e \<Rightarrow> Inl e
      | Inr p \<Rightarrow> validateDependencyProfileLanguage p language)"

definition ValidateDependencyProfileForLanguage ::
    "dependency_env \<Rightarrow> dependency_profile list \<Rightarrow> string \<Rightarrow> string \<Rightarrow> string + dependency_profile" where
  "ValidateDependencyProfileForLanguage E ps v language =
     ValidateDependencyProfileForOrganizationAndLanguage E ps v [] language"

end
