(* ===== verification/Sandbox_Policy.thy ===== *)
theory Sandbox_Policy
  imports Sandbox_Dependencies
begin

text \<open>
  The policy service of the sandbox (\<open>policy/service.go\<close>): the built-in profiles and policies,
  the decision on the creation and the renewal of a sandbox, and the limits on commands,
  templates, files and lifetimes, with the arithmetic of 64-bit integers written out.
\<close>

section \<open>Types\<close>

record network_profile =
  np_Name :: string
  np_Default :: bool
  np_NetworkEnabled :: bool
  np_AllowedHosts :: "string list"
  np_AllowedPorts :: "int list"
  np_AllowedProtocols :: "string list"
  np_DeniedCIDRRanges :: "string list"
  np_DNSBehavior :: string
  np_MaxRequestDurationMS :: int
  np_RequiresEnforcement :: bool

record create_decision =
  cd_RuntimeProfile :: runtime_profile
  cd_TTL :: duration
  cd_NetworkEnabled :: bool
  cd_NetworkPolicy :: string
  cd_DependencyProfile :: string
  cd_DependencyProfileVersion :: string
  cd_DependencyArtifactChecksum :: string
  cd_EffectiveLimits :: resource_limits

record command_limits =
  cl_Profile :: string
  cl_Timeout :: duration
  cl_StdoutLimitBytes :: int
  cl_StderrLimitBytes :: int
  cl_MaxStdinBytes :: int
  cl_MaxRequestBytes :: int
  cl_MaxResultJSONBytes :: int
  cl_Stateless :: bool
  cl_NetworkAllowed :: bool

record template_limits =
  tl_Profile :: string
  tl_Engine :: string
  tl_Timeout :: duration
  tl_TimeoutMS :: int
  tl_OutputLimitBytes :: int
  tl_MaxTemplateBytes :: int
  tl_MaxVariableCount :: int
  tl_MaxVariableDepth :: int
  tl_MaxVariableStringBytes :: int

record service =
  sv_config :: config
  sv_dependencyProfiles :: "dependency_profile list"
  sv_packagePolicy :: package_policy
  sv_buildPolicy :: build_policy
  sv_networkProfiles :: "network_profile list"
  sv_commandProfiles :: "(string, command_limits) gomap"
  sv_templateProfiles :: "(string, template_limits) gomap"

section \<open>The built-in policies\<close>

definition defaultDeniedCIDRRanges :: "string list" where
  "defaultDeniedCIDRRanges =
     [''0.0.0.0/8'', ''10.0.0.0/8'', ''100.64.0.0/10'', ''127.0.0.0/8'', ''169.254.0.0/16'', ''172.16.0.0/12'',
      ''192.0.0.0/24'', ''192.168.0.0/16'', ''198.18.0.0/15'', ''::1/128'', ''fc00::/7'', ''fe80::/10'']"

definition managed :: "string \<Rightarrow> string \<Rightarrow> dependency_package" where
  "managed ecosystem name = \<lparr>dp_Name = name, dp_Version = ''managed'', dp_Ecosystem = ecosystem\<rparr>"

text \<open>A profile of the service itself: global, and ready exactly when it is enabled.\<close>

definition builtin ::
    "string \<Rightarrow> string \<Rightarrow> bool \<Rightarrow> string list \<Rightarrow> dependency_package list \<Rightarrow> string \<Rightarrow> string \<Rightarrow> int \<Rightarrow> string \<Rightarrow> dependency_profile" where
  "builtin name version enabled languages packages baseRuntime checksum bytes description =
     \<lparr>pr_Name = name, pr_Version = version, pr_Status = (if enabled then ''ready'' else ''disabled''),
      pr_Enabled = enabled, pr_OwnerScope = ''global'', pr_Scope = ''global'', pr_OrganizationID = [],
      pr_Languages = languages, pr_Packages = packages, pr_BaseRuntime = baseRuntime, pr_Checksum = checksum,
      pr_ArtifactChecksum = [], pr_SizeBytes = bytes, pr_Description = description, pr_PublicReusable = False,
      pr_Pinned = False\<rparr>"

definition builtin_profiles :: "dependency_profile list" where
  "builtin_profiles =
     [
      builtin ''stdlib'' ''2026.05.01'' True [''python3'', ''nodejs''] [] ''preview-process'' ''profile:stdlib:2026.05.01'' (32 * 1024 * 1024)
        ''Base language runtime with only built-in packages.'',
      builtin ''workflow-safe'' ''2026.05.01'' True [''python3''] [] ''preview-process'' ''profile:workflow-safe:2026.05.01'' (64 * 1024 * 1024)
        ''Managed Python profile for deterministic workflow execution.'',
      builtin ''node-basic'' ''2026.05.01'' True [''nodejs''] [] ''preview-process'' ''profile:node-basic:2026.05.01'' (96 * 1024 * 1024)
        ''Managed Node.js profile for script-style automation tasks.'',
      builtin ''agent-tools'' ''2026.05.01'' True [''python3'', ''nodejs''] [] ''preview-process'' ''profile:agent-tools:2026.05.01'' (128 * 1024 * 1024)
        ''Broader operator-managed profile for internal agent tooling.'',
      builtin ''skill-office'' ''2026.05.31'' False [''python3'', ''nodejs''] [managed ''python3'' ''office-tools'', managed ''nodejs'' ''office-tools''] ''linux-secure'' ''profile-source:skill-office:2026.05.31'' (512 * 1024 * 1024)
        ''Reserved managed document automation profile that is not available until build artifacts are verified.'',
      builtin ''python-data-preview'' ''2026.05.01'' False [''python3''] [managed '''' ''data-tools''] ''preview-process'' ''profile:python-data-preview:2026.05.01'' (256 * 1024 * 1024)
        ''Reserved managed profile that is not available for sandbox creation.'']"

definition builtin_packages :: package_policy where
  "builtin_packages =
     \<lparr>pp_Mode = ''managed-build-only'', pp_Enforced = True, pp_DefaultAction = ''deny-unlisted'',
      pp_AllowedPackages =
        [\<lparr>ru_Ecosystem = ''python3'', ru_Name = ''data-tools'', ru_Version = ''managed'', ru_Reason = ''Reserved managed profile bundle.''\<rparr>,
         \<lparr>ru_Ecosystem = ''python3'', ru_Name = ''office-tools'', ru_Version = ''managed'', ru_Reason = ''Reserved managed profile bundle.''\<rparr>,
         \<lparr>ru_Ecosystem = ''nodejs'', ru_Name = ''office-tools'', ru_Version = ''managed'', ru_Reason = ''Reserved managed profile bundle.''\<rparr>],
      pp_DeniedPackages =
        [\<lparr>ru_Ecosystem = ''*'', ru_Name = ''remote-url'', ru_Version = [], ru_Reason = ''Packages must come from operator-managed lockfiles.''\<rparr>,
         \<lparr>ru_Ecosystem = ''*'', ru_Name = ''local-path'', ru_Version = [], ru_Reason = ''Packages must be built outside request execution.''\<rparr>,
         \<lparr>ru_Ecosystem = ''*'', ru_Name = ''latest'', ru_Version = [], ru_Reason = ''Unpinned package versions are not reproducible.''\<rparr>]\<rparr>"

definition builtin_network ::
    "string \<Rightarrow> bool \<Rightarrow> bool \<Rightarrow> int list \<Rightarrow> string list \<Rightarrow> string \<Rightarrow> int \<Rightarrow> bool \<Rightarrow> network_profile" where
  "builtin_network name dflt enabled ports protocols dns ms enforcement =
     \<lparr>np_Name = name, np_Default = dflt, np_NetworkEnabled = enabled, np_AllowedHosts = [], np_AllowedPorts = ports,
      np_AllowedProtocols = protocols, np_DeniedCIDRRanges = defaultDeniedCIDRRanges, np_DNSBehavior = dns,
      np_MaxRequestDurationMS = ms, np_RequiresEnforcement = enforcement\<rparr>"

definition builtin_networks :: "network_profile list" where
  "builtin_networks =
     [builtin_network ''deny-by-default'' True False [] [] ''disabled'' 0 False,
      builtin_network ''workflow-safe'' False True [443] [''https''] ''resolve-and-check-denied-ranges'' 5000 True,
      builtin_network ''interactive-preview'' False True [80, 443] [''http'', ''https''] ''resolve-and-check-denied-ranges'' 10000 True,
      builtin_network ''agent-session'' False True [80, 443, 3000, 2670, 3101] [''http'', ''https'']
        ''resolve-and-check-denied-ranges'' 30000 False]"

definition builtin_commands :: "(string, command_limits) gomap" where
  "builtin_commands =
     [(''code-short'', \<lparr>cl_Profile = ''code-short'', cl_Timeout = 5 * Second, cl_StdoutLimitBytes = 64 * 1024,
        cl_StderrLimitBytes = 64 * 1024, cl_MaxStdinBytes = 64 * 1024, cl_MaxRequestBytes = 128 * 1024,
        cl_MaxResultJSONBytes = 64 * 1024, cl_Stateless = True, cl_NetworkAllowed = False\<rparr>),
      (''skill-python'', \<lparr>cl_Profile = ''skill-python'', cl_Timeout = 30 * Second, cl_StdoutLimitBytes = 1024 * 1024,
        cl_StderrLimitBytes = 1024 * 1024, cl_MaxStdinBytes = 1024 * 1024, cl_MaxRequestBytes = 4 * 1024 * 1024,
        cl_MaxResultJSONBytes = 256 * 1024, cl_Stateless = False, cl_NetworkAllowed = False\<rparr>),
      (''skill-node'', \<lparr>cl_Profile = ''skill-node'', cl_Timeout = 30 * Second, cl_StdoutLimitBytes = 1024 * 1024,
        cl_StderrLimitBytes = 1024 * 1024, cl_MaxStdinBytes = 1024 * 1024, cl_MaxRequestBytes = 4 * 1024 * 1024,
        cl_MaxResultJSONBytes = 256 * 1024, cl_Stateless = False, cl_NetworkAllowed = False\<rparr>)]"

definition builtin_templates :: "(string, template_limits) gomap" where
  "builtin_templates =
     [(''template-short'', \<lparr>tl_Profile = ''template-short'', tl_Engine = ''go-text'', tl_Timeout = 2 * Second,
        tl_TimeoutMS = 2000, tl_OutputLimitBytes = 64 * 1024, tl_MaxTemplateBytes = 64 * 1024, tl_MaxVariableCount = 128,
        tl_MaxVariableDepth = 8, tl_MaxVariableStringBytes = 16 * 1024\<rparr>)]"

definition NewService :: "config \<Rightarrow> service" where
  "NewService cfg =
     \<lparr>sv_config = cfg, sv_dependencyProfiles = builtin_profiles, sv_packagePolicy = builtin_packages,
      sv_buildPolicy = \<lparr>bp_Mode = ''operator-managed'', bp_Enforced = True,
        bp_MaxProfileSizeBytes = cf_MaxDependencyProfileSizeBytes cfg,
        bp_BuildTimeoutSeconds = cf_DependencyProfileBuildTimeoutSeconds cfg, bp_BuildsAllowedDuringRuntime = False\<rparr>,
      sv_networkProfiles = builtin_networks, sv_commandProfiles = builtin_commands,
      sv_templateProfiles = builtin_templates\<rparr>"

definition service_env :: "service \<Rightarrow> dependency_env" where
  "service_env s = \<lparr>de_packagePolicy = sv_packagePolicy s, de_buildPolicy = sv_buildPolicy s,
     de_backend = RuntimeBackendName (sv_config s)\<rparr>"

section \<open>Limits\<close>

definition MaxFileSizeBytes :: "service \<Rightarrow> int" where
  "MaxFileSizeBytes s =
     (if cf_MaxFileSizeKB (sv_config s) \<le> 0 then 256 * 1024 else int64 (cf_MaxFileSizeKB (sv_config s) * 1024))"

definition secureRuntimeResourceLimitsEnforced :: "service \<Rightarrow> bool" where
  "secureRuntimeResourceLimitsEnforced s \<longleftrightarrow>
     (let c = sv_config s
      in RuntimeBackendName c = ''linux-secure'' \<and> cf_SecureRuntimeCPUSeconds c > 0
         \<and> cf_SecureRuntimeMemoryBytes c > 0 \<and> cf_SecureRuntimeProcessLimit c > 0
         \<and> cf_SecureRuntimeOpenFileLimit c > 0)"

definition EffectiveLimits :: "service \<Rightarrow> resource_limits" where
  "EffectiveLimits s =
     (let c = sv_config s;
          maxFileSizeBytes = MaxFileSizeBytes s;
          maxFileSizeKB = (if cf_MaxFileSizeKB c \<le> 0 then 256 else cf_MaxFileSizeKB c);
          maxArtifactManifestFiles = (if cf_MaxArtifactManifestFiles c \<le> 0 then 100 else cf_MaxArtifactManifestFiles c);
          maxArtifactManifestBytes =
            (if cf_MaxArtifactManifestBytes c \<le> 0 then int64 (maxFileSizeBytes * 256) else cf_MaxArtifactManifestBytes c)
      in
      \<lparr>rl_RuntimeBackend = RuntimeBackendName c,
       rl_NetworkPolicyEnforced = NetworkPolicyEnforced c,
       rl_MaxWorkers = cf_MaxWorkers c,
       rl_MaxActiveSandboxes = cf_MaxActive c,
       rl_MaxConcurrentExecutions = cf_MaxConcurrentExecutions c,
       rl_MaxConcurrentExecutionsPerProfile = cf_MaxConcurrentExecutionsPerProfile c,
       rl_MaxActiveSandboxesPerOrganization = cf_MaxActivePerOrganization c,
       rl_MaxConcurrentExecutionsPerOrganization = cf_MaxConcurrentExecutionsPerOrganization c,
       rl_MaxExecutionsPerMinutePerOrganization = cf_MaxExecutionsPerMinutePerOrganization c,
       rl_MaxNetworkRequestsPerMinutePerOrganization = cf_MaxNetworkRequestsPerMinutePerOrganization c,
       rl_MaxQueuedExecutionsPerOrganization = cf_MaxQueuedExecutionsPerOrganization c,
       rl_MaxWorkspaceFiles = cf_MaxWorkspaceFiles c,
       rl_MaxWorkspaceBytes = cf_MaxWorkspaceBytes c,
       rl_MaxWorkspaceBytesPerOrganization = cf_MaxWorkspaceBytesPerOrganization c,
       rl_QueueTimeoutMS = cf_QueueTimeoutMS c,
       rl_DefaultTimeoutSeconds = cf_TimeoutSeconds c,
       rl_DefaultExecutionTimeoutMS = int64 (cf_TimeoutSeconds c * 1000),
       rl_OutputLimitKB = cf_OutputLimitKB c,
       rl_MaxCommandTimeoutMS = int64 (cf_CommandTimeout c * 1000),
       rl_MaxCommandTimeoutSeconds = cf_CommandTimeout c,
       rl_OutputLimitBytes = int64 (cf_OutputLimitKB c * 1024),
       rl_MaxFileSizeKB = maxFileSizeKB,
       rl_MaxFileSizeBytes = maxFileSizeBytes,
       rl_MaxArchiveFiles = 256,
       rl_MaxArchiveTotalBytes = int64 (maxFileSizeBytes * 256),
       rl_MaxArtifactManifestFiles = maxArtifactManifestFiles,
       rl_MaxArtifactManifestTotalBytes = maxArtifactManifestBytes,
       rl_MaxArtifactManifestBytes = maxArtifactManifestBytes,
       rl_MaxArtifactBytesPerOrganization = cf_MaxArtifactBytesPerOrganization c,
       rl_MaxDependencyProfilesPerOrganization = cf_MaxDependencyProfilesPerOrganization c,
       rl_MaxDependencyProfileSizeBytes = cf_MaxDependencyProfileSizeBytes c,
       rl_DependencyProfileBuildTimeoutSeconds = cf_DependencyProfileBuildTimeoutSeconds c,
       rl_SecureRuntimeCPUSeconds = cf_SecureRuntimeCPUSeconds c,
       rl_SecureRuntimeMemoryBytes = cf_SecureRuntimeMemoryBytes c,
       rl_SecureRuntimeProcessLimit = cf_SecureRuntimeProcessLimit c,
       rl_SecureRuntimeOpenFileLimit = cf_SecureRuntimeOpenFileLimit c,
       rl_SessionTTLSecs = cf_SessionTTL c,
       rl_SessionTTLSeconds = cf_SessionTTL c,
       rl_InteractiveTTLSecs = cf_InteractiveTTL c,
       rl_InteractiveTTLSeconds = cf_InteractiveTTL c,
       rl_MaxCompatTTLSecs = 300,
       rl_MaxCompatTTLSeconds = 300,
       rl_DependencyUpdatesLocked = True,
       rl_WorkspaceFileLimitEnforced = (cf_MaxWorkspaceFiles c > 0),
       rl_WorkspaceByteLimitEnforced = (cf_MaxWorkspaceBytes c > 0),
       rl_OrganizationWorkspaceByteLimitEnforced = (cf_MaxWorkspaceBytesPerOrganization c > 0),
       rl_OrganizationArtifactByteLimitEnforced = (cf_MaxArtifactBytesPerOrganization c > 0),
       rl_OrganizationDependencyProfileLimitEnforced = (cf_MaxDependencyProfilesPerOrganization c > 0),
       rl_SecureRuntimeResourceLimitsEnforced = secureRuntimeResourceLimitsEnforced s\<rparr>)"

definition NormalizeCommandTimeout :: "service \<Rightarrow> int \<Rightarrow> duration" where
  "NormalizeCommandTimeout s timeoutSeconds =
     (let limit = cf_CommandTimeout (sv_config s);
          t = (if timeoutSeconds \<le> 0 then limit else timeoutSeconds);
          t = (if limit > 0 \<and> t > limit then limit else t)
      in times t Second)"

definition at_least_one :: "int \<Rightarrow> int \<Rightarrow> int" where
  "at_least_one dflt v = (if v \<le> 0 then dflt else v)"

definition NormalizeCommandLimits ::
    "service \<Rightarrow> string \<Rightarrow> int \<Rightarrow> int \<Rightarrow> int \<Rightarrow> int \<Rightarrow> string + command_limits" where
  "NormalizeCommandLimits s profile timeoutSeconds timeoutMS stdoutLimitKB stderrLimitKB =
     (let name = (if trim_space profile = [] then ''skill-python'' else trim_space profile)
      in case map_of (sv_commandProfiles s) name of
           None \<Rightarrow> Inl (''unsupported command profile: '' @ name)
         | Some limits \<Rightarrow>
             let timeout = (if timeoutMS > 0 then times timeoutMS Millisecond
                   else if timeoutSeconds > 0 then times timeoutSeconds Second else cl_Timeout limits);
                 maxTimeout = times (cf_CommandTimeout (sv_config s)) Second;
                 timeout = (if maxTimeout > 0 \<and> timeout > maxTimeout then maxTimeout else timeout);
                 stdout = (if stdoutLimitKB > 0 then int64 (stdoutLimitKB * 1024) else cl_StdoutLimitBytes limits);
                 stderr = (if stderrLimitKB > 0 then int64 (stderrLimitKB * 1024) else cl_StderrLimitBytes limits);
                 maxOutputBytes = int64 (cf_OutputLimitKB (sv_config s) * 1024);
                 stdout = (if maxOutputBytes > 0 \<and> stdout > maxOutputBytes then maxOutputBytes else stdout);
                 stderr = (if maxOutputBytes > 0 \<and> stderr > maxOutputBytes then maxOutputBytes else stderr)
             in Inr (limits
                  \<lparr>cl_Timeout := at_least_one (5 * Second) timeout,
                   cl_StdoutLimitBytes := at_least_one (64 * 1024) stdout,
                   cl_StderrLimitBytes := at_least_one (64 * 1024) stderr,
                   cl_MaxResultJSONBytes := at_least_one (64 * 1024) (cl_MaxResultJSONBytes limits),
                   cl_MaxRequestBytes := at_least_one (128 * 1024) (cl_MaxRequestBytes limits)\<rparr>))"

definition NormalizeTemplateLimits ::
    "service \<Rightarrow> string \<Rightarrow> string \<Rightarrow> int \<Rightarrow> int \<Rightarrow> string + template_limits" where
  "NormalizeTemplateLimits s profile engine timeoutMS outputLimitKB =
     (if timeoutMS < 0 then Inl ''template timeout_ms must be non-negative''
      else if outputLimitKB < 0 then Inl ''template output_limit_kb must be non-negative''
      else let name = (if trim_space profile = [] then ''template-short'' else trim_space profile)
      in case map_of (sv_templateProfiles s) name of
           None \<Rightarrow> Inl (''unsupported template profile: '' @ name)
         | Some limits \<Rightarrow>
             let normalizedEngine = (if trim_space engine = [] then tl_Engine limits else trim_space engine)
             in if normalizedEngine \<noteq> tl_Engine limits then Inl (''unsupported template engine: '' @ normalizedEngine)
                else
                  let requested = times timeoutMS Millisecond;
                      limits = (if timeoutMS > 0 \<and> requested < tl_Timeout limits
                        then limits\<lparr>tl_Timeout := requested, tl_TimeoutMS := timeoutMS\<rparr> else limits);
                      bytes = int64 (outputLimitKB * 1024)
                  in Inr (if outputLimitKB > 0 \<and> bytes < tl_OutputLimitBytes limits
                          then limits\<lparr>tl_OutputLimitBytes := bytes\<rparr> else limits))"

text \<open>\<open>%q\<close> of a name without characters that Go escapes.\<close>

definition quoted :: "string \<Rightarrow> string" where
  "quoted s = [byte 34] @ s @ [byte 34]"

section \<open>Creating and renewing\<close>

definition maxTTL :: "service \<Rightarrow> runtime_profile \<Rightarrow> duration" where
  "maxTTL s profile =
     (if profile = RuntimeInteractive then times (cf_InteractiveTTL (sv_config s)) Second
      else if profile = RuntimeLite then 5 * Minute
      else times (cf_SessionTTL (sv_config s)) Second)"

definition normalizeTTL :: "service \<Rightarrow> runtime_profile \<Rightarrow> int \<Rightarrow> duration" where
  "normalizeTTL s profile ttlSeconds =
     (let limit = maxTTL s profile
      in if ttlSeconds \<le> 0 then limit
         else let requested = times ttlSeconds Second in if requested > limit then limit else requested)"

definition normalizeProfile :: "string \<Rightarrow> string + runtime_profile" where
  "normalizeProfile profile =
     (let p = trim_space profile
      in if p = [] \<or> p = RuntimeSession then Inr RuntimeSession
         else if p = RuntimeInteractive then Inr RuntimeInteractive
         else if p = RuntimeLite then Inr RuntimeLite
         else Inl ''unsupported runtime profile'')"

definition networkProfile :: "service \<Rightarrow> string \<Rightarrow> network_profile option" where
  "networkProfile s policyName = find (\<lambda>item. np_Name item = policyName) (sv_networkProfiles s)"

definition normalizeNetworkPolicy :: "service \<Rightarrow> runtime_profile \<Rightarrow> string \<Rightarrow> string + string" where
  "normalizeNetworkPolicy s profile v =
     (let policyName = trim_space v
      in if policyName = []
         then Inr (if profile = RuntimeInteractive then ''interactive-preview'' else ''deny-by-default'')
         else case networkProfile s policyName of
           Some item \<Rightarrow>
             if profile = RuntimeSession \<and> policyName = ''interactive-preview''
             then Inl ''interactive-preview network policy is only valid for interactive sandboxes''
             else Inr policyName
         | None \<Rightarrow> Inl (''unsupported network policy: '' @ policyName))"

definition networkPolicyAllowsEgress :: "service \<Rightarrow> string \<Rightarrow> bool" where
  "networkPolicyAllowsEgress s policyName \<longleftrightarrow>
     (case networkProfile s policyName of Some item \<Rightarrow> np_NetworkEnabled item | None \<Rightarrow> False)"

definition networkPolicyRequiresEnforcement :: "service \<Rightarrow> string \<Rightarrow> bool" where
  "networkPolicyRequiresEnforcement s policyName \<longleftrightarrow>
     (case networkProfile s policyName of Some item \<Rightarrow> np_RequiresEnforcement item | None \<Rightarrow> True)"

definition active_limit_error :: "int \<Rightarrow> int \<Rightarrow> limit_error" where
  "active_limit_error limit active =
     \<lparr>le_Code = ''active_sandbox_limit_exceeded'', le_Limit = ''max_active_sandboxes'', le_Maximum = limit,
      le_Actual = int64 (active + 1), le_Details = [(''active_sandboxes'', VInt Kint active)]\<rparr>"

definition organization_limit_error :: "int \<Rightarrow> int \<Rightarrow> string \<Rightarrow> limit_error" where
  "organization_limit_error limit active organizationID =
     \<lparr>le_Code = ''organization_active_sandbox_limit_exceeded'', le_Limit = ''max_active_sandboxes_per_organization'',
      le_Maximum = limit, le_Actual = int64 (active + 1),
      le_Details = [(''organization_id'', VString organizationID), (''active_sandboxes'', VInt Kint active)]\<rparr>"

definition NormalizeCreate ::
    "service \<Rightarrow> string \<Rightarrow> int \<Rightarrow> bool \<Rightarrow> string \<Rightarrow> string \<Rightarrow> int \<Rightarrow> string \<Rightarrow> int \<Rightarrow> sb_error + create_decision" where
  "NormalizeCreate s profile ttlSeconds networkEnabled networkPolicy dependencyProfile activeCount organizationID
     organizationActiveCount =
     (case normalizeProfile profile of
        Inl e \<Rightarrow> Inl (Message e)
      | Inr runtimeProfile \<Rightarrow>
      case normalizeNetworkPolicy s runtimeProfile networkPolicy of
        Inl e \<Rightarrow> Inl (Message e)
      | Inr policyName \<Rightarrow>
      case normalizeDependencyProfile (service_env s) (sv_dependencyProfiles s) dependencyProfile organizationID of
        Inl e \<Rightarrow> Inl (Message e)
      | Inr dependency \<Rightarrow>
          if networkEnabled \<and> \<not> networkPolicyAllowsEgress s policyName
          then Inl (Message ''the selected network policy does not allow outbound network access'')
          else if networkEnabled \<and> networkPolicyRequiresEnforcement s policyName \<and> \<not> NetworkPolicyEnforced (sv_config s)
          then Inl (Message (''runtime backend '' @ quoted (RuntimeBackendName (sv_config s)) @ '' does not enforce network policy''))
          else if cf_MaxActive (sv_config s) > 0 \<and> activeCount \<ge> cf_MaxActive (sv_config s)
          then Inl (Limit (active_limit_error (cf_MaxActive (sv_config s)) activeCount))
          else if organizationID \<noteq> [] \<and> cf_MaxActivePerOrganization (sv_config s) > 0
            \<and> organizationActiveCount \<ge> cf_MaxActivePerOrganization (sv_config s)
          then Inl (Limit (organization_limit_error (cf_MaxActivePerOrganization (sv_config s)) organizationActiveCount
                 organizationID))
          else Inr
            \<lparr>cd_RuntimeProfile = runtimeProfile, cd_TTL = normalizeTTL s runtimeProfile ttlSeconds,
             cd_NetworkEnabled = networkEnabled, cd_NetworkPolicy = policyName,
             cd_DependencyProfile = pr_Name dependency, cd_DependencyProfileVersion = pr_Version dependency,
             cd_DependencyArtifactChecksum =
               (if pr_ArtifactChecksum dependency \<noteq> [] \<and> pr_ArtifactChecksum dependency \<noteq> pr_Checksum dependency
                then pr_ArtifactChecksum dependency else []),
             cd_EffectiveLimits = EffectiveLimits s\<rparr>)"

definition NormalizeRenew :: "service \<Rightarrow> runtime_profile \<Rightarrow> int \<Rightarrow> string + duration" where
  "NormalizeRenew s profile ttlSeconds =
     (case normalizeProfile profile of Inl e \<Rightarrow> Inl e | Inr _ \<Rightarrow> Inr (normalizeTTL s profile ttlSeconds))"

definition ValidateCodeExecution :: "service \<Rightarrow> sandbox \<Rightarrow> bool \<Rightarrow> string option" where
  "ValidateCodeExecution s box enableNetwork =
     (if enableNetwork \<and> \<not> sb_NetworkEnabled box then Some ''network access is disabled for this sandbox''
      else if enableNetwork \<and> \<not> networkPolicyAllowsEgress s (sb_NetworkPolicy box)
      then Some (''network policy '' @ quoted (sb_NetworkPolicy box) @ '' does not allow outbound access'')
      else None)"

definition ValidateCommandProfileNetwork :: "command_limits \<Rightarrow> bool \<Rightarrow> string option" where
  "ValidateCommandProfileNetwork limits enableNetwork =
     (if enableNetwork \<and> \<not> cl_NetworkAllowed limits
      then Some (''network access is disabled for command profile: '' @ cl_Profile limits) else None)"

end
