(* ===== verification/Sandbox_Admission.thy ===== *)
theory Sandbox_Admission
  imports Sandbox_Policy Transition_System
begin

text \<open>
  The admission of executions (\<open>executor/service.go\<close>): limits on the number of executions of the
  service, of a profile and of an organisation, a queue for each organisation, and a channel that
  is closed and replaced whenever something changes. The calls run concurrently; a critical
  section under \<open>executionMu\<close> is one step, and so is the return from a \<open>select\<close>.
\<close>

section \<open>Counters\<close>

text \<open>A missing entry of a Go map of numbers reads as zero.\<close>

definition counter :: "(string, int) gomap \<Rightarrow> string \<Rightarrow> int" where
  "counter m k = (case map_of m k of Some n \<Rightarrow> n | None \<Rightarrow> 0)"

definition decrement :: "string \<Rightarrow> (string, int) gomap \<Rightarrow> (string, int) gomap" where
  "decrement k m = (let n = counter m k - 1 in if n \<le> 0 then AList.delete k m else AList.update k n m)"

record admission =
  ad_activeExecutions :: int
  ad_byProfile :: "(string, int) gomap"
  ad_byOrganization :: "(string, int) gomap"
  ad_queued :: "(string, int) gomap"
  ad_changed :: nat

text \<open>
  The channel \<open>executionChanged\<close> is a number: the channels that were closed have a smaller one.
\<close>

definition releaseQueuedOrganizationExecutionLocked :: "string \<Rightarrow> admission \<Rightarrow> admission" where
  "releaseQueuedOrganizationExecutionLocked org a = a\<lparr>ad_queued := decrement org (ad_queued a)\<rparr>"

definition notifyExecutionChangedLocked :: "admission \<Rightarrow> admission" where
  "notifyExecutionChangedLocked a = a\<lparr>ad_changed := Suc (ad_changed a)\<rparr>"

definition unqueue :: "bool \<Rightarrow> string \<Rightarrow> admission \<Rightarrow> admission" where
  "unqueue queued org a =
     (if queued then notifyExecutionChangedLocked (releaseQueuedOrganizationExecutionLocked org a) else a)"

section \<open>The critical section\<close>

datatype admission_outcome = Admitted | Refused limit_error | Wait nat int

definition admission_error :: "string \<Rightarrow> string \<Rightarrow> int \<Rightarrow> int \<Rightarrow> dict \<Rightarrow> limit_error" where
  "admission_error code limit maximum actual details =
     \<lparr>le_Code = code, le_Limit = limit, le_Maximum = maximum, le_Actual = actual, le_Details = details\<rparr>"

text \<open>One turn of the loop of \<open>acquireExecutionAdmission\<close>, up to the \<open>select\<close>; \<open>queued\<close> is its local variable.\<close>

definition try_admission ::
    "service \<Rightarrow> string \<Rightarrow> string \<Rightarrow> bool \<Rightarrow> admission \<Rightarrow> admission_outcome \<times> admission" where
  "try_admission s profile org queued a =
     (let c = sv_config s;
          serviceLimit = cf_MaxConcurrentExecutions c;
          profileLimit = cf_MaxConcurrentExecutionsPerProfile c;
          organizationLimit = cf_MaxConcurrentExecutionsPerOrganization c;
          queueLimit = cf_MaxQueuedExecutionsPerOrganization c;
          activeService = ad_activeExecutions a;
          activeProfile = counter (ad_byProfile a) profile;
          activeOrganization = counter (ad_byOrganization a) org;
          currentQueued = counter (ad_queued a) org;
          organizationLimited = (organizationLimit > 0 \<and> org \<noteq> [])
      in if serviceLimit > 0 \<and> activeService \<ge> serviceLimit
         then (Refused (admission_error ''service_concurrent_execution_limit_exceeded'' ''max_concurrent_executions''
                 serviceLimit (activeService + 1) [(''active_executions'', VInt Kint activeService)]),
               unqueue queued org a)
         else if profileLimit > 0 \<and> activeProfile \<ge> profileLimit
         then (Refused (admission_error ''profile_concurrent_execution_limit_exceeded''
                 ''max_concurrent_executions_per_profile'' profileLimit (activeProfile + 1)
                 [(''profile'', VString profile), (''active_executions'', VInt Kint activeProfile)]),
               unqueue queued org a)
         else if \<not> organizationLimited \<or> (activeOrganization < organizationLimit \<and> (queued \<or> currentQueued = 0))
         then (Admitted,
               unqueue queued org
                 (a\<lparr>ad_activeExecutions := (if serviceLimit > 0 then activeService + 1 else activeService),
                    ad_byProfile := (if profileLimit > 0 then AList.update profile (activeProfile + 1) (ad_byProfile a)
                      else ad_byProfile a),
                    ad_byOrganization := (if organizationLimited
                      then AList.update org (activeOrganization + 1) (ad_byOrganization a) else ad_byOrganization a)\<rparr>))
         else if queueLimit \<le> 0
         then (Refused (admission_error ''organization_concurrent_execution_limit_exceeded''
                 ''max_concurrent_executions_per_organization'' organizationLimit (activeOrganization + 1)
                 [(''organization_id'', VString org), (''active_executions'', VInt Kint activeOrganization)]), a)
         else if \<not> queued \<and> currentQueued \<ge> queueLimit
         then (Refused (admission_error ''organization_queued_execution_limit_exceeded''
                 ''max_queued_executions_per_organization'' queueLimit (currentQueued + 1)
                 [(''organization_id'', VString org), (''queued_executions'', VInt Kint currentQueued)]), a)
         else let a = (if queued then a else a\<lparr>ad_queued := AList.update org (currentQueued + 1) (ad_queued a)\<rparr>)
              in (Wait (ad_changed a) (counter (ad_queued a) org), a))"

definition releaseExecutionAdmission :: "string \<Rightarrow> string \<Rightarrow> bool \<Rightarrow> admission \<Rightarrow> admission" where
  "releaseExecutionAdmission profile org releaseService a =
     notifyExecutionChangedLocked
       (a\<lparr>ad_activeExecutions := (if releaseService \<and> ad_activeExecutions a > 0 then ad_activeExecutions a - 1
            else ad_activeExecutions a),
          ad_byProfile := (if profile \<noteq> [] then decrement profile (ad_byProfile a) else ad_byProfile a),
          ad_byOrganization := (if org \<noteq> [] then decrement org (ad_byOrganization a) else ad_byOrganization a)\<rparr>)"

section \<open>Concurrent calls\<close>

datatype admission_failure = Limited limit_error | Cancelled

text \<open>
  A call is about to read the limits, about to enter the critical section (with its variable
  \<open>queued\<close>), waiting for a channel, about to run its deferred function while it is queued,
  holding an admission (counted, or without any limits), or it has returned: with an error, or
  after its execution was over and it released the admission.
\<close>

datatype admission_pc =
    Calling
  | Looping bool
  | Waiting nat int
  | Leaving admission_failure
  | Holding
  | Unlimited
  | Returned "admission_failure option"

record admission_call =
  ac_profile :: string
  ac_organization :: string
  ac_pc :: admission_pc

record admission_sys =
  as_admission :: admission
  as_calls :: "admission_call list"

definition without_limits :: "service \<Rightarrow> string \<Rightarrow> bool" where
  "without_limits s org \<longleftrightarrow>
     (let c = sv_config s
      in cf_MaxConcurrentExecutions c \<le> 0 \<and> cf_MaxConcurrentExecutionsPerProfile c \<le> 0
         \<and> (cf_MaxConcurrentExecutionsPerOrganization c \<le> 0 \<or> org = []))"

text \<open>The arguments of a call: the profile and the organisation of the sandbox, if there is one.\<close>

definition admission_call_of :: "string \<Rightarrow> sandbox option \<Rightarrow> admission_call" where
  "admission_call_of profile box =
     \<lparr>ac_profile = trim_space profile,
      ac_organization = (case box of Some b \<Rightarrow> trim_space (sb_OrganizationID b) | None \<Rightarrow> []), ac_pc = Calling\<rparr>"

definition queue_timeout_error :: "service \<Rightarrow> string \<Rightarrow> int \<Rightarrow> limit_error" where
  "queue_timeout_error s org queuedCount =
     (let t = cf_QueueTimeoutMS (sv_config s)
      in admission_error ''organization_execution_queue_timeout'' ''queue_timeout_ms'' t t
           [(''organization_id'', VString org), (''queued_executions'', VInt Kint queuedCount)])"

definition goto :: "nat \<Rightarrow> admission_pc \<Rightarrow> admission_sys \<Rightarrow> admission_sys" where
  "goto i pc S = S\<lparr>as_calls := (as_calls S)[i := (as_calls S ! i)\<lparr>ac_pc := pc\<rparr>]\<rparr>"

definition pc_after :: "admission_outcome \<Rightarrow> admission_pc" where
  "pc_after r = (case r of Admitted \<Rightarrow> Holding | Refused e \<Rightarrow> Returned (Some (Limited e)) | Wait c n \<Rightarrow> Waiting c n)"

text \<open>
  The timer and the cancellation of a caller are external; with \<open>impatient = False\<close> they never come.
\<close>

inductive admission_step :: "bool \<Rightarrow> service \<Rightarrow> admission_sys \<Rightarrow> admission_sys \<Rightarrow> bool" for impatient s where
  call: "i < length (as_calls S) \<Longrightarrow> ac_pc (as_calls S ! i) = Calling \<Longrightarrow>
    admission_step impatient s S (goto i (if without_limits s (ac_organization (as_calls S ! i)) then Unlimited else Looping False) S)"
| loop: "i < length (as_calls S) \<Longrightarrow> ac_pc (as_calls S ! i) = Looping queued \<Longrightarrow>
    try_admission s (ac_profile (as_calls S ! i)) (ac_organization (as_calls S ! i)) queued (as_admission S) = (r, a) \<Longrightarrow>
    admission_step impatient s S (goto i (pc_after r) (S\<lparr>as_admission := a\<rparr>))"
| wake: "i < length (as_calls S) \<Longrightarrow> ac_pc (as_calls S ! i) = Waiting c n \<Longrightarrow> c < ad_changed (as_admission S) \<Longrightarrow>
    admission_step impatient s S (goto i (Looping True) S)"
| timeout: "impatient \<Longrightarrow> i < length (as_calls S) \<Longrightarrow> ac_pc (as_calls S ! i) = Waiting c n \<Longrightarrow>
    admission_step impatient s S (goto i (Leaving (Limited (queue_timeout_error s (ac_organization (as_calls S ! i)) n))) S)"
| cancel: "impatient \<Longrightarrow> i < length (as_calls S) \<Longrightarrow> ac_pc (as_calls S ! i) = Waiting c n \<Longrightarrow>
    admission_step impatient s S (goto i (Leaving Cancelled) S)"
| leave: "i < length (as_calls S) \<Longrightarrow> ac_pc (as_calls S ! i) = Leaving e \<Longrightarrow>
    admission_step impatient s S (goto i (Returned (Some e))
      (S\<lparr>as_admission := unqueue True (ac_organization (as_calls S ! i)) (as_admission S)\<rparr>))"
| release: "i < length (as_calls S) \<Longrightarrow> ac_pc (as_calls S ! i) = Holding \<Longrightarrow>
    admission_step impatient s S (goto i (Returned None)
      (S\<lparr>as_admission := releaseExecutionAdmission (ac_profile (as_calls S ! i)) (ac_organization (as_calls S ! i))
          (cf_MaxConcurrentExecutions (sv_config s) > 0) (as_admission S)\<rparr>))"
| finish: "i < length (as_calls S) \<Longrightarrow> ac_pc (as_calls S ! i) = Unlimited \<Longrightarrow>
    admission_step impatient s S (goto i (Returned None) S)"

definition admission_start :: "admission_call list \<Rightarrow> admission_sys" where
  "admission_start calls =
     \<lparr>as_admission = \<lparr>ad_activeExecutions = 0, ad_byProfile = [], ad_byOrganization = [], ad_queued = [], ad_changed = 0\<rparr>,
      as_calls = map (ac_pc_update (\<lambda>_. Calling)) calls\<rparr>"

section \<open>Counting calls\<close>

definition count :: "('a \<Rightarrow> bool) \<Rightarrow> 'a list \<Rightarrow> int" where
  "count P xs = int (length (filter P xs))"

lemma count_update:
  "i < length xs \<Longrightarrow> count P (xs[i := y]) = count P xs - of_bool (P (xs ! i)) + of_bool (P y)"
proof (induction xs arbitrary: i)
  case (Cons x xs)
  then show ?case by (cases i) (auto simp: count_def)
qed simp

lemma count_pos: "i < length xs \<Longrightarrow> P (xs ! i) \<Longrightarrow> 0 < count P xs"
  by (auto simp: count_def filter_empty_conv)

lemma count_nonneg [simp]: "0 \<le> count P xs"
  by (simp add: count_def)

lemma counter_Nil [simp]: "counter [] k = 0"
  by (simp add: counter_def)

lemma counter_update [simp]: "counter (AList.update k n m) j = (if j = k then n else counter m j)"
  by (simp add: counter_def update_conv')

lemma counter_decrement: "0 < counter m k \<Longrightarrow> counter (decrement k m) j = (if j = k then counter m k - 1 else counter m j)"
  by (auto simp: decrement_def counter_def update_conv' delete_conv' Let_def)

end
