(* ===== verification/Sandbox_Admission_Safety.thy ===== *)
theory Sandbox_Admission_Safety
  imports Sandbox_Admission
begin

text \<open>
  What the admission of executions guarantees under every interleaving of the calls: the limits
  hold, no call waits without another one that will wake it, and every call returns.
\<close>

section \<open>Counters and calls\<close>

abbreviation service_limit :: "service \<Rightarrow> int" where "service_limit s \<equiv> cf_MaxConcurrentExecutions (sv_config s)"
abbreviation profile_limit :: "service \<Rightarrow> int" where "profile_limit s \<equiv> cf_MaxConcurrentExecutionsPerProfile (sv_config s)"
abbreviation organization_limit :: "service \<Rightarrow> int" where
  "organization_limit s \<equiv> cf_MaxConcurrentExecutionsPerOrganization (sv_config s)"
abbreviation queue_limit :: "service \<Rightarrow> int" where "queue_limit s \<equiv> cf_MaxQueuedExecutionsPerOrganization (sv_config s)"

fun in_queue :: "admission_pc \<Rightarrow> bool" where
  "in_queue (Looping queued) \<longleftrightarrow> queued"
| "in_queue (Waiting c n) \<longleftrightarrow> True"
| "in_queue (Leaving e) \<longleftrightarrow> True"
| "in_queue _ \<longleftrightarrow> False"

abbreviation holders :: "admission_sys \<Rightarrow> int" where
  "holders S \<equiv> count (\<lambda>c. ac_pc c = Holding) (as_calls S)"

abbreviation profile_holders :: "admission_sys \<Rightarrow> string \<Rightarrow> int" where
  "profile_holders S p \<equiv> count (\<lambda>c. ac_pc c = Holding \<and> ac_profile c = p) (as_calls S)"

abbreviation organization_holders :: "admission_sys \<Rightarrow> string \<Rightarrow> int" where
  "organization_holders S org \<equiv> count (\<lambda>c. ac_pc c = Holding \<and> ac_organization c = org) (as_calls S)"

abbreviation waiters :: "admission_sys \<Rightarrow> string \<Rightarrow> int" where
  "waiters S org \<equiv> count (\<lambda>c. in_queue (ac_pc c) \<and> ac_organization c = org) (as_calls S)"

text \<open>Only the calls of a limited organisation are queued.\<close>

definition queueable :: "service \<Rightarrow> string \<Rightarrow> bool" where
  "queueable s org \<longleftrightarrow> organization_limit s > 0 \<and> queue_limit s > 0 \<and> org \<noteq> []"

text \<open>The counters are the numbers of calls, where a limit makes the code count.\<close>

definition counted :: "service \<Rightarrow> admission_sys \<Rightarrow> bool" where
  "counted s S \<longleftrightarrow>
     (service_limit s > 0 \<longrightarrow> ad_activeExecutions (as_admission S) = holders S)
     \<and> (profile_limit s > 0 \<longrightarrow> (\<forall>p. p \<noteq> [] \<longrightarrow> counter (ad_byProfile (as_admission S)) p = profile_holders S p))
     \<and> (organization_limit s > 0 \<longrightarrow>
          (\<forall>org. org \<noteq> [] \<longrightarrow> counter (ad_byOrganization (as_admission S)) org = organization_holders S org))
     \<and> (\<forall>org. counter (ad_queued (as_admission S)) org = waiters S org)
     \<and> (\<forall>c \<in> set (as_calls S). in_queue (ac_pc c) \<longrightarrow> queueable s (ac_organization c))"

lemma goto_simps [simp]:
  "as_admission (goto i pc S) = as_admission S"
  "as_calls (goto i pc S) = (as_calls S)[i := (as_calls S ! i)\<lparr>ac_pc := pc\<rparr>]"
  by (simp_all add: goto_def)

lemma unqueue_simps [simp]:
  "ad_activeExecutions (unqueue q org a) = ad_activeExecutions a"
  "ad_byProfile (unqueue q org a) = ad_byProfile a"
  "ad_byOrganization (unqueue q org a) = ad_byOrganization a"
  "ad_queued (unqueue q org a) = (if q then decrement org (ad_queued a) else ad_queued a)"
  "ad_changed (unqueue q org a) = (if q then Suc (ad_changed a) else ad_changed a)"
  by (simp_all add: unqueue_def notifyExecutionChangedLocked_def releaseQueuedOrganizationExecutionLocked_def)

lemma release_simps [simp]:
  "ad_activeExecutions (releaseExecutionAdmission p org b a) =
     (if b \<and> ad_activeExecutions a > 0 then ad_activeExecutions a - 1 else ad_activeExecutions a)"
  "ad_byProfile (releaseExecutionAdmission p org b a) = (if p \<noteq> [] then decrement p (ad_byProfile a) else ad_byProfile a)"
  "ad_byOrganization (releaseExecutionAdmission p org b a) =
     (if org \<noteq> [] then decrement org (ad_byOrganization a) else ad_byOrganization a)"
  "ad_queued (releaseExecutionAdmission p org b a) = ad_queued a"
  "ad_changed (releaseExecutionAdmission p org b a) = Suc (ad_changed a)"
  by (simp_all add: releaseExecutionAdmission_def notifyExecutionChangedLocked_def)

text \<open>The three kinds of outcome of the critical section.\<close>

lemma try_admission_cases:
  assumes "try_admission s p org q a = (r, a')" and "q \<longrightarrow> queueable s org"
  obtains (admitted) "r = Admitted" and "service_limit s > 0 \<longrightarrow> ad_activeExecutions a < service_limit s"
      and "profile_limit s > 0 \<longrightarrow> counter (ad_byProfile a) p < profile_limit s"
      and "organization_limit s > 0 \<and> org \<noteq> [] \<longrightarrow> counter (ad_byOrganization a) org < organization_limit s
        \<and> (q \<or> counter (ad_queued a) org = 0)"
      and "ad_activeExecutions a' = (if service_limit s > 0 then ad_activeExecutions a + 1 else ad_activeExecutions a)"
      and "\<And>j. counter (ad_byProfile a') j = counter (ad_byProfile a) j + of_bool (profile_limit s > 0 \<and> j = p)"
      and "\<And>j. counter (ad_byOrganization a') j = counter (ad_byOrganization a) j
        + of_bool (organization_limit s > 0 \<and> org \<noteq> [] \<and> j = org)"
      and "ad_queued a' = (if q then decrement org (ad_queued a) else ad_queued a)"
      and "ad_changed a' = (if q then Suc (ad_changed a) else ad_changed a)"
  | (refused) e where "r = Refused e" and "a' = unqueue q org a"
  | (waits) "r = Wait (ad_changed a) (counter (ad_queued a') org)" and "queueable s org"
      and "counter (ad_byOrganization a) org \<ge> organization_limit s \<or> (\<not> q \<and> counter (ad_queued a) org \<noteq> 0)"
      and "\<not> q \<longrightarrow> counter (ad_queued a) org < queue_limit s"
      and "a' = (if q then a else a\<lparr>ad_queued := AList.update org (counter (ad_queued a) org + 1) (ad_queued a)\<rparr>)"
proof -
  define fits where "fits \<longleftrightarrow> \<not> (organization_limit s > 0 \<and> org \<noteq> [])
    \<or> (counter (ad_byOrganization a) org < organization_limit s \<and> (q \<or> counter (ad_queued a) org = 0))"
  consider (service) "service_limit s > 0 \<and> ad_activeExecutions a \<ge> service_limit s"
    | (profile) "\<not> (service_limit s > 0 \<and> ad_activeExecutions a \<ge> service_limit s)"
        "profile_limit s > 0 \<and> counter (ad_byProfile a) p \<ge> profile_limit s"
    | (free) "\<not> (service_limit s > 0 \<and> ad_activeExecutions a \<ge> service_limit s)"
        "\<not> (profile_limit s > 0 \<and> counter (ad_byProfile a) p \<ge> profile_limit s)" "fits"
    | (full) "\<not> (service_limit s > 0 \<and> ad_activeExecutions a \<ge> service_limit s)"
        "\<not> (profile_limit s > 0 \<and> counter (ad_byProfile a) p \<ge> profile_limit s)" "\<not> fits"
    by blast
  then show ?thesis
  proof cases
    case service
    with assms(1) show ?thesis by (intro refused) (auto simp: try_admission_def Let_def)
  next
    case profile
    with assms(1) show ?thesis by (intro refused) (auto simp: try_admission_def Let_def)
  next
    case free
    then have out: "(r, a') = (Admitted, unqueue q org (a\<lparr>
        ad_activeExecutions := (if service_limit s > 0 then ad_activeExecutions a + 1 else ad_activeExecutions a),
        ad_byProfile := (if profile_limit s > 0 then AList.update p (counter (ad_byProfile a) p + 1) (ad_byProfile a)
          else ad_byProfile a),
        ad_byOrganization := (if organization_limit s > 0 \<and> org \<noteq> []
          then AList.update org (counter (ad_byOrganization a) org + 1) (ad_byOrganization a) else ad_byOrganization a)\<rparr>))"
      unfolding assms(1) [symmetric] try_admission_def Let_def fits_def by (simp only: if_not_P if_P not_False_eq_True)
    show ?thesis
    proof (rule admitted)
      show "r = Admitted" using out by simp
      show "service_limit s > 0 \<longrightarrow> ad_activeExecutions a < service_limit s" using free(1) by linarith
      show "profile_limit s > 0 \<longrightarrow> counter (ad_byProfile a) p < profile_limit s" using free(2) by linarith
      show "organization_limit s > 0 \<and> org \<noteq> [] \<longrightarrow> counter (ad_byOrganization a) org < organization_limit s
          \<and> (q \<or> counter (ad_queued a) org = 0)" using free(3) unfolding fits_def by blast
    qed (use out in simp_all)
  next
    case full
    then have out: "(r, a') = (if queue_limit s \<le> 0
         then (Refused (admission_error ''organization_concurrent_execution_limit_exceeded''
                 ''max_concurrent_executions_per_organization'' (organization_limit s) (counter (ad_byOrganization a) org + 1)
                 [(''organization_id'', VString org), (''active_executions'', VInt Kint (counter (ad_byOrganization a) org))]), a)
         else if \<not> q \<and> counter (ad_queued a) org \<ge> queue_limit s
         then (Refused (admission_error ''organization_queued_execution_limit_exceeded''
                 ''max_queued_executions_per_organization'' (queue_limit s) (counter (ad_queued a) org + 1)
                 [(''organization_id'', VString org), (''queued_executions'', VInt Kint (counter (ad_queued a) org))]), a)
         else let a = (if q then a else a\<lparr>ad_queued := AList.update org (counter (ad_queued a) org + 1) (ad_queued a)\<rparr>)
              in (Wait (ad_changed a) (counter (ad_queued a) org), a))"
      unfolding assms(1) [symmetric] try_admission_def Let_def fits_def by (simp only: if_not_P not_False_eq_True)
    consider (none) "queue_limit s \<le> 0" | (long) "\<not> queue_limit s \<le> 0" "\<not> q \<and> counter (ad_queued a) org \<ge> queue_limit s"
      | (room) "\<not> queue_limit s \<le> 0" "\<not> (\<not> q \<and> counter (ad_queued a) org \<ge> queue_limit s)"
      by blast
    then show ?thesis
    proof cases
      case none
      with assms(2) have "\<not> q" by (auto simp: queueable_def)
      then have "unqueue q org a = a" by (simp add: unqueue_def)
      with out none show ?thesis by (simp add: refused)
    next
      case long
      then have "unqueue q org a = a" by (simp add: unqueue_def)
      with out long show ?thesis by (simp add: refused)
    next
      case room
      define a'' where "a'' = (if q then a else a\<lparr>ad_queued := AList.update org (counter (ad_queued a) org + 1) (ad_queued a)\<rparr>)"
      have "(r, a') = (Wait (ad_changed a'') (counter (ad_queued a'') org), a'')"
        unfolding out a''_def [symmetric] using room by simp
      moreover have "ad_changed a'' = ad_changed a" by (simp add: a''_def)
      ultimately show ?thesis
        using full(3) room by (intro waits) (auto simp: fits_def queueable_def not_less a''_def [symmetric])
    qed
  qed
qed

section \<open>The limits\<close>

text \<open>With an empty name of profile the limit on a profile counts up only; the calls of a run have one.\<close>

definition within_limits :: "service \<Rightarrow> admission_sys \<Rightarrow> bool" where
  "within_limits s S \<longleftrightarrow>
     (service_limit s > 0 \<longrightarrow> holders S \<le> service_limit s)
     \<and> (profile_limit s > 0 \<longrightarrow> (\<forall>p. p \<noteq> [] \<longrightarrow> profile_holders S p \<le> profile_limit s))
     \<and> (organization_limit s > 0 \<longrightarrow> (\<forall>org. org \<noteq> [] \<longrightarrow> organization_holders S org \<le> organization_limit s))
     \<and> (\<forall>org. waiters S org \<le> max 0 (queue_limit s))"

lemma admission_count_goto:
  "i < length (as_calls S) \<Longrightarrow> count P (as_calls (goto i pc S)) =
     count P (as_calls S) - of_bool (P (as_calls S ! i)) + of_bool (P ((as_calls S ! i)\<lparr>ac_pc := pc\<rparr>))"
  by (simp add: count_update)

lemma waiters_pos:
  "i < length (as_calls S) \<Longrightarrow> in_queue (ac_pc (as_calls S ! i)) \<Longrightarrow> 0 < waiters S (ac_organization (as_calls S ! i))"
  by (rule count_pos) auto

lemma holders_pos:
  assumes "i < length (as_calls S)" and "ac_pc (as_calls S ! i) = Holding"
  shows "0 < holders S" and "0 < profile_holders S (ac_profile (as_calls S ! i))"
    and "0 < organization_holders S (ac_organization (as_calls S ! i))"
  using assms by (auto intro: count_pos)

text \<open>
  A step moves one call and changes the counters of its profile and organisation only. The
  invariant is preserved by a move when the change of each counter is the change of its number.
\<close>

lemma counted_goto:
  assumes "counted s S" and i: "i < length (as_calls S)"
    and c: "as_calls S ! i = c" "ac_pc c = old"
    and "service_limit s > 0 \<longrightarrow> ad_activeExecutions a
      = ad_activeExecutions (as_admission S) - of_bool (old = Holding) + of_bool (pc = Holding)"
    and "profile_limit s > 0 \<longrightarrow> (\<forall>p. p \<noteq> [] \<longrightarrow> counter (ad_byProfile a) p
      = counter (ad_byProfile (as_admission S)) p - of_bool (old = Holding \<and> ac_profile c = p)
        + of_bool (pc = Holding \<and> ac_profile c = p))"
    and "organization_limit s > 0 \<longrightarrow> (\<forall>org. org \<noteq> [] \<longrightarrow> counter (ad_byOrganization a) org
      = counter (ad_byOrganization (as_admission S)) org - of_bool (old = Holding \<and> ac_organization c = org)
        + of_bool (pc = Holding \<and> ac_organization c = org))"
    and "\<And>org. counter (ad_queued a) org = counter (ad_queued (as_admission S)) org
      - of_bool (in_queue old \<and> ac_organization c = org) + of_bool (in_queue pc \<and> ac_organization c = org)"
    and "in_queue pc \<longrightarrow> queueable s (ac_organization c)"
  shows "counted s (goto i pc (S\<lparr>as_admission := a\<rparr>))"
  unfolding counted_def
proof (intro conjI)
  let ?S = "goto i pc (S\<lparr>as_admission := a\<rparr>)"
  have calls: "as_calls ?S = (as_calls S)[i := c\<lparr>ac_pc := pc\<rparr>]" and a: "as_admission ?S = a"
    using c by simp_all
  note simps = calls a count_update [OF i] c
  show "service_limit s > 0 \<longrightarrow> ad_activeExecutions (as_admission ?S) = holders ?S"
    using assms(1,5) unfolding counted_def simps by simp
  show "profile_limit s > 0 \<longrightarrow> (\<forall>p. p \<noteq> [] \<longrightarrow> counter (ad_byProfile (as_admission ?S)) p = profile_holders ?S p)"
    using assms(1,6) unfolding counted_def simps by simp
  show "organization_limit s > 0 \<longrightarrow>
      (\<forall>org. org \<noteq> [] \<longrightarrow> counter (ad_byOrganization (as_admission ?S)) org = organization_holders ?S org)"
    using assms(1,7) unfolding counted_def simps by simp
  show "\<forall>org. counter (ad_queued (as_admission ?S)) org = waiters ?S org"
    using assms(1,8) unfolding counted_def simps by simp
  show "\<forall>c \<in> set (as_calls ?S). in_queue (ac_pc c) \<longrightarrow> queueable s (ac_organization c)"
  proof
    fix d assume "d \<in> set (as_calls ?S)"
    then have "d = c\<lparr>ac_pc := pc\<rparr> \<or> d \<in> set (as_calls S)"
      unfolding calls using set_update_subset_insert by fast
    then show "in_queue (ac_pc d) \<longrightarrow> queueable s (ac_organization d)"
      using assms(1,9) unfolding counted_def by auto
  qed
qed

lemma counted_same:
  assumes "counted s S" and "i < length (as_calls S)" and "ac_pc (as_calls S ! i) = old"
    and "(pc = Holding) = (old = Holding)" and "in_queue pc = in_queue old"
  shows "counted s (goto i pc S)"
proof -
  have "in_queue pc \<longrightarrow> queueable s (ac_organization (as_calls S ! i))"
    using assms nth_mem [OF assms(2)] unfolding counted_def by auto
  then have "counted s (goto i pc (S\<lparr>as_admission := as_admission S\<rparr>))"
    using assms by (intro counted_goto [OF assms(1,2) refl assms(3)]) auto
  then show ?thesis by simp
qed

lemma counted_loop:
  assumes inv: "counted s S" and i: "i < length (as_calls S)" and c: "as_calls S ! i = c" "ac_pc c = Looping q"
    and t: "try_admission s (ac_profile c) (ac_organization c) q (as_admission S) = (r, a)"
  shows "counted s (goto i (pc_after r) (S\<lparr>as_admission := a\<rparr>))"
proof -
  have q: "q \<longrightarrow> queueable s (ac_organization c)"
    using inv c nth_mem [OF i] unfolding counted_def by fastforce
  have pos: "q \<longrightarrow> 0 < counter (ad_queued (as_admission S)) (ac_organization c)"
    using inv c waiters_pos [OF i] unfolding counted_def by auto
  from t q show ?thesis
  proof (cases rule: try_admission_cases)
    case admitted
    show ?thesis
      by (rule counted_goto [OF inv i c])
        (use admitted pos in \<open>auto simp: pc_after_def counter_decrement\<close>)
  next
    case (refused e)
    show ?thesis
      by (rule counted_goto [OF inv i c])
        (use refused pos in \<open>auto simp: pc_after_def counter_decrement\<close>)
  next
    case waits
    show ?thesis
      by (rule counted_goto [OF inv i c])
        (use waits pos in \<open>auto simp: pc_after_def\<close>)
  qed
qed

lemma counted_release:
  assumes inv: "counted s S" and i: "i < length (as_calls S)" and c: "as_calls S ! i = c" "ac_pc c = Holding"
  shows "counted s (goto i (Returned None) (S\<lparr>as_admission := releaseExecutionAdmission (ac_profile c) (ac_organization c)
    (service_limit s > 0) (as_admission S)\<rparr>))"
proof (rule counted_goto [OF inv i c])
  note pos = holders_pos [of i S, unfolded c, OF i refl]
  show "service_limit s > 0 \<longrightarrow> ad_activeExecutions (releaseExecutionAdmission (ac_profile c) (ac_organization c)
      (service_limit s > 0) (as_admission S)) = ad_activeExecutions (as_admission S)
      - of_bool (Holding = Holding) + of_bool (Returned None = Holding)"
    using inv pos(1) by (auto simp: counted_def)
  show "profile_limit s > 0 \<longrightarrow> (\<forall>p. p \<noteq> [] \<longrightarrow> counter (ad_byProfile (releaseExecutionAdmission (ac_profile c)
      (ac_organization c) (service_limit s > 0) (as_admission S))) p = counter (ad_byProfile (as_admission S)) p
      - of_bool (Holding = Holding \<and> ac_profile c = p) + of_bool (Returned None = Holding \<and> ac_profile c = p))"
    using inv pos(2) by (auto simp: counted_def counter_decrement)
  show "organization_limit s > 0 \<longrightarrow> (\<forall>org. org \<noteq> [] \<longrightarrow> counter (ad_byOrganization (releaseExecutionAdmission
      (ac_profile c) (ac_organization c) (service_limit s > 0) (as_admission S))) org
      = counter (ad_byOrganization (as_admission S)) org - of_bool (Holding = Holding \<and> ac_organization c = org)
      + of_bool (Returned None = Holding \<and> ac_organization c = org))"
    using inv pos(3) by (auto simp: counted_def counter_decrement)
qed simp_all

lemma counted_leave:
  assumes inv: "counted s S" and i: "i < length (as_calls S)" and c: "as_calls S ! i = c" "ac_pc c = Leaving e"
  shows "counted s (goto i (Returned (Some e)) (S\<lparr>as_admission := unqueue True (ac_organization c) (as_admission S)\<rparr>))"
proof (rule counted_goto [OF inv i c])
  have "0 < counter (ad_queued (as_admission S)) (ac_organization c)"
    using inv c waiters_pos [OF i] unfolding counted_def by auto
  then show "counter (ad_queued (unqueue True (ac_organization c) (as_admission S))) org
      = counter (ad_queued (as_admission S)) org - of_bool (in_queue (Leaving e) \<and> ac_organization c = org)
      + of_bool (in_queue (Returned (Some e)) \<and> ac_organization c = org)" for org
    by (simp add: counter_decrement)
qed simp_all

lemma counted_step: "admission_step impatient s S S' \<Longrightarrow> counted s S \<Longrightarrow> counted s S'"
proof (induction rule: admission_step.induct)
  case (loop i S queued r a)
  then show ?case by (intro counted_loop [OF _ _ refl])
next
  case (leave i S e)
  then show ?case by (intro counted_leave [OF _ _ refl])
next
  case (release i S)
  then show ?case by (intro counted_release [OF _ _ refl])
qed (rule counted_same, assumption, assumption, assumption, simp, simp)+

text \<open>A number can only grow when a call enters the critical section and finds room.\<close>

lemma within_limits_goto:
  assumes lim: "within_limits s S" and i: "i < length (as_calls S)" and c: "as_calls S ! i = c" "ac_pc c = old"
    and "pc = Holding \<Longrightarrow> service_limit s > 0 \<Longrightarrow> holders S < service_limit s"
    and "pc = Holding \<Longrightarrow> profile_limit s > 0 \<Longrightarrow> ac_profile c \<noteq> [] \<Longrightarrow> profile_holders S (ac_profile c) < profile_limit s"
    and "pc = Holding \<Longrightarrow> organization_limit s > 0 \<Longrightarrow> ac_organization c \<noteq> [] \<Longrightarrow>
      organization_holders S (ac_organization c) < organization_limit s"
    and "in_queue pc \<Longrightarrow> in_queue old \<or> waiters S (ac_organization c) < queue_limit s"
  shows "within_limits s (goto i pc (S\<lparr>as_admission := a\<rparr>))"
  unfolding within_limits_def
proof (intro conjI)
  let ?S = "goto i pc (S\<lparr>as_admission := a\<rparr>)"
  have calls: "as_calls ?S = (as_calls S)[i := c\<lparr>ac_pc := pc\<rparr>]" using c by simp
  note simps = calls count_update [OF i] c
  show "service_limit s > 0 \<longrightarrow> holders ?S \<le> service_limit s"
    using lim assms(5) unfolding within_limits_def simps by (cases "pc = Holding") auto
  show "profile_limit s > 0 \<longrightarrow> (\<forall>p. p \<noteq> [] \<longrightarrow> profile_holders ?S p \<le> profile_limit s)"
    using lim assms(6) unfolding within_limits_def simps by (cases "pc = Holding") (force simp: of_bool_def)+
  show "organization_limit s > 0 \<longrightarrow> (\<forall>org. org \<noteq> [] \<longrightarrow> organization_holders ?S org \<le> organization_limit s)"
    using lim assms(7) unfolding within_limits_def simps by (cases "pc = Holding") (force simp: of_bool_def)+
  show "\<forall>org. waiters ?S org \<le> max 0 (queue_limit s)"
  proof
    fix org
    have "waiters S org \<le> max 0 (queue_limit s)" using lim unfolding within_limits_def by blast
    then show "waiters ?S org \<le> max 0 (queue_limit s)"
      using assms(8) unfolding simps by (cases "ac_organization c = org") (auto simp: of_bool_def)
  qed
qed

lemma within_limits_loop:
  assumes inv: "counted s S" and lim: "within_limits s S"
    and i: "i < length (as_calls S)" and c: "as_calls S ! i = c" "ac_pc c = Looping q"
    and t: "try_admission s (ac_profile c) (ac_organization c) q (as_admission S) = (r, a)"
  shows "within_limits s (goto i (pc_after r) (S\<lparr>as_admission := a\<rparr>))"
proof (rule within_limits_goto [OF lim i c])
  have q: "q \<longrightarrow> queueable s (ac_organization c)"
    using inv c nth_mem [OF i] unfolding counted_def by fastforce
  note try_cases = try_admission_cases [OF t q]
  show "holders S < service_limit s" if "pc_after r = Holding" "service_limit s > 0"
    using inv that by (cases rule: try_cases) (auto simp: counted_def pc_after_def)
  show "profile_holders S (ac_profile c) < profile_limit s"
    if "pc_after r = Holding" "profile_limit s > 0" "ac_profile c \<noteq> []"
    using inv that by (cases rule: try_cases) (auto simp: counted_def pc_after_def)
  show "organization_holders S (ac_organization c) < organization_limit s"
    if "pc_after r = Holding" "organization_limit s > 0" "ac_organization c \<noteq> []"
    using inv that by (cases rule: try_cases) (auto simp: counted_def pc_after_def)
  show "in_queue (Looping q) \<or> waiters S (ac_organization c) < queue_limit s" if "in_queue (pc_after r)"
    using inv that by (cases rule: try_cases) (auto simp: counted_def pc_after_def)
qed

lemma within_limits_same:
  assumes "within_limits s S" and "i < length (as_calls S)" and "ac_pc (as_calls S ! i) = old"
    and "pc \<noteq> Holding" and "in_queue pc \<longrightarrow> in_queue old"
  shows "within_limits s (goto i pc (S\<lparr>as_admission := a\<rparr>))"
  using assms by (intro within_limits_goto [OF assms(1,2) refl assms(3)]) auto

lemma within_limits_step:
  "admission_step impatient s S S' \<Longrightarrow> counted s S \<Longrightarrow> within_limits s S \<Longrightarrow> within_limits s S'"
proof (induction rule: admission_step.induct)
  case (loop i S queued r a)
  then show ?case by (intro within_limits_loop [OF _ _ _ refl])
next
  case (leave i S e)
  then show ?case by (intro within_limits_same) auto
next
  case (release i S)
  then show ?case by (intro within_limits_same) auto
qed (use within_limits_same [of s S i _ _ "as_admission S" for S i] in auto)

end
