(* ===== verification/Sandbox_Admission_Liveness.thy ===== *)
theory Sandbox_Admission_Liveness
  imports Sandbox_Admission_Safety
begin

text \<open>
  No call of \<open>acquireExecutionAdmission\<close> sleeps without another one that will wake it, and every
  call returns, also when no timer fires.
\<close>

section \<open>No wake-up is lost\<close>

text \<open>A call that holds an admission, or is in the queue and does not sleep on the open channel.\<close>

definition awake :: "admission_sys \<Rightarrow> admission_pc \<Rightarrow> bool" where
  "awake S pc = (case pc of Holding \<Rightarrow> True | Looping queued \<Rightarrow> queued | Leaving e \<Rightarrow> True
     | Waiting c n \<Rightarrow> c < ad_changed (as_admission S) | _ \<Rightarrow> False)"

definition alert :: "admission_sys \<Rightarrow> string \<Rightarrow> bool" where
  "alert S org \<longleftrightarrow> (\<exists>c \<in> set (as_calls S). ac_organization c = org \<and> awake S (ac_pc c))"

definition guarded :: "admission_sys \<Rightarrow> bool" where
  "guarded S \<longleftrightarrow> (\<forall>c \<in> set (as_calls S). \<forall>ch n. ac_pc c = Waiting ch n \<longrightarrow>
     ch < ad_changed (as_admission S) \<or> ch = ad_changed (as_admission S) \<and> alert S (ac_organization c))"

lemma alert_other:
  assumes "j < length (as_calls S)" and "j \<noteq> i" and "awake S (ac_pc (as_calls S ! j))"
    and "ac_organization (as_calls S ! j) = org" and "ad_changed a = ad_changed (as_admission S)"
  shows "alert (goto i pc (S\<lparr>as_admission := a\<rparr>)) org"
proof -
  let ?S = "goto i pc (S\<lparr>as_admission := a\<rparr>)"
  have "as_calls S ! j = as_calls ?S ! j" "j < length (as_calls ?S)"
    using assms(1,2) by simp_all
  then have "as_calls S ! j \<in> set (as_calls ?S)" by (metis nth_mem)
  moreover have "awake ?S (ac_pc (as_calls S ! j))"
    using assms(3,5) by (simp add: awake_def split: admission_pc.splits)
  ultimately show ?thesis using assms(4) unfolding alert_def by blast
qed

lemma guarded_notify:
  assumes "guarded S" and "ad_changed a = Suc (ad_changed (as_admission S))" and "\<And>ch n. pc \<noteq> Waiting ch n"
  shows "guarded (goto i pc (S\<lparr>as_admission := a\<rparr>))"
  unfolding guarded_def
proof (intro ballI allI impI disjI1)
  let ?S = "goto i pc (S\<lparr>as_admission := a\<rparr>)"
  fix c ch n assume "c \<in> set (as_calls ?S)" and w: "ac_pc c = Waiting ch n"
  then have "c = (as_calls S ! i)\<lparr>ac_pc := pc\<rparr> \<or> c \<in> set (as_calls S)"
    using set_update_subset_insert by (simp; fast)
  with w assms(3) have "c \<in> set (as_calls S)" by auto
  with assms(1) w have "ch \<le> ad_changed (as_admission S)" unfolding guarded_def by fastforce
  then show "ch < ad_changed (as_admission ?S)" using assms(2) by simp
qed

lemma guarded_quiet:
  assumes inv: "guarded S" and i: "i < length (as_calls S)" and c: "as_calls S ! i = c"
    and a: "ad_changed a = ad_changed (as_admission S)"
    and keep: "awake S (ac_pc c) \<Longrightarrow> alert (goto i pc (S\<lparr>as_admission := a\<rparr>)) (ac_organization c)"
    and new: "\<And>ch n. pc = Waiting ch n \<Longrightarrow>
      ch = ad_changed a \<and> alert (goto i pc (S\<lparr>as_admission := a\<rparr>)) (ac_organization c)"
  shows "guarded (goto i pc (S\<lparr>as_admission := a\<rparr>))" (is "guarded ?S")
  unfolding guarded_def
proof (intro ballI allI impI)
  fix d ch n assume "d \<in> set (as_calls ?S)" and w: "ac_pc d = Waiting ch n"
  then obtain j where j: "j < length (as_calls S)" "d = (as_calls S)[i := c\<lparr>ac_pc := pc\<rparr>] ! j"
    using c by (auto simp: in_set_conv_nth)
  show "ch < ad_changed (as_admission ?S) \<or> ch = ad_changed (as_admission ?S) \<and> alert ?S (ac_organization d)"
  proof (cases "j = i")
    case True
    with j w have "pc = Waiting ch n" and "ac_organization d = ac_organization c" by simp_all
    with new show ?thesis by auto
  next
    case False
    with j have d: "d = as_calls S ! j" by simp
    then have "d \<in> set (as_calls S)" using j by simp
    with inv w consider "ch < ad_changed (as_admission S)"
      | "ch = ad_changed (as_admission S)" "alert S (ac_organization d)"
      unfolding guarded_def by meson
    then show ?thesis
    proof cases
      case 2
      then obtain k where k: "k < length (as_calls S)" "ac_organization (as_calls S ! k) = ac_organization d"
          "awake S (ac_pc (as_calls S ! k))"
        unfolding alert_def by (auto simp: in_set_conv_nth)
      have "alert ?S (ac_organization d)"
      proof (cases "k = i")
        case True
        with keep k c show ?thesis by simp
      next
        case False
        with alert_other [OF k(1) _ k(3,2) a] show ?thesis by simp
      qed
      with 2 a show ?thesis by simp
    qed (use a in simp)
  qed
qed

lemma guarded_same:
  assumes "guarded S" and i: "i < length (as_calls S)" and "ac_pc (as_calls S ! i) = old"
    and a: "ad_changed a = ad_changed (as_admission S)" and "awake S old \<longrightarrow> awake S pc" and "\<And>ch n. pc \<noteq> Waiting ch n"
  shows "guarded (goto i pc (S\<lparr>as_admission := a\<rparr>))" (is "guarded ?S")
proof (rule guarded_quiet [OF assms(1) i refl a])
  assume "awake S (ac_pc (as_calls S ! i))"
  with assms have "awake ?S pc" by (simp add: awake_def split: admission_pc.splits)
  moreover have "(as_calls S ! i)\<lparr>ac_pc := pc\<rparr> \<in> set (as_calls ?S)"
    using i by (simp add: set_update_memI)
  ultimately show "alert ?S (ac_organization (as_calls S ! i))"
    unfolding alert_def by (intro bexI [of _ "(as_calls S ! i)\<lparr>ac_pc := pc\<rparr>"]) simp_all
qed (use assms(6) in blast)

text \<open>A call that goes to sleep leaves an execution of its organisation, or a call that was queued before it.\<close>

lemma sleeper_has_waker:
  assumes inv: "counted s S" "guarded S" and i: "i < length (as_calls S)"
    and c: "as_calls S ! i = c" "ac_pc c = Looping q" and "queueable s (ac_organization c)"
    and "counter (ad_byOrganization (as_admission S)) (ac_organization c) \<ge> organization_limit s
      \<or> (\<not> q \<and> counter (ad_queued (as_admission S)) (ac_organization c) \<noteq> 0)"
  obtains j where "j < length (as_calls S)" "j \<noteq> i" "awake S (ac_pc (as_calls S ! j))"
    "ac_organization (as_calls S ! j) = ac_organization c"
proof -
  have found: "\<exists>d \<in> set xs. P d" if "count P xs \<noteq> 0" for P :: "admission_call \<Rightarrow> bool" and xs
    using that by (auto simp: count_def filter_empty_conv)
  have "organization_limit s > 0" "ac_organization c \<noteq> []" using assms(6) by (simp_all add: queueable_def)
  moreover from this inv(1) have
    "counter (ad_byOrganization (as_admission S)) (ac_organization c) = organization_holders S (ac_organization c)"
    "counter (ad_queued (as_admission S)) (ac_organization c) = waiters S (ac_organization c)"
    unfolding counted_def by blast+
  ultimately consider (full) "organization_holders S (ac_organization c) \<noteq> 0"
    | (queue) "\<not> q" "waiters S (ac_organization c) \<noteq> 0"
    using assms(7) by fastforce
  then show ?thesis
  proof cases
    case full
    then obtain j where j: "j < length (as_calls S)" "ac_pc (as_calls S ! j) = Holding"
        "ac_organization (as_calls S ! j) = ac_organization c"
      using found by (fastforce simp: in_set_conv_nth)
    moreover from j c have "j \<noteq> i" by auto
    ultimately show ?thesis using that [of j] by (simp add: awake_def)
  next
    case queue
    then obtain d where d: "d \<in> set (as_calls S)" "in_queue (ac_pc d)" "ac_organization d = ac_organization c"
      using found by fastforce
    have "alert S (ac_organization c)"
    proof (cases "awake S (ac_pc d)")
      case True
      with d show ?thesis unfolding alert_def by blast
    next
      case False
      with d(2) obtain ch n where "ac_pc d = Waiting ch n" "\<not> ch < ad_changed (as_admission S)"
        by (cases "ac_pc d") (auto simp: awake_def)
      with inv(2) d show ?thesis unfolding guarded_def by metis
    qed
    then obtain j where "j < length (as_calls S)" "awake S (ac_pc (as_calls S ! j))"
        "ac_organization (as_calls S ! j) = ac_organization c"
      unfolding alert_def by (auto simp: in_set_conv_nth)
    moreover from this queue(1) c have "j \<noteq> i" by (auto simp: awake_def)
    ultimately show ?thesis using that by blast
  qed
qed

lemma guarded_loop:
  assumes inv: "counted s S" "guarded S" and i: "i < length (as_calls S)"
    and c: "as_calls S ! i = c" "ac_pc c = Looping q"
    and t: "try_admission s (ac_profile c) (ac_organization c) q (as_admission S) = (r, a)"
  shows "guarded (goto i (pc_after r) (S\<lparr>as_admission := a\<rparr>))"
proof -
  have q: "q \<longrightarrow> queueable s (ac_organization c)"
    using inv c nth_mem [OF i] unfolding counted_def by fastforce
  have moved: "guarded (goto i (pc_after r) (S\<lparr>as_admission := a\<rparr>))"
    if "ad_changed a = (if q then Suc (ad_changed (as_admission S)) else ad_changed (as_admission S))"
      and "\<And>ch n. pc_after r \<noteq> Waiting ch n"
  proof (cases q)
    case True
    with that show ?thesis by (intro guarded_notify [OF inv(2)]) simp_all
  next
    case False
    with that c show ?thesis by (intro guarded_same [OF inv(2) i, of "Looping False"]) (simp_all add: awake_def)
  qed
  from t q show ?thesis
  proof (cases rule: try_admission_cases)
    case admitted
    then show ?thesis by (intro moved) (simp_all add: pc_after_def)
  next
    case (refused e)
    then show ?thesis by (intro moved) (simp_all add: pc_after_def)
  next
    case waits
    have a: "ad_changed a = ad_changed (as_admission S)" using waits(5) by simp
    obtain j where j: "j < length (as_calls S)" "j \<noteq> i" "awake S (ac_pc (as_calls S ! j))"
        "ac_organization (as_calls S ! j) = ac_organization c"
      using sleeper_has_waker [OF inv i c waits(2,3)] .
    from alert_other [OF j a] waits(1) a show ?thesis
      by (intro guarded_quiet [OF inv(2) i c(1) a]) (auto simp: pc_after_def)
  qed
qed

lemma guarded_step: "admission_step impatient s S S' \<Longrightarrow> counted s S \<Longrightarrow> guarded S \<Longrightarrow> guarded S'"
proof (induction rule: admission_step.induct)
  case (loop i S queued r a)
  then show ?case by (intro guarded_loop [OF _ _ _ refl])
next
  case (leave i S e)
  then show ?case by (intro guarded_notify) simp_all
next
  case (release i S)
  then show ?case by (intro guarded_notify) simp_all
qed (use guarded_same [OF _ _ _ refl, of S i _ _ for S i] in \<open>force simp: awake_def\<close>)+

section \<open>Every call returns\<close>

text \<open>
  How often a call may still close the channel, and how many steps it is away from its end or
  from sleeping on the open channel.
\<close>

fun closes :: "admission_pc \<Rightarrow> nat" where
  "closes Calling = 2" | "closes (Looping queued) = 2" | "closes (Waiting c n) = 2" | "closes (Leaving e) = 1"
| "closes Holding = 1" | "closes Unlimited = 0" | "closes (Returned r) = 0"

fun steps_left :: "nat \<Rightarrow> admission_pc \<Rightarrow> nat" where
  "steps_left ch Calling = 5" | "steps_left ch (Looping queued) = (if queued then 2 else 4)"
| "steps_left ch (Waiting c n) = (if c < ch then 3 else 1)" | "steps_left ch (Leaving e) = 1"
| "steps_left ch Holding = 1" | "steps_left ch Unlimited = 1" | "steps_left ch (Returned r) = 0"

definition closes_left :: "admission_sys \<Rightarrow> nat" where
  "closes_left S = (\<Sum>c \<leftarrow> as_calls S. closes (ac_pc c))"

definition distance :: "admission_sys \<Rightarrow> nat" where
  "distance S = (\<Sum>c \<leftarrow> as_calls S. steps_left (ad_changed (as_admission S)) (ac_pc c))"

definition admission_rel :: "(admission_sys \<times> admission_sys) set" where
  "admission_rel = measures [closes_left, distance]"

lemma sum_list_move:
  "i < length xs \<Longrightarrow> (\<Sum>x \<leftarrow> xs[i := y]. f x) + f (xs ! i) = (\<Sum>x \<leftarrow> xs. f x) + (f y :: nat)"
proof (induction xs arbitrary: i)
  case (Cons x xs)
  then show ?case by (cases i) auto
qed simp

lemma closes_left_goto:
  assumes "i < length (as_calls S)" and "ac_pc (as_calls S ! i) = old" and "closes pc < closes old"
  shows "(goto i pc (S\<lparr>as_admission := a\<rparr>), S) \<in> admission_rel"
  using sum_list_move [OF assms(1), of "\<lambda>c. closes (ac_pc c)" "(as_calls S ! i)\<lparr>ac_pc := pc\<rparr>"] assms(2,3)
  unfolding admission_rel_def by (intro measures_less) (simp add: closes_left_def)

lemma distance_goto:
  assumes i: "i < length (as_calls S)" and "ac_pc (as_calls S ! i) = old" and "closes pc = closes old"
    and "ad_changed a = ad_changed (as_admission S)"
    and "steps_left (ad_changed (as_admission S)) pc < steps_left (ad_changed (as_admission S)) old"
  shows "(goto i pc (S\<lparr>as_admission := a\<rparr>), S) \<in> admission_rel"
unfolding admission_rel_def
proof (rule measures_lesseq)
  show "closes_left (goto i pc (S\<lparr>as_admission := a\<rparr>)) \<le> closes_left S"
    using sum_list_move [OF i, of "\<lambda>c. closes (ac_pc c)" "(as_calls S ! i)\<lparr>ac_pc := pc\<rparr>"] assms
    by (simp add: closes_left_def)
  have "distance (goto i pc (S\<lparr>as_admission := a\<rparr>)) < distance S"
    using sum_list_move [OF i, of "\<lambda>c. steps_left (ad_changed (as_admission S)) (ac_pc c)"
        "(as_calls S ! i)\<lparr>ac_pc := pc\<rparr>"] assms
    by (simp add: distance_def)
  then show "(goto i pc (S\<lparr>as_admission := a\<rparr>), S) \<in> measures [distance]" by (rule measures_less)
qed

lemma admission_step_decreases:
  "admission_step impatient s S S' \<Longrightarrow> counted s S \<Longrightarrow> (S', S) \<in> admission_rel"
proof (induction rule: admission_step.induct)
  case (call i S)
  then show ?case
    using closes_left_goto [OF call(1,2), of Unlimited "as_admission S"]
      distance_goto [OF call(1,2), of "Looping False" "as_admission S"] by simp
next
  case (loop i S q r a)
  have q: "q \<longrightarrow> queueable s (ac_organization (as_calls S ! i))"
    using loop(1,2,4) nth_mem [OF loop(1)] unfolding counted_def by fastforce
  from loop(3) q show ?case
  proof (cases rule: try_admission_cases)
    case waits
    then have "ad_changed a = ad_changed (as_admission S)" by simp
    with waits(1) show ?thesis by (intro distance_goto [OF loop(1,2)]) (simp_all add: pc_after_def)
  qed (rule closes_left_goto [OF loop(1,2)], simp add: pc_after_def)+
next
  case (wake i S c n)
  then show ?case using distance_goto [OF wake(1,2), of "Looping True" "as_admission S"] by simp
next
  case (timeout i S c n)
  then show ?case using closes_left_goto [OF timeout(2,3), of _ "as_admission S"] by simp
next
  case (cancel i S c n)
  then show ?case using closes_left_goto [OF cancel(2,3), of _ "as_admission S"] by simp
next
  case (finish i S)
  then show ?case using distance_goto [OF finish(1,2), of "Returned None" "as_admission S"] by simp
qed (rule closes_left_goto, assumption, assumption, simp)+

definition all_returned :: "admission_sys \<Rightarrow> bool" where
  "all_returned S \<longleftrightarrow> (\<forall>c \<in> set (as_calls S). \<exists>r. ac_pc c = Returned r)"

lemma active_call_steps:
  assumes i: "i < length (as_calls S)" and "\<And>r. ac_pc (as_calls S ! i) \<noteq> Returned r"
    and "\<And>c n. ac_pc (as_calls S ! i) = Waiting c n \<Longrightarrow> c < ad_changed (as_admission S)"
  shows "\<exists>S'. admission_step impatient s S S'"
proof (cases "ac_pc (as_calls S ! i)")
  case (Looping q)
  obtain r a where "try_admission s (ac_profile (as_calls S ! i)) (ac_organization (as_calls S ! i)) q (as_admission S) = (r, a)"
    by fastforce
  from admission_step.loop [OF i Looping this] show ?thesis by blast
qed (use assms in \<open>blast intro: admission_step.intros [OF i]\<close>)+

lemma admission_progress:
  assumes "guarded S" and "\<not> all_returned S"
  shows "\<exists>S'. admission_step impatient s S S'"
proof -
  from assms(2) obtain i where i: "i < length (as_calls S)" "\<And>r. ac_pc (as_calls S ! i) \<noteq> Returned r"
    unfolding all_returned_def by (metis in_set_conv_nth)
  show ?thesis
  proof (cases "\<exists>n. ac_pc (as_calls S ! i) = Waiting (ad_changed (as_admission S)) n")
    case True
    with assms(1) nth_mem [OF i(1)] have "alert S (ac_organization (as_calls S ! i))"
      unfolding guarded_def by (meson less_irrefl)
    then obtain j where j: "j < length (as_calls S)" "awake S (ac_pc (as_calls S ! j))"
      unfolding alert_def by (auto simp: in_set_conv_nth)
    show ?thesis by (rule active_call_steps [OF j(1)]) (use j(2) in \<open>auto simp: awake_def\<close>)
  next
    case False
    with assms(1) nth_mem [OF i(1)] have "c < ad_changed (as_admission S)" if "ac_pc (as_calls S ! i) = Waiting c n" for c n
      using that unfolding guarded_def by metis
    with i show ?thesis by (intro active_call_steps)
  qed
qed

section \<open>All runs\<close>

definition admission_inv :: "service \<Rightarrow> admission_sys \<Rightarrow> bool" where
  "admission_inv s S \<longleftrightarrow> counted s S \<and> within_limits s S \<and> guarded S"

lemma admission_inv_start: "admission_inv s (admission_start calls)"
proof -
  have "count P (as_calls (admission_start calls)) = 0" if "\<And>c. ac_pc c = Calling \<Longrightarrow> \<not> P c" for P
    using that by (auto simp: count_def admission_start_def filter_empty_conv)
  then show ?thesis
    unfolding admission_inv_def counted_def within_limits_def guarded_def
    by (auto simp: admission_start_def)
qed

interpretation admission: progress_system "admission_step impatient s" "admission_inv s" admission_rel all_returned
  for impatient s
proof unfold_locales
  show "wf admission_rel" by (simp add: admission_rel_def)
qed (auto simp: admission_inv_def intro: counted_step within_limits_step guarded_step
    admission_step_decreases admission_progress)

lemmas admission_inv_reachable = admission.holds_reachable [OF _ admission_inv_start]

text \<open>
  C8: however the calls for executions interleave, and whichever of them time out, are cancelled or
  finish, the executions of the service, of a profile and of an organisation that were admitted and
  not released never exceed the configured limits, and no more than the configured number of calls
  of an organisation are queued; limits that are not positive are off.
\<close>

theorem admission_limits:
  assumes "(admission_step impatient s)\<^sup>*\<^sup>* (admission_start calls) S"
  shows "within_limits s S"
  using admission_inv_reachable [OF assms] by (simp add: admission_inv_def)

text \<open>
  C9: every call returns. There is no infinite sequence of steps of the calls, and from every state
  in which some call has not returned there is a step that needs neither a timer nor a
  cancellation: no call sleeps on a channel that nobody is going to close.
\<close>

theorem admission_terminates:
  "\<not> (\<exists>run. run 0 = admission_start calls \<and> (\<forall>i. admission_step impatient s (run i) (run (Suc i))))
   \<and> (\<forall>S. (admission_step impatient s)\<^sup>*\<^sup>* (admission_start calls) S \<and> \<not> all_returned S \<longrightarrow>
        (\<exists>S'. admission_step False s S S'))"
proof (intro conjI allI impI)
  show "\<not> (\<exists>run. run 0 = admission_start calls \<and> (\<forall>i. admission_step impatient s (run i) (run (Suc i))))"
    using admission.no_infinite_run admission_inv_start by metis
  show "\<exists>S'. admission_step False s S S'"
    if "(admission_step impatient s)\<^sup>*\<^sup>* (admission_start calls) S \<and> \<not> all_returned S" for S
    using that admission_inv_reachable admission.progress by blast
qed

text \<open>
  a call that is not queued is never admitted ahead of the queue of its organisation.
\<close>

theorem newcomer_waits_behind_queue:
  assumes "(admission_step impatient s)\<^sup>*\<^sup>* (admission_start calls) S" and "admission_step impatient s S S'"
    and i: "i < length (as_calls S)" "ac_pc (as_calls S ! i) = Looping False" "ac_pc (as_calls S' ! i) = Holding"
    and "organization_limit s > 0" and "ac_organization (as_calls S ! i) \<noteq> []"
  shows "waiters S (ac_organization (as_calls S ! i)) = 0"
proof -
  have inv: "counted s S" using admission_inv_reachable [OF assms(1)] by (simp add: admission_inv_def)
  from assms(2) i show ?thesis
  proof (cases rule: admission_step.cases)
    case (loop j q r a)
    with i have "j = i" "q = False" by (auto split: if_splits simp: nth_list_update)
    with loop i have "pc_after r = Holding" by simp
    have "False \<longrightarrow> queueable s (ac_organization (as_calls S ! i))" by simp
    with loop(4) show ?thesis unfolding \<open>j = i\<close> \<open>q = False\<close>
    proof (cases rule: try_admission_cases)
      case admitted
      with assms(6,7) inv show ?thesis by (simp add: counted_def)
    qed (use \<open>pc_after r = Holding\<close> in \<open>auto simp: pc_after_def\<close>)
  qed (auto simp: nth_list_update split: if_splits)
qed

end
