(* ===== verification/Sandbox_Limits.thy ===== *)
theory Sandbox_Limits
  imports Sandbox_Policy
begin

text \<open>
  The bounds that the policy service puts on commands, templates and lifetimes, and where the
  64-bit arithmetic of the source leaves them.
\<close>

section \<open>Clamping\<close>

text \<open>Every limit is cut to a ceiling, if there is one, and a limit that is not positive becomes a default.\<close>

definition clamp :: "int \<Rightarrow> int \<Rightarrow> int \<Rightarrow> int" where
  "clamp ceiling dflt v = at_least_one dflt (if ceiling > 0 \<and> v > ceiling then ceiling else v)"

lemma clamp_pos: "0 < dflt \<Longrightarrow> 0 < clamp ceiling dflt v"
  by (simp add: clamp_def at_least_one_def)

lemma clamp_le: "0 < ceiling \<Longrightarrow> clamp ceiling dflt v \<le> max ceiling dflt"
  by (auto simp: clamp_def at_least_one_def)

lemma clamp_exact: "0 < ceiling \<Longrightarrow> 0 < v \<Longrightarrow> clamp ceiling dflt v = min v ceiling"
  by (simp add: clamp_def at_least_one_def)

text \<open>What is asked for: milliseconds before seconds before the limit of the profile.\<close>

definition requested_timeout :: "command_limits \<Rightarrow> int \<Rightarrow> int \<Rightarrow> int" where
  "requested_timeout profile seconds ms =
     (if ms > 0 then ms * Millisecond else if seconds > 0 then seconds * Second else cl_Timeout profile)"

definition requested_output :: "int \<Rightarrow> int \<Rightarrow> int" where
  "requested_output dflt kb = (if kb > 0 then kb * 1024 else dflt)"

definition command_profile :: "service \<Rightarrow> string \<Rightarrow> command_limits option" where
  "command_profile s profile =
     map_of (sv_commandProfiles s) (if trim_space profile = [] then ''skill-python'' else trim_space profile)"

abbreviation max_timeout :: "service \<Rightarrow> int" where
  "max_timeout s \<equiv> times (cf_CommandTimeout (sv_config s)) Second"

abbreviation max_output :: "service \<Rightarrow> int" where
  "max_output s \<equiv> int64 (cf_OutputLimitKB (sv_config s) * 1024)"

lemma command_limitsE:
  assumes "NormalizeCommandLimits s profile seconds ms out err = Inr l"
  obtains p where "command_profile s profile = Some p"
    and "cl_Timeout l = clamp (max_timeout s) (5 * Second)
           (if ms > 0 then times ms Millisecond else if seconds > 0 then times seconds Second else cl_Timeout p)"
    and "cl_StdoutLimitBytes l = clamp (max_output s) (64 * 1024) (if out > 0 then int64 (out * 1024) else cl_StdoutLimitBytes p)"
    and "cl_StderrLimitBytes l = clamp (max_output s) (64 * 1024) (if err > 0 then int64 (err * 1024) else cl_StderrLimitBytes p)"
    and "cl_Profile l = cl_Profile p" and "cl_Stateless l = cl_Stateless p" and "cl_NetworkAllowed l = cl_NetworkAllowed p"
    and "0 < cl_MaxResultJSONBytes l" and "0 < cl_MaxRequestBytes l"
proof -
  from assms obtain p where p: "command_profile s profile = Some p"
    by (auto simp: NormalizeCommandLimits_def Let_def command_profile_def split: option.splits)
  with assms show ?thesis
    by (intro that [of p])
      (auto simp: NormalizeCommandLimits_def command_profile_def Let_def clamp_def at_least_one_def)
qed

text \<open>
  The limits of a command. Whatever a request asks for, the limits are positive, the flags and
  the name are those of the selected profile, and where the operator has set a ceiling the
  timeout exceeds neither it nor the default of 5 s, and the output neither it nor the default of
  64 KiB.
\<close>

theorem command_limits_bounded:
  assumes "NormalizeCommandLimits s profile seconds ms out err = Inr l"
  shows "0 < cl_Timeout l \<and> 0 < cl_StdoutLimitBytes l \<and> 0 < cl_StderrLimitBytes l
    \<and> 0 < cl_MaxResultJSONBytes l \<and> 0 < cl_MaxRequestBytes l
    \<and> (0 < max_timeout s \<longrightarrow> cl_Timeout l \<le> max (max_timeout s) (5 * Second))
    \<and> (0 < max_output s \<longrightarrow> cl_StdoutLimitBytes l \<le> max (max_output s) (64 * 1024)
         \<and> cl_StderrLimitBytes l \<le> max (max_output s) (64 * 1024))
    \<and> (\<exists>p. command_profile s profile = Some p \<and> cl_Profile l = cl_Profile p
         \<and> cl_Stateless l = cl_Stateless p \<and> cl_NetworkAllowed l = cl_NetworkAllowed p)"
  using assms
  by (rule command_limitsE) (simp add: clamp_pos clamp_le)

text \<open>
  A request within 64 bits gets what it asks for, up to the ceiling of the operator: the
  timeout and the sizes of the outputs are the smaller ones of the two.
\<close>

theorem command_limits_exact:
  assumes "NormalizeCommandLimits s profile seconds ms out err = Inr l"
    and "command_profile s profile = Some p"
    and "0 < cl_Timeout p" and "0 < cl_StdoutLimitBytes p" and "0 < cl_StderrLimitBytes p"
    and "int64_range (seconds * Second)" and "int64_range (ms * Millisecond)"
    and "int64_range (out * 1024)" and "int64_range (err * 1024)"
    and "0 < max_timeout s" and "0 < max_output s"
  shows "cl_Timeout l = min (requested_timeout p seconds ms) (max_timeout s)
    \<and> cl_StdoutLimitBytes l = min (requested_output (cl_StdoutLimitBytes p) out) (max_output s)
    \<and> cl_StderrLimitBytes l = min (requested_output (cl_StderrLimitBytes p) err) (max_output s)"
  using assms(1)
proof (rule command_limitsE)
  note exact = times_exact [OF assms(6)] times_exact [OF assms(7)] int64_id [OF assms(8)] int64_id [OF assms(9)]
  fix p' assume "command_profile s profile = Some p'"
  with assms(2) have [simp]: "p' = p" by simp
  assume "cl_Timeout l = clamp (max_timeout s) (5 * Second)
           (if ms > 0 then times ms Millisecond else if seconds > 0 then times seconds Second else cl_Timeout p')"
    "cl_StdoutLimitBytes l = clamp (max_output s) (64 * 1024) (if out > 0 then int64 (out * 1024) else cl_StdoutLimitBytes p')"
    "cl_StderrLimitBytes l = clamp (max_output s) (64 * 1024) (if err > 0 then int64 (err * 1024) else cl_StderrLimitBytes p')"
  with assms(3-5,10,11) show ?thesis
    by (simp add: exact clamp_exact requested_timeout_def requested_output_def)
qed

text \<open>
  A request for milliseconds that overflows is replaced by the default of 5 s, also when the
  ceiling of the operator is smaller.
\<close>

lemma command_timeout_overflow:
  assumes "NormalizeCommandLimits s profile seconds 9223372036855 out err = Inr l"
  shows "cl_Timeout l = 5 * Second"
  using assms by (rule command_limitsE) (simp add: times_def int64_def clamp_def at_least_one_def)

section \<open>Lifetimes\<close>

lemma normalizeTTL_le: "normalizeTTL s profile seconds \<le> maxTTL s profile"
  by (simp add: normalizeTTL_def Let_def)

lemma normalizeTTL_exact:
  "int64_range (seconds * Second) \<Longrightarrow>
   normalizeTTL s profile seconds = (if seconds \<le> 0 then maxTTL s profile else min (seconds * Second) (maxTTL s profile))"
  by (simp add: normalizeTTL_def Let_def times_exact)

lemma normalizeTTL_overflow: "normalizeTTL s profile 9223372037 \<le> -9223372036709551616"
  by (simp add: normalizeTTL_def Let_def times_def int64_def)

end
