(* ===== verification/Sandbox_Observer.thy ===== *)
theory Sandbox_Observer
  imports Sandbox_Model
begin

text \<open>
  The recorder of events (\<open>observer/recorder.go\<close>) with its store in memory: a bounded list of
  events, the newest one first, and the queries on it.
\<close>

record event =
  ev_ID :: string
  ev_SandboxID :: string
  ev_Type :: string
  ev_Message :: string
  ev_CreatedAt :: time
  ev_Metadata :: dict

record recorder =
  rc_events :: "event list"
  rc_limit :: int

text \<open>A field of a query that is the empty string, the zero time or not positive is not a condition.\<close>

record event_query =
  qu_SandboxID :: string
  qu_Type :: string
  qu_TypePrefix :: string
  qu_OrganizationID :: string
  qu_WorkspaceID :: string
  qu_AppID :: string
  qu_WorkflowRunID :: string
  qu_UserID :: string
  qu_RequestID :: string
  qu_Limit :: int
  qu_After :: "time option"
  qu_Before :: "time option"

definition newRecorder :: "int \<Rightarrow> recorder" where
  "newRecorder limit = \<lparr>rc_events = [], rc_limit = (if limit \<le> 0 then 500 else limit)\<rparr>"

definition AppendEvent :: "event \<Rightarrow> recorder \<Rightarrow> recorder" where
  "AppendEvent e r =
     (let events = e # rc_events r
      in r\<lparr>rc_events := (if int (length events) > rc_limit r then take (nat (rc_limit r)) events else events)\<rparr>)"

definition metadataString :: "dict \<Rightarrow> string \<Rightarrow> string" where
  "metadataString metadata key = (case is_string metadata key of Some s \<Rightarrow> s | None \<Rightarrow> [])"

definition query_matches :: "event_query \<Rightarrow> event \<Rightarrow> bool" where
  "query_matches q e \<longleftrightarrow>
     (qu_SandboxID q = [] \<or> ev_SandboxID e = qu_SandboxID q)
     \<and> (qu_Type q = [] \<or> ev_Type e = qu_Type q)
     \<and> (qu_TypePrefix q = [] \<or> has_prefix (ev_Type e) (qu_TypePrefix q))
     \<and> (qu_OrganizationID q = [] \<or> metadataString (ev_Metadata e) ''organization_id'' = qu_OrganizationID q)
     \<and> (qu_WorkspaceID q = [] \<or> metadataString (ev_Metadata e) ''workspace_id'' = qu_WorkspaceID q)
     \<and> (qu_AppID q = [] \<or> metadataString (ev_Metadata e) ''app_id'' = qu_AppID q)
     \<and> (qu_WorkflowRunID q = [] \<or> metadataString (ev_Metadata e) ''workflow_run_id'' = qu_WorkflowRunID q)
     \<and> (qu_UserID q = [] \<or> metadataString (ev_Metadata e) ''user_id'' = qu_UserID q)
     \<and> (qu_RequestID q = [] \<or> metadataString (ev_Metadata e) ''request_id'' = qu_RequestID q)
     \<and> (case qu_After q of None \<Rightarrow> True | Some t \<Rightarrow> ev_CreatedAt e > t)
     \<and> (case qu_Before q of None \<Rightarrow> True | Some t \<Rightarrow> ev_CreatedAt e < t)"

text \<open>The loop of \<open>QueryEvents\<close>: the events found so far, in order, and the rest of the list.\<close>

fun query_loop :: "event_query \<Rightarrow> event list \<Rightarrow> event list \<Rightarrow> event list" where
  "query_loop q found [] = found"
| "query_loop q found (e # es) =
     (if \<not> query_matches q e then query_loop q found es
      else let found = found @ [e]
           in if qu_Limit q > 0 \<and> int (length found) \<ge> qu_Limit q then found else query_loop q found es)"

definition QueryEvents :: "event_query \<Rightarrow> recorder \<Rightarrow> event list" where
  "QueryEvents q r = query_loop q [] (rc_events r)"

section \<open>The recorder is a bounded log\<close>

lemma query_loop_spec:
  assumes "qu_Limit q > 0 \<Longrightarrow> int (length found) < qu_Limit q"
  shows "query_loop q found es =
    (if qu_Limit q > 0 then take (nat (qu_Limit q)) (found @ filter (query_matches q) es)
     else found @ filter (query_matches q) es)"
  using assms
proof (induction es arbitrary: found)
  case (Cons e es)
  then show ?case
    by (cases "qu_Limit q > 0 \<and> int (length found) + 1 \<ge> qu_Limit q") (auto simp: Let_def take_Cons')
qed auto

lemma AppendEvent_limit [simp]: "rc_limit (AppendEvent e r) = rc_limit r"
  by (simp add: AppendEvent_def Let_def)

lemma AppendEvent_take:
  assumes "rc_events r = take (nat (rc_limit r)) log" and "0 < rc_limit r"
  shows "rc_events (AppendEvent e r) = take (nat (rc_limit r)) (e # log)"
  using assms by (auto simp: AppendEvent_def Let_def min_def take_Cons')

text \<open>
  The recorder keeps the newest events. Whatever is recorded from the start on, a query gives
  the newest events, in the order from new to old and among the last \<open>limit\<close> ones, that satisfy
  its conditions, as many as it asks for.
\<close>

theorem recorder_bounded_log:
  "QueryEvents q (fold AppendEvent es (newRecorder limit)) =
     (let matching = filter (query_matches q) (take (nat (if limit \<le> 0 then 500 else limit)) (rev es))
      in if qu_Limit q > 0 then take (nat (qu_Limit q)) matching else matching)"
proof -
  have "rc_limit (fold AppendEvent es r) = rc_limit r" for r
    by (induction es arbitrary: r) auto
  moreover have "rc_events (fold AppendEvent es r) = take (nat (rc_limit r)) (rev es @ log)"
    if "rc_events r = take (nat (rc_limit r)) log" and "0 < rc_limit r" for r log
    using that
  proof (induction es arbitrary: r log)
    case (Cons e es)
    show ?case using Cons.IH [OF _ , of "AppendEvent e r" "e # log"] AppendEvent_take [OF Cons.prems] Cons.prems(2)
      by simp
  qed simp
  from this [of "newRecorder limit" "[]"] show ?thesis
    by (simp add: QueryEvents_def query_loop_spec newRecorder_def Let_def)
qed

end
