(* ===== verification/Sandbox_Cache.thy ===== *)
theory Sandbox_Cache
  imports Sandbox_Model
begin

text \<open>
  The caches of sandboxes: the interface \<open>Cache\<close> of the manager, its two implementations in
  memory (\<open>noopCache\<close> of \<open>lifecycle/manager.go\<close> and \<open>memorySandboxCache\<close> of \<open>cache/cache.go\<close>),
  and the contract that both keep. The manager ignores the errors of the cache, so an operation
  is its effect on the state; a lookup that fails is a miss.
\<close>

record 'c cache_ops =
  c_get :: "'c \<Rightarrow> time \<Rightarrow> string \<Rightarrow> sandbox option \<times> 'c"
  c_set :: "'c \<Rightarrow> time \<Rightarrow> sandbox \<Rightarrow> duration \<Rightarrow> 'c"
  c_delete :: "'c \<Rightarrow> string \<Rightarrow> 'c"

section \<open>The contract\<close>

text \<open>
  \<open>entry c sid\<close> is what the cache holds for \<open>sid\<close>. A lookup gives nothing else, no operation
  invents an entry, a write stores the new value or drops the entry, and a deletion removes it.
\<close>

locale sandbox_cache =
  fixes ops :: "'c cache_ops" and entry :: "'c \<Rightarrow> string \<Rightarrow> sandbox option"
  assumes get_entry: "c_get ops c now sid = (Some b, c') \<Longrightarrow> entry c sid = Some b"
    and get_keeps: "c_get ops c now sid = (r, c') \<Longrightarrow> entry c' j \<in> {entry c j, None}"
    and set_entry: "entry (c_set ops c now b ttl) j \<in> {if j = sb_ID b then Some b else entry c j, None}"
    and delete_entry: "entry (c_delete ops c sid) j \<in> {if j = sid then None else entry c j, None}"
begin

text \<open>A relation between the cached and the true value of each name, kept by the operations.\<close>

definition agrees :: "(sandbox \<Rightarrow> sandbox \<Rightarrow> bool) \<Rightarrow> (string \<Rightarrow> sandbox option) \<Rightarrow> 'c \<Rightarrow> bool" where
  "agrees R truth c \<longleftrightarrow> (\<forall>sid b. entry c sid = Some b \<longrightarrow> (\<exists>b'. truth sid = Some b' \<and> R b b'))"

lemma agrees_get:
  assumes "agrees R truth c" and "c_get ops c now sid = (r, c')"
  shows "agrees R truth c'"
  unfolding agrees_def
proof (intro allI impI)
  fix j a assume "entry c' j = Some a"
  with get_keeps [OF assms(2), of j] have "entry c j = Some a" by auto
  with assms(1) show "\<exists>b'. truth j = Some b' \<and> R a b'" unfolding agrees_def by blast
qed

lemma agrees_hit: "agrees R truth c \<Longrightarrow> c_get ops c now sid = (Some b, c') \<Longrightarrow> \<exists>b'. truth sid = Some b' \<and> R b b'"
  unfolding agrees_def using get_entry by blast

lemma agrees_set:
  assumes "agrees R truth c" and "truth (sb_ID b) = Some b'" and "R b b'"
  shows "agrees R truth (c_set ops c now b ttl)"
  unfolding agrees_def
proof (intro allI impI)
  fix sid a assume "entry (c_set ops c now b ttl) sid = Some a"
  with set_entry [of c now b ttl sid] have "(if sid = sb_ID b then Some b else entry c sid) = Some a" by auto
  with assms show "\<exists>b'. truth sid = Some b' \<and> R a b'"
    unfolding agrees_def by (cases "sid = sb_ID b") auto
qed

text \<open>A change of one value, followed by the deletion of its entry or by the write of the new value.\<close>

lemma agrees_update_delete:
  assumes "agrees R truth c"
  shows "agrees R (truth(sid := v)) (c_delete ops c sid)"
  unfolding agrees_def
proof (intro allI impI)
  fix j a assume "entry (c_delete ops c sid) j = Some a"
  with delete_entry [of c sid j] have "j \<noteq> sid" "entry c j = Some a" by (auto split: if_splits)
  with assms show "\<exists>b'. (truth(sid := v)) j = Some b' \<and> R a b'" unfolding agrees_def by auto
qed

lemma agrees_update_set:
  assumes "agrees R truth c" and "R b b"
  shows "agrees R (truth(sb_ID b \<mapsto> b)) (c_set ops c now b ttl)"
  unfolding agrees_def
proof (intro allI impI)
  fix j a assume "entry (c_set ops c now b ttl) j = Some a"
  with set_entry [of c now b ttl j] have "(if j = sb_ID b then Some b else entry c j) = Some a" by auto
  with assms show "\<exists>b'. (truth(sb_ID b \<mapsto> b)) j = Some b' \<and> R a b'"
    unfolding agrees_def by (cases "j = sb_ID b") auto
qed

end

section \<open>The cache that holds nothing\<close>

definition noopCache :: "unit cache_ops" where
  "noopCache = \<lparr>c_get = \<lambda>c now sid. (None, c), c_set = \<lambda>c now b ttl. c, c_delete = \<lambda>c sid. c\<rparr>"

interpretation noop: sandbox_cache noopCache "\<lambda>c sid. None"
  by unfold_locales (auto simp: noopCache_def)

section \<open>The cache in memory\<close>

text \<open>An entry without a time of expiry (the zero time of the source) does not expire.\<close>

record memory_item =
  mi_box :: sandbox
  mi_expiresAt :: "time option"

type_synonym memory_cache = "(string, memory_item) gomap"

definition newMemorySandboxCache :: memory_cache where
  "newMemorySandboxCache = []"

definition memory_Delete :: "memory_cache \<Rightarrow> string \<Rightarrow> memory_cache" where
  "memory_Delete items sid = AList.delete sid items"

definition memory_Get :: "memory_cache \<Rightarrow> time \<Rightarrow> string \<Rightarrow> sandbox option \<times> memory_cache" where
  "memory_Get items now sid =
     (case map_of items sid of
        None \<Rightarrow> (None, items)
      | Some item \<Rightarrow>
          (case mi_expiresAt item of
             Some t \<Rightarrow> if now > t then (None, memory_Delete items sid) else (Some (mi_box item), items)
           | None \<Rightarrow> (Some (mi_box item), items)))"

definition memory_Set :: "memory_cache \<Rightarrow> time \<Rightarrow> sandbox \<Rightarrow> duration \<Rightarrow> memory_cache" where
  "memory_Set items now box ttl =
     AList.update (sb_ID box) \<lparr>mi_box = box, mi_expiresAt = (if ttl > 0 then Some (now + ttl) else None)\<rparr> items"

definition memorySandboxCache :: "memory_cache cache_ops" where
  "memorySandboxCache = \<lparr>c_get = memory_Get, c_set = memory_Set, c_delete = memory_Delete\<rparr>"

interpretation memory: sandbox_cache memorySandboxCache "\<lambda>items sid. map_option mi_box (map_of items sid)"
proof
  fix c c' :: memory_cache and now sid b r j ttl
  show "c_get memorySandboxCache c now sid = (Some b, c') \<Longrightarrow> map_option mi_box (map_of c sid) = Some b"
    by (auto simp: memorySandboxCache_def memory_Get_def split: option.splits if_splits)
  show "c_get memorySandboxCache c now sid = (r, c') \<Longrightarrow>
      map_option mi_box (map_of c' j) \<in> {map_option mi_box (map_of c j), None}"
    by (auto simp: memorySandboxCache_def memory_Get_def memory_Delete_def delete_conv' split: option.splits if_splits)
  show "map_option mi_box (map_of (c_set memorySandboxCache c now b ttl) j)
      \<in> {if j = sb_ID b then Some b else map_option mi_box (map_of c j), None}"
    by (simp add: memorySandboxCache_def memory_Set_def update_conv')
  show "map_option mi_box (map_of (c_delete memorySandboxCache c sid) j)
      \<in> {if j = sid then None else map_option mi_box (map_of c j), None}"
    by (simp add: memorySandboxCache_def memory_Delete_def delete_conv')
qed

text \<open>An entry that was written is found until its time has passed.\<close>

lemma memory_hit:
  assumes "ttl > 0" and "now' \<le> now + ttl"
  shows "memory_Get (memory_Set items now box ttl) now' (sb_ID box) = (Some box, memory_Set items now box ttl)"
  using assms by (simp add: memory_Get_def memory_Set_def update_conv')

end
