(* ===== verification/Go_Netip.thy ===== *)
theory Go_Netip
  imports Go_Strings
begin

text \<open>
  The part of Go's \<open>net/netip\<close> that the egress policy uses: addresses, their text form, prefixes
  and \<open>Prefix.Contains\<close>. An IPv4 address that is written inside an IPv6 address stays an IPv6
  address, as in Go.
\<close>

section \<open>Addresses and prefixes\<close>

datatype ip_addr = IPv4 "32 word" | IPv6 "128 word" string

text \<open>A prefix is an address, which need not be masked, and a number of bits.\<close>

datatype ip_prefix = Prefix ip_addr nat

text \<open>
  \<open>Contains\<close>: an address with a zone is in no prefix, the families must agree, and the first
  \<open>n\<close> bits must be equal.
\<close>

fun prefix_contains :: "ip_prefix \<Rightarrow> ip_addr \<Rightarrow> bool" where
  "prefix_contains (Prefix (IPv4 p) n) (IPv4 a) \<longleftrightarrow> unat a div 2 ^ (32 - n) = unat p div 2 ^ (32 - n)"
| "prefix_contains (Prefix (IPv6 p z) n) (IPv6 a zone) \<longleftrightarrow> zone = [] \<and> unat a div 2 ^ (128 - n) = unat p div 2 ^ (128 - n)"
| "prefix_contains _ _ \<longleftrightarrow> False"

section \<open>Text forms\<close>

fun split_on :: "char \<Rightarrow> string \<Rightarrow> string list" where
  "split_on c [] = [[]]"
| "split_on c (x # s) =
     (if x = c then [] # split_on c s
      else case split_on c s of [] \<Rightarrow> [[x]] | f # fs \<Rightarrow> (x # f) # fs)"

definition is_digit :: "char \<Rightarrow> bool" where
  "is_digit c \<longleftrightarrow> (let n = of_char c :: nat in 48 \<le> n \<and> n \<le> 57)"

definition digit_value :: "char \<Rightarrow> nat" where
  "digit_value c =
     (let n = of_char c :: nat
      in if n \<le> 57 then n - 48 else if n \<le> 70 then n - 55 else n - 87)"

definition is_hex :: "char \<Rightarrow> bool" where
  "is_hex c \<longleftrightarrow> is_digit c \<or> (let n = of_char c :: nat in 65 \<le> n \<and> n \<le> 70 \<or> 97 \<le> n \<and> n \<le> 102)"

definition numeral_value :: "nat \<Rightarrow> string \<Rightarrow> nat" where
  "numeral_value base s = foldl (\<lambda>acc c. acc * base + digit_value c) 0 s"

text \<open>\<open>strconv.Atoi\<close>: an optional sign and decimal digits, within 64 bits.\<close>

definition atoi :: "string \<Rightarrow> int option" where
  "atoi s =
     (let neg = (s \<noteq> [] \<and> hd s = CHR ''-'');
          ds = (if s \<noteq> [] \<and> (hd s = CHR ''-'' \<or> hd s = CHR ''+'') then tl s else s)
      in if ds = [] \<or> \<not> list_all is_digit ds then None
         else let v = int (numeral_value 10 ds); v = (if neg then - v else v)
              in if int64_range v then Some v else None)"

definition parse_octet :: "string \<Rightarrow> nat option" where
  "parse_octet s =
     (if s = [] \<or> \<not> list_all is_digit s \<or> (1 < length s \<and> hd s = CHR ''0'') then None
      else let v = numeral_value 10 s in if 255 < v then None else Some v)"

definition parse_ipv4 :: "string \<Rightarrow> nat option" where
  "parse_ipv4 s =
     (case map parse_octet (split_on (CHR ''.'') s) of
        [Some a, Some b, Some c, Some d] \<Rightarrow> Some (((a * 256 + b) * 256 + c) * 256 + d)
      | _ \<Rightarrow> None)"

text \<open>
  The 16-bit groups of an IPv6 address: how many there are, the position of the ellipsis, the
  groups so far, and the rest of the text.
\<close>

function ipv6_groups :: "nat option \<Rightarrow> nat list \<Rightarrow> string \<Rightarrow> (nat option \<times> nat list) option" where
  "ipv6_groups ell gs s =
     (if 8 \<le> length gs then (if s = [] then Some (ell, gs) else None)
      else
        let h = takeWhile is_hex s; v = numeral_value 16 h
        in if h = [] \<or> 4 < length h then None
           else case dropWhile is_hex s of
             [] \<Rightarrow> Some (ell, gs @ [v])
           | c # r \<Rightarrow>
               if c = CHR ''.''
               then (if ell = None \<and> length gs \<noteq> 6 then None
                     else if 8 < length gs + 2 then None
                     else case parse_ipv4 s of None \<Rightarrow> None
                       | Some a \<Rightarrow> Some (ell, gs @ [a div 65536, a mod 65536]))
               else if c \<noteq> CHR '':'' then None
               else if r = [] then None
               else if hd r \<noteq> CHR '':'' then ipv6_groups ell (gs @ [v]) r
               else if ell \<noteq> None then None
               else if tl r = [] then Some (Some (Suc (length gs)), gs @ [v])
               else ipv6_groups (Some (Suc (length gs))) (gs @ [v]) (tl r))"
  by pat_completeness auto
termination
proof (relation "measure (\<lambda>(_, _, s). length s)")
  fix s :: string and c r assume "dropWhile is_hex s = c # r"
  then have "length r < length s"
    by (metis Suc_le_eq length_Cons length_dropWhile_le)
  then show "((ell', gs', r), ell, gs, s) \<in> measure (\<lambda>(_, _, s). length s)"
    and "((ell', gs', tl r), ell, gs, s) \<in> measure (\<lambda>(_, _, s). length s)"
    for ell' ell :: "nat option" and gs' gs :: "nat list"
    by auto
qed simp

declare ipv6_groups.simps [simp del]

definition ipv6_value :: "nat list \<Rightarrow> 128 word" where
  "ipv6_value gs = of_nat (foldl (\<lambda>acc g. acc * 65536 + g) 0 gs)"

definition parse_ipv6_plain :: "string \<Rightarrow> (128 word) option" where
  "parse_ipv6_plain s =
     (let lead = (take 2 s = ''::'')
      in if s = ''::'' then Some 0
         else case ipv6_groups (if lead then Some 0 else None) [] (if lead then drop 2 s else s) of
           None \<Rightarrow> None
         | Some (None, gs) \<Rightarrow> if length gs < 8 then None else Some (ipv6_value gs)
         | Some (Some e, gs) \<Rightarrow>
             if length gs < 8 then Some (ipv6_value (take e gs @ replicate (8 - length gs) 0 @ drop e gs)) else None)"

definition parse_ipv6 :: "string \<Rightarrow> ip_addr option" where
  "parse_ipv6 s =
     (if CHR ''%'' \<in> set s
      then let a = takeWhile (\<lambda>c. c \<noteq> CHR ''%'') s; zone = tl (dropWhile (\<lambda>c. c \<noteq> CHR ''%'') s)
           in if zone = [] then None else map_option (\<lambda>w. IPv6 w zone) (parse_ipv6_plain a)
      else map_option (\<lambda>w. IPv6 w []) (parse_ipv6_plain s))"

definition ParseAddr :: "string \<Rightarrow> ip_addr option" where
  "ParseAddr s =
     (case find (\<lambda>c. c \<in> {CHR ''.'', CHR '':'', CHR ''%''}) s of
        None \<Rightarrow> None
      | Some c \<Rightarrow>
          if c = CHR ''.'' then map_option (\<lambda>n. IPv4 (of_nat n)) (parse_ipv4 s)
          else if c = CHR '':'' then parse_ipv6 s else None)"

definition max_bits :: "ip_addr \<Rightarrow> nat" where
  "max_bits a = (case a of IPv4 _ \<Rightarrow> 32 | IPv6 _ _ \<Rightarrow> 128)"

definition has_zone :: "ip_addr \<Rightarrow> bool" where
  "has_zone a \<longleftrightarrow> (case a of IPv4 _ \<Rightarrow> False | IPv6 _ z \<Rightarrow> z \<noteq> [])"

text \<open>The text is split at the last slash; the number of bits has no sign and no leading zero.\<close>

definition ParsePrefix :: "string \<Rightarrow> ip_prefix option" where
  "ParsePrefix s =
     (if CHR ''/'' \<notin> set s then None
      else let bits = rev (takeWhile (\<lambda>c. c \<noteq> CHR ''/'') (rev s));
               addr = rev (tl (dropWhile (\<lambda>c. c \<noteq> CHR ''/'') (rev s)))
           in case ParseAddr addr of
                None \<Rightarrow> None
              | Some a \<Rightarrow>
                  if has_zone a \<or> bits = [] \<or> \<not> list_all is_digit bits \<or> (1 < length bits \<and> hd bits = CHR ''0'') then None
                  else let n = numeral_value 10 bits in if max_bits a < n then None else Some (Prefix a n))"

lemma foldl_zeros: "foldl (\<lambda>acc g. acc * 65536 + g) a (replicate n 0) = a * (65536 :: nat) ^ n"
  by (induction n arbitrary: a) auto

lemmas netip_eval = foldl_zeros
  ParsePrefix_def ParseAddr_def parse_ipv6_def parse_ipv6_plain_def ipv6_groups.simps parse_ipv4_def parse_octet_def
  ipv6_value_def numeral_value_def digit_value_def is_digit_def is_hex_def max_bits_def has_zone_def Let_def

end
