(* ===== verification/Sandbox_Lifecycle.thy ===== *)
theory Sandbox_Lifecycle
  imports Sandbox_Limits Sandbox_Observer Sandbox_Cache Go_Netip
begin

text \<open>
  The manager of sandboxes (\<open>lifecycle/manager.go\<close>) with its store in memory, over any cache.
  An operation runs at one instant \<open>now\<close>. The store in memory reports no error but a missing
  item, so the branches of the source for other errors of a store do not occur. The random
  tokens come from a sequence, of which the state counts the draws, and the state of the
  file system is the list of the workspaces that exist.
\<close>

section \<open>The store in memory\<close>

record memory_store =
  ms_sandboxes :: "(string, sandbox) gomap"
  ms_endpoints :: "(string, endpoint) gomap"

definition newMemoryStore :: memory_store where
  "newMemoryStore = \<lparr>ms_sandboxes = [], ms_endpoints = []\<rparr>"

definition SaveSandbox :: "sandbox \<Rightarrow> memory_store \<Rightarrow> memory_store" where
  "SaveSandbox item s = s\<lparr>ms_sandboxes := AList.update (sb_ID item) item (ms_sandboxes s)\<rparr>"

definition GetSandbox :: "memory_store \<Rightarrow> string \<Rightarrow> string + sandbox" where
  "GetSandbox s sid = (case map_of (ms_sandboxes s) sid of None \<Rightarrow> Inl ''sandbox not found'' | Some item \<Rightarrow> Inr item)"

definition ListSandboxes :: "memory_store \<Rightarrow> sandbox list" where
  "ListSandboxes s = map snd (ms_sandboxes s)"

definition live :: "time \<Rightarrow> sandbox \<Rightarrow> bool" where
  "live now item \<longleftrightarrow> sb_Status item = StatusActive \<and> sb_ExpiresAt item > now"

definition CountActive :: "memory_store \<Rightarrow> string \<Rightarrow> time \<Rightarrow> int" where
  "CountActive s workerID now =
     int (length (filter (\<lambda>item. live now item \<and> sb_WorkerID item = workerID) (ListSandboxes s)))"

definition CountActiveByOrganization :: "memory_store \<Rightarrow> string \<Rightarrow> time \<Rightarrow> int" where
  "CountActiveByOrganization s organizationID now =
     int (length (filter (\<lambda>item. live now item \<and> sb_OrganizationID item = organizationID) (ListSandboxes s)))"

definition ListActiveDependencyProfilesByOrganization :: "memory_store \<Rightarrow> string \<Rightarrow> time \<Rightarrow> string list" where
  "ListActiveDependencyProfilesByOrganization s organizationID now =
     sort (remdups (map sb_DependencyProfile
       (filter (\<lambda>item. live now item \<and> sb_OrganizationID item = organizationID \<and> sb_DependencyProfile item \<noteq> [])
         (ListSandboxes s))))"

definition endpointKey :: "string \<Rightarrow> string \<Rightarrow> string" where
  "endpointKey sandboxID port = sandboxID @ '':'' @ port"

definition SaveEndpoint :: "endpoint \<Rightarrow> memory_store \<Rightarrow> memory_store" where
  "SaveEndpoint e s = s\<lparr>ms_endpoints := AList.update (endpointKey (ep_SandboxID e) (ep_Port e)) e (ms_endpoints s)\<rparr>"

definition GetEndpoint :: "memory_store \<Rightarrow> string \<Rightarrow> string \<Rightarrow> string + endpoint" where
  "GetEndpoint s sandboxID port =
     (case map_of (ms_endpoints s) (endpointKey sandboxID port) of
        None \<Rightarrow> Inl ''sandbox endpoint not found'' | Some e \<Rightarrow> Inr e)"

section \<open>The manager\<close>

record 'c manager_env =
  me_cache :: "'c cache_ops"
  me_policy :: service
  me_baseDir :: string
  me_publicBaseURL :: string
  me_workerID :: string
  me_workerAddr :: string
  me_mkdir :: "string \<Rightarrow> string option"
  me_rand :: "nat \<Rightarrow> string"

record 'c manager =
  mg_store :: memory_store
  mg_cache :: 'c
  mg_recorder :: recorder
  mg_roots :: "string list"
  mg_draws :: nat

definition new_manager :: "'c \<Rightarrow> int \<Rightarrow> 'c manager" where
  "new_manager c limit =
     \<lparr>mg_store = newMemoryStore, mg_cache = c, mg_recorder = newRecorder limit, mg_roots = [], mg_draws = 0\<rparr>"

definition token :: "'c manager_env \<Rightarrow> 'c manager \<Rightarrow> string \<times> 'c manager" where
  "token E m = (me_rand E (mg_draws m), m\<lparr>mg_draws := Suc (mg_draws m)\<rparr>)"

text \<open>\<open>Recorder.Record\<close>.\<close>

definition Record ::
    "'c manager_env \<Rightarrow> time \<Rightarrow> string \<Rightarrow> string \<Rightarrow> string \<Rightarrow> dict \<Rightarrow> 'c manager \<Rightarrow> 'c manager" where
  "Record E now eventType sandboxID message metadata m =
     (case token E m of (t, m) \<Rightarrow>
        m\<lparr>mg_recorder := AppendEvent
            \<lparr>ev_ID = t, ev_SandboxID = sandboxID, ev_Type = eventType, ev_Message = message, ev_CreatedAt = now,
             ev_Metadata = metadata\<rparr> (mg_recorder m)\<rparr>)"

definition cacheTTL :: "time \<Rightarrow> sandbox \<Rightarrow> duration" where
  "cacheTTL now item =
     (let ttl = sb_ExpiresAt item - now in if ttl \<le> 0 then Second else if ttl > Minute then Minute else ttl)"

definition cache_set :: "'c manager_env \<Rightarrow> time \<Rightarrow> sandbox \<Rightarrow> 'c manager \<Rightarrow> 'c manager" where
  "cache_set E now item m = m\<lparr>mg_cache := c_set (me_cache E) (mg_cache m) now item (cacheTTL now item)\<rparr>"

definition cache_delete :: "'c manager_env \<Rightarrow> string \<Rightarrow> 'c manager \<Rightarrow> 'c manager" where
  "cache_delete E sid m = m\<lparr>mg_cache := c_delete (me_cache E) (mg_cache m) sid\<rparr>"

definition store_save :: "sandbox \<Rightarrow> 'c manager \<Rightarrow> 'c manager" where
  "store_save item m = m\<lparr>mg_store := SaveSandbox item (mg_store m)\<rparr>"

definition add_string :: "string \<Rightarrow> string \<Rightarrow> dict \<Rightarrow> dict" where
  "add_string key v metadata = (if v \<noteq> [] then AList.update key (VString v) metadata else metadata)"

definition addOwnershipMetadata :: "sandbox \<Rightarrow> dict \<Rightarrow> dict" where
  "addOwnershipMetadata item =
     add_string ''user_id'' (sb_UserID item) \<circ> add_string ''workflow_run_id'' (sb_WorkflowRunID item)
     \<circ> add_string ''app_id'' (sb_AppID item) \<circ> add_string ''workspace_id'' (sb_WorkspaceID item)
     \<circ> add_string ''organization_id'' (sb_OrganizationID item)"

definition backend_metadata :: "'c manager_env \<Rightarrow> sandbox \<Rightarrow> dict" where
  "backend_metadata E item =
     [(''runtime_backend'', VString (RuntimeBackendName (sv_config (me_policy E)))),
      (''runtime_profile'', VString (sb_RuntimeProfile item))]"

definition attachEffectiveLimits :: "'c manager_env \<Rightarrow> sandbox \<Rightarrow> sandbox" where
  "attachEffectiveLimits E item = item\<lparr>sb_EffectiveLimits := Some (EffectiveLimits (me_policy E))\<rparr>"

definition expireIfNeeded ::
    "'c manager_env \<Rightarrow> time \<Rightarrow> sandbox \<Rightarrow> 'c manager \<Rightarrow> (bool \<times> bool) \<times> 'c manager" where
  "expireIfNeeded E now item m =
     (if sb_Status item \<noteq> StatusActive then ((True, False), m)
      else if now > sb_ExpiresAt item
      then let item = item\<lparr>sb_Status := StatusExpired, sb_UpdatedAt := now\<rparr>;
               m = store_save item m;
               m = cache_delete E (sb_ID item) m
           in ((True, True), Record E now ''sandbox.expired'' (sb_ID item) ''sandbox expired''
                 (addOwnershipMetadata item (backend_metadata E item)) m)
      else ((False, False), m))"

section \<open>Creating\<close>

record create_request =
  cq_RuntimeProfile :: string
  cq_TTLSeconds :: int
  cq_Metadata :: "(string, string) gomap"
  cq_OrganizationID :: string
  cq_WorkspaceID :: string
  cq_AppID :: string
  cq_WorkflowRunID :: string
  cq_UserID :: string
  cq_NetworkEnabled :: bool
  cq_NetworkPolicy :: string
  cq_DependencyProfile :: string
  cq_WorkspaceBinding :: string

record ownership_fields =
  ow_OrganizationID :: string
  ow_WorkspaceID :: string
  ow_AppID :: string
  ow_WorkflowRunID :: string
  ow_UserID :: string

definition isOwnershipChar :: "char \<Rightarrow> bool" where
  "isOwnershipChar c \<longleftrightarrow>
     (let n = of_char c :: nat
      in 97 \<le> n \<and> n \<le> 122 \<or> 65 \<le> n \<and> n \<le> 90 \<or> 48 \<le> n \<and> n \<le> 57
         \<or> c \<in> {CHR ''_'', CHR ''-'', CHR ''.'', CHR '':'', CHR ''@''})"

text \<open>A rune of several bytes is not an ownership character, and neither is any of its bytes.\<close>

definition normalizeOwnershipValue :: "string \<Rightarrow> string \<Rightarrow> string + string" where
  "normalizeOwnershipValue field v =
     (let v = trim_space v
      in if v = [] then Inr []
         else if length v > 128 then Inl (field @ '' exceeds max length of 128'')
         else if \<not> list_all isOwnershipChar v then Inl (field @ '' contains invalid characters'')
         else Inr v)"

definition normalizeOwnership :: "create_request \<Rightarrow> string + ownership_fields" where
  "normalizeOwnership req =
     (case normalizeOwnershipValue ''organization_id'' (cq_OrganizationID req) of Inl e \<Rightarrow> Inl e | Inr organizationID \<Rightarrow>
      case normalizeOwnershipValue ''workspace_id'' (cq_WorkspaceID req) of Inl e \<Rightarrow> Inl e | Inr workspaceID \<Rightarrow>
      case normalizeOwnershipValue ''app_id'' (cq_AppID req) of Inl e \<Rightarrow> Inl e | Inr appID \<Rightarrow>
      case normalizeOwnershipValue ''workflow_run_id'' (cq_WorkflowRunID req) of Inl e \<Rightarrow> Inl e | Inr workflowRunID \<Rightarrow>
      case normalizeOwnershipValue ''user_id'' (cq_UserID req) of Inl e \<Rightarrow> Inl e | Inr userID \<Rightarrow>
        Inr \<lparr>ow_OrganizationID = organizationID, ow_WorkspaceID = workspaceID, ow_AppID = appID,
             ow_WorkflowRunID = workflowRunID, ow_UserID = userID\<rparr>)"

definition enforceOrganizationDependencyProfileLimit ::
    "'c manager_env \<Rightarrow> memory_store \<Rightarrow> string \<Rightarrow> string \<Rightarrow> time \<Rightarrow> limit_error option" where
  "enforceOrganizationDependencyProfileLimit E s organizationID dependencyProfile now =
     (let limit = cf_MaxDependencyProfilesPerOrganization (sv_config (me_policy E))
      in if organizationID = [] \<or> limit \<le> 0 then None
         else
           let names = sort (remdups (filter (\<lambda>p. p \<noteq> [])
                 (map trim_space (ListActiveDependencyProfilesByOrganization s organizationID now))));
               actual = int (length names) + 1
           in if dependencyProfile \<in> set names then None
              else if actual \<le> limit then None
              else Some \<lparr>le_Code = ''organization_dependency_profile_limit_exceeded'',
                     le_Limit = ''max_dependency_profiles_per_organization'', le_Maximum = limit, le_Actual = actual,
                     le_Details = [(''organization_id'', VString organizationID),
                       (''dependency_profile'', VString dependencyProfile), (''dependency_profiles'', VStrings names)]\<rparr>)"

text \<open>
  The first part of \<open>Create\<close> reads the store and decides; the second part writes. Nothing locks
  the store in between.
\<close>

definition create_admit ::
    "'c manager_env \<Rightarrow> time \<Rightarrow> create_request \<Rightarrow> memory_store \<Rightarrow> sb_error + ownership_fields \<times> create_decision" where
  "create_admit E now req s =
     (case normalizeOwnership req of
        Inl e \<Rightarrow> Inl (Message e)
      | Inr ownership \<Rightarrow>
          let activeCount = CountActive s (me_workerID E) now;
              organizationActiveCount =
                (if ow_OrganizationID ownership \<noteq> [] then CountActiveByOrganization s (ow_OrganizationID ownership) now else 0)
          in case NormalizeCreate (me_policy E) (cq_RuntimeProfile req) (cq_TTLSeconds req) (cq_NetworkEnabled req)
                 (cq_NetworkPolicy req) (cq_DependencyProfile req) activeCount (ow_OrganizationID ownership)
                 organizationActiveCount of
               Inl e \<Rightarrow> Inl e
             | Inr decision \<Rightarrow>
                 (case enforceOrganizationDependencyProfileLimit E s (ow_OrganizationID ownership)
                         (cd_DependencyProfile decision) now of
                    Some e \<Rightarrow> Inl (Limit e)
                  | None \<Rightarrow> Inr (ownership, decision)))"

text \<open>\<open>int(d.Seconds())\<close>, for which whole seconds are exact.\<close>

definition whole_seconds :: "duration \<Rightarrow> int" where
  "whole_seconds d = (if d \<ge> 0 then d div Second else - (- d div Second))"

definition created_item ::
    "'c manager_env \<Rightarrow> time \<Rightarrow> create_request \<Rightarrow> ownership_fields \<Rightarrow> create_decision \<Rightarrow> string \<Rightarrow> string \<Rightarrow> sandbox" where
  "created_item E now req ownership decision sid root =
     (let metadata = AList.update ''dependency_profile_version'' (cd_DependencyProfileVersion decision) (cq_Metadata req);
          metadata = (if cd_DependencyArtifactChecksum decision \<noteq> []
            then AList.update ''dependency_artifact_checksum'' (cd_DependencyArtifactChecksum decision) metadata else metadata)
      in \<lparr>sb_ID = sid,
          sb_RuntimeProfile = cd_RuntimeProfile decision,
          sb_Status = StatusActive,
          sb_CreatedAt = now,
          sb_UpdatedAt = now,
          sb_ExpiresAt = now + cd_TTL decision,
          sb_RootPath = root,
          sb_Metadata = metadata,
          sb_OrganizationID = ow_OrganizationID ownership,
          sb_WorkspaceID = ow_WorkspaceID ownership,
          sb_AppID = ow_AppID ownership,
          sb_WorkflowRunID = ow_WorkflowRunID ownership,
          sb_UserID = ow_UserID ownership,
          sb_NetworkEnabled = cd_NetworkEnabled decision,
          sb_NetworkPolicy = cd_NetworkPolicy decision,
          sb_DependencyProfile = cd_DependencyProfile decision,
          sb_DependencyProfileVersion = cd_DependencyProfileVersion decision,
          sb_DependencyArtifactChecksum = cd_DependencyArtifactChecksum decision,
          sb_WorkspaceBinding = trim_space (cq_WorkspaceBinding req),
          sb_TTLSeconds = whole_seconds (cd_TTL decision),
          sb_WorkerID = me_workerID E,
          sb_WorkerAddr = me_workerAddr E,
          sb_EffectiveLimits = Some (cd_EffectiveLimits decision)\<rparr>)"

definition created_metadata :: "'c manager_env \<Rightarrow> create_decision \<Rightarrow> sandbox \<Rightarrow> dict" where
  "created_metadata E decision item =
     (let limits = cd_EffectiveLimits decision
      in addOwnershipMetadata item (add_string ''dependency_artifact_checksum'' (sb_DependencyArtifactChecksum item)
     [(''runtime_profile'', VString (sb_RuntimeProfile item)),
      (''runtime_backend'', VString (RuntimeBackendName (sv_config (me_policy E)))),
      (''ttl_seconds'', VInt Kint (sb_TTLSeconds item)),
      (''network_policy'', VString (sb_NetworkPolicy item)),
      (''dependency_profile'', VString (sb_DependencyProfile item)),
      (''dependency_profile_version'', VString (sb_DependencyProfileVersion item)),
      (''worker_id'', VString (sb_WorkerID item)),
      (''limit_decisions'', VMap
        [(''ttl_seconds'', VInt Kint (sb_TTLSeconds item)),
         (''max_active_sandboxes'', VInt Kint (rl_MaxActiveSandboxes limits)),
         (''max_active_sandboxes_per_organization'', VInt Kint (rl_MaxActiveSandboxesPerOrganization limits)),
         (''max_dependency_profiles_per_organization'', VInt Kint (rl_MaxDependencyProfilesPerOrganization limits)),
         (''organization_dependency_profile_limit_enforced'', VBool (rl_OrganizationDependencyProfileLimitEnforced limits)),
         (''max_file_size_bytes'', VInt Kint64 (rl_MaxFileSizeBytes limits)),
         (''max_archive_files'', VInt Kint (rl_MaxArchiveFiles limits)),
         (''max_archive_total_bytes'', VInt Kint64 (rl_MaxArchiveTotalBytes limits)),
         (''network_policy_enforced'', VBool (rl_NetworkPolicyEnforced limits)),
         (''workspace_bytes_enforced'', VBool (rl_WorkspaceByteLimitEnforced limits))])]))"

definition create_commit ::
    "'c manager_env \<Rightarrow> time \<Rightarrow> create_request \<Rightarrow> ownership_fields \<Rightarrow> create_decision \<Rightarrow> 'c manager \<Rightarrow> (sb_error + sandbox) \<times> 'c manager" where
  "create_commit E now req ownership decision m =
     (case token E m of (t, m) \<Rightarrow>
        let sid = ''sbx_'' @ t;
            root = me_baseDir E @ ''/'' @ sid
        in case me_mkdir E root of
             Some e \<Rightarrow> (Inl (Message e), m)
           | None \<Rightarrow>
               let m = m\<lparr>mg_roots := List.insert root (mg_roots m)\<rparr>;
                   item = created_item E now req ownership decision sid root;
                   m = store_save item m;
                   m = cache_set E now item m
               in (Inr item, Record E now ''sandbox.created'' sid ''sandbox created'' (created_metadata E decision item) m))"

definition Create ::
    "'c manager_env \<Rightarrow> time \<Rightarrow> create_request \<Rightarrow> 'c manager \<Rightarrow> (sb_error + sandbox) \<times> 'c manager" where
  "Create E now req m =
     (case create_admit E now req (mg_store m) of
        Inl e \<Rightarrow> (Inl e, m)
      | Inr (ownership, decision) \<Rightarrow> create_commit E now req ownership decision m)"

section \<open>Reading\<close>

definition Get :: "'c manager_env \<Rightarrow> time \<Rightarrow> string \<Rightarrow> 'c manager \<Rightarrow> (sb_error + sandbox) \<times> 'c manager" where
  "Get E now sid m =
     (case c_get (me_cache E) (mg_cache m) now sid of
        (Some item, c) \<Rightarrow>
          (case expireIfNeeded E now item (m\<lparr>mg_cache := c\<rparr>) of
             ((expired, updated), m) \<Rightarrow>
               if expired then (Inl (Message ''sandbox expired''), m)
               else (Inr (attachEffectiveLimits E item), if updated then cache_set E now item m else m))
      | (None, c) \<Rightarrow>
          (let m = m\<lparr>mg_cache := c\<rparr>
           in case GetSandbox (mg_store m) sid of
                Inl e \<Rightarrow> (Inl (Message e), m)
              | Inr item \<Rightarrow>
                  (case expireIfNeeded E now item m of
                     ((expired, _), m) \<Rightarrow>
                       if expired then (Inl (Message ''sandbox expired''), m)
                       else (Inr (attachEffectiveLimits E item), cache_set E now item m))))"

fun list_loop :: "'c manager_env \<Rightarrow> time \<Rightarrow> sandbox list \<Rightarrow> 'c manager \<Rightarrow> sandbox list \<times> 'c manager" where
  "list_loop E now [] m = ([], m)"
| "list_loop E now (item # items) m =
     (case expireIfNeeded E now item m of
        ((expired, _), m) \<Rightarrow>
          if expired then list_loop E now items m
          else let item = attachEffectiveLimits E item
               in case list_loop E now items (cache_set E now item m) of (filtered, m) \<Rightarrow> (item # filtered, m))"

text \<open>The newest sandboxes come first.\<close>

definition List_sandboxes :: "'c manager_env \<Rightarrow> time \<Rightarrow> 'c manager \<Rightarrow> sandbox list \<times> 'c manager" where
  "List_sandboxes E now m =
     (case list_loop E now (ListSandboxes (mg_store m)) m of
        (filtered, m) \<Rightarrow> (sort_key (\<lambda>item. - sb_CreatedAt item) filtered, m))"

definition ActiveCount :: "'c manager_env \<Rightarrow> time \<Rightarrow> 'c manager \<Rightarrow> int" where
  "ActiveCount E now m = CountActive (mg_store m) (me_workerID E) now"

section \<open>Deleting and renewing\<close>

definition Delete :: "'c manager_env \<Rightarrow> time \<Rightarrow> string \<Rightarrow> 'c manager \<Rightarrow> sb_error option \<times> 'c manager" where
  "Delete E now sid m =
     (case GetSandbox (mg_store m) sid of
        Inl e \<Rightarrow> (Some (Message e), m)
      | Inr item \<Rightarrow>
          let item = item\<lparr>sb_Status := StatusDeleted, sb_UpdatedAt := now\<rparr>;
              m = store_save item m;
              m = cache_delete E sid m;
              m = m\<lparr>mg_roots := remove1 (sb_RootPath item) (mg_roots m)\<rparr>
          in (None, Record E now ''sandbox.deleted'' sid ''sandbox deleted''
                (addOwnershipMetadata item
                  ([(''worker_id'', VString (sb_WorkerID item))] @ backend_metadata E item
                   @ [(''dependency_profile'', VString (sb_DependencyProfile item))])) m))"

definition Renew :: "'c manager_env \<Rightarrow> time \<Rightarrow> string \<Rightarrow> int \<Rightarrow> 'c manager \<Rightarrow> (sb_error + sandbox) \<times> 'c manager" where
  "Renew E now sid ttlSeconds m =
     (case GetSandbox (mg_store m) sid of
        Inl e \<Rightarrow> (Inl (Message e), m)
      | Inr item \<Rightarrow>
          if sb_Status item \<noteq> StatusActive then (Inl (Message ''sandbox is not active''), m)
          else case NormalizeRenew (me_policy E) (sb_RuntimeProfile item) ttlSeconds of
            Inl e \<Rightarrow> (Inl (Message e), m)
          | Inr ttl \<Rightarrow>
              let item = item\<lparr>sb_ExpiresAt := now + ttl, sb_UpdatedAt := now, sb_TTLSeconds := whole_seconds ttl\<rparr>;
                  m = store_save item m;
                  m = cache_set E now item m
              in (Inr item, Record E now ''sandbox.renewed'' sid ''sandbox renewed''
                    (addOwnershipMetadata item
                      ([(''ttl_seconds'', VInt Kint (sb_TTLSeconds item))] @ backend_metadata E item)) m))"

section \<open>Endpoints\<close>

record endpoint_request =
  rq_TargetHost :: string
  rq_TargetPort :: int
  rq_Scheme :: string
  rq_Status :: string

definition defaultString :: "string \<Rightarrow> string \<Rightarrow> string" where
  "defaultString v fallback = (if trim_space v = [] then fallback else trim_space v)"

definition trim_right_slashes :: "string \<Rightarrow> string" where
  "trim_right_slashes s = rev (dropWhile (\<lambda>c. c = CHR ''/'') (rev s))"

definition endpointURL :: "'c manager_env \<Rightarrow> string \<Rightarrow> string \<Rightarrow> string" where
  "endpointURL E sid port = trim_right_slashes (me_publicBaseURL E) @ ''/_zgi/ports/'' @ sid @ ''/'' @ port"

definition RegisterEndpoint ::
    "'c manager_env \<Rightarrow> time \<Rightarrow> string \<Rightarrow> string \<Rightarrow> endpoint_request \<Rightarrow> 'c manager \<Rightarrow> (sb_error + endpoint) \<times> 'c manager" where
  "RegisterEndpoint E now sid port req m =
     (case Get E now sid m of
        (Inl e, m) \<Rightarrow> (Inl e, m)
      | (Inr item, m) \<Rightarrow>
          if sb_RuntimeProfile item \<noteq> RuntimeInteractive
          then (Inl (Message ''endpoint registration is only available for interactive sandboxes''), m)
          else case (if rq_TargetPort req \<le> 0 then atoi port else Some (rq_TargetPort req)) of
            None \<Rightarrow> (Inl (Message ''target port is required''), m)
          | Some targetPort \<Rightarrow>
              let e = \<lparr>ep_SandboxID = sid, ep_Port = port, ep_URL = endpointURL E sid port,
                       ep_Status = defaultString (rq_Status req) ''ready'',
                       ep_TargetHost = defaultString (rq_TargetHost req) ''127.0.0.1'',
                       ep_TargetPort = targetPort,
                       ep_Scheme = defaultString (rq_Scheme req) ''http'',
                       ep_CreatedAt = Some now, ep_UpdatedAt = Some now\<rparr>;
                  m = m\<lparr>mg_store := SaveEndpoint e (mg_store m)\<rparr>
              in (Inr e, Record E now ''sandbox.endpoint.registered'' sid ''sandbox endpoint registered''
                    (addOwnershipMetadata item
                      ([(''port'', VString port), (''target_host'', VString (ep_TargetHost e)),
                        (''target_port'', VInt Kint (ep_TargetPort e)), (''scheme'', VString (ep_Scheme e))]
                       @ backend_metadata E item)) m))"

definition resolveEndpoint ::
    "'c manager_env \<Rightarrow> time \<Rightarrow> string \<Rightarrow> string \<Rightarrow> bool \<Rightarrow> 'c manager \<Rightarrow> (sb_error + endpoint) \<times> 'c manager" where
  "resolveEndpoint E now sid port record_it m =
     (case Get E now sid m of
        (Inl e, m) \<Rightarrow> (Inl e, m)
      | (Inr item, m) \<Rightarrow>
          if sb_RuntimeProfile item \<noteq> RuntimeInteractive
          then (Inl (Message ''endpoint resolution is only available for interactive sandboxes''), m)
          else
            case (case GetEndpoint (mg_store m) sid port of
                    Inr e \<Rightarrow> Inr e
                  | Inl e \<Rightarrow>
                      (case atoi port of
                         None \<Rightarrow> Inl e
                       | Some targetPort \<Rightarrow>
                           Inr \<lparr>ep_SandboxID = sid, ep_Port = port, ep_URL = endpointURL E sid port,
                                ep_Status = ''pending'', ep_TargetHost = ''127.0.0.1'', ep_TargetPort = targetPort,
                                ep_Scheme = ''http'', ep_CreatedAt = None, ep_UpdatedAt = None\<rparr>)) of
              Inl e \<Rightarrow> (Inl (Message e), m)
            | Inr e \<Rightarrow>
                let e = e\<lparr>ep_URL := endpointURL E sid port\<rparr>
                in (Inr e,
                    if record_it
                    then Record E now ''sandbox.endpoint.resolved'' sid ''sandbox endpoint resolved''
                           (addOwnershipMetadata item
                             ([(''port'', VString port), (''url'', VString (ep_URL e)),
                               (''target_host'', VString (ep_TargetHost e)), (''target_port'', VInt Kint (ep_TargetPort e))]
                              @ backend_metadata E item)) m
                    else m))"

end
