(* ===== verification/Sandbox_Serve.thy ===== *)
theory Sandbox_Serve
  imports Sandbox_Lifecycle
begin

text \<open>
  The manager as a server: the requests that the operations of \<open>lifecycle/manager.go\<close> answer, one
  after the other, each at its own time, and the facts on single operations that the proofs on
  whole histories share.
\<close>

datatype sandbox_request =
    RCreate create_request
  | RGet string
  | RList
  | RDelete string
  | RRenew string int
  | RRegister string string endpoint_request
  | RResolve string string bool

datatype sandbox_response =
    Box "sb_error + sandbox"
  | Boxes "sandbox list"
  | Done "sb_error option"
  | Point "sb_error + endpoint"

fun serve :: "'c manager_env \<Rightarrow> time \<Rightarrow> sandbox_request \<Rightarrow> 'c manager \<Rightarrow> sandbox_response \<times> 'c manager" where
  "serve E now (RCreate req) m = map_prod Box (\<lambda>m. m) (Create E now req m)"
| "serve E now (RGet sid) m = map_prod Box (\<lambda>m. m) (Get E now sid m)"
| "serve E now RList m = map_prod Boxes (\<lambda>m. m) (List_sandboxes E now m)"
| "serve E now (RDelete sid) m = map_prod Done (\<lambda>m. m) (Delete E now sid m)"
| "serve E now (RRenew sid ttlSeconds) m = map_prod Box (\<lambda>m. m) (Renew E now sid ttlSeconds m)"
| "serve E now (RRegister sid port req) m = map_prod Point (\<lambda>m. m) (RegisterEndpoint E now sid port req m)"
| "serve E now (RResolve sid port record_it) m = map_prod Point (\<lambda>m. m) (resolveEndpoint E now sid port record_it m)"

fun serve_all :: "'c manager_env \<Rightarrow> (time \<times> sandbox_request) list \<Rightarrow> 'c manager \<Rightarrow> sandbox_response list \<times> 'c manager" where
  "serve_all E [] m = ([], m)"
| "serve_all E ((now, r) # rs) m =
     (case serve E now r m of (a, m) \<Rightarrow> case serve_all E rs m of (as, m) \<Rightarrow> (a # as, m))"

lemma serve_all_append:
  "serve_all E (rs @ rs') m =
     (case serve_all E rs m of (as, m) \<Rightarrow> case serve_all E rs' m of (bs, m) \<Rightarrow> (as @ bs, m))"
  by (induction E rs m rule: serve_all.induct) (auto split: prod.split)

section \<open>Projections of the state\<close>

abbreviation boxes :: "'c manager \<Rightarrow> (string, sandbox) gomap" where
  "boxes m \<equiv> ms_sandboxes (mg_store m)"

text \<open>Every sandbox is stored under its own name, and once.\<close>

definition keyed :: "'c manager \<Rightarrow> bool" where
  "keyed m \<longleftrightarrow> distinct (map fst (boxes m)) \<and> (\<forall>(k, b) \<in> set (boxes m). sb_ID b = k)"

lemma keyedD: "keyed m \<Longrightarrow> map_of (boxes m) sid = Some b \<Longrightarrow> sb_ID b = sid"
  by (auto simp: keyed_def dest!: map_of_SomeD)

lemma boxes_simps [simp]:
  "boxes (Record E now t sid msg md m) = boxes m"
  "boxes (cache_set E now b m) = boxes m"
  "boxes (cache_delete E sid m) = boxes m"
  "boxes (store_save b m) = AList.update (sb_ID b) b (boxes m)"
  by (simp_all add: Record_def token_def cache_set_def cache_delete_def store_save_def SaveSandbox_def)

lemma keyed_simps [simp]:
  "keyed (Record E now t sid msg md m) = keyed m"
  "keyed (cache_set E now b m) = keyed m"
  "keyed (cache_delete E sid m) = keyed m"
  "keyed (m\<lparr>mg_cache := c\<rparr>) = keyed m"
  "keyed (m\<lparr>mg_roots := rs\<rparr>) = keyed m"
  by (simp_all add: keyed_def)

lemma set_update_subset: "set (AList.update k v xs) \<subseteq> insert (k, v) (set xs)"
  by (induction xs) auto

lemma keyed_save [simp]: "keyed m \<Longrightarrow> keyed (store_save b m)"
  using set_update_subset [of "sb_ID b" b "boxes m"]
  by (auto simp: keyed_def distinct_update)

lemma map_of_boxes_save: "map_of (boxes (store_save b m)) = (map_of (boxes m))(sb_ID b \<mapsto> b)"
  by (simp add: update_conv')

text \<open>What becomes of the stored sandboxes when one of them is found to have expired.\<close>

lemma boxes_expire:
  "boxes (snd (expireIfNeeded E now b m)) =
     (if sb_Status b = StatusActive \<and> now > sb_ExpiresAt b
      then AList.update (sb_ID b) (b\<lparr>sb_Status := StatusExpired, sb_UpdatedAt := now\<rparr>) (boxes m) else boxes m)"
  by (simp add: expireIfNeeded_def Let_def)

lemma expire_flags:
  "fst (expireIfNeeded E now b m) = (sb_Status b \<noteq> StatusActive \<or> now > sb_ExpiresAt b,
     sb_Status b = StatusActive \<and> now > sb_ExpiresAt b)"
  by (simp add: expireIfNeeded_def Let_def)

lemma expire_keeps: "expireIfNeeded E now b m = ((False, u), m') \<Longrightarrow> m' = m"
  by (auto simp: expireIfNeeded_def Let_def split: if_splits)

end
