(* ===== verification/Sandbox_Cache_Refinement.thy ===== *)
theory Sandbox_Cache_Refinement
  imports Sandbox_Serve
begin

text \<open>
  The manager with a cache that keeps the contract \<^const>\<open>sandbox_cache\<close> answers every history of
  requests as the manager without a cache does: a simulation, proved once in the locale and
  instantiated for the cache in memory.
\<close>

section \<open>Sandboxes up to their limits\<close>

text \<open>The cache and the store may differ in the limits that are attached to a sandbox, and in nothing else.\<close>

definition same :: "sandbox \<Rightarrow> sandbox \<Rightarrow> bool" where
  "same b b' \<longleftrightarrow> b\<lparr>sb_EffectiveLimits := None\<rparr> = b'\<lparr>sb_EffectiveLimits := None\<rparr>"

lemma same_refl [simp]: "same b b"
  by (simp add: same_def)

lemma same_sym: "same b b' \<Longrightarrow> same b' b"
  by (simp add: same_def)

lemma same_trans: "same a b \<Longrightarrow> same b c \<Longrightarrow> same a c"
  by (simp add: same_def)

lemma sameE:
  assumes "same b b'"
  obtains L where "b' = b\<lparr>sb_EffectiveLimits := L\<rparr>"
  using assms by (cases b, cases b') (auto simp: same_def)

lemma same_attach [simp]: "same (attachEffectiveLimits E b) b"
  by (simp add: attachEffectiveLimits_def same_def)

lemma attach_same: "same b b' \<Longrightarrow> attachEffectiveLimits E b = attachEffectiveLimits E b'"
  by (auto elim!: sameE simp: attachEffectiveLimits_def)

text \<open>A sandbox that is not active any more loses its limits here: they are the only trace of the cache.\<close>

definition nf :: "sandbox \<Rightarrow> sandbox" where
  "nf b = (if sb_Status b = StatusActive then b else b\<lparr>sb_EffectiveLimits := None\<rparr>)"

lemma nf_same: "nf b = nf b' \<Longrightarrow> same b b'"
proof -
  have "same (nf a) a" for a by (simp add: nf_def same_def)
  then show "nf b = nf b' \<Longrightarrow> same b b'" by (metis same_sym same_trans)
qed

lemma nf_active:
  assumes "nf b = nf b'" and "sb_Status b = StatusActive"
  shows "b' = b"
proof -
  from nf_same [OF assms(1)] have "sb_Status b' = sb_Status b" by (auto elim!: sameE)
  with assms(2) have "nf b = b" "nf b' = b'" by (simp_all add: nf_def)
  with assms(1) show ?thesis by argo
qed

lemma nf_inactive: "same b b' \<Longrightarrow> sb_Status b \<noteq> StatusActive \<Longrightarrow> nf b = nf b'"
  by (auto elim!: sameE simp: nf_def)

lemma map_of_nf: "map_of (map (apsnd nf) xs) k = map_option nf (map_of xs k)"
  by (induction xs) auto

lemma map_nf_update: "map (apsnd nf) (AList.update k b xs) = AList.update k (nf b) (map (apsnd nf) xs)"
  by (induction xs) auto

section \<open>The simulation\<close>

text \<open>The same manager over the cache that holds nothing.\<close>

definition uncached :: "'c manager_env \<Rightarrow> unit manager_env" where
  "uncached E = \<lparr>me_cache = noopCache, me_policy = me_policy E, me_baseDir = me_baseDir E,
     me_publicBaseURL = me_publicBaseURL E, me_workerID = me_workerID E, me_workerAddr = me_workerAddr E,
     me_mkdir = me_mkdir E, me_rand = me_rand E\<rparr>"

lemma uncached_simps [simp]:
  "me_cache (uncached E) = noopCache" "me_policy (uncached E) = me_policy E" "me_baseDir (uncached E) = me_baseDir E"
  "me_publicBaseURL (uncached E) = me_publicBaseURL E" "me_workerID (uncached E) = me_workerID E"
  "me_workerAddr (uncached E) = me_workerAddr E" "me_mkdir (uncached E) = me_mkdir E" "me_rand (uncached E) = me_rand E"
  "backend_metadata (uncached E) = backend_metadata E" "attachEffectiveLimits (uncached E) = attachEffectiveLimits E"
  "endpointURL (uncached E) = endpointURL E" "created_item (uncached E) = created_item E"
  "created_metadata (uncached E) = created_metadata E"
  by (simp_all add: uncached_def backend_metadata_def attachEffectiveLimits_def endpointURL_def created_item_def
      created_metadata_def fun_eq_iff)

lemma unit_cache [simp]: "(n :: unit manager)\<lparr>mg_cache := c\<rparr> = n"
  by (cases n) simp

lemma cache_uncached [simp]: "cache_set (uncached E) now b n = n" "cache_delete (uncached E) sid n = n"
  by (simp_all add: cache_set_def cache_delete_def)

text \<open>The stores agree up to the limits of sandboxes that are not active, and all else is equal.\<close>

definition alike :: "'c manager \<Rightarrow> 'd manager \<Rightarrow> bool" where
  "alike m n \<longleftrightarrow> map (apsnd nf) (boxes m) = map (apsnd nf) (boxes n)
     \<and> ms_endpoints (mg_store m) = ms_endpoints (mg_store n) \<and> mg_recorder m = mg_recorder n
     \<and> mg_roots m = mg_roots n \<and> mg_draws m = mg_draws n"

lemma alike_lookup:
  assumes "alike m n"
  shows "rel_option (\<lambda>b b'. nf b = nf b') (map_of (boxes m) sid) (map_of (boxes n) sid)"
proof -
  from assms have "map (apsnd nf) (boxes m) = map (apsnd nf) (boxes n)" by (simp only: alike_def)
  then have "map_option nf (map_of (boxes m) sid) = map_option nf (map_of (boxes n) sid)"
    by (simp only: map_of_nf [symmetric])
  then show ?thesis by (cases "map_of (boxes m) sid"; cases "map_of (boxes n) sid") simp_all
qed

lemma map_nf_list: "map (apsnd nf) xs = map (apsnd nf) ys \<Longrightarrow> list_all2 (\<lambda>b b'. nf b = nf b') (map snd xs) (map snd ys)"
proof (induction xs arbitrary: ys)
  case (Cons x xs)
  then show ?case by (cases ys) (auto simp: apsnd_def map_prod_def split_beta)
qed simp

lemma alike_list: "alike m n \<Longrightarrow> list_all2 (\<lambda>b b'. nf b = nf b') (ListSandboxes (mg_store m)) (ListSandboxes (mg_store n))"
  by (simp add: alike_def ListSandboxes_def map_nf_list)

context sandbox_cache
begin

text \<open>The cache agrees with the store, up to limits.\<close>

definition sim :: "'c manager \<Rightarrow> unit manager \<Rightarrow> bool" where
  "sim m n \<longleftrightarrow> keyed m \<and> agrees same (map_of (boxes m)) (mg_cache m) \<and> alike m n"

lemma sim_get:
  "sim m n \<Longrightarrow> c_get ops (mg_cache m) now sid = (r, c) \<Longrightarrow> sim (m\<lparr>mg_cache := c\<rparr>) n"
  by (auto simp: sim_def alike_def intro: agrees_get)

lemma sim_roots: "sim m n \<Longrightarrow> sim (m\<lparr>mg_roots := f (mg_roots m)\<rparr>) (n\<lparr>mg_roots := f (mg_roots n)\<rparr>)"
  by (simp add: sim_def alike_def)

lemma sim_endpoint:
  "sim m n \<Longrightarrow> sim (m\<lparr>mg_store := SaveEndpoint e (mg_store m)\<rparr>) (n\<lparr>mg_store := SaveEndpoint e (mg_store n)\<rparr>)"
  by (simp add: sim_def alike_def SaveEndpoint_def keyed_def)

lemma sim_Record:
  assumes "sim m n"
  shows "sim (Record E now t sid msg md m) (Record (uncached E) now t sid msg md n)"
  using assms by (simp add: sim_def alike_def Record_def token_def keyed_def)

lemma sim_cache_set:
  assumes "sim m n" and "me_cache E = ops" and "map_of (boxes m) (sb_ID b) = Some c" and "same b c"
  shows "sim (cache_set E now b m) (cache_set (uncached E) now b' n)"
  using assms agrees_set [of same "map_of (boxes m)" "mg_cache m" b c]
  by (simp add: sim_def alike_def cache_set_def noopCache_def keyed_def)

lemma sim_save_set:
  assumes "sim m n" and "me_cache E = ops"
  shows "sim (cache_set E now b (store_save b m)) (cache_set (uncached E) now b (store_save b n))"
proof -
  have "agrees same ((map_of (boxes m))(sb_ID b \<mapsto> b)) (c_set ops (mg_cache m) now b (cacheTTL now b))"
    using assms(1) by (intro agrees_update_set) (simp_all add: sim_def)
  moreover have "keyed (store_save b m)" using assms(1) by (simp add: sim_def)
  ultimately show ?thesis
    using assms by (simp add: sim_def alike_def cache_set_def store_save_def noopCache_def keyed_def map_nf_update
        SaveSandbox_def update_conv')
qed

lemma sim_save_delete:
  assumes "sim m n" and "me_cache E = ops" and "sb_ID b = sb_ID b'" and "nf b = nf b'"
  shows "sim (cache_delete E (sb_ID b) (store_save b m)) (cache_delete (uncached E) (sb_ID b) (store_save b' n))"
proof -
  have "agrees same ((map_of (boxes m))(sb_ID b \<mapsto> b)) (c_delete ops (mg_cache m) (sb_ID b))"
    using assms(1) by (intro agrees_update_delete) (simp add: sim_def)
  moreover have "keyed (store_save b m)" using assms(1) by (simp add: sim_def)
  ultimately show ?thesis
    using assms by (simp add: sim_def alike_def cache_delete_def store_save_def noopCache_def keyed_def map_nf_update
        SaveSandbox_def update_conv')
qed

text \<open>Two runs give the same answer and states that simulate each other.\<close>

abbreviation together :: "'r \<times> 'c manager \<Rightarrow> 'r \<times> unit manager \<Rightarrow> bool" where
  "together p q \<equiv> fst p = fst q \<and> sim (snd p) (snd q)"

lemma sim_expire:
  assumes "sim m n" and "me_cache E = ops" and "same b b'"
  shows "together (expireIfNeeded E now b m) (expireIfNeeded (uncached E) now b' n)"
proof -
  from assms(3) obtain L where b': "b' = b\<lparr>sb_EffectiveLimits := L\<rparr>" by (rule sameE)
  let ?x = "\<lambda>b. b\<lparr>sb_Status := StatusExpired, sb_UpdatedAt := now\<rparr>"
  have "nf (?x b) = nf (?x b')" by (simp add: b' nf_def)
  moreover have "addOwnershipMetadata (?x b) = addOwnershipMetadata (?x b')" "backend_metadata E (?x b) = backend_metadata E (?x b')"
    by (simp_all add: b' addOwnershipMetadata_def backend_metadata_def)
  ultimately show ?thesis
    using assms(1,2) sim_Record sim_save_delete [of m n E "?x b" "?x b'"]
    by (auto simp: expireIfNeeded_def Let_def b')
qed

lemma sim_expireE:
  assumes "sim m n" and "me_cache E = ops" and "same b b'"
  obtains e u m' n' where "expireIfNeeded E now b m = ((e, u), m')" and "expireIfNeeded (uncached E) now b' n = ((e, u), n')"
    and "sim m' n'" and "u \<Longrightarrow> e" and "\<not> e \<Longrightarrow> m' = m \<and> n' = n"
proof (cases "expireIfNeeded E now b m")
  case (Pair f m')
  obtain e u where f: "f = (e, u)" by (cases f)
  obtain n' where n': "expireIfNeeded (uncached E) now b' n = (f, n')" "sim m' n'"
    using sim_expire [OF assms, of now] Pair by (cases "expireIfNeeded (uncached E) now b' n") auto
  show ?thesis
  proof (rule that [of e u m' n'])
    show "u \<Longrightarrow> e" using Pair f expire_flags [of E now b m] by auto
    show "\<not> e \<Longrightarrow> m' = m \<and> n' = n" using Pair f n'(1) expire_keeps by (metis (full_types))
  qed (use Pair f n' in simp_all)
qed

lemma sim_lookup:
  assumes "sim m n"
  shows "rel_sum (=) (\<lambda>b b'. nf b = nf b' \<and> sb_ID b = sid \<and> map_of (boxes m) sid = Some b)
    (GetSandbox (mg_store m) sid) (GetSandbox (mg_store n) sid)"
  using alike_lookup [of m n sid] assms keyedD [of m sid]
  by (auto simp: sim_def GetSandbox_def option.rel_sel split: option.splits)

lemma boxes_get [simp]: "boxes (m\<lparr>mg_cache := c\<rparr>) = boxes m" "mg_store (m\<lparr>mg_cache := c\<rparr>) = mg_store m"
  by simp_all

lemma get_uncached:
  "Get (uncached E) now sid n =
     (case GetSandbox (mg_store n) sid of
        Inl e \<Rightarrow> (Inl (Message e), n)
      | Inr item \<Rightarrow>
          (case expireIfNeeded (uncached E) now item n of
             ((expired, _), m) \<Rightarrow>
               if expired then (Inl (Message ''sandbox expired''), m) else (Inr (attachEffectiveLimits E item), m)))"
  by (simp add: Get_def noopCache_def Let_def split: sum.split prod.split)

lemma sim_Get:
  assumes "sim m n" and "me_cache E = ops"
  shows "together (Get E now sid m) (Get (uncached E) now sid n)"
proof (cases "c_get ops (mg_cache m) now sid")
  case (Pair hit c)
  let ?m = "m\<lparr>mg_cache := c\<rparr>"
  have sim: "sim ?m n" using sim_get [OF assms(1) Pair] .
  show ?thesis
  proof (cases hit)
    case (Some b)
    with Pair assms(1) obtain d where d: "map_of (boxes m) sid = Some d" "same b d"
      using agrees_hit unfolding sim_def by blast
    with sim_lookup [OF assms(1), of sid] obtain b' where b': "GetSandbox (mg_store n) sid = Inr b'" "nf d = nf b'"
      by (auto simp: GetSandbox_def rel_sum.simps)
    then have same: "same b b'" using d(2) nf_same same_trans by blast
    show ?thesis
      using sim assms(2) same
    proof (rule sim_expireE [where now = now])
      fix e u m' n'
      assume "expireIfNeeded E now b ?m = ((e, u), m')" "expireIfNeeded (uncached E) now b' n = ((e, u), n')"
        "sim m' n'" "u \<Longrightarrow> e"
      then show ?thesis
        using Pair Some b'(1) assms(2) attach_same [OF same, of E] by (auto simp: Get_def [of E] get_uncached)
    qed
  next
    case None
    show ?thesis
    proof (cases "GetSandbox (mg_store m) sid")
      case (Inl e)
      then have "GetSandbox (mg_store n) sid = Inl e"
        using sim_lookup [OF assms(1), of sid] by (auto simp: rel_sum.simps)
      with Inl show ?thesis using Pair None assms(2) sim by (simp add: Get_def [of E] get_uncached)
    next
      case (Inr b)
      with sim_lookup [OF assms(1), of sid] obtain b' where b': "GetSandbox (mg_store n) sid = Inr b'" "nf b = nf b'"
        and b: "sb_ID b = sid" "map_of (boxes m) sid = Some b"
        by (auto simp: rel_sum.simps)
      note same = nf_same [OF b'(2)]
      have set_sim: "sim (cache_set E now b ?m) n"
        using sim_cache_set [OF sim assms(2), of b b now b] b by simp
      show ?thesis
        using sim assms(2) same
      proof (rule sim_expireE [where now = now])
        fix e u m' n'
        assume "expireIfNeeded E now b ?m = ((e, u), m')" "expireIfNeeded (uncached E) now b' n = ((e, u), n')"
          "sim m' n'" "\<not> e \<Longrightarrow> m' = ?m \<and> n' = n"
        then show ?thesis
          using Pair None Inr b'(1) assms(2) attach_same [OF same, of E] set_sim
          by (auto simp: Get_def [of E] get_uncached)
      qed
    qed
  qed
qed

lemma sim_list_loop:
  assumes "me_cache E = ops"
  shows "sim m n \<Longrightarrow> list_all2 (\<lambda>b b'. nf b = nf b') bs bs' \<Longrightarrow> distinct (map sb_ID bs)
    \<Longrightarrow> \<forall>b \<in> set bs. map_of (boxes m) (sb_ID b) = Some b
    \<Longrightarrow> together (list_loop E now bs m) (list_loop (uncached E) now bs' n)"
proof (induction bs arbitrary: bs' m n)
  case (Cons b bs)
  then obtain b' cs where bs': "bs' = b' # cs" "nf b = nf b'" "list_all2 (\<lambda>b b'. nf b = nf b') bs cs"
    by (auto simp: list_all2_Cons1)
  note same = nf_same [OF bs'(2)]
  have others: "\<forall>d \<in> set bs. sb_ID d \<noteq> sb_ID b" using Cons.prems(3) by (simp add: image_iff) metis
  show ?case
    using Cons.prems(1) assms same
  proof (rule sim_expireE [where now = now])
    fix e u m' n'
    assume ex: "expireIfNeeded E now b m = ((e, u), m')" "expireIfNeeded (uncached E) now b' n = ((e, u), n')"
      "sim m' n'" "\<not> e \<Longrightarrow> m' = m \<and> n' = n"
    have "boxes m' = boxes (snd (expireIfNeeded E now b m))" by (simp add: ex)
    then have rest: "\<forall>d \<in> set bs. map_of (boxes m') (sb_ID d) = Some d"
      using Cons.prems(4) others by (simp add: boxes_expire update_conv')
    show ?case
    proof (cases e)
      case True
      then show ?thesis using Cons.IH [of m' n' cs] ex bs' rest Cons.prems(3) by simp
    next
      case False
      let ?a = "attachEffectiveLimits E b"
      have "sb_ID ?a = sb_ID b" by (simp add: attachEffectiveLimits_def)
      with False ex have "sim (cache_set E now ?a m) n"
        using sim_cache_set [of m n E ?a b now ?a] assms Cons.prems(1,4) by simp
      then have "together (list_loop E now bs (cache_set E now ?a m)) (list_loop (uncached E) now cs n)"
        using Cons.IH [of "cache_set E now ?a m" n cs] bs' Cons.prems(3,4) by simp
      then show ?thesis
        using False ex bs'(1) attach_same [OF same, of E] by (auto simp: Let_def split: prod.splits)
    qed
  qed
qed simp

lemma sim_List:
  assumes "sim m n" and "me_cache E = ops"
  shows "together (List_sandboxes E now m) (List_sandboxes (uncached E) now n)"
proof -
  have keyed: "keyed m" using assms(1) by (simp add: sim_def)
  then have "map sb_ID (ListSandboxes (mg_store m)) = map fst (boxes m)"
    by (auto simp: keyed_def ListSandboxes_def)
  moreover have "map_of (boxes m) (sb_ID b) = Some b" if "b \<in> set (ListSandboxes (mg_store m))" for b
    using that keyed by (force simp: keyed_def ListSandboxes_def)
  ultimately have "together (list_loop E now (ListSandboxes (mg_store m)) m)
      (list_loop (uncached E) now (ListSandboxes (mg_store n)) n)"
    using assms keyed by (intro sim_list_loop alike_list) (auto simp: sim_def keyed_def)
  then show ?thesis by (auto simp: List_sandboxes_def split: prod.splits)
qed

lemma sim_Delete:
  assumes "sim m n" and "me_cache E = ops"
  shows "together (Delete E now sid m) (Delete (uncached E) now sid n)"
proof (cases "GetSandbox (mg_store m) sid")
  case (Inl e)
  then have "GetSandbox (mg_store n) sid = Inl e"
    using sim_lookup [OF assms(1), of sid] by (auto simp: rel_sum.simps)
  with Inl show ?thesis using assms(1) by (simp add: Delete_def)
next
  case (Inr b)
  with sim_lookup [OF assms(1), of sid] obtain b' where b': "GetSandbox (mg_store n) sid = Inr b'" "nf b = nf b'"
    and b: "sb_ID b = sid" by (auto simp: rel_sum.simps)
  obtain L where L: "b' = b\<lparr>sb_EffectiveLimits := L\<rparr>" using nf_same [OF b'(2)] by (rule sameE)
  let ?x = "\<lambda>b. b\<lparr>sb_Status := StatusDeleted, sb_UpdatedAt := now\<rparr>"
  have "sim (cache_delete E sid (store_save (?x b) m)) (store_save (?x b') n)"
    using sim_save_delete [OF assms, of "?x b" "?x b'"] b by (simp add: L nf_def)
  note sim = sim_Record [OF sim_roots [OF this, of "remove1 (sb_RootPath b)"], of E]
  moreover have "addOwnershipMetadata (?x b) = addOwnershipMetadata (?x b')" "backend_metadata E (?x b) = backend_metadata E (?x b')"
    by (simp_all add: L addOwnershipMetadata_def backend_metadata_def)
  ultimately show ?thesis
    using Inr b'(1) by (simp add: Delete_def Let_def L)
qed

lemma sim_Renew:
  assumes "sim m n" and "me_cache E = ops"
  shows "together (Renew E now sid ttlSeconds m) (Renew (uncached E) now sid ttlSeconds n)"
proof (cases "GetSandbox (mg_store m) sid")
  case (Inl e)
  then have "GetSandbox (mg_store n) sid = Inl e"
    using sim_lookup [OF assms(1), of sid] by (auto simp: rel_sum.simps)
  with Inl show ?thesis using assms(1) by (simp add: Renew_def)
next
  case (Inr b)
  with sim_lookup [OF assms(1), of sid] obtain b' where b': "GetSandbox (mg_store n) sid = Inr b'" "nf b = nf b'"
    by (auto simp: rel_sum.simps)
  show ?thesis
  proof (cases "sb_Status b = StatusActive")
    case True
    then have "b' = b" by (rule nf_active [OF b'(2)])
    with True Inr b' show ?thesis
      using assms(1) sim_Record [OF sim_save_set [OF assms]] by (simp add: Renew_def Let_def split: sum.split)
  next
    case False
    then have "sb_Status b' \<noteq> StatusActive" using nf_same [OF b'(2)] by (auto elim!: sameE)
    with False Inr b'(1) assms(1) show ?thesis by (simp add: Renew_def)
  qed
qed

lemma sim_Register:
  assumes "sim m n" and "me_cache E = ops"
  shows "together (RegisterEndpoint E now sid port req m) (RegisterEndpoint (uncached E) now sid port req n)"
  using sim_Get [OF assms, of now sid] sim_Record [OF sim_endpoint]
  by (cases "Get E now sid m"; cases "Get (uncached E) now sid n")
    (auto simp: RegisterEndpoint_def Let_def split: sum.split option.split)

lemma sim_Resolve:
  assumes "sim m n" and "me_cache E = ops"
  shows "together (resolveEndpoint E now sid port record_it m) (resolveEndpoint (uncached E) now sid port record_it n)"
proof (cases "Get E now sid m"; cases "Get (uncached E) now sid n")
  fix r m' r' n' assume get: "Get E now sid m = (r, m')" "Get (uncached E) now sid n = (r', n')"
  with sim_Get [OF assms, of now sid] have "r' = r" and sim: "sim m' n'" by simp_all
  moreover from sim have "GetEndpoint (mg_store n') sid port = GetEndpoint (mg_store m') sid port"
    by (simp add: sim_def alike_def GetEndpoint_def)
  ultimately show ?thesis
    using get sim_Record [OF sim]
    by (cases r; cases "GetEndpoint (mg_store m') sid port"; cases "atoi port") (auto simp: resolveEndpoint_def Let_def)
qed

lemma alike_live:
  assumes "alike m n"
  shows "map f (filter (\<lambda>b. live now b \<and> P b) (ListSandboxes (mg_store m)))
    = map f (filter (\<lambda>b. live now b \<and> P b) (ListSandboxes (mg_store n)))"
  using alike_list [OF assms]
proof (induction rule: list_all2_induct)
  case (Cons b bs b' bs')
  show ?case
  proof (cases "sb_Status b = StatusActive")
    case True
    then have "b' = b" by (rule nf_active [OF Cons(1)])
    with Cons(3) show ?thesis by simp
  next
    case False
    then have "sb_Status b' \<noteq> StatusActive" using nf_same [OF Cons(1)] by (auto elim!: sameE)
    with False Cons(3) show ?thesis by (simp add: live_def)
  qed
qed simp

lemma sim_admit:
  assumes "sim m n"
  shows "create_admit (uncached E) now req (mg_store n) = create_admit E now req (mg_store m)"
proof -
  have live: "map f (filter (\<lambda>b. live now b \<and> P b) (ListSandboxes (mg_store m)))
    = map f (filter (\<lambda>b. live now b \<and> P b) (ListSandboxes (mg_store n)))" for P and f :: "sandbox \<Rightarrow> string"
    using assms by (intro alike_live) (simp add: sim_def)
  have counts: "CountActive (mg_store n) w now = CountActive (mg_store m) w now"
    "CountActiveByOrganization (mg_store n) w now = CountActiveByOrganization (mg_store m) w now" for w
    using arg_cong [OF live [of sb_ID "\<lambda>b. sb_WorkerID b = w"], of length]
      arg_cong [OF live [of sb_ID "\<lambda>b. sb_OrganizationID b = w"], of length]
    by (simp_all add: CountActive_def CountActiveByOrganization_def)
  have profiles: "ListActiveDependencyProfilesByOrganization (mg_store n) w now
      = ListActiveDependencyProfilesByOrganization (mg_store m) w now" for w
    by (simp add: ListActiveDependencyProfilesByOrganization_def
        live [of sb_DependencyProfile "\<lambda>b. sb_OrganizationID b = w \<and> sb_DependencyProfile b \<noteq> []"])
  show ?thesis
    unfolding create_admit_def enforceOrganizationDependencyProfileLimit_def uncached_simps counts profiles by (rule refl)
qed

lemma sim_Create:
  assumes "sim m n" and "me_cache E = ops"
  shows "together (Create E now req m) (Create (uncached E) now req n)"
proof (cases "create_admit E now req (mg_store m)")
  case (Inl e)
  then show ?thesis using assms(1) sim_admit [OF assms(1), of E now req] by (simp add: Create_def)
next
  case (Inr p)
  obtain ow d where p: "p = (ow, d)" by (cases p)
  have draws: "mg_draws n = mg_draws m" using assms(1) by (simp add: sim_def alike_def)
  define m' where "m' = snd (token E m)"
  define n' where "n' = snd (token (uncached E) n)"
  have sim: "sim m' n'"
    using assms(1) by (simp add: m'_def n'_def token_def sim_def alike_def keyed_def)
  define sid where "sid = ''sbx_'' @ me_rand E (mg_draws m)"
  have tok: "token E m = (me_rand E (mg_draws m), m')" "token (uncached E) n = (me_rand E (mg_draws m), n')"
    by (simp_all add: token_def m'_def n'_def draws)
  have "together (create_commit E now req ow d m) (create_commit (uncached E) now req ow d n)"
    using sim sim_Record [OF sim_save_set [OF sim_roots [OF sim, of "List.insert (me_baseDir E @ ''/'' @ sid)"] assms(2)]]
    by (auto simp: create_commit_def tok Let_def sid_def split: option.split)
  then show ?thesis
    using Inr p sim_admit [OF assms(1), of E now req] by (simp add: Create_def)
qed

lemma sim_serve:
  assumes "sim m n" and "me_cache E = ops"
  shows "together (serve E now r m) (serve (uncached E) now r n)"
  using sim_Create [OF assms, of now] sim_Get [OF assms, of now] sim_List [OF assms, of now] sim_Delete [OF assms, of now]
    sim_Renew [OF assms, of now] sim_Register [OF assms, of now] sim_Resolve [OF assms, of now]
  by (cases r) (simp_all add: map_prod_def split_beta)

lemma sim_serve_all:
  assumes "me_cache E = ops"
  shows "sim m n \<Longrightarrow> together (serve_all E rs m) (serve_all (uncached E) rs n)"
proof (induction rs arbitrary: m n)
  case (Cons p rs)
  obtain now r where p: "p = (now, r)" by (cases p)
  obtain a m' where m': "serve E now r m = (a, m')" by (cases "serve E now r m")
  obtain n' where n': "serve (uncached E) now r n = (a, n')" "sim m' n'"
    using sim_serve [OF Cons.prems assms, of now r] m' by (cases "serve (uncached E) now r n") auto
  from Cons.IH [OF n'(2)] show ?case
    by (cases "serve_all E rs m'"; cases "serve_all (uncached E) rs n'") (simp add: p m' n')
qed simp

lemma sim_start: "entry c = (\<lambda>_. None) \<Longrightarrow> sim (new_manager c limit) (new_manager () limit)"
  by (simp add: sim_def alike_def keyed_def agrees_def new_manager_def newMemoryStore_def)

end

section \<open>The cache is transparent\<close>

text \<open>
  C7: The cache is transparent. From the start on, the manager with the cache in memory gives to
  every history of requests (creating, reading, listing, deleting and renewing sandboxes,
  registering and resolving endpoints, at any times) the very answers that the manager without a
  cache gives, records the same events and leaves the same workspaces on disk.
\<close>

theorem cache_transparent:
  assumes "me_cache E = memorySandboxCache"
  shows "fst (serve_all E rs (new_manager newMemorySandboxCache limit)) =
      fst (serve_all (uncached E) rs (new_manager () limit))
    \<and> alike (snd (serve_all E rs (new_manager newMemorySandboxCache limit)))
        (snd (serve_all (uncached E) rs (new_manager () limit)))"
  using memory.sim_serve_all [OF assms memory.sim_start, of newMemorySandboxCache rs limit]
  by (simp add: newMemorySandboxCache_def memory.sim_def fun_eq_iff)

end
