(* ===== verification/Sandbox_States.thy ===== *)
theory Sandbox_States
  imports Sandbox_Cache_Refinement Transition_System
begin

text \<open>
  The life of a sandbox as a state machine. The detailed manager refines a step relation on the
  stored sandboxes: a sandbox is created under a fresh name and within the limit on active
  sandboxes, it expires when its time has passed, it is deleted, it is renewed. Safety is
  proved on the relation, by rule induction, and carried over to the manager.
\<close>

section \<open>The specification\<close>

type_synonym lifecycle = "(string \<rightharpoonup> sandbox) \<times> nat"

definition active_set :: "string \<Rightarrow> time \<Rightarrow> (string \<rightharpoonup> sandbox) \<Rightarrow> string set" where
  "active_set w now M = {sid. \<exists>b. M sid = Some b \<and> live now b \<and> sb_WorkerID b = w}"

text \<open>The name that the next sandbox gets.\<close>

definition box_name :: "'c manager_env \<Rightarrow> nat \<Rightarrow> string" where
  "box_name E d = ''sbx_'' @ me_rand E d"

text \<open>
  The flag says whether a sandbox is renewed only while it is live: the code does not require it.
\<close>

inductive lifecycle_step :: "bool \<Rightarrow> 'c manager_env \<Rightarrow> time \<Rightarrow> lifecycle \<Rightarrow> lifecycle \<Rightarrow> bool"
  for gentle E now where
  draw: "lifecycle_step gentle E now (M, d) (M, Suc d)"
| create: "sb_ID b = box_name E d \<Longrightarrow> sb_Status b = StatusActive \<Longrightarrow> sb_WorkerID b = me_workerID E \<Longrightarrow>
    sb_ExpiresAt b \<le> now + maxTTL (me_policy E) (sb_RuntimeProfile b) \<Longrightarrow>
    cf_MaxActive (sv_config (me_policy E)) > 0 \<longrightarrow>
      int (card (active_set (me_workerID E) now M)) < cf_MaxActive (sv_config (me_policy E)) \<Longrightarrow>
    lifecycle_step gentle E now (M, d) (M(sb_ID b \<mapsto> b), Suc d)"
| expire: "M sid = Some b \<Longrightarrow> sb_Status b = StatusActive \<Longrightarrow> now > sb_ExpiresAt b \<Longrightarrow>
    lifecycle_step gentle E now (M, d) (M(sid \<mapsto> b\<lparr>sb_Status := StatusExpired, sb_UpdatedAt := now\<rparr>), d)"
| delete: "M sid = Some b \<Longrightarrow>
    lifecycle_step gentle E now (M, d) (M(sid \<mapsto> b\<lparr>sb_Status := StatusDeleted, sb_UpdatedAt := now\<rparr>), d)"
| renew: "M sid = Some b \<Longrightarrow> sb_Status b = StatusActive \<Longrightarrow> gentle \<longrightarrow> live now b \<Longrightarrow>
    ttl \<le> maxTTL (me_policy E) (sb_RuntimeProfile b) \<Longrightarrow>
    lifecycle_step gentle E now (M, d)
      (M(sid \<mapsto> b\<lparr>sb_ExpiresAt := now + ttl, sb_UpdatedAt := now, sb_TTLSeconds := whole_seconds ttl\<rparr>), d)"

inductive_cases lifecycle_stepE: "lifecycle_step gentle E now s s'"

abbreviation lifecycle_steps :: "bool \<Rightarrow> 'c manager_env \<Rightarrow> time \<Rightarrow> lifecycle \<Rightarrow> lifecycle \<Rightarrow> bool" where
  "lifecycle_steps gentle E now \<equiv> (lifecycle_step gentle E now)\<^sup>*\<^sup>*"

section \<open>Invariants of the specification\<close>

text \<open>The names are those that have been drawn.\<close>

definition drawn :: "'c manager_env \<Rightarrow> lifecycle \<Rightarrow> bool" where
  "drawn E s \<longleftrightarrow> finite (dom (fst s)) \<and> dom (fst s) \<subseteq> box_name E ` {..<snd s}"

interpretation drawn: step_invariant "lifecycle_step gentle E now" "drawn E"
proof
  fix s s' assume inv: "drawn E s" and "lifecycle_step gentle E now s s'"
  from this(2) show "drawn E s'"
    by cases (use inv in \<open>simp_all add: drawn_def lessThan_Suc subset_insertI2 domI insert_absorb\<close>)
qed

lemma drawn_fresh:
  assumes "inj (me_rand E)" and "drawn E (M, d)"
  shows "M (box_name E d) = None"
proof (rule ccontr)
  assume "M (box_name E d) \<noteq> None"
  with assms(2) obtain i where "i < d" "me_rand E d = me_rand E i" by (auto simp: drawn_def box_name_def)
  with assms(1) show False by (metis injD less_irrefl)
qed

text \<open>A sandbox that has been deleted or has expired does not come back.\<close>

definition retired :: "string \<Rightarrow> lifecycle \<Rightarrow> bool" where
  "retired sid s \<longleftrightarrow> (\<exists>b. fst s sid = Some b \<and> sb_Status b \<noteq> StatusActive)"

lemma retired_step:
  assumes "inj (me_rand E)" and "drawn E s \<and> retired sid s" and "lifecycle_step gentle E now s s'"
  shows "drawn E s' \<and> retired sid s'"
proof
  from assms show "drawn E s'" using drawn.preserved by blast
  show "retired sid s'"
    using assms(3)
  proof cases
    case (create b d M)
    then have "M (sb_ID b) = None" using assms(2) drawn_fresh [OF assms(1), of M d] by simp
    with create assms(2) show ?thesis by (auto simp: retired_def)
  qed (use assms(2) in \<open>auto simp: retired_def\<close>)
qed

lemma retired_steps:
  assumes "inj (me_rand E)" and "lifecycle_steps gentle E now s s'" and "drawn E s \<and> retired sid s"
  shows "drawn E s' \<and> retired sid s'"
proof -
  have "step_invariant (lifecycle_step gentle E now) (\<lambda>s. drawn E s \<and> retired sid s)"
    by unfold_locales (rule retired_step [OF assms(1)])
  from step_invariant.holds_reachable [OF this assms(2,3)] show ?thesis .
qed

text \<open>The number of live sandboxes.\<close>

definition within_limit :: "'c manager_env \<Rightarrow> time \<Rightarrow> lifecycle \<Rightarrow> bool" where
  "within_limit E now s \<longleftrightarrow>
     (cf_MaxActive (sv_config (me_policy E)) > 0 \<longrightarrow>
        int (card (active_set (me_workerID E) now (fst s))) \<le> cf_MaxActive (sv_config (me_policy E)))"

lemma active_set_mono: "now \<le> now' \<Longrightarrow> active_set w now' M \<subseteq> active_set w now M"
  by (auto simp: active_set_def live_def)

lemma active_set_finite: "finite (dom M) \<Longrightarrow> finite (active_set w now M)"
  by (rule finite_subset [of _ "dom M"]) (auto simp: active_set_def)

lemma active_set_keep:
  assumes "M sid = Some b" and "live now b' \<longrightarrow> live now b" and "sb_WorkerID b' = sb_WorkerID b"
  shows "active_set w now (M(sid \<mapsto> b')) \<subseteq> active_set w now M"
  using assms by (auto simp: active_set_def)

lemma within_limit_subset:
  assumes "finite (dom M)" and "active_set (me_workerID E) now' M' \<subseteq> active_set (me_workerID E) now M"
    and "within_limit E now (M, d)"
  shows "within_limit E now' (M', d')"
  using card_mono [OF active_set_finite [OF assms(1), of "me_workerID E" now] assms(2)] assms(3)
  by (auto simp: within_limit_def)

lemma within_limit_keep:
  assumes "drawn E (M, d) \<and> within_limit E now (M, d)" and "M sid = Some b"
    and "live now b' \<longrightarrow> live now b" and "sb_WorkerID b' = sb_WorkerID b"
  shows "within_limit E now (M(sid \<mapsto> b'), d')"
proof (rule within_limit_subset)
  show "finite (dom M)" "within_limit E now (M, d)" using assms(1) by (simp_all add: drawn_def)
  show "active_set (me_workerID E) now (M(sid \<mapsto> b')) \<subseteq> active_set (me_workerID E) now M"
    using assms(2-4) by (rule active_set_keep)
qed

lemma within_limit_step:
  assumes "drawn E s \<and> within_limit E now s" and "lifecycle_step True E now s s'"
  shows "drawn E s' \<and> within_limit E now s'"
proof
  from assms show "drawn E s'" using drawn.preserved by blast
  show "within_limit E now s'"
    using assms(2)
  proof cases
    case (draw M d)
    with assms(1) show ?thesis by (simp add: within_limit_def)
  next
    case (create b d M)
    let ?A = "active_set (me_workerID E) now"
    have "finite (?A M)" using assms(1) create(1) by (intro active_set_finite) (simp add: drawn_def)
    moreover have "?A (M(sb_ID b \<mapsto> b)) \<subseteq> insert (sb_ID b) (?A M)"
      by (auto simp: active_set_def)
    ultimately have "card (?A (M(sb_ID b \<mapsto> b))) \<le> card (insert (sb_ID b) (?A M))"
      by (intro card_mono) simp_all
    also have "\<dots> \<le> Suc (card (?A M))" using \<open>finite (?A M)\<close> by (simp add: card_insert_if)
    finally show ?thesis using create by (auto simp: within_limit_def)
  next
    case (expire M sid b d)
    with assms(1) show ?thesis by (auto intro!: within_limit_keep simp: live_def)
  next
    case (delete M sid b d)
    with assms(1) show ?thesis by (auto intro!: within_limit_keep simp: live_def)
  next
    case (renew M sid b ttl d)
    with assms(1) show ?thesis by (auto intro!: within_limit_keep)
  qed
qed

lemma within_limit_steps:
  assumes "lifecycle_steps True E now s s'" and "drawn E s \<and> within_limit E now s"
  shows "drawn E s' \<and> within_limit E now s'"
proof -
  have "step_invariant (lifecycle_step True E now) (\<lambda>s. drawn E s \<and> within_limit E now s)"
    by unfold_locales (rule within_limit_step)
  from step_invariant.holds_reachable [OF this assms] show ?thesis .
qed

section \<open>The manager refines it\<close>

definition abstract :: "'c manager \<Rightarrow> lifecycle" where
  "abstract m = (map_of (boxes m), mg_draws m)"

lemma card_filter_map:
  "distinct (map fst xs) \<Longrightarrow> card {k. \<exists>v. map_of xs k = Some v \<and> P v} = length (filter P (map snd xs))"
proof (induction xs)
  case (Cons x xs)
  let ?A = "{k. \<exists>v. map_of xs k = Some v \<and> P v}"
  have sub: "?A \<subseteq> fst ` set xs" by (auto dest!: map_of_in_keys)
  then have fin: "finite ?A" by (rule finite_subset) simp
  have fresh: "fst x \<notin> ?A" using sub Cons.prems by auto
  have "{k. \<exists>v. map_of (x # xs) k = Some v \<and> P v} = (if P (snd x) then insert (fst x) ?A else ?A)"
    using fresh by (auto split: if_splits)
  then show ?case using Cons fresh fin by simp
qed simp

lemma CountActive_card:
  "keyed m \<Longrightarrow> CountActive (mg_store m) w now = int (card (active_set w now (map_of (boxes m))))"
  unfolding CountActive_def active_set_def ListSandboxes_def keyed_def by (subst card_filter_map) simp_all

lemma keyed_serve: "keyed n \<Longrightarrow> keyed (snd (serve (uncached E) now r n))"
  using noop.sim_serve [of n n "uncached E" now r] by (auto simp: noop.sim_def alike_def noop.agrees_def)

lemma abstract_cache [simp]: "abstract (m\<lparr>mg_cache := c\<rparr>) = abstract m" "abstract (m\<lparr>mg_roots := rs\<rparr>) = abstract m"
  "abstract (m\<lparr>mg_store := SaveEndpoint e (mg_store m)\<rparr>) = abstract m"
  by (simp_all add: abstract_def SaveEndpoint_def)

lemma abstract_save: "abstract (store_save b m) = ((map_of (boxes m))(sb_ID b \<mapsto> b), mg_draws m)"
  by (simp add: abstract_def store_save_def SaveSandbox_def update_conv')

lemma steps_Record:
  "lifecycle_steps g E now s (abstract m) \<Longrightarrow> lifecycle_steps g E now s (abstract (Record U now t sid msg md m))"
proof (erule rtranclp.rtrancl_into_rtrancl)
  show "lifecycle_step g E now (abstract m) (abstract (Record U now t sid msg md m))"
    by (simp add: abstract_def Record_def token_def lifecycle_step.draw)
qed

lemma steps_expire:
  assumes "map_of (boxes m) (sb_ID b) = Some b"
  shows "lifecycle_steps g E now (abstract m) (abstract (snd (expireIfNeeded (uncached E) now b m)))"
proof (cases "sb_Status b = StatusActive \<and> now > sb_ExpiresAt b")
  case True
  let ?b = "b\<lparr>sb_Status := StatusExpired, sb_UpdatedAt := now\<rparr>"
  have "lifecycle_step g E now (abstract m) (abstract (store_save ?b m))"
    using True assms by (simp add: abstract_save) (simp add: abstract_def lifecycle_step.expire)
  with True show ?thesis
    by (simp add: expireIfNeeded_def Let_def r_into_rtranclp steps_Record)
next
  case False
  then show ?thesis by (auto simp: expireIfNeeded_def)
qed

lemma steps_Get:
  assumes "keyed m"
  shows "lifecycle_steps g E now (abstract m) (abstract (snd (Get (uncached E) now sid m)))"
proof (cases "map_of (boxes m) sid")
  case (Some b)
  with assms steps_expire [of m b g E now] keyedD [OF assms Some] show ?thesis
    by (auto simp: noop.get_uncached GetSandbox_def split: prod.splits)
qed (simp add: noop.get_uncached GetSandbox_def)

lemma steps_list_loop:
  "distinct (map sb_ID bs) \<Longrightarrow> \<forall>b \<in> set bs. map_of (boxes m) (sb_ID b) = Some b
   \<Longrightarrow> lifecycle_steps g E now (abstract m) (abstract (snd (list_loop (uncached E) now bs m)))"
proof (induction bs arbitrary: m)
  case (Cons b bs)
  let ?m = "snd (expireIfNeeded (uncached E) now b m)"
  from Cons.prems(1) have "\<forall>d \<in> set bs. sb_ID d \<noteq> sb_ID b" by (simp add: image_iff) metis
  then have "\<forall>d \<in> set bs. map_of (boxes ?m) (sb_ID d) = Some d"
    using Cons.prems(2) by (simp add: boxes_expire update_conv')
  then have "lifecycle_steps g E now (abstract ?m) (abstract (snd (list_loop (uncached E) now bs ?m)))"
    using Cons by simp
  moreover have "lifecycle_steps g E now (abstract m) (abstract ?m)"
    using Cons.prems(2) by (intro steps_expire) simp
  ultimately show ?case by (auto simp: Let_def split: prod.splits)
qed simp

lemma steps_List:
  assumes "keyed m"
  shows "lifecycle_steps g E now (abstract m) (abstract (snd (List_sandboxes (uncached E) now m)))"
proof -
  have "map sb_ID (ListSandboxes (mg_store m)) = map fst (boxes m)"
    using assms by (auto simp: keyed_def ListSandboxes_def)
  moreover have "map_of (boxes m) (sb_ID b) = Some b" if "b \<in> set (ListSandboxes (mg_store m))" for b
    using that assms by (force simp: keyed_def ListSandboxes_def)
  ultimately show ?thesis
    using steps_list_loop [of "ListSandboxes (mg_store m)" m g E now] assms
    by (auto simp: List_sandboxes_def keyed_def split: prod.splits)
qed

lemma NormalizeCreateD:
  assumes "NormalizeCreate s profile ttl net policy dep active org orgActive = Inr d"
  shows "cd_TTL d \<le> maxTTL s (cd_RuntimeProfile d)"
    and "cf_MaxActive (sv_config s) > 0 \<longrightarrow> active < cf_MaxActive (sv_config s)"
    and "org \<noteq> [] \<and> cf_MaxActivePerOrganization (sv_config s) > 0 \<longrightarrow> orgActive < cf_MaxActivePerOrganization (sv_config s)"
    and "cd_TTL d = normalizeTTL s (cd_RuntimeProfile d) ttl"
    and "cd_NetworkEnabled d = net"
    and "net \<longrightarrow> networkPolicyAllowsEgress s (cd_NetworkPolicy d)
      \<and> (networkPolicyRequiresEnforcement s (cd_NetworkPolicy d) \<longrightarrow> NetworkPolicyEnforced (sv_config s))"
proof -
  from assms have "cd_TTL d = normalizeTTL s (cd_RuntimeProfile d) ttl \<and> cd_NetworkEnabled d = net
    \<and> \<not> (cf_MaxActive (sv_config s) > 0 \<and> active \<ge> cf_MaxActive (sv_config s))
    \<and> \<not> (org \<noteq> [] \<and> cf_MaxActivePerOrganization (sv_config s) > 0 \<and> orgActive \<ge> cf_MaxActivePerOrganization (sv_config s))
    \<and> \<not> (net \<and> \<not> networkPolicyAllowsEgress s (cd_NetworkPolicy d))
    \<and> \<not> (net \<and> networkPolicyRequiresEnforcement s (cd_NetworkPolicy d) \<and> \<not> NetworkPolicyEnforced (sv_config s))"
    unfolding NormalizeCreate_def by (simp split: sum.splits if_split_asm) auto
  then show "cd_TTL d = normalizeTTL s (cd_RuntimeProfile d) ttl" and "cd_NetworkEnabled d = net"
    and "cd_TTL d \<le> maxTTL s (cd_RuntimeProfile d)"
    and "cf_MaxActive (sv_config s) > 0 \<longrightarrow> active < cf_MaxActive (sv_config s)"
    and "org \<noteq> [] \<and> cf_MaxActivePerOrganization (sv_config s) > 0 \<longrightarrow> orgActive < cf_MaxActivePerOrganization (sv_config s)"
    and "net \<longrightarrow> networkPolicyAllowsEgress s (cd_NetworkPolicy d)
      \<and> (networkPolicyRequiresEnforcement s (cd_NetworkPolicy d) \<longrightarrow> NetworkPolicyEnforced (sv_config s))"
    by (auto simp: normalizeTTL_le not_le)
qed

lemma create_admitD:
  assumes "create_admit E now req s = Inr (ow, d)"
  shows "normalizeOwnership req = Inr ow"
    and "NormalizeCreate (me_policy E) (cq_RuntimeProfile req) (cq_TTLSeconds req) (cq_NetworkEnabled req)
      (cq_NetworkPolicy req) (cq_DependencyProfile req) (CountActive s (me_workerID E) now) (ow_OrganizationID ow)
      (if ow_OrganizationID ow \<noteq> [] then CountActiveByOrganization s (ow_OrganizationID ow) now else 0) = Inr d"
    and "enforceOrganizationDependencyProfileLimit E s (ow_OrganizationID ow) (cd_DependencyProfile d) now = None"
  using assms by (auto simp: create_admit_def Let_def split: sum.splits option.splits)

lemma created_item_simps [simp]:
  "sb_ID (created_item E now req ow d sid root) = sid"
  "sb_Status (created_item E now req ow d sid root) = StatusActive"
  "sb_WorkerID (created_item E now req ow d sid root) = me_workerID E"
  "sb_ExpiresAt (created_item E now req ow d sid root) = now + cd_TTL d"
  "sb_RuntimeProfile (created_item E now req ow d sid root) = cd_RuntimeProfile d"
  by (simp_all add: created_item_def Let_def)

lemma steps_Create:
  assumes "keyed m"
  shows "lifecycle_steps g E now (abstract m) (abstract (snd (Create (uncached E) now req m)))"
proof (cases "create_admit (uncached E) now req (mg_store m)")
  case (Inr p)
  obtain ow d where p: "p = (ow, d)" by (cases p)
  note admit = create_admitD [OF Inr [unfolded p]]
  let ?sid = "box_name E (mg_draws m)"
  let ?root = "me_baseDir E @ ''/'' @ ?sid"
  let ?b = "created_item E now req ow d ?sid ?root"
  let ?s = "((map_of (boxes m))(sb_ID ?b \<mapsto> ?b), Suc (mg_draws m))"
  have create: "lifecycle_step g E now (abstract m) ?s"
    unfolding abstract_def
    using NormalizeCreateD [OF admit(2)] CountActive_card [OF assms, of "me_workerID E" now]
    by (intro lifecycle_step.create) simp_all
  have draw: "lifecycle_step g E now (abstract m) (map_of (boxes m), Suc (mg_draws m))"
    by (simp add: abstract_def lifecycle_step.draw)
  have out: "Create (uncached E) now req m = create_commit (uncached E) now req ow d m"
    using Inr p by (simp add: Create_def)
  show ?thesis
  proof (cases "me_mkdir E ?root")
    case None
    have "lifecycle_steps g E now (abstract m) (abstract (store_save ?b
        (m\<lparr>mg_draws := Suc (mg_draws m), mg_roots := List.insert ?root (mg_roots m)\<rparr>)))"
      using create by (simp add: abstract_save r_into_rtranclp)
    with None out show ?thesis
      by (simp add: create_commit_def token_def Let_def steps_Record box_name_def)
  next
    case (Some e)
    with out draw show ?thesis
      by (simp add: create_commit_def token_def Let_def abstract_def box_name_def r_into_rtranclp)
  qed
qed (simp add: Create_def)

lemma steps_Delete:
  assumes "keyed m"
  shows "lifecycle_steps g E now (abstract m) (abstract (snd (Delete (uncached E) now sid m)))"
proof (cases "map_of (boxes m) sid")
  case (Some b)
  let ?b = "b\<lparr>sb_Status := StatusDeleted, sb_UpdatedAt := now\<rparr>"
  have "lifecycle_step g E now (abstract m) (abstract (store_save ?b m))"
    using Some keyedD [OF assms Some] by (simp add: abstract_save) (simp add: abstract_def lifecycle_step.delete)
  with Some show ?thesis
    by (simp add: Delete_def GetSandbox_def Let_def steps_Record r_into_rtranclp)
qed (simp add: Delete_def GetSandbox_def)

lemma steps_Renew:
  assumes "keyed m" and "g \<longrightarrow> (\<forall>b. map_of (boxes m) sid = Some b \<longrightarrow> live now b)"
  shows "lifecycle_steps g E now (abstract m) (abstract (snd (Renew (uncached E) now sid ttlSeconds m)))"
proof (cases "map_of (boxes m) sid")
  case (Some b)
  show ?thesis
  proof (cases "sb_Status b = StatusActive")
    case True
    let ?x = "\<lambda>ttl. b\<lparr>sb_ExpiresAt := now + ttl, sb_UpdatedAt := now, sb_TTLSeconds := whole_seconds ttl\<rparr>"
    have "lifecycle_step g E now (abstract m) (abstract (store_save (?x ttl) m))"
      if "NormalizeRenew (me_policy E) (sb_RuntimeProfile b) ttlSeconds = Inr ttl" for ttl
    proof -
      from that have "ttl \<le> maxTTL (me_policy E) (sb_RuntimeProfile b)"
        using normalizeTTL_le by (auto simp: NormalizeRenew_def split: sum.splits)
      with True Some assms(2) keyedD [OF assms(1) Some] show ?thesis
        by (simp add: abstract_save) (simp add: abstract_def lifecycle_step.renew)
    qed
    with Some True show ?thesis
      by (simp add: Renew_def GetSandbox_def Let_def steps_Record r_into_rtranclp split: sum.split)
  qed (use Some in \<open>simp add: Renew_def GetSandbox_def\<close>)
qed (simp add: Renew_def GetSandbox_def)

lemma steps_endpoints:
  assumes "keyed m"
  shows "lifecycle_steps g E now (abstract m) (abstract (snd (RegisterEndpoint (uncached E) now sid port req m)))"
    and "lifecycle_steps g E now (abstract m) (abstract (snd (resolveEndpoint (uncached E) now sid port record_it m)))"
proof -
  obtain r m' where get: "Get (uncached E) now sid m = (r, m')" by fastforce
  with steps_Get [OF assms, of g E now sid] have steps: "lifecycle_steps g E now (abstract m) (abstract m')" by simp
  then have "lifecycle_steps g E now (abstract m)
      (abstract (Record (uncached E) now t s msg md (m'\<lparr>mg_store := SaveEndpoint e (mg_store m')\<rparr>)))"
    for t s msg md e by (simp add: steps_Record)
  with steps get show "lifecycle_steps g E now (abstract m) (abstract (snd (RegisterEndpoint (uncached E) now sid port req m)))"
    by (simp add: RegisterEndpoint_def Let_def split: sum.split option.split)
  from steps get show "lifecycle_steps g E now (abstract m) (abstract (snd (resolveEndpoint (uncached E) now sid port record_it m)))"
    by (simp add: resolveEndpoint_def Let_def steps_Record split: sum.split option.split)
qed

definition gentle_request :: "time \<Rightarrow> sandbox_request \<Rightarrow> 'c manager \<Rightarrow> bool" where
  "gentle_request now r m \<longleftrightarrow>
     (case r of RRenew sid _ \<Rightarrow> (case map_of (boxes m) sid of Some b \<Rightarrow> live now b | None \<Rightarrow> True) | _ \<Rightarrow> True)"

lemma serve_refines:
  assumes "keyed m" and "g \<longrightarrow> gentle_request now r m"
  shows "lifecycle_steps g E now (abstract m) (abstract (snd (serve (uncached E) now r m)))"
proof (cases r)
  case (RRenew sid ttl)
  with assms show ?thesis
    by (auto simp: gentle_request_def map_prod_def split_beta intro!: steps_Renew)
qed (simp_all add: assms(1) steps_Create steps_Get steps_List steps_Delete steps_endpoints map_prod_def split_beta)

section \<open>Histories\<close>

lemma serve_all_state [simp]: "snd (serve_all E (p # rs) m) = snd (serve_all E rs (snd (serve E (fst p) (snd p) m)))"
  by (cases p) (simp split: prod.split)

lemma drawn_serve_all:
  "keyed m \<Longrightarrow> drawn E (abstract m) \<Longrightarrow>
   keyed (snd (serve_all (uncached E) rs m)) \<and> drawn E (abstract (snd (serve_all (uncached E) rs m)))"
proof (induction rs arbitrary: m)
  case (Cons p rs)
  have "lifecycle_steps False E (fst p) (abstract m) (abstract (snd (serve (uncached E) (fst p) (snd p) m)))"
    using Cons.prems(1) by (intro serve_refines) simp_all
  then have "drawn E (abstract (snd (serve (uncached E) (fst p) (snd p) m)))"
    using Cons.prems(2) by (rule drawn.holds_reachable)
  with Cons.IH keyed_serve [OF Cons.prems(1), of E "fst p" "snd p"] show ?case by simp
qed simp

lemma retired_serve_all:
  assumes "inj (me_rand E)"
  shows "keyed m \<Longrightarrow> drawn E (abstract m) \<and> retired sid (abstract m) \<Longrightarrow>
    retired sid (abstract (snd (serve_all (uncached E) rs m)))"
proof (induction rs arbitrary: m)
  case (Cons p rs)
  let ?m = "snd (serve (uncached E) (fst p) (snd p) m)"
  have "lifecycle_steps False E (fst p) (abstract m) (abstract ?m)"
    using Cons.prems(1) by (intro serve_refines) simp_all
  then have "drawn E (abstract ?m) \<and> retired sid (abstract ?m)"
    using Cons.prems(2) by (rule retired_steps [OF assms])
  with Cons.IH keyed_serve [OF Cons.prems(1), of E "fst p" "snd p"] show ?case by simp
qed simp

text \<open>Every renewal in the history is one of a live sandbox.\<close>

fun gentle_history :: "'c manager_env \<Rightarrow> (time \<times> sandbox_request) list \<Rightarrow> 'c manager \<Rightarrow> bool" where
  "gentle_history E [] m \<longleftrightarrow> True"
| "gentle_history E (p # rs) m \<longleftrightarrow>
     gentle_request (fst p) (snd p) m \<and> gentle_history E rs (snd (serve E (fst p) (snd p) m))"

lemma within_limit_later:
  "within_limit E now (abstract m) \<Longrightarrow> now \<le> now' \<Longrightarrow> within_limit E now' (abstract m)"
  unfolding abstract_def by (rule within_limit_subset [OF finite_dom_map_of active_set_mono])

lemma within_limit_serve_all:
  "keyed m \<Longrightarrow> drawn E (abstract m) \<Longrightarrow> within_limit E now (abstract m) \<Longrightarrow> gentle_history (uncached E) rs m
   \<Longrightarrow> sorted (now # map fst rs) \<Longrightarrow> \<forall>t \<in> set (map fst rs). t \<le> now' \<Longrightarrow> now \<le> now'
   \<Longrightarrow> within_limit E now' (abstract (snd (serve_all (uncached E) rs m)))"
proof (induction rs arbitrary: m now)
  case Nil
  then show ?case by (simp add: within_limit_later)
next
  case (Cons p rs)
  let ?m = "snd (serve (uncached E) (fst p) (snd p) m)"
  have "drawn E (abstract m) \<and> within_limit E (fst p) (abstract m)"
    using Cons.prems(2,3,5) by (simp add: within_limit_later)
  moreover have "lifecycle_steps True E (fst p) (abstract m) (abstract ?m)"
    using Cons.prems(1,4) by (intro serve_refines) simp_all
  ultimately have "drawn E (abstract ?m) \<and> within_limit E (fst p) (abstract ?m)"
    by (intro within_limit_steps [of E "fst p" "abstract m" "abstract ?m"])
  with Cons.IH [of ?m "fst p"] keyed_serve [OF Cons.prems(1), of E "fst p" "snd p"] Cons.prems(4-6) show ?case by simp
qed

end
