(* ===== verification/Sandbox_Safety.thy ===== *)
theory Sandbox_Safety
  imports Sandbox_States
begin

text \<open>
  What the manager of sandboxes guarantees over whole histories of requests, and where it does
  not: the end of a sandbox is final, the limit on active sandboxes holds as long as only live
  sandboxes are renewed, and it is exceeded by the renewal of a sandbox whose time has passed and
  by two creations that overlap.
\<close>

section \<open>Transfer along the refinement\<close>

abbreviation start :: "int \<Rightarrow> memory_cache manager" where
  "start limit \<equiv> new_manager newMemorySandboxCache limit"

abbreviation start' :: "int \<Rightarrow> unit manager" where
  "start' limit \<equiv> new_manager () limit"

lemma run_sim:
  assumes "me_cache E = memorySandboxCache"
  shows "fst (serve_all E rs (start limit)) = fst (serve_all (uncached E) rs (start' limit))"
    and "memory.sim (snd (serve_all E rs (start limit))) (snd (serve_all (uncached E) rs (start' limit)))"
  using memory.sim_serve_all [OF assms memory.sim_start, of newMemorySandboxCache rs limit]
  by (simp_all add: newMemorySandboxCache_def fun_eq_iff)

lemma start_inv: "keyed (start' limit)" "drawn E (abstract (start' limit))" "within_limit E now (abstract (start' limit))"
  by (simp_all add: keyed_def drawn_def abstract_def within_limit_def active_set_def new_manager_def newMemoryStore_def)

lemma run_inv:
  "keyed (snd (serve_all (uncached E) rs (start' limit)))"
  "drawn E (abstract (snd (serve_all (uncached E) rs (start' limit))))"
  using drawn_serve_all [OF start_inv(1,2)] by blast+

section \<open>Finality\<close>

lemma retired_answers:
  assumes "retired sid (abstract m)" and "keyed m"
  shows "fst (Get (uncached E) now sid m) = Inl (Message ''sandbox expired'')"
    and "fst (Renew (uncached E) now sid ttl m) = Inl (Message ''sandbox is not active'')"
  using assms by (auto simp: retired_def abstract_def noop.get_uncached Renew_def GetSandbox_def expireIfNeeded_def)

lemma list_loop_active:
  "set (fst (list_loop E now bs m)) \<subseteq> attachEffectiveLimits E ` {b \<in> set bs. sb_Status b = StatusActive \<and> now \<le> sb_ExpiresAt b}"
proof (induction bs arbitrary: m)
  case (Cons b bs)
  obtain f m' where f: "expireIfNeeded E now b m = (f, m')" by fastforce
  with expire_flags [of E now b m] have f': "f = (sb_Status b \<noteq> StatusActive \<or> now > sb_ExpiresAt b,
     sb_Status b = StatusActive \<and> now > sb_ExpiresAt b)" by simp
  show ?case
    using Cons.IH [of m'] Cons.IH [of "cache_set E now (attachEffectiveLimits E b) m'"]
    by (auto simp: f f' Let_def split: prod.splits)
qed simp

lemma retired_not_listed:
  assumes "retired sid (abstract m)" and "keyed m" and "b \<in> set (fst (List_sandboxes (uncached E) now m))"
  shows "sb_ID b \<noteq> sid"
proof
  assume "sb_ID b = sid"
  from assms(3) obtain c where "c \<in> set (ListSandboxes (mg_store m))" "sb_Status c = StatusActive"
    and b: "b = attachEffectiveLimits E c"
    using list_loop_active [of "uncached E" now "ListSandboxes (mg_store m)" m]
    by (auto simp: List_sandboxes_def split: prod.splits)
  moreover have "sb_ID c = sid" using \<open>sb_ID b = sid\<close> b by (simp add: attachEffectiveLimits_def)
  ultimately have "map_of (boxes m) sid = Some c"
    using assms(2) by (force simp: keyed_def ListSandboxes_def)
  with assms(1) \<open>sb_Status c = StatusActive\<close> show False by (simp add: retired_def abstract_def)
qed

lemma Delete_retires:
  assumes "keyed m" and "fst (Delete (uncached E) now sid m) = None"
  shows "retired sid (abstract (snd (Delete (uncached E) now sid m)))"
proof (cases "map_of (boxes m) sid")
  case (Some b)
  with keyedD [OF assms(1) Some] show ?thesis
    by (simp add: Delete_def GetSandbox_def Let_def retired_def abstract_def update_conv')
qed (use assms(2) in \<open>simp add: Delete_def GetSandbox_def\<close>)

lemma Get_expired_retires:
  assumes "keyed m" and "fst (Get (uncached E) now sid m) = Inl (Message ''sandbox expired'')"
  shows "retired sid (abstract (snd (Get (uncached E) now sid m)))"
proof (cases "map_of (boxes m) sid")
  case (Some b)
  with keyedD [OF assms(1) Some] assms(2) show ?thesis
    by (auto simp: noop.get_uncached GetSandbox_def expireIfNeeded_def Let_def retired_def abstract_def update_conv'
        split: if_splits)
qed (use assms(2) in \<open>simp add: noop.get_uncached GetSandbox_def\<close>)

lemma length_serve_all [simp]: "length (fst (serve_all E rs m)) = length rs"
  by (induction E rs m rule: serve_all.induct) (auto split: prod.split)

lemma serve_all_split:
  "fst (serve_all E (rs @ (t, r) # rs') m) ! length rs = fst (serve E t r (snd (serve_all E rs m)))"
  "snd (serve_all E (rs @ (t, r) # rs') m) = snd (serve_all E rs' (snd (serve E t r (snd (serve_all E rs m)))))"
proof -
  obtain as n where run: "serve_all E rs m = (as, n)" by fastforce
  then have "length as = length rs" using length_serve_all [of E rs m] by (simp del: length_serve_all)
  with run show "fst (serve_all E (rs @ (t, r) # rs') m) ! length rs = fst (serve E t r (snd (serve_all E rs m)))"
    and "snd (serve_all E (rs @ (t, r) # rs') m) = snd (serve_all E rs' (snd (serve E t r (snd (serve_all E rs m)))))"
    by (auto simp: serve_all_append nth_append split: prod.splits)
qed

text \<open>
  C4: The end of a sandbox is final. Once a request to delete a sandbox has succeeded, or a read has
  answered that the sandbox expired, then after any further requests, at any times, every read of
  it answers that it expired, every renewal is refused, no endpoint is registered for it or
  resolved, and it is in no listing. The random names are assumed not to repeat.
\<close>

theorem retired_final:
  assumes "me_cache E = memorySandboxCache" and "inj (me_rand E)"
    and "serve_all E (rs @ (t, r) # rs') (start limit) = (as, m)"
    and "r = RDelete sid \<and> as ! length rs = Done None
      \<or> r = RGet sid \<and> as ! length rs = Box (Inl (Message ''sandbox expired''))"
  shows "fst (serve E now (RGet sid) m) = Box (Inl (Message ''sandbox expired''))
    \<and> fst (serve E now (RRenew sid ttl) m) = Box (Inl (Message ''sandbox is not active''))
    \<and> fst (serve E now (RRegister sid port req) m) = Point (Inl (Message ''sandbox expired''))
    \<and> fst (serve E now (RResolve sid port record_it) m) = Point (Inl (Message ''sandbox expired''))
    \<and> (\<exists>bs. fst (serve E now RList m) = Boxes bs \<and> sid \<notin> sb_ID ` set bs)"
proof -
  let ?U = "uncached E" and ?h = "rs @ (t, r) # rs'"
  let ?before = "snd (serve_all ?U rs (start' limit))"
  let ?after = "snd (serve ?U t r ?before)" and ?n = "snd (serve_all ?U ?h (start' limit))"
  note run = run_sim [OF assms(1), of ?h limit]
  have sim: "memory.sim m ?n" using run(2) assms(3) by simp
  have "as ! length rs = fst (serve ?U t r ?before)"
    using run(1) assms(3) serve_all_split(1) [of ?U rs t r rs' "start' limit"] by simp
  with assms(4) have "retired sid (abstract ?after)"
    using Delete_retires [OF run_inv(1) [of E rs limit], of E t sid]
      Get_expired_retires [OF run_inv(1) [of E rs limit], of E t sid] by (auto simp: map_prod_def split_beta)
  moreover have "keyed ?after" "drawn E (abstract ?after)"
    using run_inv [of E "rs @ [(t, r)]" limit] by (simp_all add: serve_all_split)
  ultimately have retired: "retired sid (abstract ?n)"
    using retired_serve_all [OF assms(2)] by (simp add: serve_all_split)
  note keyed = run_inv(1) [of E ?h limit]
  have same: "fst (serve E now q m) = fst (serve ?U now q ?n)" for q
    using memory.sim_serve [OF sim assms(1)] by simp
  note get = retired_answers [OF retired keyed, of E now]
  obtain n' where n': "Get ?U now sid ?n = (Inl (Message ''sandbox expired''), n')"
    using get(1) by (metis prod.collapse)
  show ?thesis
    unfolding same
    using get n' retired_not_listed [OF retired keyed, of _ E now]
    by (auto simp: map_prod_def split_beta RegisterEndpoint_def resolveEndpoint_def)
qed

section \<open>The limit on active sandboxes\<close>

lemma gentle_sim:
  assumes "memory.sim m n"
  shows "gentle_request now r m = gentle_request now r n"
proof -
  have "alike m n" using assms by (simp add: memory.sim_def)
  have live: "live now b = live now b'" if "nf b = nf b'" for b b'
    using nf_same [OF that] by (auto elim!: sameE simp: live_def)
  show ?thesis
  proof (cases r)
    case (RRenew sid ttl)
    have "rel_option (\<lambda>b b'. live now b = live now b') (map_of (boxes m) sid) (map_of (boxes n) sid)"
      using alike_lookup [OF \<open>alike m n\<close>] by (rule option.rel_mono_strong) (rule live)
    then show ?thesis
      by (cases "map_of (boxes m) sid"; cases "map_of (boxes n) sid") (simp_all add: RRenew gentle_request_def)
  qed (simp_all add: gentle_request_def)
qed

lemma gentle_history_sim:
  assumes "me_cache E = memorySandboxCache"
  shows "memory.sim m n \<Longrightarrow> gentle_history E rs m = gentle_history (uncached E) rs n"
proof (induction rs arbitrary: m n)
  case (Cons p rs)
  have "memory.sim (snd (serve E (fst p) (snd p) m)) (snd (serve (uncached E) (fst p) (snd p) n))"
    using memory.sim_serve [OF Cons.prems assms] by blast
  with Cons gentle_sim [OF Cons.prems] show ?case by simp
qed simp

text \<open>
  C18: The limit on active sandboxes. When the operator has set a limit and the requests come in the
  order of time, then after every history in which only live sandboxes are renewed, the number
  of active sandboxes of the worker is within the limit.
\<close>

theorem active_limit_kept:
  assumes "me_cache E = memorySandboxCache" and "cf_MaxActive (sv_config (me_policy E)) > 0"
    and "sorted (map fst rs)" and "\<forall>t \<in> set (map fst rs). t \<le> now"
    and "gentle_history E rs (start limit)"
  shows "ActiveCount E now (snd (serve_all E rs (start limit))) \<le> cf_MaxActive (sv_config (me_policy E))"
proof -
  let ?m = "snd (serve_all E rs (start limit))" and ?n = "snd (serve_all (uncached E) rs (start' limit))"
  have sim: "memory.sim ?m ?n" by (rule run_sim(2) [OF assms(1)])
  have "memory.sim (start limit) (start' limit)"
    by (rule memory.sim_start) (simp add: newMemorySandboxCache_def fun_eq_iff)
  then have "gentle_history (uncached E) rs (start' limit)"
    using assms(5) gentle_history_sim [OF assms(1)] by blast
  moreover define t0 where "t0 = (case rs of [] \<Rightarrow> now | p # _ \<Rightarrow> fst p)"
  then have "sorted (t0 # map fst rs)" "t0 \<le> now"
    using assms(3,4) by (auto split: list.splits)
  ultimately have "within_limit E now (abstract ?n)"
    using assms(4) start_inv within_limit_serve_all by blast
  then have "CountActive (mg_store ?n) (me_workerID E) now \<le> cf_MaxActive (sv_config (me_policy E))"
    using assms(2) CountActive_card [OF run_inv(1) [of E rs limit]] by (simp add: within_limit_def abstract_def)
  moreover have "CountActive (mg_store ?m) (me_workerID E) now = CountActive (mg_store ?n) (me_workerID E) now"
    using arg_cong [OF memory.alike_live [of ?m ?n sb_ID now "\<lambda>b. sb_WorkerID b = me_workerID E"], of length] sim
    by (simp add: CountActive_def memory.sim_def)
  ultimately show ?thesis by (simp add: ActiveCount_def)
qed

section \<open>Where the limit is exceeded\<close>

lemma active_set_add:
  assumes "finite (dom M)" and "\<And>b. M sid = Some b \<Longrightarrow> \<not> live now b" and "live now b'" and "sb_WorkerID b' = w"
  shows "card (active_set w now (M(sid \<mapsto> b'))) = Suc (card (active_set w now M))"
proof -
  have "active_set w now (M(sid \<mapsto> b')) = insert sid (active_set w now M)" "sid \<notin> active_set w now M"
    using assms(2-4) by (auto simp: active_set_def)
  with active_set_finite [OF assms(1), of w now] show ?thesis by simp
qed

lemma CountActive_save:
  assumes "keyed m" and "\<And>b. map_of (boxes m) (sb_ID b') = Some b \<Longrightarrow> \<not> live now b" and "live now b'" and "sb_WorkerID b' = w"
  shows "CountActive (mg_store (store_save b' m)) w now = CountActive (mg_store m) w now + 1"
  using active_set_add [of "map_of (boxes m)" "sb_ID b'" now b' w, OF finite_dom_map_of] assms
  by (simp add: CountActive_card update_conv' keyed_save)

lemma count_simps [simp]:
  "CountActive (mg_store (Record E now t sid msg md m)) w u = CountActive (mg_store m) w u"
  "CountActive (mg_store (cache_set E now b m)) w u = CountActive (mg_store m) w u"
  by (simp_all add: Record_def token_def cache_set_def)

text \<open>
  C40: A renewal can exceed the limit. A sandbox whose time has passed does not count as active, but as
  long as no read has marked it as expired a renewal revives it, and nothing compares the number
  of active sandboxes with the limit: at the limit, the renewal leaves one sandbox too many.
\<close>

theorem renew_exceeds_limit:
  assumes "keyed m" and "map_of (boxes m) sid = Some b" and "sb_Status b = StatusActive" and "sb_ExpiresAt b < now"
    and "sb_WorkerID b = me_workerID E" and "normalizeProfile (sb_RuntimeProfile b) = Inr profile"
    and "0 < normalizeTTL (me_policy E) (sb_RuntimeProfile b) ttl"
    and "ActiveCount E now m = cf_MaxActive (sv_config (me_policy E))"
  shows "(\<exists>b'. fst (Renew E now sid ttl m) = Inr b' \<and> sb_ID b' = sid \<and> live now b')
    \<and> ActiveCount E now (snd (Renew E now sid ttl m)) = cf_MaxActive (sv_config (me_policy E)) + 1"
proof -
  let ?ttl = "normalizeTTL (me_policy E) (sb_RuntimeProfile b) ttl"
  let ?b = "b\<lparr>sb_ExpiresAt := now + ?ttl, sb_UpdatedAt := now, sb_TTLSeconds := whole_seconds ?ttl\<rparr>"
  have sid: "sb_ID b = sid" using keyedD [OF assms(1,2)] .
  have "CountActive (mg_store (store_save ?b m)) (me_workerID E) now = CountActive (mg_store m) (me_workerID E) now + 1"
    using assms sid by (intro CountActive_save) (auto simp: live_def)
  with assms sid show ?thesis
    by (simp add: Renew_def GetSandbox_def NormalizeRenew_def Let_def ActiveCount_def live_def)
qed

lemma created_root [simp]: "sb_RootPath (created_item E now req ow d sid root) = root"
  by (simp add: created_item_def Let_def)

lemma create_commit_ok:
  fixes E :: "'c manager_env" and m :: "'c manager" and now req ow d
  assumes "me_mkdir E (me_baseDir E @ ''/'' @ box_name E (mg_draws m)) = None" and "keyed m" and "drawn E (abstract m)"
    and "inj (me_rand E)" and "0 < cd_TTL d"
  defines "b \<equiv> created_item E now req ow d (box_name E (mg_draws m)) (me_baseDir E @ ''/'' @ box_name E (mg_draws m))"
  shows "fst (create_commit E now req ow d m) = Inr b"
    and "map_of (boxes (snd (create_commit E now req ow d m))) = (map_of (boxes m))(box_name E (mg_draws m) \<mapsto> b)"
    and "keyed (snd (create_commit E now req ow d m))"
    and "mg_draws (snd (create_commit E now req ow d m)) = mg_draws m + 2"
    and "CountActive (mg_store (snd (create_commit E now req ow d m))) (me_workerID E) now
      = CountActive (mg_store m) (me_workerID E) now + 1"
proof -
  let ?m = "m\<lparr>mg_draws := Suc (mg_draws m), mg_roots := List.insert (sb_RootPath b) (mg_roots m)\<rparr>"
  have eq: "create_commit E now req ow d m = (Inr b, Record E now ''sandbox.created'' (box_name E (mg_draws m))
      ''sandbox created'' (created_metadata E d b) (cache_set E now b (store_save b ?m)))"
    using assms(1) unfolding b_def box_name_def by (simp add: create_commit_def token_def Let_def)
  have keyed: "keyed ?m" using assms(2) by (simp add: keyed_def)
  have fresh: "map_of (boxes ?m) (sb_ID b) = None"
    using drawn_fresh [OF assms(4), of "map_of (boxes m)" "mg_draws m"] assms(3) by (simp add: abstract_def b_def)
  show "fst (create_commit E now req ow d m) = Inr b" by (simp add: eq)
  show "map_of (boxes (snd (create_commit E now req ow d m))) = (map_of (boxes m))(box_name E (mg_draws m) \<mapsto> b)"
    by (simp add: eq update_conv') (simp add: b_def)
  show "keyed (snd (create_commit E now req ow d m))" using keyed by (simp add: eq)
  show "mg_draws (snd (create_commit E now req ow d m)) = mg_draws m + 2"
    by (simp add: eq Record_def token_def cache_set_def store_save_def)
  have "CountActive (mg_store (store_save b ?m)) (me_workerID E) now = CountActive (mg_store ?m) (me_workerID E) now + 1"
    using keyed fresh assms(5) by (intro CountActive_save) (auto simp: live_def b_def)
  then show "CountActive (mg_store (snd (create_commit E now req ow d m))) (me_workerID E) now
      = CountActive (mg_store m) (me_workerID E) now + 1"
    by (simp add: eq)
qed

lemma drawn_commit:
  assumes "drawn E (M, d)" and "M' = M(box_name E d \<mapsto> b)"
  shows "drawn E (M', d + 2)"
  using assms by (auto simp: drawn_def lessThan_Suc numeral_2_eq_2)

text \<open>
  Two creations that overlap can exceed the limit. Both compare the number of active sandboxes
  with the limit before either of them has stored its sandbox, since nothing is locked in
  between: one place below the limit, both are admitted, both succeed, and the number of active
  sandboxes is above the limit.
\<close>

theorem create_race:
  assumes "keyed m" and "drawn E (abstract m)" and "inj (me_rand E)" and "me_mkdir E = (\<lambda>_. None)"
    and "create_admit E now r1 (mg_store m) = Inr (ow1, d1)" and "0 < cd_TTL d1"
    and "create_admit E now r2 (mg_store m) = Inr (ow2, d2)" and "0 < cd_TTL d2"
    and "ActiveCount E now m = cf_MaxActive (sv_config (me_policy E)) - 1"
    and "create_commit E now r1 ow1 d1 m = (a1, m1)" and "create_commit E now r2 ow2 d2 m1 = (a2, m2)"
  shows "(\<exists>b1 b2. a1 = Inr b1 \<and> a2 = Inr b2 \<and> sb_ID b1 \<noteq> sb_ID b2
      \<and> map_of (boxes m2) (sb_ID b1) = Some b1 \<and> map_of (boxes m2) (sb_ID b2) = Some b2)
    \<and> ActiveCount E now m2 = cf_MaxActive (sv_config (me_policy E)) + 1"
proof -
  have free: "me_mkdir E path = None" for path using assms(4) by simp
  note c1 = create_commit_ok [OF free assms(1-3) assms(6), of now r1 ow1, unfolded assms(10) fst_conv snd_conv]
  have drawn1: "drawn E (abstract m1)"
    using drawn_commit [of E "map_of (boxes m)" "mg_draws m"] assms(2) c1(2,4) by (simp add: abstract_def)
  note c2 = create_commit_ok [OF free c1(3) drawn1 assms(3,8), of now r2 ow2, unfolded assms(11) fst_conv snd_conv]
  have "box_name E (mg_draws m) \<noteq> box_name E (mg_draws m1)"
    using assms(3) c1(4) by (simp add: box_name_def inj_eq)
  with c1 c2 assms(9) show ?thesis by (simp add: ActiveCount_def)
qed

section \<open>What is created\<close>

lemma normalizeOwnershipValue_ok:
  "normalizeOwnershipValue field v = Inr u \<Longrightarrow> length u \<le> 128 \<and> list_all isOwnershipChar u"
  by (auto simp: normalizeOwnershipValue_def Let_def split: if_splits)

definition ownership_ok :: "string \<Rightarrow> bool" where
  "ownership_ok u \<longleftrightarrow> length u \<le> 128 \<and> list_all isOwnershipChar u"

lemma normalizeOwnership_ok:
  assumes "normalizeOwnership req = Inr ow"
  shows "ownership_ok (ow_OrganizationID ow)" "ownership_ok (ow_WorkspaceID ow)" "ownership_ok (ow_AppID ow)"
    "ownership_ok (ow_WorkflowRunID ow)" "ownership_ok (ow_UserID ow)"
  using assms
  by (auto simp: normalizeOwnership_def ownership_ok_def split: sum.splits dest!: normalizeOwnershipValue_ok)

text \<open>
  What is created is within the policy. When a creation succeeds, the sandbox is stored under its
  own name as an active one of this worker, for at most the longest lifetime of its profile; the
  number of active sandboxes of the worker was below the limit, and that of the organisation
  below its own limit; if the network is enabled then the policy allows outbound access, and
  where the policy requires it the backend enforces it; the number of dependency profiles of the
  organisation grows only up to its limit; and the owners are short names of harmless characters.
\<close>

theorem create_within_policy:
  assumes "Create E now req m = (Inr b, m')"
  defines "limits \<equiv> sv_config (me_policy E)"
    and "profiles \<equiv> set (filter (\<lambda>p. p \<noteq> []) (map trim_space
      (ListActiveDependencyProfilesByOrganization (mg_store m) (sb_OrganizationID b) now)))"
  shows "map_of (boxes m') (sb_ID b) = Some b \<and> sb_Status b = StatusActive \<and> sb_WorkerID b = me_workerID E
    \<and> sb_CreatedAt b = now \<and> sb_ExpiresAt b \<le> now + maxTTL (me_policy E) (sb_RuntimeProfile b)
    \<and> (cf_MaxActive limits > 0 \<longrightarrow> ActiveCount E now m < cf_MaxActive limits)
    \<and> (sb_OrganizationID b \<noteq> [] \<and> cf_MaxActivePerOrganization limits > 0 \<longrightarrow>
         CountActiveByOrganization (mg_store m) (sb_OrganizationID b) now < cf_MaxActivePerOrganization limits)
    \<and> (sb_NetworkEnabled b \<longrightarrow> networkPolicyAllowsEgress (me_policy E) (sb_NetworkPolicy b)
         \<and> (networkPolicyRequiresEnforcement (me_policy E) (sb_NetworkPolicy b) \<longrightarrow> NetworkPolicyEnforced limits))
    \<and> (sb_OrganizationID b \<noteq> [] \<and> cf_MaxDependencyProfilesPerOrganization limits > 0 \<longrightarrow>
         sb_DependencyProfile b \<in> profiles \<or> int (card profiles) < cf_MaxDependencyProfilesPerOrganization limits)
    \<and> (\<forall>owner \<in> {sb_OrganizationID b, sb_WorkspaceID b, sb_AppID b, sb_WorkflowRunID b, sb_UserID b}. ownership_ok owner)"
proof -
  from assms(1) obtain ow d where admit: "create_admit E now req (mg_store m) = Inr (ow, d)"
    and commit: "create_commit E now req ow d m = (Inr b, m')"
    by (auto simp: Create_def split: sum.splits)
  note ok = create_admitD [OF admit]
  note policy = NormalizeCreateD [OF ok(2)]
  from commit obtain sid root where b: "b = created_item E now req ow d sid root"
    and m': "map_of (boxes m') = (map_of (boxes m))(sid \<mapsto> b)"
    by (auto simp: create_commit_def token_def Let_def update_conv' split: option.splits)
  have fields: "sb_OrganizationID b = ow_OrganizationID ow" "sb_WorkspaceID b = ow_WorkspaceID ow"
    "sb_AppID b = ow_AppID ow" "sb_WorkflowRunID b = ow_WorkflowRunID ow" "sb_UserID b = ow_UserID ow"
    "sb_NetworkEnabled b = cd_NetworkEnabled d" "sb_NetworkPolicy b = cd_NetworkPolicy d" "sb_CreatedAt b = now"
    "sb_DependencyProfile b = cd_DependencyProfile d"
    by (simp_all add: b created_item_def Let_def)
  have "sb_OrganizationID b \<noteq> [] \<and> cf_MaxDependencyProfilesPerOrganization limits > 0 \<longrightarrow>
         sb_DependencyProfile b \<in> profiles \<or> int (card profiles) < cf_MaxDependencyProfilesPerOrganization limits"
  proof -
    define names where "names = filter (\<lambda>p. p \<noteq> []) (map trim_space
      (ListActiveDependencyProfilesByOrganization (mg_store m) (ow_OrganizationID ow) now))"
    show ?thesis
      using ok(3) unfolding enforceOrganizationDependencyProfileLimit_def profiles_def limits_def fields Let_def
        names_def [symmetric]
      by (auto simp: length_remdups_card_conv split: if_splits)
  qed
  with policy normalizeOwnership_ok [OF ok(1)] m' show ?thesis
    unfolding limits_def fields by (simp add: b ActiveCount_def)
qed

end
