(* ===== verification/Sandbox_Egress.thy ===== *)
theory Sandbox_Egress
  imports Sandbox_Policy Go_Netip
begin

text \<open>
  The check of outbound destinations (\<open>policy/egress.go\<close>). The parser of URLs, the resolver of
  host names, which is an argument in the source as well, and the text forms of addresses are
  collected in a record.
\<close>

record url =
  u_Scheme :: string
  u_Host :: string
  u_Hostname :: string
  u_Port :: string

record egress_lib =
  eg_parse :: "string \<Rightarrow> url option"
  eg_resolve :: "string \<Rightarrow> string + ip_addr list"
  eg_show :: "ip_addr \<Rightarrow> string"
  eg_show_prefix :: "ip_prefix \<Rightarrow> string"

record egress_decision =
  ed_Allowed :: bool
  ed_Code :: string
  ed_Reason :: string
  ed_Policy :: string
  ed_Destination :: string
  ed_Protocol :: string
  ed_Host :: string
  ed_Port :: int
  ed_ResolvedIPs :: "string list"
  ed_DeniedCIDR :: string
  ed_MaxRequestDurationMS :: int

definition trim_suffix :: "string \<Rightarrow> string \<Rightarrow> string" where
  "trim_suffix s suf = (if has_prefix (rev s) (rev suf) then take (length s - length suf) s else s)"

definition egressPort :: "url \<Rightarrow> string + int" where
  "egressPort u =
     (if u_Port u \<noteq> []
      then (case atoi (u_Port u) of
              Some port \<Rightarrow> if port \<le> 0 \<or> port > 65535 then Inl ''destination port is invalid'' else Inr port
            | None \<Rightarrow> Inl ''destination port is invalid'')
      else if to_lower (u_Scheme u) = ''http'' then Inr 80
      else if to_lower (u_Scheme u) = ''https'' then Inr 443
      else Inl ''destination port is required for this protocol'')"

definition resolveEgressHost :: "egress_lib \<Rightarrow> string \<Rightarrow> string + ip_addr list" where
  "resolveEgressHost L host =
     (case ParseAddr host of
        Some addr \<Rightarrow> Inr [addr]
      | None \<Rightarrow>
          (case eg_resolve L host of
             Inl e \<Rightarrow> Inl (''destination host could not be resolved: '' @ e)
           | Inr addrs \<Rightarrow> if addrs = [] then Inl ''destination host did not resolve to an IP address'' else Inr addrs))"

text \<open>The first range, in the order of the list, that holds one of the addresses.\<close>

fun deniedEgressAddress :: "ip_addr list \<Rightarrow> string list \<Rightarrow> ip_prefix option" where
  "deniedEgressAddress addrs [] = None"
| "deniedEgressAddress addrs (raw # cidrs) =
     (case ParsePrefix (trim_space raw) of
        None \<Rightarrow> deniedEgressAddress addrs cidrs
      | Some prefix \<Rightarrow>
          if list_ex (prefix_contains prefix) addrs then Some prefix else deniedEgressAddress addrs cidrs)"

definition formatEgressAddresses :: "egress_lib \<Rightarrow> ip_addr list \<Rightarrow> string list" where
  "formatEgressAddresses L addrs = map (eg_show L) addrs"

definition denyEgress :: "egress_decision \<Rightarrow> string \<Rightarrow> string \<Rightarrow> egress_decision" where
  "denyEgress d code reason = d\<lparr>ed_Allowed := False, ed_Code := code, ed_Reason := reason\<rparr>"

definition containsString :: "string list \<Rightarrow> string \<Rightarrow> bool" where
  "containsString values expected \<longleftrightarrow> list_ex (\<lambda>v. equal_fold (trim_space v) expected) values"

definition containsHost :: "string list \<Rightarrow> string \<Rightarrow> bool" where
  "containsHost values expected \<longleftrightarrow> list_ex (\<lambda>v. equal_fold (trim_suffix (trim_space v) ''.'') expected) values"

definition containsInt :: "int list \<Rightarrow> int \<Rightarrow> bool" where
  "containsInt values expected \<longleftrightarrow> expected \<in> set values"

definition checkEgressDestination ::
    "egress_lib \<Rightarrow> service \<Rightarrow> string \<Rightarrow> string \<Rightarrow> string + egress_decision" where
  "checkEgressDestination L s policyName destination =
     (case networkProfile s policyName of
        None \<Rightarrow> Inl (''unsupported network policy: '' @ policyName)
      | Some profile \<Rightarrow>
      let d = \<lparr>ed_Allowed = False, ed_Code = [], ed_Reason = [], ed_Policy = np_Name profile,
               ed_Destination = trim_space destination, ed_Protocol = [], ed_Host = [], ed_Port = 0,
               ed_ResolvedIPs = [], ed_DeniedCIDR = [], ed_MaxRequestDurationMS = np_MaxRequestDurationMS profile\<rparr>
      in if \<not> np_NetworkEnabled profile
         then Inr (denyEgress d ''egress_denied_network_disabled'' ''network policy does not allow outbound access'')
         else case eg_parse L (ed_Destination d) of
           None \<Rightarrow> Inl ''destination must be an absolute URL''
         | Some u \<Rightarrow>
             if u_Scheme u = [] \<or> u_Host u = [] then Inl ''destination must be an absolute URL''
             else case egressPort u of
               Inl e \<Rightarrow> Inl e
             | Inr port \<Rightarrow>
                 let d = d\<lparr>ed_Protocol := to_lower (u_Scheme u), ed_Host := to_lower (trim_suffix (u_Hostname u) ''.''),
                           ed_Port := port\<rparr>
                 in if \<not> containsString (np_AllowedProtocols profile) (ed_Protocol d)
                    then Inr (denyEgress d ''egress_denied_protocol'' ''protocol is not allowed by network policy'')
                    else if \<not> containsInt (np_AllowedPorts profile) port
                    then Inr (denyEgress d ''egress_denied_port'' ''port is not allowed by network policy'')
                    else if np_AllowedHosts profile \<noteq> [] \<and> \<not> containsHost (np_AllowedHosts profile) (ed_Host d)
                    then Inr (denyEgress d ''egress_denied_host'' ''host is not allowed by network policy'')
                    else case resolveEgressHost L (ed_Host d) of
                      Inl e \<Rightarrow> Inr (denyEgress d ''egress_denied_dns_resolution'' e)
                    | Inr addrs \<Rightarrow>
                        let d = d\<lparr>ed_ResolvedIPs := formatEgressAddresses L addrs\<rparr>
                        in case deniedEgressAddress addrs (np_DeniedCIDRRanges profile) of
                             Some prefix \<Rightarrow>
                               Inr (denyEgress (d\<lparr>ed_DeniedCIDR := eg_show_prefix L prefix\<rparr>) ''egress_denied_cidr''
                                 ''destination resolves to a denied network range'')
                           | None \<Rightarrow>
                               Inr (d\<lparr>ed_Allowed := True, ed_Code := ''egress_allowed'',
                                      ed_Reason := ''network policy allows destination''\<rparr>))"

section \<open>What an allowed destination is\<close>

lemma deniedEgressAddress_None:
  "deniedEgressAddress addrs cidrs = None \<longleftrightarrow>
     (\<forall>raw \<in> set cidrs. \<forall>prefix. ParsePrefix (trim_space raw) = Some prefix \<longrightarrow>
        (\<forall>a \<in> set addrs. \<not> prefix_contains prefix a))"
  by (induction addrs cidrs rule: deniedEgressAddress.induct) (auto simp: list_ex_iff split: option.split)

lemma denied_not_allowed [simp]: "\<not> ed_Allowed (denyEgress d code reason)"
  by (simp add: denyEgress_def)


lemma egress_allowedE:
  assumes "checkEgressDestination L s policyName destination = Inr d" and "ed_Allowed d"
  obtains profile u port addrs where "networkProfile s policyName = Some profile" and "np_NetworkEnabled profile"
    and "egressPort u = Inr port"
    and "containsString (np_AllowedProtocols profile) (ed_Protocol d)"
    and "port \<in> set (np_AllowedPorts profile)"
    and "np_AllowedHosts profile = [] \<or> containsHost (np_AllowedHosts profile) (ed_Host d)"
    and "resolveEgressHost L (ed_Host d) = Inr addrs"
    and "deniedEgressAddress addrs (np_DeniedCIDRRanges profile) = None"
    and "ed_Port d = port" and "ed_ResolvedIPs d = map (eg_show L) addrs"
  using assms
  by (auto simp: checkEgressDestination_def Let_def containsInt_def formatEgressAddresses_def
      split: option.splits if_splits sum.splits)

section \<open>The ranges of the built-in policies\<close>

text \<open>
  Loopback, link-local, private, shared and benchmark addresses, as the ranges of
  \<open>defaultDeniedCIDRRanges\<close> give them.
\<close>

fun reserved :: "ip_addr \<Rightarrow> bool" where
  "reserved (IPv4 a) \<longleftrightarrow>
     unat a div 2 ^ 24 = 0 \<or> unat a div 2 ^ 24 = 10 \<or> unat a div 2 ^ 22 = 100 * 4 + 1
     \<or> unat a div 2 ^ 24 = 127 \<or> unat a div 2 ^ 16 = 169 * 256 + 254 \<or> unat a div 2 ^ 20 = 172 * 16 + 1
     \<or> unat a div 2 ^ 8 = 192 * 65536 \<or> unat a div 2 ^ 16 = 192 * 256 + 168 \<or> unat a div 2 ^ 17 = 198 * 128 + 9"
| "reserved (IPv6 a zone) \<longleftrightarrow>
     zone = [] \<and> (unat a = 1 \<or> unat a div 2 ^ 121 = 126 \<or> unat a div 2 ^ 118 = 1018)"

lemma built_in_ranges:
  "ParsePrefix (trim_space ''0.0.0.0/8'') = Some (Prefix (IPv4 0) 8)"
  "ParsePrefix (trim_space ''10.0.0.0/8'') = Some (Prefix (IPv4 (10 * 2 ^ 24)) 8)"
  "ParsePrefix (trim_space ''100.64.0.0/10'') = Some (Prefix (IPv4 (401 * 2 ^ 22)) 10)"
  "ParsePrefix (trim_space ''127.0.0.0/8'') = Some (Prefix (IPv4 (127 * 2 ^ 24)) 8)"
  "ParsePrefix (trim_space ''169.254.0.0/16'') = Some (Prefix (IPv4 (43518 * 2 ^ 16)) 16)"
  "ParsePrefix (trim_space ''172.16.0.0/12'') = Some (Prefix (IPv4 (2753 * 2 ^ 20)) 12)"
  "ParsePrefix (trim_space ''192.0.0.0/24'') = Some (Prefix (IPv4 (12582912 * 2 ^ 8)) 24)"
  "ParsePrefix (trim_space ''192.168.0.0/16'') = Some (Prefix (IPv4 (49320 * 2 ^ 16)) 16)"
  "ParsePrefix (trim_space ''198.18.0.0/15'') = Some (Prefix (IPv4 (25353 * 2 ^ 17)) 15)"
  "ParsePrefix (trim_space ''::1/128'') = Some (Prefix (IPv6 1 []) 128)"
  "ParsePrefix (trim_space ''fc00::/7'') = Some (Prefix (IPv6 (126 * 2 ^ 121) []) 7)"
  "ParsePrefix (trim_space ''fe80::/10'') = Some (Prefix (IPv6 (1018 * 2 ^ 118) []) 10)"
  by (simp_all add: graphic_trim_space graphic_def netip_eval)

lemma built_in_ranges_contain:
  "prefix_contains (Prefix (IPv4 0) 8) (IPv4 a) \<longleftrightarrow> unat a div 2 ^ 24 = 0"
  "prefix_contains (Prefix (IPv4 (10 * 2 ^ 24)) 8) (IPv4 a) \<longleftrightarrow> unat a div 2 ^ 24 = 10"
  "prefix_contains (Prefix (IPv4 (401 * 2 ^ 22)) 10) (IPv4 a) \<longleftrightarrow> unat a div 2 ^ 22 = 100 * 4 + 1"
  "prefix_contains (Prefix (IPv4 (127 * 2 ^ 24)) 8) (IPv4 a) \<longleftrightarrow> unat a div 2 ^ 24 = 127"
  "prefix_contains (Prefix (IPv4 (43518 * 2 ^ 16)) 16) (IPv4 a) \<longleftrightarrow> unat a div 2 ^ 16 = 169 * 256 + 254"
  "prefix_contains (Prefix (IPv4 (2753 * 2 ^ 20)) 12) (IPv4 a) \<longleftrightarrow> unat a div 2 ^ 20 = 172 * 16 + 1"
  "prefix_contains (Prefix (IPv4 (12582912 * 2 ^ 8)) 24) (IPv4 a) \<longleftrightarrow> unat a div 2 ^ 8 = 192 * 65536"
  "prefix_contains (Prefix (IPv4 (49320 * 2 ^ 16)) 16) (IPv4 a) \<longleftrightarrow> unat a div 2 ^ 16 = 192 * 256 + 168"
  "prefix_contains (Prefix (IPv4 (25353 * 2 ^ 17)) 15) (IPv4 a) \<longleftrightarrow> unat a div 2 ^ 17 = 198 * 128 + 9"
  "prefix_contains (Prefix (IPv6 (126 * 2 ^ 121) []) 7) (IPv6 b zone) \<longleftrightarrow> zone = [] \<and> unat b div 2 ^ 121 = 126"
  "prefix_contains (Prefix (IPv6 (1018 * 2 ^ 118) []) 10) (IPv6 b zone) \<longleftrightarrow> zone = [] \<and> unat b div 2 ^ 118 = 1018"
  "prefix_contains (Prefix (IPv6 1 []) 128) (IPv6 b zone) \<longleftrightarrow> zone = [] \<and> unat b = 1"
  by simp_all

lemma built_in_ranges_reserved:
  "(\<exists>raw \<in> set defaultDeniedCIDRRanges. \<exists>prefix. ParsePrefix (trim_space raw) = Some prefix
      \<and> prefix_contains prefix a) \<longleftrightarrow> reserved a"
  unfolding defaultDeniedCIDRRanges_def
  by (simp only: list.set bex_simps built_in_ranges option.inject ex_simps simp_thms)
    (cases a, simp_all only: built_in_ranges_contain prefix_contains.simps(3-) reserved.simps simp_thms conj_disj_distribL)

lemma denied_by_default_iff:
  "deniedEgressAddress addrs defaultDeniedCIDRRanges = None \<longleftrightarrow> (\<forall>a \<in> set addrs. \<not> reserved a)"
  unfolding deniedEgressAddress_None using built_in_ranges_reserved by blast

lemma built_in_network:
  assumes "networkProfile (NewService cfg) policyName = Some profile"
  shows "np_DeniedCIDRRanges profile = defaultDeniedCIDRRanges"
proof -
  from assms have "profile \<in> set builtin_networks"
    by (auto simp: networkProfile_def NewService_def dest: find_SomeD)
  moreover have "\<forall>p \<in> set builtin_networks. np_DeniedCIDRRanges p = defaultDeniedCIDRRanges"
    by (simp add: builtin_networks_def builtin_network_def)
  ultimately show ?thesis by blast
qed


text \<open>
  The built-in policies keep sandboxes away from internal addresses: for the service with its
  built-in policies an allowed destination has an address that is not a reserved one, whatever
  the configuration and the resolver.
\<close>

theorem built_in_egress_not_reserved:
  assumes "checkEgressDestination L (NewService cfg) policyName destination = Inr d" and "ed_Allowed d"
  shows "\<exists>addrs. resolveEgressHost L (ed_Host d) = Inr addrs \<and> (\<forall>a \<in> set addrs. \<not> reserved a)"
  using assms by (rule egress_allowedE) (auto simp: built_in_network denied_by_default_iff)

text \<open>
  C39: The reserved addresses have a second spelling that is not denied. An IPv4 address that is
  written as an IPv4-mapped IPv6 address (\<open>::ffff:127.0.0.1\<close>) and an IPv6 address with a zone are
  in none of the ranges, so a policy that allows the protocol and the port allows the
  destination, loopback and private addresses included.
\<close>

definition mapped :: "32 word \<Rightarrow> 128 word" where
  "mapped a = of_nat (65535 * 2 ^ 32 + unat a)"

theorem mapped_addresses_pass:
  assumes "eg_parse L (trim_space destination) = Some u" and "u_Scheme u = ''http''" and "u_Host u \<noteq> []"
    and "u_Port u = []"
    and "ParseAddr (to_lower (trim_suffix (u_Hostname u) ''.'')) = Some (IPv6 w zone)"
    and "w = mapped a \<or> zone \<noteq> []"
  shows "\<exists>d. checkEgressDestination L (NewService cfg) ''interactive-preview'' destination = Inr d \<and> ed_Allowed d"
proof -
  have "unat a < 2 ^ LENGTH(32)" by (rule unsigned_less)
  then have "unat (mapped a) = 65535 * 2 ^ 32 + unat a" "unat a < 2 ^ 32"
    by (simp_all only: mapped_def unsigned_of_nat take_bit_eq_mod) simp_all
  then have "\<not> reserved (IPv6 w zone)"
    using assms(6) by auto
  moreover obtain profile where "networkProfile (NewService cfg) ''interactive-preview'' = Some profile"
    "profile = builtin_network ''interactive-preview'' False True [80, 443] [''http'', ''https''] ''resolve-and-check-denied-ranges'' 10000 True"
    by (simp add: networkProfile_def NewService_def builtin_networks_def builtin_network_def)
  moreover have "to_lower ''http'' = ''http''" "containsString [''http'', ''https''] ''http''"
    by (simp_all add: containsString_def lower_ascii_to_lower lower_ascii_def graphic_trim_space graphic_def)
  ultimately show ?thesis
    using assms(1-5) denied_by_default_iff [of "[IPv6 w zone]"]
    by (simp add: checkEgressDestination_def egressPort_def resolveEgressHost_def Let_def builtin_network_def
        containsInt_def)
qed

end
