(* ===== verification/Sandbox_Profiles.thy ===== *)
theory Sandbox_Profiles
  imports Sandbox_Dependencies
begin

text \<open>
  What the registry of dependency profiles guarantees: identities are unique in every state it
  can reach, a selection returns only what the organisation may see and what the package policy
  allows, and a profile that was built can be stored and loaded again unchanged.
\<close>

section \<open>Identities\<close>

lemma profile_index_Some:
  "profile_index P ps = Some i \<Longrightarrow> i < length ps \<and> P (ps ! i)"
  by (induction ps arbitrary: i) (auto split: if_splits)

lemma profile_index_None: "profile_index P ps = None \<longleftrightarrow> (\<forall>p \<in> set ps. \<not> P p)"
  by (induction ps) auto

definition unique_identities :: "dependency_profile list \<Rightarrow> bool" where
  "unique_identities ps \<longleftrightarrow> distinct (map dependencyProfileIdentityKey ps)"

lemma unique_update:
  assumes "unique_identities ps" and "profile_index (\<lambda>q. dependencyProfileIdentityMatches q p) ps = Some i"
  shows "unique_identities (ps[i := p])"
proof -
  have "i < length ps" and "dependencyProfileIdentityKey (ps ! i) = dependencyProfileIdentityKey p"
    using profile_index_Some [OF assms(2)] by (auto simp: dependencyProfileIdentityMatches_def)
  then have "map dependencyProfileIdentityKey (ps[i := p]) = map dependencyProfileIdentityKey ps"
    by (metis list_update_id map_update)
  with assms(1) show ?thesis by (simp add: unique_identities_def)
qed

lemma unique_append:
  assumes "unique_identities ps" and "profile_index (\<lambda>q. dependencyProfileIdentityMatches q p) ps = None"
  shows "unique_identities (ps @ [p])"
  using assms by (auto simp: unique_identities_def profile_index_None dependencyProfileIdentityMatches_def)

lemma unique_remove: "unique_identities ps \<Longrightarrow> unique_identities (remove_at i ps)"
proof -
  assume u: "unique_identities ps"
  then have "distinct (take n (map dependencyProfileIdentityKey ps) @ drop (Suc n) (map dependencyProfileIdentityKey ps))" for n
    unfolding unique_identities_def by (rule distinct_remove)
  with u show ?thesis
    by (auto simp: unique_identities_def remove_at_def take_map drop_map split: option.split)
qed

lemma unique_merge: "unique_identities ps \<Longrightarrow> unique_identities (merge_profiles qs ps)"
  by (induction qs ps rule: merge_profiles.induct) (auto split: option.split intro: unique_update unique_append)

text \<open>The states of the registry: every operation of the service, in any order.\<close>

inductive registry :: "dependency_env \<Rightarrow> dependency_profile list \<Rightarrow> dependency_profile list \<Rightarrow> bool"
  for E :: dependency_env and init :: "dependency_profile list" where
  start: "registry E init init"
| build: "registry E init ps \<Longrightarrow> registry E init (snd (snd (BuildDependencyProfile E req ps)))"
| register: "registry E init ps \<Longrightarrow> registry E init (snd (snd (RegisterDependencyProfile p result ps)))"
| remove: "registry E init ps \<Longrightarrow> registry E init (RemoveDependencyProfile name ps)"
| remove_ref: "registry E init ps \<Longrightarrow> registry E init (RemoveDependencyProfileRef p ps)"
| load: "registry E init ps \<Longrightarrow> registry E init (snd (LoadDependencyProfiles E cached ps))"

lemma unique_register: "unique_identities ps \<Longrightarrow> unique_identities (snd (snd (RegisterDependencyProfile p result ps)))"
  by (auto simp: RegisterDependencyProfile_def Let_def split: option.split intro: unique_update unique_append)

lemma registry_unique:
  assumes "registry E init ps" and "unique_identities init"
  shows "unique_identities ps"
  using assms(1)
proof (induction rule: registry.induct)
  case (build ps req)
  then show ?case
    by (cases "PrepareDependencyProfileBuild E req" rule: prod.exhaust)
      (auto simp: BuildDependencyProfile_def unique_register split: sum.split)
next
  case (load ps cached)
  then show ?case by (auto simp: LoadDependencyProfiles_def unique_merge split: sum.split)
qed (auto simp: assms(2) unique_register RemoveDependencyProfile_def RemoveDependencyProfileRef_def Let_def unique_remove)

text \<open>A profile that is enabled and ready is not replaced by a registration.\<close>

lemma register_keeps_ready:
  assumes "p \<in> set ps" and "pr_Enabled p" and "pr_Status p = ''ready''" and "unique_identities ps"
  shows "p \<in> set (snd (snd (RegisterDependencyProfile q result ps)))"
proof (cases "profile_index (\<lambda>e. dependencyProfileIdentityMatches e q) ps")
  case None
  with assms(1) show ?thesis by (simp add: RegisterDependencyProfile_def Let_def)
next
  case (Some i)
  from assms(1) obtain k where k: "k < length ps" "ps ! k = p" by (auto simp: in_set_conv_nth)
  show ?thesis
  proof (cases "k = i")
    case True
    with Some k assms show ?thesis by (simp add: RegisterDependencyProfile_def Let_def)
  next
    case False
    with k have "p = ps[i := q] ! k" and "k < length (ps[i := q])" by auto
    then have "p \<in> set (ps[i := q])" by (metis nth_mem)
    with Some assms(1) show ?thesis by (simp add: RegisterDependencyProfile_def Let_def)
  qed
qed

section \<open>Selections\<close>

lemma validated_Inr:
  "validated E p = Inr q \<longleftrightarrow>
     q = p \<and> ValidateDependencyProfilePackages E p = None \<and> ValidateDependencyProfileBuildLimits E p = None"
  by (auto simp: validated_def split: option.splits)

lemma validate_packages_None:
  "validate_packages E p pkgs = None \<longleftrightarrow>
     (\<forall>pkg \<in> set pkgs. validateDependencyPackage E (package_ecosystem p pkg) pkg (allow_unlisted p) = None)"
  by (induction E p pkgs rule: validate_packages.induct) (auto split: option.splits)

text \<open>What the package policy says of a package of a profile.\<close>

definition package_ok :: "package_policy \<Rightarrow> dependency_profile \<Rightarrow> dependency_package \<Rightarrow> bool" where
  "package_ok P p pkg \<longleftrightarrow>
     (let rule = (\<lambda>r. packageRuleMatches r (package_ecosystem p pkg) (normalizePackageName (dp_Name pkg)) (trim_space (dp_Version pkg)))
      in normalizePackageName (dp_Name pkg) \<noteq> [] \<and> \<not> unpinned (trim_space (dp_Version pkg))
         \<and> (\<forall>r \<in> set (pp_DeniedPackages P). \<not> rule r)
         \<and> (allow_unlisted p \<or> pp_DefaultAction P \<noteq> ''deny-unlisted'' \<or> (\<exists>r \<in> set (pp_AllowedPackages P). rule r)))"

lemma validateDependencyPackage_None:
  "validateDependencyPackage E (package_ecosystem p pkg) pkg (allow_unlisted p) = None \<longleftrightarrow>
     package_ok (de_packagePolicy E) p pkg"
  by (auto simp: validateDependencyPackage_def package_ok_def unpinned_def Let_def find_None_iff list_ex_iff
      split: option.splits if_splits dest!: find_SomeD)

lemma packages_ok: "ValidateDependencyProfilePackages E p = None \<longleftrightarrow> (\<forall>pkg \<in> set (pr_Packages p). package_ok (de_packagePolicy E) p pkg)"
  by (simp add: ValidateDependencyProfilePackages_def validate_packages_None validateDependencyPackage_None)

text \<open>
  Identities are unique. Whatever profiles are built, registered, loaded and removed, and in
  whatever order, there is at most one profile per scope, organisation and name, provided there
  was at the start; and no registration replaces a profile that is enabled and ready.
\<close>

theorem profile_identities_unique:
  assumes "registry E init ps" and "unique_identities init"
  shows "unique_identities ps
    \<and> (\<forall>p q result. p \<in> set ps \<and> pr_Enabled p \<and> pr_Status p = ''ready'' \<longrightarrow>
         p \<in> set (snd (snd (RegisterDependencyProfile q result ps))))"
  using registry_unique [OF assms] register_keeps_ready by blast

lemma selectable_Inr:
  assumes "validateSelectableDependencyProfile E p name = Inr q"
  shows "pr_Enabled p \<and> pr_Status p = ''ready'' \<and> (q = p \<or> q = p\<lparr>pr_ArtifactChecksum := pr_Checksum p\<rparr>)
    \<and> (\<forall>pkg \<in> set (pr_Packages p). package_ok (de_packagePolicy E) p pkg)
    \<and> ValidateDependencyProfileBuildLimits E p = None"
proof -
  have "package_ok P (p\<lparr>pr_ArtifactChecksum := c\<rparr>) = package_ok P p" for P c
    by (intro ext) (simp add: package_ok_def package_ecosystem_def allow_unlisted_def Let_def)
  moreover have "ValidateDependencyProfileBuildLimits E (p\<lparr>pr_ArtifactChecksum := c\<rparr>) = ValidateDependencyProfileBuildLimits E p" for c
    by (simp add: ValidateDependencyProfileBuildLimits_def Let_def)
  ultimately show ?thesis
    using assms by (auto simp: validateSelectableDependencyProfile_def validated_Inr packages_ok split: if_splits)
qed

definition visible :: "string \<Rightarrow> dependency_profile \<Rightarrow> bool" where
  "visible organizationID p \<longleftrightarrow> profileVisibleToOrganization p (trim_space organizationID)"

lemma find_filter: "(\<And>x. P x \<Longrightarrow> Q x) \<Longrightarrow> find P (filter Q xs) = find P xs"
  by (induction xs) auto

lemma selection_visible:
  "normalizeDependencyProfile E (filter (visible organizationID) ps) v organizationID
   = normalizeDependencyProfile E ps v organizationID"
proof -
  have own: "find (\<lambda>p. pr_Name p = name
        \<and> normalizeDependencyProfileScope (pr_Scope p) (pr_OrganizationID p) = ''organization''
        \<and> trim_space organizationID \<noteq> [] \<and> trim_space (pr_OrganizationID p) = trim_space organizationID)
        (filter (visible organizationID) ps) =
      find (\<lambda>p. pr_Name p = name
        \<and> normalizeDependencyProfileScope (pr_Scope p) (pr_OrganizationID p) = ''organization''
        \<and> trim_space organizationID \<noteq> [] \<and> trim_space (pr_OrganizationID p) = trim_space organizationID) ps" for name
    by (rule find_filter) (simp add: visible_def profileVisibleToOrganization_def)
  have global: "find (\<lambda>p. pr_Name p = name \<and> is_global p) (filter (visible organizationID) ps) =
      find (\<lambda>p. pr_Name p = name \<and> is_global p) ps" for name
    by (rule find_filter) (simp add: visible_def profileVisibleToOrganization_def is_global_def)
  show ?thesis unfolding normalizeDependencyProfile_def Let_def own global ..
qed

text \<open>
  C23: A selected dependency profile is safe, and tenants are isolated. The profile comes from
  the list, is enabled and ready, is within the build limits, and every package of it has a
  name and a pinned version, is denied by no rule and is on the allowlist (or the profile is
  a pinned public one with the prefix auto-). Profiles of other organisations play no role: the
  selection is the same when they are deleted from the list.
\<close>

theorem selected_profile_safe:
  assumes "normalizeDependencyProfile E ps v organizationID = Inr q"
  shows "(\<exists>p \<in> set ps. (q = p \<or> q = p\<lparr>pr_ArtifactChecksum := pr_Checksum p\<rparr>)
      \<and> profileVisibleToOrganization p (trim_space organizationID)
      \<and> pr_Enabled p \<and> pr_Status p = ''ready''
      \<and> ValidateDependencyProfileBuildLimits E p = None
      \<and> (\<forall>pkg \<in> set (pr_Packages p). package_ok (de_packagePolicy E) p pkg))
    \<and> normalizeDependencyProfile E (filter (\<lambda>p. profileVisibleToOrganization p (trim_space organizationID)) ps) v organizationID
      = Inr q"
proof -
  note eq = selection_visible [of E organizationID ps v, unfolded visible_def]
  have sel: "normalizeDependencyProfile E (filter (visible organizationID) ps) v organizationID = Inr q"
    using assms by (simp only: selection_visible)
  then obtain p name where "p \<in> set (filter (visible organizationID) ps)"
    and "validateSelectableDependencyProfile E p name = Inr q"
    by (auto simp: normalizeDependencyProfile_def Let_def split: option.splits dest!: find_SomeD)
  with selectable_Inr [of E p name q] eq assms show ?thesis
    by (auto simp: visible_def)
qed

section \<open>Building and loading again\<close>

lemma ecosystem_words:
  "to_lower (trim_space ''python3'') = ''python3''" "to_lower (trim_space ''nodejs'') = ''nodejs''"
  "to_lower (trim_space ''*'') = ''*''"
  by (simp_all add: graphic_trim_space graphic_def lower_ascii_to_lower lower_ascii_def)

lemma word_trims [simp]:
  "trim_space ''ready'' = ''ready''" "trim_space ''global'' = ''global''" "trim_space ''organization'' = ''organization''"
  "to_lower ''organization'' = ''organization''" "to_lower ''global'' = ''global''"
  by (simp_all add: plain_norm plain_byte_def letter_byte_def)

lemma normalizeLanguage_idem [simp]:
  "normalizeLanguage (normalizeLanguage v) = normalizeLanguage v"
  "normalizeLanguage ''python3'' = ''python3''" "normalizeLanguage ''nodejs'' = ''nodejs''"
  using ecosystem_words by (auto simp: normalizeLanguage_def Let_def)

lemma normalizePackageEcosystem_idem [simp]:
  "normalizePackageEcosystem (normalizePackageEcosystem v) = normalizePackageEcosystem v"
  "normalizePackageEcosystem ''python3'' = ''python3''" "normalizePackageEcosystem ''nodejs'' = ''nodejs''"
  "normalizePackageEcosystem [] = []"
  using ecosystem_words by (auto simp: normalizePackageEcosystem_def Let_def)

lemma profile_languages_set: "set (profile_languages seen vs) \<subseteq> {''python3'', ''nodejs''} - set seen"
  by (induction seen vs rule: profile_languages.induct) (auto simp: Let_def)

lemma profile_languages_distinct: "distinct (profile_languages seen vs)"
proof (induction seen vs rule: profile_languages.induct)
  case (2 seen v vs)
  then show ?case using profile_languages_set [of "normalizeLanguage v # seen" vs] by (auto simp: Let_def)
qed simp

lemma profile_languages_fixed:
  "distinct vs \<Longrightarrow> \<forall>v \<in> set vs. (v = ''python3'' \<or> v = ''nodejs'') \<and> v \<notin> set seen \<Longrightarrow> profile_languages seen vs = vs"
proof (induction vs arbitrary: seen)
  case (Cons v vs)
  then have v: "v = ''python3'' \<or> v = ''nodejs''" "v \<notin> set seen" by simp_all
  then have "normalizeLanguage v = v" "v \<noteq> []" by auto
  with v have "profile_languages seen (v # vs) = v # profile_languages (v # seen) vs" by (simp add: Let_def)
  moreover have "\<forall>w \<in> set vs. (w = ''python3'' \<or> w = ''nodejs'') \<and> w \<notin> set (v # seen)"
    using Cons.prems by fastforce
  ultimately show ?case using Cons.IH [of "v # seen"] Cons.prems(1) by simp
qed simp

lemma languages_idem [simp]:
  "normalizeDependencyProfileLanguages (normalizeDependencyProfileLanguages vs) = normalizeDependencyProfileLanguages vs"
  unfolding normalizeDependencyProfileLanguages_def
  using profile_languages_set [of "[]" vs] by (intro profile_languages_fixed profile_languages_distinct) auto

lemma scope_idem [simp]:
  "normalizeDependencyProfileScope (normalizeDependencyProfileScope s o1) (trim_space o1) = normalizeDependencyProfileScope s o1"
  by (simp add: normalizeDependencyProfileScope_def)

lemma scope_trim [simp]:
  "trim_space (normalizeDependencyProfileScope s o1) = normalizeDependencyProfileScope s o1"
  "normalizeDependencyProfileScope s o1 \<noteq> []"
  by (simp_all add: normalizeDependencyProfileScope_def)

lemma packages_idem:
  assumes "set languages \<subseteq> {''python3'', ''nodejs''}"
  shows "normalizeDependencyProfilePackages (normalizeDependencyProfilePackages pkgs languages) languages
    = normalizeDependencyProfilePackages pkgs languages"
proof -
  have "normalizePackageEcosystem (hd languages) = hd languages" if "length languages = Suc 0"
    using assms that by (cases languages) auto
  then show ?thesis
    by (auto simp: normalizeDependencyProfilePackages_def normalizePackageName_def Let_def)
qed

text \<open>
  What is built can be loaded. A profile that the service accepted for building is already
  in the form in which cached profiles are stored: loading it gives the same profile, and no
  error, when the name of the runtime backend has no white space around it.
\<close>

theorem built_profile_reloads:
  assumes "normalizeDependencyProfileBuildRequest E req = Inr p"
    and "trim_space (de_backend E) = de_backend E"
  shows "normalizeCachedDependencyProfile E p = Inr p"
proof -
  let ?langs = "normalizeDependencyProfileLanguages (br_Languages req)"
  have langs: "set ?langs \<subseteq> {''python3'', ''nodejs''}"
    using profile_languages_set [of "[]" "br_Languages req"] by (simp add: normalizeDependencyProfileLanguages_def)
  from assms(1) have ok: "validated E p = Inr p"
    by (auto simp: normalizeDependencyProfileBuildRequest_def Let_def validated_Inr split: if_splits)
  show ?thesis
    using assms ok
    by (auto simp: normalizeDependencyProfileBuildRequest_def normalizeCachedDependencyProfile_def Let_def
        validated_Inr packages_idem [OF langs] split: if_splits)
qed

end
