(* ===== verification/Sandbox_Examples.thy ===== *)
theory Sandbox_Examples
  imports Sandbox_Safety Sandbox_Egress Sandbox_Profiles
begin

text \<open>
  The theorems on the sandbox service applied to concrete inputs: a service with its built-in
  policies and room for one sandbox, a manager in front of it, and requests to them.
\<close>

section \<open>A service and its profiles\<close>

definition example_config :: config where
  "example_config = \<lparr>cf_MaxWorkers = 4, cf_TimeoutSeconds = 5, cf_OutputLimitKB = 64, cf_MaxActive = 1,
     cf_MaxConcurrentExecutions = 4, cf_MaxConcurrentExecutionsPerProfile = 4, cf_MaxActivePerOrganization = 0,
     cf_MaxConcurrentExecutionsPerOrganization = 0, cf_MaxExecutionsPerMinutePerOrganization = 0,
     cf_MaxNetworkRequestsPerMinutePerOrganization = 0, cf_MaxQueuedExecutionsPerOrganization = 0,
     cf_MaxWorkspaceFiles = 0, cf_MaxWorkspaceBytes = 0, cf_MaxWorkspaceBytesPerOrganization = 0,
     cf_MaxArtifactManifestFiles = 0, cf_MaxArtifactManifestBytes = 0, cf_MaxArtifactBytesPerOrganization = 0,
     cf_MaxDependencyProfilesPerOrganization = 0, cf_MaxDependencyProfileSizeBytes = 536870912,
     cf_DependencyProfileBuildTimeoutSeconds = 600, cf_QueueTimeoutMS = 1000, cf_SessionTTL = 3600,
     cf_InteractiveTTL = 1800, cf_CommandTimeout = 10, cf_MaxFileSizeKB = 256, cf_RuntimeBackend = ''preview-process'',
     cf_EnforceNetworkPolicy = False, cf_SecureRuntimeCPUSeconds = 0, cf_SecureRuntimeMemoryBytes = 0,
     cf_SecureRuntimeProcessLimit = 0, cf_SecureRuntimeOpenFileLimit = 0\<rparr>"

abbreviation example_service :: service where
  "example_service \<equiv> NewService example_config"

lemma example_backend: "RuntimeBackendName example_config = ''preview-process''"
  by (simp add: RuntimeBackendName_def example_config_def Let_def graphic_trim_space graphic_def lower_ascii_to_lower
      lower_ascii_def)

lemma global_scope [simp]: "normalizeDependencyProfileScope ''global'' [] = ''global''"
  by (simp add: normalizeDependencyProfileScope_def graphic_trim_space graphic_def lower_ascii_to_lower lower_ascii_def)

definition stdlib :: dependency_profile where
  "stdlib = builtin ''stdlib'' ''2026.05.01'' True [''python3'', ''nodejs''] [] ''preview-process''
     ''profile:stdlib:2026.05.01'' (32 * 1024 * 1024) ''Base language runtime with only built-in packages.''"

lemma stdlib_selected:
  "normalizeDependencyProfile (service_env example_service) builtin_profiles [] [] =
     Inr (stdlib\<lparr>pr_ArtifactChecksum := ''profile:stdlib:2026.05.01''\<rparr>)"
  by (simp add: normalizeDependencyProfile_def builtin_profiles_def builtin_def stdlib_def is_global_def Let_def
      validateSelectableDependencyProfile_def validated_def ValidateDependencyProfilePackages_def
      ValidateDependencyProfileBuildLimits_def service_env_def NewService_def example_config_def)

theorem selected_profile_safe_witness:
  "\<exists>q. normalizeDependencyProfile (service_env example_service) builtin_profiles [] [] = Inr q
    \<and> pr_Name q = ''stdlib''
    \<and> (\<exists>p \<in> set builtin_profiles. (q = p \<or> q = p\<lparr>pr_ArtifactChecksum := pr_Checksum p\<rparr>)
        \<and> profileVisibleToOrganization p [] \<and> pr_Enabled p \<and> pr_Status p = ''ready'')"
  using selected_profile_safe [OF stdlib_selected] stdlib_selected by (auto simp: stdlib_def builtin_def)

definition example_build :: build_request where
  "example_build = \<lparr>br_Name = ''my-tools'', br_Version = ''1.0'', br_Scope = ''global'', br_OrganizationID = [],
     br_Languages = [''python''], br_Packages = [], br_BaseRuntime = [], br_Checksum = ''abc'', br_ArtifactChecksum = [],
     br_SizeBytes = 1024, br_Description = [], br_PublicReusable = False, br_Pinned = True\<rparr>"

lemma example_built: "\<exists>p. normalizeDependencyProfileBuildRequest (service_env example_service) example_build = Inr p"
  by (simp add: normalizeDependencyProfileBuildRequest_def example_build_def Let_def validated_def
      ValidateDependencyProfilePackages_def ValidateDependencyProfileBuildLimits_def service_env_def NewService_def
      example_config_def normalizeDependencyProfilePackages_def normalizeDependencyProfileLanguages_def
      normalizeLanguage_def validDependencyProfileName_def name_byte_def unpinned_def has_prefix_def
      graphic_trim_space graphic_def lower_ascii_to_lower lower_ascii_def)

theorem built_profile_reloads_witness:
  "\<exists>p. normalizeDependencyProfileBuildRequest (service_env example_service) example_build = Inr p
    \<and> normalizeCachedDependencyProfile (service_env example_service) p = Inr p"
proof -
  obtain p where p: "normalizeDependencyProfileBuildRequest (service_env example_service) example_build = Inr p"
    using example_built by blast
  have "trim_space (de_backend (service_env example_service)) = de_backend (service_env example_service)"
    by (simp add: service_env_def NewService_def example_backend graphic_trim_space graphic_def)
  from built_profile_reloads [OF p this] p show ?thesis by blast
qed

theorem profile_identities_unique_witness:
  "\<exists>ps. registry (service_env example_service) [] ps \<and> ps = [stdlib] \<and> unique_identities ps
    \<and> (\<forall>result. stdlib \<in> set (snd (snd (RegisterDependencyProfile stdlib result ps))))"
proof -
  have ps: "snd (snd (RegisterDependencyProfile stdlib result [])) = [stdlib]" for result
    by (simp add: RegisterDependencyProfile_def Let_def)
  then have reg: "registry (service_env example_service) [] [stdlib]"
    using registry.register [OF registry.start, of "service_env example_service" "[]" stdlib] ps by simp
  have "unique_identities []" by (simp add: unique_identities_def)
  from profile_identities_unique [OF reg this] reg show ?thesis by (auto simp: stdlib_def builtin_def)
qed

section \<open>Destinations\<close>

definition example_url :: "string \<Rightarrow> url" where
  "example_url host = \<lparr>u_Scheme = ''http'', u_Host = host, u_Hostname = host, u_Port = []\<rparr>"

text \<open>A parser that takes the whole text for the host.\<close>

definition example_lib :: egress_lib where
  "example_lib = \<lparr>eg_parse = \<lambda>s. Some (example_url s), eg_resolve = \<lambda>_. Inl ''no such host'', eg_show = \<lambda>_. [],
     eg_show_prefix = \<lambda>_. []\<rparr>"

lemma example_address:
  "ParseAddr ''8.8.8.8'' = Some (IPv4 134744072)" "ParseAddr ''::ffff:127.0.0.1'' = Some (IPv6 281472812449793 [])"
  by (simp_all add: netip_eval)

lemma example_hosts:
  "to_lower (trim_suffix ''8.8.8.8'' ''.'') = ''8.8.8.8''"
  "to_lower (trim_suffix ''::ffff:127.0.0.1'' ''.'') = ''::ffff:127.0.0.1''"
  by (simp_all add: trim_suffix_def has_prefix_def lower_ascii_to_lower lower_ascii_def)

lemma interactive_preview:
  "networkProfile example_service ''interactive-preview'' = Some (builtin_network ''interactive-preview'' False True
     [80, 443] [''http'', ''https''] ''resolve-and-check-denied-ranges'' 10000 True)"
  by (simp add: networkProfile_def NewService_def builtin_networks_def builtin_network_def)

lemma http_listed: "containsString [''http'', ''https''] ''http''" "to_lower ''http'' = ''http''"
  by (simp_all add: containsString_def graphic_trim_space graphic_def lower_ascii_to_lower lower_ascii_def)

lemma example_allowed:
  "\<exists>d. checkEgressDestination example_lib example_service ''interactive-preview'' ''8.8.8.8'' = Inr d
    \<and> ed_Allowed d \<and> ed_Port d = 80 \<and> ed_Host d = ''8.8.8.8''"
proof -
  have "trim_space ''8.8.8.8'' = ''8.8.8.8''" by (simp add: graphic_trim_space graphic_def)
  moreover have "\<not> reserved (IPv4 134744072)" by simp
  ultimately show ?thesis
    using denied_by_default_iff [of "[IPv4 134744072]"]
    by (simp add: checkEgressDestination_def interactive_preview example_lib_def example_url_def builtin_network_def
        http_listed egressPort_def containsInt_def resolveEgressHost_def example_hosts example_address Let_def)
qed


theorem built_in_egress_not_reserved_witness:
  "\<exists>d addrs. checkEgressDestination example_lib example_service ''interactive-preview'' ''8.8.8.8'' = Inr d \<and> ed_Allowed d
    \<and> resolveEgressHost example_lib (ed_Host d) = Inr addrs \<and> list_all (\<lambda>a. \<not> reserved a) addrs"
proof -
  obtain d where d: "checkEgressDestination example_lib example_service ''interactive-preview'' ''8.8.8.8'' = Inr d" "ed_Allowed d"
    using example_allowed by blast
  from built_in_egress_not_reserved [OF d] d show ?thesis by (auto simp: list_all_iff)
qed

theorem mapped_addresses_pass_witness:
  "reserved (IPv4 2130706433) \<and> ParseAddr ''::ffff:127.0.0.1'' = Some (IPv6 (mapped 2130706433) [])
    \<and> (\<exists>d. checkEgressDestination example_lib example_service ''interactive-preview'' ''::ffff:127.0.0.1'' = Inr d \<and> ed_Allowed d)"
proof -
  have mapped: "mapped 2130706433 = 281472812449793" by (simp add: mapped_def)
  have "eg_parse example_lib (trim_space ''::ffff:127.0.0.1'') = Some (example_url ''::ffff:127.0.0.1'')"
    by (simp add: example_lib_def graphic_trim_space graphic_def)
  moreover have "ParseAddr (to_lower (trim_suffix (u_Hostname (example_url ''::ffff:127.0.0.1'')) ''.''))
      = Some (IPv6 (mapped 2130706433) [])"
    by (simp add: example_url_def example_hosts example_address mapped)
  ultimately have "\<exists>d. checkEgressDestination example_lib example_service ''interactive-preview'' ''::ffff:127.0.0.1'' = Inr d
      \<and> ed_Allowed d"
    by (intro mapped_addresses_pass) (auto simp: example_url_def)
  then show ?thesis by (simp add: example_address mapped)
qed

section \<open>Limits\<close>

lemma example_command: "command_profile example_service ''code-short'' = map_of builtin_commands ''code-short''"
  by (simp add: command_profile_def NewService_def graphic_trim_space graphic_def)

lemma example_limits:
  "\<exists>l. NormalizeCommandLimits example_service ''code-short'' 0 20000 1 0 = Inr l"
  by (simp add: NormalizeCommandLimits_def NewService_def builtin_commands_def Let_def graphic_trim_space graphic_def)

theorem command_limits_bounded_witness:
  "\<exists>l. NormalizeCommandLimits example_service ''code-short'' 0 20000 1 0 = Inr l
    \<and> 0 < cl_Timeout l \<and> cl_Timeout l \<le> 10 * Second \<and> cl_StdoutLimitBytes l \<le> 64 * 1024"
proof -
  obtain l where l: "NormalizeCommandLimits example_service ''code-short'' 0 20000 1 0 = Inr l"
    using example_limits by blast
  from command_limits_bounded [OF l] l show ?thesis
    by (auto simp: NewService_def example_config_def times_def int64_def)
qed

theorem command_limits_exact_witness:
  "\<exists>l. NormalizeCommandLimits example_service ''code-short'' 0 20000 1 0 = Inr l
    \<and> cl_Timeout l = 10 * Second \<and> cl_StdoutLimitBytes l = 1024 \<and> cl_StderrLimitBytes l = 64 * 1024"
proof -
  obtain l where l: "NormalizeCommandLimits example_service ''code-short'' 0 20000 1 0 = Inr l"
    using example_limits by blast
  obtain p where p: "map_of builtin_commands ''code-short'' = Some p" "cl_Timeout p = 5 * Second"
    "cl_StdoutLimitBytes p = 64 * 1024" "cl_StderrLimitBytes p = 64 * 1024"
    by (simp add: builtin_commands_def)
  have "times 10 Second = 10 * Second" by (simp add: times_def int64_def)
  with command_limits_exact [OF l, of p] p example_command l show ?thesis
    by (simp add: NewService_def example_config_def int64_range_def int64_def requested_timeout_def requested_output_def)
qed

section \<open>A manager\<close>

definition example_env :: "memory_cache manager_env" where
  "example_env = \<lparr>me_cache = memorySandboxCache, me_policy = example_service, me_baseDir = ''/data/workspaces'',
     me_publicBaseURL = ''http://localhost'', me_workerID = ''w1'', me_workerAddr = [], me_mkdir = \<lambda>_. None,
     me_rand = \<lambda>n. replicate n (CHR ''a'')\<rparr>"

lemma example_env_simps [simp]:
  "me_cache example_env = memorySandboxCache" "me_policy example_env = example_service" "me_workerID example_env = ''w1''"
  "me_mkdir example_env = (\<lambda>_. None)" "me_rand example_env n = replicate n (CHR ''a'')"
  "cf_MaxActive (sv_config example_service) = 1"
  "cf_MaxDependencyProfilesPerOrganization (sv_config example_service) = 0"
  by (simp_all add: example_env_def NewService_def example_config_def)

lemma example_rand: "inj (me_rand example_env)"
  by (rule injI) (metis example_env_simps(5) length_replicate)

definition example_request :: create_request where
  "example_request = \<lparr>cq_RuntimeProfile = [], cq_TTLSeconds = 60, cq_Metadata = [], cq_OrganizationID = [],
     cq_WorkspaceID = [], cq_AppID = [], cq_WorkflowRunID = [], cq_UserID = [], cq_NetworkEnabled = False,
     cq_NetworkPolicy = [], cq_DependencyProfile = [], cq_WorkspaceBinding = []\<rparr>"

lemma example_ttl: "normalizeTTL example_service ''session'' 60 = 60 * Second"
  by (simp add: normalizeTTL_def maxTTL_def times_def int64_def NewService_def example_config_def Let_def)

lemma example_admitted:
  assumes "CountActive s ''w1'' now = 0"
  shows "\<exists>ow d. create_admit example_env now example_request s = Inr (ow, d) \<and> cd_TTL d = 60 * Second
    \<and> cd_RuntimeProfile d = ''session''"
proof -
  have "service_env example_service = service_env example_service
      \<and> sv_dependencyProfiles example_service = builtin_profiles" by (simp add: NewService_def)
  then show ?thesis
    using assms stdlib_selected
    by (simp add: create_admit_def example_request_def normalizeOwnership_def normalizeOwnershipValue_def Let_def
        NormalizeCreate_def normalizeProfile_def normalizeNetworkPolicy_def example_ttl
        enforceOrganizationDependencyProfileLimit_def)
qed

lemma count_start: "CountActive (mg_store (start limit)) w now = 0"
  by (simp add: CountActive_def ListSandboxes_def new_manager_def newMemoryStore_def)

lemma start_keyed: "keyed (start limit)" "drawn E (abstract (start limit))"
  by (simp_all add: keyed_def drawn_def abstract_def new_manager_def newMemoryStore_def)

lemma example_created:
  obtains b where "fst (Create example_env 0 example_request (start 10)) = Inr b" and "sb_ID b = ''sbx_''"
    and "map_of (boxes (snd (Create example_env 0 example_request (start 10)))) ''sbx_'' = Some b"
proof -
  obtain ow d where d: "create_admit example_env 0 example_request (mg_store (start 10)) = Inr (ow, d)" "cd_TTL d = 60 * Second"
    using example_admitted [OF count_start] by blast
  have "mg_draws (start 10) = 0" "box_name example_env 0 = ''sbx_''" by (simp_all add: new_manager_def box_name_def)
  with d create_commit_ok [OF _ start_keyed(1,2) example_rand, of 10 d 0 example_request ow] show ?thesis
    by (intro that) (auto simp: Create_def)
qed

theorem create_within_policy_witness:
  "\<exists>b m'. Create example_env 0 example_request (start 10) = (Inr b, m')
    \<and> map_of (boxes m') (sb_ID b) = Some b \<and> sb_ExpiresAt b \<le> maxTTL example_service (sb_RuntimeProfile b)
    \<and> ActiveCount example_env 0 (start 10) < 1"
proof -
  obtain b m' where c: "Create example_env 0 example_request (start 10) = (Inr b, m')"
    using example_created by (metis prod.collapse)
  from create_within_policy [OF c] c show ?thesis by auto
qed

theorem cache_transparent_witness:
  "fst (serve_all example_env [(0, RCreate example_request), (1, RGet ''sbx_'')] (start 10)) =
     fst (serve_all (uncached example_env) [(0, RCreate example_request), (1, RGet ''sbx_'')] (start' 10))"
  using cache_transparent [of example_env "[(0, RCreate example_request), (1, RGet ''sbx_'')]" 10] by simp

lemma Delete_found: "map_of (boxes m) sid = Some b \<Longrightarrow> fst (Delete E now sid m) = None"
  by (simp add: Delete_def GetSandbox_def Let_def)

theorem retired_final_witness:
  "\<exists>as m. serve_all example_env [(0, RCreate example_request), (1, RDelete ''sbx_'')] (start 10) = (as, m)
    \<and> as ! 1 = Done None
    \<and> fst (serve example_env 2 (RGet ''sbx_'') m) = Box (Inl (Message ''sandbox expired''))"
proof -
  obtain as m where run: "serve_all example_env ([(0, RCreate example_request)] @ (1, RDelete ''sbx_'') # []) (start 10) = (as, m)"
    by fastforce
  obtain b where b: "map_of (boxes (snd (Create example_env 0 example_request (start 10)))) ''sbx_'' = Some b"
    using example_created by blast
  have "as ! 1 = Done None"
    using serve_all_split(1) [of example_env "[(0, RCreate example_request)]" 1 "RDelete ''sbx_''" "[]" "start 10"] run
      Delete_found [OF b, of example_env 1]
    by (auto simp: map_prod_def split_beta)
  with retired_final [OF _ example_rand run, of "''sbx_''"] run show ?thesis by auto
qed

theorem active_limit_kept_witness:
  "ActiveCount example_env 2 (snd (serve_all example_env
     [(0, RCreate example_request), (1, RCreate example_request), (2, RDelete ''sbx_'')] (start 10))) \<le> 1"
  using active_limit_kept [of example_env "[(0, RCreate example_request), (1, RCreate example_request), (2, RDelete ''sbx_'')]" 2 10]
  by (simp add: gentle_request_def)

theorem create_race_witness:
  "\<exists>ow d a1 m1 a2 m2. create_admit example_env 0 example_request (mg_store (start 10)) = Inr (ow, d)
    \<and> create_commit example_env 0 example_request ow d (start 10) = (a1, m1)
    \<and> create_commit example_env 0 example_request ow d m1 = (a2, m2)
    \<and> ActiveCount example_env 0 m2 = 2"
proof -
  obtain ow d where d: "create_admit example_env 0 example_request (mg_store (start 10)) = Inr (ow, d)" "cd_TTL d = 60 * Second"
    using example_admitted [OF count_start] by blast
  obtain a1 m1 a2 m2 where c: "create_commit example_env 0 example_request ow d (start 10) = (a1, m1)"
    "create_commit example_env 0 example_request ow d m1 = (a2, m2)" by fastforce
  have "ActiveCount example_env 0 m2 = 2"
    using create_race [OF start_keyed example_rand _ d(1) _ d(1) _ _ c] d(2) count_start by (simp add: ActiveCount_def)
  with d c show ?thesis by blast
qed

text \<open>The sandbox \<open>a\<close> has expired by time, \<open>b\<close> is live; the limit is one.\<close>

definition example_box :: "string \<Rightarrow> time \<Rightarrow> sandbox" where
  "example_box sid expires = (created_item example_env 0 example_request
      \<lparr>ow_OrganizationID = [], ow_WorkspaceID = [], ow_AppID = [], ow_WorkflowRunID = [], ow_UserID = []\<rparr>
      \<lparr>cd_RuntimeProfile = ''session'', cd_TTL = expires, cd_NetworkEnabled = False, cd_NetworkPolicy = [],
       cd_DependencyProfile = [], cd_DependencyProfileVersion = [], cd_DependencyArtifactChecksum = [],
       cd_EffectiveLimits = EffectiveLimits example_service\<rparr> sid [])"

definition example_manager :: "memory_cache manager" where
  "example_manager = (start 10)\<lparr>mg_store := \<lparr>ms_sandboxes = [(''a'', example_box ''a'' 5), (''b'', example_box ''b'' 100)],
     ms_endpoints = []\<rparr>\<rparr>"

theorem renew_exceeds_limit_witness:
  "ActiveCount example_env 10 example_manager = 1
    \<and> ActiveCount example_env 10 (snd (Renew example_env 10 ''a'' 60 example_manager)) = 2"
proof -
  have "normalizeProfile ''session'' = Inr ''session''"
    by (simp add: normalizeProfile_def Let_def graphic_trim_space graphic_def)
  moreover have "ActiveCount example_env 10 example_manager = 1"
    by (simp add: ActiveCount_def CountActive_def ListSandboxes_def example_manager_def example_box_def live_def)
  ultimately show ?thesis
    using renew_exceeds_limit [of example_manager "''a''" "example_box ''a'' 5" 10 example_env "''session''" 60]
    by (simp add: example_manager_def example_box_def keyed_def example_ttl)
qed

end
