(* ===== verification/Sandbox_Admission_Examples.thy ===== *)
theory Sandbox_Admission_Examples
  imports Sandbox_Admission_Liveness Sandbox_Examples
begin

text \<open>The theorems on admission applied to two calls of an organisation that may run one execution.\<close>

section \<open>A schedule\<close>

text \<open>The next step of a call, if it has one without a timer.\<close>

definition advance :: "service \<Rightarrow> nat \<Rightarrow> admission_sys \<Rightarrow> admission_sys" where
  "advance s i S =
     (if i < length (as_calls S)
      then let c = as_calls S ! i; p = ac_profile c; org = ac_organization c; a = as_admission S
           in case ac_pc c of
                Calling \<Rightarrow> goto i (if without_limits s org then Unlimited else Looping False) S
              | Looping q \<Rightarrow> goto i (pc_after (fst (try_admission s p org q a)))
                  (S\<lparr>as_admission := snd (try_admission s p org q a)\<rparr>)
              | Waiting ch n \<Rightarrow> if ch < ad_changed a then goto i (Looping True) S else S
              | Leaving e \<Rightarrow> goto i (Returned (Some e)) (S\<lparr>as_admission := unqueue True org a\<rparr>)
              | Holding \<Rightarrow> goto i (Returned None)
                  (S\<lparr>as_admission := releaseExecutionAdmission p org (cf_MaxConcurrentExecutions (sv_config s) > 0) a\<rparr>)
              | Unlimited \<Rightarrow> goto i (Returned None) S
              | Returned r \<Rightarrow> S
      else S)"

lemma advance_step: "(admission_step impatient s)\<^sup>*\<^sup>* S (advance s i S)"
proof (cases "advance s i S = S")
  case False
  then have i: "i < length (as_calls S)" unfolding advance_def by argo
  have "admission_step impatient s S (advance s i S)"
  proof (cases "ac_pc (as_calls S ! i)")
    case (Looping q)
    obtain r a where t: "try_admission s (ac_profile (as_calls S ! i)) (ac_organization (as_calls S ! i)) q (as_admission S) = (r, a)"
      by fastforce
    from admission_step.loop [OF i Looping this] show ?thesis using i Looping t by (simp add: advance_def Let_def)
  next
    case (Waiting ch n)
    with False i show ?thesis
      by (auto simp: advance_def Let_def intro: admission_step.wake split: if_splits)
  next
    case Calling
    with i admission_step.call [OF i Calling, of impatient s] show ?thesis by (simp add: advance_def Let_def)
  next
    case (Leaving e)
    with i admission_step.leave [OF i Leaving, of impatient s] show ?thesis by (simp add: advance_def Let_def)
  next
    case Holding
    with i admission_step.release [OF i Holding, of impatient s] show ?thesis by (simp add: advance_def Let_def)
  next
    case Unlimited
    with i admission_step.finish [OF i Unlimited, of impatient s] show ?thesis by (simp add: advance_def Let_def)
  next
    case (Returned r)
    with False i show ?thesis by (simp add: advance_def Let_def)
  qed
  then show ?thesis by blast
qed simp

lemma schedule_reachable: "(admission_step impatient s)\<^sup>*\<^sup>* S (fold (advance s) is S)"
  by (induction "is" arbitrary: S) (auto intro: rtranclp_trans [OF advance_step])

section \<open>Two calls\<close>

definition busy_config :: config where
  "busy_config = example_config\<lparr>cf_MaxConcurrentExecutionsPerOrganization := 1, cf_MaxQueuedExecutionsPerOrganization := 1\<rparr>"

definition two_calls :: admission_sys where
  "two_calls = admission_start (replicate 2 \<lparr>ac_profile = ''p'', ac_organization = ''o'', ac_pc = Calling\<rparr>)"

lemma busy_limits [simp]:
  "cf_MaxConcurrentExecutions (sv_config (NewService busy_config)) = 4"
  "cf_MaxConcurrentExecutionsPerProfile (sv_config (NewService busy_config)) = 4"
  "cf_MaxConcurrentExecutionsPerOrganization (sv_config (NewService busy_config)) = 1"
  "cf_MaxQueuedExecutionsPerOrganization (sv_config (NewService busy_config)) = 1"
  by (simp_all add: NewService_def busy_config_def example_config_def)

lemmas admission_eval = advance_def two_calls_def admission_start_def without_limits_def goto_def pc_after_def try_admission_def
  counter_def decrement_def unqueue_def releaseExecutionAdmission_def notifyExecutionChangedLocked_def
  releaseQueuedOrganizationExecutionLocked_def Let_def numeral_2_eq_2

lemma both_entered: "map ac_pc (as_calls (fold (advance (NewService busy_config)) [0, 1, 0, 1] two_calls)) = [Holding, Waiting 0 1]"
  by (simp add: admission_eval)

theorem admission_limits_witness:
  "within_limits (NewService busy_config) (fold (advance (NewService busy_config)) [0, 1, 0, 1] two_calls)"
  unfolding two_calls_def by (rule admission_limits [OF schedule_reachable])

theorem admission_terminates_witness:
  "\<exists>S'. admission_step False (NewService busy_config) (fold (advance (NewService busy_config)) [0, 1, 0, 1] two_calls) S'"
proof -
  have "as_calls (fold (advance (NewService busy_config)) [0, 1, 0, 1] two_calls) \<noteq> []"
    and "ac_pc (hd (as_calls (fold (advance (NewService busy_config)) [0, 1, 0, 1] two_calls))) = Holding"
    using both_entered by (auto simp: map_eq_Cons_conv)
  then have "\<not> all_returned (fold (advance (NewService busy_config)) [0, 1, 0, 1] two_calls)"
    unfolding all_returned_def using hd_in_set by fastforce
  then show ?thesis
    using admission_terminates schedule_reachable unfolding two_calls_def by metis
qed

theorem newcomer_waits_behind_queue_witness:
  "waiters (fold (advance (NewService busy_config)) [0, 1] two_calls) ''o'' = 0"
proof -
  let ?S = "fold (advance (NewService busy_config)) [0, 1] two_calls"
  have S: "as_calls ?S = replicate 2 \<lparr>ac_profile = ''p'', ac_organization = ''o'', ac_pc = Looping False\<rparr>"
    by (simp add: admission_eval)
  then have "0 < length (as_calls ?S)" and pc: "ac_pc (as_calls ?S ! 0) = Looping False"
      and org: "ac_organization (as_calls ?S ! 0) = ''o''"
    by simp_all
  from admission_step.loop [OF this(1,2) surjective_pairing]
  have "admission_step False (NewService busy_config) ?S (advance (NewService busy_config) 0 ?S)"
    using S by (simp add: advance_def Let_def)
  moreover have "ac_pc (as_calls (advance (NewService busy_config) 0 ?S) ! 0) = Holding"
    by (simp add: admission_eval)
  ultimately have "waiters ?S (ac_organization (as_calls ?S ! 0)) = 0"
    using S unfolding two_calls_def by (intro newcomer_waits_behind_queue [OF schedule_reachable]) simp_all
  then show ?thesis unfolding org .
qed

end
