(* ===== verification/Go_Path.thy ===== *)
theory Go_Path
  imports Go_Netip
begin

text \<open>
  Go's \<open>path/filepath\<close> on Unix, over the parts of a path: cleaning, joining, relative paths, and the
  facts by which a cleaned path below a root stays below it.
\<close>

section \<open>Splitting and joining\<close>

abbreviation slash :: char where "slash \<equiv> CHR ''/''"

lemma split_on_nonempty [simp]: "split_on c s \<noteq> []"
  by (induction s) (auto split: list.splits)

lemma split_on_parts: "p \<in> set (split_on c s) \<Longrightarrow> c \<notin> set p"
proof (induction s arbitrary: p)
  case (Cons x s)
  then show ?case by (auto split: list.splits if_splits)
qed simp

lemma split_on_append: "c \<notin> set p \<Longrightarrow> split_on c (p @ c # s) = p # split_on c s"
  by (induction p) auto

lemma split_on_single: "c \<notin> set p \<Longrightarrow> split_on c p = [p]"
  by (induction p) auto

lemma split_on_join: "xs \<noteq> [] \<Longrightarrow> \<forall>x \<in> set xs. c \<notin> set x \<Longrightarrow> split_on c (join_with [c] xs) = xs"
  by (induction "[c]" xs rule: join_with.induct) (auto simp: split_on_append split_on_single)

lemma split_on_join_append:
  "xs \<noteq> [] \<Longrightarrow> \<forall>x \<in> set xs. c \<notin> set x \<Longrightarrow> split_on c (join_with [c] xs @ c # s) = xs @ split_on c s"
  by (induction "[c]" xs rule: join_with.induct) (auto simp: split_on_append)

section \<open>Clean\<close>

definition IsAbs :: "string \<Rightarrow> bool" where
  "IsAbs p \<longleftrightarrow> has_prefix p ''/''"

lemma IsAbs_Cons [simp]: "IsAbs (c # p) \<longleftrightarrow> c = slash" "\<not> IsAbs []"
  by (auto simp: IsAbs_def has_prefix_def)

text \<open>
  The parts of a path from left to right, with those that stay so far in reverse: an empty part
  and a dot are dropped, and two dots drop the part before them, or nothing at the root.
\<close>

fun clean_parts :: "bool \<Rightarrow> string list \<Rightarrow> string list \<Rightarrow> string list" where
  "clean_parts rooted kept [] = rev kept"
| "clean_parts rooted kept (p # ps) =
     (if p = [] \<or> p = ''.'' then clean_parts rooted kept ps
      else if p = ''..'' then
        (case kept of
           [] \<Rightarrow> clean_parts rooted (if rooted then [] else [''..'']) ps
         | k # ks \<Rightarrow> clean_parts rooted (if k = ''..'' then p # kept else ks) ps)
      else clean_parts rooted (p # kept) ps)"

definition path_parts :: "string \<Rightarrow> string list" where
  "path_parts p = clean_parts (IsAbs p) [] (split_on slash p)"

definition Clean :: "string \<Rightarrow> string" where
  "Clean p =
     (if p = [] then ''.''
      else if IsAbs p then slash # join_with ''/'' (path_parts p)
      else if path_parts p = [] then ''.'' else join_with ''/'' (path_parts p))"

text \<open>A name of a directory entry.\<close>

definition plain_part :: "string \<Rightarrow> bool" where
  "plain_part p \<longleftrightarrow> p \<noteq> [] \<and> p \<noteq> ''.'' \<and> p \<noteq> ''..'' \<and> slash \<notin> set p"

lemma clean_parts_plain:
  "\<forall>p \<in> set kept. plain_part p \<Longrightarrow> \<forall>p \<in> set ps. slash \<notin> set p \<Longrightarrow> \<forall>p \<in> set (clean_parts True kept ps). plain_part p"
proof (induction ps arbitrary: kept)
  case (Cons p ps)
  consider "p = [] \<or> p = ''.''" | "p = ''..''" | "plain_part p"
    using Cons.prems(2) by (auto simp: plain_part_def)
  then show ?case
  proof cases
    case 1
    with Cons show ?thesis by (simp add: Cons.IH)
  next
    case 2
    have "\<forall>k \<in> set kept. k \<noteq> ''..''" using Cons.prems(1) by (auto simp: plain_part_def)
    then have "clean_parts True kept (p # ps) = clean_parts True (tl kept) ps"
      using 2 by (cases kept) simp_all
    moreover have "\<forall>k \<in> set (tl kept). plain_part k" using Cons.prems(1) by (cases kept) simp_all
    ultimately show ?thesis using Cons by simp
  next
    case 3
    then have "clean_parts True kept (p # ps) = clean_parts True (p # kept) ps" by (simp add: plain_part_def)
    moreover have "\<forall>x \<in> set (clean_parts True (p # kept) ps). plain_part x"
      using 3 Cons.prems by (intro Cons.IH) simp_all
    ultimately show ?thesis by metis
  qed
qed simp

lemma clean_parts_append: "clean_parts r kept (ps @ qs) = clean_parts r (rev (clean_parts r kept ps)) qs"
  by (induction r kept ps rule: clean_parts.induct) (auto split: list.splits)

lemma clean_parts_push: "\<forall>p \<in> set ps. plain_part p \<Longrightarrow> clean_parts r kept ps = rev kept @ ps"
  by (induction ps arbitrary: kept) (auto simp: plain_part_def)

lemma path_parts_plain:
  assumes "IsAbs p" shows "\<forall>q \<in> set (path_parts p). plain_part q"
  using clean_parts_plain [of "[]" "split_on slash p"] split_on_parts [of _ slash p] assms by (auto simp: path_parts_def)

definition abs_path :: "string list \<Rightarrow> string" where
  "abs_path ps = slash # join_with ''/'' ps"

lemma IsAbs_abs_path [simp]: "IsAbs (abs_path ps)"
  by (simp add: abs_path_def)

lemma split_join_parts:
  "\<forall>p \<in> set ps. plain_part p \<Longrightarrow> split_on slash (join_with ''/'' ps) = (if ps = [] then [[]] else ps)"
  by (auto simp: plain_part_def split_on_join)

lemma split_abs_path: "\<forall>p \<in> set ps. plain_part p \<Longrightarrow> split_on slash (abs_path ps) = [] # (if ps = [] then [[]] else ps)"
  by (simp add: abs_path_def split_join_parts)

lemma path_parts_abs_path: "\<forall>p \<in> set ps. plain_part p \<Longrightarrow> path_parts (abs_path ps) = ps"
  by (simp add: path_parts_def split_abs_path clean_parts_push)

lemma Clean_abs: "IsAbs p \<Longrightarrow> Clean p = abs_path (path_parts p)"
  by (cases p) (simp_all add: Clean_def abs_path_def)

lemma Clean_abs_path: "\<forall>p \<in> set ps. plain_part p \<Longrightarrow> Clean (abs_path ps) = abs_path ps"
  by (simp add: Clean_abs path_parts_abs_path)

lemma Clean_idem_abs: "IsAbs p \<Longrightarrow> Clean (Clean p) = Clean p"
  using Clean_abs_path [OF path_parts_plain, of p] Clean_abs [of p] by simp

lemma abs_path_inj: "\<forall>p \<in> set ps. plain_part p \<Longrightarrow> \<forall>q \<in> set qs. plain_part q \<Longrightarrow> abs_path ps = abs_path qs \<longleftrightarrow> ps = qs"
  using path_parts_abs_path by metis

section \<open>Join, Abs, Rel, Dir, Base\<close>

definition Join :: "string list \<Rightarrow> string" where
  "Join es = (case dropWhile (\<lambda>e. e = []) es of [] \<Rightarrow> [] | es' \<Rightarrow> Clean (join_with ''/'' es'))"

lemma Join_abs:
  assumes "\<forall>p \<in> set ps. plain_part p" and "\<forall>q \<in> set qs. plain_part q"
  shows "Join [abs_path ps, abs_path qs] = abs_path (ps @ qs)"
proof -
  have "split_on slash (abs_path ps @ slash # s) = [] # (if ps = [] then [[]] else ps) @ split_on slash s" for s
    using assms(1) split_on_append [of slash "[]"] unfolding abs_path_def plain_part_def
    by (auto simp: split_on_join_append)
  then have "path_parts (abs_path ps @ slash # abs_path qs) = ps @ qs"
    using assms by (auto simp: path_parts_def abs_path_def clean_parts_append clean_parts_push split_join_parts)
  moreover have "Join [abs_path ps, abs_path qs] = Clean (abs_path ps @ slash # abs_path qs)"
    by (simp add: Join_def abs_path_def)
  ultimately show ?thesis by (simp add: Clean_abs abs_path_def)
qed

lemma Join_part:
  assumes "\<forall>p \<in> set ps. plain_part p" and "plain_part q"
  shows "Join [abs_path ps, q] = abs_path (ps @ [q])"
proof -
  have "split_on slash (abs_path ps @ slash # q) = [] # (if ps = [] then [[]] else ps) @ [q]"
    using assms split_on_append [of slash "[]"] unfolding abs_path_def plain_part_def
    by (auto simp: split_on_join_append split_on_single)
  then have "path_parts (abs_path ps @ slash # q) = ps @ [q]"
    using assms by (auto simp: path_parts_def abs_path_def clean_parts_append clean_parts_push)
      (auto simp: plain_part_def)
  moreover have "Join [abs_path ps, q] = Clean (abs_path ps @ slash # q)"
    by (simp add: Join_def abs_path_def)
  ultimately show ?thesis by (simp add: Clean_abs abs_path_def)
qed

text \<open>The working directory is an argument; it is missing when the process has lost it.\<close>

definition Abs :: "string option \<Rightarrow> string \<Rightarrow> string option" where
  "Abs wd p = (if IsAbs p then Some (Clean p) else map_option (\<lambda>d. Join [d, p]) wd)"

fun rel_parts :: "string list \<Rightarrow> string list \<Rightarrow> string list \<times> string list" where
  "rel_parts (b # bs) (t # ts) = (if b = t then rel_parts bs ts else (b # bs, t # ts))"
| "rel_parts bs ts = (bs, ts)"

definition Rel :: "string \<Rightarrow> string \<Rightarrow> string option" where
  "Rel base targ =
     (if Clean targ = Clean base then Some ''.''
      else if IsAbs base \<noteq> IsAbs targ then None
      else case rel_parts (path_parts base) (path_parts targ) of (bs, ts) \<Rightarrow>
        if bs \<noteq> [] \<and> hd bs = ''..'' then None
        else Some (join_with ''/'' (replicate (length bs) ''..'' @ ts)))"

lemma rel_parts_below: "rel_parts ps (ps @ qs) = ([], qs)"
  by (induction ps) (cases qs; simp)+

lemma Rel_below:
  assumes "\<forall>p \<in> set ps. plain_part p" and "\<forall>q \<in> set qs. plain_part q"
  shows "Rel (abs_path ps) (abs_path (ps @ qs)) = Some (if qs = [] then ''.'' else join_with ''/'' qs)"
proof -
  have "\<forall>p \<in> set (ps @ qs). plain_part p" using assms by auto
  with assms show ?thesis
    by (auto simp: Rel_def Clean_abs_path path_parts_abs_path rel_parts_below abs_path_inj)
qed

definition Dir :: "string \<Rightarrow> string" where
  "Dir p = Clean (rev (dropWhile (\<lambda>c. c \<noteq> slash) (rev p)))"

definition Base :: "string \<Rightarrow> string" where
  "Base p =
     (if p = [] then ''.''
      else let q = rev (dropWhile (\<lambda>c. c = slash) (rev p))
           in if q = [] then ''/'' else rev (takeWhile (\<lambda>c. c \<noteq> slash) (rev q)))"

end
