(* ===== verification/Go_Files.thy ===== *)
theory Go_Files
  imports Go_Path "HOL-Library.Sublist" "HOL-Library.List_Lexorder" "HOL-Library.Char_ord"
begin

text \<open>
  A Unix file system and the functions of Go's \<open>os\<close> package on it: the nodes by their path from
  the root, the walk of the kernel along a path through symbolic links, and reading, writing,
  making and removing of files. Every function keeps the tree well formed, and says where it
  changes it.
\<close>

section \<open>Nodes and walks\<close>

type_synonym path = "string list"

datatype inode = Regular string nat | Directory | Symlink string

type_synonym fsys = "(path, inode) gomap"

definition node :: "fsys \<Rightarrow> path \<Rightarrow> inode option" where
  "node fs p = (if p = [] then Some Directory else map_of fs p)"

definition wf_fs :: "fsys \<Rightarrow> bool" where
  "wf_fs fs \<longleftrightarrow> (\<forall>p x. node fs (p @ [x]) \<noteq> None \<longrightarrow> node fs p = Some Directory)"

datatype errno = ENOENT | ENOTDIR | EISDIR | EEXIST | ELOOP | EINVAL | ENOTEMPTY | Fault string

fun errno_text :: "errno \<Rightarrow> string" where
  "errno_text ENOENT = ''no such file or directory''"
| "errno_text ENOTDIR = ''not a directory''"
| "errno_text EISDIR = ''is a directory''"
| "errno_text EEXIST = ''file exists''"
| "errno_text ELOOP = ''too many levels of symbolic links''"
| "errno_text EINVAL = ''invalid argument''"
| "errno_text ENOTEMPTY = ''directory not empty''"
| "errno_text (Fault e) = e"

text \<open>
  The walk of the kernel from a directory along the parts of a path: links are followed, up to
  forty, the last one only on demand. The last part may be missing.
\<close>

function (sequential) walk :: "fsys \<Rightarrow> nat \<Rightarrow> bool \<Rightarrow> path \<Rightarrow> string list \<Rightarrow> errno + path" where
  "walk fs links follow cur [] = Inr cur"
| "walk fs links follow cur (p # ps) =
     (if node fs cur \<noteq> Some Directory then Inl ENOTDIR
      else if p = [] \<or> p = ''.'' then walk fs links follow cur ps
      else if p = ''..'' then walk fs links follow (butlast cur) ps
      else case node fs (cur @ [p]) of
             Some (Symlink t) \<Rightarrow>
               if ps = [] \<and> \<not> follow then Inr (cur @ [p])
               else if links = 0 then Inl ELOOP
               else if t = [] then Inl ENOENT
               else walk fs (links - 1) follow (if IsAbs t then [] else cur) (split_on slash t @ ps)
           | Some _ \<Rightarrow> walk fs links follow (cur @ [p]) ps
           | None \<Rightarrow> if ps = [] then Inr (cur @ [p]) else Inl ENOENT)"
  by pat_completeness auto

termination
  by (relation "measures [\<lambda>(fs, links, follow, cur, ps). links, \<lambda>(fs, links, follow, cur, ps). length ps]") auto

text \<open>
  The environment of a process: its working directory, and the failures of the device: when the
  writing of a file fails, the error and what the file holds then, if it could be opened.
\<close>

record os_env =
  os_wd :: "string option"
  os_fault :: "path \<Rightarrow> string \<Rightarrow> (string \<times> string option) option"

definition resolve :: "os_env \<Rightarrow> fsys \<Rightarrow> bool \<Rightarrow> string \<Rightarrow> errno + path" where
  "resolve W fs follow p =
     (if p = [] then Inl ENOENT
      else if byte 0 \<in> set p then Inl EINVAL
      else if IsAbs p then walk fs 40 follow [] (split_on slash p)
      else case os_wd W of
             None \<Rightarrow> Inl ENOENT
           | Some d \<Rightarrow> walk fs 40 follow (path_parts d) (split_on slash p))"

section \<open>The functions of os\<close>

definition stat_with :: "bool \<Rightarrow> os_env \<Rightarrow> fsys \<Rightarrow> string \<Rightarrow> errno + inode" where
  "stat_with follow W fs p =
     (case resolve W fs follow p of
        Inl e \<Rightarrow> Inl e
      | Inr q \<Rightarrow> (case node fs q of None \<Rightarrow> Inl ENOENT | Some n \<Rightarrow> Inr n))"

abbreviation Lstat :: "os_env \<Rightarrow> fsys \<Rightarrow> string \<Rightarrow> errno + inode" where "Lstat \<equiv> stat_with False"
abbreviation Stat :: "os_env \<Rightarrow> fsys \<Rightarrow> string \<Rightarrow> errno + inode" where "Stat \<equiv> stat_with True"

definition ReadFile :: "os_env \<Rightarrow> fsys \<Rightarrow> string \<Rightarrow> errno + string" where
  "ReadFile W fs p =
     (case Stat W fs p of Inl e \<Rightarrow> Inl e | Inr (Regular c m) \<Rightarrow> Inr c | Inr _ \<Rightarrow> Inl EISDIR)"

definition put :: "path \<Rightarrow> inode \<Rightarrow> fsys \<Rightarrow> fsys" where
  "put p n fs = AList.update p n fs"

definition WriteFile :: "os_env \<Rightarrow> string \<Rightarrow> string \<Rightarrow> nat \<Rightarrow> fsys \<Rightarrow> errno option \<times> fsys" where
  "WriteFile W p content perm fs =
     (case resolve W fs True p of
        Inl e \<Rightarrow> (Some e, fs)
      | Inr q \<Rightarrow>
          if node fs q = Some Directory then (Some EISDIR, fs)
          else let mode = (case node fs q of Some (Regular c m) \<Rightarrow> m | _ \<Rightarrow> perm)
               in case os_fault W q content of
                    Some (e, None) \<Rightarrow> (Some (Fault e), fs)
                  | Some (e, Some part) \<Rightarrow> (Some (Fault e), put q (Regular part mode) fs)
                  | None \<Rightarrow> (None, put q (Regular content mode) fs))"

definition Mkdir :: "os_env \<Rightarrow> string \<Rightarrow> fsys \<Rightarrow> errno option \<times> fsys" where
  "Mkdir W p fs =
     (case resolve W fs False p of
        Inl e \<Rightarrow> (Some e, fs)
      | Inr q \<Rightarrow> if node fs q \<noteq> None then (Some EEXIST, fs) else (None, put q Directory fs))"

text \<open>\<open>MkdirAll\<close> on a cleaned path, given by its parts; the error names the directory that could not be made.\<close>

function MkdirAll :: "os_env \<Rightarrow> string list \<Rightarrow> fsys \<Rightarrow> (string list \<times> errno) option \<times> fsys" where
  "MkdirAll W ps fs =
     (case Stat W fs (abs_path ps) of
        Inr Directory \<Rightarrow> (None, fs)
      | Inr _ \<Rightarrow> (Some (ps, ENOTDIR), fs)
      | Inl e \<Rightarrow>
          if ps = [] then (Some (ps, e), fs)
          else case MkdirAll W (butlast ps) fs of
                 (Some e, fs) \<Rightarrow> (Some e, fs)
               | (None, fs) \<Rightarrow>
                   (case Mkdir W (abs_path ps) fs of
                      (None, fs) \<Rightarrow> (None, fs)
                    | (Some e, fs) \<Rightarrow> (if Lstat W fs (abs_path ps) = Inr Directory then None else Some (ps, e), fs)))"
  by pat_completeness auto

termination
  by (relation "measure (\<lambda>(W, ps, fs). length ps)") auto

declare MkdirAll.simps [simp del]

definition Remove :: "os_env \<Rightarrow> string \<Rightarrow> fsys \<Rightarrow> errno option \<times> fsys" where
  "Remove W p fs =
     (case resolve W fs False p of
        Inl e \<Rightarrow> (Some e, fs)
      | Inr q \<Rightarrow>
          (case node fs q of
             None \<Rightarrow> (Some ENOENT, fs)
           | Some Directory \<Rightarrow>
               if q = [] \<or> list_ex (\<lambda>(r, n). strict_prefix q r) fs then (Some ENOTEMPTY, fs)
               else (None, AList.delete q fs)
           | Some _ \<Rightarrow> (None, AList.delete q fs)))"

definition RemoveAll :: "os_env \<Rightarrow> string \<Rightarrow> fsys \<Rightarrow> errno option \<times> fsys" where
  "RemoveAll W p fs =
     (case resolve W fs False p of
        Inl ENOENT \<Rightarrow> (None, fs)
      | Inl e \<Rightarrow> (Some e, fs)
      | Inr q \<Rightarrow> (None, filter (\<lambda>(r, n). \<not> prefix q r) fs))"

text \<open>
  \<open>WalkDir\<close> visits the nodes below a directory in the order of their paths; a link is not followed,
  and the root is one of the visited nodes, which all callers skip.
\<close>

definition WalkDir :: "os_env \<Rightarrow> fsys \<Rightarrow> string \<Rightarrow> errno + (path \<times> inode) list" where
  "WalkDir W fs root =
     (case resolve W fs False root of
        Inl e \<Rightarrow> Inl e
      | Inr q \<Rightarrow>
          (case node fs q of
             None \<Rightarrow> Inl ENOENT
           | Some Directory \<Rightarrow>
               Inr (map (\<lambda>r. (drop (length q) r, the (node fs r)))
                 (sort (remdups (filter (strict_prefix q) (map fst fs)))))
           | Some _ \<Rightarrow> Inr []))"

section \<open>Where a walk leads\<close>

lemma node_Nil [simp]: "node fs [] = Some Directory"
  by (simp add: node_def)

lemma node_put: "node (put p n fs) q = (if q = p \<and> p \<noteq> [] then Some n else node fs q)"
  by (auto simp: node_def put_def update_conv')

lemma wf_fs_parent: "wf_fs fs \<Longrightarrow> node fs p \<noteq> None \<Longrightarrow> node fs (butlast p) = Some Directory"
  by (cases p rule: rev_cases) (auto simp: wf_fs_def)

lemma wf_fs_missing: "wf_fs fs \<Longrightarrow> node fs p = None \<Longrightarrow> prefix p q \<Longrightarrow> node fs q = None"
proof (induction q rule: rev_induct)
  case (snoc x q)
  show ?case
  proof (cases "p = q @ [x]")
    case False
    with snoc show ?thesis by (metis option.distinct(1) prefix_snoc wf_fs_def)
  qed (use snoc in simp)
qed (auto simp: prefix_def)

lemma wf_fs_put:
  assumes "wf_fs fs" and "node fs (butlast p) = Some Directory" and "n = Directory \<or> node fs p \<noteq> Some Directory"
  shows "wf_fs (put p n fs)"
  using assms unfolding wf_fs_def node_put by (metis append_is_Nil_conv butlast_snoc)

text \<open>A walk that succeeds, without the count of links.\<close>

definition entry_name :: "string \<Rightarrow> bool" where
  "entry_name p \<longleftrightarrow> p \<noteq> [] \<and> p \<noteq> ''.'' \<and> p \<noteq> ''..''"

lemma plain_entry_name: "plain_part p \<Longrightarrow> entry_name p"
  by (simp add: plain_part_def entry_name_def)

inductive reaches :: "fsys \<Rightarrow> bool \<Rightarrow> path \<Rightarrow> string list \<Rightarrow> path \<Rightarrow> bool" for fs follow where
  here: "reaches fs follow cur [] cur"
| skip: "node fs cur = Some Directory \<Longrightarrow> p = [] \<or> p = ''.'' \<Longrightarrow> reaches fs follow cur ps q \<Longrightarrow> reaches fs follow cur (p # ps) q"
| up: "node fs cur = Some Directory \<Longrightarrow> reaches fs follow (butlast cur) ps q \<Longrightarrow> reaches fs follow cur (''..'' # ps) q"
| down: "node fs cur = Some Directory \<Longrightarrow> entry_name p \<Longrightarrow> node fs (cur @ [p]) = Some n \<Longrightarrow> \<forall>t. n \<noteq> Symlink t \<Longrightarrow>
    reaches fs follow (cur @ [p]) ps q \<Longrightarrow> reaches fs follow cur (p # ps) q"
| link: "node fs cur = Some Directory \<Longrightarrow> entry_name p \<Longrightarrow> node fs (cur @ [p]) = Some (Symlink t) \<Longrightarrow> ps \<noteq> [] \<or> follow \<Longrightarrow>
    reaches fs follow (if IsAbs t then [] else cur) (split_on slash t @ ps) q \<Longrightarrow> reaches fs follow cur (p # ps) q"
| link_end: "node fs cur = Some Directory \<Longrightarrow> entry_name p \<Longrightarrow> node fs (cur @ [p]) = Some (Symlink t) \<Longrightarrow> \<not> follow \<Longrightarrow>
    reaches fs follow cur [p] (cur @ [p])"
| missing: "node fs cur = Some Directory \<Longrightarrow> entry_name p \<Longrightarrow> node fs (cur @ [p]) = None \<Longrightarrow> reaches fs follow cur [p] (cur @ [p])"

lemma walk_reaches: "walk fs links follow cur ps = Inr q \<Longrightarrow> reaches fs follow cur ps q"
proof (induction fs links follow cur ps rule: walk.induct)
  case (2 fs links follow cur p ps)
  have "node fs cur = Some Directory" using 2(6) by (simp split: if_splits)
  with 2 show ?case
    by (auto simp: entry_name_def intro: reaches.intros split: if_splits option.splits inode.splits)
qed (auto intro: reaches.here)

lemma reaches_missing:
  "reaches fs follow cur ps q \<Longrightarrow> wf_fs fs \<Longrightarrow> node fs cur \<noteq> None \<Longrightarrow> node fs q = None \<Longrightarrow>
     q \<noteq> [] \<and> node fs (butlast q) = Some Directory"
  by (induction rule: reaches.induct) (auto dest: wf_fs_parent split: if_splits)

lemma reaches_no_link:
  "reaches fs follow cur ps q \<Longrightarrow> follow \<Longrightarrow> (\<And>t. node fs cur \<noteq> Some (Symlink t)) \<Longrightarrow> wf_fs fs \<Longrightarrow> node fs q \<noteq> Some (Symlink t)"
  by (induction rule: reaches.induct) (auto dest: wf_fs_parent split: if_splits)

inductive_cases reaches_NilE: "reaches fs follow cur [] q"
inductive_cases reaches_ConsE: "reaches fs follow cur (p # ps) q"

text \<open>The directory in the middle of a walk.\<close>

lemma reaches_split:
  "reaches fs follow cur rs q \<Longrightarrow> rs = ps @ qs \<Longrightarrow> qs \<noteq> [] \<Longrightarrow>
     \<exists>c. reaches fs True cur ps c \<and> reaches fs follow c qs q"
proof (induction arbitrary: ps rule: reaches.induct)
  case (link cur p t rs q)
  show ?case
  proof (cases ps)
    case Nil
    with link show ?thesis by (metis append_Nil reaches.here reaches.link)
  next
    case (Cons p' ps')
    with link obtain c where "reaches fs True (if IsAbs t then [] else cur) (split_on slash t @ ps') c" "reaches fs follow c qs q"
      by auto
    with link Cons show ?thesis by (auto intro: reaches.link)
  qed
qed (auto simp: Cons_eq_append_conv intro: reaches.intros; meson reaches.intros)+

lemma reaches_unique: "reaches fs follow cur ps q \<Longrightarrow> reaches fs follow cur ps q' \<Longrightarrow> q = q'"
  by (induction rule: reaches.induct) (auto elim!: reaches_ConsE reaches_NilE simp: entry_name_def)

text \<open>Below a directory without links on the way, a walk leads where the parts say.\<close>

definition unlinked :: "fsys \<Rightarrow> path \<Rightarrow> string list \<Rightarrow> bool" where
  "unlinked fs c ps \<longleftrightarrow> (\<forall>qs t. prefix qs ps \<longrightarrow> qs \<noteq> [] \<longrightarrow> node fs (c @ qs) \<noteq> Some (Symlink t))"

lemma unlinked_Cons: "unlinked fs c (p # ps) \<longleftrightarrow> (\<forall>t. node fs (c @ [p]) \<noteq> Some (Symlink t)) \<and> unlinked fs (c @ [p]) ps"
  unfolding unlinked_def by (auto simp: prefix_Cons)

lemma reaches_below:
  "reaches fs follow c ps q \<Longrightarrow> \<forall>p \<in> set ps. plain_part p \<Longrightarrow> unlinked fs c ps \<Longrightarrow> q = c @ ps"
  by (induction rule: reaches.induct) (auto simp: unlinked_Cons plain_part_def)

lemma resolve_abs:
  assumes "resolve W fs follow (abs_path ps) = Inr q" and "\<forall>p \<in> set ps. plain_part p"
  shows "reaches fs follow [] ps q"
proof -
  from assms(1) have "reaches fs follow [] (split_on slash (abs_path ps)) q"
    by (auto simp: resolve_def abs_path_def intro: walk_reaches split: if_splits)
  then have "reaches fs follow [] (if ps = [] then [[]] else ps) q"
    unfolding split_abs_path [OF assms(2)] by (auto elim: reaches_ConsE simp: entry_name_def)
  then show ?thesis by (auto elim!: reaches_ConsE simp: entry_name_def split: if_splits intro: reaches.here)
qed

lemma resolve_below:
  assumes "resolve W fs True (abs_path R) = Inr c" and "\<forall>p \<in> set R. plain_part p"
    and "resolve W' fs follow (abs_path (R @ ps)) = Inr q" and "\<forall>p \<in> set ps. plain_part p"
    and "unlinked fs c ps" and "ps \<noteq> [] \<or> follow"
  shows "q = c @ ps"
proof (cases "ps = []")
  case True
  with assms resolve_abs have "reaches fs True [] R c" "reaches fs True [] R q" by auto
  then show ?thesis using True reaches_unique by auto
next
  case False
  have "reaches fs follow [] (R @ ps) q" using assms(2,4) by (intro resolve_abs [OF assms(3)]) auto
  with False obtain c' where c': "reaches fs True [] R c'" "reaches fs follow c' ps q"
    using reaches_split by blast
  with resolve_abs [OF assms(1,2)] reaches_unique have "c' = c" by blast
  with c' assms(4,5) show ?thesis using reaches_below by blast
qed

text \<open>A tree that only grows: what is there stays, files may get another content.\<close>

definition grows :: "fsys \<Rightarrow> fsys \<Rightarrow> bool" where
  "grows fs fs' \<longleftrightarrow> (\<forall>p. case node fs p of
     None \<Rightarrow> True
   | Some (Regular c m) \<Rightarrow> \<exists>c' m'. node fs' p = Some (Regular c' m')
   | Some n \<Rightarrow> node fs' p = Some n)"

lemma grows_refl [simp]: "grows fs fs"
  by (simp add: grows_def split: option.splits inode.splits)

lemma growsD:
  assumes "grows fs fs'"
  shows "node fs p = Some Directory \<Longrightarrow> node fs' p = Some Directory"
    and "node fs p = Some (Symlink t) \<Longrightarrow> node fs' p = Some (Symlink t)"
    and "node fs p = Some (Regular x m) \<Longrightarrow> \<exists>x' m'. node fs' p = Some (Regular x' m')"
    and "node fs p \<noteq> None \<Longrightarrow> node fs' p \<noteq> None"
  using spec [OF assms [unfolded grows_def], of p] by (auto split: option.splits inode.splits)

lemma grows_trans: "grows f g \<Longrightarrow> grows g h \<Longrightarrow> grows f h"
  unfolding grows_def
proof
  fix p
  assume "\<forall>p. case node f p of None \<Rightarrow> True | Some (Regular c m) \<Rightarrow> \<exists>c' m'. node g p = Some (Regular c' m') | Some n \<Rightarrow> node g p = Some n"
    and "\<forall>p. case node g p of None \<Rightarrow> True | Some (Regular c m) \<Rightarrow> \<exists>c' m'. node h p = Some (Regular c' m') | Some n \<Rightarrow> node h p = Some n"
  from spec [OF this(1), of p] spec [OF this(2), of p]
  show "case node f p of None \<Rightarrow> True | Some (Regular c m) \<Rightarrow> \<exists>c' m'. node h p = Some (Regular c' m') | Some n \<Rightarrow> node h p = Some n"
    by (auto split: option.splits inode.splits)
qed

lemma grows_put:
  "node fs p = None \<or> n = Regular x m \<and> node fs p \<noteq> Some Directory \<and> (\<forall>t. node fs p \<noteq> Some (Symlink t)) \<Longrightarrow> grows fs (put p n fs)"
  unfolding grows_def node_put by (auto split: option.splits inode.splits)

lemma walk_grows:
  "walk fs links follow cur ps = Inr q \<Longrightarrow> grows fs fs' \<Longrightarrow> node fs q \<noteq> None \<Longrightarrow> walk fs' links follow cur ps = Inr q"
proof (induction fs links follow cur ps rule: walk.induct)
  case (2 fs links follow cur p ps)
  have cur: "node fs cur = Some Directory" using 2(6) by (simp split: if_splits)
  note cur' = growsD(1) [OF 2(7) cur]
  consider (dot) "p = [] \<or> p = ''.''" | (up) "\<not> (p = [] \<or> p = ''.'')" "p = ''..''" | (name) "\<not> (p = [] \<or> p = ''.'')" "p \<noteq> ''..''"
    by blast
  then show ?case
  proof cases
    case dot
    with 2 cur cur' show ?thesis by simp
  next
    case up
    with 2 cur cur' show ?thesis by simp
  next
    case name
    note out = 2(6) [unfolded walk.simps if_P [OF cur] if_not_P [OF name(1)] if_not_P [OF name(2)]]
    show ?thesis
    proof (cases "node fs (cur @ [p])")
      case None
      with out 2(8) cur name show ?thesis by (auto split: if_splits)
    next
      case (Some n)
      with 2 cur cur' name growsD [OF 2(7), of "cur @ [p]"] show ?thesis
        by (cases n) (auto split: if_splits)
    qed
  qed
qed simp

lemma resolve_grows:
  "resolve W fs follow p = Inr q \<Longrightarrow> grows fs fs' \<Longrightarrow> node fs q \<noteq> None \<Longrightarrow> resolve W fs' follow p = Inr q"
  by (auto simp: resolve_def intro: walk_grows split: if_splits option.splits)

section \<open>Where the functions write\<close>

text \<open>
  A root directory with the parts \<open>R\<close> of its name leads to \<open>c\<close>, and nothing on the way down from
  there along \<open>ps\<close> is a link.
\<close>

definition jail :: "os_env \<Rightarrow> fsys \<Rightarrow> string list \<Rightarrow> path \<Rightarrow> string list \<Rightarrow> bool" where
  "jail W fs R c ps \<longleftrightarrow> wf_fs fs \<and> resolve W fs True (abs_path R) = Inr c \<and> node fs c \<noteq> None
     \<and> (\<forall>p \<in> set R. plain_part p) \<and> (\<forall>p \<in> set ps. plain_part p) \<and> unlinked fs c ps"

lemma jail_resolve:
  assumes "jail W fs R c ps" and "resolve W fs follow (abs_path (R @ ps)) = Inr q" and "ps \<noteq> [] \<or> follow"
  shows "q = c @ ps"
  using resolve_below [OF _ _ assms(2)] assms(1,3) unfolding jail_def by blast

lemma jail_root_no_link: "jail W fs R c ps \<Longrightarrow> node fs c \<noteq> Some (Symlink t)"
  using reaches_no_link [OF resolve_abs] unfolding jail_def by fastforce

lemma jail_butlast: "jail W fs R c (ps @ [x]) \<Longrightarrow> jail W fs R c ps"
  unfolding jail_def unlinked_def by (auto intro: prefix_order.trans)

lemma jail_missing_parent:
  assumes "jail W fs R c ps" and "resolve W fs follow (abs_path (R @ ps)) = Inr q" and "node fs q = None"
  shows "q \<noteq> [] \<and> node fs (butlast q) = Some Directory"
proof -
  have "reaches fs follow [] (R @ ps) q" using assms(1) by (intro resolve_abs [OF assms(2)]) (auto simp: jail_def)
  with assms show ?thesis using reaches_missing by (auto simp: jail_def)
qed

text \<open>The changes of a function that makes directories and writes one file below the root.\<close>

definition adds_dirs :: "fsys \<Rightarrow> fsys \<Rightarrow> path \<Rightarrow> path \<Rightarrow> bool" where
  "adds_dirs fs fs' c d \<longleftrightarrow> wf_fs fs' \<and> grows fs fs' \<and>
     (\<forall>p. node fs' p \<noteq> node fs p \<longrightarrow> node fs p = None \<and> node fs' p = Some Directory \<and> strict_prefix c p \<and> prefix p d)"

lemma jail_adds_dirs:
  assumes "jail W fs R c ps" and "adds_dirs fs fs' c' d"
  shows "jail W fs' R c ps"
proof -
  have grow: "grows fs fs'" using assms(2) by (simp add: adds_dirs_def)
  have "node fs' p = Some (Symlink t) \<Longrightarrow> node fs p = Some (Symlink t)" for p t
    using assms(2) unfolding adds_dirs_def by (metis inode.distinct(5) option.inject)
  then have "unlinked fs' c ps" using assms(1) unfolding jail_def unlinked_def by blast
  then show ?thesis
    using assms grow resolve_grows [OF _ grow] growsD(4) [OF grow] unfolding jail_def adds_dirs_def by blast
qed

lemma adds_dirs_refl: "wf_fs fs \<Longrightarrow> adds_dirs fs fs c d"
  by (simp add: adds_dirs_def)

lemma adds_dirs_trans:
  assumes "adds_dirs f g c d" and "adds_dirs g h c e" and "prefix d e"
  shows "adds_dirs f h c e"
  unfolding adds_dirs_def
proof (intro conjI allI impI)
  show "grows f h" using assms grows_trans unfolding adds_dirs_def by blast
  fix p assume "node h p \<noteq> node f p"
  with assms show "node f p = None" "node h p = Some Directory" "strict_prefix c p" "prefix p e"
    unfolding adds_dirs_def by (metis prefix_order.trans)+
qed (use assms in \<open>simp add: adds_dirs_def\<close>)

lemma Mkdir_adds:
  assumes "jail W fs R c ps" and "ps \<noteq> []" and "Mkdir W (abs_path (R @ ps)) fs = (r, fs')"
  shows "adds_dirs fs fs' c (c @ ps)"
proof (cases "fs' = fs")
  case True
  with assms(1) show ?thesis by (simp add: adds_dirs_refl jail_def)
next
  case False
  with assms(3) obtain q where q: "resolve W fs False (abs_path (R @ ps)) = Inr q" "node fs q = None" "fs' = put q Directory fs"
    by (auto simp: Mkdir_def split: sum.splits if_splits)
  have [simp]: "q = c @ ps" using jail_resolve [OF assms(1) q(1)] assms(2) by blast
  have "wf_fs fs'" using q jail_missing_parent [OF assms(1) q(1,2)] assms(1) by (auto simp: jail_def intro: wf_fs_put)
  moreover have "grows fs fs'" using q by (auto intro: grows_put)
  ultimately show ?thesis using q assms(2) by (auto simp: adds_dirs_def node_put strict_prefix_def split: if_splits)
qed

lemma MkdirAll_adds:
  assumes "jail W fs R c ps" and "MkdirAll W (R @ ps) fs = (r, fs')"
  shows "adds_dirs fs fs' c (c @ ps)"
  using assms
proof (induction ps arbitrary: r fs' rule: rev_induct)
  case Nil
  have "node fs c \<noteq> None" "resolve W fs True (abs_path R) = Inr c" "wf_fs fs"
    using Nil(1) by (auto simp: jail_def)
  then have "fs' = fs"
    using Nil(2) jail_root_no_link [OF Nil(1)]
    by (auto simp: MkdirAll.simps [of W R] stat_with_def split: option.splits inode.splits)
  then show ?case using \<open>wf_fs fs\<close> by (simp add: adds_dirs_refl)
next
  case (snoc x ps)
  have up: "butlast (R @ ps @ [x]) = R @ ps" by (simp add: butlast_append)
  show ?case
  proof (cases "Stat W fs (abs_path (R @ ps @ [x]))")
    case (Inr n)
    with snoc.prems have "fs' = fs" by (auto simp: MkdirAll.simps [of W "R @ ps @ [x]"] split: inode.splits)
    with snoc.prems show ?thesis by (simp add: adds_dirs_refl jail_def)
  next
    case (Inl e)
    obtain r1 fs1 where 1: "MkdirAll W (R @ ps) fs = (r1, fs1)" by fastforce
    have add1: "adds_dirs fs fs1 c (c @ ps)" using snoc.IH [OF jail_butlast 1] snoc.prems(1) by simp
    then have "wf_fs fs1" by (simp add: adds_dirs_def)
    from adds_dirs_trans [OF add1 adds_dirs_refl [OF this]] have add1': "adds_dirs fs fs1 c (c @ ps @ [x])" by simp
    show ?thesis
    proof (cases r1)
      case (Some e)
      with snoc.prems(2) Inl 1 up add1' show ?thesis by (simp add: MkdirAll.simps [of W "R @ ps @ [x]"])
    next
      case None
      obtain r2 fs2 where 2: "Mkdir W (abs_path (R @ ps @ [x])) fs1 = (r2, fs2)" by fastforce
      have "adds_dirs fs1 fs2 c (c @ ps @ [x])"
        using Mkdir_adds [OF jail_adds_dirs [OF snoc.prems(1) add1] _ 2] by simp
      moreover have "fs' = fs2"
        using snoc.prems(2) Inl 1 2 up None by (auto simp: MkdirAll.simps [of W "R @ ps @ [x]"] split: option.splits)
      ultimately show ?thesis using adds_dirs_trans [OF add1] by simp
    qed
  qed
qed

lemma jail_put:
  assumes "jail W fs R c ps" and "node fs (c @ ps) \<noteq> Some Directory" and "node fs (butlast (c @ ps)) = Some Directory"
  shows "jail W (put (c @ ps) (Regular x m) fs) R c ps" and "grows fs (put (c @ ps) (Regular x m) fs)"
proof -
  have ps: "\<forall>t. node fs (c @ ps) \<noteq> Some (Symlink t)"
    using assms(1) jail_root_no_link [OF assms(1)] unfolding jail_def unlinked_def by (cases ps) auto
  show grow: "grows fs (put (c @ ps) (Regular x m) fs)"
    using assms(2) ps by (auto intro!: grows_put)
  have "wf_fs (put (c @ ps) (Regular x m) fs)"
    using assms by (intro wf_fs_put) (simp_all add: jail_def)
  moreover have "unlinked (put (c @ ps) (Regular x m) fs) c ps"
    using assms(1) unfolding jail_def unlinked_def node_put by simp
  ultimately show "jail W (put (c @ ps) (Regular x m) fs) R c ps"
    using assms(1) resolve_grows [OF _ grow] growsD(4) [OF grow] unfolding jail_def by blast
qed

lemma WriteFile_below:
  assumes "jail W fs R c ps" and "WriteFile W (abs_path (R @ ps)) content perm fs = (r, fs')"
  shows "jail W fs' R c ps" and "grows fs fs'" and "\<And>p. p \<noteq> c @ ps \<Longrightarrow> node fs' p = node fs p"
    and "fs' \<noteq> fs \<or> r = None \<Longrightarrow> node fs (c @ ps) \<noteq> Some Directory \<and> (\<exists>x m. node fs' (c @ ps) = Some (Regular x m))"
    and "r = None \<Longrightarrow> \<exists>m. node fs' (c @ ps) = Some (Regular content m)"
    and "r \<noteq> None \<Longrightarrow> (\<And>p x. os_fault W p x = None) \<Longrightarrow> fs' = fs"
    and "node fs (c @ ps) = Some (Regular x m) \<Longrightarrow> \<exists>x'. node fs' (c @ ps) = Some (Regular x' m)"
    and "r = None \<Longrightarrow> resolve W fs True (abs_path (R @ ps)) = Inr (c @ ps)"
proof -
  consider (same) "fs' = fs" "r \<noteq> None"
    | (written) q x m where "resolve W fs True (abs_path (R @ ps)) = Inr q" "node fs q \<noteq> Some Directory"
        "fs' = put q (Regular x m) fs" "r = None \<longrightarrow> x = content" "r \<noteq> None \<longrightarrow> os_fault W q content \<noteq> None"
        "\<forall>x' m'. node fs q = Some (Regular x' m') \<longrightarrow> m' = m"
  proof (cases "resolve W fs True (abs_path (R @ ps))")
    case (Inl e)
    with assms(2) that(1) show ?thesis by (auto simp: WriteFile_def)
  next
    case (Inr q)
    show ?thesis
    proof (cases "node fs q = Some Directory")
      case True
      with Inr assms(2) that(1) show ?thesis by (auto simp: WriteFile_def)
    next
      case False
      define mode where "mode = (case node fs q of Some (Regular c m) \<Rightarrow> m | _ \<Rightarrow> perm)"
      have "\<forall>x' m'. node fs q = Some (Regular x' m') \<longrightarrow> m' = mode" by (simp add: mode_def)
      with Inr assms(2) that(1) that(2) [OF Inr False, of _ mode] False show ?thesis
        unfolding WriteFile_def by (auto simp: Let_def mode_def [symmetric] split: option.splits prod.splits)
    qed
  qed
  then have "jail W fs' R c ps \<and> grows fs fs' \<and> (\<forall>p. p \<noteq> c @ ps \<longrightarrow> node fs' p = node fs p)
      \<and> (fs' \<noteq> fs \<or> r = None \<longrightarrow> node fs (c @ ps) \<noteq> Some Directory \<and> (\<exists>x m. node fs' (c @ ps) = Some (Regular x m)))
      \<and> (r = None \<longrightarrow> (\<exists>m. node fs' (c @ ps) = Some (Regular content m)))
      \<and> (r \<noteq> None \<longrightarrow> (\<forall>p x. os_fault W p x = None) \<longrightarrow> fs' = fs)
      \<and> (node fs (c @ ps) = Some (Regular x m) \<longrightarrow> (\<exists>x'. node fs' (c @ ps) = Some (Regular x' m)))
      \<and> (r = None \<longrightarrow> resolve W fs True (abs_path (R @ ps)) = Inr (c @ ps))"
  proof cases
    case same
    with assms(1) show ?thesis by auto
  next
    case written
    have q: "q = c @ ps" using jail_resolve [OF assms(1) written(1)] by simp
    have "node fs (butlast (c @ ps)) = Some Directory"
    proof (cases "node fs q")
      case None
      with jail_missing_parent [OF assms(1) written(1)] q show ?thesis by simp
    next
      case (Some n)
      with wf_fs_parent [of fs q] assms(1) q show ?thesis by (simp add: jail_def)
    qed
    moreover have "c @ ps \<noteq> []" using written(2) q by auto
    ultimately show ?thesis
      using jail_put [OF assms(1)] written q by (auto simp: node_put)
  qed
  then show "jail W fs' R c ps" and "grows fs fs'" and "\<And>p. p \<noteq> c @ ps \<Longrightarrow> node fs' p = node fs p"
    and "fs' \<noteq> fs \<or> r = None \<Longrightarrow> node fs (c @ ps) \<noteq> Some Directory \<and> (\<exists>x m. node fs' (c @ ps) = Some (Regular x m))"
    and "r = None \<Longrightarrow> \<exists>m. node fs' (c @ ps) = Some (Regular content m)"
    and "r \<noteq> None \<Longrightarrow> (\<And>p x. os_fault W p x = None) \<Longrightarrow> fs' = fs"
    and "node fs (c @ ps) = Some (Regular x m) \<Longrightarrow> \<exists>x'. node fs' (c @ ps) = Some (Regular x' m)"
    and "r = None \<Longrightarrow> resolve W fs True (abs_path (R @ ps)) = Inr (c @ ps)"
    by blast+
qed

lemma map_of_filter_keys: "map_of (filter (\<lambda>(k, v). P k) xs) k = (if P k then map_of xs k else None)"
  by (induction xs) auto

lemma RemoveAll_below:
  assumes "jail W fs R c ps" and "ps \<noteq> []" and "RemoveAll W (abs_path (R @ ps)) fs = (r, fs')"
  shows "wf_fs fs'" and "\<And>p. \<not> prefix (c @ ps) p \<Longrightarrow> node fs' p = node fs p"
    and "\<And>p. resolve W fs False (abs_path (R @ ps)) = Inr q \<Longrightarrow> prefix (c @ ps) p \<Longrightarrow> node fs' p = None"
proof -
  have gone: "node (filter (\<lambda>(k, n). \<not> prefix (c @ ps) k) fs) p = (if prefix (c @ ps) p then None else node fs p)" for p
    unfolding node_def map_of_filter_keys using assms(2) by auto
  have wf: "wf_fs (filter (\<lambda>(k, n). \<not> prefix (c @ ps) k) fs)"
    using assms(1) unfolding jail_def wf_fs_def gone by (metis prefix_prefix)
  have "fs' = fs \<and> (\<nexists>q. resolve W fs False (abs_path (R @ ps)) = Inr q) \<or> fs' = filter (\<lambda>(k, n). \<not> prefix (c @ ps) k) fs"
    using assms(3) jail_resolve [OF assms(1), of False] assms(2)
    by (auto simp: RemoveAll_def split: sum.splits errno.splits)
  then show "wf_fs fs'" and "\<And>p. \<not> prefix (c @ ps) p \<Longrightarrow> node fs' p = node fs p"
    and "\<And>p. resolve W fs False (abs_path (R @ ps)) = Inr q \<Longrightarrow> prefix (c @ ps) p \<Longrightarrow> node fs' p = None"
    using wf gone assms(1) by (auto simp: jail_def)
qed

end
