(* ===== verification/Go_Base64.thy ===== *)
theory Go_Base64
  imports Go_Strings
begin

text \<open>
  The standard encoding of Go's \<open>encoding/base64\<close>: three bytes are four characters, the end is
  padded, and the decoder skips line breaks and reports the offset of the first bad character.
\<close>

definition alphabet64 :: string where
  "alphabet64 = ''ABCDEFGHIJKLMNOPQRSTUVWXYZabcdefghijklmnopqrstuvwxyz0123456789+/''"

definition char64 :: "nat \<Rightarrow> char" where
  "char64 v = alphabet64 ! v"

definition sextet :: "char \<Rightarrow> nat option" where
  "sextet c = map_of (zip alphabet64 [0..<64]) c"

abbreviation pad64 :: char where "pad64 \<equiv> CHR ''=''"

definition line_break :: "char \<Rightarrow> bool" where
  "line_break c \<longleftrightarrow> c = byte 10 \<or> c = byte 13"

definition word24 :: "char \<Rightarrow> char \<Rightarrow> char \<Rightarrow> nat" where
  "word24 a b c = of_char a * 65536 + of_char b * 256 + of_char c"

fun EncodeToString :: "string \<Rightarrow> string" where
  "EncodeToString (a # b # c # s) =
     (let n = word24 a b c
      in char64 (n div 262144) # char64 (n div 4096 mod 64) # char64 (n div 64 mod 64) # char64 (n mod 64) # EncodeToString s)"
| "EncodeToString [a, b] =
     (let n = word24 a b (byte 0) in [char64 (n div 262144), char64 (n div 4096 mod 64), char64 (n div 64 mod 64), pad64])"
| "EncodeToString [a] =
     (let n = word24 a (byte 0) (byte 0) in [char64 (n div 262144), char64 (n div 4096 mod 64), pad64, pad64])"
| "EncodeToString [] = []"

text \<open>The bytes of a group of sextets, of which the missing ones are zero.\<close>

definition three_bytes :: "nat \<Rightarrow> string" where
  "three_bytes n = [char_of (n div 65536), char_of (n div 256 mod 256), char_of (n mod 256)]"

definition bytes_of :: "nat list \<Rightarrow> string" where
  "bytes_of ds =
     take (length ds - 1) (three_bytes (foldl (\<lambda>n d. n * 64 + d) 0 (ds @ replicate (4 - length ds) 0)))"

definition skip_breaks :: "nat \<Rightarrow> string \<Rightarrow> nat \<times> string" where
  "skip_breaks si s = (si + length (takeWhile line_break s), dropWhile line_break s)"

definition decode_end :: "nat \<Rightarrow> string \<Rightarrow> nat list \<Rightarrow> nat + string" where
  "decode_end si s ds =
     (case skip_breaks si s of (k, s) \<Rightarrow> if s = [] then Inr (bytes_of ds) else Inl k)"

text \<open>At offset \<open>si\<close>, with the rest of the text and the sextets of the group so far.\<close>

fun decode64 :: "nat \<Rightarrow> string \<Rightarrow> nat list \<Rightarrow> nat + string" where
  "decode64 si [] ds = (if ds = [] then Inr [] else Inl (si - length ds))"
| "decode64 si (c # s) ds =
     (case sextet c of
        Some v \<Rightarrow>
          if length ds = 3
          then (case decode64 (si + 1) s [] of Inl e \<Rightarrow> Inl e | Inr r \<Rightarrow> Inr (bytes_of (ds @ [v]) @ r))
          else decode64 (si + 1) s (ds @ [v])
      | None \<Rightarrow>
          if line_break c then decode64 (si + 1) s ds
          else if c \<noteq> pad64 \<or> length ds < 2 then Inl si
          else if length ds = 2
          then (case skip_breaks (si + 1) s of
                  (k, []) \<Rightarrow> Inl k
                | (k, d # s) \<Rightarrow> if d \<noteq> pad64 then Inl (k - 1) else decode_end (k + 1) s ds)
          else decode_end (si + 1) s ds)"

definition DecodeString :: "string \<Rightarrow> string + string" where
  "DecodeString s =
     (case decode64 0 s [] of
        Inl k \<Rightarrow> Inl (''illegal base64 data at input byte '' @ show_nat k)
      | Inr r \<Rightarrow> Inr r)"

section \<open>Round trip\<close>

lemma sextet_char64_all: "list_all (\<lambda>v. sextet (char64 v) = Some v) [0..<64]"
  by code_simp

lemma sextet_char64 [simp]: "v < 64 \<Longrightarrow> sextet (char64 v) = Some v"
  using sextet_char64_all by (simp add: list_all_iff)

lemma sextet_pad [simp]: "sextet pad64 = None" "\<not> line_break pad64"
  by code_simp+

lemma digits64:
  fixes n :: nat
  shows "((n div 262144 * 64 + n div 4096 mod 64) * 64 + n div 64 mod 64) * 64 + n mod 64 = n"
proof -
  have "n div 4096 = n div 64 div 64" "n div 262144 = n div 64 div 64 div 64"
    by (simp_all add: div_mult2_eq [symmetric])
  then show ?thesis by (metis div_mult_mod_eq)
qed

lemma word24_less: "word24 a b c < 16777216"
proof -
  have "(of_char a :: nat) < 256" "(of_char b :: nat) < 256" "(of_char c :: nat) < 256" by simp_all
  then show ?thesis unfolding word24_def by linarith
qed

lemma word24_bytes:
  "char_of (word24 a b c div 65536) = a" "char_of (word24 a b c div 256 mod 256) = b" "char_of (word24 a b c mod 256) = c"
proof -
  have less: "(of_char a :: nat) < 256" "(of_char b :: nat) < 256" "(of_char c :: nat) < 256" by simp_all
  have w: "word24 a b c = (of_char a * 256 + of_char b) * 256 + of_char c" by (simp add: word24_def)
  have "word24 a b c div 256 = of_char a * 256 + of_char b" unfolding w using less by (simp add: div_add1_eq)
  moreover from this have "word24 a b c div 256 div 256 = of_char a" using less by simp
  then have "word24 a b c div 65536 = of_char a" by (simp add: div_mult2_eq [symmetric])
  moreover have "word24 a b c mod 256 = of_char c" unfolding w mod_mult_self3 using less by simp
  ultimately show "char_of (word24 a b c div 65536) = a" "char_of (word24 a b c div 256 mod 256) = b" "char_of (word24 a b c mod 256) = c"
    by simp_all
qed

lemma three_word24: "three_bytes (word24 a b c) = [a, b, c]"
  unfolding three_bytes_def word24_bytes by (rule refl)

lemma group_bound: "n < 16777216 \<Longrightarrow> n div 262144 < (64::nat)"
  by (simp add: less_mult_imp_div_less)

lemma bytes_of_groups:
  "bytes_of [a, b, c, d] = three_bytes (((a * 64 + b) * 64 + c) * 64 + d)"
  "bytes_of [a, b, c] = take 2 (three_bytes (((a * 64 + b) * 64 + c) * 64 + 0))"
  "bytes_of [a, b] = take 1 (three_bytes (((a * 64 + b) * 64 + 0) * 64 + 0))"
  by (simp_all add: bytes_of_def three_bytes_def numeral_2_eq_2 del: mult_0_right add_0_right)

lemma bytes_of_word24:
  "bytes_of [word24 a b c div 262144, word24 a b c div 4096 mod 64, word24 a b c div 64 mod 64, word24 a b c mod 64] = [a, b, c]"
  unfolding bytes_of_groups digits64 by (rule three_word24)

lemma bytes_of_word24_two:
  assumes "n = word24 a b (byte 0)"
  shows "bytes_of [n div 262144, n div 4096 mod 64, n div 64 mod 64] = [a, b]"
proof -
  have "n mod 64 = 0" unfolding assms word24_def by (simp add: byte_def)
  with digits64 [of n] show ?thesis unfolding bytes_of_groups by (simp only: assms three_word24) simp
qed

lemma bytes_of_word24_one:
  assumes "n = word24 a (byte 0) (byte 0)"
  shows "bytes_of [n div 262144, n div 4096 mod 64] = [a]"
proof -
  have "n mod 64 = 0" "n div 64 mod 64 = 0" unfolding assms word24_def by (simp_all add: byte_def)
  with digits64 [of n] show ?thesis unfolding bytes_of_groups by (simp only: assms three_word24) simp
qed

lemma decode64_EncodeToString: "decode64 si (EncodeToString s) [] = Inr s"
proof (induction s arbitrary: si rule: EncodeToString.induct)
  case (1 a b c s)
  show ?case using group_bound [OF word24_less [of a b c]] by (simp add: Let_def 1 bytes_of_word24)
next
  case (2 a b)
  show ?case using group_bound [OF word24_less [of a b "byte 0"]]
    by (simp add: Let_def bytes_of_word24_two [OF refl] decode_end_def skip_breaks_def)
next
  case (3 a)
  show ?case using group_bound [OF word24_less [of a "byte 0" "byte 0"]]
    by (simp add: Let_def bytes_of_word24_one [OF refl] decode_end_def skip_breaks_def)
qed simp

lemma DecodeString_EncodeToString [simp]: "DecodeString (EncodeToString s) = Inr s"
  by (simp add: DecodeString_def decode64_EncodeToString)

end
