(* ===== verification/Sandbox_Files.thy ===== *)
theory Sandbox_Files
  imports Sandbox_Lifecycle Go_Files Go_Base64
begin

text \<open>
  The files of a sandbox (\<open>executor/service.go\<close>): the check of paths, the limits on the size of
  workspaces, uploading, downloading, listing and deleting of files, archives with their rollback,
  and manifests of artifacts. The zip reader, the JSON decoder, SHA-256, the detection of content
  types, and the modes, times and sizes of directories that the system reports are parameters.
\<close>

section \<open>Requests and results\<close>

record file_write_request =
  fw_SandboxID :: string
  fw_Path :: string
  fw_Content :: string
  fw_Encoding :: string

record file_info =
  fi_Path :: string
  fi_Size :: int
  fi_Mode :: string
  fi_ModifiedAt :: time
  fi_IsDirectory :: bool
  fi_SandboxID :: string

record file_content =
  fc_SandboxID :: string
  fc_Path :: string
  fc_Content :: string
  fc_Encoding :: string

record skill_manifest =
  sk_Entrypoint :: string
  sk_Language :: string
  sk_DependencyProfile :: string
  sk_TimeoutMS :: int
  sk_AllowedArtifactPaths :: "string list"
  sk_MaxArtifactCount :: int
  sk_MaxArtifactBytes :: int
  sk_ResultMode :: string

text \<open>
  A file of an archive: its header, and what reading it yields: an error on opening, or chunks of
  bytes and an error at the end, if it is not the end of the file.
\<close>

record zip_file =
  zf_Name :: string
  zf_IsDir :: bool
  zf_IsSymlink :: bool
  zf_UncompressedSize64 :: nat
  zf_Open :: "string + string list \<times> string option"

record file_env =
  fe_os :: os_env
  fe_mode :: "inode \<Rightarrow> string"
  fe_dirsize :: int
  fe_mtime :: "fsys \<Rightarrow> string \<Rightarrow> time"
  fe_zip :: "string \<Rightarrow> string + zip_file list"
  fe_manifest :: "string \<Rightarrow> string + skill_manifest"
  fe_sha256 :: "string \<Rightarrow> string"
  fe_content_type :: "string \<Rightarrow> string"

definition path_error :: "string \<Rightarrow> string \<Rightarrow> errno \<Rightarrow> sb_error" where
  "path_error operation p e = Message (operation @ '' '' @ p @ '': '' @ errno_text e)"

section \<open>Paths\<close>

abbreviation escapes :: "string \<Rightarrow> bool" where
  "escapes rel \<equiv> rel = ''..'' \<or> has_prefix rel ''../''"

definition lost_wd :: sb_error where
  "lost_wd = Message ''getwd: no such file or directory''"

definition rel_error :: "string \<Rightarrow> string \<Rightarrow> sb_error" where
  "rel_error base targ = Message (''Rel: can't make '' @ targ @ '' relative to '' @ base)"

definition resolveSandboxPath :: "os_env \<Rightarrow> string \<Rightarrow> string \<Rightarrow> sb_error + string" where
  "resolveSandboxPath W root relativePath =
     (if trim_space relativePath = [] then Inl (Message ''path is required'')
      else case Abs (os_wd W) root of
        None \<Rightarrow> Inl lost_wd
      | Some root \<Rightarrow>
          let clean = Clean (''/'' @ relativePath);
              target = Join [root, clean]
          in case Rel root target of
               None \<Rightarrow> Inl (rel_error root target)
             | Some rel \<Rightarrow> if escapes rel then Inl (Message ''path escapes sandbox root'') else Inr target)"

fun reject_loop :: "os_env \<Rightarrow> fsys \<Rightarrow> bool \<Rightarrow> string \<Rightarrow> string list \<Rightarrow> sb_error option" where
  "reject_loop W fs allowMissingTail current [] = None"
| "reject_loop W fs allowMissingTail current (part # parts) =
     (if part = [] \<or> part = ''.'' then reject_loop W fs allowMissingTail current parts
      else let current = Join [current, part]
           in case Lstat W fs current of
                Inl e \<Rightarrow> if e = ENOENT \<and> allowMissingTail then None else Some (path_error ''lstat'' current e)
              | Inr (Symlink t) \<Rightarrow> Some (Message (''path contains symlink: '' @ current))
              | Inr _ \<Rightarrow> reject_loop W fs allowMissingTail current parts)"

definition rejectSymlinkPath :: "os_env \<Rightarrow> fsys \<Rightarrow> string \<Rightarrow> string \<Rightarrow> bool \<Rightarrow> sb_error option" where
  "rejectSymlinkPath W fs root target allowMissingTail =
     (case (Abs (os_wd W) root, Abs (os_wd W) target) of
        (Some root, Some target) \<Rightarrow>
          (case Lstat W fs root of
             Inl e \<Rightarrow> Some (path_error ''lstat'' root e)
           | Inr (Symlink t) \<Rightarrow> Some (Message ''sandbox root is a symlink'')
           | Inr _ \<Rightarrow>
               (case Rel root target of
                  None \<Rightarrow> Some (rel_error root target)
                | Some rel \<Rightarrow>
                    if rel = ''.'' then None
                    else if escapes rel then Some (Message ''path escapes sandbox root'')
                    else reject_loop W fs allowMissingTail root (split_on slash rel)))
      | _ \<Rightarrow> Some lost_wd)"

definition resolveExistingSandboxPath :: "os_env \<Rightarrow> fsys \<Rightarrow> string \<Rightarrow> string \<Rightarrow> sb_error + string" where
  "resolveExistingSandboxPath W fs root relativePath =
     (case resolveSandboxPath W root relativePath of
        Inl e \<Rightarrow> Inl e
      | Inr target \<Rightarrow>
          (case rejectSymlinkPath W fs root target False of Some e \<Rightarrow> Inl e | None \<Rightarrow> Inr target))"

definition resolveWritableSandboxPath :: "os_env \<Rightarrow> fsys \<Rightarrow> string \<Rightarrow> string \<Rightarrow> sb_error + string" where
  "resolveWritableSandboxPath W fs root relativePath =
     (case resolveSandboxPath W root relativePath of
        Inl e \<Rightarrow> Inl e
      | Inr target \<Rightarrow>
          (case rejectSymlinkPath W fs root target True of Some e \<Rightarrow> Inl e | None \<Rightarrow> Inr target))"

section \<open>Sizes\<close>

text \<open>
  The loops over \<open>WalkDir\<close> share their head: directories are passed over, and a link is an error
  that names it.
\<close>

fun walked_files :: "string \<Rightarrow> string \<Rightarrow> (path \<times> inode) list \<Rightarrow> sb_error + (path \<times> string) list" where
  "walked_files what root [] = Inr []"
| "walked_files what root ((p, n) # ns) =
     (case n of
        Directory \<Rightarrow> walked_files what root ns
      | Symlink t \<Rightarrow> Inl (Message (what @ '' contains symlink: '' @ Join (root # p)))
      | Regular c m \<Rightarrow> (case walked_files what root ns of Inl e \<Rightarrow> Inl e | Inr fs \<Rightarrow> Inr ((p, c) # fs)))"

definition walk_files :: "string \<Rightarrow> os_env \<Rightarrow> fsys \<Rightarrow> string \<Rightarrow> sb_error + (path \<times> string) list" where
  "walk_files what W fs root =
     (case WalkDir W fs root of
        Inl e \<Rightarrow> Inl (path_error ''lstat'' root e)
      | Inr ns \<Rightarrow> walked_files what root ns)"

definition byte_size :: "(path \<times> string) list \<Rightarrow> int" where
  "byte_size files = (\<Sum>(p, c) \<leftarrow> files. int (length c))"

definition workspaceByteSize :: "os_env \<Rightarrow> fsys \<Rightarrow> string \<Rightarrow> sb_error + int" where
  "workspaceByteSize W fs root = map_sum id byte_size (walk_files ''workspace'' W fs root)"

definition directoryByteSize :: "os_env \<Rightarrow> fsys \<Rightarrow> string \<Rightarrow> sb_error + int" where
  "directoryByteSize W fs root = map_sum id byte_size (walk_files ''directory'' W fs root)"

definition pathHasSegment :: "string \<Rightarrow> string \<Rightarrow> string \<Rightarrow> bool" where
  "pathHasSegment root target segment =
     (case Rel root target of None \<Rightarrow> False | Some rel \<Rightarrow> segment \<in> set (split_on slash rel))"

definition artifactByteSize :: "os_env \<Rightarrow> fsys \<Rightarrow> string \<Rightarrow> sb_error + int" where
  "artifactByteSize W fs root =
     map_sum id (\<lambda>files. byte_size (filter (\<lambda>(p, c). pathHasSegment root (Join (root # p)) ''artifacts'') files))
       (walk_files ''artifact path'' W fs root)"

definition workspaceFileCount :: "os_env \<Rightarrow> fsys \<Rightarrow> string \<Rightarrow> sb_error + int" where
  "workspaceFileCount W fs root = map_sum id (\<lambda>files. int (length files)) (walk_files ''workspace'' W fs root)"

text \<open>The size of a regular file, or nothing when there is no file.\<close>

definition regular_file :: "os_env \<Rightarrow> fsys \<Rightarrow> string \<Rightarrow> sb_error + string option" where
  "regular_file W fs p =
     (case Lstat W fs p of
        Inl e \<Rightarrow> if e = ENOENT then Inr None else Inl (path_error ''lstat'' p e)
      | Inr (Symlink t) \<Rightarrow> Inl (Message (''target path is a symlink: '' @ p))
      | Inr Directory \<Rightarrow> Inl (Message (''target path is a directory: '' @ p))
      | Inr (Regular c m) \<Rightarrow> Inr (Some c))"

definition existingRegularFileSize :: "os_env \<Rightarrow> fsys \<Rightarrow> string \<Rightarrow> sb_error + int" where
  "existingRegularFileSize W fs p =
     map_sum id (\<lambda>c. case c of None \<Rightarrow> 0 | Some c \<Rightarrow> int (length c)) (regular_file W fs p)"

definition regularFileExists :: "os_env \<Rightarrow> fsys \<Rightarrow> string \<Rightarrow> sb_error + bool" where
  "regularFileExists W fs p = map_sum id (\<lambda>c. c \<noteq> None) (regular_file W fs p)"

section \<open>Limits\<close>

definition limitMaximumInt :: "int \<Rightarrow> int" where
  "limitMaximumInt v = (if v > 2 ^ 63 - 1 then 2 ^ 63 - 1 else v)"

definition enforceWorkspaceByteLimitForSize :: "service \<Rightarrow> int \<Rightarrow> sb_error option" where
  "enforceWorkspaceByteLimitForSize s actualSize =
     (let limit = cf_MaxWorkspaceBytes (sv_config s)
      in if limit \<le> 0 \<or> actualSize \<le> limit then None
         else Some (Limit \<lparr>le_Code = ''workspace_byte_limit_exceeded'', le_Limit = ''max_workspace_bytes'',
           le_Maximum = limitMaximumInt limit, le_Actual = limitMaximumInt actualSize,
           le_Details = [(''workspace_bytes'', VInt Kint64 actualSize)]\<rparr>))"

fun organization_sizes :: "(string \<Rightarrow> sb_error + int) \<Rightarrow> sandbox \<Rightarrow> int \<Rightarrow> sandbox list \<Rightarrow> sb_error + int" where
  "organization_sizes size_of box projected [] = Inr 0"
| "organization_sizes size_of box projected (b # bs) =
     (if sb_OrganizationID b \<noteq> sb_OrganizationID box then organization_sizes size_of box projected bs
      else case (if sb_ID b = sb_ID box then Inr projected else size_of (sb_RootPath b)) of
             Inl e \<Rightarrow> Inl e
           | Inr n \<Rightarrow> map_sum id (\<lambda>total. n + total) (organization_sizes size_of box projected bs))"

definition organizationWorkspaceByteSize ::
    "'c manager_env \<Rightarrow> os_env \<Rightarrow> time \<Rightarrow> sandbox \<Rightarrow> int \<Rightarrow> fsys \<Rightarrow> 'c manager \<Rightarrow> (sb_error + int) \<times> 'c manager" where
  "organizationWorkspaceByteSize E W now box projected fs m =
     (case List_sandboxes E now m of (items, m) \<Rightarrow>
        (organization_sizes (workspaceByteSize W fs) box projected items, m))"

definition enforceOrganizationWorkspaceByteLimitForSize ::
    "'c manager_env \<Rightarrow> os_env \<Rightarrow> time \<Rightarrow> sandbox \<Rightarrow> int \<Rightarrow> fsys \<Rightarrow> 'c manager \<Rightarrow> sb_error option \<times> 'c manager" where
  "enforceOrganizationWorkspaceByteLimitForSize E W now box projected fs m =
     (let limit = cf_MaxWorkspaceBytesPerOrganization (sv_config (me_policy E))
      in if limit \<le> 0 \<or> sb_OrganizationID box = [] then (None, m)
         else case organizationWorkspaceByteSize E W now box projected fs m of
                (Inl e, m) \<Rightarrow> (Some e, m)
              | (Inr actualSize, m) \<Rightarrow>
                  if actualSize \<le> limit then (None, m)
                  else (Some (Limit \<lparr>le_Code = ''organization_workspace_byte_limit_exceeded'',
                    le_Limit = ''max_workspace_bytes_per_organization'', le_Maximum = limitMaximumInt limit,
                    le_Actual = limitMaximumInt actualSize,
                    le_Details = [(''organization_id'', VString (sb_OrganizationID box)),
                      (''organization_workspace_bytes'', VInt Kint64 actualSize)]\<rparr>), m))"

definition enforce_bytes ::
    "'c manager_env \<Rightarrow> os_env \<Rightarrow> time \<Rightarrow> sandbox \<Rightarrow> int \<Rightarrow> fsys \<Rightarrow> 'c manager \<Rightarrow> sb_error option \<times> 'c manager" where
  "enforce_bytes E W now box projected fs m =
     (case enforceWorkspaceByteLimitForSize (me_policy E) projected of
        Some e \<Rightarrow> (Some e, m)
      | None \<Rightarrow> enforceOrganizationWorkspaceByteLimitForSize E W now box projected fs m)"

definition enforceWorkspaceByteLimitForWrite ::
    "'c manager_env \<Rightarrow> os_env \<Rightarrow> time \<Rightarrow> sandbox \<Rightarrow> string \<Rightarrow> int \<Rightarrow> fsys \<Rightarrow> 'c manager \<Rightarrow> sb_error option \<times> 'c manager" where
  "enforceWorkspaceByteLimitForWrite E W now box target newSize fs m =
     (case workspaceByteSize W fs (sb_RootPath box) of
        Inl e \<Rightarrow> (Some e, m)
      | Inr currentSize \<Rightarrow>
          (case existingRegularFileSize W fs target of
             Inl e \<Rightarrow> (Some e, m)
           | Inr existingSize \<Rightarrow> enforce_bytes E W now box (currentSize - existingSize + newSize) fs m))"

definition enforceWorkspaceFileLimitForCount :: "service \<Rightarrow> int \<Rightarrow> sb_error option" where
  "enforceWorkspaceFileLimitForCount s actualCount =
     (let limit = cf_MaxWorkspaceFiles (sv_config s)
      in if limit \<le> 0 \<or> actualCount \<le> limit then None
         else Some (Limit \<lparr>le_Code = ''workspace_file_count_limit_exceeded'', le_Limit = ''max_workspace_files'',
           le_Maximum = limit, le_Actual = actualCount, le_Details = [(''workspace_files'', VInt Kint actualCount)]\<rparr>))"

definition enforceWorkspaceFileLimitForWrite :: "service \<Rightarrow> os_env \<Rightarrow> sandbox \<Rightarrow> string \<Rightarrow> fsys \<Rightarrow> sb_error option" where
  "enforceWorkspaceFileLimitForWrite s W box target fs =
     (if cf_MaxWorkspaceFiles (sv_config s) \<le> 0 then None
      else case workspaceFileCount W fs (sb_RootPath box) of
             Inl e \<Rightarrow> Some e
           | Inr currentCount \<Rightarrow>
               (case regularFileExists W fs target of
                  Inl e \<Rightarrow> Some e
                | Inr exists \<Rightarrow>
                    enforceWorkspaceFileLimitForCount s (if exists then currentCount else currentCount + 1)))"

section \<open>Files\<close>

definition normalizeEncoding :: "string \<Rightarrow> string" where
  "normalizeEncoding encoding = (if equal_fold (trim_space encoding) ''base64'' then ''base64'' else ''utf-8'')"

definition decodeContent :: "string \<Rightarrow> string \<Rightarrow> string + string" where
  "decodeContent content encoding =
     (if normalizeEncoding encoding = ''base64'' then DecodeString content else Inr content)"

definition addRuntimeBackendMetadata :: "string \<Rightarrow> dict \<Rightarrow> dict" where
  "addRuntimeBackendMetadata backend metadata =
     (if trim_space backend \<noteq> [] then AList.update ''runtime_backend'' (VString backend) metadata else metadata)"

definition record_file ::
    "'c manager_env \<Rightarrow> time \<Rightarrow> sandbox \<Rightarrow> string \<Rightarrow> string \<Rightarrow> string \<Rightarrow> dict \<Rightarrow> 'c manager \<Rightarrow> 'c manager" where
  "record_file E now box eventType sid message metadata =
     Record E now eventType sid message
       (addOwnershipMetadata box (addRuntimeBackendMetadata (RuntimeBackendName (sv_config (me_policy E))) metadata))"

fun info_size :: "file_env \<Rightarrow> inode \<Rightarrow> int" where
  "info_size F (Regular c m) = int (length c)"
| "info_size F Directory = fe_dirsize F"
| "info_size F (Symlink t) = int (length t)"

definition StatFile ::
    "'c manager_env \<Rightarrow> file_env \<Rightarrow> time \<Rightarrow> string \<Rightarrow> string \<Rightarrow> fsys \<Rightarrow> 'c manager \<Rightarrow> (sb_error + file_info) \<times> 'c manager" where
  "StatFile E F now sid relativePath fs m =
     (case Get E now sid m of
        (Inl e, m) \<Rightarrow> (Inl e, m)
      | (Inr box, m) \<Rightarrow>
          (case resolveExistingSandboxPath (fe_os F) fs (sb_RootPath box) relativePath of
             Inl e \<Rightarrow> (Inl e, m)
           | Inr target \<Rightarrow>
               (case Stat (fe_os F) fs target of
                  Inl e \<Rightarrow> (Inl (path_error ''stat'' target e), m)
                | Inr n \<Rightarrow>
                    (Inr \<lparr>fi_Path = relativePath, fi_Size = info_size F n, fi_Mode = fe_mode F n,
                      fi_ModifiedAt = fe_mtime F fs target, fi_IsDirectory = (n = Directory), fi_SandboxID = sid\<rparr>, m))))"

definition max_size_error :: "string \<Rightarrow> int \<Rightarrow> sb_error" where
  "max_size_error what limit = Message (what @ '' exceeds max size of '' @ show_int limit @ '' bytes'')"

definition UploadFile ::
    "'c manager_env \<Rightarrow> file_env \<Rightarrow> time \<Rightarrow> file_write_request \<Rightarrow> fsys \<Rightarrow> 'c manager \<Rightarrow> (sb_error + file_info) \<times> fsys \<times> 'c manager" where
  "UploadFile E F now req fs m =
     (case Get E now (fw_SandboxID req) m of
        (Inl e, m) \<Rightarrow> (Inl e, fs, m)
      | (Inr box, m) \<Rightarrow>
          let W = fe_os F; s = me_policy E in
          case resolveWritableSandboxPath W fs (sb_RootPath box) (fw_Path req) of
            Inl e \<Rightarrow> (Inl e, fs, m)
          | Inr target \<Rightarrow>
              (case MkdirAll W (path_parts (Dir target)) fs of
                 (Some (ps, e), fs) \<Rightarrow> (Inl (path_error ''mkdir'' (abs_path ps) e), fs, m)
               | (None, fs) \<Rightarrow>
                   (case decodeContent (fw_Content req) (fw_Encoding req) of
                      Inl e \<Rightarrow> (Inl (Message e), fs, m)
                    | Inr content \<Rightarrow>
                        if int (length content) > MaxFileSizeBytes s
                        then (Inl (max_size_error ''file'' (MaxFileSizeBytes s)), fs, m)
                        else case enforceWorkspaceByteLimitForWrite E W now box target (int (length content)) fs m of
                          (Some e, m) \<Rightarrow> (Inl e, fs, m)
                        | (None, m) \<Rightarrow>
                            (case enforceWorkspaceFileLimitForWrite s W box target fs of
                               Some e \<Rightarrow> (Inl e, fs, m)
                             | None \<Rightarrow>
                                 (case WriteFile W target content 420 fs of
                                    (Some e, fs) \<Rightarrow> (Inl (path_error ''open'' target e), fs, m)
                                  | (None, fs) \<Rightarrow>
                                      (case StatFile E F now (fw_SandboxID req) (fw_Path req) fs m of
                                         (Inl e, m) \<Rightarrow> (Inl e, fs, m)
                                       | (Inr info, m) \<Rightarrow>
                                           (Inr info, fs, record_file E now box ''files.upload'' (fw_SandboxID req) ''file uploaded''
                                             [(''path'', VString (fw_Path req)), (''size'', VInt Kint64 (fi_Size info))] m)))))))"

definition DownloadFile ::
    "'c manager_env \<Rightarrow> file_env \<Rightarrow> time \<Rightarrow> string \<Rightarrow> string \<Rightarrow> string \<Rightarrow> fsys \<Rightarrow> 'c manager \<Rightarrow> (sb_error + file_content) \<times> 'c manager" where
  "DownloadFile E F now sid relativePath encoding fs m =
     (case Get E now sid m of
        (Inl e, m) \<Rightarrow> (Inl e, m)
      | (Inr box, m) \<Rightarrow>
          (case resolveExistingSandboxPath (fe_os F) fs (sb_RootPath box) relativePath of
             Inl e \<Rightarrow> (Inl e, m)
           | Inr target \<Rightarrow>
               (case ReadFile (fe_os F) fs target of
                  Inl e \<Rightarrow> (Inl (path_error (if e = EISDIR then ''read'' else ''open'') target e), m)
                | Inr content \<Rightarrow>
                    let normalized = normalizeEncoding encoding;
                        content = (if normalized = ''base64'' then EncodeToString content else content)
                    in (Inr \<lparr>fc_SandboxID = sid, fc_Path = relativePath, fc_Content = content, fc_Encoding = normalized\<rparr>,
                        record_file E now box ''files.download'' sid ''file downloaded'' [(''path'', VString relativePath)] m))))"

definition DeleteFile ::
    "'c manager_env \<Rightarrow> file_env \<Rightarrow> time \<Rightarrow> string \<Rightarrow> string \<Rightarrow> fsys \<Rightarrow> 'c manager \<Rightarrow> sb_error option \<times> fsys \<times> 'c manager" where
  "DeleteFile E F now sid relativePath fs m =
     (case Get E now sid m of
        (Inl e, m) \<Rightarrow> (Some e, fs, m)
      | (Inr box, m) \<Rightarrow>
          if Clean (''/'' @ relativePath) = ''/'' then (Some (Message ''cannot delete sandbox root''), fs, m)
          else case resolveExistingSandboxPath (fe_os F) fs (sb_RootPath box) relativePath of
                 Inl e \<Rightarrow> (Some e, fs, m)
               | Inr target \<Rightarrow>
                   (case RemoveAll (fe_os F) target fs of
                      (Some e, fs) \<Rightarrow> (Some (path_error ''unlinkat'' target e), fs, m)
                    | (None, fs) \<Rightarrow>
                        (None, fs, record_file E now box ''files.delete'' sid ''file deleted'' [(''path'', VString relativePath)] m)))"

definition ListDirectory :: "file_env \<Rightarrow> fsys \<Rightarrow> string \<Rightarrow> sb_error + file_info list" where
  "ListDirectory F fs root =
     (case WalkDir (fe_os F) fs root of
        Inl e \<Rightarrow> Inl (path_error ''lstat'' root e)
      | Inr ns \<Rightarrow>
          Inr (map (\<lambda>(p, n).
            \<lparr>fi_Path = trim_prefix (Join (root # p)) (root @ ''/''), fi_Size = info_size F n, fi_Mode = fe_mode F n,
             fi_ModifiedAt = fe_mtime F fs (Join (root # p)), fi_IsDirectory = (n = Directory), fi_SandboxID = []\<rparr>) ns))"

definition ListFiles ::
    "'c manager_env \<Rightarrow> file_env \<Rightarrow> time \<Rightarrow> string \<Rightarrow> fsys \<Rightarrow> 'c manager \<Rightarrow> (sb_error + file_info list) \<times> 'c manager" where
  "ListFiles E F now sid fs m =
     (case Get E now sid m of
        (Inl e, m) \<Rightarrow> (Inl e, m)
      | (Inr box, m) \<Rightarrow>
          (map_sum id (map (fi_SandboxID_update (\<lambda>_. sid))) (ListDirectory F fs (sb_RootPath box)), m))"

end
