(* ===== verification/Sandbox_Commands.thy ===== *)
theory Sandbox_Commands
  imports Sandbox_Files
begin

text \<open>
  The checks on a command before it runs (\<open>executor/service.go\<close>): its environment, and that it does
  not install packages at run time. The environment is a Go map, given by the list of its entries in
  the order in which the loop meets them.
\<close>

section \<open>The environment\<close>

definition upper_byte :: "char \<Rightarrow> char" where
  "upper_byte c = (let n = of_char c :: nat in if 97 \<le> n \<and> n \<le> 122 then byte (n - 32) else c)"

text \<open>\<open>strings.ToUpper\<close> of a text in ASCII, which a valid key is.\<close>

definition to_upper :: "string \<Rightarrow> string" where
  "to_upper s = map upper_byte s"

definition key_letter :: "char \<Rightarrow> bool" where
  "key_letter c \<longleftrightarrow> (let n = of_char c :: nat in 65 \<le> n \<and> n \<le> 90 \<or> 97 \<le> n \<and> n \<le> 122 \<or> c = CHR ''_'')"

definition key_digit :: "char \<Rightarrow> bool" where
  "key_digit c \<longleftrightarrow> (let n = of_char c :: nat in 48 \<le> n \<and> n \<le> 57)"

fun validEnvKey :: "string \<Rightarrow> bool" where
  "validEnvKey [] \<longleftrightarrow> True"
| "validEnvKey (c # s) \<longleftrightarrow> key_letter c \<and> list_all (\<lambda>d. key_letter d \<or> key_digit d) s"

definition dangerousEnvKey :: "string \<Rightarrow> bool" where
  "dangerousEnvKey key \<longleftrightarrow>
     (let upper = to_upper key
      in upper \<in> {''PATH'', ''HOME'', ''IFS'', ''SHELLOPTS'', ''BASH_ENV'', ''ENV'', ''PYTHONPATH'', ''NODE_OPTIONS''}
         \<or> has_prefix upper ''LD_'' \<or> has_prefix upper ''DYLD_'')"

fun normalize_env :: "(string, string) gomap \<Rightarrow> (string, string) gomap \<Rightarrow> string + (string, string) gomap" where
  "normalize_env normalized [] = Inr normalized"
| "normalize_env normalized ((k, v) # env) =
     (let key = trim_space k
      in if key = [] then Inl ''env key is required''
         else if length key > 64 then Inl (''env key exceeds max length: '' @ key)
         else if length v > 4096 then Inl (''env value for '' @ key @ '' exceeds max length of 4096 bytes'')
         else if \<not> validEnvKey key then Inl (''invalid env key: '' @ key)
         else if dangerousEnvKey key then Inl (''env key is not allowed: '' @ key)
         else normalize_env (AList.update key v normalized) env)"

definition normalizeCommandEnv :: "(string, string) gomap \<Rightarrow> string + (string, string) gomap" where
  "normalizeCommandEnv env =
     (if length env > 32 then Inl ''env exceeds max entry count of 32'' else normalize_env [] env)"

section \<open>Words of a command\<close>

text \<open>\<open>strings.NewReplacer\<close>: from left to right, at every place the first pair that fits.\<close>

function replacer :: "(string \<times> string) list \<Rightarrow> string \<Rightarrow> string" where
  "replacer ps s =
     (if s = [] then []
      else case find (\<lambda>(old, new). old \<noteq> [] \<and> has_prefix s old) ps of
             Some (old, new) \<Rightarrow> new @ replacer ps (drop (max 1 (length old)) s)
           | None \<Rightarrow> hd s # replacer ps (tl s))"
  by pat_completeness auto
termination
  by (relation "measure (\<lambda>(ps, s). length s)") auto

declare replacer.simps [simp del]

text \<open>\<open>strings.Fields\<close>: the maximal parts without white space.\<close>

fun word_end :: "string \<Rightarrow> string \<times> string" where
  "word_end [] = ([], [])"
| "word_end (c # s) =
     (if rune_len space_runes (c # s) \<noteq> 0 then ([], c # s) else case word_end s of (w, r) \<Rightarrow> (c # w, r))"

lemma word_end_length: "length (snd (word_end s)) \<le> length s"
  by (induction s) (auto split: prod.split)

lemma word_end_progress: "s \<noteq> [] \<Longrightarrow> rune_len space_runes s = 0 \<Longrightarrow> (w, r) = word_end s \<Longrightarrow> length r < length s"
  using word_end_length [of "tl s"] by (cases s) (auto split: prod.splits)

function str_fields :: "string \<Rightarrow> string list" where
  "str_fields s =
     (if s = [] then []
      else if rune_len space_runes s \<noteq> 0 then str_fields (drop (rune_len space_runes s) s)
      else case word_end s of (w, r) \<Rightarrow> w # str_fields r)"
  by pat_completeness auto
termination
  by (relation "measure length") (auto dest: word_end_progress)

declare str_fields.simps [simp del]

definition trim_set :: "string \<Rightarrow> string \<Rightarrow> string" where
  "trim_set cutset s = rev (dropWhile (\<lambda>c. c \<in> set cutset) (rev (dropWhile (\<lambda>c. c \<in> set cutset) s)))"

definition trim_right_set :: "string \<Rightarrow> string \<Rightarrow> string" where
  "trim_right_set cutset s = rev (dropWhile (\<lambda>c. c \<in> set cutset) (rev s))"

definition cleanCommandToken :: "string \<Rightarrow> string" where
  "cleanCommandToken v = to_lower (Base (trim_right_set '','' (trim_set [byte 34, byte 39] (trim_space v))))"

definition compactTokens :: "string list \<Rightarrow> string list" where
  "compactTokens tokens = filter (\<lambda>t. t \<noteq> []) tokens"

definition commandTokens :: "string \<Rightarrow> string list \<Rightarrow> string list" where
  "commandTokens command args =
     (if args \<noteq> [] then compactTokens (cleanCommandToken command # map cleanCommandToken args)
      else compactTokens (map cleanCommandToken (str_fields
        (replacer [(''&&'', '' ''), (''||'', '' ''), ('';'', '' ''), (''|'', '' ''), ([byte 10], '' ''), ([byte 9], '' '')] command))))"

definition shellCommandSegments :: "string \<Rightarrow> string list" where
  "shellCommandSegments command =
     filter (\<lambda>p. p \<noteq> []) (map trim_space (split_on (byte 10)
       (replacer [(''&&'', [byte 10]), (''||'', [byte 10]), ('';'', [byte 10]), (''|'', [byte 10])] command)))"

fun trimShellCommandPrefix :: "string list \<Rightarrow> string list" where
  "trimShellCommandPrefix [] = []"
| "trimShellCommandPrefix (t # ts) =
     (if t = ''env'' \<or> t = ''sudo'' \<or> t = ''command'' then trimShellCommandPrefix ts
      else if str_contains t ''='' then trimShellCommandPrefix ts
      else t # ts)"

section \<open>Installing packages\<close>

record install_error =
  ie_PackageManager :: string
  ie_Action :: string
  ie_Command :: string

definition isPipCommand :: "string \<Rightarrow> bool" where
  "isPipCommand v \<longleftrightarrow> v = ''pip'' \<or> v = ''pip3'' \<or> v = ''pipx''"

definition isPythonCommand :: "string \<Rightarrow> bool" where
  "isPythonCommand v \<longleftrightarrow> v = ''python'' \<or> v = ''python3'' \<or> v = ''py''"

definition isShellCommand :: "string \<Rightarrow> bool" where
  "isShellCommand v \<longleftrightarrow> v = ''sh'' \<or> v = ''bash'' \<or> v = ''dash'' \<or> v = ''zsh''"

definition nextTokenIs :: "string list \<Rightarrow> nat \<Rightarrow> string \<Rightarrow> bool" where
  "nextTokenIs tokens index v \<longleftrightarrow> index + 1 < length tokens \<and> tokens ! (index + 1) = v"

definition nextTokenIsPip :: "string list \<Rightarrow> nat \<Rightarrow> bool" where
  "nextTokenIsPip tokens index \<longleftrightarrow> index + 1 < length tokens \<and> isPipCommand (tokens ! (index + 1))"

definition nextTokenIsAny :: "string list \<Rightarrow> nat \<Rightarrow> string list \<Rightarrow> bool" where
  "nextTokenIsAny tokens index vs \<longleftrightarrow> index + 1 < length tokens \<and> tokens ! (index + 1) \<in> set vs"

definition dependencyInstallError :: "string \<Rightarrow> string \<Rightarrow> install_error" where
  "dependencyInstallError manager action = \<lparr>ie_PackageManager = manager, ie_Action = action, ie_Command = []\<rparr>"

definition dependencyInstallMatchAt :: "string list \<Rightarrow> nat \<Rightarrow> install_error option" where
  "dependencyInstallMatchAt tokens index =
     (if index \<ge> length tokens then None
      else let t = tokens ! index; at = (\<lambda>k. tokens ! (index + k))
        in if isPipCommand t \<and> nextTokenIs tokens index ''install'' then Some (dependencyInstallError t (at 1))
           else if isPythonCommand t \<and> nextTokenIs tokens index ''-m'' \<and> nextTokenIsPip tokens (index + 1)
             \<and> nextTokenIs tokens (index + 2) ''install'' then Some (dependencyInstallError (at 2) (at 3))
           else if t = ''uv'' \<and> nextTokenIs tokens index ''pip'' \<and> nextTokenIsAny tokens (index + 1) [''install'', ''sync'']
           then Some (dependencyInstallError ''uv pip'' (at 2))
           else if t = ''npm'' \<and> nextTokenIsAny tokens index [''install'', ''i'', ''ci'', ''add''] then Some (dependencyInstallError t (at 1))
           else if t = ''pnpm'' \<and> nextTokenIsAny tokens index [''install'', ''i'', ''add''] then Some (dependencyInstallError t (at 1))
           else if t = ''yarn'' \<and> nextTokenIsAny tokens index [''install'', ''add''] then Some (dependencyInstallError t (at 1))
           else if t = ''bun'' \<and> nextTokenIsAny tokens index [''install'', ''add''] then Some (dependencyInstallError t (at 1))
           else if t = ''poetry'' \<and> nextTokenIsAny tokens index [''install'', ''add''] then Some (dependencyInstallError t (at 1))
           else None)"

definition dependencyInstallHeadMatch :: "string list \<Rightarrow> install_error option" where
  "dependencyInstallHeadMatch tokens = dependencyInstallMatchAt tokens 0"

fun first_match :: "('a \<Rightarrow> 'b option) \<Rightarrow> 'a list \<Rightarrow> 'b option" where
  "first_match f [] = None"
| "first_match f (x # xs) = (case f x of Some y \<Rightarrow> Some y | None \<Rightarrow> first_match f xs)"

definition shellDependencyInstallMatch :: "string \<Rightarrow> install_error option" where
  "shellDependencyInstallMatch command =
     first_match (\<lambda>segment. dependencyInstallHeadMatch (trimShellCommandPrefix (commandTokens segment [])))
       (shellCommandSegments command)"

fun shellArgDependencyInstallMatch :: "string list \<Rightarrow> install_error option" where
  "shellArgDependencyInstallMatch (arg # script # args) =
     (if cleanCommandToken arg = ''-c'' then shellDependencyInstallMatch script
      else shellArgDependencyInstallMatch (script # args))"
| "shellArgDependencyInstallMatch args = None"

definition rejectRuntimeDependencyInstall :: "string \<Rightarrow> string list \<Rightarrow> install_error option" where
  "rejectRuntimeDependencyInstall command args =
     map_option (ie_Command_update (\<lambda>_. trim_space command))
       (if args \<noteq> []
        then let tokens = commandTokens command args
             in if tokens \<noteq> [] \<and> isShellCommand (hd tokens) then shellArgDependencyInstallMatch args
                else dependencyInstallHeadMatch (trimShellCommandPrefix tokens)
        else shellDependencyInstallMatch command)"

section \<open>The environment is safe\<close>

text \<open>What the entries of an environment must satisfy, after the key was trimmed.\<close>

definition env_entry_ok :: "string \<Rightarrow> string \<Rightarrow> bool" where
  "env_entry_ok key v \<longleftrightarrow>
     key \<noteq> [] \<and> length key \<le> 64 \<and> length v \<le> 4096 \<and> validEnvKey key \<and> \<not> dangerousEnvKey key"

lemma normalize_env_accepts:
  "(\<exists>out. normalize_env normalized env = Inr out) \<longleftrightarrow> (\<forall>(k, v) \<in> set env. env_entry_ok (trim_space k) v)"
  by (induction normalized env rule: normalize_env.induct) (auto simp: env_entry_ok_def Let_def)

lemma normalize_env_result:
  "normalize_env normalized env = Inr out \<Longrightarrow>
     out = fold (\<lambda>(k, v). AList.update (trim_space k) v) env normalized"
  by (induction normalized env rule: normalize_env.induct) (auto simp: Let_def split: if_splits)

lemma fold_update_trimmed:
  "map_of (fold (\<lambda>(k, v). AList.update (trim_space k) v) env m) key = Some v \<Longrightarrow>
     map_of m key = Some v \<or> (\<exists>k. (k, v) \<in> set env \<and> trim_space k = key)"
  by (induction env arbitrary: m) (fastforce simp: update_conv' split: if_splits)+

lemma fold_update_dom:
  "dom (map_of (fold (\<lambda>(k, v). AList.update (trim_space k) v) env m)) = dom (map_of m) \<union> trim_space ` fst ` set env"
  by (induction env arbitrary: m) (auto simp: update_conv')

text \<open>
  the environment of a process is safe. It is accepted exactly when it has at most 32 entries and
  every entry has a valid name that does not steer the shell, the loader or the interpreters, and a
  value of bounded length; the process then gets these entries, and nothing else, under the trimmed
  names, whatever the order in which the map is traversed.
\<close>

theorem environment_safe:
  "(case normalizeCommandEnv env of
      Inl e \<Rightarrow> length env > 32 \<or> \<not> (\<forall>(k, v) \<in> set env. env_entry_ok (trim_space k) v)
    | Inr out \<Rightarrow> length env \<le> 32 \<and> dom (map_of out) = trim_space ` fst ` set env
        \<and> (\<forall>key v. map_of out key = Some v \<longrightarrow> env_entry_ok key v \<and> (\<exists>k. (k, v) \<in> set env \<and> trim_space k = key)))"
proof (cases "normalizeCommandEnv env")
  case (Inl e)
  with normalize_env_accepts [of "[]" env] show ?thesis by (auto simp: normalizeCommandEnv_def split: if_splits)
next
  case (Inr out)
  then have run: "normalize_env [] env = Inr out" and len: "length env \<le> 32"
    by (simp_all add: normalizeCommandEnv_def split: if_splits)
  from run normalize_env_accepts have ok: "\<forall>(k, v) \<in> set env. env_entry_ok (trim_space k) v" by blast
  note out = normalize_env_result [OF run]
  have "env_entry_ok key v \<and> (\<exists>k. (k, v) \<in> set env \<and> trim_space k = key)" if "map_of out key = Some v" for key v
    using fold_update_trimmed [OF that [unfolded out]] ok by auto
  moreover have "dom (map_of out) = trim_space ` fst ` set env" using fold_update_dom [of env "[]"] out by simp
  ultimately show ?thesis using Inr len by simp
qed

text \<open>The names that reach a process are none of the dangerous ones, in any case of letters.\<close>

lemma dangerous_names:
  "dangerousEnvKey ''PATH''" "dangerousEnvKey ''ld_preload''" "dangerousEnvKey ''Node_Options''" "\<not> dangerousEnvKey ''LANG''"
  by code_simp+

end
