(* ===== verification/Sandbox_Installs.thy ===== *)
theory Sandbox_Installs
  imports Sandbox_Commands
begin

text \<open>
  The check for the installation of packages is exact on command lines that are written in plain
  words, whatever separates their commands; and how lines that are not slip through.
\<close>

section \<open>Plain words\<close>

definition plain_char :: "char \<Rightarrow> bool" where
  "plain_char c \<longleftrightarrow> graphic c \<and> lower_ascii c \<and> c \<notin> set '';|&,/'' \<and> c \<noteq> byte 34 \<and> c \<noteq> byte 39"

definition plain_word :: "string \<Rightarrow> bool" where
  "plain_word w \<longleftrightarrow> w \<noteq> [] \<and> (\<forall>c \<in> set w. plain_char c)"

abbreviation line :: "string list \<Rightarrow> string" where
  "line ws \<equiv> join_with '' '' ws"

lemma plain_graphic: "plain_char c \<Longrightarrow> graphic c"
  by (simp add: plain_char_def)

lemma no_rune_graphic: "graphic c \<Longrightarrow> no_rune space_runes (c # s)" "graphic c \<Longrightarrow> no_rune (map rev space_runes) (c # s)"
proof -
  assume c: "graphic c"
  have "take (length q) (c # s) \<noteq> q" if "q \<in> set space_runes \<union> set (map rev space_runes)" for q
  proof
    assume "take (length q) (c # s) = q"
    moreover have "q \<noteq> [] \<and> (\<forall>d \<in> set q. \<not> graphic d)" using that space_not_graphic by auto
    ultimately show False using c by (cases q) auto
  qed
  then show "no_rune space_runes (c # s)" "no_rune (map rev space_runes) (c # s)" unfolding no_rune_def by blast+
qed

lemma rune_len_graphic [simp]: "graphic c \<Longrightarrow> rune_len space_runes (c # s) = 0"
  by (simp add: rune_len_eq_0 space_runes_nonempty no_rune_graphic)

lemma byte_blank: "n < 256 \<Longrightarrow> CHR '' '' = byte n \<longleftrightarrow> n = 32" "n < 256 \<Longrightarrow> byte n = CHR '' '' \<longleftrightarrow> n = 32"
proof -
  assume n: "n < 256"
  have "byte n = CHR '' '' \<longleftrightarrow> (of_char (byte n) :: nat) = of_char (CHR '' '')" by (simp only: of_char_eq_iff)
  with n show "CHR '' '' = byte n \<longleftrightarrow> n = 32" "byte n = CHR '' '' \<longleftrightarrow> n = 32"
    by (auto simp: of_char_byte)
qed

lemma rune_len_blank [simp]: "rune_len space_runes (CHR '' '' # s) = 1" "rune_len (map rev space_runes) (CHR '' '' # s) = 1"
  by (simp_all add: rune_len_def space_runes_def byte_blank take_Cons' del: char_of_eq_iff)

lemma fields_blank [simp]: "str_fields (CHR '' '' # s) = str_fields s"
  by (subst str_fields.simps) simp

lemma word_end_plain:
  "\<forall>c \<in> set w. graphic c \<Longrightarrow> word_end (w @ CHR '' '' # s) = (w, CHR '' '' # s) \<and> word_end w = (w, [])"
  by (induction w) simp_all

lemma fields_line: "\<forall>w \<in> set ws. w \<noteq> [] \<and> (\<forall>c \<in> set w. graphic c) \<Longrightarrow> str_fields (line ws) = ws"
proof (induction "'' ''" ws rule: join_with.induct)
  case 1
  then show ?case by (simp add: str_fields.simps)
next
  case (2 w)
  then obtain c w' where "w = c # w'" "graphic c" by (cases w) (auto simp: plain_word_def plain_char_def)
  with 2 word_end_plain [of w] show ?case
    by (subst str_fields.simps) (auto simp: str_fields.simps [of "[]"])
next
  case (3 w v ws)
  then obtain c w' where "w = c # w'" "graphic c" by (cases w) (auto simp: plain_word_def plain_char_def)
  with 3 word_end_plain [of w "line (v # ws)"] show ?case
    by (subst str_fields.simps) (auto simp: plain_word_def plain_char_def)
qed

lemma keep_plain:
  assumes "plain_word w" and "set cutset \<inter> set w = {}"
  shows "trim_set cutset w = w" and "trim_right_set cutset w = w"
proof -
  have "dropWhile (\<lambda>c. c \<in> set cutset) w = w" "dropWhile (\<lambda>c. c \<in> set cutset) (rev w) = rev w"
    using assms by (auto simp: plain_word_def dropWhile_eq_self_iff hd_rev dest: hd_in_set last_in_set)
  then show "trim_set cutset w = w" and "trim_right_set cutset w = w" by (simp_all add: trim_set_def trim_right_set_def)
qed

lemma clean_plain:
  assumes w: "plain_word w"
  shows "cleanCommandToken w = w"
proof -
  have 1: "trim_space w = w" "to_lower w = w"
    using w by (auto simp: plain_word_def plain_char_def intro: graphic_trim_space lower_ascii_to_lower)
  have no: "byte 34 \<notin> set w" "byte 39 \<notin> set w" "CHR '','' \<notin> set w" "slash \<notin> set w"
    using w by (auto simp: plain_word_def plain_char_def)
  then have 2: "trim_set [byte 34, byte 39] w = w" "trim_right_set '','' w = w" and 3: "trim_right_set ''/'' w = w"
    by (auto intro!: keep_plain [OF w])
  have "takeWhile (\<lambda>c. c \<noteq> slash) (rev w) = rev w" using no by (subst takeWhile_eq_all_conv) auto
  then have "rev (takeWhile (\<lambda>c. c \<noteq> slash) (rev w)) = w" by (rule arg_cong [where f = rev, THEN trans]) simp
  moreover have "w \<noteq> []" using w by (simp add: plain_word_def)
  moreover have "rev (dropWhile (\<lambda>c. c = slash) (rev w)) = w" using 3 by (simp only: trim_right_set_def list.set insert_iff empty_iff simp_thms)
  ultimately have "Base w = w" unfolding Base_def Let_def by (simp only: if_False)
  with 1 2 show ?thesis by (simp add: cleanCommandToken_def)
qed

section \<open>Command lines\<close>

lemma replacer_Nil [simp]: "replacer ps [] = []"
  by (simp add: replacer.simps)

lemma replacer_keep:
  "\<forall>c \<in> set w. \<forall>(old, new) \<in> set ps. old \<noteq> [] \<longrightarrow> hd old \<noteq> c \<Longrightarrow> replacer ps (w @ s) = w @ replacer ps s"
proof (induction w)
  case (Cons c w)
  have "find (\<lambda>(old, new). old \<noteq> [] \<and> has_prefix (c # w @ s) old) ps = None"
    using Cons.prems by (fastforce simp: find_None_iff has_prefix_def neq_Nil_conv)
  with Cons show ?case by (subst append_Cons, subst replacer.simps) simp
qed simp

lemma line_chars: "\<forall>w \<in> set ws. plain_word w \<Longrightarrow> c \<in> set (line ws) \<Longrightarrow> c = CHR '' '' \<or> plain_char c"
  by (induction "'' ''" ws rule: join_with.induct) (auto simp: plain_word_def)

lemma line_ends:
  "\<forall>w \<in> set ws. plain_word w \<Longrightarrow> ws \<noteq> [] \<Longrightarrow> line ws \<noteq> [] \<and> plain_char (hd (line ws)) \<and> plain_char (last (line ws))"
  by (induction "'' ''" ws rule: join_with.induct) (auto simp: plain_word_def)

lemma plain_char_not: "plain_char c \<Longrightarrow> c \<notin> {CHR '';'', CHR ''|'', CHR ''&'', byte 10, byte 9}"
  by (auto simp: plain_char_def graphic_def of_char_byte)

lemma commandTokens_line: "\<forall>w \<in> set ws. plain_word w \<Longrightarrow> commandTokens (line ws) [] = ws"
proof -
  assume ws: "\<forall>w \<in> set ws. plain_word w"
  have "c \<notin> {CHR '';'', CHR ''|'', CHR ''&'', byte 10, byte 9}" if "c \<in> set (line ws)" for c
    using line_chars [OF ws that] plain_char_not byte_blank by fastforce
  then have "replacer [(''&&'', '' ''), (''||'', '' ''), ('';'', '' ''), (''|'', '' ''), ([byte 10], '' ''), ([byte 9], '' '')] (line ws @ [])
      = line ws @ []"
    by (subst replacer_keep) auto
  moreover have "map cleanCommandToken ws = ws" using ws clean_plain by (intro map_idI) auto
  moreover have "filter (\<lambda>t. t \<noteq> []) ws = ws" using ws by (auto simp: plain_word_def)
  ultimately show ?thesis using fields_line [of ws] ws plain_word_def plain_graphic by (simp add: commandTokens_def compactTokens_def)
qed

lemma trim_left_blanks [simp]:
  "trim_left space_runes (replicate a (CHR '' '') @ s) = trim_left space_runes s"
  "trim_left (map rev space_runes) (replicate a (CHR '' '') @ s) = trim_left (map rev space_runes) s"
  by (induction a) (simp_all add: trim_left.simps [of _ "CHR '' '' # _"])

lemma trim_blanks:
  assumes "x \<noteq> []" and "graphic (hd x)" and "graphic (last x)"
  shows "trim_space (replicate a (CHR '' '') @ x @ replicate b (CHR '' '')) = x"
proof -
  obtain c y where x: "x = c # y" using assms(1) by (cases x) auto
  have "rev x = last x # rev (butlast x)" using assms(1) by (cases x rule: rev_cases) auto
  then have "trim_left (map rev space_runes) (rev x) = rev x"
    using assms(3) no_rune_graphic(2) space_runes_nonempty by (metis trim_left_id)
  moreover have "trim_left space_runes (x @ replicate b (CHR '' '')) = x @ replicate b (CHR '' '')"
    using assms(2) x no_rune_graphic(1) space_runes_nonempty by (simp add: trim_left_id)
  ultimately show ?thesis by (simp add: trim_space_def)
qed

text \<open>Commands that are separated by one operator, with blanks around it.\<close>

definition padded :: "nat \<Rightarrow> nat \<Rightarrow> string list \<Rightarrow> string" where
  "padded a b ws = replicate a (CHR '' '') @ line ws @ replicate b (CHR '' '')"

definition script :: "string \<Rightarrow> nat \<Rightarrow> nat \<Rightarrow> string list list \<Rightarrow> string" where
  "script op a b segs = join_with op (map (padded a b) segs)"

abbreviation shell_ops :: "string set" where
  "shell_ops \<equiv> {''&&'', ''||'', '';'', ''|'', [byte 10]}"

abbreviation op_table :: "(string \<times> string) list" where
  "op_table \<equiv> [(''&&'', [byte 10]), (''||'', [byte 10]), ('';'', [byte 10]), (''|'', [byte 10])]"

lemma replacer_op:
  assumes "op \<in> shell_ops" and "s = [] \<or> hd s \<noteq> CHR ''|''"
  shows "replacer op_table (op @ s) = byte 10 # replacer op_table s"
proof -
  have "replacer op_table ([byte 10] @ s) = [byte 10] @ replacer op_table s"
  proof (rule replacer_keep)
    have "byte 10 \<notin> {CHR ''&'', CHR ''|'', CHR '';''}" by code_simp
    then show "\<forall>c \<in> set [byte 10]. \<forall>(old, new) \<in> set op_table. old \<noteq> [] \<longrightarrow> hd old \<noteq> c" by auto
  qed
  with assms show ?thesis
    by (cases s) (auto simp: replacer.simps [of _ "_ # _"] has_prefix_def)
qed

lemma replacer_script:
  assumes "op \<in> shell_ops" and "\<forall>x \<in> set xs. x \<noteq> [] \<and> set x \<inter> {CHR '';'', CHR ''|'', CHR ''&''} = {}"
  shows "replacer op_table (join_with op xs) = join_with [byte 10] xs"
  using assms
proof (induction op xs rule: join_with.induct)
  case (2 sep x)
  then show ?case using replacer_keep [of x op_table "[]"] by auto
next
  case (3 sep x y zs)
  have keep: "replacer op_table (x @ s) = x @ replacer op_table s" for s using 3(3) by (intro replacer_keep) auto
  have "join_with sep (y # zs) = [] \<or> hd (join_with sep (y # zs)) \<noteq> CHR ''|''"
    using 3(3) by (cases zs; cases y) auto
  from replacer_op [OF 3(2) this] keep 3 show ?case by simp
qed simp

lemma shellCommandSegments_script:
  assumes "op \<in> shell_ops" and "\<forall>ws \<in> set segs. ws \<noteq> [] \<and> (\<forall>w \<in> set ws. plain_word w)"
  shows "shellCommandSegments (script op a b segs) = map line segs"
proof -
  have pad: "padded a b ws \<noteq> []" "c \<in> set (padded a b ws) \<Longrightarrow> c = CHR '' '' \<or> plain_char c" "trim_space (padded a b ws) = line ws"
      "line ws \<noteq> []" if "ws \<in> set segs" for ws c
  proof -
    have ws: "ws \<noteq> []" "\<forall>w \<in> set ws. plain_word w" using assms(2) that by auto
    note ends = line_ends [OF ws(2,1)]
    show "padded a b ws \<noteq> []" "line ws \<noteq> []" using ends by (simp_all add: padded_def)
    show "c \<in> set (padded a b ws) \<Longrightarrow> c = CHR '' '' \<or> plain_char c" using line_chars [OF ws(2)] by (auto simp: padded_def)
    show "trim_space (padded a b ws) = line ws"
      using trim_blanks ends plain_graphic unfolding padded_def by blast
  qed
  have no: "c \<notin> {CHR '';'', CHR ''|'', CHR ''&'', byte 10}" if "ws \<in> set segs" "c \<in> set (padded a b ws)" for ws c
    using pad(2) [OF that] plain_char_not [of c] byte_blank by fastforce
  have "replacer op_table (script op a b segs) = join_with [byte 10] (map (padded a b) segs)"
    unfolding script_def using pad(1) no by (intro replacer_script [OF assms(1)]) fastforce
  moreover have "map trim_space (split_on (byte 10) (join_with [byte 10] (map (padded a b) segs))) = (if segs = [] then [[]] else map line segs)"
  proof (cases "segs = []")
    case False
    then have "split_on (byte 10) (join_with [byte 10] (map (padded a b) segs)) = map (padded a b) segs"
      using no by (intro split_on_join) fastforce+
    then show ?thesis using False pad(3) by simp
  qed simp
  ultimately show ?thesis using pad(4) by (auto simp: shellCommandSegments_def filter_id_conv)
qed

section \<open>Installers\<close>

definition command_prefix :: "string \<Rightarrow> bool" where
  "command_prefix w \<longleftrightarrow> w \<in> {''env'', ''sudo'', ''command''} \<or> str_contains w ''=''"

definition install_actions :: "(string \<times> string list) list" where
  "install_actions =
     [(''pip'', [''install'']), (''pip3'', [''install'']), (''pipx'', [''install'']),
      (''npm'', [''install'', ''i'', ''ci'', ''add'']), (''pnpm'', [''install'', ''i'', ''add'']),
      (''yarn'', [''install'', ''add'']), (''bun'', [''install'', ''add'']), (''poetry'', [''install'', ''add''])]"

inductive installer :: "string list \<Rightarrow> bool" where
  manager: "(m, actions) \<in> set install_actions \<Longrightarrow> a \<in> set actions \<Longrightarrow> installer (m # a # ws)"
| python_module: "py \<in> {''python'', ''python3'', ''py''} \<Longrightarrow> m \<in> {''pip'', ''pip3'', ''pipx''} \<Longrightarrow>
    installer (py # ''-m'' # m # ''install'' # ws)"
| uv: "a \<in> {''install'', ''sync''} \<Longrightarrow> installer (''uv'' # ''pip'' # a # ws)"

lemma trimShellCommandPrefix_dropWhile: "trimShellCommandPrefix ts = dropWhile command_prefix ts"
  by (induction ts) (auto simp: command_prefix_def)

inductive_simps installer_simps: "installer []" "installer [t]" "installer (t # a # ws)"

lemma installer_unfold:
  "installer (t # a # ws) \<longleftrightarrow>
     isPipCommand t \<and> a = ''install''
     \<or> isPythonCommand t \<and> a = ''-m'' \<and> (\<exists>m rest. ws = m # ''install'' # rest \<and> isPipCommand m)
     \<or> t = ''uv'' \<and> a = ''pip'' \<and> (\<exists>b rest. ws = b # rest \<and> b \<in> {''install'', ''sync''})
     \<or> t = ''npm'' \<and> a \<in> {''install'', ''i'', ''ci'', ''add''} \<or> t = ''pnpm'' \<and> a \<in> {''install'', ''i'', ''add''}
     \<or> t = ''yarn'' \<and> a \<in> {''install'', ''add''} \<or> t = ''bun'' \<and> a \<in> {''install'', ''add''}
     \<or> t = ''poetry'' \<and> a \<in> {''install'', ''add''}"
proof -
  have "(\<exists>actions. (t, actions) \<in> set install_actions \<and> a \<in> set actions) \<longleftrightarrow>
     isPipCommand t \<and> a = ''install''
     \<or> t = ''npm'' \<and> a \<in> {''install'', ''i'', ''ci'', ''add''} \<or> t = ''pnpm'' \<and> a \<in> {''install'', ''i'', ''add''}
     \<or> t = ''yarn'' \<and> a \<in> {''install'', ''add''} \<or> t = ''bun'' \<and> a \<in> {''install'', ''add''}
     \<or> t = ''poetry'' \<and> a \<in> {''install'', ''add''}"
    unfolding install_actions_def isPipCommand_def
    by (simp only: list.set insert_iff empty_iff prod.inject conj_disj_distribR conj_disj_distribL ex_disj_distrib conj_assoc
        ex_simps simp_thms disj_assoc)
  moreover have "(\<exists>m. (\<exists>rest. ws = m # ''install'' # rest) \<and> (t = ''python'' \<or> t = ''python3'' \<or> t = ''py'')
        \<and> (m = ''pip'' \<or> m = ''pip3'' \<or> m = ''pipx'')) \<longleftrightarrow>
      isPythonCommand t \<and> (\<exists>m rest. ws = m # ''install'' # rest \<and> isPipCommand m)"
    unfolding isPipCommand_def isPythonCommand_def by blast
  moreover have "(\<exists>a. (\<exists>rest. ws = a # rest) \<and> (a = ''install'' \<or> a = ''sync'')) \<longleftrightarrow>
      (\<exists>b rest. ws = b # rest \<and> b \<in> {''install'', ''sync''})" by blast
  ultimately show ?thesis unfolding installer_simps by argo
qed

lemma if_Some_None: "(if c then Some x else y) \<noteq> None \<longleftrightarrow> c \<or> y \<noteq> None"
  by simp

lemma next_token_simps:
  "nextTokenIs (t # ts) 0 v \<longleftrightarrow> (\<exists>ws. ts = v # ws)" "nextTokenIs (t # ts) (Suc i) v \<longleftrightarrow> nextTokenIs ts i v" "\<not> nextTokenIs [] i v"
  "nextTokenIsPip (t # ts) 0 \<longleftrightarrow> (\<exists>m ws. ts = m # ws \<and> isPipCommand m)" "nextTokenIsPip (t # ts) (Suc i) \<longleftrightarrow> nextTokenIsPip ts i"
  "nextTokenIsAny (t # ts) 0 vs \<longleftrightarrow> (\<exists>v ws. ts = v # ws \<and> v \<in> set vs)" "nextTokenIsAny (t # ts) (Suc i) vs \<longleftrightarrow> nextTokenIsAny ts i vs"
  by (cases ts; auto simp: nextTokenIs_def nextTokenIsPip_def nextTokenIsAny_def)+

lemma head_match_installer: "dependencyInstallHeadMatch ts \<noteq> None \<longleftrightarrow> installer ts"
proof -
  consider "ts = []" | t where "ts = [t]" | t a ws where "ts = t # a # ws" by (metis list.exhaust)
  then show ?thesis
  proof cases
    case 3
    have "dependencyInstallHeadMatch (t # a # ws) \<noteq> None \<longleftrightarrow> installer (t # a # ws)"
    proof -
      have "(0 \<ge> length (t # a # ws)) = False" and "(t # a # ws) ! 0 = t" by simp_all
      moreover have "nextTokenIs (t # a # ws) 0 v \<longleftrightarrow> a = v" "nextTokenIsAny (t # a # ws) 0 vs \<longleftrightarrow> a \<in> set vs"
          "nextTokenIsPip (t # a # ws) (0 + 1) \<and> nextTokenIs (t # a # ws) (0 + 2) ''install'' \<longleftrightarrow> (\<exists>m rest. ws = m # ''install'' # rest \<and> isPipCommand m)"
          "nextTokenIsAny (t # a # ws) (0 + 1) [''install'', ''sync''] \<longleftrightarrow> (\<exists>b rest. ws = b # rest \<and> b \<in> {''install'', ''sync''})" for v vs
        by (cases ws; auto simp: next_token_simps numeral_2_eq_2)+
      ultimately show ?thesis
        unfolding installer_unfold dependencyInstallHeadMatch_def dependencyInstallMatchAt_def Let_def
        by (simp only: if_False if_Some_None list.set insert_iff empty_iff simp_thms conj_assoc disj_assoc)
    qed
    with 3 show ?thesis by simp
  qed (simp_all add: dependencyInstallHeadMatch_def dependencyInstallMatchAt_def next_token_simps installer_simps Let_def)
qed

lemma first_match_None: "first_match f xs = None \<longleftrightarrow> (\<forall>x \<in> set xs. f x = None)"
  by (induction xs) (auto split: option.splits)

lemma shell_match_script:
  assumes "op \<in> shell_ops" and "\<forall>ws \<in> set segs. ws \<noteq> [] \<and> (\<forall>w \<in> set ws. plain_word w)"
  shows "shellDependencyInstallMatch (script op a b segs) \<noteq> None \<longleftrightarrow> (\<exists>ws \<in> set segs. installer (dropWhile command_prefix ws))"
  using shellCommandSegments_script [OF assms] assms(2) commandTokens_line head_match_installer
  by (force simp: shellDependencyInstallMatch_def first_match_None trimShellCommandPrefix_dropWhile)

text \<open>
  the check for installations is exact on plain commands. A line of commands in plain words,
  joined by any operator with any blanks, is refused exactly when one of its commands, after
  assignments and the words env, sudo and command, starts an installation of packages; and so is a
  command with arguments, also as the script of a shell.
\<close>

theorem installs_refused:
  assumes "op \<in> shell_ops" and "\<forall>ws \<in> set segs. ws \<noteq> [] \<and> (\<forall>w \<in> set ws. plain_word w)"
    and "\<forall>w \<in> set (cmd # args). plain_word w" and "args \<noteq> []" and "\<not> isShellCommand cmd" and "isShellCommand sh"
  shows "(rejectRuntimeDependencyInstall (script op a b segs) [] \<noteq> None \<longleftrightarrow> (\<exists>ws \<in> set segs. installer (dropWhile command_prefix ws)))
    \<and> (rejectRuntimeDependencyInstall sh [''-c'', script op a b segs] \<noteq> None \<longleftrightarrow> (\<exists>ws \<in> set segs. installer (dropWhile command_prefix ws)))
    \<and> (rejectRuntimeDependencyInstall cmd args \<noteq> None \<longleftrightarrow> installer (dropWhile command_prefix (cmd # args)))"
proof -
  note match = shell_match_script [OF assms(1,2), of a b]
  have flag: "cleanCommandToken ''-c'' = ''-c''"
    by (rule clean_plain) (simp add: plain_word_def plain_char_def graphic_def lower_ascii_def byte_def, code_simp)
  have "plain_word sh"
    using assms(6) by (auto simp: isShellCommand_def plain_word_def plain_char_def graphic_def lower_ascii_def; code_simp)
  then have "commandTokens sh (''-c'' # x) = sh # ''-c'' # compactTokens (map cleanCommandToken x)" for x
    using clean_plain flag by (auto simp: commandTokens_def compactTokens_def plain_word_def)
  then have "rejectRuntimeDependencyInstall sh [''-c'', x] \<noteq> None \<longleftrightarrow> shellDependencyInstallMatch x \<noteq> None" for x
    using assms(6) flag by (simp add: rejectRuntimeDependencyInstall_def Let_def)
  moreover have "commandTokens cmd args = cmd # args"
    using assms(3,4) clean_plain by (auto simp: commandTokens_def compactTokens_def plain_word_def filter_id_conv intro!: map_idI)
  ultimately show ?thesis
    using match assms(4,5) head_match_installer
    by (simp add: rejectRuntimeDependencyInstall_def Let_def trimShellCommandPrefix_dropWhile)
qed

lemma single_line:
  assumes "ws \<noteq> []" and "\<forall>w \<in> set ws. w \<noteq> [] \<and> (\<forall>c \<in> set w. graphic c \<and> c \<notin> {CHR '';'', CHR ''|'', CHR ''&''})"
  shows "shellDependencyInstallMatch (line ws) = dependencyInstallHeadMatch (trimShellCommandPrefix (compactTokens (map cleanCommandToken ws)))"
proof -
  have chars: "c = CHR '' '' \<or> graphic c \<and> c \<notin> {CHR '';'', CHR ''|'', CHR ''&''}" if "c \<in> set (line ws)" for c
    using assms(2) that by (induction "'' ''" ws rule: join_with.induct) auto
  then have no: "c \<notin> {CHR '';'', CHR ''|'', CHR ''&'', byte 10, byte 9}" if "c \<in> set (line ws)" for c
    using that byte_blank by (fastforce simp: graphic_def of_char_byte)
  have ends: "line ws \<noteq> []" "graphic (hd (line ws))" "graphic (last (line ws))"
    using assms by (induction "'' ''" ws rule: join_with.induct) auto
  have "replacer op_table (line ws @ []) = line ws @ []" using no by (intro trans [OF replacer_keep]) auto
  moreover have "split_on (byte 10) (line ws) = [line ws]" using no by (intro split_on_single) auto
  moreover have "trim_space (line ws) = line ws" using trim_blanks [OF ends, of 0 0] by simp
  ultimately have "shellCommandSegments (line ws) = [line ws]" using ends(1) by (simp add: shellCommandSegments_def)
  moreover have "replacer [(''&&'', '' ''), (''||'', '' ''), ('';'', '' ''), (''|'', '' ''), ([byte 10], '' ''), ([byte 9], '' '')] (line ws @ [])
      = line ws @ []"
    using no by (intro trans [OF replacer_keep]) auto
  moreover have "str_fields (line ws) = ws" using assms(2) by (intro fields_line) auto
  ultimately show ?thesis by (simp add: shellDependencyInstallMatch_def commandTokens_def split: option.split)
qed

lemma path_token: "cleanCommandToken ''A=/b'' = ''b''" "cleanCommandToken ''-lc'' = ''-lc''" "cleanCommandToken ''A=b'' = ''a=b''"
proof -
  have 1: "trim_space ''A=/b'' = ''A=/b''" "trim_space ''-lc'' = ''-lc''" "trim_space ''A=b'' = ''A=b''"
    by (simp_all add: graphic_trim_space graphic_def)
  have 2: "Base (trim_right_set '','' (trim_set [byte 34, byte 39] ''A=/b'')) = ''b''"
    "Base (trim_right_set '','' (trim_set [byte 34, byte 39] ''-lc'')) = ''-lc''"
    "Base (trim_right_set '','' (trim_set [byte 34, byte 39] ''A=b'')) = ''A=b''" by code_simp+
  have "to_lower ''b'' = ''b''" "to_lower ''-lc'' = ''-lc''" "to_lower ''A=b'' = ''a=b''" by code_simp+
  with 1 2 show "cleanCommandToken ''A=/b'' = ''b''" "cleanCommandToken ''-lc'' = ''-lc''" "cleanCommandToken ''A=b'' = ''a=b''"
    by (simp_all only: cleanCommandToken_def)
qed

text \<open>
  installations that slip through. An assignment whose value is a path is not recognised as one,
  because the part before the last slash is cut off first, so the command behind it is not looked
  at; and a shell with combined flags is not searched for a script.
\<close>

theorem install_check_bypassed:
  "rejectRuntimeDependencyInstall ''A=/b pip install x'' [] = None
    \<and> rejectRuntimeDependencyInstall ''A=b pip install x'' [] \<noteq> None
    \<and> rejectRuntimeDependencyInstall ''bash'' [''-lc'', ''pip install x''] = None"
proof -
  have shape: "''A=/b pip install x'' = line [''A=/b'', ''pip'', ''install'', ''x'']" "''A=b pip install x'' = line [''A=b'', ''pip'', ''install'', ''x'']"
    by simp_all
  have words: "\<forall>w \<in> set [''A=/b'', ''A=b'', ''pip'', ''install'', ''x'']. w \<noteq> [] \<and> (\<forall>c \<in> set w. graphic c \<and> c \<notin> {CHR '';'', CHR ''|'', CHR ''&''})"
    by (simp add: graphic_def)
  have plain: "plain_word ''pip''" "plain_word ''install''" "plain_word ''x''" "plain_word ''bash''" by code_simp+
  have "shellDependencyInstallMatch ''A=/b pip install x'' = None" "shellDependencyInstallMatch ''A=b pip install x'' \<noteq> None"
    unfolding shape using words
    by (subst single_line; simp add: path_token plain clean_plain compactTokens_def dependencyInstallHeadMatch_def
        dependencyInstallMatchAt_def nextTokenIs_def isPipCommand_def isPythonCommand_def has_prefix_def Let_def)+
  then show ?thesis
    by (simp add: rejectRuntimeDependencyInstall_def commandTokens_def compactTokens_def plain clean_plain isShellCommand_def path_token)
qed

end
