(* ===== verification/Sandbox_Templates.thy ===== *)
theory Sandbox_Templates
  imports Sandbox_Files
begin

text \<open>
  The checks on a template before it is rendered (\<open>executor/service.go\<close>): the functions it calls,
  the size of its variables, and the writer that cuts its output. The tree of a template is the one
  of Go's \<open>text/template/parse\<close>; a function that dereferences a nil pointer is \<open>Panic\<close>.
\<close>

section \<open>Helpers\<close>

text \<open>
  The nodes of a parsed template. A branch without \<open>else\<close> has a nil pointer for its third part.
  \<open>Chain\<close> is a field of an expression in parentheses, \<open>Leaf\<close> any node without parts.
\<close>

datatype template_node =
    ListNode "template_node list"
  | ActionNode template_node
  | IfNode template_node template_node "template_node option"
  | RangeNode template_node template_node "template_node option"
  | WithNode template_node template_node "template_node option"
  | PipeNode "template_node list"
  | CommandNode "template_node list"
  | IdentifierNode string
  | TemplateNode string
  | ChainNode template_node
  | Leaf

definition templateHelperAllowed :: "string \<Rightarrow> bool" where
  "templateHelperAllowed name \<longleftrightarrow> name \<in> {''upper'', ''lower'', ''title'', ''default''}"

text \<open>Checks in a row: the first error or panic ends them.\<close>

fun and_then :: "string option go \<Rightarrow> string option go \<Rightarrow> string option go" where
  "and_then Panic y = Panic"
| "and_then (Ret (Some e)) y = Ret (Some e)"
| "and_then (Ret None) y = y"

text \<open>A nil pointer to a list of nodes is not the nil interface, so its field is read.\<close>

fun validateTemplateHelpers :: "template_node \<Rightarrow> string option go"
  and validate_nodes :: "template_node list \<Rightarrow> string option go"
  and validate_else :: "template_node option \<Rightarrow> string option go" where
  "validateTemplateHelpers (ListNode ns) = validate_nodes ns"
| "validateTemplateHelpers (ActionNode pipe) = validateTemplateHelpers pipe"
| "validateTemplateHelpers (IfNode pipe body els) =
     and_then (validateTemplateHelpers pipe) (and_then (validateTemplateHelpers body) (validate_else els))"
| "validateTemplateHelpers (RangeNode pipe body els) =
     and_then (validateTemplateHelpers pipe) (and_then (validateTemplateHelpers body) (validate_else els))"
| "validateTemplateHelpers (WithNode pipe body els) =
     and_then (validateTemplateHelpers pipe) (and_then (validateTemplateHelpers body) (validate_else els))"
| "validateTemplateHelpers (PipeNode cmds) = validate_nodes cmds"
| "validateTemplateHelpers (CommandNode args) = validate_nodes args"
| "validateTemplateHelpers (IdentifierNode i) =
     Ret (if templateHelperAllowed i then None else Some (''template helper is not allowed: '' @ i))"
| "validateTemplateHelpers (TemplateNode name) = Ret (Some ''nested template execution is not allowed'')"
| "validateTemplateHelpers (ChainNode n) = Ret None"
| "validateTemplateHelpers Leaf = Ret None"
| "validate_nodes [] = Ret None"
| "validate_nodes (n # ns) = and_then (validateTemplateHelpers n) (validate_nodes ns)"
| "validate_else None = Panic"
| "validate_else (Some n) = validateTemplateHelpers n"

section \<open>Variables\<close>

fun validateTemplateValue :: "template_limits \<Rightarrow> goval \<Rightarrow> int \<Rightarrow> int \<Rightarrow> string + int"
  and validate_items :: "template_limits \<Rightarrow> goval list \<Rightarrow> int \<Rightarrow> int \<Rightarrow> string + int"
  and validate_fields :: "template_limits \<Rightarrow> (string \<times> goval) list \<Rightarrow> int \<Rightarrow> int \<Rightarrow> string + int" where
  "validateTemplateValue lim v depth count =
     (if depth > tl_MaxVariableDepth lim
      then Inl (''template variables exceed max depth of '' @ show_int (tl_MaxVariableDepth lim))
      else case v of
        VMap d \<Rightarrow>
          if count + int (length d) > tl_MaxVariableCount lim
          then Inl (''template variables exceed max count of '' @ show_int (tl_MaxVariableCount lim))
          else validate_fields lim d (depth + 1) (count + int (length d))
      | VList vs \<Rightarrow>
          if count + int (length vs) > tl_MaxVariableCount lim
          then Inl (''template variables exceed max count of '' @ show_int (tl_MaxVariableCount lim))
          else validate_items lim vs (depth + 1) (count + int (length vs))
      | VString t \<Rightarrow>
          if int (length t) > tl_MaxVariableStringBytes lim
          then Inl (''template variable string exceeds max size of '' @ show_int (tl_MaxVariableStringBytes lim) @ '' bytes'')
          else Inr count
      | _ \<Rightarrow> Inr count)"
| "validate_items lim [] depth count = Inr count"
| "validate_items lim (v # vs) depth count =
     (case validateTemplateValue lim v depth count of
        Inl e \<Rightarrow> Inl e | Inr count \<Rightarrow> validate_items lim vs depth count)"
| "validate_fields lim [] depth count = Inr count"
| "validate_fields lim ((k, v) # d) depth count =
     (case validateTemplateValue lim v depth count of
        Inl e \<Rightarrow> Inl e | Inr count \<Rightarrow> validate_fields lim d depth count)"

definition validateTemplateVariables :: "template_limits \<Rightarrow> dict \<Rightarrow> string option" where
  "validateTemplateVariables lim variables =
     (case validateTemplateValue lim (VMap variables) 0 0 of Inl e \<Rightarrow> Some e | Inr count \<Rightarrow> None)"

section \<open>Output\<close>

record template_writer =
  tw_content :: string
  tw_remaining :: int
  tw_truncated :: bool

datatype write_error = Expired string | Truncated

definition template_Write :: "string option \<Rightarrow> template_writer \<Rightarrow> string \<Rightarrow> write_error option \<times> template_writer" where
  "template_Write ctx w data =
     (case ctx of
        Some e \<Rightarrow> (Some (Expired e), w)
      | None \<Rightarrow>
          if tw_remaining w \<le> 0 then (Some Truncated, w\<lparr>tw_truncated := True\<rparr>)
          else if int (length data) > tw_remaining w
          then (Some Truncated, w\<lparr>tw_content := tw_content w @ take (nat (tw_remaining w)) data, tw_remaining := 0,
                 tw_truncated := True\<rparr>)
          else (None, w\<lparr>tw_content := tw_content w @ data, tw_remaining := tw_remaining w - int (length data)\<rparr>))"

text \<open>
  The execution of a template writes one piece after the other, stops at the first error of the
  writer, and may end with an error of its own. The pieces come with the state of the context.
\<close>

fun write_pieces :: "(string option \<times> string) list \<Rightarrow> write_error option \<Rightarrow> template_writer \<Rightarrow> write_error option \<times> template_writer" where
  "write_pieces [] final w = (final, w)"
| "write_pieces ((ctx, data) # ps) final w =
     (case template_Write ctx w data of
        (Some e, w) \<Rightarrow> (Some e, w)
      | (None, w) \<Rightarrow> write_pieces ps final w)"

definition new_writer :: "int \<Rightarrow> template_writer" where
  "new_writer limit = \<lparr>tw_content = [], tw_remaining = limit, tw_truncated = False\<rparr>"

section \<open>What the checks mean\<close>

text \<open>The parts of a node that the walk visits, and what it finds at the node itself.\<close>

fun parts :: "template_node \<Rightarrow> template_node list" where
  "parts (ListNode ns) = ns"
| "parts (ActionNode pipe) = [pipe]"
| "parts (IfNode pipe body els) = [pipe, body] @ (case els of None \<Rightarrow> [] | Some n \<Rightarrow> [n])"
| "parts (RangeNode pipe body els) = [pipe, body] @ (case els of None \<Rightarrow> [] | Some n \<Rightarrow> [n])"
| "parts (WithNode pipe body els) = [pipe, body] @ (case els of None \<Rightarrow> [] | Some n \<Rightarrow> [n])"
| "parts (PipeNode cmds) = cmds"
| "parts (CommandNode args) = args"
| "parts n = []"

fun lacks_else :: "template_node \<Rightarrow> bool" where
  "lacks_else (IfNode pipe body els) \<longleftrightarrow> els = None"
| "lacks_else (RangeNode pipe body els) \<longleftrightarrow> els = None"
| "lacks_else (WithNode pipe body els) \<longleftrightarrow> els = None"
| "lacks_else n \<longleftrightarrow> False"

fun refused :: "template_node \<Rightarrow> string option" where
  "refused (IdentifierNode i) = (if templateHelperAllowed i then None else Some (''template helper is not allowed: '' @ i))"
| "refused (TemplateNode name) = Some ''nested template execution is not allowed''"
| "refused n = None"

inductive visits :: "template_node \<Rightarrow> template_node \<Rightarrow> bool" where
  here: "visits n n"
| below: "c \<in> set (parts n) \<Longrightarrow> visits c k \<Longrightarrow> visits n k"

lemma visits_unfold: "visits n k \<longleftrightarrow> k = n \<or> (\<exists>c \<in> set (parts n). visits c k)"
  by (subst visits.simps) auto

definition at_node :: "template_node \<Rightarrow> string option go" where
  "at_node n = (if lacks_else n then Panic else Ret (refused n))"

lemma and_then_None [simp]: "and_then x (Ret None) = x"
  by (cases "(x, Ret None :: string option go)" rule: and_then.cases) auto

lemma and_then_assoc: "and_then (and_then x y) z = and_then x (and_then y z)"
  by (cases "(x, y)" rule: and_then.cases) auto

lemma validate_parts: "validateTemplateHelpers n = and_then (validate_nodes (parts n)) (at_node n)"
proof (cases n)
  case (IfNode pipe body els)
  then show ?thesis by (cases els) (simp_all add: at_node_def and_then_assoc)
next
  case (RangeNode pipe body els)
  then show ?thesis by (cases els) (simp_all add: at_node_def and_then_assoc)
next
  case (WithNode pipe body els)
  then show ?thesis by (cases els) (simp_all add: at_node_def and_then_assoc)
qed (simp_all add: at_node_def)

lemma and_then_cases: "and_then x y = (if x = Ret None then y else x)"
  by (cases "(x, y)" rule: and_then.cases) auto

lemma parts_size: "c \<in> set (parts n) \<Longrightarrow> size c < size n"
  by (cases n) (auto simp: less_Suc_eq_le intro: size_list_estimation' [OF _ order_refl] split: option.splits)

lemma validate_visits:
  "validateTemplateHelpers n = Ret None \<and> (\<forall>k. visits n k \<longrightarrow> at_node k = Ret None)
    \<or> (\<exists>k. visits n k \<and> at_node k = validateTemplateHelpers n \<and> at_node k \<noteq> Ret None)"
proof (induction n rule: measure_induct_rule [of size])
  case (less n)
  have "validate_nodes ns = Ret None \<and> (\<forall>c \<in> set ns. \<forall>k. visits c k \<longrightarrow> at_node k = Ret None)
      \<or> (\<exists>c \<in> set ns. \<exists>k. visits c k \<and> at_node k = validate_nodes ns \<and> at_node k \<noteq> Ret None)"
    if "set ns \<subseteq> set (parts n)" for ns
    using that
  proof (induction ns)
    case (Cons c ns)
    with less.IH [OF parts_size, of c] show ?case by (auto simp: and_then_cases)
  qed simp
  from this [OF subset_refl] show ?case
    unfolding validate_parts [of n] and_then_cases by (subst (1 2) visits_unfold) auto
qed

text \<open>
  what the check of helpers finds. A template is accepted exactly when every node that the walk
  visits is an allowed helper or no helper, is no call of another template, and is no branch without
  an else; a refusal names such a helper or call; and when the walk panics it has met a branch
  without an else.
\<close>

theorem template_checks_exact:
  "(validateTemplateHelpers n = Ret None \<longleftrightarrow> (\<forall>k. visits n k \<longrightarrow> \<not> lacks_else k \<and> refused k = None))
    \<and> (case validateTemplateHelpers n of
         Panic \<Rightarrow> \<exists>k. visits n k \<and> lacks_else k
       | Ret None \<Rightarrow> True
       | Ret (Some e) \<Rightarrow> \<exists>k. visits n k \<and> refused k = Some e)"
  using validate_visits [of n]
proof (elim disjE conjE exE)
  fix k assume "visits n k" "at_node k = validateTemplateHelpers n" "at_node k \<noteq> Ret None"
  then show ?thesis by (cases "validateTemplateHelpers n") (auto simp: at_node_def split: if_splits option.splits)
qed (auto simp: at_node_def split: if_splits)

text \<open>
  C33: a branch without an else makes the check panic. A template in which every helper is allowed
  and no other template is called, and which has an if, a range or a with without else, is not
  rendered: the check dereferences the nil pointer in the place of the else.
\<close>

theorem branch_without_else_panics:
  assumes "\<forall>k. visits n k \<longrightarrow> refused k = None" and "visits n k" and "lacks_else k"
  shows "validateTemplateHelpers n = Panic"
  using validate_visits [of n] assms by (auto simp: at_node_def split: if_splits)

lemma visits_simps [simp]:
  "visits (ListNode ns) k \<longleftrightarrow> k = ListNode ns \<or> (\<exists>c \<in> set ns. visits c k)"
  "visits (CommandNode ns) k \<longleftrightarrow> k = CommandNode ns \<or> (\<exists>c \<in> set ns. visits c k)"
  "visits (PipeNode ns) k \<longleftrightarrow> k = PipeNode ns \<or> (\<exists>c \<in> set ns. visits c k)"
  "visits (IfNode pipe body None) k \<longleftrightarrow> k = IfNode pipe body None \<or> visits pipe k \<or> visits body k"
  "visits Leaf k \<longleftrightarrow> k = Leaf" "visits (ChainNode n) k \<longleftrightarrow> k = ChainNode n"
  by (simp_all add: visits_unfold [of "ListNode ns"] visits_unfold [of "CommandNode ns"] visits_unfold [of "PipeNode ns"]
      visits_unfold [of "IfNode pipe body None"] visits_unfold [of Leaf] visits_unfold [of "ChainNode n"])

text \<open>The template \<open>{{if .a}}x{{end}}\<close>.\<close>

theorem branch_without_else_panics_witness:
  "validateTemplateHelpers (ListNode [IfNode (PipeNode [CommandNode [Leaf]]) (ListNode [Leaf]) None]) = Panic"
  by (rule branch_without_else_panics [where k = "IfNode (PipeNode [CommandNode [Leaf]]) (ListNode [Leaf]) None"]) auto

text \<open>The parentheses of \<open>{{(printf "%s" .a).b}}\<close> hide the helper from the check.\<close>

lemma helper_in_parentheses:
  "validateTemplateHelpers (ListNode [ActionNode (PipeNode [CommandNode
     [ChainNode (PipeNode [CommandNode [IdentifierNode ''printf'', Leaf, Leaf]])]])]) = Ret None"
  by simp

section \<open>The limits on variables\<close>

fun val_depth :: "goval \<Rightarrow> int" and items_depth :: "goval list \<Rightarrow> int" and fields_depth :: "(string \<times> goval) list \<Rightarrow> int" where
  "val_depth (VMap d) = fields_depth d"
| "val_depth (VList vs) = items_depth vs"
| "val_depth v = 0"
| "items_depth [] = 0"
| "items_depth (v # vs) = max (1 + val_depth v) (items_depth vs)"
| "fields_depth [] = 0"
| "fields_depth ((k, v) # d) = max (1 + val_depth v) (fields_depth d)"

fun val_count :: "goval \<Rightarrow> int" and items_count :: "goval list \<Rightarrow> int" and fields_count :: "(string \<times> goval) list \<Rightarrow> int" where
  "val_count (VMap d) = int (length d) + fields_count d"
| "val_count (VList vs) = int (length vs) + items_count vs"
| "val_count v = 0"
| "items_count [] = 0"
| "items_count (v # vs) = val_count v + items_count vs"
| "fields_count [] = 0"
| "fields_count ((k, v) # d) = val_count v + fields_count d"

fun val_strings :: "goval \<Rightarrow> string list" and items_strings :: "goval list \<Rightarrow> string list" and fields_strings :: "(string \<times> goval) list \<Rightarrow> string list" where
  "val_strings (VMap d) = fields_strings d"
| "val_strings (VList vs) = items_strings vs"
| "val_strings (VString t) = [t]"
| "val_strings v = []"
| "items_strings [] = []"
| "items_strings (v # vs) = val_strings v @ items_strings vs"
| "fields_strings [] = []"
| "fields_strings ((k, v) # d) = val_strings v @ fields_strings d"

lemma counts_nonneg: "0 \<le> val_count v" "0 \<le> items_count vs" "0 \<le> fields_count d"
  by (induction v and vs and d rule: val_count_items_count_fields_count.induct) auto

lemma depths_nonneg: "0 \<le> val_depth v" "0 \<le> items_depth vs" "0 \<le> fields_depth d"
  by (induction v and vs and d rule: val_depth_items_depth_fields_depth.induct) auto

abbreviation fits :: "template_limits \<Rightarrow> string list \<Rightarrow> bool" where
  "fits lim ts \<equiv> \<forall>t \<in> set ts. int (length t) \<le> tl_MaxVariableStringBytes lim"

declare validateTemplateValue.simps(1) [simp del]

lemma value_VMap: "validateTemplateValue lim (VMap d) depth count =
    (if depth > tl_MaxVariableDepth lim
     then Inl (''template variables exceed max depth of '' @ show_int (tl_MaxVariableDepth lim))
     else if count + int (length d) > tl_MaxVariableCount lim
     then Inl (''template variables exceed max count of '' @ show_int (tl_MaxVariableCount lim))
     else validate_fields lim d (depth + 1) (count + int (length d)))"
  by (simp add: validateTemplateValue.simps(1))

lemma value_VList: "validateTemplateValue lim (VList vs) depth count =
    (if depth > tl_MaxVariableDepth lim
     then Inl (''template variables exceed max depth of '' @ show_int (tl_MaxVariableDepth lim))
     else if count + int (length vs) > tl_MaxVariableCount lim
     then Inl (''template variables exceed max count of '' @ show_int (tl_MaxVariableCount lim))
     else validate_items lim vs (depth + 1) (count + int (length vs)))"
  by (simp add: validateTemplateValue.simps(1))

lemma depth_max: "depth - 1 + max (1 + a) b \<le> (m :: int) \<longleftrightarrow> depth + a \<le> m \<and> depth - 1 + b \<le> m"
  by linarith

lemma validate_value_exact:
  "count \<le> tl_MaxVariableCount lim \<Longrightarrow> validateTemplateValue lim v depth count = Inr n \<longleftrightarrow>
     depth + val_depth v \<le> tl_MaxVariableDepth lim \<and> count + val_count v \<le> tl_MaxVariableCount lim \<and> fits lim (val_strings v)
     \<and> n = count + val_count v"
  "count \<le> tl_MaxVariableCount lim \<Longrightarrow> validate_items lim vs depth count = Inr n \<longleftrightarrow>
     (vs = [] \<or> depth - 1 + items_depth vs \<le> tl_MaxVariableDepth lim) \<and> count + items_count vs \<le> tl_MaxVariableCount lim \<and> fits lim (items_strings vs)
     \<and> n = count + items_count vs"
  "count \<le> tl_MaxVariableCount lim \<Longrightarrow> validate_fields lim d depth count = Inr n \<longleftrightarrow>
     (d = [] \<or> depth - 1 + fields_depth d \<le> tl_MaxVariableDepth lim) \<and> count + fields_count d \<le> tl_MaxVariableCount lim \<and> fits lim (fields_strings d)
     \<and> n = count + fields_count d"
proof (induction lim v depth count and lim vs depth count and lim d depth count arbitrary: n and n and n
    rule: validateTemplateValue_validate_items_validate_fields.induct)
  case (1 lim v depth count)
  show ?case
  proof (cases v)
    case (VMap d)
    with 1 counts_nonneg(3) [of d] depths_nonneg(3) [of d] show ?thesis by (cases "d = []") (auto simp: value_VMap)
  next
    case (VList vs)
    with 1 counts_nonneg(2) [of vs] depths_nonneg(2) [of vs] show ?thesis by (cases "vs = []") (auto simp: value_VList)
  qed (use 1 in \<open>auto simp: validateTemplateValue.simps [of lim]\<close>)
next
  case (3 lim v vs depth count)
  have pos: "0 \<le> val_count v" "0 \<le> items_count vs" "0 \<le> val_depth v" by (simp_all add: counts_nonneg depths_nonneg)
  show ?case
  proof (cases "depth + val_depth v \<le> tl_MaxVariableDepth lim \<and> count + val_count v \<le> tl_MaxVariableCount lim \<and> fits lim (val_strings v)")
    case True
    with 3(1,3) have run: "validateTemplateValue lim v depth count = Inr (count + val_count v)" by simp
    from 3(2) [OF run] True have "validate_items lim vs depth (count + val_count v) = Inr n \<longleftrightarrow>
       (vs = [] \<or> depth - 1 + items_depth vs \<le> tl_MaxVariableDepth lim) \<and> count + val_count v + items_count vs \<le> tl_MaxVariableCount lim
       \<and> fits lim (items_strings vs) \<and> n = count + val_count v + items_count vs" for n by simp
    with run True pos show ?thesis by (cases "vs = []") (simp_all add: ball_Un conj_ac add.assoc depth_max)
  next
    case False
    with 3(1,3) have "validateTemplateValue lim v depth count \<noteq> Inr k" for k by blast
    then obtain e where "validateTemplateValue lim v depth count = Inl e" by (metis sum.exhaust)
    with False pos show ?thesis by auto
  qed
next
  case (5 lim k v d depth count)
  have pos: "0 \<le> val_count v" "0 \<le> fields_count d" "0 \<le> val_depth v" by (simp_all add: counts_nonneg depths_nonneg)
  show ?case
  proof (cases "depth + val_depth v \<le> tl_MaxVariableDepth lim \<and> count + val_count v \<le> tl_MaxVariableCount lim \<and> fits lim (val_strings v)")
    case True
    with 5(1,3) have run: "validateTemplateValue lim v depth count = Inr (count + val_count v)" by simp
    from 5(2) [OF run] True have "validate_fields lim d depth (count + val_count v) = Inr n \<longleftrightarrow>
       (d = [] \<or> depth - 1 + fields_depth d \<le> tl_MaxVariableDepth lim) \<and> count + val_count v + fields_count d \<le> tl_MaxVariableCount lim
       \<and> fits lim (fields_strings d) \<and> n = count + val_count v + fields_count d" for n by simp
    with run True pos show ?thesis by (cases "d = []") (simp_all add: ball_Un conj_ac add.assoc depth_max)
  next
    case False
    with 5(1,3) have "validateTemplateValue lim v depth count \<noteq> Inr k" for k by blast
    then obtain e where "validateTemplateValue lim v depth count = Inl e" by (metis sum.exhaust)
    with False pos show ?thesis by auto
  qed
qed auto

text \<open>
  the variables of a template are within the limits exactly when they are accepted: no value lies
  deeper than allowed, the maps and lists have no more entries in total than allowed, and no text is
  too long, whatever the order in which maps are traversed.
\<close>

theorem template_variables_exact:
  assumes "0 \<le> tl_MaxVariableCount lim"
  shows "validateTemplateVariables lim d = None \<longleftrightarrow>
    fields_depth d \<le> tl_MaxVariableDepth lim \<and> int (length d) + fields_count d \<le> tl_MaxVariableCount lim \<and> fits lim (fields_strings d)"
proof -
  have "validateTemplateVariables lim d = None \<longleftrightarrow> (\<exists>n. validateTemplateValue lim (VMap d) 0 0 = Inr n)"
    by (auto simp: validateTemplateVariables_def split: sum.splits)
  then show ?thesis using validate_value_exact(1) [OF assms, of "VMap d" 0] by simp
qed

section \<open>The cut of the output\<close>

lemma write_pieces_content:
  assumes "write_pieces ps final w = (r, w')" and "\<forall>(ctx, data) \<in> set ps. ctx = None" and "0 \<le> tw_remaining w"
  shows "tw_content w' = tw_content w @ take (nat (tw_remaining w)) (concat (map snd ps))
    \<and> (r \<noteq> Some Truncated \<longrightarrow> r = final \<and> int (length (concat (map snd ps))) \<le> tw_remaining w \<and> tw_truncated w' = tw_truncated w)
    \<and> (r = Some Truncated \<longrightarrow> tw_truncated w' \<or> final = Some Truncated)"
  using assms
proof (induction ps final w rule: write_pieces.induct)
  case (2 ctx data ps final w)
  from 2(3) have ctx: "ctx = None" and rest: "\<forall>(ctx, data) \<in> set ps. ctx = None" by auto
  consider (spent) "tw_remaining w = 0" | (over) "0 < tw_remaining w" "int (length data) > tw_remaining w"
    | (room) "0 < tw_remaining w" "int (length data) \<le> tw_remaining w" using 2(4) by linarith
  then show ?case
  proof cases
    case spent
    with 2(2) ctx show ?thesis by (auto simp: template_Write_def)
  next
    case over
    with 2(2) ctx show ?thesis by (auto simp: template_Write_def)
  next
    case room
    let ?w = "w\<lparr>tw_content := tw_content w @ data, tw_remaining := tw_remaining w - int (length data)\<rparr>"
    have step: "template_Write ctx w data = (None, ?w)" using room ctx by (simp add: template_Write_def)
    have "write_pieces ps final ?w = (r, w')" using 2(2) step by simp
    from 2(1) [OF step [symmetric] refl this rest] room have
      "tw_content w' = tw_content ?w @ take (nat (tw_remaining ?w)) (concat (map snd ps))
       \<and> (r \<noteq> Some Truncated \<longrightarrow> r = final \<and> int (length (concat (map snd ps))) \<le> tw_remaining ?w \<and> tw_truncated w' = tw_truncated ?w)
       \<and> (r = Some Truncated \<longrightarrow> tw_truncated w' \<or> final = Some Truncated)" by simp
    moreover have "take (nat (tw_remaining w)) (data @ x) = data @ take (nat (tw_remaining w) - length data) x" for x
      using room by simp
    moreover have "nat (tw_remaining ?w) = nat (tw_remaining w) - length data" by (simp add: nat_diff_distrib')
    ultimately show ?thesis using room by auto
  qed
qed auto

text \<open>The output of a template is cut at its limit, and is marked when something is missing.\<close>

lemma template_output_cut:
  assumes "write_pieces (map (Pair None) ds) None (new_writer limit) = (r, w)" and "0 \<le> limit"
  shows "tw_content w = take (nat limit) (concat ds)" and "\<not> tw_truncated w \<Longrightarrow> tw_content w = concat ds"
proof -
  note result = write_pieces_content [OF assms(1)]
  have "concat (map snd (map (Pair None) ds :: (string option \<times> string) list)) = concat ds" by (simp add: comp_def)
  with result assms(2) show short: "tw_content w = take (nat limit) (concat ds)" by (auto simp: new_writer_def)
  assume "\<not> tw_truncated w"
  with result assms(2) have "int (length (concat ds)) \<le> limit" by (auto simp: new_writer_def comp_def)
  with short show "tw_content w = concat ds" by simp
qed

end
