(* ===== verification/Sandbox_Results.thy ===== *)
theory Sandbox_Results
  imports Sandbox_Files
begin

text \<open>
  The result of a run as JSON (\<open>executor/service.go\<close>): the schema that a caller may expect its
  output to have, and the check of the output against it. The decoder of JSON is a parameter. A
  Go map is the list of its members in the order in which the loop meets them.
\<close>

section \<open>Schemas\<close>

datatype output_schema =
  Schema (os_Type: string) (os_Required: "string list") (os_Properties: "(string \<times> output_schema) list")
    (os_Items: "output_schema option") (os_AdditionalProperties: "bool option")

record json_env =
  je_value :: "string \<Rightarrow> string + goval"
  je_schema :: "string \<Rightarrow> string + output_schema"

definition isSupportedOutputSchemaType :: "string \<Rightarrow> bool" where
  "isSupportedOutputSchemaType v \<longleftrightarrow>
     v \<in> {''object'', ''array'', ''string'', ''number'', ''integer'', ''boolean'', ''null''}"

fun required_error :: "string \<Rightarrow> string list \<Rightarrow> string list \<Rightarrow> string option" where
  "required_error path seen [] = None"
| "required_error path seen (name # names) =
     (if trim_space name = [] then Some (path @ ''.required contains an empty field'')
      else if name \<in> set seen then Some (path @ ''.required contains duplicate field: '' @ name)
      else required_error path (name # seen) names)"

fun validateDefinition :: "output_schema \<Rightarrow> string \<Rightarrow> string option"
  and validate_properties :: "(string \<times> output_schema) list \<Rightarrow> string \<Rightarrow> string option" where
  "validateDefinition (Schema type required properties items additional) path =
     (if type = [] then Some (path @ ''.type is required'')
      else if \<not> isSupportedOutputSchemaType type then Some (path @ ''.type is unsupported: '' @ type)
      else if length required > 128 then Some (path @ ''.required exceeds max field count of 128'')
      else case required_error path [] required of
        Some e \<Rightarrow> Some e
      | None \<Rightarrow>
          if length properties > 128 then Some (path @ ''.properties exceeds max field count of 128'')
          else case validate_properties properties path of
            Some e \<Rightarrow> Some e
          | None \<Rightarrow> (case items of None \<Rightarrow> None | Some s \<Rightarrow> validateDefinition s (path @ ''.items'')))"
| "validate_properties [] path = None"
| "validate_properties ((name, child) # ps) path =
     (if trim_space name = [] then Some (path @ ''.properties contains an empty field'')
      else case validateDefinition child (path @ ''.properties.'' @ name) of
        Some e \<Rightarrow> Some e
      | None \<Rightarrow> validate_properties ps path)"

definition parseExpectedOutputSchema :: "json_env \<Rightarrow> string \<Rightarrow> string + output_schema option" where
  "parseExpectedOutputSchema J raw =
     (if raw = [] then Inr None
      else if length raw > 16 * 1024 then Inl ''expected_output_schema exceeds max size of 16384 bytes''
      else case je_schema J raw of
        Inl e \<Rightarrow> Inl (''expected_output_schema must contain valid JSON: '' @ e)
      | Inr s \<Rightarrow>
          (case validateDefinition s ''$'' of
             Some e \<Rightarrow> Inl (''invalid expected_output_schema: '' @ e)
           | None \<Rightarrow> Inr (Some s)))"

section \<open>Values\<close>

text \<open>The comparison of floating point numbers: the zeros are equal, and what is no number is not.\<close>

definition f64_nan :: "float64 \<Rightarrow> bool" where
  "f64_nan w \<longleftrightarrow> f64_exponent w = 2047 \<and> f64_fraction w \<noteq> 0"

definition f64_equal :: "float64 \<Rightarrow> float64 \<Rightarrow> bool" where
  "f64_equal v w \<longleftrightarrow> \<not> f64_nan v \<and> \<not> f64_nan w \<and> (v = w \<or> unat v mod 2 ^ 63 = 0 \<and> unat w mod 2 ^ 63 = 0)"

definition whole_float :: "float64 \<Rightarrow> bool" where
  "whole_float x \<longleftrightarrow> f64_equal x (float64_of_int (int64_of_float64 x))"

definition of_type :: "string \<Rightarrow> goval \<Rightarrow> bool" where
  "of_type expected v =
     (if expected = ''object'' then (case v of VMap d \<Rightarrow> True | _ \<Rightarrow> False)
      else if expected = ''array'' then (case v of VList vs \<Rightarrow> True | _ \<Rightarrow> False)
      else if expected = ''string'' then (case v of VString s \<Rightarrow> True | _ \<Rightarrow> False)
      else if expected = ''number'' then (case v of VFloat64 x \<Rightarrow> True | _ \<Rightarrow> False)
      else if expected = ''integer'' then (case v of VFloat64 x \<Rightarrow> whole_float x | _ \<Rightarrow> False)
      else if expected = ''boolean'' then (case v of VBool b \<Rightarrow> True | _ \<Rightarrow> False)
      else if expected = ''null'' then v = VNil
      else True)"

definition validateOutputSchemaType :: "goval \<Rightarrow> string \<Rightarrow> string \<Rightarrow> string option" where
  "validateOutputSchemaType v expected path =
     (if of_type expected v then None else Some (path @ '' must be '' @ expected))"

fun required_missing :: "string \<Rightarrow> dict \<Rightarrow> string list \<Rightarrow> string option" where
  "required_missing path d [] = None"
| "required_missing path d (name # names) =
     (if map_of d name = None then Some (path @ ''.'' @ name @ '' is required'') else required_missing path d names)"

fun not_allowed :: "string \<Rightarrow> (string \<times> output_schema) list \<Rightarrow> dict \<Rightarrow> string option" where
  "not_allowed path properties [] = None"
| "not_allowed path properties ((name, v) # d) =
     (if map_of properties name = None then Some (path @ ''.'' @ name @ '' is not allowed'') else not_allowed path properties d)"

lemma size_members [simp]: "size_list (size_prod (\<lambda>_. 0) size) ps = size_list (\<lambda>x. Suc (size (snd x))) ps"
  by (induction ps) auto

function (sequential) validate :: "output_schema \<Rightarrow> goval \<Rightarrow> string \<Rightarrow> string option"
  and validate_members :: "(string \<times> output_schema) list \<Rightarrow> dict \<Rightarrow> string \<Rightarrow> string option"
  and validate_elements :: "output_schema \<Rightarrow> goval list \<Rightarrow> nat \<Rightarrow> string \<Rightarrow> string option" where
  "validate (Schema type required properties items additional) v path =
     (case validateOutputSchemaType v type path of
        Some e \<Rightarrow> Some e
      | None \<Rightarrow>
          if type = ''object''
          then let d = (case v of VMap d \<Rightarrow> d | _ \<Rightarrow> [])
               in case required_missing path d required of
                    Some e \<Rightarrow> Some e
                  | None \<Rightarrow>
                      (case validate_members properties d path of
                         Some e \<Rightarrow> Some e
                       | None \<Rightarrow> if additional = Some False then not_allowed path properties d else None)
          else if type = ''array''
          then (case items of
                  None \<Rightarrow> None
                | Some s \<Rightarrow> validate_elements s (case v of VList vs \<Rightarrow> vs | _ \<Rightarrow> []) 0 path)
          else None)"
| "validate_members [] d path = None"
| "validate_members ((name, child) # ps) d path =
     (case map_of d name of
        None \<Rightarrow> validate_members ps d path
      | Some v \<Rightarrow>
          (case validate child v (path @ ''.'' @ name) of
             Some e \<Rightarrow> Some e
           | None \<Rightarrow> validate_members ps d path))"
| "validate_elements s [] i path = None"
| "validate_elements s (v # vs) i path =
     (case validate s v (path @ ''['' @ show_nat i @ '']'') of
        Some e \<Rightarrow> Some e
      | None \<Rightarrow> validate_elements s vs (i + 1) path)"
  by pat_completeness auto

termination
  by (relation "measures [\<lambda>x. case x of Inl (s, v, p) \<Rightarrow> size s
       | Inr (Inl (ps, d, p)) \<Rightarrow> size_list (\<lambda>x. Suc (size (snd x))) ps
       | Inr (Inr (s, vs, i, p)) \<Rightarrow> size s,
     \<lambda>x. case x of Inl (s, v, p) \<Rightarrow> 0 | Inr (Inl (ps, d, p)) \<Rightarrow> 0 | Inr (Inr (s, vs, i, p)) \<Rightarrow> Suc (length vs)]")
    auto

section \<open>The result of a run\<close>

record runner_result =
  rs_ExecutionID :: string
  rs_Stdout :: string
  rs_Error :: string
  rs_ExitCode :: int
  rs_DurationMS :: int
  rs_NetworkRequested :: bool
  rs_Truncated :: bool
  rs_Backend :: string
  rs_ProfileChecksum :: string
  rs_ResultJSON :: "goval option"
  rs_Warnings :: "string list"

definition attachResultJSON ::
    "json_env \<Rightarrow> runner_result \<Rightarrow> bool \<Rightarrow> output_schema option \<Rightarrow> int \<Rightarrow> string + runner_result" where
  "attachResultJSON J result strict schema maxBytes =
     (if rs_ExitCode result \<noteq> 0 then Inr result
      else let raw = trim_space (rs_Stdout result); needed = (strict \<or> schema \<noteq> None)
      in if raw = []
         then if needed then Inl ''strict_result_json or expected_output_schema requires stdout to contain JSON''
              else Inr result
         else if maxBytes > 0 \<and> int (length raw) > maxBytes
         then if needed then Inl (''result_json exceeds max size of '' @ show_int maxBytes @ '' bytes'')
              else Inr (result\<lparr>rs_Warnings := rs_Warnings result @
                [''result_json omitted because output exceeded max size of '' @ show_int maxBytes @ '' bytes'']\<rparr>)
         else case je_value J raw of
           Inl e \<Rightarrow>
             if needed then Inl (''strict_result_json or expected_output_schema failed to parse stdout JSON: '' @ e)
             else Inr result
         | Inr decoded \<Rightarrow>
             (case (case schema of None \<Rightarrow> None | Some s \<Rightarrow> validate s decoded ''$'') of
                Some e \<Rightarrow> Inl (''expected_output_schema validation failed: '' @ e)
              | None \<Rightarrow> Inr (result\<lparr>rs_ResultJSON := Some decoded\<rparr>)))"

section \<open>The check is exact\<close>

text \<open>What a schema means.\<close>

inductive conforms :: "output_schema \<Rightarrow> goval \<Rightarrow> bool" where
  object: "(\<forall>name \<in> set required. \<exists>v. map_of d name = Some v) \<Longrightarrow>
    (\<forall>(name, child) \<in> set properties. \<forall>v. map_of d name = Some v \<longrightarrow> conforms child v) \<Longrightarrow>
    (additional = Some False \<longrightarrow> fst ` set d \<subseteq> fst ` set properties) \<Longrightarrow>
    conforms (Schema ''object'' required properties items additional) (VMap d)"
| array: "(\<forall>s v. items = Some s \<longrightarrow> v \<in> set vs \<longrightarrow> conforms s v) \<Longrightarrow>
    conforms (Schema ''array'' required properties items additional) (VList vs)"
| string: "conforms (Schema ''string'' required properties items additional) (VString t)"
| number: "conforms (Schema ''number'' required properties items additional) (VFloat64 x)"
| whole: "whole_float x \<Longrightarrow> conforms (Schema ''integer'' required properties items additional) (VFloat64 x)"
| truth: "conforms (Schema ''boolean'' required properties items additional) (VBool b)"
| nothing: "conforms (Schema ''null'' required properties items additional) VNil"

inductive_simps conforms_object: "conforms (Schema ''object'' required properties items additional) v"
inductive_simps conforms_array: "conforms (Schema ''array'' required properties items additional) v"
inductive_simps conforms_string: "conforms (Schema ''string'' required properties items additional) v"
inductive_simps conforms_number: "conforms (Schema ''number'' required properties items additional) v"
inductive_simps conforms_integer: "conforms (Schema ''integer'' required properties items additional) v"
inductive_simps conforms_boolean: "conforms (Schema ''boolean'' required properties items additional) v"
inductive_simps conforms_null: "conforms (Schema ''null'' required properties items additional) v"

lemmas conforms_leaf = conforms_string conforms_number conforms_integer conforms_boolean conforms_null

lemma required_missing_None: "required_missing path d names = None \<longleftrightarrow> (\<forall>name \<in> set names. \<exists>v. map_of d name = Some v)"
  by (induction names) auto

lemma not_allowed_None: "not_allowed path properties d = None \<longleftrightarrow> fst ` set d \<subseteq> fst ` set properties"
  by (induction path properties d rule: not_allowed.induct) (auto simp: map_of_eq_None_iff)

lemma validateDefinition_None:
  assumes "validateDefinition (Schema type required properties items additional) p = None"
  shows "isSupportedOutputSchemaType type" and "validate_properties properties p = None"
    and "items = Some s \<Longrightarrow> validateDefinition s (p @ ''.items'') = None"
  using assms by (auto split: if_splits option.splits)

lemma of_type_simps [simp]:
  "of_type ''object'' v \<longleftrightarrow> (\<exists>d. v = VMap d)" "of_type ''array'' v \<longleftrightarrow> (\<exists>vs. v = VList vs)"
  "of_type ''string'' v \<longleftrightarrow> (\<exists>t. v = VString t)" "of_type ''number'' v \<longleftrightarrow> (\<exists>x. v = VFloat64 x)"
  "of_type ''integer'' v \<longleftrightarrow> (\<exists>x. v = VFloat64 x \<and> whole_float x)" "of_type ''boolean'' v \<longleftrightarrow> (\<exists>b. v = VBool b)"
  "of_type ''null'' v \<longleftrightarrow> v = VNil"
  by (simp_all add: of_type_def split: goval.split)

lemma validate_leaf:
  assumes "type \<in> {''string'', ''number'', ''integer'', ''boolean'', ''null''}"
  shows "validate (Schema type required properties items additional) v path = None
    \<longleftrightarrow> conforms (Schema type required properties items additional) v"
proof -
  have "validate (Schema type required properties items additional) v path = None \<longleftrightarrow> of_type type v"
    using assms by (auto simp: validateOutputSchemaType_def)
  also have "\<dots> \<longleftrightarrow> conforms (Schema type required properties items additional) v"
    using assms by (elim insertE emptyE) (simp_all add: conforms_leaf)
  finally show ?thesis .
qed

lemma validate_exact:
  "\<exists>p. validateDefinition s p = None \<Longrightarrow> validate s v path = None \<longleftrightarrow> conforms s v"
  "\<exists>p. validate_properties ps p = None \<Longrightarrow> validate_members ps d path = None \<longleftrightarrow>
     (\<forall>(name, child) \<in> set ps. \<forall>v. map_of d name = Some v \<longrightarrow> conforms child v)"
  "\<exists>p. validateDefinition s p = None \<Longrightarrow> validate_elements s vs i path = None \<longleftrightarrow> (\<forall>v \<in> set vs. conforms s v)"
proof (induction s v path and ps d path and s vs i path rule: validate_validate_members_validate_elements.induct)
  case (1 type required properties items additional v path)
  note def = validateDefinition_None [of type required properties items additional]
  from 1(3) obtain p where p: "validateDefinition (Schema type required properties items additional) p = None" ..
  note members = 1(1) and elements = 1(2)
  have "type = ''object'' \<or> type = ''array'' \<or> type \<in> {''string'', ''number'', ''integer'', ''boolean'', ''null''}"
    using def(1) [OF p] by (simp only: isSupportedOutputSchemaType_def insert_iff empty_iff simp_thms disj_ac)
  then consider "type = ''object''" | "type = ''array''"
    | "type \<in> {''string'', ''number'', ''integer'', ''boolean'', ''null''}"
    by (elim disjE)
  then show ?case
  proof cases
    case 1
    show ?thesis
    proof (cases "\<exists>d. v = VMap d")
      case True
      then obtain d where v: "v = VMap d" ..
      have "validate_members properties d path = None \<longleftrightarrow>
          (\<forall>(name, child) \<in> set properties. \<forall>v. map_of d name = Some v \<longrightarrow> conforms child v)"
        if "required_missing path d required = None"
        using members [OF _ 1 refl] def(2) [OF p] 1 v that by (auto simp: validateOutputSchemaType_def)
      moreover have "validate (Schema ''object'' required properties items additional) (VMap d) path = None \<longleftrightarrow>
          required_missing path d required = None \<and> validate_members properties d path = None
          \<and> (additional = Some False \<longrightarrow> not_allowed path properties d = None)"
        by (simp add: validateOutputSchemaType_def split: option.split)
      ultimately show ?thesis
        using 1 v by (simp add: conforms_object required_missing_None not_allowed_None cong: conj_cong)
    qed (use 1 in \<open>auto simp: validateOutputSchemaType_def conforms_object\<close>)
  next
    case 2
    show ?thesis
    proof (cases "\<exists>vs. v = VList vs")
      case True
      then obtain vs where v: "v = VList vs" ..
      have "validate_elements s vs 0 path = None \<longleftrightarrow> (\<forall>v \<in> set vs. conforms s v)" if "items = Some s" for s
        using elements [OF _ _ 2 that] def(3) [OF p that] 2 v by (auto simp: validateOutputSchemaType_def)
      then show ?thesis
        using 2 v by (cases items) (auto simp: validateOutputSchemaType_def conforms_array)
    qed (use 2 in \<open>auto simp: validateOutputSchemaType_def conforms_array\<close>)
  next
    case 3
    then show ?thesis by (rule validate_leaf)
  qed
next
  case (3 name child ps d path)
  from 3(4) obtain p where "validateDefinition child (p @ ''.properties.'' @ name) = None" "validate_properties ps p = None"
    by (auto split: if_splits option.splits)
  then have "\<exists>p. validateDefinition child p = None" "\<exists>p. validate_properties ps p = None" by blast+
  with 3(1-3) show ?case by (cases "map_of d name") (auto simp del: not_None_eq split: option.split)
next
  case (5 s v vs i path)
  then show ?case by (auto split: option.split)
qed simp_all

text \<open>
  C26: an expected schema is enforced exactly. For a schema that was accepted, the output of a run
  that succeeded is attached as its result if and only if it is JSON within the limit and conforms
  to the schema, and what is attached is the decoded output; a run that failed is passed on as it is.
\<close>

theorem result_schema_exact:
  assumes "parseExpectedOutputSchema J raw = Inr (Some s)"
  shows "attachResultJSON J r strict (Some s) maxBytes = Inr r' \<longleftrightarrow>
    (if rs_ExitCode r \<noteq> 0 then r' = r
     else trim_space (rs_Stdout r) \<noteq> [] \<and> \<not> (0 < maxBytes \<and> maxBytes < int (length (trim_space (rs_Stdout r))))
       \<and> (\<exists>v. je_value J (trim_space (rs_Stdout r)) = Inr v \<and> conforms s v \<and> r' = r\<lparr>rs_ResultJSON := Some v\<rparr>))"
proof -
  have "validateDefinition s ''$'' = None"
    using assms by (auto simp: parseExpectedOutputSchema_def split: if_splits sum.splits option.splits)
  then have "conforms s v \<longleftrightarrow> validate s v ''$'' = None" for v using validate_exact(1) by blast
  then show ?thesis
    by (cases "je_value J (trim_space (rs_Stdout r))") (auto simp: attachResultJSON_def Let_def split: option.splits)
qed

end
