(* ===== verification/Sandbox_Archive.thy ===== *)
theory Sandbox_Archive
  imports Sandbox_Files
begin

text \<open>
  Archives (\<open>executor/service.go\<close>): the names of their entries, the manifest of a skill, the limits
  on an archive, and its upload, which takes back the files it has written when a later one fails.
\<close>

section \<open>Entries\<close>

record archive_entry =
  ae_name :: string
  ae_file :: zip_file

definition has_suffix :: "string \<Rightarrow> string \<Rightarrow> bool" where
  "has_suffix s suf \<longleftrightarrow> has_prefix (rev s) (rev suf)"

definition trim_slashes :: "string \<Rightarrow> string" where
  "trim_slashes s = rev (dropWhile (\<lambda>c. c = slash) (rev (dropWhile (\<lambda>c. c = slash) s)))"

text \<open>\<open>commonArchiveRoot\<close>: nothing while no file was seen, and no root when there is none.\<close>

fun common_root :: "string \<Rightarrow> zip_file list \<Rightarrow> string" where
  "common_root root [] = root"
| "common_root root (f # fs) =
     (let name = trim_slashes (zf_Name f)
      in if name = [] then common_root root fs
         else if zf_IsDir f \<and> slash \<notin> set name then common_root root fs
         else let parts = split_on slash name
              in if length parts < 2 then []
                 else if root = [] then common_root (hd parts) fs
                 else if root \<noteq> hd parts then []
                 else common_root root fs)"

definition commonArchiveRoot :: "zip_file list \<Rightarrow> string" where
  "commonArchiveRoot files = common_root [] files"

fun normalize_entries :: "bool \<Rightarrow> string \<Rightarrow> zip_file list \<Rightarrow> sb_error + archive_entry list" where
  "normalize_entries stripRoot root [] = Inr []"
| "normalize_entries stripRoot root (f # fs) =
     (let name = trim_space (zf_Name f)
      in if name = [] then normalize_entries stripRoot root fs
         else if has_prefix name ''/'' \<or> byte 0 \<in> set name
         then Inl (Message (''invalid archive path: '' @ zf_Name f))
         else let name = (if stripRoot \<and> root \<noteq> [] then trim_prefix name (root @ ''/'') else name);
                  name = trim_prefix name ''./''
              in if name = [] \<or> has_suffix name ''/'' \<or> zf_IsDir f then normalize_entries stripRoot root fs
                 else let clean = Clean name
                      in if clean = ''.'' \<or> clean = ''..'' \<or> has_prefix clean ''../''
                         then Inl (Message (''archive path escapes target root: '' @ zf_Name f))
                         else map_sum id (\<lambda>es. \<lparr>ae_name = clean, ae_file = f\<rparr> # es) (normalize_entries stripRoot root fs))"

definition normalizeArchiveEntries :: "zip_file list \<Rightarrow> bool \<Rightarrow> sb_error + archive_entry list" where
  "normalizeArchiveEntries files stripRoot = normalize_entries stripRoot (commonArchiveRoot files) files"

fun read_chunks :: "string \<Rightarrow> int \<Rightarrow> string \<Rightarrow> string list \<Rightarrow> string option \<Rightarrow> sb_error + string" where
  "read_chunks name maxSize content [] end_error =
     (case end_error of None \<Rightarrow> Inr content | Some e \<Rightarrow> Inl (Message e))"
| "read_chunks name maxSize content (c # cs) end_error =
     (if int (length (content @ c)) > maxSize \<and> c \<noteq> [] then Inl (max_size_error (''file '' @ name) maxSize)
      else read_chunks name maxSize (content @ c) cs end_error)"

definition readZipFile :: "zip_file \<Rightarrow> int \<Rightarrow> sb_error + string" where
  "readZipFile f maxSize =
     (case zf_Open f of
        Inl e \<Rightarrow> Inl (Message e)
      | Inr (chunks, end_error) \<Rightarrow> read_chunks (zf_Name f) maxSize [] chunks end_error)"

section \<open>The manifest of a skill\<close>

definition unsafeArchivePath :: "string \<Rightarrow> bool" where
  "unsafeArchivePath p =
     (let p = trim_space p
      in p = [] \<or> has_prefix p ''/'' \<or> IsAbs p \<or> ''..'' \<in> set (split_on slash p) \<or> Clean p = ''.'')"

definition normalizeSkillLanguage :: "string \<Rightarrow> string" where
  "normalizeSkillLanguage v =
     (let v = to_lower (trim_space v)
      in if v \<in> {''python'', ''python3''} then ''python3''
         else if v \<in> {''node'', ''nodejs'', ''javascript''} then ''nodejs''
         else [])"

text \<open>\<open>filepath.Ext\<close>: from the last dot of the last part on.\<close>

definition Ext :: "string \<Rightarrow> string" where
  "Ext p = (let q = rev (takeWhile (\<lambda>c. c \<noteq> slash) (rev p))
            in if CHR ''.'' \<in> set q then CHR ''.'' # rev (takeWhile (\<lambda>c. c \<noteq> CHR ''.'') (rev q)) else [])"

fun artifact_paths :: "string list \<Rightarrow> sb_error + string list" where
  "artifact_paths [] = Inr []"
| "artifact_paths (rawPath # ps) =
     (let p = trim_space rawPath
      in if p = [] then Inl (Message ''skill manifest allowed_artifact_paths contains an empty path'')
         else if unsafeArchivePath p
         then Inl (Message (''skill manifest allowed artifact path escapes package root: '' @ p))
         else if p \<noteq> ''artifacts'' \<and> \<not> has_prefix p ''artifacts/''
         then Inl (Message (''skill manifest allowed artifact path must be under artifacts: '' @ p))
         else map_sum id (\<lambda>qs. p # qs) (artifact_paths ps))"

definition validate_entrypoint :: "string list \<Rightarrow> string \<Rightarrow> sb_error option" where
  "validate_entrypoint names entrypoint =
     (if entrypoint = [] then Some (Message ''skill manifest entrypoint is required'')
      else if unsafeArchivePath entrypoint
      then Some (Message (''skill manifest entrypoint escapes package root: '' @ entrypoint))
      else if \<not> has_prefix entrypoint ''scripts/''
      then Some (Message (''skill manifest entrypoint must be under scripts: '' @ entrypoint))
      else if entrypoint \<notin> set names
      then Some (Message (''skill manifest entrypoint is missing from package: '' @ entrypoint))
      else None)"

definition validate_extension :: "string \<Rightarrow> string \<Rightarrow> sb_error option" where
  "validate_extension language entrypoint =
     (if language = [] then Some (Message ''skill manifest language must be python3 or nodejs'')
      else if language = ''python3'' \<and> Ext entrypoint \<noteq> ''.py''
      then Some (Message (''skill manifest python3 entrypoint must use .py: '' @ entrypoint))
      else if language = ''nodejs'' \<and> Ext entrypoint \<noteq> ''.js''
      then Some (Message (''skill manifest nodejs entrypoint must use .js: '' @ entrypoint))
      else None)"

definition validate_skill_limits :: "service \<Rightarrow> skill_manifest \<Rightarrow> sb_error option" where
  "validate_skill_limits s k =
     (let limits = EffectiveLimits s;
          maxFiles = (if rl_MaxArtifactManifestFiles limits \<le> 0 then 100 else rl_MaxArtifactManifestFiles limits);
          maxBytes = rl_MaxArtifactManifestTotalBytes limits
      in if sk_TimeoutMS k \<le> 0 \<or> sk_TimeoutMS k > 300000
         then Some (Message ''skill manifest timeout_ms must be between 1 and 300000'')
         else if sk_MaxArtifactCount k \<le> 0 \<or> sk_MaxArtifactCount k > maxFiles
         then Some (Message (''skill manifest max_artifact_count must be between 1 and '' @ show_int maxFiles))
         else if sk_MaxArtifactBytes k \<le> 0 \<or> sk_MaxArtifactBytes k > maxBytes
         then Some (Message (''skill manifest max_artifact_bytes must be between 1 and '' @ show_int maxBytes))
         else if sk_AllowedArtifactPaths k = [] then Some (Message ''skill manifest allowed_artifact_paths is required'')
         else None)"

definition validateSkillManifestFields ::
    "service \<Rightarrow> skill_manifest \<Rightarrow> string list \<Rightarrow> string \<Rightarrow> string \<Rightarrow> sb_error + skill_manifest" where
  "validateSkillManifestFields s k names sandboxDependencyProfile organizationID =
     (let entrypoint = trim_space (sk_Entrypoint k);
          language = normalizeSkillLanguage (sk_Language k);
          selected = trim_space sandboxDependencyProfile;
          profile = (if trim_space (sk_DependencyProfile k) = [] then selected else sk_DependencyProfile k)
      in case validate_entrypoint names entrypoint of
           Some e \<Rightarrow> Inl e
         | None \<Rightarrow>
             (case validate_extension language entrypoint of
                Some e \<Rightarrow> Inl e
              | None \<Rightarrow>
                  (case ValidateDependencyProfileForOrganizationAndLanguage (service_env s) (sv_dependencyProfiles s)
                          profile organizationID language of
                     Inl e \<Rightarrow> Inl (Message e)
                   | Inr dependency \<Rightarrow>
                       if selected \<noteq> [] \<and> selected \<noteq> pr_Name dependency
                       then Inl (Message (''skill manifest dependency_profile '' @ pr_Name dependency
                         @ '' does not match sandbox dependency_profile: '' @ selected))
                       else case validate_skill_limits s k of
                              Some e \<Rightarrow> Inl e
                            | None \<Rightarrow>
                                (case artifact_paths (sk_AllowedArtifactPaths k) of
                                   Inl e \<Rightarrow> Inl e
                                 | Inr paths \<Rightarrow>
                                     if trim_space (sk_ResultMode k) \<in> {''stdout_json'', ''stdout_text'', ''artifacts'', ''mixed''}
                                     then Inr (k\<lparr>sk_Entrypoint := entrypoint, sk_Language := language,
                                       sk_DependencyProfile := pr_Name dependency, sk_AllowedArtifactPaths := paths,
                                       sk_ResultMode := trim_space (sk_ResultMode k)\<rparr>)
                                     else Inl (Message ''skill manifest result_mode must be stdout_json, stdout_text, artifacts, or mixed'')))))"

definition parseSkillExecutionManifest ::
    "service \<Rightarrow> file_env \<Rightarrow> string \<Rightarrow> string list \<Rightarrow> string \<Rightarrow> string \<Rightarrow> sb_error + skill_manifest" where
  "parseSkillExecutionManifest s F content names sandboxDependencyProfile organizationID =
     (case fe_manifest F content of
        Inl e \<Rightarrow> Inl (Message (''invalid skill.manifest.json: '' @ e))
      | Inr k \<Rightarrow> validateSkillManifestFields s k names sandboxDependencyProfile organizationID)"

definition validateSkillExecutionManifest ::
    "service \<Rightarrow> file_env \<Rightarrow> archive_entry list \<Rightarrow> string \<Rightarrow> string \<Rightarrow> sb_error + skill_manifest" where
  "validateSkillExecutionManifest s F entries sandboxDependencyProfile organizationID =
     (case find (\<lambda>e. ae_name e = ''skill.manifest.json'') entries of
        None \<Rightarrow> Inl (Message ''skill.manifest.json is required when validate_skill_manifest is true'')
      | Some e \<Rightarrow>
          if zf_UncompressedSize64 (ae_file e) > 64 * 1024
          then Inl (Message ''skill.manifest.json exceeds max size of 65536 bytes'')
          else case readZipFile (ae_file e) (64 * 1024) of
                 Inl e \<Rightarrow> Inl e
               | Inr content \<Rightarrow>
                   parseSkillExecutionManifest s F content (map ae_name entries) sandboxDependencyProfile organizationID)"

section \<open>The limits on an archive\<close>

record archive_limits =
  al_maxFiles :: nat
  al_maxFileSize :: int
  al_maxTotalSize :: int

fun validate_entries :: "archive_limits \<Rightarrow> nat \<Rightarrow> int \<Rightarrow> archive_entry list \<Rightarrow> sb_error + int" where
  "validate_entries limit index totalSize [] = Inr totalSize"
| "validate_entries limit index totalSize (e # es) =
     (let n = int (zf_UncompressedSize64 (ae_file e))
      in if index \<ge> al_maxFiles limit
         then Inl (Message (''archive exceeds max file count of '' @ show_int (int (al_maxFiles limit))))
         else if zf_IsSymlink (ae_file e) then Inl (Message (''archive contains symlink: '' @ ae_name e))
         else if n > al_maxFileSize limit mod 2 ^ 64
         then Inl (max_size_error (''file '' @ ae_name e) (al_maxFileSize limit))
         else let totalSize = int64 (totalSize + int64 n)
              in if totalSize > al_maxTotalSize limit
                 then Inl (Message (''archive exceeds max total size of '' @ show_int (al_maxTotalSize limit) @ '' bytes''))
                 else validate_entries limit (index + 1) totalSize es)"

definition validateArchiveEntriesWithinLimits :: "archive_entry list \<Rightarrow> archive_limits \<Rightarrow> sb_error + int" where
  "validateArchiveEntriesWithinLimits entries limit = validate_entries limit 0 0 entries"

definition entry_path :: "string \<Rightarrow> archive_entry \<Rightarrow> string" where
  "entry_path destination e = Join [destination, ae_name e]"

text \<open>
  What an archive would make of the workspace: the sizes of the files it replaces and of those it
  brings, by target; the last entry for a target counts.
\<close>

fun project_sizes ::
    "os_env \<Rightarrow> fsys \<Rightarrow> string \<Rightarrow> string \<Rightarrow> archive_entry list \<Rightarrow> (string, int) gomap \<Rightarrow> (string, int) gomap
      \<Rightarrow> sb_error + (string, int) gomap \<times> (string, int) gomap" where
  "project_sizes W fs root destination [] replaced incoming = Inr (replaced, incoming)"
| "project_sizes W fs root destination (e # es) replaced incoming =
     (case resolveWritableSandboxPath W fs root (entry_path destination e) of
        Inl err \<Rightarrow> Inl err
      | Inr target \<Rightarrow>
          (case (if target \<in> fst ` set replaced then Inr replaced
                 else map_sum id (\<lambda>n. AList.update target n replaced) (existingRegularFileSize W fs target)) of
             Inl err \<Rightarrow> Inl err
           | Inr replaced \<Rightarrow>
               if zf_UncompressedSize64 (ae_file e) > 2 ^ 63 - 1
               then Inl (Message (''file '' @ ae_name e @ '' exceeds supported size''))
               else project_sizes W fs root destination es replaced
                      (AList.update target (int (zf_UncompressedSize64 (ae_file e))) incoming)))"

definition projectedWorkspaceSizeForArchive ::
    "os_env \<Rightarrow> fsys \<Rightarrow> string \<Rightarrow> string \<Rightarrow> archive_entry list \<Rightarrow> sb_error + int" where
  "projectedWorkspaceSizeForArchive W fs root destination entries =
     (case workspaceByteSize W fs root of
        Inl e \<Rightarrow> Inl e
      | Inr currentSize \<Rightarrow>
          map_sum id (\<lambda>(replaced, incoming).
              foldl (\<lambda>n (target, existing). int64 (int64 (n - existing) + the (map_of incoming target))) currentSize replaced)
            (project_sizes W fs root destination entries [] []))"

fun project_count ::
    "os_env \<Rightarrow> fsys \<Rightarrow> string \<Rightarrow> string \<Rightarrow> archive_entry list \<Rightarrow> string list \<Rightarrow> int \<Rightarrow> sb_error + int" where
  "project_count W fs root destination [] targets count = Inr count"
| "project_count W fs root destination (e # es) targets count =
     (case resolveWritableSandboxPath W fs root (entry_path destination e) of
        Inl err \<Rightarrow> Inl err
      | Inr target \<Rightarrow>
          if target \<in> set targets then project_count W fs root destination es targets count
          else case regularFileExists W fs target of
                 Inl err \<Rightarrow> Inl err
               | Inr found \<Rightarrow>
                   project_count W fs root destination es (target # targets) (if found then count else count + 1))"

definition projectedWorkspaceFileCountForArchive ::
    "os_env \<Rightarrow> fsys \<Rightarrow> string \<Rightarrow> string \<Rightarrow> archive_entry list \<Rightarrow> sb_error + int" where
  "projectedWorkspaceFileCountForArchive W fs root destination entries =
     (case workspaceFileCount W fs root of
        Inl e \<Rightarrow> Inl e
      | Inr count \<Rightarrow> project_count W fs root destination entries [] count)"

section \<open>Writing and taking back\<close>

record file_snapshot =
  sn_path :: string
  sn_exists :: bool
  sn_content :: string
  sn_mode :: nat

definition snapshotExistingFile :: "os_env \<Rightarrow> fsys \<Rightarrow> string \<Rightarrow> sb_error + file_snapshot" where
  "snapshotExistingFile W fs p =
     (case Lstat W fs p of
        Inl e \<Rightarrow>
          if e = ENOENT then Inr \<lparr>sn_path = p, sn_exists = False, sn_content = [], sn_mode = 0\<rparr>
          else Inl (path_error ''lstat'' p e)
      | Inr (Symlink t) \<Rightarrow> Inl (Message (''target path is a symlink: '' @ p))
      | Inr Directory \<Rightarrow> Inl (Message (''target path is a directory: '' @ p))
      | Inr (Regular c mode) \<Rightarrow>
          (case ReadFile W fs p of
             Inl e \<Rightarrow> Inl (path_error ''open'' p e)
           | Inr content \<Rightarrow> Inr \<lparr>sn_path = p, sn_exists = True, sn_content = content, sn_mode = mode\<rparr>))"

text \<open>The snapshots are kept with the newest first, the order in which they are taken back.\<close>

fun rollbackWrittenFiles :: "os_env \<Rightarrow> file_snapshot list \<Rightarrow> fsys \<Rightarrow> fsys" where
  "rollbackWrittenFiles W [] fs = fs"
| "rollbackWrittenFiles W (f # files) fs =
     rollbackWrittenFiles W files
       (snd (if sn_exists f then WriteFile W (sn_path f) (sn_content f) (sn_mode f) fs else Remove W (sn_path f) fs))"

record archive_request =
  ar_SandboxID :: string
  ar_Path :: string
  ar_ArchiveBase64 :: string
  ar_Format :: string
  ar_StripRoot :: bool
  ar_ValidateSkillManifest :: bool

record archive_result =
  au_SandboxID :: string
  au_Path :: string
  au_Files :: "file_info list"
  au_FileCount :: int
  au_TotalSize :: int
  au_SkillManifest :: "skill_manifest option"

text \<open>One entry: the file is written, and the snapshot is added to those that were written before.\<close>

definition write_entry ::
    "os_env \<Rightarrow> string \<Rightarrow> string \<Rightarrow> int \<Rightarrow> archive_entry \<Rightarrow> file_snapshot list \<Rightarrow> fsys \<Rightarrow> sb_error option \<times> file_snapshot list \<times> fsys" where
  "write_entry W root destination maxFileSize e written fs =
     (case resolveWritableSandboxPath W fs root (entry_path destination e) of
        Inl err \<Rightarrow> (Some err, written, fs)
      | Inr target \<Rightarrow>
          (case snapshotExistingFile W fs target of
             Inl err \<Rightarrow> (Some err, written, fs)
           | Inr snapshot \<Rightarrow>
               (case MkdirAll W (path_parts (Dir target)) fs of
                  (Some (ps, err), fs) \<Rightarrow> (Some (path_error ''mkdir'' (abs_path ps) err), written, fs)
                | (None, fs) \<Rightarrow>
                    (case readZipFile (ae_file e) maxFileSize of
                       Inl err \<Rightarrow> (Some err, written, fs)
                     | Inr content \<Rightarrow>
                         (case WriteFile W target content 420 fs of
                            (Some err, fs) \<Rightarrow> (Some (path_error ''open'' target err), written, fs)
                          | (None, fs) \<Rightarrow> (None, snapshot # written, fs))))))"

fun write_entries ::
    "'c manager_env \<Rightarrow> file_env \<Rightarrow> time \<Rightarrow> archive_request \<Rightarrow> string \<Rightarrow> int \<Rightarrow> archive_entry list \<Rightarrow> file_snapshot list \<Rightarrow> file_info list
      \<Rightarrow> fsys \<Rightarrow> 'c manager \<Rightarrow> (sb_error + file_info list) \<times> fsys \<times> 'c manager" where
  "write_entries E F now req root maxFileSize [] written files fs m = (Inr (rev files), fs, m)"
| "write_entries E F now req root maxFileSize (e # es) written files fs m =
     (case write_entry (fe_os F) root (ar_Path req) maxFileSize e written fs of
        (Some err, written, fs) \<Rightarrow> (Inl err, rollbackWrittenFiles (fe_os F) written fs, m)
      | (None, written, fs) \<Rightarrow>
          (case StatFile E F now (ar_SandboxID req) (entry_path (ar_Path req) e) fs m of
             (Inl err, m) \<Rightarrow> (Inl err, rollbackWrittenFiles (fe_os F) written fs, m)
           | (Inr info, m) \<Rightarrow> write_entries E F now req root maxFileSize es written (info # files) fs m))"

text \<open>The checks between the unpacking and the first write.\<close>

definition admit_archive ::
    "'c manager_env \<Rightarrow> file_env \<Rightarrow> time \<Rightarrow> archive_request \<Rightarrow> sandbox \<Rightarrow> archive_entry list \<Rightarrow> fsys \<Rightarrow> 'c manager
      \<Rightarrow> (sb_error + int) \<times> 'c manager" where
  "admit_archive E F now req box entries fs m =
     (let W = fe_os F; s = me_policy E; root = sb_RootPath box;
          limit = \<lparr>al_maxFiles = 256, al_maxFileSize = MaxFileSizeBytes s, al_maxTotalSize = int64 (MaxFileSizeBytes s * 256)\<rparr>
      in case validateArchiveEntriesWithinLimits entries limit of
           Inl e \<Rightarrow> (Inl e, m)
         | Inr totalSize \<Rightarrow>
             (case projectedWorkspaceSizeForArchive W fs root (ar_Path req) entries of
                Inl e \<Rightarrow> (Inl e, m)
              | Inr projectedSize \<Rightarrow>
                  (case enforce_bytes E W now box projectedSize fs m of
                     (Some e, m) \<Rightarrow> (Inl e, m)
                   | (None, m) \<Rightarrow>
                       (case projectedWorkspaceFileCountForArchive W fs root (ar_Path req) entries of
                          Inl e \<Rightarrow> (Inl e, m)
                        | Inr projectedCount \<Rightarrow>
                            (case enforceWorkspaceFileLimitForCount s projectedCount of
                               Some e \<Rightarrow> (Inl e, m)
                             | None \<Rightarrow> (Inr totalSize, m))))))"

definition open_archive :: "file_env \<Rightarrow> archive_request \<Rightarrow> sb_error + archive_entry list" where
  "open_archive F req =
     (case DecodeString (ar_ArchiveBase64 req) of
        Inl e \<Rightarrow> Inl (Message (''invalid archive_base64: '' @ e))
      | Inr bytes \<Rightarrow>
          (case fe_zip F bytes of
             Inl e \<Rightarrow> Inl (Message (''invalid zip archive: '' @ e))
           | Inr files \<Rightarrow> normalizeArchiveEntries files (ar_StripRoot req)))"

definition archive_skill ::
    "service \<Rightarrow> file_env \<Rightarrow> archive_request \<Rightarrow> sandbox \<Rightarrow> archive_entry list \<Rightarrow> sb_error + skill_manifest option" where
  "archive_skill s F req box entries =
     (if ar_ValidateSkillManifest req
      then map_sum id Some (validateSkillExecutionManifest s F entries (sb_DependencyProfile box) (sb_OrganizationID box))
      else Inr None)"

definition UploadArchive ::
    "'c manager_env \<Rightarrow> file_env \<Rightarrow> time \<Rightarrow> archive_request \<Rightarrow> fsys \<Rightarrow> 'c manager \<Rightarrow> (sb_error + archive_result) \<times> fsys \<times> 'c manager" where
  "UploadArchive E F now req fs m =
     (let req = (if trim_space (ar_Path req) = [] then req\<lparr>ar_Path := ''.''\<rparr> else req)
      in if trim_space (ar_SandboxID req) = [] then (Inl (Message ''sandbox_id is required''), fs, m)
         else if trim_space (ar_ArchiveBase64 req) = [] then (Inl (Message ''archive_base64 is required''), fs, m)
         else if \<not> equal_fold (trim_space (ar_Format req)) ''zip'' then (Inl (Message ''unsupported archive format''), fs, m)
         else case Get E now (ar_SandboxID req) m of
           (Inl e, m) \<Rightarrow> (Inl e, fs, m)
         | (Inr box, m) \<Rightarrow>
             (case resolveWritableSandboxPath (fe_os F) fs (sb_RootPath box) (ar_Path req) of
                Inl e \<Rightarrow> (Inl e, fs, m)
              | Inr _ \<Rightarrow>
                  (case open_archive F req of
                     Inl e \<Rightarrow> (Inl e, fs, m)
                   | Inr entries \<Rightarrow>
                       (case archive_skill (me_policy E) F req box entries of
                          Inl e \<Rightarrow> (Inl e, fs, m)
                        | Inr manifest \<Rightarrow>
                            (case admit_archive E F now req box entries fs m of
                               (Inl e, m) \<Rightarrow> (Inl e, fs, m)
                             | (Inr totalSize, m) \<Rightarrow>
                                 (case write_entries E F now req (sb_RootPath box) (MaxFileSizeBytes (me_policy E)) entries [] [] fs m of
                                    (Inl e, fs, m) \<Rightarrow> (Inl e, fs, m)
                                  | (Inr files, fs, m) \<Rightarrow>
                                      (Inr \<lparr>au_SandboxID = ar_SandboxID req, au_Path = ar_Path req, au_Files = files,
                                         au_FileCount = int (length files), au_TotalSize = totalSize, au_SkillManifest = manifest\<rparr>,
                                       fs, record_file E now box ''files.upload_archive'' (ar_SandboxID req) ''archive uploaded''
                                         [(''path'', VString (ar_Path req)), (''file_count'', VInt Kint (int (length files))),
                                          (''total_size'', VInt Kint64 totalSize)] m)))))))"

end
