(* ===== verification/Go_Files_Walk.thy ===== *)
theory Go_Files_Walk
  imports Go_Files
begin

text \<open>
  When a walk succeeds: below a directory that can be reached, everything that is there and has no
  link on its way is reached by its path.
\<close>

section \<open>Walks that succeed\<close>

lemma walk_Cons_cases:
  assumes "walk fs links follow cur (p # ps) = Inr q"
  obtains (dot) "node fs cur = Some Directory" "p = [] \<or> p = ''.''" "walk fs links follow cur ps = Inr q"
  | (up) "node fs cur = Some Directory" "p = ''..''" "walk fs links follow (butlast cur) ps = Inr q"
  | (link) t where "node fs cur = Some Directory" "entry_name p" "node fs (cur @ [p]) = Some (Symlink t)" "ps \<noteq> [] \<or> follow"
      "links \<noteq> 0" "t \<noteq> []" "walk fs (links - 1) follow (if IsAbs t then [] else cur) (split_on slash t @ ps) = Inr q"
  | (link_end) t where "node fs cur = Some Directory" "entry_name p" "node fs (cur @ [p]) = Some (Symlink t)" "ps = []" "\<not> follow" "q = cur @ [p]"
  | (down) n where "node fs cur = Some Directory" "entry_name p" "node fs (cur @ [p]) = Some n" "\<forall>t. n \<noteq> Symlink t"
      "walk fs links follow (cur @ [p]) ps = Inr q"
  | (missing) "node fs cur = Some Directory" "entry_name p" "node fs (cur @ [p]) = None" "ps = []" "q = cur @ [p]"
proof -
  have cur: "node fs cur = Some Directory" using assms by (simp split: if_splits)
  show ?thesis
  proof (cases "entry_name p")
    case False
    with assms cur dot up show ?thesis by (auto simp: entry_name_def split: if_splits)
  next
    case name: True
    show ?thesis
    proof (cases "node fs (cur @ [p])")
      case None
      with assms cur name missing show ?thesis by (auto simp: entry_name_def split: if_splits)
    next
      case (Some n)
      show ?thesis
      proof (cases n)
        case (Symlink t)
        with Some assms cur name link link_end show ?thesis by (auto simp: entry_name_def split: if_splits)
      qed (use Some assms cur name down in \<open>auto simp: entry_name_def\<close>)
    qed
  qed
qed

lemma walk_link:
  "node fs cur = Some Directory \<Longrightarrow> entry_name p \<Longrightarrow> node fs (cur @ [p]) = Some (Symlink t) \<Longrightarrow> ps \<noteq> [] \<or> follow \<Longrightarrow> links \<noteq> 0 \<Longrightarrow> t \<noteq> [] \<Longrightarrow>
     walk fs links follow cur (p # ps) = walk fs (links - 1) follow (if IsAbs t then [] else cur) (split_on slash t @ ps)"
  by (auto simp: entry_name_def)

lemma walk_down:
  "node fs cur = Some Directory \<Longrightarrow> entry_name p \<Longrightarrow> node fs (cur @ [p]) = Some n \<Longrightarrow> \<forall>t. n \<noteq> Symlink t \<Longrightarrow>
     walk fs links follow cur (p # ps) = walk fs links follow (cur @ [p]) ps"
  by (cases n) (auto simp: entry_name_def)

declare walk.simps(2) [simp del]

lemma walk_dot: "node fs cur = Some Directory \<Longrightarrow> p = [] \<or> p = ''.'' \<Longrightarrow> walk fs links follow cur (p # ps) = walk fs links follow cur ps"
  by (auto simp: walk.simps(2))

lemma walk_up: "node fs cur = Some Directory \<Longrightarrow> walk fs links follow cur (''..'' # ps) = walk fs links follow (butlast cur) ps"
  by (simp add: walk.simps(2))

lemma walk_missing_end:
  "node fs cur = Some Directory \<Longrightarrow> entry_name p \<Longrightarrow> node fs (cur @ [p]) = None \<Longrightarrow> walk fs links follow cur [p] = Inr (cur @ [p])"
  by (simp add: walk.simps(2) entry_name_def)

lemma walk_induct [consumes 1, case_names here dot up link link_end down missing]:
  assumes "walk fs links follow cur ps = Inr q"
    and "\<And>links cur. P links cur [] cur"
    and "\<And>links cur p ps q. node fs cur = Some Directory \<Longrightarrow> p = [] \<or> p = ''.'' \<Longrightarrow> walk fs links follow cur ps = Inr q \<Longrightarrow>
      P links cur ps q \<Longrightarrow> P links cur (p # ps) q"
    and "\<And>links cur ps q. node fs cur = Some Directory \<Longrightarrow> walk fs links follow (butlast cur) ps = Inr q \<Longrightarrow>
      P links (butlast cur) ps q \<Longrightarrow> P links cur (''..'' # ps) q"
    and "\<And>links cur p ps t q. node fs cur = Some Directory \<Longrightarrow> entry_name p \<Longrightarrow> node fs (cur @ [p]) = Some (Symlink t) \<Longrightarrow>
      ps \<noteq> [] \<or> follow \<Longrightarrow> t \<noteq> [] \<Longrightarrow> walk fs links follow (if IsAbs t then [] else cur) (split_on slash t @ ps) = Inr q \<Longrightarrow>
      P links (if IsAbs t then [] else cur) (split_on slash t @ ps) q \<Longrightarrow> P (Suc links) cur (p # ps) q"
    and "\<And>links cur p t. node fs cur = Some Directory \<Longrightarrow> entry_name p \<Longrightarrow> node fs (cur @ [p]) = Some (Symlink t) \<Longrightarrow>
      \<not> follow \<Longrightarrow> P links cur [p] (cur @ [p])"
    and "\<And>links cur p ps n q. node fs cur = Some Directory \<Longrightarrow> entry_name p \<Longrightarrow> node fs (cur @ [p]) = Some n \<Longrightarrow>
      \<forall>t. n \<noteq> Symlink t \<Longrightarrow> walk fs links follow (cur @ [p]) ps = Inr q \<Longrightarrow> P links (cur @ [p]) ps q \<Longrightarrow> P links cur (p # ps) q"
    and "\<And>links cur p. node fs cur = Some Directory \<Longrightarrow> entry_name p \<Longrightarrow> node fs (cur @ [p]) = None \<Longrightarrow> P links cur [p] (cur @ [p])"
  shows "P links cur ps q"
  using assms(1)
proof (induction "(links, length ps)" arbitrary: links cur ps rule: wf_induct_rule [OF wf_lex_prod [OF wf_less_than wf_less_than]])
  case (1 links ps cur)
  show ?case
  proof (cases ps)
    case Nil
    with 1(2) assms(2) show ?thesis by simp
  next
    case (Cons p qs)
    from 1(2) [unfolded Cons] have "P links cur (p # qs) q"
    proof (cases rule: walk_Cons_cases)
      case dot
      with 1(1) [of links qs cur] Cons assms(3) show ?thesis by simp
    next
      case up
      with 1(1) [of links qs "butlast cur"] Cons assms(4) show ?thesis by simp
    next
      case (link t)
      then obtain k where k: "links = Suc k" by (cases links) auto
      with link 1(1) [of k "split_on slash t @ qs"] Cons assms(5) [of cur p t qs k q] show ?thesis by simp
    next
      case (link_end t)
      with assms(6) [of cur p t links] show ?thesis by simp
    next
      case (down n)
      with 1(1) [of links qs "cur @ [p]"] Cons assms(7) [of cur p n links qs q] show ?thesis by simp
    next
      case missing
      with assms(8) show ?thesis by simp
    qed
    with Cons show ?thesis by simp
  qed
qed

lemma walk_follow:
  "walk fs links follow cur ps = Inr q \<Longrightarrow> \<forall>t. node fs q \<noteq> Some (Symlink t) \<Longrightarrow> walk fs links True cur ps = Inr q"
  by (induction rule: walk_induct)
    (auto simp: walk_dot walk_up walk_down walk_missing_end walk_link)

text \<open>A walk can be taken in two parts.\<close>

lemma walk_prefix:
  "walk fs links follow cur rs = Inr q \<Longrightarrow> rs = ps @ qs \<Longrightarrow> qs \<noteq> [] \<Longrightarrow>
     \<exists>c. walk fs links True cur ps = Inr c \<and> node fs c = Some Directory"
proof (induction arbitrary: ps rule: walk_induct)
  case (link links cur p rs t q)
  show ?case
  proof (cases ps)
    case (Cons p' ps')
    with link obtain c where c: "walk fs links True (if IsAbs t then [] else cur) (split_on slash t @ ps') = Inr c" "node fs c = Some Directory"
      by auto
    with link Cons walk_link [of fs cur p t ps' True "Suc links"] show ?thesis by auto
  qed (use link in simp)
qed (auto simp: Cons_eq_append_conv walk_dot walk_up walk_down)

lemma walk_continue:
  "walk fs links follow cur ps = Inr c \<Longrightarrow> follow \<Longrightarrow> node fs c = Some Directory \<Longrightarrow>
     \<exists>k. \<forall>f qs. qs \<noteq> [] \<longrightarrow> walk fs links f cur (ps @ qs) = walk fs k f c qs"
proof (induction rule: walk_induct)
  case (link links cur p ps t q)
  then obtain k where k: "\<And>f qs. qs \<noteq> [] \<Longrightarrow>
      walk fs links f (if IsAbs t then [] else cur) ((split_on slash t @ ps) @ qs) = walk fs k f q qs"
    by blast
  then have "walk fs (Suc links) f cur ((p # ps) @ qs) = walk fs k f q qs" if "qs \<noteq> []" for f qs
    using link that walk_link [of fs cur p t "ps @ qs" f "Suc links"] by simp
  then show ?case by blast
qed (auto simp: walk_dot walk_up walk_down)

lemma walk_existing:
  "\<forall>p \<in> set ps. plain_part p \<Longrightarrow> unlinked fs c (butlast ps) \<Longrightarrow> wf_fs fs \<Longrightarrow> node fs (c @ ps) \<noteq> None \<Longrightarrow>
     \<not> follow \<or> (\<forall>t. node fs (c @ ps) \<noteq> Some (Symlink t)) \<Longrightarrow> walk fs links follow c ps = Inr (c @ ps)"
proof (induction ps arbitrary: c)
  case (Cons p ps)
  have "prefix (c @ [p]) (c @ p # ps)" by (simp add: prefix_def)
  from wf_fs_missing [OF Cons.prems(3) _ this] Cons.prems(4) have "node fs (c @ [p]) \<noteq> None" by metis
  then obtain n where n: "node fs (c @ [p]) = Some n" by blast
  have dir: "node fs c = Some Directory" using Cons.prems(3) n unfolding wf_fs_def by blast
  show ?case
  proof (cases "\<exists>t. n = Symlink t")
    case True
    with Cons.prems(2) n have "ps = []" by (auto simp: unlinked_Cons split: if_splits)
    with True Cons.prems(1,5) n dir show ?thesis by (auto simp: walk.simps(2) plain_part_def)
  next
    case False
    have "unlinked fs (c @ [p]) (butlast ps)"
      using Cons.prems(2) by (cases ps) (auto simp: unlinked_Cons unlinked_def)
    with False Cons n dir show ?thesis
      using Cons.IH [of "c @ [p]"] walk_down [of fs c p n] by (simp add: plain_entry_name)
  qed
qed simp

section \<open>Paths that lead somewhere\<close>

lemma set_join_with: "x \<noteq> c \<Longrightarrow> x \<in> set (join_with [c] ps) \<longleftrightarrow> (\<exists>p \<in> set ps. x \<in> set p)"
  by (induction "[c]" ps rule: join_with.induct) auto

lemma nul_abs_path: "byte 0 \<in> set (abs_path ps) \<longleftrightarrow> (\<exists>p \<in> set ps. byte 0 \<in> set p)"
proof -
  have "byte 0 \<noteq> slash" by code_simp
  then show ?thesis using set_join_with [of "byte 0" slash ps] by (simp add: abs_path_def)
qed

lemma resolve_abs_path:
  assumes "\<forall>p \<in> set ps. plain_part p"
  shows "resolve W fs follow (abs_path ps) =
     (if \<exists>p \<in> set ps. byte 0 \<in> set p then Inl EINVAL else walk fs 40 follow [] ps)"
proof -
  have "abs_path ps \<noteq> []" by (simp add: abs_path_def)
  then show ?thesis
    by (simp add: resolve_def nul_abs_path split_abs_path [OF assms] walk_dot)
qed

lemma resolve_follow:
  "resolve W fs follow p = Inr q \<Longrightarrow> \<forall>t. node fs q \<noteq> Some (Symlink t) \<Longrightarrow> resolve W fs True p = Inr q"
  by (auto simp: resolve_def intro: walk_follow split: if_splits option.splits)

lemma resolve_parent:
  assumes "resolve W fs follow (abs_path (R @ [x])) = Inr q" and "\<forall>p \<in> set (R @ [x]). plain_part p"
  shows "\<exists>d. resolve W fs True (abs_path R) = Inr d \<and> node fs d = Some Directory"
proof -
  from assms have "walk fs 40 follow [] (R @ [x]) = Inr q" and "\<not> (\<exists>p \<in> set R. byte 0 \<in> set p)"
    by (auto simp: resolve_abs_path split: if_splits)
  with walk_prefix [OF this(1) refl] assms(2) show ?thesis by (auto simp: resolve_abs_path)
qed

lemma jail_walk:
  assumes "jail W fs R c ps"
  shows "walk fs 40 True [] R = Inr c" and "\<not> (\<exists>p \<in> set R. byte 0 \<in> set p)"
  using assms by (auto simp: jail_def resolve_abs_path split: if_splits)

lemma jail_existing:
  assumes "jail W fs R c (butlast ps)" and "\<forall>p \<in> set ps. plain_part p" and "node fs (c @ ps) \<noteq> None"
    and "\<not> (\<exists>p \<in> set ps. byte 0 \<in> set p)" and "ps \<noteq> []" and "\<not> follow \<or> (\<forall>t. node fs (c @ ps) \<noteq> Some (Symlink t))"
  shows "resolve W fs follow (abs_path (R @ ps)) = Inr (c @ ps)"
proof -
  have wf: "wf_fs fs" and plain: "\<forall>p \<in> set (R @ ps). plain_part p" and un: "unlinked fs c (butlast ps)"
    using assms(1,2) by (auto simp: jail_def)
  have "prefix (c @ [hd ps]) (c @ ps)" using assms(5) by (cases ps) (auto simp: prefix_def)
  from wf_fs_missing [OF wf _ this] assms(3) have "node fs (c @ [hd ps]) \<noteq> None" by metis
  with wf have "node fs c = Some Directory" unfolding wf_fs_def by blast
  with walk_continue [OF jail_walk(1) [OF assms(1)]] obtain k where
    "walk fs 40 follow [] (R @ ps) = walk fs k follow c ps" using assms(5) by blast
  with walk_existing [OF assms(2) un wf assms(3,6)] have "walk fs 40 follow [] (R @ ps) = Inr (c @ ps)" by simp
  with assms(4) jail_walk(2) [OF assms(1)] show ?thesis by (auto simp: resolve_abs_path [OF plain])
qed

lemma jail_Lstat:
  assumes "jail W fs R c ps" and "plain_part p" and "Lstat W fs (abs_path (R @ ps @ [p])) = Inr n"
  shows "node fs (c @ ps @ [p]) = Some n"
proof -
  from assms(3) obtain q where q: "resolve W fs False (abs_path (R @ ps @ [p])) = Inr q" "node fs q = Some n"
    by (auto simp: stat_with_def split: sum.splits option.splits)
  have "reaches fs False [] ((R @ ps) @ [p]) q"
    using resolve_abs [OF q(1)] assms(1,2) by (auto simp: jail_def)
  then obtain d where d: "reaches fs True [] (R @ ps) d" "reaches fs False d [p] q" using reaches_split by blast
  have root: "reaches fs True [] R c" using assms(1) by (intro resolve_abs) (auto simp: jail_def)
  have "d = c @ ps"
  proof (cases "ps = []")
    case True
    with d(1) reaches_unique [OF root] show ?thesis by auto
  next
    case False
    with d(1) obtain c' where c': "reaches fs True [] R c'" "reaches fs True c' ps d" using reaches_split by blast
    from reaches_unique [OF root c'(1)] have "c' = c" ..
    with c' assms(1) show ?thesis using reaches_below by (auto simp: jail_def)
  qed
  moreover have "q = d @ [p]"
    using d(2) assms(2) by (auto elim!: reaches_ConsE reaches_NilE simp: plain_part_def entry_name_def)
  ultimately show ?thesis using q(2) by simp
qed

lemma jail_missing:
  assumes "jail W fs R c ps" and "plain_part p" and "Lstat W fs (abs_path (R @ ps @ [p])) = Inl ENOENT"
  shows "node fs (c @ ps @ [p]) = None"
proof (rule ccontr)
  assume n: "node fs (c @ ps @ [p]) \<noteq> None"
  have plain: "\<forall>q \<in> set (R @ ps @ [p]). plain_part q" "\<forall>q \<in> set (ps @ [p]). plain_part q"
    using assms(1,2) by (auto simp: jail_def)
  have "\<not> (\<exists>q \<in> set (ps @ [p]). byte 0 \<in> set q)"
    using assms(3) by (auto simp: stat_with_def resolve_abs_path [OF plain(1)] split: if_splits)
  from jail_existing [OF _ plain(2) _ this] assms(1) n
  have "resolve W fs False (abs_path (R @ ps @ [p])) = Inr (c @ ps @ [p])" by simp
  with assms(3) n show False by (auto simp: stat_with_def split: option.splits)
qed

end
