(* ===== verification/Sandbox_Files_Safety.thy ===== *)
theory Sandbox_Files_Safety
  imports Sandbox_Archive Go_Files_Walk
begin

text \<open>
  The files of a sandbox stay in its directory: what the operations write, remove and read lies
  below the place where the root directory of the sandbox really is.
\<close>

section \<open>The path of a file\<close>

text \<open>The working directory of a process is an absolute path.\<close>

definition wd_ok :: "os_env \<Rightarrow> bool" where
  "wd_ok W \<longleftrightarrow> (\<forall>d. os_wd W = Some d \<longrightarrow> IsAbs d)"

definition root_dir :: "os_env \<Rightarrow> fsys \<Rightarrow> string \<Rightarrow> path option" where
  "root_dir W fs root =
     (case Abs (os_wd W) root of
        None \<Rightarrow> None
      | Some r \<Rightarrow> (case resolve W fs True r of Inl e \<Rightarrow> None | Inr c \<Rightarrow> Some c))"

definition below_parts :: "string \<Rightarrow> string list" where
  "below_parts relativePath = path_parts (''/'' @ relativePath)"

lemma below_parts_plain: "\<forall>p \<in> set (below_parts rel). plain_part p"
  unfolding below_parts_def by (intro path_parts_plain) simp

lemma Abs_parts:
  assumes "wd_ok W" and "Abs (os_wd W) root = Some r"
  shows "\<exists>R. r = abs_path R \<and> (\<forall>p \<in> set R. plain_part p)"
proof (cases "IsAbs root")
  case True
  with assms(2) Clean_abs path_parts_plain [OF True] show ?thesis by (auto simp: Abs_def)
next
  case False
  with assms obtain d where d: "IsAbs d" "r = Join [d, root]" by (auto simp: Abs_def wd_ok_def)
  then have "r = Clean (d @ slash # root)" "IsAbs (d @ slash # root)"
    by (cases d; simp add: Join_def)+
  with Clean_abs path_parts_plain show ?thesis by metis
qed

lemma Clean_root: "Clean (''/'' @ rel) = abs_path (below_parts rel)"
  by (simp add: Clean_abs below_parts_def)

lemma plain_not_escaping:
  assumes "\<forall>p \<in> set ps. plain_part p" and "ps \<noteq> []"
  shows "\<not> escapes (join_with ''/'' ps)" and "join_with ''/'' ps \<noteq> ''.''"
proof -
  have "split_on slash ''..'' = [''..'']" and "split_on slash ''.'' = [''.'']" by simp_all
  moreover have "split_on slash (''../'' @ s) = ''..'' # split_on slash s" for s by simp
  moreover have "split_on slash (join_with ''/'' ps) = ps" using assms by (simp add: split_join_parts)
  moreover have "''..'' \<notin> set ps" "''.'' \<notin> set ps" using assms(1) by (auto simp: plain_part_def)
  ultimately show "\<not> escapes (join_with ''/'' ps)" and "join_with ''/'' ps \<noteq> ''.''"
    by (metis append_take_drop_id has_prefix_def list.set_intros(1))+
qed

lemma resolveSandboxPath_Inr:
  assumes "wd_ok W" and "resolveSandboxPath W root rel = Inr target"
  obtains R where "Abs (os_wd W) root = Some (abs_path R)" and "\<forall>p \<in> set R. plain_part p"
    and "target = abs_path (R @ below_parts rel)"
proof -
  from assms(2) obtain r where r: "Abs (os_wd W) root = Some r" "target = Join [r, Clean (''/'' @ rel)]"
    by (auto simp: resolveSandboxPath_def Let_def split: if_splits option.splits)
  from Abs_parts [OF assms(1) r(1)] obtain R where R: "r = abs_path R" "\<forall>p \<in> set R. plain_part p" by blast
  with r that show ?thesis by (simp only: Clean_root Join_abs [OF R(2) below_parts_plain])
qed

lemma reject_loop_jail:
  "jail W fs R c qs \<Longrightarrow> \<forall>p \<in> set ps. plain_part p \<Longrightarrow> reject_loop W fs allow (abs_path (R @ qs)) ps = None \<Longrightarrow>
     jail W fs R c (qs @ ps) \<and> (\<not> allow \<longrightarrow> ps \<noteq> [] \<longrightarrow> node fs (c @ qs @ ps) \<noteq> None)"
proof (induction ps arbitrary: qs)
  case (Cons p ps)
  have plain: "\<forall>x \<in> set (R @ qs). plain_part x" "plain_part p" using Cons.prems(1,2) by (auto simp: jail_def)
  have cur: "Join [abs_path (R @ qs), p] = abs_path (R @ qs @ [p])"
    using Join_part [OF plain] by simp
  have grown: "jail W fs R c (qs @ [p])" if "\<forall>t. node fs (c @ qs @ [p]) \<noteq> Some (Symlink t)"
    using Cons.prems(1) plain that by (auto simp: jail_def unlinked_def)
  have "p \<noteq> [] \<and> p \<noteq> ''.''" using plain by (simp add: plain_part_def)
  then have loop: "reject_loop W fs allow (abs_path (R @ qs)) (p # ps) =
      (case Lstat W fs (abs_path (R @ qs @ [p])) of
         Inl e \<Rightarrow> if e = ENOENT \<and> allow then None else Some (path_error ''lstat'' (abs_path (R @ qs @ [p])) e)
       | Inr (Symlink t) \<Rightarrow> Some (Message (''path contains symlink: '' @ abs_path (R @ qs @ [p])))
       | Inr _ \<Rightarrow> reject_loop W fs allow (abs_path (R @ qs @ [p])) ps)"
    by (simp add: cur Let_def)
  show ?case
  proof (cases "Lstat W fs (abs_path (R @ qs @ [p]))")
    case (Inl e)
    with Cons.prems(3) loop have e: "e = ENOENT" "allow" by (auto split: if_splits)
    with jail_missing [OF Cons.prems(1) plain(2)] Inl have gone: "node fs (c @ qs @ [p]) = None" by simp
    have "node fs (c @ qs @ p # xs) = None" for xs
    proof -
      have "prefix (c @ qs @ [p]) (c @ qs @ p # xs)" by (simp add: prefix_def)
      with gone Cons.prems(1) wf_fs_missing show ?thesis unfolding jail_def by metis
    qed
    then have "unlinked fs c (qs @ p # ps)"
      using Cons.prems(1) unfolding jail_def unlinked_def by (auto simp: prefix_append prefix_Cons)
    with e Cons.prems(1,2) show ?thesis by (auto simp: jail_def)
  next
    case (Inr n)
    then have n: "\<forall>t. n \<noteq> Symlink t" "reject_loop W fs allow (abs_path (R @ qs @ [p])) ps = None"
      using Cons.prems(3) loop by (cases n; simp)+
    from jail_Lstat [OF Cons.prems(1) plain(2) Inr] have node: "node fs (c @ qs @ [p]) = Some n" .
    with n grown have "jail W fs R c (qs @ [p])" by simp
    with Cons.IH [of "qs @ [p]"] Cons.prems(2) n node show ?thesis by (cases "ps = []") auto
  qed
qed simp

lemma rejectSymlinkPath_jail:
  assumes "wf_fs fs" and root: "Abs (os_wd W) root = Some (abs_path R)" and plain: "\<forall>p \<in> set R. plain_part p" "\<forall>p \<in> set ps. plain_part p"
    and "rejectSymlinkPath W fs root (abs_path (R @ ps)) allow = None"
  obtains c where "jail W fs R c ps" and "\<not> allow \<Longrightarrow> node fs (c @ ps) \<noteq> None"
proof -
  have Rps: "\<forall>p \<in> set (R @ ps). plain_part p" using plain by auto
  have abs: "Abs (os_wd W) (abs_path (R @ ps)) = Some (abs_path (R @ ps))"
    using Clean_abs_path [OF Rps] by (simp add: Abs_def)
  from assms(5) root abs obtain n where n: "Lstat W fs (abs_path R) = Inr n" "\<forall>t. n \<noteq> Symlink t"
    by (auto simp: rejectSymlinkPath_def split: sum.splits inode.splits)
  then obtain c where c: "resolve W fs False (abs_path R) = Inr c" "node fs c = Some n"
    by (auto simp: stat_with_def split: sum.splits option.splits)
  with n resolve_follow have "resolve W fs True (abs_path R) = Inr c" by fastforce
  with assms(1) plain c have top: "jail W fs R c []" by (auto simp: jail_def unlinked_def)
  show ?thesis
  proof (cases "ps = []")
    case True
    with top c that [of c] show ?thesis by simp
  next
    case False
    have rel: "Rel (abs_path R) (abs_path (R @ ps)) = Some (join_with ''/'' ps)"
      using Rel_below [OF plain] False by simp
    have "reject_loop W fs allow (abs_path R) ps = None"
      using assms(5) root abs n rel plain_not_escaping [OF plain(2) False] split_join_parts [OF plain(2)] False
      by (auto simp: rejectSymlinkPath_def split: inode.splits)
    with reject_loop_jail [OF top plain(2)] that [of c] False show ?thesis by simp
  qed
qed

lemma writable_jail:
  assumes "wf_fs fs" and "wd_ok W" and "resolveWritableSandboxPath W fs root rel = Inr target"
  obtains R c where "Abs (os_wd W) root = Some (abs_path R)" and "root_dir W fs root = Some c" and "target = abs_path (R @ below_parts rel)"
    and "jail W fs R c (below_parts rel)"
proof -
  from assms(3) have 1: "resolveSandboxPath W root rel = Inr target" "rejectSymlinkPath W fs root target True = None"
    by (auto simp: resolveWritableSandboxPath_def split: sum.splits option.splits)
  from resolveSandboxPath_Inr [OF assms(2) 1(1)] obtain R where R: "Abs (os_wd W) root = Some (abs_path R)"
    "\<forall>p \<in> set R. plain_part p" "target = abs_path (R @ below_parts rel)" .
  from rejectSymlinkPath_jail [OF assms(1) R(1,2) below_parts_plain 1(2) [unfolded R(3)]] obtain c where
    c: "jail W fs R c (below_parts rel)" .
  with R that show ?thesis by (auto simp: root_dir_def jail_def)
qed

lemma existing_jail:
  assumes "wf_fs fs" and "wd_ok W" and "resolveExistingSandboxPath W fs root rel = Inr target"
  obtains R c where "Abs (os_wd W) root = Some (abs_path R)" and "root_dir W fs root = Some c" and "target = abs_path (R @ below_parts rel)"
    and "jail W fs R c (below_parts rel)" and "node fs (c @ below_parts rel) \<noteq> None"
proof -
  from assms(3) have 1: "resolveSandboxPath W root rel = Inr target" "rejectSymlinkPath W fs root target False = None"
    by (auto simp: resolveExistingSandboxPath_def split: sum.splits option.splits)
  from resolveSandboxPath_Inr [OF assms(2) 1(1)] obtain R where R: "Abs (os_wd W) root = Some (abs_path R)"
    "\<forall>p \<in> set R. plain_part p" "target = abs_path (R @ below_parts rel)" .
  show ?thesis
  proof (rule rejectSymlinkPath_jail [OF assms(1) R(1,2) below_parts_plain 1(2) [unfolded R(3)]])
    fix c assume "jail W fs R c (below_parts rel)" and "\<not> False \<Longrightarrow> node fs (c @ below_parts rel) \<noteq> None"
    with R that show ?thesis by (auto simp: root_dir_def jail_def)
  qed
qed

section \<open>Making the directory of a file\<close>

lemma join_with_snoc: "xs \<noteq> [] \<Longrightarrow> join_with sep (xs @ [x]) = join_with sep xs @ sep @ x"
  by (induction sep xs rule: join_with.induct) auto

lemma Dir_abs_path:
  assumes "\<forall>p \<in> set ps. plain_part p"
  shows "path_parts (Dir (abs_path ps)) = butlast ps"
proof (cases ps rule: rev_cases)
  case Nil
  then show ?thesis by (simp add: Dir_def abs_path_def Clean_def path_parts_def)
next
  case (snoc qs p)
  have p: "slash \<notin> set p" and qs: "\<forall>q \<in> set qs. plain_part q" using assms snoc by (auto simp: plain_part_def)
  have "abs_path ps = (if qs = [] then [] else abs_path qs) @ ''/'' @ p"
    using snoc by (simp add: abs_path_def join_with_snoc)
  moreover have "rev (dropWhile (\<lambda>c. c \<noteq> slash) (rev (x @ ''/'' @ p))) = x @ ''/''" for x
  proof -
    have "c \<noteq> slash" if "c \<in> set (rev p)" for c using p that by auto
    then have "dropWhile (\<lambda>c. c \<noteq> slash) (rev p @ slash # rev x) = slash # rev x" by (subst dropWhile_append2) simp_all
    then show ?thesis by simp
  qed
  ultimately have dir: "Dir (abs_path ps) = Clean ((if qs = [] then [] else abs_path qs) @ ''/'')"
    by (simp only: Dir_def)
  have "path_parts ((if qs = [] then [] else abs_path qs) @ ''/'') = qs"
  proof (cases "qs = []")
    case True
    then show ?thesis by (simp add: path_parts_def)
  next
    case False
    with qs split_on_join_append [of qs slash "[]"] show ?thesis
      by (auto simp: path_parts_def abs_path_def plain_part_def clean_parts_append clean_parts_push [OF qs])
  qed
  moreover have "IsAbs ((if qs = [] then [] else abs_path qs) @ ''/'')" by (simp add: abs_path_def)
  ultimately have "Dir (abs_path ps) = abs_path qs" using dir Clean_abs by simp
  with qs snoc show ?thesis by (simp add: path_parts_abs_path)
qed

lemma MkdirAll_Dir:
  assumes "jail W fs R c ps" and "MkdirAll W (path_parts (Dir (abs_path (R @ ps)))) fs = (r, fs')"
  shows "adds_dirs fs fs' c (c @ ps)"
proof -
  have plain: "\<forall>p \<in> set (R @ ps). plain_part p" and wf: "wf_fs fs" using assms(1) by (auto simp: jail_def)
  have dir: "MkdirAll W (butlast (R @ ps)) fs = (r, fs')" using assms(2) Dir_abs_path [OF plain] by simp
  show ?thesis
  proof (cases ps rule: rev_cases)
    case Nil
    have "Stat W fs (abs_path (butlast R)) = Inr Directory"
    proof (cases R rule: rev_cases)
      case Nil
      then show ?thesis by (simp add: stat_with_def resolve_abs_path)
    next
      case (snoc R' x)
      have "resolve W fs True (abs_path (R' @ [x])) = Inr c" using assms(1) snoc by (simp add: jail_def)
      from resolve_parent [OF this] plain snoc Nil show ?thesis by (auto simp: stat_with_def)
    qed
    with dir Nil have "fs' = fs" by (simp add: MkdirAll.simps [of W "butlast R"])
    with wf show ?thesis by (simp add: adds_dirs_refl)
  next
    case (snoc ps' x)
    with assms(1) jail_butlast have "jail W fs R c ps'" by auto
    from MkdirAll_adds [OF this] dir snoc have "adds_dirs fs fs' c (c @ ps')" by (simp add: butlast_append)
    moreover from this have "wf_fs fs'" by (simp add: adds_dirs_def)
    ultimately show ?thesis using adds_dirs_trans [OF _ adds_dirs_refl] snoc by fastforce
  qed
qed

section \<open>What a file operation changes\<close>

text \<open>The paths at which two trees differ lie in a directory.\<close>

definition changes_below :: "path \<Rightarrow> fsys \<Rightarrow> fsys \<Rightarrow> bool" where
  "changes_below c fs fs' \<longleftrightarrow> (\<forall>p. node fs' p \<noteq> node fs p \<longrightarrow> prefix c p)"

lemma changes_below_refl [simp]: "changes_below c fs fs"
  by (simp add: changes_below_def)

lemma changes_below_trans: "changes_below c f g \<Longrightarrow> changes_below c g h \<Longrightarrow> changes_below c f h"
  unfolding changes_below_def by metis

lemma adds_dirs_below: "adds_dirs fs fs' c d \<Longrightarrow> changes_below c fs fs'"
  unfolding adds_dirs_def changes_below_def by (auto simp: strict_prefix_def)

lemma WriteFile_changes:
  assumes "jail W fs R c ps" and "WriteFile W (abs_path (R @ ps)) content perm fs = (r, fs')"
  shows "changes_below c fs fs'"
  using WriteFile_below(3) [OF assms] unfolding changes_below_def by (metis prefixI)

text \<open>The part of an upload that changes files: make the directory, then write.\<close>

lemma put_file_below:
  assumes "wf_fs fs" and "wd_ok W" and "resolveWritableSandboxPath W fs root rel = Inr target"
    and "MkdirAll W (path_parts (Dir target)) fs = (r, fs1)"
    and "fs' = fs1 \<or> (\<exists>content perm r. WriteFile W target content perm fs1 = (r, fs'))"
  shows "wf_fs fs'" and "\<exists>c. root_dir W fs root = Some c \<and> changes_below c fs fs'"
proof -
  obtain R c where "Abs (os_wd W) root = Some (abs_path R)"
      and c: "root_dir W fs root = Some c" "target = abs_path (R @ below_parts rel)" "jail W fs R c (below_parts rel)"
    using writable_jail [OF assms(1,2,3)] .
  have dirs: "adds_dirs fs fs1 c (c @ below_parts rel)" using MkdirAll_Dir [OF c(3)] assms(4) c(2) by simp
  have j: "jail W fs1 R c (below_parts rel)" using jail_adds_dirs [OF c(3) dirs] .
  show "wf_fs fs'"
    using assms(5) c(2) dirs WriteFile_below(1) [OF j] by (auto simp: adds_dirs_def jail_def)
  have "changes_below c fs1 fs'" using assms(5) c(2) WriteFile_changes [OF j] by auto
  then show "\<exists>c. root_dir W fs root = Some c \<and> changes_below c fs fs'"
    using c(1) changes_below_trans [OF adds_dirs_below [OF dirs]] by blast
qed

lemma UploadFile_steps:
  assumes "UploadFile E F now req fs m = (r, fs', m')"
  obtains (same) "fs' = fs"
  | (put) box m1 target r1 fs1 where "Get E now (fw_SandboxID req) m = (Inr box, m1)"
      and "resolveWritableSandboxPath (fe_os F) fs (sb_RootPath box) (fw_Path req) = Inr target"
      and "MkdirAll (fe_os F) (path_parts (Dir target)) fs = (r1, fs1)"
      and "fs' = fs1 \<or> (\<exists>content perm r. WriteFile (fe_os F) target content perm fs1 = (r, fs'))"
proof (cases "fs' = fs")
  case False
  obtain b m1 where get: "Get E now (fw_SandboxID req) m = (b, m1)" by fastforce
  from assms False get obtain box where b: "b = Inr box" by (cases b) (auto simp: UploadFile_def)
  show ?thesis
  proof (cases "resolveWritableSandboxPath (fe_os F) fs (sb_RootPath box) (fw_Path req)")
    case (Inl e)
    with get b assms False show ?thesis by (simp add: UploadFile_def)
  next
    case (Inr target)
    obtain r1 fs1 where 1: "MkdirAll (fe_os F) (path_parts (Dir target)) fs = (r1, fs1)" by fastforce
    have "fs' = fs1 \<or> (\<exists>content perm r. WriteFile (fe_os F) target content perm fs1 = (r, fs'))"
      using assms get b Inr 1
      by (auto simp: UploadFile_def Let_def split: option.splits sum.splits prod.splits if_splits)
    with put [OF _ Inr 1] get b show ?thesis by blast
  qed
qed (rule same)

end
