(* ===== verification/Sandbox_Archive_Safety.thy ===== *)
theory Sandbox_Archive_Safety
  imports Sandbox_Files_Safety
begin

text \<open>
  An archive writes below the root of its sandbox, and when it fails its rollback gives back every
  file as it was, unless a write failed in the middle.
\<close>

section \<open>Trees that differ in files and new directories\<close>

text \<open>
  Below \<open>c\<close> there may be new directories and, unless the relation is exact, files with another
  content or new files.
\<close>

fun may_become :: "bool \<Rightarrow> inode option \<Rightarrow> inode option \<Rightarrow> bool" where
  "may_become exact None (Some Directory) \<longleftrightarrow> True"
| "may_become exact None (Some (Regular x m)) \<longleftrightarrow> \<not> exact"
| "may_become exact (Some (Regular x m)) (Some (Regular x' m')) \<longleftrightarrow> \<not> exact"
| "may_become exact _ _ \<longleftrightarrow> False"

definition sim :: "bool \<Rightarrow> path \<Rightarrow> fsys \<Rightarrow> path set \<Rightarrow> fsys \<Rightarrow> bool" where
  "sim exact c fs but fs' \<longleftrightarrow>
     (\<forall>p. p \<notin> but \<longrightarrow> node fs' p \<noteq> node fs p \<longrightarrow> strict_prefix c p \<and> may_become exact (node fs p) (node fs' p))"

lemma simD:
  "sim exact c fs but fs' \<Longrightarrow> p \<notin> but \<Longrightarrow> node fs' p = node fs p \<or> strict_prefix c p \<and> may_become exact (node fs p) (node fs' p)"
  unfolding sim_def by blast

lemma may_become_cases:
  "may_become exact a b \<Longrightarrow> a = None \<and> b = Some Directory \<or> \<not> exact \<and> a = None \<and> (\<exists>x m. b = Some (Regular x m))
     \<or> \<not> exact \<and> (\<exists>x m. a = Some (Regular x m)) \<and> (\<exists>x m. b = Some (Regular x m))"
  by (induction exact a b rule: may_become.induct) auto

lemma may_become_trans: "may_become exact a b \<Longrightarrow> may_become exact b d \<Longrightarrow> may_become exact a d"
  by (auto dest!: may_become_cases)

lemma sim_refl [simp]: "sim exact c fs but fs"
  by (simp add: sim_def)

lemma sim_trans: "sim exact c f but g \<Longrightarrow> sim exact c g but h \<Longrightarrow> sim exact c f but h"
  unfolding sim_def by (metis may_become_trans)

lemma sim_grows: "sim exact c fs {} fs' \<Longrightarrow> grows fs fs'"
  unfolding grows_def
proof
  fix p assume "sim exact c fs {} fs'"
  from simD [OF this, of p]
  show "case node fs p of None \<Rightarrow> True | Some (Regular c m) \<Rightarrow> \<exists>c' m'. node fs' p = Some (Regular c' m') | Some n \<Rightarrow> node fs' p = Some n"
    by (auto dest!: may_become_cases split: option.splits inode.splits)
qed

lemma sim_except:
  assumes "sim exact c fs {q} fs'" and "strict_prefix c q" and "node fs' q = node fs q \<or> may_become exact (node fs q) (node fs' q)"
  shows "sim exact c fs {} fs'"
  unfolding sim_def
proof (intro allI impI)
  fix p assume "node fs' p \<noteq> node fs p"
  with assms(2,3) simD [OF assms(1), of p] show "strict_prefix c p \<and> may_become exact (node fs p) (node fs' p)"
    by (cases "p = q") auto
qed

lemma sim_cong: "sim exact c fs but fs1 \<Longrightarrow> (\<And>p. p \<notin> but \<Longrightarrow> node fs' p = node fs1 p) \<Longrightarrow> sim exact c fs but fs'"
  unfolding sim_def by simp

lemma sim_below: "sim exact c fs {} fs' \<Longrightarrow> changes_below c fs fs'"
  unfolding sim_def changes_below_def by (auto simp: strict_prefix_def)

lemma sim_adds_dirs: "adds_dirs fs fs' c d \<Longrightarrow> sim exact c fs {} fs'"
  unfolding adds_dirs_def sim_def by (metis may_become.simps(1))

lemma jail_sim:
  assumes "jail W fs R c ps" and "sim exact c fs {} fs'" and "wf_fs fs'"
  shows "jail W fs' R c ps"
proof -
  note grow = sim_grows [OF assms(2)]
  have "node fs' p = Some (Symlink t) \<Longrightarrow> node fs p = Some (Symlink t)" for p t
    using simD [OF assms(2), of p] by (auto dest!: may_become_cases)
  then have "unlinked fs' c ps" using assms(1) unfolding jail_def unlinked_def by blast
  then show ?thesis
    using assms grow resolve_grows [OF _ grow] growsD(4) [OF grow] unfolding jail_def by blast
qed

section \<open>Snapshots\<close>

text \<open>
  The snapshots of the files that were written since \<open>fs0\<close>, with the newest first: each tells what
  its path held before the write.
\<close>

definition snapshot_of :: "os_env \<Rightarrow> string list \<Rightarrow> path \<Rightarrow> bool \<Rightarrow> file_snapshot \<Rightarrow> string list \<Rightarrow> fsys \<Rightarrow> fsys \<Rightarrow> bool" where
  "snapshot_of W R c exact sn ps fs1 fs \<longleftrightarrow>
     sn_path sn = abs_path (R @ ps) \<and> ps \<noteq> [] \<and> \<not> (\<exists>p \<in> set ps. byte 0 \<in> set p)
     \<and> jail W fs R c ps \<and> sim exact c fs1 {c @ ps} fs
     \<and> (\<exists>x m. node fs (c @ ps) = Some (Regular x m) \<and> (exact \<and> sn_exists sn \<longrightarrow> m = sn_mode sn))
     \<and> node fs1 (c @ ps) = (if sn_exists sn then Some (Regular (sn_content sn) (sn_mode sn)) else None)"

fun undoable :: "os_env \<Rightarrow> string list \<Rightarrow> path \<Rightarrow> bool \<Rightarrow> fsys \<Rightarrow> file_snapshot list \<Rightarrow> fsys \<Rightarrow> bool" where
  "undoable W R c exact fs0 [] fs \<longleftrightarrow> sim exact c fs0 {} fs \<and> wf_fs fs"
| "undoable W R c exact fs0 (sn # written) fs \<longleftrightarrow>
     (\<exists>ps fs1. undoable W R c exact fs0 written fs1 \<and> snapshot_of W R c exact sn ps fs1 fs)"

lemma snapshot_of_sim:
  assumes "snapshot_of W R c exact sn ps fs1 fs" and "sim exact c fs {} fs'" and "wf_fs fs'"
  shows "snapshot_of W R c exact sn ps fs1 fs'"
proof -
  have "sim exact c fs {c @ ps} fs'" using assms(2) unfolding sim_def by simp
  with assms(1) sim_trans have "sim exact c fs1 {c @ ps} fs'" unfolding snapshot_of_def by blast
  moreover have "\<exists>x m. node fs' (c @ ps) = Some (Regular x m) \<and> (exact \<and> sn_exists sn \<longrightarrow> m = sn_mode sn)"
    using simD [OF assms(2), of "c @ ps"] assms(1) unfolding snapshot_of_def by (auto dest!: may_become_cases)
  moreover have "jail W fs' R c ps" using jail_sim [OF _ assms(2,3)] assms(1) unfolding snapshot_of_def by blast
  ultimately show ?thesis using assms(1) unfolding snapshot_of_def by blast
qed

lemma undoable_sim:
  assumes "undoable W R c exact fs0 written fs" and "sim exact c fs {} fs'" and "wf_fs fs'"
  shows "undoable W R c exact fs0 written fs'"
  using assms sim_trans snapshot_of_sim by (cases written) fastforce+

lemma undoable_wf: "undoable W R c exact fs0 written fs \<Longrightarrow> wf_fs fs"
  by (cases written) (auto simp: snapshot_of_def jail_def)

lemma undoable_weak:
  assumes "undoable W R c False fs0 written fs"
  shows "sim False c fs0 {} fs"
  using assms
proof (induction written arbitrary: fs)
  case (Cons sn w)
  then obtain ps fs1 x m where *: "ps \<noteq> []" "undoable W R c False fs0 w fs1" "sim False c fs1 {c @ ps} fs"
    "node fs (c @ ps) = Some (Regular x m)"
    "node fs1 (c @ ps) = (if sn_exists sn then Some (Regular (sn_content sn) (sn_mode sn)) else None)"
    unfolding undoable.simps snapshot_of_def by blast
  have "strict_prefix c (c @ ps)" using *(1) by (simp add: strict_prefix_def)
  moreover have "may_become False (node fs1 (c @ ps)) (node fs (c @ ps))" using *(4,5) by auto
  ultimately have "sim False c fs1 {} fs" using sim_except [OF *(3)] by blast
  with Cons.IH [OF *(2)] show ?case by (rule sim_trans)
qed simp

lemma jail_regular_resolve:
  assumes "jail W fs R c ps" and "node fs (c @ ps) = Some (Regular x m)" and "ps \<noteq> []" and "\<not> (\<exists>p \<in> set ps. byte 0 \<in> set p)"
  shows "resolve W fs follow (abs_path (R @ ps)) = Inr (c @ ps)"
proof (rule jail_existing)
  show "jail W fs R c (butlast ps)"
    using jail_butlast [of W fs R c "butlast ps" "last ps"] assms(1,3) by simp
qed (use assms in \<open>auto simp: jail_def\<close>)

lemma undo_one:
  assumes "undoable W R c exact fs0 (sn # written) fs" and "exact \<longrightarrow> (\<forall>p x. os_fault W p x = None)"
    and "fs' = snd (if sn_exists sn then WriteFile W (sn_path sn) (sn_content sn) (sn_mode sn) fs else Remove W (sn_path sn) fs)"
  shows "undoable W R c exact fs0 written fs'"
proof -
  from assms(1) obtain ps fs1 x m where *: "sn_path sn = abs_path (R @ ps)" "ps \<noteq> []" "\<not> (\<exists>p \<in> set ps. byte 0 \<in> set p)"
    "jail W fs R c ps" "undoable W R c exact fs0 written fs1" "sim exact c fs1 {c @ ps} fs" "node fs (c @ ps) = Some (Regular x m)"
    "exact \<and> sn_exists sn \<longrightarrow> m = sn_mode sn"
    "node fs1 (c @ ps) = (if sn_exists sn then Some (Regular (sn_content sn) (sn_mode sn)) else None)"
    unfolding undoable.simps snapshot_of_def by blast
  have at: "resolve W fs follow (abs_path (R @ ps)) = Inr (c @ ps)" for follow
    using jail_regular_resolve [OF *(4,7,2,3)] .
  have strict: "strict_prefix c (c @ ps)" using *(2) by (simp add: strict_prefix_def)
  show ?thesis
  proof (cases "sn_exists sn")
    case True
    obtain r where w: "WriteFile W (abs_path (R @ ps)) (sn_content sn) (sn_mode sn) fs = (r, fs')"
      using assms(3) True *(1) by (metis prod.collapse)
    note frame = WriteFile_below [OF *(4) w]
    from growsD(3) [OF frame(2) *(7)] obtain x' m' where x': "node fs' (c @ ps) = Some (Regular x' m')" by blast
    have before: "node fs1 (c @ ps) = Some (Regular (sn_content sn) (sn_mode sn))" and m: "exact \<longrightarrow> m = sn_mode sn"
      using *(8,9) True by simp_all
    have same: "node fs' (c @ ps) = node fs1 (c @ ps)" if exact
      using w at [of True] *(2,7) m that assms(2) by (auto simp: WriteFile_def node_put before)
    have "sim exact c fs1 {c @ ps} fs'" using sim_cong [OF *(6)] frame(3) by simp
    from sim_except [OF this strict] same before x' have "sim exact c fs1 {} fs'" by auto
    moreover have "wf_fs fs'" using frame(1) by (simp add: jail_def)
    ultimately show ?thesis using undoable_sim [OF *(5)] by blast
  next
    case False
    then have fs': "fs' = AList.delete (c @ ps) fs"
      using assms(3) at [of False] *(1,7) by (simp add: Remove_def)
    have node: "node fs' p = (if p = c @ ps then None else node fs p)" for p
      unfolding fs' node_def using *(2) by (auto simp: delete_conv')
    have "wf_fs fs'" using *(4,7) unfolding jail_def wf_fs_def node
      by (metis inode.distinct(1) option.distinct(1) option.inject)
    moreover have "sim exact c fs1 {c @ ps} fs'" using sim_cong [OF *(6)] node by simp
    from sim_except [OF this strict] *(9) False node have "sim exact c fs1 {} fs'" by simp
    ultimately show ?thesis using undoable_sim [OF *(5)] by blast
  qed
qed

lemma rollback_undoes:
  "undoable W R c exact fs0 written fs \<Longrightarrow> exact \<longrightarrow> (\<forall>p x. os_fault W p x = None) \<Longrightarrow>
     sim exact c fs0 {} (rollbackWrittenFiles W written fs) \<and> wf_fs (rollbackWrittenFiles W written fs)"
  by (induction written arbitrary: fs) (simp_all add: undo_one del: undoable.simps(2))

section \<open>Writing an archive\<close>

lemma snapshotExistingFile_node:
  assumes "jail W fs R c ps" and "ps \<noteq> []" and "snapshotExistingFile W fs (abs_path (R @ ps)) = Inr sn"
  shows "sn_path sn = abs_path (R @ ps)"
    and "node fs (c @ ps) = (if sn_exists sn then Some (Regular (sn_content sn) (sn_mode sn)) else None)"
proof -
  obtain qs p where ps: "ps = qs @ [p]" using assms(2) by (cases ps rule: rev_cases) auto
  have top: "jail W fs R c qs" and p: "plain_part p" using assms(1) jail_butlast ps by (auto simp: jail_def)
  show "sn_path sn = abs_path (R @ ps)"
    using assms(3) by (auto simp: snapshotExistingFile_def split: sum.splits if_splits inode.splits)
  show "node fs (c @ ps) = (if sn_exists sn then Some (Regular (sn_content sn) (sn_mode sn)) else None)"
  proof (cases "Lstat W fs (abs_path (R @ ps))")
    case (Inl e)
    with assms(3) have "e = ENOENT" "\<not> sn_exists sn" by (auto simp: snapshotExistingFile_def split: if_splits)
    with Inl jail_missing [OF top p] ps show ?thesis by simp
  next
    case (Inr n)
    with assms(3) obtain x mode content where n: "n = Regular x mode" "ReadFile W fs (abs_path (R @ ps)) = Inr content"
        "sn_exists sn" "sn_content sn = content" "sn_mode sn = mode"
      by (auto simp: snapshotExistingFile_def split: inode.splits sum.splits)
    have node: "node fs (c @ ps) = Some (Regular x mode)" using jail_Lstat [OF top p] Inr n ps by simp
    have "content = x"
      using n(2) node jail_resolve [OF assms(1), of True]
      by (auto simp: ReadFile_def stat_with_def split: sum.splits option.splits inode.splits)
    with node n show ?thesis by simp
  qed
qed

lemma write_entry_undoable:
  assumes root: "Abs (os_wd W) root = Some (abs_path R)" and top: "jail W fs R c []" and dir: "node fs c = Some Directory"
    and "wd_ok W" and undo: "undoable W R c exact fs0 written fs" and fault: "exact \<longrightarrow> (\<forall>p x. os_fault W p x = None)"
    and run: "write_entry W root destination maxSize e written fs = (r, written', fs')"
  shows "undoable W R c exact fs0 written' fs' \<and> jail W fs' R c [] \<and> node fs' c = Some Directory"
proof (cases "resolveWritableSandboxPath W fs root (entry_path destination e)")
  case (Inl err)
  with run undo top dir show ?thesis by (auto simp: write_entry_def)
next
  case target: (Inr target)
  let ?ps = "below_parts (entry_path destination e)"
  have wf: "wf_fs fs" using top by (simp add: jail_def)
  obtain R' c' where R': "Abs (os_wd W) root = Some (abs_path R')" "target = abs_path (R' @ ?ps)" "jail W fs R' c' ?ps"
    using writable_jail [OF wf assms(4) target] by blast
  have [simp]: "R' = R" using R'(1,3) root top by (auto simp: jail_def abs_path_inj)
  have [simp]: "c' = c" using R'(3) top by (simp add: jail_def)
  have j: "jail W fs R c ?ps" using R'(3) by simp
  show ?thesis
  proof (cases "snapshotExistingFile W fs target")
    case (Inl err)
    with run target undo top dir show ?thesis by (auto simp: write_entry_def)
  next
    case sn: (Inr sn)
    obtain r1 fs1 where mk: "MkdirAll W (path_parts (Dir target)) fs = (r1, fs1)" by fastforce
    have dirs: "adds_dirs fs fs1 c (c @ ?ps)" using MkdirAll_Dir [OF j] mk R'(2) by simp
    have wf1: "wf_fs fs1" and sim1: "sim exact c fs {} fs1" using dirs sim_adds_dirs [OF dirs] unfolding adds_dirs_def by blast+
    note 1 = undoable_sim [OF undo sim1 wf1] jail_sim [OF top sim1 wf1] growsD(1) [OF sim_grows [OF sim1] dir]
    show ?thesis
    proof (cases "written' = written \<and> fs' = fs1")
      case True
      with 1 show ?thesis by simp
    next
      case False
      then obtain content r2 where w: "WriteFile W target content 420 fs1 = (r2, fs')"
          "written' = (if r2 = None then sn # written else written)"
        using run target sn mk by (auto simp: write_entry_def split: option.splits sum.splits prod.splits)
      have j1: "jail W fs1 R c ?ps" using jail_sim [OF j sim1 wf1] .
      note frame = WriteFile_below [OF j1 w(1) [unfolded R'(2) \<open>R' = R\<close>]]
      have wrote: "fs' \<noteq> fs1 \<or> r2 = None" using False w(2) by (auto split: if_splits)
      from frame(4) [OF this] obtain x m where reg: "node fs1 (c @ ?ps) \<noteq> Some Directory" "node fs' (c @ ?ps) = Some (Regular x m)"
        by blast
      have ps: "?ps \<noteq> []" using reg(1) 1(3) by auto
      then have strict: "strict_prefix c (c @ ?ps)" by (simp add: strict_prefix_def)
      have wf': "wf_fs fs'" using frame(1) by (simp add: jail_def)
      have same: "node fs1 (c @ ?ps) = node fs (c @ ?ps)" using dirs reg(1) unfolding adds_dirs_def by metis
      note snap = snapshotExistingFile_node [OF j ps sn [unfolded R'(2) \<open>R' = R\<close>]]
      have other: "sim exact c fs1 {c @ ?ps} fs'" using frame(3) by (simp add: sim_def)
      have keep: "jail W fs' R c []" "node fs' c = Some Directory"
        using frame(1) growsD(1) [OF frame(2) 1(3)] by (auto simp: jail_def unlinked_def)
      show ?thesis
      proof (cases "r2 = None")
        case True
        have plain: "\<forall>p \<in> set (R @ ?ps). plain_part p" using j1 by (auto simp: jail_def)
        have "\<not> (\<exists>p \<in> set ?ps. byte 0 \<in> set p)"
          using frame(8) [OF True] by (auto simp: resolve_abs_path [OF plain] split: if_splits)
        moreover have "sn_exists sn \<longrightarrow> m = sn_mode sn"
          using frame(7) [of "sn_content sn" "sn_mode sn"] same snap(2) reg(2) by auto
        moreover have "sim exact c fs {c @ ?ps} fs'"
          using sim_trans [of exact c fs "{c @ ?ps}"] sim1 other unfolding sim_def by blast
        ultimately have "snapshot_of W R c exact sn ?ps fs fs'"
          using snap ps frame(1) reg(2) unfolding snapshot_of_def by simp
        then show ?thesis using undo keep w(2) True by auto
      next
        case False
        with fault frame(6) wrote have "\<not> exact" by auto
        have "may_become exact (node fs1 (c @ ?ps)) (node fs' (c @ ?ps))"
          using \<open>\<not> exact\<close> reg snap(2) same by auto
        then have "sim exact c fs1 {} fs'" using sim_except [OF other strict] by blast
        from undoable_sim [OF 1(1) this wf'] show ?thesis using keep w(2) False by simp
      qed
    qed
  qed
qed

lemma write_entries_undoable:
  assumes "Abs (os_wd (fe_os F)) root = Some (abs_path R)" and "jail (fe_os F) fs R c []" and "node fs c = Some Directory"
    and "wd_ok (fe_os F)" and "undoable (fe_os F) R c exact fs0 written fs"
    and "exact \<longrightarrow> (\<forall>p x. os_fault (fe_os F) p x = None)"
    and "write_entries E F now req root maxSize entries written files fs m = (r, fs', m')"
  shows "(\<exists>e. r = Inl e) \<and> sim exact c fs0 {} fs' \<and> wf_fs fs' \<or> (\<exists>infos w. r = Inr infos \<and> undoable (fe_os F) R c exact fs0 w fs')"
  using assms(2,3,5,7)
proof (induction entries arbitrary: written files fs m)
  case Nil
  then show ?case by auto
next
  case (Cons e es)
  obtain r1 written1 fs1 where 1: "write_entry (fe_os F) root (ar_Path req) maxSize e written fs = (r1, written1, fs1)"
    by (metis prod_cases3)
  note entry = write_entry_undoable [OF assms(1) Cons.prems(1,2) assms(4) Cons.prems(3) assms(6) 1]
  note undo = rollback_undoes [OF conjunct1 [OF entry] assms(6)]
  show ?case
  proof (cases r1)
    case (Some err)
    with Cons.prems(4) 1 undo show ?thesis by auto
  next
    case None
    obtain i m1 where 2: "StatFile E F now (ar_SandboxID req) (entry_path (ar_Path req) e) fs1 m = (i, m1)" by fastforce
    show ?thesis
    proof (cases i)
      case (Inl err)
      with Cons.prems(4) 1 2 None undo show ?thesis by auto
    next
      case (Inr info)
      with Cons.prems(4) 1 2 None have "write_entries E F now req root maxSize es written1 (info # files) fs1 m1 = (r, fs', m')"
        by simp
      with Cons.IH entry show ?thesis by blast
    qed
  qed
qed

lemma UploadArchive_steps:
  assumes "UploadArchive E F now req fs m = (r, fs', m')"
  obtains (same) "fs' = fs"
  | (run) req' box m1 m2 m3 entries rel target r1 where "Get E now (ar_SandboxID req) m = (Inr box, m1)"
      and "resolveWritableSandboxPath (fe_os F) fs (sb_RootPath box) rel = Inr target"
      and "write_entries E F now req' (sb_RootPath box) (MaxFileSizeBytes (me_policy E)) entries [] [] fs m2 = (r1, fs', m3)"
      and "(\<exists>e. r1 = Inl e) \<longleftrightarrow> (\<exists>e. r = Inl e)"
proof -
  define req' where "req' = (if trim_space (ar_Path req) = [] then req\<lparr>ar_Path := ''.''\<rparr> else req)"
  have [simp]: "ar_SandboxID req' = ar_SandboxID req" by (simp add: req'_def)
  show ?thesis
  proof (cases "fs' = fs")
    case False
    with assms obtain box m1 target entries manifest size m2 where 1: "Get E now (ar_SandboxID req) m = (Inr box, m1)"
      "resolveWritableSandboxPath (fe_os F) fs (sb_RootPath box) (ar_Path req') = Inr target"
      "open_archive F req' = Inr entries" "archive_skill (me_policy E) F req' box entries = Inr manifest"
      "admit_archive E F now req' box entries fs m1 = (Inr size, m2)"
      unfolding UploadArchive_def Let_def req'_def [symmetric]
      by (auto split: if_splits prod.splits sum.splits)
    obtain r1 m3 fs3 where 2: "write_entries E F now req' (sb_RootPath box) (MaxFileSizeBytes (me_policy E)) entries [] [] fs m2 = (r1, fs3, m3)"
      by (metis prod_cases3)
    from assms False 1 2 have eq: "fs3 = fs'" and iff: "(\<exists>e. r1 = Inl e) \<longleftrightarrow> (\<exists>e. r = Inl e)"
      unfolding UploadArchive_def Let_def req'_def [symmetric]
      by (auto split: if_splits prod.splits sum.splits)
    show ?thesis by (rule run [OF 1(1,2) 2 [unfolded eq] iff])
  qed (rule same)
qed

text \<open>The root of a sandbox is a directory, as its creation makes it.\<close>

definition root_is_dir :: "os_env \<Rightarrow> fsys \<Rightarrow> sandbox \<Rightarrow> bool" where
  "root_is_dir W fs box \<longleftrightarrow> (\<forall>c. root_dir W fs (sb_RootPath box) = Some c \<longrightarrow> node fs c = Some Directory)"

lemma UploadArchive_sim:
  assumes "UploadArchive E F now req fs m = (r, fs', m')" and wf: "wf_fs fs" and wd: "wd_ok (fe_os F)"
    and "\<forall>box m1. Get E now (ar_SandboxID req) m = (Inr box, m1) \<longrightarrow> root_is_dir (fe_os F) fs box"
    and fault: "exact \<longrightarrow> (\<forall>p x. os_fault (fe_os F) p x = None)"
  obtains (same) "fs' = fs"
  | (changed) box m1 c where "Get E now (ar_SandboxID req) m = (Inr box, m1)" and "root_dir (fe_os F) fs (sb_RootPath box) = Some c"
      and "wf_fs fs'" and "sim False c fs {} fs'" and "(\<exists>e. r = Inl e) \<Longrightarrow> sim exact c fs {} fs'"
  using assms(1)
proof (cases rule: UploadArchive_steps)
  case same
  then show ?thesis using that(1) by blast
next
  case (run req' box m1 m2 m3 entries rel target r1)
  from writable_jail [OF wf wd run(2)] obtain R c where c: "Abs (os_wd (fe_os F)) (sb_RootPath box) = Some (abs_path R)"
    "root_dir (fe_os F) fs (sb_RootPath box) = Some c" "jail (fe_os F) fs R c (below_parts rel)" .
  have top: "jail (fe_os F) fs R c []" using c(3) by (auto simp: jail_def unlinked_def)
  have dir: "node fs c = Some Directory" using assms(4) run(1) c(2) by (auto simp: root_is_dir_def)
  have base: "undoable (fe_os F) R c ex fs [] fs" for ex using wf by simp
  note result = write_entries_undoable [OF c(1) top dir wd base _ run(3)]
  have "sim False c fs {} fs' \<and> wf_fs fs'"
    using result [of False] undoable_weak undoable_wf by blast
  moreover have "sim exact c fs {} fs'" if "\<exists>e. r = Inl e"
    using result [OF fault] that run(4) by auto
  ultimately show ?thesis using that(2) [OF run(1) c(2)] by blast
qed

end
