(* ===== verification/Sandbox_Uploads.thy ===== *)
theory Sandbox_Uploads
  imports Sandbox_Confinement
begin

text \<open>
  Uploads that succeed: the file can be downloaded again, and the workspace stays within its limits.
\<close>

section \<open>A successful upload\<close>

lemma UploadFile_Inr:
  assumes "UploadFile E F now req fs m = (Inr info, fs', m')"
  obtains box m1 target fs1 content m2 where "Get E now (fw_SandboxID req) m = (Inr box, m1)"
    and "resolveWritableSandboxPath (fe_os F) fs (sb_RootPath box) (fw_Path req) = Inr target"
    and "MkdirAll (fe_os F) (path_parts (Dir target)) fs = (None, fs1)"
    and "decodeContent (fw_Content req) (fw_Encoding req) = Inr content"
    and "enforceWorkspaceByteLimitForWrite E (fe_os F) now box target (int (length content)) fs1 m1 = (None, m2)"
    and "enforceWorkspaceFileLimitForWrite (me_policy E) (fe_os F) box target fs1 = None"
    and "WriteFile (fe_os F) target content 420 fs1 = (None, fs')"
proof -
  obtain b m1 where get: "Get E now (fw_SandboxID req) m = (b, m1)" by fastforce
  from assms get obtain box where b: "b = Inr box" by (cases b) (auto simp: UploadFile_def)
  from assms get b obtain target where target: "resolveWritableSandboxPath (fe_os F) fs (sb_RootPath box) (fw_Path req) = Inr target"
    by (cases "resolveWritableSandboxPath (fe_os F) fs (sb_RootPath box) (fw_Path req)") (auto simp: UploadFile_def)
  obtain r1 fs1 where mk: "MkdirAll (fe_os F) (path_parts (Dir target)) fs = (r1, fs1)" by fastforce
  with assms get b target have r1: "r1 = None" by (cases r1) (auto simp: UploadFile_def)
  from assms get b target mk r1 obtain content where content: "decodeContent (fw_Content req) (fw_Encoding req) = Inr content"
    by (cases "decodeContent (fw_Content req) (fw_Encoding req)") (auto simp: UploadFile_def)
  show ?thesis
    using assms get b target mk r1 content that
    by (auto simp: UploadFile_def Let_def split: if_splits option.splits prod.splits sum.splits)
qed

lemma upload_place:
  assumes wf: "wf_fs fs" and wd: "wd_ok W" and "resolveWritableSandboxPath W fs root rel = Inr target"
    and "MkdirAll W (path_parts (Dir target)) fs = (r, fs1)" and "WriteFile W target content perm fs1 = (None, fs')"
    and "\<forall>c. root_dir W fs root = Some c \<longrightarrow> node fs c = Some Directory"
  obtains R c m where "Abs (os_wd W) root = Some (abs_path R)" and "target = abs_path (R @ below_parts rel)"
    and "resolveSandboxPath W root rel = Inr target" and "resolve W fs1 False (abs_path R) = Inr c"
    and "jail W fs1 R c (below_parts rel)" and "jail W fs' R c (below_parts rel)" and "grows fs1 fs'"
    and "node fs' (c @ below_parts rel) = Some (Regular content m)" and "below_parts rel \<noteq> []" and "node fs1 c = Some Directory"
    and "\<not> (\<exists>p \<in> set (below_parts rel). byte 0 \<in> set p)" and "\<forall>p. p \<noteq> c @ below_parts rel \<longrightarrow> node fs' p = node fs1 p"
    and "resolve W fs1 True target = Inr (c @ below_parts rel)" and "node fs1 (c @ below_parts rel) \<noteq> Some Directory"
proof -
  let ?ps = "below_parts rel"
  from assms(3) have path: "resolveSandboxPath W root rel = Inr target" "rejectSymlinkPath W fs root target True = None"
    by (auto simp: resolveWritableSandboxPath_def split: sum.splits option.splits)
  obtain R c where R: "Abs (os_wd W) root = Some (abs_path R)" "root_dir W fs root = Some c" "target = abs_path (R @ ?ps)" "jail W fs R c ?ps"
    using writable_jail [OF wf wd assms(3)] by blast
  have dirs: "adds_dirs fs fs1 c (c @ ?ps)" using MkdirAll_Dir [OF R(4)] assms(4) R(3) by simp
  have j1: "jail W fs1 R c ?ps" using jail_adds_dirs [OF R(4) dirs] .
  note frame = WriteFile_below [OF j1 assms(5) [unfolded R(3)]]
  from frame(5) obtain m where m: "node fs' (c @ ?ps) = Some (Regular content m)" by blast
  have plain: "\<forall>p \<in> set (R @ ?ps). plain_part p" using j1 by (auto simp: jail_def)
  have nul: "\<not> (\<exists>p \<in> set ?ps. byte 0 \<in> set p)"
    using frame(8) by (auto simp: resolve_abs_path [OF plain] split: if_splits)
  have abs: "Abs (os_wd W) (abs_path (R @ ?ps)) = Some (abs_path (R @ ?ps))"
    using Clean_abs_path [OF plain] by (simp add: Abs_def)
  from path(2) R(1,3) abs obtain n where n: "Lstat W fs (abs_path R) = Inr n" "\<forall>t. n \<noteq> Symlink t"
    by (auto simp: rejectSymlinkPath_def split: sum.splits inode.splits)
  then obtain c' where c': "resolve W fs False (abs_path R) = Inr c'" "node fs c' = Some n"
    by (auto simp: stat_with_def split: sum.splits option.splits)
  with n resolve_follow have "resolve W fs True (abs_path R) = Inr c'" by fastforce
  with R(4) have "c' = c" by (simp add: jail_def)
  with c' dirs have root: "resolve W fs1 False (abs_path R) = Inr c"
    using resolve_grows [of W fs False "abs_path R" c fs1] by (auto simp: adds_dirs_def)
  have dir: "node fs1 c = Some Directory"
    using assms(6) R(2) dirs growsD(1) unfolding adds_dirs_def by blast
  have no_dir: "node fs1 (c @ ?ps) \<noteq> Some Directory" using frame(4) by blast
  with dir have "?ps \<noteq> []" by auto
  show ?thesis using that [OF R(1,3) path(1) root j1 frame(1,2) m _ dir nul _ _ no_dir] frame(3,8) \<open>?ps \<noteq> []\<close> R(3) by blast
qed

lemma normalizeEncoding_names [simp]: "normalizeEncoding ''base64'' = ''base64''" "normalizeEncoding ''utf-8'' = ''utf-8''"
  by code_simp+

lemma normalizeEncoding_idem [simp]: "normalizeEncoding (normalizeEncoding e) = normalizeEncoding e"
  unfolding normalizeEncoding_def [of e] by simp

lemma decode_encoded:
  "decodeContent (if normalizeEncoding e = ''base64'' then EncodeToString x else x) (normalizeEncoding e) = Inr x"
  by (simp add: decodeContent_def)

text \<open>
  C28: what was uploaded can be downloaded. After an upload that succeeded, a download of the same
  path from the sandbox, in whichever encoding, succeeds, and what it returns decodes to the bytes
  that were uploaded.
\<close>

theorem upload_then_download:
  assumes "wf_fs fs" and "wd_ok (fe_os F)" and "UploadFile E F now req fs m = (Inr info, fs', m')"
    and "Get E now (fw_SandboxID req) m = (Inr box, m1)" and "root_is_dir (fe_os F) fs box"
    and "Get E later sid m2 = (Inr box', m3)" and "sb_RootPath box' = sb_RootPath box"
  shows "\<exists>content f m4. decodeContent (fw_Content req) (fw_Encoding req) = Inr content
    \<and> DownloadFile E F later sid (fw_Path req) encoding fs' m2 = (Inr f, m4)
    \<and> decodeContent (fc_Content f) (fc_Encoding f) = Inr content"
proof -
  let ?W = "fe_os F" and ?ps = "below_parts (fw_Path req)"
  obtain box1 m1' target fs1 content m2' where up: "Get E now (fw_SandboxID req) m = (Inr box1, m1')"
      "resolveWritableSandboxPath ?W fs (sb_RootPath box1) (fw_Path req) = Inr target"
      "MkdirAll ?W (path_parts (Dir target)) fs = (None, fs1)" "decodeContent (fw_Content req) (fw_Encoding req) = Inr content"
      "WriteFile ?W target content 420 fs1 = (None, fs')"
    using UploadFile_Inr [OF assms(3)] .
  with assms(4) have box: "box1 = box" by simp
  have dir: "\<forall>c. root_dir ?W fs (sb_RootPath box1) = Some c \<longrightarrow> node fs c = Some Directory"
    using assms(5) box by (simp add: root_is_dir_def)
  obtain R c mode where R: "Abs (os_wd ?W) (sb_RootPath box1) = Some (abs_path R)" "target = abs_path (R @ ?ps)"
      "resolveSandboxPath ?W (sb_RootPath box1) (fw_Path req) = Inr target" "resolve ?W fs1 False (abs_path R) = Inr c"
      "jail ?W fs' R c ?ps" "grows fs1 fs'" "node fs' (c @ ?ps) = Some (Regular content mode)"
      "\<not> (\<exists>p \<in> set ?ps. byte 0 \<in> set p)" "resolve ?W fs1 True target = Inr (c @ ?ps)" "node fs1 c = Some Directory"
      "?ps \<noteq> []"
    using upload_place [OF assms(1,2) up(2,3,5) dir] .
  have "jail ?W fs' R c (butlast ?ps)" using R(5,11) jail_butlast [of ?W fs' R c "butlast ?ps" "last ?ps"] by simp
  with jail_existing [of ?W fs' R c ?ps True] R below_parts_plain
  have read: "resolve ?W fs' True target = Inr (c @ ?ps)" by simp
  have "resolve ?W fs' False (abs_path R) = Inr c" using resolve_grows [OF R(4,6)] R(10) by simp
  with existing_complete [of ?W "sb_RootPath box1" "fw_Path req" R fs' c] R
  have "resolveExistingSandboxPath ?W fs' (sb_RootPath box') (fw_Path req) = Inr target" using box assms(7) by simp
  moreover have "ReadFile ?W fs' target = Inr content" using read R(7) by (simp add: ReadFile_def stat_with_def)
  ultimately show ?thesis
    using up(4) assms(6) by (simp add: DownloadFile_def Let_def decode_encoded)
qed

section \<open>The size of a workspace\<close>

text \<open>What the walk over a workspace adds up: a weight of the nodes strictly below a directory.\<close>

definition places_below :: "fsys \<Rightarrow> path \<Rightarrow> path set" where
  "places_below fs c = {r. strict_prefix c r \<and> node fs r \<noteq> None}"

definition measured :: "(inode \<Rightarrow> int) \<Rightarrow> fsys \<Rightarrow> path \<Rightarrow> int" where
  "measured w fs c = (\<Sum>r \<in> places_below fs c. w (the (node fs r)))"

fun node_bytes :: "inode \<Rightarrow> int" where
  "node_bytes (Regular x m) = int (length x)"
| "node_bytes n = 0"

fun node_files :: "inode \<Rightarrow> int" where
  "node_files (Regular x m) = 1"
| "node_files n = 0"

lemma walked_files_sums:
  "walked_files what root ns = Inr files \<Longrightarrow>
     byte_size files = (\<Sum>(p, n) \<leftarrow> ns. node_bytes n) \<and> int (length files) = (\<Sum>(p, n) \<leftarrow> ns. node_files n)"
  by (induction ns arbitrary: files)
    (auto simp: byte_size_def split: inode.splits sum.splits)

lemma walked_files_links:
  "(\<exists>files. walked_files what root ns = Inr files) \<longleftrightarrow> (\<forall>(p, n) \<in> set ns. \<forall>t. n \<noteq> Symlink t)"
  by (induction ns) (auto split: inode.splits sum.splits)

lemma places_below_set: "places_below fs c = set (filter (strict_prefix c) (map fst fs))"
proof -
  have "node fs r \<noteq> None \<longleftrightarrow> r \<in> fst ` set fs" if "strict_prefix c r" for r
  proof -
    have "r \<noteq> []" using that by auto
    then show ?thesis by (simp add: node_def map_of_eq_None_iff)
  qed
  then show ?thesis by (auto simp: places_below_def)
qed

lemma finite_places_below [simp]: "finite (places_below fs c)"
  by (simp add: places_below_set)

lemma WalkDir_sum:
  assumes "resolve W fs False root = Inr c" and "node fs c = Some Directory"
  obtains ns where "WalkDir W fs root = Inr ns" and "\<forall>w. (\<Sum>(p, n) \<leftarrow> ns. w n) = measured w fs c"
    and "\<forall>n. (\<exists>p. (p, n) \<in> set ns) \<longleftrightarrow> (\<exists>r \<in> places_below fs c. n = the (node fs r))"
proof -
  define rs where "rs = sort (remdups (filter (strict_prefix c) (map fst fs)))"
  have rs: "distinct rs" "set rs = places_below fs c" by (simp_all add: rs_def places_below_set)
  let ?ns = "map (\<lambda>r. (drop (length c) r, the (node fs r))) rs"
  have "WalkDir W fs root = Inr ?ns" using assms by (simp add: WalkDir_def rs_def)
  moreover have "(\<Sum>(p, n) \<leftarrow> ?ns. w n) = measured w fs c" for w :: "inode \<Rightarrow> int"
    using sum_list_distinct_conv_sum_set [OF rs(1), of "\<lambda>r. w (the (node fs r))"] rs(2)
    by (simp add: measured_def comp_def)
  moreover have "(\<exists>p. (p, n) \<in> set ?ns) \<longleftrightarrow> (\<exists>r \<in> places_below fs c. n = the (node fs r))" for n
    using rs(2) by auto
  ultimately show ?thesis using that [of ?ns] by blast
qed

lemma workspace_measured:
  assumes "resolve W fs False root = Inr c" and "node fs c = Some Directory"
  shows "workspaceByteSize W fs root = Inr k \<longleftrightarrow> (\<forall>r \<in> places_below fs c. \<forall>t. node fs r \<noteq> Some (Symlink t)) \<and> k = measured node_bytes fs c"
    and "workspaceFileCount W fs root = Inr k \<longleftrightarrow> (\<forall>r \<in> places_below fs c. \<forall>t. node fs r \<noteq> Some (Symlink t)) \<and> k = measured node_files fs c"
proof -
  from WalkDir_sum [OF assms] obtain ns where ns: "WalkDir W fs root = Inr ns"
    "\<forall>w. (\<Sum>(p, n) \<leftarrow> ns. w n) = measured w fs c"
    "\<forall>n. (\<exists>p. (p, n) \<in> set ns) \<longleftrightarrow> (\<exists>r \<in> places_below fs c. n = the (node fs r))" .
  have "(\<forall>(p, n) \<in> set ns. \<forall>t. n \<noteq> Symlink t) \<longleftrightarrow> (\<forall>r \<in> places_below fs c. \<forall>t. node fs r \<noteq> Some (Symlink t))"
    using ns(3) by (fastforce simp: places_below_def)
  with walked_files_links have links: "(\<exists>files. walked_files ''workspace'' root ns = Inr files) \<longleftrightarrow>
    (\<forall>r \<in> places_below fs c. \<forall>t. node fs r \<noteq> Some (Symlink t))" by simp
  show "workspaceByteSize W fs root = Inr k \<longleftrightarrow> (\<forall>r \<in> places_below fs c. \<forall>t. node fs r \<noteq> Some (Symlink t)) \<and> k = measured node_bytes fs c"
    unfolding links [symmetric] workspaceByteSize_def walk_files_def
    by (cases "walked_files ''workspace'' root ns") (auto simp: ns(1,2) dest: walked_files_sums)
  show "workspaceFileCount W fs root = Inr k \<longleftrightarrow> (\<forall>r \<in> places_below fs c. \<forall>t. node fs r \<noteq> Some (Symlink t)) \<and> k = measured node_files fs c"
    unfolding links [symmetric] workspaceFileCount_def walk_files_def
    by (cases "walked_files ''workspace'' root ns") (auto simp: ns(1,2) dest: walked_files_sums)
qed

lemma measured_change:
  assumes "strict_prefix c t" and "\<forall>p. p \<noteq> t \<longrightarrow> node fs' p = node fs p" and "node fs' t = Some n"
  shows "measured w fs' c = measured w fs c - (case node fs t of None \<Rightarrow> 0 | Some old \<Rightarrow> w old) + w n"
proof -
  let ?S = "places_below fs c - {t}"
  have "node fs' r \<noteq> None \<longleftrightarrow> r = t \<or> node fs r \<noteq> None" for r using assms(2,3) by (cases "r = t") auto
  then have "places_below fs' c = insert t ?S" using assms(1) unfolding places_below_def by auto
  then have new: "measured w fs' c = w n + (\<Sum>r \<in> ?S. w (the (node fs r)))"
    unfolding measured_def using assms(2,3) by (auto simp: sum.insert_remove intro!: sum.cong)
  show ?thesis
  proof (cases "node fs t")
    case None
    then have "?S = places_below fs c" by (auto simp: places_below_def)
    with new None show ?thesis by (simp add: measured_def)
  next
    case (Some old)
    then have "t \<in> places_below fs c" using assms(1) by (simp add: places_below_def)
    from sum.remove [OF _ this, of "\<lambda>r. w (the (node fs r))"] new Some show ?thesis by (simp add: measured_def)
  qed
qed

lemma target_node:
  assumes j: "jail W fs R c ps" and "ps \<noteq> []" and "regular_file W fs (abs_path (R @ ps)) = Inr x"
  shows "case x of None \<Rightarrow> node fs (c @ ps) = None | Some y \<Rightarrow> \<exists>m. node fs (c @ ps) = Some (Regular y m)"
proof -
  obtain qs p where ps: "ps = qs @ [p]" using assms(2) by (cases ps rule: rev_cases) auto
  with j have up: "jail W fs R c qs" and p: "plain_part p" using jail_butlast by (auto simp: jail_def)
  have miss: "Lstat W fs (abs_path (R @ ps)) = Inl ENOENT \<Longrightarrow> node fs (c @ ps) = None"
    using jail_missing [OF up p] ps by simp
  have "Lstat W fs (abs_path (R @ ps)) = Inr n \<Longrightarrow> node fs (c @ ps) = Some n" for n
    using jail_Lstat [OF up p] ps by simp
  with miss assms(3) show ?thesis
    unfolding regular_file_def by (auto split: sum.splits inode.splits if_splits option.splits)
qed

lemma write_within_bytes:
  assumes "enforceWorkspaceByteLimitForWrite E W now box target len fs m = (None, m')"
  obtains old x where "workspaceByteSize W fs (sb_RootPath box) = Inr old" and "regular_file W fs target = Inr x"
    and "enforceWorkspaceByteLimitForSize (me_policy E) (old - (case x of None \<Rightarrow> 0 | Some y \<Rightarrow> int (length y)) + len) = None"
  using assms that unfolding enforceWorkspaceByteLimitForWrite_def existingRegularFileSize_def enforce_bytes_def
  by (cases "workspaceByteSize W fs (sb_RootPath box)"; cases "regular_file W fs target") (auto split: option.splits)

text \<open>
  C29: an upload keeps the limits of its workspace. When the root directory is given by a clean
  absolute path, then after an upload that succeeded the workspace has a size and a number of files,
  and neither is above the limit that the configuration sets for it.
\<close>

theorem workspace_limits_kept:
  assumes "wf_fs fs" and "wd_ok (fe_os F)" and "UploadFile E F now req fs m = (Inr info, fs', m')"
    and "Get E now (fw_SandboxID req) m = (Inr box, m1)" and "root_is_dir (fe_os F) fs box"
    and "IsAbs (sb_RootPath box)" and "Clean (sb_RootPath box) = sb_RootPath box"
  shows "\<exists>bytes files. workspaceByteSize (fe_os F) fs' (sb_RootPath box) = Inr bytes
    \<and> workspaceFileCount (fe_os F) fs' (sb_RootPath box) = Inr files
    \<and> (cf_MaxWorkspaceBytes (sv_config (me_policy E)) > 0 \<longrightarrow> bytes \<le> cf_MaxWorkspaceBytes (sv_config (me_policy E)))
    \<and> (cf_MaxWorkspaceFiles (sv_config (me_policy E)) > 0 \<longrightarrow> files \<le> cf_MaxWorkspaceFiles (sv_config (me_policy E)))"
proof -
  let ?W = "fe_os F" and ?ps = "below_parts (fw_Path req)" and ?root = "sb_RootPath box" and ?s = "me_policy E"
  obtain box1 m1' target fs1 content m2 where up: "Get E now (fw_SandboxID req) m = (Inr box1, m1')"
      "resolveWritableSandboxPath ?W fs (sb_RootPath box1) (fw_Path req) = Inr target"
      "MkdirAll ?W (path_parts (Dir target)) fs = (None, fs1)" 
      "enforceWorkspaceByteLimitForWrite E ?W now box1 target (int (length content)) fs1 m1' = (None, m2)"
      "enforceWorkspaceFileLimitForWrite ?s ?W box1 target fs1 = None" "WriteFile ?W target content 420 fs1 = (None, fs')"
    using UploadFile_Inr [OF assms(3)] .
  with assms(4) have box: "box1 = box" by simp
  have dir: "\<forall>c. root_dir ?W fs ?root = Some c \<longrightarrow> node fs c = Some Directory" using assms(5) by (simp add: root_is_dir_def)
  obtain R c mode where R: "Abs (os_wd ?W) ?root = Some (abs_path R)" "target = abs_path (R @ ?ps)"
      "resolve ?W fs1 False (abs_path R) = Inr c" "jail ?W fs1 R c ?ps" "grows fs1 fs'"
      "node fs' (c @ ?ps) = Some (Regular content mode)" "?ps \<noteq> []" "node fs1 c = Some Directory"
      "\<forall>p. p \<noteq> c @ ?ps \<longrightarrow> node fs' p = node fs1 p"
    using upload_place [OF assms(1,2) up(2,3,6) [unfolded box] dir] .
  have root: "abs_path R = ?root" using R(1) assms(6,7) by (simp add: Abs_def)
  have at: "resolve ?W fs1 False ?root = Inr c" "resolve ?W fs' False ?root = Inr c" "node fs' c = Some Directory"
    using R(3,8) resolve_grows [OF R(3,5)] growsD(1) [OF R(5)] root by simp_all
  have below: "strict_prefix c (c @ ?ps)" using R(7) by (simp add: strict_prefix_def)
  note new = measured_change [OF below R(9,6)]
  obtain old x where old: "workspaceByteSize ?W fs1 ?root = Inr old" "regular_file ?W fs1 target = Inr x"
    and bytes: "enforceWorkspaceByteLimitForSize ?s (old - (case x of None \<Rightarrow> 0 | Some y \<Rightarrow> int (length y)) + int (length content)) = None"
    using write_within_bytes [OF up(4)] box by metis
  have x: "case x of None \<Rightarrow> node fs1 (c @ ?ps) = None | Some y \<Rightarrow> \<exists>m. node fs1 (c @ ?ps) = Some (Regular y m)"
    using target_node [OF R(4,7)] old(2) R(2) by simp
  from workspace_measured(1) [OF at(1) R(8)] old(1)
  have free: "\<forall>r \<in> places_below fs1 c. \<forall>t. node fs1 r \<noteq> Some (Symlink t)" and "old = measured node_bytes fs1 c" by auto
  have "\<forall>r \<in> places_below fs' c. \<forall>t. node fs' r \<noteq> Some (Symlink t)"
  proof
    fix r assume "r \<in> places_below fs' c"
    with free R(6,9) show "\<forall>t. node fs' r \<noteq> Some (Symlink t)"
      by (cases "r = c @ ?ps") (auto simp: places_below_def)
  qed
  with workspace_measured [OF at(2,3)]
  have now: "workspaceByteSize ?W fs' ?root = Inr (measured node_bytes fs' c)"
    "workspaceFileCount ?W fs' ?root = Inr (measured node_files fs' c)" by simp_all
  have b: "cf_MaxWorkspaceBytes (sv_config ?s) > 0 \<longrightarrow> measured node_bytes fs' c \<le> cf_MaxWorkspaceBytes (sv_config ?s)"
    using bytes x \<open>old = _\<close> new [of node_bytes]
    by (cases x) (auto simp: enforceWorkspaceByteLimitForSize_def Let_def split: if_splits)
  have "workspaceFileCount ?W fs1 ?root = Inr (measured node_files fs1 c)"
    using workspace_measured(2) [OF at(1) R(8)] free by simp
  then have "cf_MaxWorkspaceFiles (sv_config ?s) > 0 \<longrightarrow> measured node_files fs' c \<le> cf_MaxWorkspaceFiles (sv_config ?s)"
    using up(5) x new [of node_files] old(2) box
    by (cases x) (auto simp: enforceWorkspaceFileLimitForWrite_def enforceWorkspaceFileLimitForCount_def regularFileExists_def Let_def
      split: if_splits sum.splits)
  with now b show ?thesis by blast
qed

end
