(* ===== verification/Sandbox_Manifests.thy ===== *)
theory Sandbox_Manifests
  imports Sandbox_Uploads
begin

text \<open>
  Manifests of the files that a run leaves (\<open>executor/service.go\<close>), the limits on them, and the
  manifest of a skill that is read from its package.
\<close>

section \<open>Manifests of files\<close>

record manifest_item =
  it_Path :: string
  it_Size :: int
  it_Encoding :: string
  it_SHA256 :: string
  it_ContentType :: string
  it_ModifiedAt :: time

record file_manifest =
  fm_SandboxID :: string
  fm_Path :: string
  fm_Items :: "manifest_item list"
  fm_FileCount :: int
  fm_TotalSize :: int
  fm_Truncated :: bool

record manifest_options =
  mo_MaxFiles :: int
  mo_MaxTotalBytes :: int

text \<open>The digest is a parameter that gives its hexadecimal text; the type is guessed from the first 512 bytes.\<close>

definition detectContentTypeAndHash :: "file_env \<Rightarrow> string \<Rightarrow> string \<times> string" where
  "detectContentTypeAndHash F content =
     (if content = [] then ''application/octet-stream'' else fe_content_type F (take 512 content), fe_sha256 F content)"

definition fileManifestItem :: "file_env \<Rightarrow> fsys \<Rightarrow> string \<Rightarrow> string \<Rightarrow> int \<Rightarrow> sb_error + manifest_item" where
  "fileManifestItem F fs root p bytes =
     (case ReadFile (fe_os F) fs p of
        Inl e \<Rightarrow> Inl (path_error ''open'' p e)
      | Inr content \<Rightarrow>
          (case detectContentTypeAndHash F content of
             (contentType, digest) \<Rightarrow>
               Inr \<lparr>it_Path = trim_prefix p (root @ ''/''), it_Size = bytes, it_Encoding = ''reference'', it_SHA256 = digest,
                 it_ContentType = contentType, it_ModifiedAt = fe_mtime F fs p\<rparr>))"

definition normalizeManifestLimits :: "service \<Rightarrow> manifest_options \<Rightarrow> int \<times> int" where
  "normalizeManifestLimits s options =
     (let limits = EffectiveLimits s;
          maxFiles = (if rl_MaxArtifactManifestFiles limits \<le> 0 then 100 else rl_MaxArtifactManifestFiles limits);
          maxFiles = (if mo_MaxFiles options > 0 \<and> mo_MaxFiles options < maxFiles then mo_MaxFiles options else maxFiles);
          maxTotalBytes = (if rl_MaxArtifactManifestTotalBytes limits \<le> 0 then 64 * 1024 * 1024
            else rl_MaxArtifactManifestTotalBytes limits);
          maxTotalBytes = (if mo_MaxTotalBytes options > 0 \<and> mo_MaxTotalBytes options < maxTotalBytes
            then mo_MaxTotalBytes options else maxTotalBytes)
      in (maxFiles, maxTotalBytes))"

definition manifest_limit :: "string \<Rightarrow> string \<Rightarrow> string \<Rightarrow> int \<Rightarrow> int \<Rightarrow> sb_error" where
  "manifest_limit relativePath code limit maximum actual =
     Limit \<lparr>le_Code = code, le_Limit = limit, le_Maximum = maximum, le_Actual = actual,
       le_Details = [(''path'', VString relativePath)]\<rparr>"

text \<open>The walk over the files of a manifest: the items so far, and their size.\<close>

fun manifest_loop ::
    "file_env \<Rightarrow> fsys \<Rightarrow> string \<Rightarrow> string \<Rightarrow> string \<Rightarrow> int \<Rightarrow> int \<Rightarrow> manifest_item list \<Rightarrow> int \<Rightarrow> (path \<times> inode) list
      \<Rightarrow> sb_error + manifest_item list \<times> int" where
  "manifest_loop F fs root target relativePath maxFiles maxTotalBytes items totalSize [] = Inr (items, totalSize)"
| "manifest_loop F fs root target relativePath maxFiles maxTotalBytes items totalSize ((p, n) # ns) =
     (case n of
        Directory \<Rightarrow> manifest_loop F fs root target relativePath maxFiles maxTotalBytes items totalSize ns
      | Symlink t \<Rightarrow> Inl (Message (''manifest path contains symlink: '' @ Join (target # p)))
      | Regular c m \<Rightarrow>
          if int (length items) + 1 > maxFiles
          then Inl (manifest_limit relativePath ''artifact_manifest_file_count_exceeded'' ''max_artifact_manifest_files''
            maxFiles (int (length items) + 1))
          else if totalSize + int (length c) > maxTotalBytes
          then Inl (manifest_limit relativePath ''artifact_manifest_total_bytes_exceeded'' ''max_artifact_manifest_total_bytes''
            (limitMaximumInt maxTotalBytes) (limitMaximumInt (totalSize + int (length c))))
          else case fileManifestItem F fs root (Join (target # p)) (int (length c)) of
            Inl e \<Rightarrow> Inl e
          | Inr item \<Rightarrow>
              manifest_loop F fs root target relativePath maxFiles maxTotalBytes (items @ [item]) (totalSize + it_Size item) ns)"

fun artifact_sizes :: "(string \<Rightarrow> sb_error + int) \<Rightarrow> sandbox \<Rightarrow> int \<Rightarrow> sandbox list \<Rightarrow> sb_error + int" where
  "artifact_sizes size_of box actualSize [] = Inr actualSize"
| "artifact_sizes size_of box actualSize (b # bs) =
     (if sb_ID b = sb_ID box \<or> sb_OrganizationID b \<noteq> sb_OrganizationID box then artifact_sizes size_of box actualSize bs
      else case size_of (sb_RootPath b) of
             Inl e \<Rightarrow> Inl e
           | Inr n \<Rightarrow> artifact_sizes size_of box (actualSize + n) bs)"

definition enforceOrganizationArtifactByteLimit ::
    "'c manager_env \<Rightarrow> os_env \<Rightarrow> time \<Rightarrow> sandbox \<Rightarrow> string \<Rightarrow> int \<Rightarrow> fsys \<Rightarrow> 'c manager \<Rightarrow> sb_error option \<times> 'c manager" where
  "enforceOrganizationArtifactByteLimit E W now box manifestTarget manifestTotalSize fs m =
     (let limit = cf_MaxArtifactBytesPerOrganization (sv_config (me_policy E))
      in if limit \<le> 0 \<or> sb_OrganizationID box = [] then (None, m)
         else case artifactByteSize W fs (sb_RootPath box) of
           Inl e \<Rightarrow> (Some e, m)
         | Inr currentArtifactBytes \<Rightarrow>
             (case directoryByteSize W fs manifestTarget of
                Inl e \<Rightarrow> (Some e, m)
              | Inr currentManifestBytes \<Rightarrow>
                  (case List_sandboxes E now m of
                     (items, m) \<Rightarrow>
                       (case artifact_sizes (artifactByteSize W fs) box
                               (currentArtifactBytes - currentManifestBytes + manifestTotalSize) items of
                          Inl e \<Rightarrow> (Some e, m)
                        | Inr actualSize \<Rightarrow>
                            if actualSize \<le> limit then (None, m)
                            else (Some (Limit \<lparr>le_Code = ''organization_artifact_byte_limit_exceeded'',
                              le_Limit = ''max_artifact_bytes_per_organization'', le_Maximum = limitMaximumInt limit,
                              le_Actual = limitMaximumInt actualSize,
                              le_Details = [(''organization_id'', VString (sb_OrganizationID box)),
                                (''organization_artifact_bytes'', VInt Kint64 actualSize)]\<rparr>), m)))))"

definition BuildFileManifestWithOptions ::
    "'c manager_env \<Rightarrow> file_env \<Rightarrow> time \<Rightarrow> string \<Rightarrow> string \<Rightarrow> manifest_options \<Rightarrow> fsys \<Rightarrow> 'c manager
      \<Rightarrow> (sb_error + file_manifest) \<times> 'c manager" where
  "BuildFileManifestWithOptions E F now sid relativePath options fs m =
     (case Get E now sid m of
        (Inl e, m) \<Rightarrow> (Inl e, m)
      | (Inr box, m) \<Rightarrow>
          let relativePath = (if trim_space relativePath = [] then ''artifacts'' else relativePath); W = fe_os F in
          case resolveExistingSandboxPath W fs (sb_RootPath box) relativePath of
            Inl e \<Rightarrow> (Inl e, m)
          | Inr target \<Rightarrow>
              (case normalizeManifestLimits (me_policy E) options of
                 (maxFiles, maxTotalBytes) \<Rightarrow>
                   (case WalkDir W fs target of
                      Inl e \<Rightarrow> (Inl (path_error ''lstat'' target e), m)
                    | Inr ns \<Rightarrow>
                        (case manifest_loop F fs (sb_RootPath box) target relativePath maxFiles maxTotalBytes [] 0 ns of
                           Inl e \<Rightarrow> (Inl e, m)
                         | Inr (items, totalSize) \<Rightarrow>
                             (case enforceOrganizationArtifactByteLimit E W now box target totalSize fs m of
                                (Some e, m) \<Rightarrow> (Inl e, m)
                              | (None, m) \<Rightarrow>
                                  (Inr \<lparr>fm_SandboxID = sid, fm_Path = relativePath, fm_Items = items,
                                     fm_FileCount = int (length items), fm_TotalSize = totalSize, fm_Truncated = False\<rparr>,
                                   record_file E now box ''files.manifest'' sid ''file manifest generated''
                                     [(''path'', VString relativePath), (''file_count'', VInt Kint (int (length items))),
                                      (''total_size'', VInt Kint64 totalSize), (''truncated'', VBool False)] m))))))"

definition BuildFileManifest ::
    "'c manager_env \<Rightarrow> file_env \<Rightarrow> time \<Rightarrow> string \<Rightarrow> string \<Rightarrow> fsys \<Rightarrow> 'c manager \<Rightarrow> (sb_error + file_manifest) \<times> 'c manager" where
  "BuildFileManifest E F now sid relativePath fs m =
     BuildFileManifestWithOptions E F now sid relativePath \<lparr>mo_MaxFiles = 0, mo_MaxTotalBytes = 0\<rparr> fs m"

section \<open>The manifest of a skill in its package\<close>

definition manifest_names :: "string \<Rightarrow> os_env \<Rightarrow> fsys \<Rightarrow> sb_error + string list" where
  "manifest_names packageRoot W fs =
     map_sum id (map (\<lambda>(p, c). join_with ''/'' p)) (walk_files ''skill package'' W fs packageRoot)"

definition loadSkillExecutionManifest ::
    "service \<Rightarrow> file_env \<Rightarrow> fsys \<Rightarrow> string \<Rightarrow> string \<Rightarrow> string \<Rightarrow> sb_error + skill_manifest" where
  "loadSkillExecutionManifest s F fs packageRoot sandboxDependencyProfile organizationID =
     (let manifestPath = Join [packageRoot, ''skill.manifest.json''] in
      case Lstat (fe_os F) fs manifestPath of
        Inl e \<Rightarrow> Inl (if e = ENOENT then Message ''skill.manifest.json is required'' else path_error ''lstat'' manifestPath e)
      | Inr (Symlink t) \<Rightarrow> Inl (Message ''skill.manifest.json must not be a symlink'')
      | Inr Directory \<Rightarrow> Inl (Message ''skill.manifest.json must be a file'')
      | Inr (Regular c mode) \<Rightarrow>
          if length c > 64 * 1024 then Inl (Message ''skill.manifest.json exceeds max size of 65536 bytes'')
          else case ReadFile (fe_os F) fs manifestPath of
            Inl e \<Rightarrow> Inl (path_error ''open'' manifestPath e)
          | Inr content \<Rightarrow>
              (case manifest_names packageRoot (fe_os F) fs of
                 Inl e \<Rightarrow> Inl e
               | Inr names \<Rightarrow> parseSkillExecutionManifest s F content names sandboxDependencyProfile organizationID))"

fun error_text :: "sb_error \<Rightarrow> string" where
  "error_text (Message m) = m"
| "error_text (Limit l) = le_Code l @ '' exceeded: '' @ le_Limit l @ '' maximum is '' @ show_int (le_Maximum l)
     @ '', actual is '' @ show_int (le_Actual l)"

fun skillArtifactManifests ::
    "'c manager_env \<Rightarrow> file_env \<Rightarrow> time \<Rightarrow> string \<Rightarrow> string \<Rightarrow> manifest_options \<Rightarrow> string list \<Rightarrow> fsys \<Rightarrow> 'c manager
      \<Rightarrow> (sb_error + file_manifest list) \<times> 'c manager" where
  "skillArtifactManifests E F now sid packagePath options [] fs m = (Inr [], m)"
| "skillArtifactManifests E F now sid packagePath options (artifactPath # ps) fs m =
     (let relativePath = Join [packagePath, artifactPath] in
      case StatFile E F now sid relativePath fs m of
        (Inl e, m) \<Rightarrow>
          if str_contains (error_text e) ''no such file'' then skillArtifactManifests E F now sid packagePath options ps fs m
          else (Inl e, m)
      | (Inr info, m) \<Rightarrow>
          (case BuildFileManifestWithOptions E F now sid relativePath options fs m of
             (Inl e, m) \<Rightarrow> (Inl e, m)
           | (Inr manifest, m) \<Rightarrow>
               (case skillArtifactManifests E F now sid packagePath options ps fs m of
                  (Inl e, m) \<Rightarrow> (Inl e, m)
                | (Inr manifests, m) \<Rightarrow> (Inr (manifest # manifests), m))))"

section \<open>A manifest is within its limits\<close>

fun regular_sizes :: "(path \<times> inode) list \<Rightarrow> int list" where
  "regular_sizes [] = []"
| "regular_sizes ((p, Regular c mode) # ns) = int (length c) # regular_sizes ns"
| "regular_sizes ((p, n) # ns) = regular_sizes ns"

lemma manifest_loop_limits:
  assumes "manifest_loop F fs root target rel maxFiles maxTotalBytes items totalSize ns = Inr (items', totalSize')"
    and "int (length items) \<le> maxFiles" and "totalSize \<le> maxTotalBytes" and "totalSize = sum_list (map it_Size items)"
  shows "int (length items') \<le> maxFiles \<and> totalSize' \<le> maxTotalBytes \<and> totalSize' = sum_list (map it_Size items')
    \<and> map it_Size items' = map it_Size items @ regular_sizes ns
    \<and> (\<forall>(p, n) \<in> set ns. \<forall>t. n \<noteq> Symlink t)"
  using assms
  by (induction F fs root target rel maxFiles maxTotalBytes items totalSize ns rule: manifest_loop.induct)
    (fastforce simp: fileManifestItem_def split: inode.splits if_splits sum.splits prod.splits)+

lemma BuildFileManifest_steps:
  assumes "BuildFileManifestWithOptions E F now sid rel options fs m = (Inr manifest, m')"
  obtains root target ns items totalSize where
    "WalkDir (fe_os F) fs target = Inr ns"
    "manifest_loop F fs root target (if trim_space rel = [] then ''artifacts'' else rel)
       (fst (normalizeManifestLimits (me_policy E) options)) (snd (normalizeManifestLimits (me_policy E) options)) [] 0 ns
     = Inr (items, totalSize)"
    "fm_Items manifest = items" "fm_FileCount manifest = int (length items)" "fm_TotalSize manifest = totalSize"
  using assms that
  by (auto simp: BuildFileManifestWithOptions_def Let_def split: prod.splits sum.splits option.splits)

lemma normalizeManifestLimits_positive:
  "0 < fst (normalizeManifestLimits s options)" "0 < snd (normalizeManifestLimits s options)"
  by (simp_all add: normalizeManifestLimits_def Let_def)

text \<open>
  a manifest is within its limits. A manifest that was built lists every file of the directory and
  no links, counts them and adds up their sizes, and stays within the limits of the service and of
  the request.
\<close>

theorem manifest_within_limits:
  assumes "BuildFileManifestWithOptions E F now sid rel options fs m = (Inr manifest, m')"
  shows "fm_FileCount manifest = int (length (fm_Items manifest)) \<and> fm_TotalSize manifest = sum_list (map it_Size (fm_Items manifest))
    \<and> fm_FileCount manifest \<le> fst (normalizeManifestLimits (me_policy E) options)
    \<and> fm_TotalSize manifest \<le> snd (normalizeManifestLimits (me_policy E) options)
    \<and> (\<exists>target ns. WalkDir (fe_os F) fs target = Inr ns \<and> map it_Size (fm_Items manifest) = regular_sizes ns \<and> (\<forall>(p, n) \<in> set ns. \<forall>t. n \<noteq> Symlink t))"
proof -
  obtain root target ns items totalSize where walk: "WalkDir (fe_os F) fs target = Inr ns"
    and loop: "manifest_loop F fs root target (if trim_space rel = [] then ''artifacts'' else rel)
       (fst (normalizeManifestLimits (me_policy E) options)) (snd (normalizeManifestLimits (me_policy E) options)) [] 0 ns
     = Inr (items, totalSize)"
    and result: "fm_Items manifest = items" "fm_FileCount manifest = int (length items)" "fm_TotalSize manifest = totalSize"
    by (rule BuildFileManifest_steps [OF assms])
  from manifest_loop_limits [OF loop] normalizeManifestLimits_positive [of "me_policy E" options] result walk
  show ?thesis by auto
qed

end
