(* ===== verification/Sandbox_File_Examples.thy ===== *)
theory Sandbox_File_Examples
  imports Sandbox_Uploads Sandbox_Examples
begin

text \<open>
  The theorems on the files of sandboxes applied to a small tree, to an upload that just fits the
  limits of its workspace, and to an archive whose second file cannot be read.
\<close>

section \<open>A tree with one sandbox\<close>

definition tree_os :: os_env where
  "tree_os = \<lparr>os_wd = Some ''/'', os_fault = \<lambda>_ _. None\<rparr>"

definition tree :: fsys where
  "tree = [([''d''], Directory), ([''d'', ''b''], Directory), ([''d'', ''b'', ''old''], Regular ''x'' 420),
     ([''etc''], Directory), ([''etc'', ''key''], Regular ''k'' 384)]"

definition tree_box :: sandbox where
  "tree_box = attachEffectiveLimits example_env ((example_box ''b'' 100)\<lparr>sb_RootPath := ''/d/b''\<rparr>)"

definition tree_env :: "memory_cache manager_env" where
  "tree_env = example_env\<lparr>me_policy := NewService (example_config\<lparr>cf_MaxWorkspaceBytes := 3, cf_MaxWorkspaceFiles := 2\<rparr>)\<rparr>"

definition tree_manager :: "memory_cache manager" where
  "tree_manager = (start 10)\<lparr>mg_store := \<lparr>ms_sandboxes = [(''b'', tree_box)], ms_endpoints = []\<rparr>,
     mg_cache := [(''b'', \<lparr>mi_box = tree_box, mi_expiresAt = Some 100\<rparr>)]\<rparr>"

lemma tree_Get:
  "Get tree_env 10 ''b'' tree_manager = (Inr (attachEffectiveLimits tree_env tree_box), tree_manager)"
  by (simp add: Get_def tree_env_def tree_manager_def memorySandboxCache_def memory_Get_def expireIfNeeded_def
      tree_box_def example_box_def created_item_def attachEffectiveLimits_def)

lemma tree_root [simp]: "sb_RootPath (attachEffectiveLimits E tree_box) = ''/d/b''" "sb_OrganizationID tree_box = []"
  by (simp_all add: attachEffectiveLimits_def tree_box_def example_box_def created_item_def)

lemma tree_wf: "wf_fs tree"
  by (auto simp: wf_fs_def node_def tree_def Cons_eq_append_conv append_eq_Cons_conv split: if_splits)

definition tree_files :: file_env where
  "tree_files = \<lparr>fe_os = tree_os, fe_mode = \<lambda>_. ''-rw-r--r--'', fe_dirsize = 4096, fe_mtime = \<lambda>_ _. 0,
     fe_zip = \<lambda>_. Inr [\<lparr>zf_Name = ''old'', zf_IsDir = False, zf_IsSymlink = False, zf_UncompressedSize64 = 1,
         zf_Open = Inr ([''y''], None)\<rparr>,
       \<lparr>zf_Name = ''new'', zf_IsDir = False, zf_IsSymlink = False, zf_UncompressedSize64 = 1,
         zf_Open = Inl ''zip: unsupported compression algorithm''\<rparr>],
     fe_manifest = \<lambda>_. Inl ''unexpected end of JSON input'', fe_sha256 = \<lambda>_. [], fe_content_type = \<lambda>_. []\<rparr>"

lemma tree_wd: "wd_ok (fe_os tree_files)"
  by (simp add: wd_ok_def tree_files_def tree_os_def IsAbs_def has_prefix_def)

lemma tree_dir: "root_is_dir (fe_os tree_files) tree (attachEffectiveLimits tree_env tree_box)"
proof -
  have "root_dir tree_os tree ''/d/b'' = Some [''d'', ''b'']" by code_simp
  moreover have "node tree [''d'', ''b''] = Some Directory" by code_simp
  ultimately show ?thesis by (simp add: root_is_dir_def tree_files_def)
qed

section \<open>An upload\<close>

definition tree_upload :: file_write_request where
  "tree_upload = \<lparr>fw_SandboxID = ''b'', fw_Path = ''new'', fw_Content = ''hi'', fw_Encoding = ''utf-8''\<rparr>"

definition tree' :: fsys where
  "tree' = tree @ [([''d'', ''b'', ''new''], Regular ''hi'' 420)]"

lemma trim_new [simp]: "trim_space ''new'' = ''new''"
  by (simp add: graphic_trim_space graphic_def)

lemma tree_name: "resolveSandboxPath tree_os ''/d/b'' ''new'' = Inr ''/d/b/new''"
  unfolding resolveSandboxPath_def trim_new by code_simp

lemma tree_target: "resolveWritableSandboxPath tree_os tree ''/d/b'' ''new'' = Inr ''/d/b/new''"
  unfolding resolveWritableSandboxPath_def tree_name by code_simp

lemma tree_mkdir: "MkdirAll tree_os (path_parts (Dir ''/d/b/new'')) tree = (None, tree)"
  by code_simp

lemma tree_content: "decodeContent ''hi'' ''utf-8'' = Inr ''hi''"
  by (simp add: decodeContent_def)

lemma tree_bytes: "workspaceByteSize tree_os tree ''/d/b'' = Inr 1"
  by code_simp

lemma tree_count: "workspaceFileCount tree_os tree ''/d/b'' = Inr 1"
  by code_simp

lemma tree_old: "regular_file tree_os tree ''/d/b/new'' = Inr None"
  by code_simp

lemma tree_write: "WriteFile tree_os ''/d/b/new'' ''hi'' 420 tree = (None, tree')"
  by code_simp

lemma tree_path: "resolveExistingSandboxPath tree_os tree' ''/d/b'' ''new'' = Inr ''/d/b/new''"
  unfolding resolveExistingSandboxPath_def tree_name by code_simp

lemma tree_stat: "Stat tree_os tree' ''/d/b/new'' = Inr (Regular ''hi'' 420)"
  by code_simp

lemmas tree_steps = tree_target tree_mkdir tree_content tree_bytes tree_count tree_old tree_write tree_path tree_stat

lemma tree_limits [simp]:
  "cf_MaxWorkspaceBytes (sv_config (me_policy tree_env)) = 3" "cf_MaxWorkspaceFiles (sv_config (me_policy tree_env)) = 2"
  "cf_MaxWorkspaceBytesPerOrganization (sv_config (me_policy tree_env)) = 0"
  by (simp_all add: tree_env_def NewService_def example_config_def)

lemma tree_file_size [simp]: "MaxFileSizeBytes (me_policy tree_env) = 262144"
  by (simp add: MaxFileSizeBytes_def tree_env_def NewService_def example_config_def int64_def)

lemma tree_uploaded:
  obtains info m' where "UploadFile tree_env tree_files 10 tree_upload tree tree_manager = (Inr info, tree', m')"
proof -
  note limit_defs = enforceWorkspaceByteLimitForWrite_def existingRegularFileSize_def enforce_bytes_def
    enforceWorkspaceByteLimitForSize_def enforceOrganizationWorkspaceByteLimitForSize_def
    enforceWorkspaceFileLimitForWrite_def enforceWorkspaceFileLimitForCount_def regularFileExists_def
  have "fe_os tree_files = tree_os" by (simp add: tree_files_def)
  with that show ?thesis
    by (simp add: UploadFile_def StatFile_def tree_upload_def Let_def tree_Get tree_steps limit_defs)
qed

lemma tree_root_dir: "root_dir (fe_os tree_files) tree ''/d/b'' = Some [''d'', ''b'']"
proof -
  have "root_dir tree_os tree ''/d/b'' = Some [''d'', ''b'']" by code_simp
  then show ?thesis by (simp add: tree_files_def)
qed

theorem files_confined_witness:
  "node (file_effect tree_env tree_files 10 (Upload tree_upload) tree tree_manager) [''d'', ''b'', ''new''] = Some (Regular ''hi'' 420)
    \<and> {p. node (file_effect tree_env tree_files 10 (Upload tree_upload) tree tree_manager) p \<noteq> node tree p} \<subseteq> {p. prefix [''d'', ''b''] p}"
proof -
  have "file_effect tree_env tree_files 10 (Upload tree_upload) tree tree_manager = tree'"
    by (rule tree_uploaded) simp
  moreover have "node tree' [''d'', ''b'', ''new''] = Some (Regular ''hi'' 420)" by code_simp
  moreover have "request_sandbox (Upload tree_upload) = ''b''" by (simp add: tree_upload_def)
  ultimately show ?thesis
    using files_confined [OF tree_wf tree_wd, of tree_env 10 "Upload tree_upload" tree_manager] tree_Get tree_dir tree_root_dir
    by (fastforce simp: tree_root)
qed

theorem upload_then_download_witness:
  "\<exists>info m' f m4. UploadFile tree_env tree_files 10 tree_upload tree tree_manager = (Inr info, tree', m')
    \<and> DownloadFile tree_env tree_files 10 ''b'' ''new'' ''base64'' tree' tree_manager = (Inr f, m4)
    \<and> decodeContent (fc_Content f) (fc_Encoding f) = Inr ''hi''"
proof -
  obtain info m' where up: "UploadFile tree_env tree_files 10 tree_upload tree tree_manager = (Inr info, tree', m')"
    using tree_uploaded .
  have get: "Get tree_env 10 (fw_SandboxID tree_upload) tree_manager = (Inr (attachEffectiveLimits tree_env tree_box), tree_manager)"
    using tree_Get by (simp add: tree_upload_def)
  from upload_then_download [OF tree_wf tree_wd up get tree_dir tree_Get, of "''base64''"] up tree_content
  show ?thesis by (auto simp: tree_upload_def)
qed

theorem workspace_limits_kept_witness:
  "\<exists>info m' bytes files. UploadFile tree_env tree_files 10 tree_upload tree tree_manager = (Inr info, tree', m')
    \<and> workspaceByteSize (fe_os tree_files) tree' ''/d/b'' = Inr bytes \<and> bytes \<le> 3
    \<and> workspaceFileCount (fe_os tree_files) tree' ''/d/b'' = Inr files \<and> files \<le> 2"
proof -
  obtain info m' where up: "UploadFile tree_env tree_files 10 tree_upload tree tree_manager = (Inr info, tree', m')"
    using tree_uploaded .
  have get: "Get tree_env 10 (fw_SandboxID tree_upload) tree_manager = (Inr (attachEffectiveLimits tree_env tree_box), tree_manager)"
    using tree_Get by (simp add: tree_upload_def)
  have "IsAbs ''/d/b''" and "Clean ''/d/b'' = ''/d/b''" by code_simp+
  with workspace_limits_kept [OF tree_wf tree_wd up get tree_dir] up show ?thesis by auto
qed

section \<open>An archive\<close>





















end
