(* ===== verification/Sandbox_Check_Examples.thy ===== *)
theory Sandbox_Check_Examples
  imports Sandbox_Installs Sandbox_Templates Sandbox_Results Sandbox_Manifests Sandbox_File_Examples
begin

text \<open>
  The theorems on the checks of runs applied to a schema that expects a boolean, to an environment
  that would preload a library, to lines of commands, and to small templates.
\<close>

section \<open>A schema and outputs\<close>

definition flag_schema :: output_schema where
  "flag_schema = Schema ''boolean'' [] [] None None"

definition flag_json :: json_env where
  "flag_json = \<lparr>je_value = \<lambda>s. if s = ''true'' then Inr (VBool True) else if s = ''null'' then Inr VNil else Inl ''bad'',
     je_schema = \<lambda>s. Inr flag_schema\<rparr>"

definition flag_result :: "string \<Rightarrow> runner_result" where
  "flag_result out = \<lparr>rs_ExecutionID = [], rs_Stdout = out, rs_Error = [], rs_ExitCode = 0, rs_DurationMS = 1,
     rs_NetworkRequested = False, rs_Truncated = False, rs_Backend = [], rs_ProfileChecksum = [], rs_ResultJSON = None,
     rs_Warnings = []\<rparr>"

lemma flag_words [simp]: "trim_space ''true'' = ''true''" "trim_space ''null'' = ''null''"
  by (simp_all add: graphic_trim_space graphic_def)

theorem result_schema_exact_witness:
  "attachResultJSON flag_json (flag_result ''true'') False (Some flag_schema) 64
      = Inr ((flag_result ''true'')\<lparr>rs_ResultJSON := Some (VBool True)\<rparr>)
    \<and> attachResultJSON flag_json (flag_result ''null'') False (Some flag_schema) 64 \<noteq> Inr (flag_result ''null'')"
proof -
  have schema: "parseExpectedOutputSchema flag_json ''x'' = Inr (Some flag_schema)"
    by (simp add: parseExpectedOutputSchema_def flag_json_def flag_schema_def isSupportedOutputSchemaType_def)
  show ?thesis
    unfolding result_schema_exact [OF schema]
    by (auto simp: flag_result_def flag_json_def flag_schema_def conforms_boolean)
qed

section \<open>An environment\<close>

theorem environment_safe_witness:
  "(case normalizeCommandEnv [(''ld_preload'', ''x'')] of Inl e \<Rightarrow> True | Inr out \<Rightarrow> False)"
proof (cases "normalizeCommandEnv [(''ld_preload'', ''x'')]")
  case (Inr out)
  note safe = environment_safe [of "[(''ld_preload'', ''x'')]", unfolded Inr sum.case]
  have "trim_space ''ld_preload'' = ''ld_preload''" by (simp add: graphic_trim_space graphic_def)
  then have "trim_space ` fst ` set [(''ld_preload'', ''x'')] = {''ld_preload''}"
    by (simp only: list.set image_insert image_empty fst_conv)
  with conjunct1 [OF conjunct2 [OF safe]] have "dom (map_of out) = {''ld_preload''}" by (rule trans)
  then have "''ld_preload'' \<in> dom (map_of out)" by (simp only: singletonI)
  from domD [OF this] obtain v where "map_of out ''ld_preload'' = Some v" by (rule exE)
  with conjunct2 [OF conjunct2 [OF safe]] have "env_entry_ok ''ld_preload'' v" by (elim allE [of _ "''ld_preload''"] allE [of _ v] impE) (assumption, rule conjunct1)
  with dangerous_names(2) show ?thesis by (simp add: env_entry_ok_def)
qed simp

section \<open>Lines of commands\<close>

lemma example_words:
  "plain_word ''cd''" "plain_word ''x''" "plain_word ''sudo''" "plain_word ''pip''" "plain_word ''install''" "plain_word ''npm''" "plain_word ''test''"
  by code_simp+

theorem installs_refused_witness:
  "rejectRuntimeDependencyInstall (script ''&&'' 1 1 [[''cd'', ''x''], [''sudo'', ''pip'', ''install'', ''x'']]) [] \<noteq> None
    \<and> rejectRuntimeDependencyInstall ''sh'' [''-c'', script ''&&'' 1 1 [[''cd'', ''x''], [''sudo'', ''pip'', ''install'', ''x'']]] \<noteq> None
    \<and> rejectRuntimeDependencyInstall ''npm'' [''test''] = None"
proof -
  have "installer (dropWhile command_prefix [''sudo'', ''pip'', ''install'', ''x''])" "\<not> installer (dropWhile command_prefix [''npm'', ''test''])"
    by (simp_all add: command_prefix_def installer_unfold isPipCommand_def isPythonCommand_def has_prefix_def)
  then show ?thesis
    using installs_refused [of "''&&''" "[[''cd'', ''x''], [''sudo'', ''pip'', ''install'', ''x'']]" "''npm''" "[''test'']" "''sh''" 1 1]
      example_words by (simp add: isShellCommand_def)
qed

section \<open>Templates\<close>

text \<open>\<open>{{printf .a}}\<close> is refused, and \<open>{{upper .a}}\<close> is accepted.\<close>

abbreviation call_template :: "string \<Rightarrow> template_node" where
  "call_template f \<equiv> ListNode [ActionNode (PipeNode [CommandNode [IdentifierNode f, Leaf]])]"

lemma visits_more [simp]:
  "visits (ActionNode n) k \<longleftrightarrow> k = ActionNode n \<or> visits n k"
  "visits (IdentifierNode i) k \<longleftrightarrow> k = IdentifierNode i"
  by (simp_all add: visits_unfold [of "ActionNode n"] visits_unfold [of "IdentifierNode i"])

theorem template_checks_exact_witness:
  "validateTemplateHelpers (call_template ''upper'') = Ret None \<and> validateTemplateHelpers (call_template ''printf'') \<noteq> Ret None"
  using template_checks_exact [of "call_template ''upper''"] template_checks_exact [of "call_template ''printf''"]
  by (auto simp: templateHelperAllowed_def)

definition small_limits :: template_limits where
  "small_limits = \<lparr>tl_Profile = [], tl_Engine = ''go-text'', tl_Timeout = Second, tl_TimeoutMS = 1000, tl_OutputLimitBytes = 64,
     tl_MaxTemplateBytes = 64, tl_MaxVariableCount = 3, tl_MaxVariableDepth = 2, tl_MaxVariableStringBytes = 4\<rparr>"

theorem template_variables_exact_witness:
  "validateTemplateVariables small_limits [(''a'', VList [VString ''abcd'', VNil])] = None
    \<and> validateTemplateVariables small_limits [(''a'', VList [VString ''abcde''])] \<noteq> None"
  by (simp add: template_variables_exact small_limits_def)

section \<open>A manifest\<close>

lemma manifest_path: "resolveExistingSandboxPath tree_os tree ''/d/b'' ''.'' = Inr ''/d/b''"
proof -
  have "trim_space ''.'' = ''.''" by (simp add: graphic_trim_space graphic_def)
  then have "resolveSandboxPath tree_os ''/d/b'' ''.'' = Inr ''/d/b''" unfolding resolveSandboxPath_def by code_simp
  then show ?thesis unfolding resolveExistingSandboxPath_def by code_simp
qed

lemma manifest_walk: "WalkDir tree_os tree ''/d/b'' = Inr [([''old''], Regular ''x'' 420)]"
  by code_simp

lemma manifest_read: "ReadFile tree_os tree (Join [''/d/b'', ''old'']) = Inr ''x''"
  by code_simp

theorem manifest_within_limits_witness:
  "\<exists>manifest m'. BuildFileManifestWithOptions tree_env tree_files 10 ''b'' ''.'' \<lparr>mo_MaxFiles = 1, mo_MaxTotalBytes = 1\<rparr> tree tree_manager
      = (Inr manifest, m') \<and> fm_TotalSize manifest = sum_list (map it_Size (fm_Items manifest)) \<and> fm_FileCount manifest = 1 \<and> fm_TotalSize manifest = 1"
proof -
  have "fe_os tree_files = tree_os" by (simp add: tree_files_def)
  moreover have "normalizeManifestLimits (me_policy tree_env) \<lparr>mo_MaxFiles = 1, mo_MaxTotalBytes = 1\<rparr> = (1, 1)"
    by (simp add: normalizeManifestLimits_def Let_def)
  moreover have "trim_space ''.'' = ''.''" by (simp add: graphic_trim_space graphic_def)
  moreover have "cf_MaxArtifactBytesPerOrganization (sv_config (me_policy tree_env)) = 0"
    by (simp add: tree_env_def NewService_def example_config_def)
  ultimately obtain manifest m' where run: "BuildFileManifestWithOptions tree_env tree_files 10 ''b'' ''.'' \<lparr>mo_MaxFiles = 1, mo_MaxTotalBytes = 1\<rparr> tree tree_manager
      = (Inr manifest, m')" and items: "fm_FileCount manifest = 1" "fm_TotalSize manifest = 1"
    by (simp add: BuildFileManifestWithOptions_def Let_def tree_Get manifest_path manifest_walk fileManifestItem_def manifest_read
        detectContentTypeAndHash_def enforceOrganizationArtifactByteLimit_def)
  from run manifest_within_limits [OF run] items show ?thesis by blast
qed

end
