(* ===== verification/Sandbox_Runner.thy ===== *)
theory Sandbox_Runner
  imports Sandbox_Results Sandbox_Commands Sandbox_Manifests
begin

text \<open>
  The runner of processes (\<open>runner/runner.go\<close>): requests and results, its errors, the pool of
  workers, the buffers that cut the output, and the environment that a process inherits. A backend
  is a record of functions; what a process does is a change of the file system.
\<close>

section \<open>Requests and results\<close>

record run_request =
  rq_Language :: string
  rq_Code :: string
  rq_Preload :: string
  rq_Stdin :: string
  rq_EnableNetwork :: bool
  rq_DependencyProfile :: string
  rq_DependencyArtifactChecksum :: string

record command_result =
  cr_ExecutionID :: string
  cr_Stdout :: string
  cr_Error :: string
  cr_ExitCode :: int
  cr_DurationMS :: int
  cr_Truncated :: bool
  cr_Command :: string
  cr_Args :: "string list"
  cr_Backend :: string
  cr_ProfileChecksum :: string

record command_spec =
  cs_WorkDir :: string
  cs_Command :: string
  cs_Args :: "string list"
  cs_Stdin :: string
  cs_Env :: "(string, string) gomap"
  cs_DependencyProfile :: string
  cs_DependencyArtifactChecksum :: string
  cs_Timeout :: duration
  cs_StdoutLimit :: int
  cs_StderrLimit :: int
  cs_AllowShellForm :: bool

section \<open>Errors\<close>

text \<open>
  The errors of an execution: any error of the sandbox, a refused installation, the timeout of the
  queue for workers, and a cancelled request with its phase. A backend may also return the error of
  a cancelled context as it is.
\<close>

datatype run_error = Failure sb_error | InstallDenied install_error | QueueTimeout int | Cancellation string

datatype backend_error = ContextCanceled | BackendFailure string

fun run_error_text :: "run_error \<Rightarrow> string" where
  "run_error_text (Failure e) = error_text e"
| "run_error_text (InstallDenied e) = ''runtime dependency installation is disabled for managed dependency profiles''"
| "run_error_text (QueueTimeout ms) = ''execution queue wait timed out after '' @ show_int ms @ '' ms''"
| "run_error_text (Cancellation phase) = (if phase = [] then ''execution canceled'' else ''execution canceled during '' @ phase)"

definition update_all :: "dict \<Rightarrow> dict \<Rightarrow> dict" where
  "update_all new d = fold (\<lambda>(k, v). AList.update k v) new d"

definition limit_details :: "limit_error \<Rightarrow> dict" where
  "limit_details l =
     update_all (le_Details l)
       [(''error_type'', VString ''limit_exceeded''), (''code'', VString (le_Code l)), (''limit'', VString (le_Limit l)),
        (''maximum'', VInt Kint (le_Maximum l)), (''actual'', VInt Kint (le_Actual l))]"

definition install_details :: "install_error \<Rightarrow> dict" where
  "install_details e =
     (add_string ''command'' (ie_Command e) \<circ> add_string ''action'' (ie_Action e)
       \<circ> add_string ''package_manager'' (ie_PackageManager e))
       [(''error_type'', VString ''policy_denied''), (''code'', VString ''dependency_install_disabled'')]"

text \<open>\<open>ResponseDetails\<close> of the errors that have it.\<close>

fun ResponseDetails :: "run_error \<Rightarrow> dict" where
  "ResponseDetails (Failure (Message m)) = []"
| "ResponseDetails (Failure (Limit l)) = limit_details l"
| "ResponseDetails (InstallDenied e) = install_details e"
| "ResponseDetails (QueueTimeout ms) =
     [(''error_type'', VString ''limit_exceeded''), (''code'', VString ''execution_queue_timeout''),
      (''limit'', VString ''queue_timeout_ms''), (''maximum'', VInt Kint64 ms)]"
| "ResponseDetails (Cancellation phase) =
     [(''error_type'', VString ''execution_canceled''), (''code'', VString ''request_canceled''),
      (''phase'', VString (if phase = [] then ''execution'' else phase))]"

fun normalizeCancellation :: "backend_error \<Rightarrow> string \<Rightarrow> run_error" where
  "normalizeCancellation ContextCanceled phase = Cancellation phase"
| "normalizeCancellation (BackendFailure e) phase = Failure (Message e)"

section \<open>The service\<close>

text \<open>
  A backend changes the file system. The arguments of \<open>bk_Run\<close> are those of the interface: the
  request, the directory, whether it is removed afterwards, the timeout and the two limits.
\<close>

record backend =
  bk_Name :: string
  bk_Run :: "run_request \<Rightarrow> string \<Rightarrow> bool \<Rightarrow> duration \<Rightarrow> int \<Rightarrow> int \<Rightarrow> fsys \<Rightarrow> (backend_error + runner_result) \<times> fsys"
  bk_ExecuteCommand :: "command_spec \<Rightarrow> fsys \<Rightarrow> (backend_error + command_result) \<times> fsys"

record runner =
  rn_maxWorkers :: int
  rn_timeout :: duration
  rn_queueTimeout :: duration
  rn_outputCap :: int
  rn_backend :: backend

record runner_options =
  ro_MaxWorkers :: int
  ro_Timeout :: duration
  ro_QueueTimeout :: duration
  ro_OutputCap :: int
  ro_Backend :: "backend option"

definition NewServiceWithOptions :: "backend \<Rightarrow> runner_options \<Rightarrow> runner" where
  "NewServiceWithOptions process options =
     \<lparr>rn_maxWorkers = at_least_one 1 (ro_MaxWorkers options), rn_timeout = at_least_one (5 * Second) (ro_Timeout options),
      rn_queueTimeout = at_least_one (5 * Second) (ro_QueueTimeout options),
      rn_outputCap = at_least_one (64 * 1024) (ro_OutputCap options),
      rn_backend = (case ro_Backend options of None \<Rightarrow> process | Some b \<Rightarrow> b)\<rparr>"

text \<open>
  The wait for a worker: how many are active when the call arrives, and, when all are, which of the
  three channels of the second select comes first.
\<close>

datatype worker_wait = Slot | Timer | Done backend_error

definition acquire :: "runner \<Rightarrow> int \<Rightarrow> worker_wait \<Rightarrow> run_error option" where
  "acquire r active w =
     (if active < rn_maxWorkers r then None
      else case w of
        Slot \<Rightarrow> None
      | Timer \<Rightarrow> Some (QueueTimeout (rn_queueTimeout r div Millisecond))
      | Done e \<Rightarrow> Some (normalizeCancellation e ''queue''))"

definition languageSpec :: "string \<Rightarrow> string + string \<times> string" where
  "languageSpec language =
     (let l = to_lower (trim_space language)
      in if l \<in> {''python'', ''python3''} then Inr (''python3'', ''main.py'')
         else if l \<in> {''node'', ''nodejs'', ''javascript''} then Inr (''node'', ''main.js'')
         else Inl (''unsupported language: '' @ language))"

definition run ::
    "runner \<Rightarrow> run_error option \<Rightarrow> run_request \<Rightarrow> string \<Rightarrow> bool \<Rightarrow> duration \<Rightarrow> int \<Rightarrow> int \<Rightarrow> fsys \<Rightarrow> (run_error + runner_result) \<times> fsys" where
  "run r worker req workDir ephemeral timeout stdoutLimit stderrLimit fs =
     (if trim_space (rq_Code req) = [] then (Inl (Failure (Message ''code is required'')), fs)
      else case languageSpec (rq_Language req) of
        Inl e \<Rightarrow> (Inl (Failure (Message e)), fs)
      | Inr _ \<Rightarrow>
          (case worker of
             Some e \<Rightarrow> (Inl e, fs)
           | None \<Rightarrow>
               (case bk_Run (rn_backend r) req workDir ephemeral (at_least_one (rn_timeout r) timeout)
                       (at_least_one (rn_outputCap r) stdoutLimit) (at_least_one (rn_outputCap r) stderrLimit) fs of
                  (Inl e, fs) \<Rightarrow> (Inl (normalizeCancellation e ''execution''), fs)
                | (Inr result, fs) \<Rightarrow> (Inr (result\<lparr>rs_Backend := bk_Name (rn_backend r)\<rparr>), fs))))"

definition RunWithLimits ::
    "runner \<Rightarrow> run_error option \<Rightarrow> run_request \<Rightarrow> duration \<Rightarrow> int \<Rightarrow> int \<Rightarrow> fsys \<Rightarrow> (run_error + runner_result) \<times> fsys" where
  "RunWithLimits r worker req timeout stdoutLimit stderrLimit fs = run r worker req [] True timeout stdoutLimit stderrLimit fs"

definition RunInDirWithLimits ::
    "runner \<Rightarrow> run_error option \<Rightarrow> run_request \<Rightarrow> string \<Rightarrow> duration \<Rightarrow> int \<Rightarrow> int \<Rightarrow> fsys \<Rightarrow> (run_error + runner_result) \<times> fsys" where
  "RunInDirWithLimits r worker req workDir timeout stdoutLimit stderrLimit fs =
     run r worker req workDir False timeout stdoutLimit stderrLimit fs"

definition with_defaults :: "runner \<Rightarrow> command_spec \<Rightarrow> command_spec" where
  "with_defaults r spec =
     spec\<lparr>cs_Timeout := at_least_one (rn_timeout r) (cs_Timeout spec),
       cs_StdoutLimit := at_least_one (rn_outputCap r) (cs_StdoutLimit spec),
       cs_StderrLimit := at_least_one (rn_outputCap r) (cs_StderrLimit spec)\<rparr>"

definition ExecuteCommandSpec ::
    "runner \<Rightarrow> run_error option \<Rightarrow> command_spec \<Rightarrow> fsys \<Rightarrow> (run_error + command_result) \<times> fsys" where
  "ExecuteCommandSpec r worker spec fs =
     (if trim_space (cs_Command spec) = [] then (Inl (Failure (Message ''command is required'')), fs)
      else if cs_WorkDir spec = [] then (Inl (Failure (Message ''working directory is required'')), fs)
      else case worker of
        Some e \<Rightarrow> (Inl e, fs)
      | None \<Rightarrow>
          (case bk_ExecuteCommand (rn_backend r) (with_defaults r spec) fs of
             (Inl e, fs) \<Rightarrow> (Inl (normalizeCancellation e ''execution''), fs)
           | (Inr result, fs) \<Rightarrow> (Inr (result\<lparr>cr_Backend := bk_Name (rn_backend r)\<rparr>), fs)))"

section \<open>Scripts, buffers and environments\<close>

definition buildContent :: "string \<Rightarrow> string \<Rightarrow> string" where
  "buildContent preload code =
     join_with [byte 10, byte 10] ((if trim_space preload \<noteq> [] then [trim_space preload] else []) @ [code])"

record capped_buffer =
  cb_limit :: int
  cb_buf :: string
  cb_truncated :: bool

definition newCappedBuffer :: "int \<Rightarrow> capped_buffer" where
  "newCappedBuffer limit = \<lparr>cb_limit = limit, cb_buf = [], cb_truncated = False\<rparr>"

definition capped_Write :: "capped_buffer \<Rightarrow> string \<Rightarrow> capped_buffer" where
  "capped_Write b p =
     (if cb_limit b \<le> 0 then b
      else let remaining = cb_limit b - int (length (cb_buf b))
      in if remaining \<le> 0 then b\<lparr>cb_truncated := True\<rparr>
         else if int (length p) > remaining
         then b\<lparr>cb_buf := cb_buf b @ take (nat remaining) p, cb_truncated := True\<rparr>
         else b\<lparr>cb_buf := cb_buf b @ p\<rparr>)"

definition AppendLine :: "capped_buffer \<Rightarrow> string \<Rightarrow> capped_buffer" where
  "AppendLine b message =
     (if message = [] then b
      else capped_Write b (if last message = byte 10 then message else message @ [byte 10]))"

definition unsafeBaseEnvKey :: "string \<Rightarrow> bool" where
  "unsafeBaseEnvKey key \<longleftrightarrow>
     (let upper = to_upper key
      in upper \<in> {''IFS'', ''SHELLOPTS'', ''BASH_ENV'', ''ENV'', ''PYTHONPATH'', ''NODE_OPTIONS''}
         \<or> has_prefix upper ''LD_'' \<or> has_prefix upper ''DYLD_'')"

text \<open>\<open>strings.Cut\<close> at the first equals sign.\<close>

definition cut_key :: "string \<Rightarrow> string option" where
  "cut_key item = (if CHR ''='' \<in> set item then Some (takeWhile (\<lambda>c. c \<noteq> CHR ''='') item) else None)"

definition safeBaseEnv :: "string list \<Rightarrow> string list" where
  "safeBaseEnv items =
     filter (\<lambda>item. case cut_key item of None \<Rightarrow> False | Some key \<Rightarrow> \<not> unsafeBaseEnvKey key) items"

text \<open>However a process cuts its output into pieces, the buffer holds the part that fits and knows whether it lost some.\<close>

lemma capped_writes:
  assumes "0 < limit" and "[] \<notin> set ps"
  shows "fold (\<lambda>p b. capped_Write b p) ps (newCappedBuffer limit) =
    \<lparr>cb_limit = limit, cb_buf = take (nat limit) (concat ps), cb_truncated = (limit < int (length (concat ps)))\<rparr>"
  using assms(2)
proof (induction ps rule: rev_induct)
  case (snoc p ps)
  have rest: "nat (limit - int n) = nat limit - n" for n by simp
  obtain c q where "p = c # q" using snoc.prems by (cases p) auto
  with rest assms(1) snoc show ?case by (auto simp: capped_Write_def Let_def min_def split: if_splits)
qed (use assms in \<open>simp add: newCappedBuffer_def\<close>)

text \<open>The environment that a process inherits has none of the names that steer loaders and interpreters.\<close>

lemma safeBaseEnv_keys: "item \<in> set (safeBaseEnv items) \<Longrightarrow> cut_key item = Some key \<Longrightarrow> \<not> unsafeBaseEnvKey key"
  by (simp add: safeBaseEnv_def)

end
