(* ===== verification/Sandbox_Artifacts.thy ===== *)
theory Sandbox_Artifacts
  imports Sandbox_Runner
begin

text \<open>
  The built dependency profiles that a process uses (\<open>runner/rootfs.go\<close>,
  \<open>runner/profile_artifact.go\<close>): which root file system is chosen for a profile and the checksum
  of its artifact, and the verification of the artifact before it is mounted. SHA-256 in
  hexadecimal, the JSON decoder and the permission bits of directories are parameters.
\<close>

section \<open>Names\<close>

definition safe_name_char :: "char \<Rightarrow> bool" where
  "safe_name_char c \<longleftrightarrow> (let n = of_char c :: nat in 97 \<le> n \<and> n \<le> 122 \<or> 48 \<le> n \<and> n \<le> 57 \<or> c = CHR ''-'')"

definition safeDependencyProfileName :: "string \<Rightarrow> bool" where
  "safeDependencyProfileName v \<longleftrightarrow> v \<noteq> [] \<and> list_all safe_name_char v"

definition isLowerHex :: "string \<Rightarrow> nat \<Rightarrow> bool" where
  "isLowerHex v n \<longleftrightarrow>
     length v = n \<and> list_all (\<lambda>c. let k = of_char c :: nat in 48 \<le> k \<and> k \<le> 57 \<or> 97 \<le> k \<and> k \<le> 102) v"

definition unsafe_name :: "string \<Rightarrow> string" where
  "unsafe_name profile = ''dependency profile name is not safe: '' @ profile"

record built_profile_package =
  bp_Name :: string
  bp_Version :: string
  bp_Ecosystem :: string

record built_profile_manifest =
  bm_Name :: string
  bm_Version :: string
  bm_OwnerScope :: string
  bm_Languages :: "string list"
  bm_BaseRuntime :: string
  bm_Description :: string
  bm_PublicReusable :: bool
  bm_Pinned :: bool
  bm_Packages :: "built_profile_package list"
  bm_BuildChecksum :: string
  bm_BuildSizeBytes :: int
  bm_VerificationPassed :: bool

record artifact_env =
  ae_os :: os_env
  ae_perm :: "fsys \<Rightarrow> string \<Rightarrow> nat"
  ae_sha256 :: "string \<Rightarrow> string"
  ae_manifest :: "string \<Rightarrow> string + built_profile_manifest"

definition dependencyArtifactRuntimeKey :: "artifact_env \<Rightarrow> string \<Rightarrow> string" where
  "dependencyArtifactRuntimeKey A checksum =
     (let checksum = to_lower (trim_space checksum)
      in if checksum = [] then []
         else if safeDependencyProfileName checksum then checksum
         else if has_prefix checksum ''sha256:'' \<and> isLowerHex (trim_prefix checksum ''sha256:'') 64
         then ''sha256-'' @ trim_prefix checksum ''sha256:''
         else if has_prefix checksum ''sha256-'' \<and> isLowerHex (trim_prefix checksum ''sha256-'') 64
         then ''sha256-'' @ trim_prefix checksum ''sha256-''
         else ''artifact-'' @ ae_sha256 A checksum)"

section \<open>Root file systems\<close>

text \<open>A directory as it must be: no link, and not writable for everybody.\<close>

definition plain_directory :: "string \<Rightarrow> artifact_env \<Rightarrow> fsys \<Rightarrow> string \<Rightarrow> string option" where
  "plain_directory what A fs p =
     (case Lstat (ae_os A) fs p of
        Inl e \<Rightarrow> Some (''lstat '' @ p @ '': '' @ errno_text e)
      | Inr (Symlink t) \<Rightarrow> Some (what @ '' must not be a symlink'')
      | Inr (Regular c m) \<Rightarrow> Some (what @ '' must be a directory'')
      | Inr Directory \<Rightarrow> if odd (ae_perm A fs p div 2) then Some (what @ '' must not be world-writable'') else None)"

definition validateRuntimeRootFS :: "artifact_env \<Rightarrow> fsys \<Rightarrow> string \<Rightarrow> string option" where
  "validateRuntimeRootFS = plain_directory ''rootfs''"

definition not_usable :: "string \<Rightarrow> string \<Rightarrow> string" where
  "not_usable key e = ''dependency profile rootfs '' @ quoted key @ '' is not usable: '' @ e"

definition resolveDependencyProfileRootFS :: "artifact_env \<Rightarrow> fsys \<Rightarrow> string \<Rightarrow> string \<Rightarrow> string + string" where
  "resolveDependencyProfileRootFS A fs profileDir dependencyProfile =
     (let runtimeKey = trim_space dependencyProfile; root = Join [profileDir, runtimeKey]
      in if runtimeKey = [] then Inl ''dependency profile is required''
         else if \<not> safeDependencyProfileName runtimeKey
         then Inl (''dependency profile rootfs selection failed: '' @ unsafe_name runtimeKey)
         else case validateRuntimeRootFS A fs root of
           Some e \<Rightarrow> Inl (not_usable runtimeKey e)
         | None \<Rightarrow> Inr root)"

text \<open>\<open>rootFSSelector.resolve\<close>.\<close>

definition resolve_rootfs :: "artifact_env \<Rightarrow> fsys \<Rightarrow> string \<Rightarrow> string \<Rightarrow> string \<Rightarrow> string \<Rightarrow> string + string" where
  "resolve_rootfs A fs defaultRootFS dependencyRootFSDir dependencyProfile dependencyArtifactChecksum =
     (let defaultRootFS = trim_space defaultRootFS;
          profileDir = trim_space dependencyRootFSDir;
          artifactKey = dependencyArtifactRuntimeKey A dependencyArtifactChecksum;
          runtimeKey = (if artifactKey = [] then trim_space dependencyProfile else artifactKey);
          root = Join [profileDir, runtimeKey]
      in if defaultRootFS = [] then Inl ''default rootfs is required''
         else if profileDir = [] \<or> runtimeKey = [] then Inr defaultRootFS
         else if \<not> safeDependencyProfileName runtimeKey
         then Inl (''dependency profile rootfs selection failed: '' @ unsafe_name runtimeKey)
         else case validateRuntimeRootFS A fs root of
           None \<Rightarrow> Inr root
         | Some e \<Rightarrow>
             (case (if artifactKey \<noteq> [] then resolveDependencyProfileRootFS A fs profileDir dependencyProfile else Inl []) of
                Inr fallback \<Rightarrow> Inr fallback
              | Inl _ \<Rightarrow> Inl (not_usable runtimeKey e)))"

section \<open>Artifacts\<close>

definition validateProfileDir :: "artifact_env \<Rightarrow> fsys \<Rightarrow> string \<Rightarrow> string option" where
  "validateProfileDir = plain_directory ''profile directory''"

text \<open>
  The walk of \<open>checksumProfileArtifactDir\<close>: the regular files in the order of the walk, each with
  its path below the root, except for the manifest. The root itself is a directory here, since
  \<open>validateProfileDir\<close> comes first.
\<close>

fun artifact_walk :: "artifact_env \<Rightarrow> fsys \<Rightarrow> string \<Rightarrow> (path \<times> inode) list \<Rightarrow> string + (string \<times> string) list" where
  "artifact_walk A fs root [] = Inr []"
| "artifact_walk A fs root ((p, n) # ns) =
     (case n of
        Directory \<Rightarrow>
          if odd (ae_perm A fs (Join (root # p)) div 2)
          then Inl (''dependency profile artifact directory is world-writable: '' @ join_with ''/'' p)
          else artifact_walk A fs root ns
      | Symlink t \<Rightarrow> Inl (''dependency profile artifact contains symlink: '' @ Join (root # p))
      | Regular c m \<Rightarrow>
          let rel = join_with ''/'' p
          in map_sum id (\<lambda>files. if rel = ''manifest.json'' then files else (rel, c) # files) (artifact_walk A fs root ns))"

text \<open>What is hashed: every name and every content, each followed by a zero byte.\<close>

definition artifact_stream :: "(string \<times> string) list \<Rightarrow> string" where
  "artifact_stream files = concat (map (\<lambda>(rel, c). rel @ [byte 0] @ c @ [byte 0]) files)"

fun read_files :: "artifact_env \<Rightarrow> fsys \<Rightarrow> string \<Rightarrow> string list \<Rightarrow> string + (string \<times> string) list" where
  "read_files A fs root [] = Inr []"
| "read_files A fs root (rel # rels) =
     (case ReadFile (ae_os A) fs (Join [root, rel]) of
        Inl e \<Rightarrow> Inl (''open '' @ Join [root, rel] @ '': '' @ errno_text e)
      | Inr c \<Rightarrow> map_sum id (\<lambda>files. (rel, c) # files) (read_files A fs root rels))"

definition checksumProfileArtifactDir :: "artifact_env \<Rightarrow> fsys \<Rightarrow> string \<Rightarrow> string + string \<times> int" where
  "checksumProfileArtifactDir A fs root =
     (case WalkDir (ae_os A) fs root of
        Inl e \<Rightarrow> Inl (''lstat '' @ root @ '': '' @ errno_text e)
      | Inr ns \<Rightarrow>
          (case artifact_walk A fs root ns of
             Inl e \<Rightarrow> Inl e
           | Inr files \<Rightarrow>
               (case read_files A fs root (sort (map fst files)) of
                  Inl e \<Rightarrow> Inl e
                | Inr contents \<Rightarrow>
                    Inr (''sha256:'' @ ae_sha256 A (artifact_stream contents), sum_list (map (\<lambda>(rel, c). int (length c)) files)))))"

definition artifact_checksum_errors ::
    "built_profile_manifest \<Rightarrow> string \<Rightarrow> string \<Rightarrow> int \<Rightarrow> string option" where
  "artifact_checksum_errors manifest expectedChecksum checksum bytes =
     (if checksum \<noteq> bm_BuildChecksum manifest
      then Some (''dependency profile artifact checksum mismatch: manifest='' @ bm_BuildChecksum manifest @ '' actual='' @ checksum)
      else if expectedChecksum \<noteq> [] \<and> checksum \<noteq> expectedChecksum
      then Some (''dependency profile artifact checksum '' @ quoted checksum @ '' does not match selected artifact '' @ quoted expectedChecksum)
      else if bytes \<noteq> bm_BuildSizeBytes manifest
      then Some (''dependency profile artifact size mismatch: manifest='' @ show_int (bm_BuildSizeBytes manifest) @ '' actual='' @ show_int bytes)
      else None)"

definition validateBuiltProfileArtifactForActivation ::
    "artifact_env \<Rightarrow> fsys \<Rightarrow> string \<Rightarrow> string \<Rightarrow> string \<Rightarrow> string + built_profile_manifest" where
  "validateBuiltProfileArtifactForActivation A fs profileDir expectedProfile expectedChecksum =
     (case validateProfileDir A fs profileDir of
        Some e \<Rightarrow> Inl (''dependency profile artifact is not usable: '' @ e)
      | None \<Rightarrow>
          let manifestPath = Join [profileDir, ''manifest.json''] in
          case ReadFile (ae_os A) fs manifestPath of
            Inl e \<Rightarrow> Inl (''read dependency profile artifact manifest: open '' @ manifestPath @ '': '' @ errno_text e)
          | Inr raw \<Rightarrow>
              (case ae_manifest A raw of
                 Inl e \<Rightarrow> Inl (''parse dependency profile artifact manifest: '' @ e)
               | Inr manifest \<Rightarrow>
                   let expectedChecksum = trim_space expectedChecksum in
                   if bm_Name manifest \<noteq> expectedProfile \<and> expectedChecksum = []
                   then Inl (''dependency profile artifact name '' @ quoted (bm_Name manifest) @ '' does not match selected profile ''
                     @ quoted expectedProfile)
                   else if trim_space (bm_Version manifest) = [] then Inl ''dependency profile artifact version is required''
                   else if trim_space (bm_BuildChecksum manifest) = [] then Inl ''dependency profile artifact checksum is required''
                   else if bm_BuildSizeBytes manifest \<le> 0 then Inl ''dependency profile artifact size_bytes must be positive''
                   else if \<not> bm_VerificationPassed manifest
                   then Inl ''dependency profile artifact verification has not passed''
                   else case checksumProfileArtifactDir A fs profileDir of
                     Inl e \<Rightarrow> Inl e
                   | Inr (checksum, bytes) \<Rightarrow>
                       (case artifact_checksum_errors manifest expectedChecksum checksum bytes of
                          Some e \<Rightarrow> Inl e
                        | None \<Rightarrow> Inr manifest)))"

text \<open>\<open>os.ReadDir\<close>: the entries of a directory, sorted by name.\<close>

definition ReadDir :: "os_env \<Rightarrow> fsys \<Rightarrow> string \<Rightarrow> errno + (string \<times> inode) list" where
  "ReadDir W fs p =
     (case resolve W fs True p of
        Inl e \<Rightarrow> Inl e
      | Inr q \<Rightarrow>
          (case node fs q of
             None \<Rightarrow> Inl ENOENT
           | Some Directory \<Rightarrow>
               Inr (map (\<lambda>r. (last r, the (node fs r)))
                 (sort (remdups (filter (\<lambda>r. r \<noteq> [] \<and> butlast r = q) (map fst fs)))))
           | Some _ \<Rightarrow> Inl ENOTDIR))"

abbreviation secureProfileBasePath :: string where "secureProfileBasePath \<equiv> ''/opt/zgi/profiles''"

fun first_artifact :: "artifact_env \<Rightarrow> fsys \<Rightarrow> string \<Rightarrow> string \<Rightarrow> string \<Rightarrow> (string \<times> inode) list \<Rightarrow> (string \<times> built_profile_manifest) option" where
  "first_artifact A fs profilesRoot profile checksum [] = None"
| "first_artifact A fs profilesRoot profile checksum ((name, n) # es) =
     (if n \<noteq> Directory \<or> \<not> safeDependencyProfileName name then first_artifact A fs profilesRoot profile checksum es
      else case validateBuiltProfileArtifactForActivation A fs (Join [profilesRoot, name]) profile checksum of
             Inr manifest \<Rightarrow> Some (Join [profilesRoot, name], manifest)
           | Inl _ \<Rightarrow> first_artifact A fs profilesRoot profile checksum es)"

definition findRuntimeProfileArtifact ::
    "artifact_env \<Rightarrow> fsys \<Rightarrow> string \<Rightarrow> string \<Rightarrow> string \<Rightarrow> string + string \<times> built_profile_manifest" where
  "findRuntimeProfileArtifact A fs rootfs dependencyProfile dependencyArtifactChecksum =
     (let profilesRoot = Join [rootfs, trim_prefix secureProfileBasePath ''/'']; preferred = Join [profilesRoot, dependencyProfile]
      in case validateBuiltProfileArtifactForActivation A fs preferred dependencyProfile dependencyArtifactChecksum of
           Inr manifest \<Rightarrow> Inr (preferred, manifest)
         | Inl e \<Rightarrow>
             if trim_space dependencyArtifactChecksum = [] then Inl e
             else case ReadDir (ae_os A) fs profilesRoot of
               Inl e \<Rightarrow> Inl (''open '' @ profilesRoot @ '': '' @ errno_text e)
             | Inr entries \<Rightarrow>
                 (case first_artifact A fs profilesRoot dependencyProfile dependencyArtifactChecksum entries of
                    Some found \<Rightarrow> Inr found
                  | None \<Rightarrow> Inl (''dependency profile artifact checksum '' @ quoted dependencyArtifactChecksum
                      @ '' is not available for profile '' @ quoted dependencyProfile)))"

section \<open>The list of artifacts\<close>

record profile_artifact =
  pa_Name :: string
  pa_Version :: string
  pa_OwnerScope :: string
  pa_Languages :: "string list"
  pa_Packages :: "built_profile_package list"
  pa_BaseRuntime :: string
  pa_Checksum :: string
  pa_SizeBytes :: int
  pa_Description :: string
  pa_PublicReusable :: bool
  pa_Pinned :: bool

definition trimmed_default :: "string \<Rightarrow> string \<Rightarrow> string" where
  "trimmed_default v fallback = (if trim_space v = [] then fallback else trim_space v)"

definition dependencyProfileArtifactFromManifest :: "built_profile_manifest \<Rightarrow> profile_artifact" where
  "dependencyProfileArtifactFromManifest manifest =
     \<lparr>pa_Name = bm_Name manifest, pa_Version = bm_Version manifest,
      pa_OwnerScope = trimmed_default (bm_OwnerScope manifest) ''global'', pa_Languages = bm_Languages manifest,
      pa_Packages = bm_Packages manifest, pa_BaseRuntime = trimmed_default (bm_BaseRuntime manifest) ''linux-secure'',
      pa_Checksum = bm_BuildChecksum manifest, pa_SizeBytes = bm_BuildSizeBytes manifest,
      pa_Description = trim_space (bm_Description manifest),
      pa_PublicReusable = (bm_PublicReusable manifest \<or> has_prefix (bm_Name manifest) ''auto-''),
      pa_Pinned = (bm_Pinned manifest \<or> has_prefix (bm_Name manifest) ''auto-'')\<rparr>"

fun list_artifacts :: "artifact_env \<Rightarrow> fsys \<Rightarrow> string \<Rightarrow> (string \<times> inode) list \<Rightarrow> string + profile_artifact list" where
  "list_artifacts A fs root [] = Inr []"
| "list_artifacts A fs root ((profile, n) # es) =
     (if n \<noteq> Directory then list_artifacts A fs root es
      else if \<not> safeDependencyProfileName profile then Inl (unsafe_name profile)
      else case validateBuiltProfileArtifactForActivation A fs
              (Join [root, profile, trim_prefix secureProfileBasePath ''/'', profile]) profile [] of
             Inl e \<Rightarrow> Inl (''inspect dependency profile artifact '' @ profile @ '': '' @ e)
           | Inr manifest \<Rightarrow> map_sum id (\<lambda>as. dependencyProfileArtifactFromManifest manifest # as) (list_artifacts A fs root es))"

definition ListDependencyProfileArtifacts :: "artifact_env \<Rightarrow> fsys \<Rightarrow> string \<Rightarrow> string + profile_artifact list" where
  "ListDependencyProfileArtifacts A fs dependencyRootFSDir =
     (let root = trim_space dependencyRootFSDir
      in if root = [] then Inr []
         else case ReadDir (ae_os A) fs root of
           Inl ENOENT \<Rightarrow> Inr []
         | Inl e \<Rightarrow> Inl (''read dependency profile rootfs directory: open '' @ root @ '': '' @ errno_text e)
         | Inr entries \<Rightarrow> list_artifacts A fs root entries)"

end
