(* ===== verification/Sandbox_Backends.thy ===== *)
theory Sandbox_Backends
  imports Sandbox_Artifacts
begin

text \<open>
  The two backends that run processes (\<open>runner/backend_process.go\<close>,
  \<open>runner/backend_secure_linux.go\<close>, \<open>runner/secure_bwrap.go\<close>, \<open>runner/secure_limits.go\<close>): the
  argument list and the environment of the process, its result, and the script of a run of code. The
  process itself, its exit, the names of signals and random tokens are parameters.
\<close>

section \<open>Processes\<close>

text \<open>
  A call has the words of the command, the directory and the environment, unless they are inherited,
  the input, and the timeout of its context. The end of a process is success, the deadline of the
  context, an exit status, a signal, or any other error of starting and waiting.
\<close>

record process_call =
  pc_argv :: "string list"
  pc_Dir :: "string option"
  pc_Env :: "string list option"
  pc_Stdin :: string
  pc_timeout :: duration

datatype process_end = Success | DeadlineExceeded | ExitStatus int | Signaled int | ProcessError backend_error

record process_outcome =
  po_stdout :: "string list"
  po_stderr :: "string list"
  po_DurationMS :: int
  po_end :: process_end

record host_env =
  ho_artifacts :: artifact_env
  ho_environ :: "string list"
  ho_temp :: string
  ho_token :: string
  ho_signal :: "int \<Rightarrow> string"
  ho_process :: "process_call \<Rightarrow> fsys \<Rightarrow> process_outcome \<times> fsys"

definition exitCodeFromExitError :: "host_env \<Rightarrow> process_end \<Rightarrow> capped_buffer \<Rightarrow> int \<times> capped_buffer" where
  "exitCodeFromExitError H e stderr =
     (case e of
        Signaled s \<Rightarrow> (128 + s, AppendLine stderr (''process terminated by signal: '' @ ho_signal H s))
      | ExitStatus c \<Rightarrow>
          (c, if c > 128 \<and> c \<le> 192 then AppendLine stderr (''process terminated by signal: '' @ ho_signal H (c - 128)) else stderr)
      | _ \<Rightarrow> (0, stderr))"

definition process_code :: "host_env \<Rightarrow> string \<Rightarrow> process_end \<Rightarrow> capped_buffer \<Rightarrow> backend_error + int \<times> capped_buffer" where
  "process_code H timed_out e stderr =
     (case e of
        Success \<Rightarrow> Inr (0, stderr)
      | DeadlineExceeded \<Rightarrow> Inr (124, AppendLine stderr timed_out)
      | ProcessError err \<Rightarrow> Inl err
      | _ \<Rightarrow> Inr (exitCodeFromExitError H e stderr))"

definition captured :: "int \<Rightarrow> string list \<Rightarrow> capped_buffer" where
  "captured limit pieces = fold (\<lambda>p b. capped_Write b p) pieces (newCappedBuffer limit)"

text \<open>The common part of the backends: start a process, and make a result of what it leaves.\<close>

definition process_result ::
    "host_env \<Rightarrow> string \<Rightarrow> process_call \<Rightarrow> bool \<Rightarrow> int \<Rightarrow> int \<Rightarrow> string \<Rightarrow> fsys \<Rightarrow> (backend_error + runner_result) \<times> fsys" where
  "process_result H timed_out call network stdoutLimit stderrLimit checksum fs =
     (case ho_process H call fs of (out, fs) \<Rightarrow>
        (case process_code H timed_out (po_end out) (captured stderrLimit (po_stderr out)) of
           Inl e \<Rightarrow> (Inl e, fs)
         | Inr (exitCode, stderr) \<Rightarrow>
             let stdout = captured stdoutLimit (po_stdout out) in
             (Inr \<lparr>rs_ExecutionID = [], rs_Stdout = cb_buf stdout, rs_Error = cb_buf stderr, rs_ExitCode = exitCode,
                rs_DurationMS = po_DurationMS out, rs_NetworkRequested = network,
                rs_Truncated = (cb_truncated stdout \<or> cb_truncated stderr), rs_Backend = [], rs_ProfileChecksum = checksum,
                rs_ResultJSON = None, rs_Warnings = []\<rparr>, fs)))"

definition as_command_result :: "command_spec \<Rightarrow> runner_result \<Rightarrow> command_result" where
  "as_command_result spec result =
     \<lparr>cr_ExecutionID = [], cr_Stdout = rs_Stdout result, cr_Error = rs_Error result, cr_ExitCode = rs_ExitCode result,
      cr_DurationMS = rs_DurationMS result, cr_Truncated = rs_Truncated result, cr_Command = cs_Command spec,
      cr_Args = cs_Args spec, cr_Backend = [], cr_ProfileChecksum = rs_ProfileChecksum result\<rparr>"

section \<open>Bubblewrap\<close>

record secure_limits =
  sl_CPUSeconds :: int
  sl_MemoryBytes :: int
  sl_ProcessLimit :: int
  sl_OpenFileLimit :: int

definition secureRuntimeLimitsFromConfig :: "config \<Rightarrow> secure_limits" where
  "secureRuntimeLimitsFromConfig c =
     \<lparr>sl_CPUSeconds = cf_SecureRuntimeCPUSeconds c, sl_MemoryBytes = cf_SecureRuntimeMemoryBytes c,
      sl_ProcessLimit = cf_SecureRuntimeProcessLimit c, sl_OpenFileLimit = cf_SecureRuntimeOpenFileLimit c\<rparr>"

definition prlimitArgs :: "secure_limits \<Rightarrow> string list" where
  "prlimitArgs l =
     (if sl_CPUSeconds l > 0 then [''--cpu='' @ show_int (sl_CPUSeconds l)] else [])
     @ (if sl_MemoryBytes l > 0 then [''--as='' @ show_int (sl_MemoryBytes l)] else [])
     @ (if sl_ProcessLimit l > 0 then [''--nproc='' @ show_int (sl_ProcessLimit l)] else [])
     @ (if sl_OpenFileLimit l > 0 then [''--nofile='' @ show_int (sl_OpenFileLimit l)] else [])"

abbreviation secureWorkspacePath :: string where "secureWorkspacePath \<equiv> ''/tmp/workspace''"

abbreviation defaultSecurePath :: string where
  "defaultSecurePath \<equiv> ''/usr/local/sbin:/usr/local/bin:/usr/sbin:/usr/bin:/sbin:/bin''"

record bwrap_spec =
  bw_RootFS :: string
  bw_WorkDir :: string
  bw_Binary :: string
  bw_Args :: "string list"
  bw_EnableNetwork :: bool
  bw_Env :: "(string, string) gomap"
  bw_ProfileEnv :: "(string, string) gomap"
  bw_ProfileHostDir :: string
  bw_ProfileContainerDir :: string
  bw_ExtraRoBinds :: "string list"

definition sortedEnvKeys :: "(string, string) gomap \<Rightarrow> string list" where
  "sortedEnvKeys env = sort (map fst env)"

definition setenv_args :: "(string, string) gomap \<Rightarrow> string list" where
  "setenv_args env = concat (map (\<lambda>k. [''--setenv'', k, the (map_of env k)]) (sortedEnvKeys env))"

fun ro_binds :: "string list \<Rightarrow> string list" where
  "ro_binds (host # inside # rest) = [''--ro-bind'', host, inside] @ ro_binds rest"
| "ro_binds _ = []"

definition bwrap_options :: "bwrap_spec \<Rightarrow> string list" where
  "bwrap_options spec =
     [''--die-with-parent'', ''--new-session'', ''--clearenv'', ''--ro-bind'', bw_RootFS spec, ''/'', ''--dir'', ''/proc'',
      ''--dev'', ''/dev'', ''--tmpfs'', ''/tmp'', ''--dir'', secureWorkspacePath, ''--bind'', bw_WorkDir spec, secureWorkspacePath,
      ''--chdir'', secureWorkspacePath, ''--setenv'', ''HOME'', secureWorkspacePath, ''--setenv'', ''PATH'', defaultSecurePath,
      ''--unshare-user'', ''--uid'', ''65534'', ''--gid'', ''65534'', ''--unshare-pid'', ''--unshare-ipc'', ''--unshare-uts'',
      ''--unshare-cgroup'']
     @ setenv_args (bw_Env spec) @ setenv_args (bw_ProfileEnv spec)
     @ (if bw_ProfileHostDir spec \<noteq> [] \<and> bw_ProfileContainerDir spec \<noteq> []
        then [''--ro-bind'', bw_ProfileHostDir spec, bw_ProfileContainerDir spec] else [])
     @ ro_binds (bw_ExtraRoBinds spec)
     @ (if bw_EnableNetwork spec then [] else [''--unshare-net''])"

definition buildSecureBwrapArgs :: "bwrap_spec \<Rightarrow> string list" where
  "buildSecureBwrapArgs spec = bwrap_options spec @ bw_Binary spec # bw_Args spec"

definition agentCliEnv :: "(string, string) gomap \<Rightarrow> (string, string) gomap" where
  "agentCliEnv env =
     (let base = (case map_of env ''PATH'' of None \<Rightarrow> [] | Some p \<Rightarrow> p); base = (if base = [] then defaultSecurePath else base)
      in AList.update ''PATH'' (''/opt/zgi/agent-cli:'' @ base) env)"

definition secureDependencyProfileEnv :: "string \<Rightarrow> string + (string, string) gomap" where
  "secureDependencyProfileEnv profile =
     (let profile = trim_space profile; base = ''/opt/zgi/profiles/'' @ profile
      in if profile = [] then Inr []
         else if \<not> safeDependencyProfileName profile then Inl (unsafe_name profile)
         else Inr [(''PATH'', base @ ''/venv/bin:'' @ base @ ''/node_modules/.bin:'' @ defaultSecurePath),
           (''PYTHONNOUSERSITE'', ''1''), (''NODE_PATH'', base @ ''/node_modules'')])"

record activation =
  da_RootFS :: string
  da_ProfileHostDir :: string
  da_ProfileContainerDir :: string
  da_ProfileChecksum :: string
  da_ProfileEnv :: "(string, string) gomap"

definition no_activation :: activation where
  "no_activation = \<lparr>da_RootFS = [], da_ProfileHostDir = [], da_ProfileContainerDir = [], da_ProfileChecksum = [], da_ProfileEnv = []\<rparr>"

definition resolveDependencyProfileActivation ::
    "artifact_env \<Rightarrow> fsys \<Rightarrow> string \<Rightarrow> string \<Rightarrow> string \<Rightarrow> string \<Rightarrow> string + activation" where
  "resolveDependencyProfileActivation A fs defaultRootFS dependencyRootFSDir dependencyProfile checksum =
     (case resolve_rootfs A fs defaultRootFS dependencyRootFSDir dependencyProfile checksum of
        Inl e \<Rightarrow> Inl e
      | Inr rootfs \<Rightarrow>
          let profile = trim_space dependencyProfile in
          if profile = [] then Inr (no_activation\<lparr>da_RootFS := rootfs\<rparr>)
          else if \<not> safeDependencyProfileName profile then Inl (unsafe_name profile)
          else case secureDependencyProfileEnv profile of
            Inl e \<Rightarrow> Inl e
          | Inr env \<Rightarrow>
              let activation = no_activation\<lparr>da_RootFS := rootfs, da_ProfileContainerDir := secureProfileBasePath @ ''/'' @ profile,
                    da_ProfileEnv := env\<rparr> in
              if trim_space dependencyRootFSDir = [] then Inr activation
              else case findRuntimeProfileArtifact A fs rootfs profile checksum of
                Inl e \<Rightarrow> Inl e
              | Inr (profileDir, manifest) \<Rightarrow>
                  Inr (activation\<lparr>da_ProfileHostDir := profileDir, da_ProfileChecksum := bm_BuildChecksum manifest\<rparr>))"

section \<open>The secure backend\<close>

record secure_backend =
  se_rootfs :: string
  se_dependencyRootFSDir :: string
  se_bwrapBin :: string
  se_prlimitBin :: string
  se_limits :: secure_limits
  se_allowShell :: bool
  se_agentCLIDir :: string

definition secure_argv :: "secure_backend \<Rightarrow> string list \<Rightarrow> string list" where
  "secure_argv b bwrapArgs =
     (let limitArgs = prlimitArgs (se_limits b)
      in if limitArgs \<noteq> [] then se_prlimitBin b # limitArgs @ ''--'' # se_bwrapBin b # bwrapArgs
         else se_bwrapBin b # bwrapArgs)"

definition secure_exec ::
    "host_env \<Rightarrow> secure_backend \<Rightarrow> duration \<Rightarrow> string \<Rightarrow> string \<Rightarrow> string \<Rightarrow> string list \<Rightarrow> bool \<Rightarrow> int \<Rightarrow> int \<Rightarrow> string
      \<Rightarrow> (string, string) gomap \<Rightarrow> fsys \<Rightarrow> (backend_error + runner_result) \<times> fsys" where
  "secure_exec H b timeout workDir profile checksum words enableNetwork stdoutLimit stderrLimit stdin env fs =
     (case resolveDependencyProfileActivation (ho_artifacts H) fs (se_rootfs b) (se_dependencyRootFSDir b) profile checksum of
        Inl e \<Rightarrow> (Inl (BackendFailure e), fs)
      | Inr activation \<Rightarrow>
          let bwrapArgs = buildSecureBwrapArgs
                \<lparr>bw_RootFS = da_RootFS activation, bw_WorkDir = workDir, bw_Binary = hd words, bw_Args = tl words,
                 bw_EnableNetwork = enableNetwork, bw_Env = env, bw_ProfileEnv = da_ProfileEnv activation,
                 bw_ProfileHostDir = da_ProfileHostDir activation, bw_ProfileContainerDir = da_ProfileContainerDir activation,
                 bw_ExtraRoBinds = []\<rparr>;
              call = \<lparr>pc_argv = secure_argv b bwrapArgs, pc_Dir = None, pc_Env = None, pc_Stdin = stdin, pc_timeout = timeout\<rparr>
          in process_result H ''execution timed out'' call False stdoutLimit stderrLimit (da_ProfileChecksum activation) fs)"

definition secure_words :: "secure_backend \<Rightarrow> command_spec \<Rightarrow> string list" where
  "secure_words b spec =
     (if cs_Args spec \<noteq> [] then cs_Command spec # cs_Args spec
      else if se_allowShell b \<and> cs_AllowShellForm spec then [''/bin/sh'', ''-lc'', cs_Command spec]
      else [cs_Command spec])"

definition secure_ExecuteCommand ::
    "host_env \<Rightarrow> secure_backend \<Rightarrow> command_spec \<Rightarrow> fsys \<Rightarrow> (backend_error + command_result) \<times> fsys" where
  "secure_ExecuteCommand H b spec fs =
     apfst (map_sum id (as_command_result spec))
       (secure_exec H b (cs_Timeout spec) (cs_WorkDir spec) (cs_DependencyProfile spec) (cs_DependencyArtifactChecksum spec)
          (secure_words b spec) False (cs_StdoutLimit spec) (cs_StderrLimit spec) (cs_Stdin spec) (cs_Env spec) fs)"

text \<open>
  The frame of a run of code: a temporary directory, if none is given, the script in it, and the
  deferred removals of the script and of an ephemeral directory, in this order.
\<close>

definition with_script ::
    "host_env \<Rightarrow> run_request \<Rightarrow> string \<Rightarrow> bool \<Rightarrow> string \<Rightarrow> (string \<Rightarrow> string \<Rightarrow> fsys \<Rightarrow> (backend_error + runner_result) \<times> fsys)
      \<Rightarrow> fsys \<Rightarrow> (backend_error + runner_result) \<times> fsys" where
  "with_script H req workDir ephemeral filename body fs =
     (let W = ae_os (ho_artifacts H);
          root = (if workDir = [] then ho_temp H else workDir);
          script = Join [root, ''.zgi-run-'' @ ho_token H @ ''-'' @ filename];
          cleanup = (\<lambda>fs. if ephemeral then snd (RemoveAll W root fs) else fs)
      in case (if workDir = [] then Mkdir W root fs else (None, fs)) of
           (Some e, fs) \<Rightarrow> (Inl (BackendFailure (''mkdir '' @ root @ '': '' @ errno_text e)), fs)
         | (None, fs) \<Rightarrow>
             (case WriteFile W script (buildContent (rq_Preload req) (rq_Code req)) 384 fs of
                (Some e, fs) \<Rightarrow> (Inl (BackendFailure (''open '' @ script @ '': '' @ errno_text e)), cleanup fs)
              | (None, fs) \<Rightarrow>
                  (case body root script fs of (result, fs) \<Rightarrow> (result, cleanup (snd (Remove W script fs))))))"

definition containerScriptPath :: "string \<Rightarrow> string" where
  "containerScriptPath filename = Join [''/tmp/workspace'', filename]"

definition secure_Run ::
    "host_env \<Rightarrow> secure_backend \<Rightarrow> run_request \<Rightarrow> string \<Rightarrow> bool \<Rightarrow> duration \<Rightarrow> int \<Rightarrow> int \<Rightarrow> fsys
      \<Rightarrow> (backend_error + runner_result) \<times> fsys" where
  "secure_Run H b req workDir ephemeral timeout stdoutLimit stderrLimit fs =
     (case languageSpec (rq_Language req) of
        Inl e \<Rightarrow> (Inl (BackendFailure e), fs)
      | Inr (binary, filename) \<Rightarrow>
          with_script H req workDir ephemeral filename
            (\<lambda>root script. secure_exec H b timeout root (rq_DependencyProfile req) (rq_DependencyArtifactChecksum req)
               [binary, containerScriptPath (''.zgi-run-'' @ ho_token H @ ''-'' @ filename)] (rq_EnableNetwork req)
               stdoutLimit stderrLimit (rq_Stdin req) []) fs)"

definition linuxSecureBackend :: "host_env \<Rightarrow> secure_backend \<Rightarrow> backend" where
  "linuxSecureBackend H b =
     \<lparr>bk_Name = ''linux-secure'', bk_Run = secure_Run H b, bk_ExecuteCommand = secure_ExecuteCommand H b\<rparr>"

record process_spec =
  ps_WorkDir :: string
  ps_Command :: string
  ps_Args :: "string list"
  ps_Env :: "(string, string) gomap"
  ps_EnableNetwork :: bool

text \<open>The words of \<open>StartProcess\<close>, which starts a process with streams.\<close>

definition secure_StartProcess :: "secure_backend \<Rightarrow> process_spec \<Rightarrow> string list" where
  "secure_StartProcess b spec =
     (let dir = trim_space (se_agentCLIDir b)
      in se_bwrapBin b # buildSecureBwrapArgs
           \<lparr>bw_RootFS = se_rootfs b, bw_WorkDir = ps_WorkDir spec, bw_Binary = ps_Command spec, bw_Args = ps_Args spec,
            bw_EnableNetwork = ps_EnableNetwork spec, bw_Env = (if dir \<noteq> [] then agentCliEnv (ps_Env spec) else ps_Env spec),
            bw_ProfileEnv = [], bw_ProfileHostDir = [], bw_ProfileContainerDir = [],
            bw_ExtraRoBinds = (if dir \<noteq> [] then [dir, ''/opt/zgi/agent-cli''] else [])\<rparr>)"

section \<open>The plain backend\<close>

definition setProcessEnv :: "string list \<Rightarrow> string \<Rightarrow> string \<Rightarrow> string list" where
  "setProcessEnv env key v =
     (let key = trim_space key; p = key @ ''=''; item = p @ v
      in if key = [] then env
         else if list_ex (\<lambda>e. has_prefix e p) env
         then takeWhile (\<lambda>e. \<not> has_prefix e p) env @ item # tl (dropWhile (\<lambda>e. \<not> has_prefix e p) env)
         else env @ [item])"

definition processEnv :: "host_env \<Rightarrow> (string, string) gomap \<Rightarrow> (string, string) gomap \<Rightarrow> string list" where
  "processEnv H requestEnv profileEnv =
     (let set_all = fold (\<lambda>(k, v) env. setProcessEnv env k v)
      in set_all profileEnv (set_all requestEnv (safeBaseEnv (ho_environ H))))"

definition Getenv :: "string list \<Rightarrow> string \<Rightarrow> string" where
  "Getenv environ key =
     (case find (\<lambda>e. has_prefix e (key @ ''='')) environ of None \<Rightarrow> [] | Some e \<Rightarrow> drop (length key + 1) e)"

definition processDependencyProfileEnv :: "host_env \<Rightarrow> string \<Rightarrow> (string, string) gomap" where
  "processDependencyProfileEnv H profileDir =
     (let profileDir = trim_space profileDir; existing = trim_space (Getenv (ho_environ H) ''PATH'');
          path = Join [profileDir, ''venv'', ''bin''] @ '':'' @ Join [profileDir, ''node_modules'', ''.bin'']
      in if profileDir = [] then []
         else [(''PATH'', if existing \<noteq> [] then path @ '':'' @ existing else path), (''PYTHONNOUSERSITE'', ''1''),
           (''NODE_PATH'', Join [profileDir, ''node_modules''])])"

definition is_file :: "os_env \<Rightarrow> fsys \<Rightarrow> string \<Rightarrow> bool" where
  "is_file W fs p = (case Stat W fs p of Inl e \<Rightarrow> False | Inr n \<Rightarrow> n \<noteq> Directory)"

definition processProfileCommandPath :: "os_env \<Rightarrow> fsys \<Rightarrow> string \<Rightarrow> string \<Rightarrow> string" where
  "processProfileCommandPath W fs profileDir command =
     (let profileDir = trim_space profileDir; command = trim_space command;
          candidates =
            (if command = ''python'' \<or> command = ''python3''
             then [Join [profileDir, ''venv'', ''bin'', command], Join [profileDir, ''venv'', ''bin'', ''python''],
                   Join [profileDir, ''venv'', ''Scripts'', command @ ''.exe''], Join [profileDir, ''venv'', ''Scripts'', ''python.exe'']]
             else if command = ''node''
             then [Join [profileDir, ''node'', ''bin'', ''node''], Join [profileDir, ''node_modules'', ''.bin'', ''node'']]
             else [])
      in if profileDir = [] \<or> command = [] \<or> list_ex (\<lambda>c. c = slash \<or> c = byte 92) command then command
         else case find (is_file W fs) candidates of Some candidate \<Rightarrow> candidate | None \<Rightarrow> command)"

definition process_activation :: "host_env \<Rightarrow> string \<Rightarrow> fsys \<Rightarrow> string \<Rightarrow> string \<Rightarrow> string + activation" where
  "process_activation H dependencyRootFSDir fs dependencyProfile checksum =
     (let profile = trim_space dependencyProfile; A = ho_artifacts H
      in if profile = [] \<or> trim_space dependencyRootFSDir = [] then Inr no_activation
         else if \<not> safeDependencyProfileName profile then Inl (unsafe_name profile)
         else case resolve_rootfs A fs dependencyRootFSDir dependencyRootFSDir profile checksum of
           Inl e \<Rightarrow> Inl e
         | Inr root \<Rightarrow>
             (case findRuntimeProfileArtifact A fs root profile checksum of
                Inl e \<Rightarrow> Inl e
              | Inr (profileDir, manifest) \<Rightarrow>
                  Inr (no_activation\<lparr>da_RootFS := root, da_ProfileHostDir := profileDir,
                    da_ProfileChecksum := bm_BuildChecksum manifest, da_ProfileEnv := processDependencyProfileEnv H profileDir\<rparr>)))"

definition process_Run ::
    "host_env \<Rightarrow> string \<Rightarrow> run_request \<Rightarrow> string \<Rightarrow> bool \<Rightarrow> duration \<Rightarrow> int \<Rightarrow> int \<Rightarrow> fsys
      \<Rightarrow> (backend_error + runner_result) \<times> fsys" where
  "process_Run H dependencyRootFSDir req workDir ephemeral timeout stdoutLimit stderrLimit fs =
     (case languageSpec (rq_Language req) of
        Inl e \<Rightarrow> (Inl (BackendFailure e), fs)
      | Inr (binary, filename) \<Rightarrow>
          with_script H req workDir ephemeral filename
            (\<lambda>root script fs.
               case process_activation H dependencyRootFSDir fs (rq_DependencyProfile req) (rq_DependencyArtifactChecksum req) of
                 Inl e \<Rightarrow> (Inl (BackendFailure e), fs)
               | Inr activation \<Rightarrow>
                   process_result H ''execution timed out''
                     \<lparr>pc_argv = [processProfileCommandPath (ae_os (ho_artifacts H)) fs (da_ProfileHostDir activation) binary, script],
                      pc_Dir = Some root, pc_Env = Some (processEnv H [] (da_ProfileEnv activation)), pc_Stdin = rq_Stdin req,
                      pc_timeout = timeout\<rparr>
                     (rq_EnableNetwork req) stdoutLimit stderrLimit (da_ProfileChecksum activation) fs) fs)"

definition process_ExecuteCommand ::
    "host_env \<Rightarrow> string \<Rightarrow> command_spec \<Rightarrow> fsys \<Rightarrow> (backend_error + command_result) \<times> fsys" where
  "process_ExecuteCommand H dependencyRootFSDir spec fs =
     (case process_activation H dependencyRootFSDir fs (cs_DependencyProfile spec) (cs_DependencyArtifactChecksum spec) of
        Inl e \<Rightarrow> (Inl (BackendFailure e), fs)
      | Inr activation \<Rightarrow>
          let command = processProfileCommandPath (ae_os (ho_artifacts H)) fs (da_ProfileHostDir activation) (cs_Command spec);
              argv = (if cs_Args spec \<noteq> [] then command # cs_Args spec
                else if cs_AllowShellForm spec then [''/bin/sh'', ''-lc'', cs_Command spec] else [command])
          in apfst (map_sum id (as_command_result spec))
            (process_result H ''command timed out''
               \<lparr>pc_argv = argv, pc_Dir = Some (cs_WorkDir spec), pc_Env = Some (processEnv H (cs_Env spec) (da_ProfileEnv activation)),
                pc_Stdin = cs_Stdin spec, pc_timeout = cs_Timeout spec\<rparr>
               False (cs_StdoutLimit spec) (cs_StderrLimit spec) (da_ProfileChecksum activation) fs))"

definition processBackend :: "host_env \<Rightarrow> string \<Rightarrow> backend" where
  "processBackend H dependencyRootFSDir =
     \<lparr>bk_Name = ''preview-process'', bk_Run = process_Run H (trim_space dependencyRootFSDir),
      bk_ExecuteCommand = process_ExecuteCommand H (trim_space dependencyRootFSDir)\<rparr>"

end
