(* ===== verification/Sandbox_Isolation.thy ===== *)
theory Sandbox_Isolation
  imports Sandbox_Backends Sandbox_Installs
begin

text \<open>
  What bubblewrap is told: which options it reads from the words that the secure backend writes, as
  far as its manual says how options are read, and how a command can add options of its own.
\<close>

section \<open>How options are read\<close>

text \<open>The options that the code uses, with the number of their arguments.\<close>

definition bwrap_arity :: "(string \<times> nat) list" where
  "bwrap_arity =
     [(''--die-with-parent'', 0), (''--new-session'', 0), (''--clearenv'', 0), (''--unshare-user'', 0), (''--unshare-pid'', 0),
      (''--unshare-ipc'', 0), (''--unshare-uts'', 0), (''--unshare-cgroup'', 0), (''--unshare-net'', 0), (''--dir'', 1),
      (''--dev'', 1), (''--tmpfs'', 1), (''--chdir'', 1), (''--uid'', 1), (''--gid'', 1), (''--bind'', 2), (''--ro-bind'', 2),
      (''--setenv'', 2)]"

text \<open>
  The manual of bubblewrap: an option takes its arguments, whatever they are, and the first word in
  the place of an option that does not begin with a dash is the command. The function gives the
  options, each with its arguments, and the words of the command.
\<close>

definition documented_bwrap :: "(string list \<Rightarrow> string list list \<times> string list) \<Rightarrow> bool" where
  "documented_bwrap reads \<longleftrightarrow>
     (\<forall>(opt, n) \<in> set bwrap_arity. \<forall>args rest. length args = n \<longrightarrow>
        reads (opt # args @ rest) = (case reads rest of (os, cmd) \<Rightarrow> ((opt # args) # os, cmd)))
     \<and> (\<forall>w rest. \<not> has_prefix w ''-'' \<longrightarrow> reads (w # rest) = ([], w # rest))"

definition proper_option :: "string list \<Rightarrow> bool" where
  "proper_option o' \<longleftrightarrow> o' \<noteq> [] \<and> (hd o', length (tl o')) \<in> set bwrap_arity"

lemma documented_option:
  "documented_bwrap reads \<Longrightarrow> proper_option o' \<Longrightarrow> reads (o' @ rest) = (o' # fst (reads rest), snd (reads rest))"
  by (cases o') (fastforce simp: documented_bwrap_def proper_option_def split: prod.split)+

lemma documented_options:
  assumes "documented_bwrap reads" and "\<forall>o' \<in> set os. proper_option o'"
  shows "reads (concat os @ rest) = (os @ fst (reads rest), snd (reads rest))"
  using assms(2) by (induction os) (simp_all add: documented_option [OF assms(1)])

lemma documented_command:
  "documented_bwrap reads \<Longrightarrow> \<not> has_prefix w ''-'' \<Longrightarrow> reads (w # rest) = ([], w # rest)"
  by (simp add: documented_bwrap_def)

section \<open>The options of a sandbox\<close>

fun bind_options :: "string list \<Rightarrow> string list list" where
  "bind_options (host # inside # rest) = [''--ro-bind'', host, inside] # bind_options rest"
| "bind_options _ = []"

definition option_list :: "bwrap_spec \<Rightarrow> string list list" where
  "option_list spec =
     [[''--die-with-parent''], [''--new-session''], [''--clearenv''], [''--ro-bind'', bw_RootFS spec, ''/''], [''--dir'', ''/proc''],
      [''--dev'', ''/dev''], [''--tmpfs'', ''/tmp''], [''--dir'', secureWorkspacePath], [''--bind'', bw_WorkDir spec, secureWorkspacePath],
      [''--chdir'', secureWorkspacePath], [''--setenv'', ''HOME'', secureWorkspacePath], [''--setenv'', ''PATH'', defaultSecurePath],
      [''--unshare-user''], [''--uid'', ''65534''], [''--gid'', ''65534''], [''--unshare-pid''], [''--unshare-ipc''], [''--unshare-uts''],
      [''--unshare-cgroup'']]
     @ map (\<lambda>k. [''--setenv'', k, the (map_of (bw_Env spec) k)]) (sortedEnvKeys (bw_Env spec))
     @ map (\<lambda>k. [''--setenv'', k, the (map_of (bw_ProfileEnv spec) k)]) (sortedEnvKeys (bw_ProfileEnv spec))
     @ (if bw_ProfileHostDir spec \<noteq> [] \<and> bw_ProfileContainerDir spec \<noteq> []
        then [[''--ro-bind'', bw_ProfileHostDir spec, bw_ProfileContainerDir spec]] else [])
     @ bind_options (bw_ExtraRoBinds spec)
     @ (if bw_EnableNetwork spec then [] else [[''--unshare-net'']])"

lemma concat_bind_options: "concat (bind_options bs) = ro_binds bs"
  by (induction bs rule: bind_options.induct) auto

lemma bwrap_options_list: "bwrap_options spec = concat (option_list spec)"
  by (simp add: bwrap_options_def option_list_def setenv_args_def concat_bind_options)

lemma bind_options_shape: "o' \<in> set (bind_options bs) \<Longrightarrow> \<exists>host inside. o' = [''--ro-bind'', host, inside]"
  by (induction bs rule: bind_options.induct) auto

lemma proper_simps:
  "proper_option [''--setenv'', k, v]" "proper_option [''--ro-bind'', k, v]" "proper_option [''--bind'', k, v]"
  "proper_option [''--dir'', v]" "proper_option [''--dev'', v]" "proper_option [''--tmpfs'', v]" "proper_option [''--chdir'', v]"
  "proper_option [''--uid'', v]" "proper_option [''--gid'', v]" "proper_option [''--die-with-parent'']" "proper_option [''--new-session'']"
  "proper_option [''--clearenv'']" "proper_option [''--unshare-user'']" "proper_option [''--unshare-pid'']" "proper_option [''--unshare-ipc'']"
  "proper_option [''--unshare-uts'']" "proper_option [''--unshare-cgroup'']" "proper_option [''--unshare-net'']"
  by (simp_all add: proper_option_def bwrap_arity_def)

lemma option_list_proper: "\<forall>o' \<in> set (option_list spec). proper_option o'"
  by (auto simp: option_list_def proper_simps dest: bind_options_shape)

lemma sorted_keys [simp]: "set (sortedEnvKeys env) = fst ` set env"
  by (simp add: sortedEnvKeys_def)

lemma setenv_options:
  "{(k, v). [''--setenv'', k, v] \<in> (\<lambda>k. [''--setenv'', k, the (map_of env k)]) ` fst ` set env} = {(k, v). map_of env k = Some v}"
proof -
  have "k \<in> fst ` set env \<and> v = the (map_of env k) \<longleftrightarrow> map_of env k = Some v" for k v
    using map_of_eq_None_iff [of env k] by (cases "map_of env k") (auto simp del: map_of_eq_None_iff)
  moreover have "[''--setenv'', k, v] \<in> (\<lambda>k. [''--setenv'', k, the (map_of env k)]) ` fst ` set env
      \<longleftrightarrow> k \<in> fst ` set env \<and> v = the (map_of env k)" for k v by blast
  ultimately show ?thesis by simp
qed

lemma written_options:
  "{(src, dst). [''--bind'', src, dst] \<in> set (option_list spec)} = {(bw_WorkDir spec, secureWorkspacePath)}"
  "[''--unshare-net''] \<in> set (option_list spec) \<longleftrightarrow> \<not> bw_EnableNetwork spec"
  "{(k, v). [''--setenv'', k, v] \<in> set (option_list spec)} =
     {(''HOME'', secureWorkspacePath), (''PATH'', defaultSecurePath)} \<union> {(k, v). map_of (bw_Env spec) k = Some v}
     \<union> {(k, v). map_of (bw_ProfileEnv spec) k = Some v}"
  "{[''--clearenv''], [''--unshare-user''], [''--unshare-pid''], [''--unshare-ipc''], [''--uid'', ''65534''], [''--gid'', ''65534''],
    [''--ro-bind'', bw_RootFS spec, ''/'']} \<subseteq> set (option_list spec)"
  unfolding setenv_options [symmetric]
  by (auto simp: option_list_def dest: bind_options_shape)

text \<open>
  C10: the walls of a sandbox. If a command does not begin with a dash, bubblewrap reads exactly the
  options that the backend means, whatever the directories, the names and values of the environment and
  the arguments are: the environment is cleared and set to the given one, the workspace is the only
  place that is bound for writing, the namespaces are new, the user is nobody, and there is no
  network unless the request has it.
\<close>

theorem bwrap_isolation:
  assumes "documented_bwrap reads" and "\<not> has_prefix (bw_Binary spec) ''-''"
  shows "\<exists>os. reads (buildSecureBwrapArgs spec) = (os, bw_Binary spec # bw_Args spec)
    \<and> {(src, dst). [''--bind'', src, dst] \<in> set os} = {(bw_WorkDir spec, secureWorkspacePath)}
    \<and> ([''--unshare-net''] \<in> set os \<longleftrightarrow> \<not> bw_EnableNetwork spec)
    \<and> {(k, v). [''--setenv'', k, v] \<in> set os} =
        {(''HOME'', secureWorkspacePath), (''PATH'', defaultSecurePath)} \<union> {(k, v). map_of (bw_Env spec) k = Some v}
        \<union> {(k, v). map_of (bw_ProfileEnv spec) k = Some v}
    \<and> {[''--clearenv''], [''--unshare-user''], [''--unshare-pid''], [''--unshare-ipc''], [''--uid'', ''65534''], [''--gid'', ''65534''],
        [''--ro-bind'', bw_RootFS spec, ''/'']} \<subseteq> set os"
proof -
  have "reads (buildSecureBwrapArgs spec) = (option_list spec, bw_Binary spec # bw_Args spec)"
    using documented_options [OF assms(1) option_list_proper] documented_command [OF assms]
    by (simp add: buildSecureBwrapArgs_def bwrap_options_list)
  then show ?thesis using written_options [of spec] by (intro exI [of _ "option_list spec"] conjI) (assumption | rule)+
qed

section \<open>A command that is an option\<close>

lemma bind_accepted: "rejectRuntimeDependencyInstall ''--bind'' (x # xs) = None"
proof -
  have "plain_word ''--bind''" by code_simp
  then have "cleanCommandToken ''--bind'' = ''--bind''" by (rule clean_plain)
  then show ?thesis
    by (simp add: rejectRuntimeDependencyInstall_def commandTokens_def compactTokens_def isShellCommand_def
        dependencyInstallHeadMatch_def dependencyInstallMatchAt_def isPipCommand_def isPythonCommand_def has_prefix_def Let_def)
qed

text \<open>
  C31: a command can tear down the walls. The words of a command follow the options without a
  separator, so a command named \<open>--bind\<close> is not refused, and bubblewrap reads it as one more option:
  the command gets any directory of the host for writing, and its fourth word is what runs.
\<close>

theorem bwrap_option_injection:
  assumes "documented_bwrap reads" and "\<not> has_prefix cmd ''-''"
    and "cs_Command spec = ''--bind''" and "cs_Args spec = host # inside # cmd # args"
  shows "rejectRuntimeDependencyInstall (cs_Command spec) (cs_Args spec) = None
    \<and> (\<exists>os. reads (buildSecureBwrapArgs (B\<lparr>bw_Binary := hd (secure_words b spec), bw_Args := tl (secure_words b spec)\<rparr>))
          = (os, cmd # args) \<and> [''--bind'', host, inside] \<in> set os)"
proof -
  let ?B = "B\<lparr>bw_Binary := hd (secure_words b spec), bw_Args := tl (secure_words b spec)\<rparr>"
  have "reads ([''--bind'', host, inside] @ cmd # args) = ([[''--bind'', host, inside]], cmd # args)"
    using documented_option [OF assms(1) proper_simps(3), of host inside "cmd # args"] documented_command [OF assms(1,2)] by simp
  then have "reads (buildSecureBwrapArgs ?B) = (option_list ?B @ [[''--bind'', host, inside]], cmd # args)"
    using documented_options [OF assms(1) option_list_proper, of ?B "''--bind'' # host # inside # cmd # args"] assms(3,4)
    by (simp add: buildSecureBwrapArgs_def bwrap_options_list secure_words_def)
  with assms(3,4) bind_accepted show ?thesis by auto
qed

section \<open>An instance\<close>

text \<open>A reader of options that behaves as documented.\<close>

function scan_options :: "string list \<Rightarrow> string list list \<times> string list" where
  "scan_options [] = ([], [])"
| "scan_options (w # ws) =
     (case map_of bwrap_arity w of
        None \<Rightarrow> ([], w # ws)
      | Some n \<Rightarrow> (case scan_options (drop n ws) of (os, cmd) \<Rightarrow> ((w # take n ws) # os, cmd)))"
  by pat_completeness auto
termination
  by (relation "measure length") auto

lemma scan_documented: "documented_bwrap scan_options"
proof -
  have "map_of bwrap_arity opt = Some n" if "(opt, n) \<in> set bwrap_arity" for opt n
    using that by (intro map_of_is_SomeI) (simp_all add: bwrap_arity_def)
  moreover have "map_of bwrap_arity w = None" if "\<not> has_prefix w ''-''" for w
  proof (rule ccontr)
    assume "map_of bwrap_arity w \<noteq> None"
    then obtain n where "(w, n) \<in> set bwrap_arity" using map_of_SomeD by fastforce
    moreover have "\<forall>(w, n) \<in> set bwrap_arity. has_prefix w ''-''" by (simp add: bwrap_arity_def has_prefix_def)
    ultimately show False using that by blast
  qed
  ultimately show ?thesis by (auto simp: documented_bwrap_def split: prod.split)
qed

definition cage :: bwrap_spec where
  "cage = \<lparr>bw_RootFS = ''/rootfs'', bw_WorkDir = ''/w'', bw_Binary = ''ls'', bw_Args = [''--share-net''], bw_EnableNetwork = False,
     bw_Env = [(''A'', ''--bind'')], bw_ProfileEnv = [], bw_ProfileHostDir = [], bw_ProfileContainerDir = [], bw_ExtraRoBinds = []\<rparr>"

theorem bwrap_isolation_witness:
  "\<exists>os. scan_options (buildSecureBwrapArgs cage) = (os, [''ls'', ''--share-net'']) \<and> [''--unshare-net''] \<in> set os
    \<and> {(src, dst). [''--bind'', src, dst] \<in> set os} = {(''/w'', ''/tmp/workspace'')}"
proof -
  have "\<not> has_prefix (bw_Binary cage) ''-''" by (simp add: cage_def has_prefix_def)
  from bwrap_isolation [OF scan_documented this] show ?thesis by (simp add: cage_def) blast
qed

definition escape :: command_spec where
  "escape = \<lparr>cs_WorkDir = ''/w'', cs_Command = ''--bind'', cs_Args = [''/'', ''/mnt'', ''sh''], cs_Stdin = [], cs_Env = [],
     cs_DependencyProfile = [], cs_DependencyArtifactChecksum = [], cs_Timeout = Second, cs_StdoutLimit = 1, cs_StderrLimit = 1,
     cs_AllowShellForm = True\<rparr>"

theorem bwrap_option_injection_witness:
  "rejectRuntimeDependencyInstall ''--bind'' [''/'', ''/mnt'', ''sh''] = None
    \<and> (\<exists>os. scan_options (buildSecureBwrapArgs (cage\<lparr>bw_Binary := ''--bind'', bw_Args := [''/'', ''/mnt'', ''sh'']\<rparr>)) = (os, [''sh''])
          \<and> [''--bind'', ''/'', ''/mnt''] \<in> set os)"
  using bwrap_option_injection [OF scan_documented, of "''sh''" escape "''/''" "''/mnt''" "[]", where B = cage and b = b]
  by (simp add: escape_def has_prefix_def secure_words_def)

end
