(* ===== verification/Sandbox_Artifact_Safety.thy ===== *)
theory Sandbox_Artifact_Safety
  imports Sandbox_Backends
begin

text \<open>
  What an activated dependency profile is: a verified artifact; and what its checksum does not tell apart.
\<close>

section \<open>Verified artifacts\<close>







section \<open>The checksum\<close>

text \<open>Without zero bytes in the contents the stream tells everything: the names and the contents of the files.\<close>

lemma zero_block: "byte 0 \<notin> set x \<Longrightarrow> byte 0 \<notin> set x' \<Longrightarrow> x @ byte 0 # y = x' @ byte 0 # y' \<Longrightarrow> x = x' \<and> y = y'"
  by (induction x arbitrary: x') (case_tac x'; auto)+

lemma artifact_stream_text:
  "\<forall>(rel, c) \<in> set files. byte 0 \<notin> set rel \<and> byte 0 \<notin> set c \<Longrightarrow>
   \<forall>(rel, c) \<in> set files'. byte 0 \<notin> set rel \<and> byte 0 \<notin> set c \<Longrightarrow>
   artifact_stream files = artifact_stream files' \<longleftrightarrow> files = files'"
proof (induction files arbitrary: files')
  case Nil
  then show ?case by (cases files') (auto simp: artifact_stream_def)
next
  case (Cons f files)
  obtain rel c where f: "f = (rel, c)" by (cases f)
  show ?case
  proof (cases files')
    case (Cons f' fs')
    obtain rel' c' where f': "f' = (rel', c')" by (cases f')
    have "artifact_stream (f # files) = artifact_stream (f' # fs') \<Longrightarrow> f # files = f' # fs'"
      using zero_block [of rel rel' "c @ byte 0 # artifact_stream files" "c' @ byte 0 # artifact_stream fs'"]
        zero_block [of c c' "artifact_stream files" "artifact_stream fs'"] Cons.IH [of fs'] Cons.prems \<open>files' = f' # fs'\<close>
      by (auto simp: artifact_stream_def f f')
    with Cons show ?thesis by auto
  qed (simp add: artifact_stream_def f)
qed

text \<open>Two artifacts: a file with zero bytes in it, and its parts as two files.\<close>

definition joined_tree :: fsys where
  "joined_tree = [([''p''], Directory), ([''p'', ''a''], Regular (''x'' @ [byte 0] @ ''b'' @ [byte 0] @ ''y'') 420)]"

definition split_tree :: fsys where
  "split_tree = [([''p''], Directory), ([''p'', ''a''], Regular ''x'' 420), ([''p'', ''b''], Regular ''y'' 420)]"

definition stream_os :: os_env where
  "stream_os = \<lparr>os_wd = None, os_fault = \<lambda>_ _. None\<rparr>"

lemma joined_steps:
  "WalkDir stream_os joined_tree ''/p'' = Inr [([''a''], Regular (''x'' @ [byte 0] @ ''b'' @ [byte 0] @ ''y'') 420)]"
  "ReadFile stream_os joined_tree (Join [''/p'', ''a'']) = Inr (''x'' @ [byte 0] @ ''b'' @ [byte 0] @ ''y'')"
  "sort [''a''] = [''a'']"
  by code_simp+

lemma split_steps:
  "WalkDir stream_os split_tree ''/p'' = Inr [([''a''], Regular ''x'' 420), ([''b''], Regular ''y'' 420)]"
  "ReadFile stream_os split_tree (Join [''/p'', ''a'']) = Inr ''x''" "ReadFile stream_os split_tree (Join [''/p'', ''b'']) = Inr ''y''"
  "sort [''a'', ''b''] = [''a'', ''b'']"
  by code_simp+

text \<open>
  C32: the checksum does not tell artifacts apart. A zero byte ends names and contents in the stream that is
  hashed, and contents may have zero bytes: a file a that holds x, a zero byte, b, a zero byte and y
  has the checksum of the two files a with x and b with y, whatever the hash function is. The sizes
  differ, but they are compared with the manifest in the same directory, which is not hashed.
\<close>

theorem artifact_checksum_ambiguous:
  "let A = \<lparr>ae_os = stream_os, ae_perm = \<lambda>_ _. 493, ae_sha256 = sha, ae_manifest = parse\<rparr>;
       checksum = ''sha256:'' @ sha (''a'' @ [byte 0] @ ''x'' @ [byte 0] @ ''b'' @ [byte 0] @ ''y'' @ [byte 0])
   in checksumProfileArtifactDir A joined_tree ''/p'' = Inr (checksum, 5)
      \<and> checksumProfileArtifactDir A split_tree ''/p'' = Inr (checksum, 2)
      \<and> node joined_tree [''p'', ''b''] = None \<and> node split_tree [''p'', ''b''] = Some (Regular ''y'' 420)"
proof -
  have "node joined_tree [''p'', ''b''] = None" "node split_tree [''p'', ''b''] = Some (Regular ''y'' 420)" by code_simp+
  then show ?thesis
    by (simp add: Let_def checksumProfileArtifactDir_def joined_steps split_steps artifact_stream_def del: sort_key_simps)
qed

section \<open>An artifact of one file, selected by its name\<close>





lemma mounted_words [simp]: "trim_space ''p'' = ''p''" "trim_space ''/r'' = ''/r''" "trim_space ''1'' = ''1''" "trim_space ''sha256:s'' = ''sha256:s''"
  by (simp_all add: graphic_trim_space graphic_def)



end
