(* ===== verification/Sandbox_Runs.thy ===== *)
theory Sandbox_Runs
  imports Sandbox_Runner Sandbox_Admission
begin

text \<open>
  Running code, commands and skills in a sandbox (\<open>executor/service.go\<close>): the checks before a run,
  its limits, the call of the runner, the check of the workspace afterwards, and the event that is
  recorded for every outcome. A run is seen alone: what the admission of \<open>Sandbox_Admission\<close> answers
  to it, which worker it gets and what its process does to the files are parameters.
\<close>

section \<open>Requests and results\<close>

record code_request =
  cq_SandboxID :: string
  cq_Language :: string
  cq_Code :: string
  cq_Preload :: string
  cq_InputJSON :: string
  cq_ExpectedOutputSchema :: string
  cq_Profile :: string
  cq_TimeoutSeconds :: int
  cq_TimeoutMS :: int
  cq_StdoutLimitKB :: int
  cq_StderrLimitKB :: int
  cq_StrictResultJSON :: bool
  cq_BindWorkspace :: bool
  cq_EnableNetwork :: bool

record command_request =
  mq_SandboxID :: string
  mq_Command :: string
  mq_Args :: "string list"
  mq_Stdin :: string
  mq_Env :: "(string, string) gomap"
  mq_Profile :: string
  mq_TimeoutSeconds :: int
  mq_TimeoutMS :: int
  mq_StdoutLimitKB :: int
  mq_StderrLimitKB :: int
  mq_WorkingSubpath :: string

record skill_request =
  sq_SandboxID :: string
  sq_Path :: string
  sq_InputJSON :: string
  sq_Stdin :: string
  sq_Env :: "(string, string) gomap"

record skill_result =
  sr_ExecutionID :: string
  sr_SandboxID :: string
  sr_Path :: string
  sr_Manifest :: skill_manifest
  sr_Command :: command_result
  sr_ArtifactManifests :: "file_manifest list"
  sr_ResultJSON :: "goval option"

text \<open>
  What a run sees of its surroundings: the parts of the service, the time, the random identifier of
  the execution, the identifier of the request in its context, the answer of the admission to a
  sandbox and a profile, the number of busy workers and which channel ends a wait for one.
\<close>

record 'c exec_env =
  ee_manager :: "'c manager_env"
  ee_files :: file_env
  ee_json :: json_env
  ee_runner :: runner
  ee_now :: time
  ee_executionID :: string
  ee_requestID :: string
  ee_admission :: "sandbox \<Rightarrow> string \<Rightarrow> admission_failure option"
  ee_activeWorkers :: int
  ee_wait :: worker_wait

abbreviation ee_policy :: "'c exec_env \<Rightarrow> service" where "ee_policy X \<equiv> me_policy (ee_manager X)"
abbreviation ee_os :: "'c exec_env \<Rightarrow> os_env" where "ee_os X \<equiv> fe_os (ee_files X)"

definition worker :: "'c exec_env \<Rightarrow> run_error option" where
  "worker X = acquire (ee_runner X) (ee_activeWorkers X) (ee_wait X)"

definition admission_result :: "'c exec_env \<Rightarrow> sandbox \<Rightarrow> string \<Rightarrow> run_error option" where
  "admission_result X box profile =
     map_option (\<lambda>f. case f of Limited l \<Rightarrow> Failure (Limit l) | Cancelled \<Rightarrow> Cancellation ''queue'') (ee_admission X box profile)"

section \<open>Events\<close>

definition default_string :: "string \<Rightarrow> string \<Rightarrow> string" where
  "default_string v fallback = (if trim_space v = [] then fallback else v)"

definition MetadataWithContext :: "string \<Rightarrow> dict \<Rightarrow> dict" where
  "MetadataWithContext requestID metadata =
     (if requestID = [] then metadata else AList.update ''request_id'' (VString requestID) metadata)"

definition addExecutionSandboxMetadata :: "sandbox option \<Rightarrow> dict \<Rightarrow> dict" where
  "addExecutionSandboxMetadata box metadata =
     (case box of
        None \<Rightarrow> metadata
      | Some b \<Rightarrow>
          add_string ''dependency_artifact_checksum'' (sb_DependencyArtifactChecksum b)
            (add_string ''dependency_profile_version'' (sb_DependencyProfileVersion b)
              (add_string ''dependency_profile'' (sb_DependencyProfile b) (addOwnershipMetadata b metadata))))"

definition addRunnerProfileMetadata :: "string \<Rightarrow> dict \<Rightarrow> dict" where
  "addRunnerProfileMetadata checksum metadata =
     (if trim_space checksum \<noteq> [] then AList.update ''dependency_profile_checksum'' (VString checksum) metadata else metadata)"

definition classifyExecutionError :: "run_error \<Rightarrow> string" where
  "classifyExecutionError e =
     (case e of
        Cancellation _ \<Rightarrow> ''execution_canceled''
      | QueueTimeout _ \<Rightarrow> ''limit_exceeded''
      | Failure (Limit _) \<Rightarrow> ''limit_exceeded''
      | InstallDenied _ \<Rightarrow> ''policy_denied''
      | Failure (Message m) \<Rightarrow>
          if str_contains m ''timed out'' then ''limit_exceeded''
          else if str_contains m ''network access'' then ''network_policy_rejected''
          else if str_contains m ''not found'' then ''not_found''
          else if list_ex (str_contains m) [''unsupported'', ''unknown'', ''invalid'', ''exceeds'', ''dangerous'', ''not allowed'']
          then ''validation_error''
          else ''execution_error'')"

definition recordExecutionFailure ::
    "'c exec_env \<Rightarrow> string \<Rightarrow> string \<Rightarrow> string \<Rightarrow> dict \<Rightarrow> run_error \<Rightarrow> 'c manager \<Rightarrow> 'c manager" where
  "recordExecutionFailure X eventType sid message metadata e m =
     (let eventMetadata = [(''status'', VString ''failure''), (''error_type'', VString (classifyExecutionError e))];
          eventMetadata = update_all (ResponseDetails e) eventMetadata;
          eventMetadata = update_all metadata eventMetadata;
          eventMetadata = addRuntimeBackendMetadata (RuntimeBackendName (sv_config (ee_policy X))) eventMetadata
      in Record (ee_manager X) (ee_now X) eventType sid message (MetadataWithContext (ee_requestID X) eventMetadata) m)"

section \<open>Limits\<close>

definition rate_query :: "'c exec_env \<Rightarrow> string \<Rightarrow> int \<Rightarrow> event_query" where
  "rate_query X organization limit =
     \<lparr>qu_SandboxID = [], qu_Type = [], qu_TypePrefix = ''exec.'', qu_OrganizationID = organization, qu_WorkspaceID = [],
      qu_AppID = [], qu_WorkflowRunID = [], qu_UserID = [], qu_RequestID = [], qu_Limit = limit + 1,
      qu_After = Some (ee_now X - Minute), qu_Before = None\<rparr>"

definition enforceOrganizationExecutionRate :: "'c exec_env \<Rightarrow> sandbox \<Rightarrow> 'c manager \<Rightarrow> run_error option" where
  "enforceOrganizationExecutionRate X box m =
     (let limit = cf_MaxExecutionsPerMinutePerOrganization (sv_config (ee_policy X));
          events = QueryEvents (rate_query X (sb_OrganizationID box) limit) (mg_recorder m)
      in if limit \<le> 0 \<or> trim_space (sb_OrganizationID box) = [] then None
         else if int (length events) < limit then None
         else Some (Failure (Limit
           \<lparr>le_Code = ''organization_execution_rate_limit_exceeded'', le_Limit = ''max_executions_per_minute_per_organization'',
            le_Maximum = limit, le_Actual = int (length events) + 1,
            le_Details = [(''organization_id'', VString (sb_OrganizationID box)), (''window_seconds'', VInt Kint 60),
              (''recent_executions'', VInt Kint (int (length events)))]\<rparr>)))"

definition enforceWorkspaceByteLimit ::
    "'c exec_env \<Rightarrow> sandbox \<Rightarrow> fsys \<Rightarrow> 'c manager \<Rightarrow> sb_error option \<times> 'c manager" where
  "enforceWorkspaceByteLimit X box fs m =
     (case workspaceByteSize (ee_os X) fs (sb_RootPath box) of
        Inl e \<Rightarrow> (Some e, m)
      | Inr bytes \<Rightarrow> enforce_bytes (ee_manager X) (ee_os X) (ee_now X) box bytes fs m)"

definition enforceWorkspaceFileLimit :: "'c exec_env \<Rightarrow> sandbox \<Rightarrow> fsys \<Rightarrow> sb_error option" where
  "enforceWorkspaceFileLimit X box fs =
     (case workspaceFileCount (ee_os X) fs (sb_RootPath box) of
        Inl e \<Rightarrow> Some e
      | Inr files \<Rightarrow> enforceWorkspaceFileLimitForCount (ee_policy X) files)"

text \<open>The two checks of the workspace after a run.\<close>

definition check_workspace :: "'c exec_env \<Rightarrow> sandbox \<Rightarrow> fsys \<Rightarrow> 'c manager \<Rightarrow> run_error option \<times> 'c manager" where
  "check_workspace X box fs m =
     (case enforceWorkspaceByteLimit X box fs m of
        (Some e, m) \<Rightarrow> (Some (Failure e), m)
      | (None, m) \<Rightarrow> (map_option Failure (enforceWorkspaceFileLimit X box fs), m))"

section \<open>Commands\<close>

definition command_failed ::
    "'c exec_env \<Rightarrow> command_request \<Rightarrow> dict \<Rightarrow> run_error \<Rightarrow> fsys \<Rightarrow> 'c manager \<Rightarrow> (run_error + command_result) \<times> fsys \<times> 'c manager" where
  "command_failed X req metadata e fs m =
     (Inl e, fs, recordExecutionFailure X ''exec.command.failed'' (mq_SandboxID req) ''sandbox command execution failed'' metadata e m)"

text \<open>The checks of a command between the lookup of its sandbox and the admission: its limits and its environment.\<close>

definition command_checks ::
    "'c exec_env \<Rightarrow> command_request \<Rightarrow> command_limits \<Rightarrow> run_error + (string, string) gomap" where
  "command_checks X req limits =
     (case rejectRuntimeDependencyInstall (mq_Command req) (mq_Args req) of
        Some e \<Rightarrow> Inl (InstallDenied e)
      | None \<Rightarrow>
          if int (length (mq_Stdin req)) > cl_MaxStdinBytes limits
          then Inl (Failure (max_size_error ''stdin'' (cl_MaxStdinBytes limits)))
          else case normalizeCommandEnv (mq_Env req) of Inl e \<Rightarrow> Inl (Failure (Message e)) | Inr env \<Rightarrow> Inr env)"

definition spec_of :: "command_request \<Rightarrow> sandbox \<Rightarrow> string \<Rightarrow> command_limits \<Rightarrow> (string, string) gomap \<Rightarrow> command_spec" where
  "spec_of req box workDir limits env =
     \<lparr>cs_WorkDir = workDir, cs_Command = mq_Command req, cs_Args = mq_Args req, cs_Stdin = mq_Stdin req, cs_Env = env,
      cs_DependencyProfile = sb_DependencyProfile box, cs_DependencyArtifactChecksum = sb_DependencyArtifactChecksum box,
      cs_Timeout = cl_Timeout limits, cs_StdoutLimit = cl_StdoutLimitBytes limits, cs_StderrLimit = cl_StderrLimitBytes limits,
      cs_AllowShellForm = True\<rparr>"

definition command_done ::
    "'c exec_env \<Rightarrow> command_request \<Rightarrow> sandbox \<Rightarrow> command_limits \<Rightarrow> command_result \<Rightarrow> 'c manager \<Rightarrow> 'c manager" where
  "command_done X req box limits result m =
     Record (ee_manager X) (ee_now X) ''exec.command'' (mq_SandboxID req) ''sandbox command executed''
       (MetadataWithContext (ee_requestID X) (addRunnerProfileMetadata (cr_ProfileChecksum result)
         (addExecutionSandboxMetadata (Some box)
           [(''execution_id'', VString (ee_executionID X)), (''command'', VString (mq_Command req)),
            (''profile'', VString (cl_Profile limits)), (''exit_code'', VInt Kint (cr_ExitCode result)),
            (''duration_ms'', VInt Kint64 (cr_DurationMS result)), (''truncated'', VBool (cr_Truncated result)),
            (''backend'', VString (cr_Backend result)), (''runtime_backend'', VString (cr_Backend result)),
            (''status'', VString ''success'')]))) m"

definition working_dir :: "'c exec_env \<Rightarrow> fsys \<Rightarrow> sandbox \<Rightarrow> command_request \<Rightarrow> sb_error + string" where
  "working_dir X fs box req =
     (if mq_WorkingSubpath req = [] then Inr (sb_RootPath box)
      else resolveExistingSandboxPath (ee_os X) fs (sb_RootPath box) (mq_WorkingSubpath req))"

definition RunCommand ::
    "'c exec_env \<Rightarrow> command_request \<Rightarrow> fsys \<Rightarrow> 'c manager \<Rightarrow> (run_error + command_result) \<times> fsys \<times> 'c manager" where
  "RunCommand X req fs m =
     (let base = [(''execution_id'', VString (ee_executionID X)), (''command'', VString (mq_Command req)),
            (''profile'', VString (default_string (mq_Profile req) ''code-short''))]
      in case Get (ee_manager X) (ee_now X) (mq_SandboxID req) m of
        (Inl e, m) \<Rightarrow> command_failed X req base (Failure e) fs m
      | (Inr box, m) \<Rightarrow>
          let base = addExecutionSandboxMetadata (Some box) base in
          case working_dir X fs box req of
            Inl e \<Rightarrow> command_failed X req base (Failure e) fs m
          | Inr workDir \<Rightarrow>
              (case NormalizeCommandLimits (ee_policy X) (mq_Profile req) (mq_TimeoutSeconds req) (mq_TimeoutMS req)
                      (mq_StdoutLimitKB req) (mq_StderrLimitKB req) of
                 Inl e \<Rightarrow> command_failed X req base (Failure (Message e)) fs m
               | Inr limits \<Rightarrow>
                   let base = AList.update ''profile'' (VString (cl_Profile limits)) base in
                   case command_checks X req limits of
                     Inl e \<Rightarrow> command_failed X req base e fs m
                   | Inr env \<Rightarrow>
                       (case enforceOrganizationExecutionRate X box m of
                          Some e \<Rightarrow> command_failed X req base e fs m
                        | None \<Rightarrow>
                            (case admission_result X box (cl_Profile limits) of
                               Some e \<Rightarrow> command_failed X req base e fs m
                             | None \<Rightarrow>
                                 (case ExecuteCommandSpec (ee_runner X) (worker X) (spec_of req box workDir limits env) fs of
                                    (Inl e, fs) \<Rightarrow> command_failed X req base e fs m
                                  | (Inr result, fs) \<Rightarrow>
                                      (case check_workspace X box fs m of
                                         (Some e, m) \<Rightarrow> command_failed X req base e fs m
                                       | (None, m) \<Rightarrow>
                                           (Inr (result\<lparr>cr_ExecutionID := ee_executionID X\<rparr>), fs,
                                            command_done X req box limits result m)))))))"

section \<open>Code\<close>

definition code_failed ::
    "'c exec_env \<Rightarrow> code_request \<Rightarrow> dict \<Rightarrow> run_error \<Rightarrow> fsys \<Rightarrow> 'c manager \<Rightarrow> (run_error + runner_result) \<times> fsys \<times> 'c manager" where
  "code_failed X req metadata e fs m =
     (Inl e, fs, recordExecutionFailure X ''exec.code.failed'' (cq_SandboxID req) ''sandbox code execution failed'' metadata e m)"

definition stateless_network :: run_error where
  "stateless_network = Failure (Message ''network access is disabled for stateless code execution'')"

text \<open>The checks of a run of code in a sandbox, up to the admission.\<close>

definition scope_checks :: "'c exec_env \<Rightarrow> code_request \<Rightarrow> command_limits \<Rightarrow> sandbox \<Rightarrow> 'c manager \<Rightarrow> run_error option" where
  "scope_checks X req limits box m =
     (if cl_Stateless limits \<and> \<not> cq_BindWorkspace req \<and> cq_EnableNetwork req then Some stateless_network
      else case ValidateCommandProfileNetwork limits (cq_EnableNetwork req) of
        Some e \<Rightarrow> Some (Failure (Message e))
      | None \<Rightarrow>
          (case ValidateCodeExecution (ee_policy X) box (cq_EnableNetwork req) of
             Some e \<Rightarrow> Some (Failure (Message e))
           | None \<Rightarrow>
               (case enforceOrganizationExecutionRate X box m of
                  Some e \<Rightarrow> Some e
                | None \<Rightarrow> admission_result X box (cl_Profile limits))))"

text \<open>The result of the run, the sandbox if there is one, and whether the workspace is bound.\<close>

definition runCodeWithScope ::
    "'c exec_env \<Rightarrow> code_request \<Rightarrow> run_request \<Rightarrow> command_limits \<Rightarrow> fsys \<Rightarrow> 'c manager
      \<Rightarrow> ((run_error + runner_result) \<times> sandbox option \<times> bool) \<times> fsys \<times> 'c manager" where
  "runCodeWithScope X req runReq limits fs m =
     (if trim_space (cq_SandboxID req) = [] then
        if cq_EnableNetwork req then ((Inl stateless_network, None, False), fs, m)
        else case RunWithLimits (ee_runner X) (worker X) runReq (cl_Timeout limits) (cl_StdoutLimitBytes limits)
                (cl_StderrLimitBytes limits) fs of
          (result, fs) \<Rightarrow> ((result, None, False), fs, m)
      else case Get (ee_manager X) (ee_now X) (cq_SandboxID req) m of
        (Inl e, m) \<Rightarrow> ((Inl (Failure e), None, False), fs, m)
      | (Inr box, m) \<Rightarrow>
          (case scope_checks X req limits box m of
             Some e \<Rightarrow> ((Inl e, Some box, False), fs, m)
           | None \<Rightarrow>
               let runReq = runReq\<lparr>rq_DependencyProfile := sb_DependencyProfile box,
                     rq_DependencyArtifactChecksum := sb_DependencyArtifactChecksum box\<rparr> in
               if cl_Stateless limits \<and> \<not> cq_BindWorkspace req then
                 case RunWithLimits (ee_runner X) (worker X) runReq (cl_Timeout limits) (cl_StdoutLimitBytes limits)
                        (cl_StderrLimitBytes limits) fs of
                   (result, fs) \<Rightarrow> ((result, Some box, False), fs, m)
               else
                 case RunInDirWithLimits (ee_runner X) (worker X) runReq (sb_RootPath box) (cl_Timeout limits)
                        (cl_StdoutLimitBytes limits) (cl_StderrLimitBytes limits) fs of
                   (result, fs) \<Rightarrow> ((result, Some box, True), fs, m)))"

definition code_done ::
    "'c exec_env \<Rightarrow> code_request \<Rightarrow> sandbox option \<Rightarrow> bool \<Rightarrow> command_limits \<Rightarrow> runner_result \<Rightarrow> 'c manager \<Rightarrow> 'c manager" where
  "code_done X req box bound limits result m =
     Record (ee_manager X) (ee_now X) ''exec.code'' (cq_SandboxID req) ''sandbox code executed''
       (MetadataWithContext (ee_requestID X) (addRunnerProfileMetadata (rs_ProfileChecksum result)
         (addExecutionSandboxMetadata box
           [(''execution_id'', VString (ee_executionID X)), (''language'', VString (cq_Language req)),
            (''profile'', VString (cl_Profile limits)), (''exit_code'', VInt Kint (rs_ExitCode result)),
            (''duration_ms'', VInt Kint64 (rs_DurationMS result)), (''truncated'', VBool (rs_Truncated result)),
            (''backend'', VString (rs_Backend result)), (''runtime_backend'', VString (rs_Backend result)),
            (''status'', VString ''success''), (''stateless'', VBool (cl_Stateless limits)),
            (''workspace_bound'', VBool bound)]))) m"

definition RunCode ::
    "'c exec_env \<Rightarrow> code_request \<Rightarrow> fsys \<Rightarrow> 'c manager \<Rightarrow> (run_error + runner_result) \<times> fsys \<times> 'c manager" where
  "RunCode X req fs m =
     (let requestedProfile = default_string (cq_Profile req) ''code-short'';
          base = [(''execution_id'', VString (ee_executionID X)), (''language'', VString (cq_Language req)),
            (''profile'', VString requestedProfile)]
      in case NormalizeCommandLimits (ee_policy X) requestedProfile (cq_TimeoutSeconds req) (cq_TimeoutMS req)
                (cq_StdoutLimitKB req) (cq_StderrLimitKB req) of
        Inl e \<Rightarrow> code_failed X req base (Failure (Message e)) fs m
      | Inr limits \<Rightarrow>
          if int (length (cq_InputJSON req)) > cl_MaxStdinBytes limits
          then code_failed X req base (Failure (max_size_error ''input_json'' (cl_MaxStdinBytes limits))) fs m
          else case parseExpectedOutputSchema (ee_json X) (cq_ExpectedOutputSchema req) of
            Inl e \<Rightarrow> code_failed X req base (Failure (Message e)) fs m
          | Inr schema \<Rightarrow>
              (case runCodeWithScope X req
                     \<lparr>rq_Language = cq_Language req, rq_Code = cq_Code req, rq_Preload = cq_Preload req, rq_Stdin = cq_InputJSON req,
                      rq_EnableNetwork = cq_EnableNetwork req, rq_DependencyProfile = [], rq_DependencyArtifactChecksum = []\<rparr>
                     limits fs m of
                 ((result, box, bound), fs, m) \<Rightarrow>
                   let failed = code_failed X req (addExecutionSandboxMetadata box base) in
                   (case result of
                      Inl e \<Rightarrow> failed e fs m
                    | Inr result \<Rightarrow>
                        (case (if bound then check_workspace X (the box) fs m else (None, m)) of
                           (Some e, m) \<Rightarrow> failed e fs m
                         | (None, m) \<Rightarrow>
                             (case attachResultJSON (ee_json X) result (cq_StrictResultJSON req) schema (cl_MaxResultJSONBytes limits) of
                                Inl e \<Rightarrow> failed (Failure (Message e)) fs m
                              | Inr result \<Rightarrow>
                                  (Inr (result\<lparr>rs_ExecutionID := ee_executionID X\<rparr>), fs,
                                   code_done X req box bound limits result m))))))"

section \<open>Skills\<close>

definition skillCommand :: "skill_manifest \<Rightarrow> string \<times> string list" where
  "skillCommand manifest = (if sk_Language manifest = ''nodejs'' then ''node'' else ''python3'', [sk_Entrypoint manifest])"

definition skillCommandProfile :: "skill_manifest \<Rightarrow> string" where
  "skillCommandProfile manifest = (if sk_Language manifest = ''nodejs'' then ''skill-node'' else ''skill-python'')"

definition skill_failed ::
    "'c exec_env \<Rightarrow> skill_request \<Rightarrow> dict \<Rightarrow> run_error \<Rightarrow> fsys \<Rightarrow> 'c manager \<Rightarrow> (run_error + skill_result) \<times> fsys \<times> 'c manager" where
  "skill_failed X req metadata e fs m =
     (Inl e, fs, recordExecutionFailure X ''exec.skill.failed'' (sq_SandboxID req) ''skill execution failed'' metadata e m)"

text \<open>The package of a skill: its directory and the manifest in it.\<close>

definition skill_package ::
    "'c exec_env \<Rightarrow> string \<Rightarrow> fsys \<Rightarrow> sandbox \<Rightarrow> sb_error + string \<times> skill_manifest" where
  "skill_package X p fs box =
     (case resolveExistingSandboxPath (ee_os X) fs (sb_RootPath box) p of
        Inl e \<Rightarrow> Inl e
      | Inr packageRoot \<Rightarrow>
          (case Stat (ee_os X) fs packageRoot of
             Inl e \<Rightarrow> Inl (path_error ''stat'' packageRoot e)
           | Inr n \<Rightarrow>
               if n \<noteq> Directory then Inl (Message (''skill package path is not a directory: '' @ p))
               else map_sum id (Pair packageRoot)
                 (loadSkillExecutionManifest (ee_policy X) (ee_files X) fs packageRoot (sb_DependencyProfile box) (sb_OrganizationID box))))"

text \<open>Its input and environment.\<close>

definition skill_input :: "'c exec_env \<Rightarrow> skill_request \<Rightarrow> sb_error + string \<times> (string, string) gomap" where
  "skill_input X req =
     (if sq_InputJSON req \<noteq> [] \<and> (case je_value (ee_json X) (sq_InputJSON req) of Inl _ \<Rightarrow> True | Inr _ \<Rightarrow> False)
      then Inl (Message ''input_json must contain valid JSON'')
      else case normalizeCommandEnv (sq_Env req) of
        Inl e \<Rightarrow> Inl (Message e)
      | Inr env \<Rightarrow> Inr (if sq_InputJSON req \<noteq> [] then sq_InputJSON req else sq_Stdin req, env))"

definition skill_spec ::
    "sandbox \<Rightarrow> string \<Rightarrow> skill_manifest \<Rightarrow> string \<Rightarrow> (string, string) gomap \<Rightarrow> command_spec" where
  "skill_spec box packageRoot manifest stdin env =
     \<lparr>cs_WorkDir = packageRoot, cs_Command = fst (skillCommand manifest), cs_Args = snd (skillCommand manifest), cs_Stdin = stdin,
      cs_Env = env, cs_DependencyProfile = sb_DependencyProfile box,
      cs_DependencyArtifactChecksum = sb_DependencyArtifactChecksum box, cs_Timeout = times (sk_TimeoutMS manifest) Millisecond,
      cs_StdoutLimit = 64 * 1024, cs_StderrLimit = 64 * 1024, cs_AllowShellForm = False\<rparr>"

definition skill_json :: "'c exec_env \<Rightarrow> skill_manifest \<Rightarrow> command_result \<Rightarrow> goval option" where
  "skill_json X manifest result =
     (if sk_ResultMode manifest = ''stdout_json'' \<or> sk_ResultMode manifest = ''mixed''
      then if trim_space (cr_Stdout result) = [] then None
           else (case je_value (ee_json X) (trim_space (cr_Stdout result)) of Inl _ \<Rightarrow> None | Inr v \<Rightarrow> Some v)
      else None)"

definition skill_done ::
    "'c exec_env \<Rightarrow> skill_request \<Rightarrow> string \<Rightarrow> sandbox \<Rightarrow> skill_manifest \<Rightarrow> command_result \<Rightarrow> int \<Rightarrow> 'c manager \<Rightarrow> 'c manager" where
  "skill_done X req p box manifest result artifacts m =
     Record (ee_manager X) (ee_now X) ''exec.skill'' (sq_SandboxID req) ''skill executed''
       (MetadataWithContext (ee_requestID X) (addRunnerProfileMetadata (cr_ProfileChecksum result)
         (addExecutionSandboxMetadata (Some box)
           [(''execution_id'', VString (ee_executionID X)), (''path'', VString p), (''entrypoint'', VString (sk_Entrypoint manifest)),
            (''language'', VString (sk_Language manifest)), (''profile'', VString (skillCommandProfile manifest)),
            (''result_mode'', VString (sk_ResultMode manifest)), (''exit_code'', VInt Kint (cr_ExitCode result)),
            (''duration_ms'', VInt Kint64 (cr_DurationMS result)), (''truncated'', VBool (cr_Truncated result)),
            (''backend'', VString (cr_Backend result)), (''runtime_backend'', VString (cr_Backend result)),
            (''artifact_paths'', VInt Kint artifacts), (''status'', VString ''success'')]))) m"

text \<open>The part of a skill run after the admission.\<close>

definition skill_execute ::
    "'c exec_env \<Rightarrow> skill_request \<Rightarrow> string \<Rightarrow> dict \<Rightarrow> sandbox \<Rightarrow> string \<Rightarrow> skill_manifest \<Rightarrow> string \<Rightarrow> (string, string) gomap
      \<Rightarrow> fsys \<Rightarrow> 'c manager \<Rightarrow> (run_error + skill_result) \<times> fsys \<times> 'c manager" where
  "skill_execute X req p base box packageRoot manifest stdin env fs m =
     (case ExecuteCommandSpec (ee_runner X) (worker X) (skill_spec box packageRoot manifest stdin env) fs of
        (Inl e, fs) \<Rightarrow> skill_failed X req base e fs m
      | (Inr result, fs) \<Rightarrow>
          (case check_workspace X box fs m of
             (Some e, m) \<Rightarrow> skill_failed X req base e fs m
           | (None, m) \<Rightarrow>
               let result = result\<lparr>cr_ExecutionID := ee_executionID X\<rparr> in
               (case skillArtifactManifests (ee_manager X) (ee_files X) (ee_now X) (sq_SandboxID req) p
                       \<lparr>mo_MaxFiles = sk_MaxArtifactCount manifest, mo_MaxTotalBytes = sk_MaxArtifactBytes manifest\<rparr>
                       (sk_AllowedArtifactPaths manifest) fs m of
                  (Inl e, m) \<Rightarrow> skill_failed X req base (Failure e) fs m
                | (Inr manifests, m) \<Rightarrow>
                    (Inr \<lparr>sr_ExecutionID = ee_executionID X, sr_SandboxID = sq_SandboxID req, sr_Path = p, sr_Manifest = manifest,
                       sr_Command = result, sr_ArtifactManifests = manifests, sr_ResultJSON = skill_json X manifest result\<rparr>,
                     fs, skill_done X req p box manifest result (int (length manifests)) m))))"

definition RunSkill ::
    "'c exec_env \<Rightarrow> skill_request \<Rightarrow> fsys \<Rightarrow> 'c manager \<Rightarrow> (run_error + skill_result) \<times> fsys \<times> 'c manager" where
  "RunSkill X req fs m =
     (if trim_space (sq_SandboxID req) = [] then (Inl (Failure (Message ''sandbox_id is required'')), fs, m)
      else let p = (if trim_space (sq_Path req) = [] then ''.'' else sq_Path req);
               base = [(''execution_id'', VString (ee_executionID X)), (''path'', VString p)]
      in case Get (ee_manager X) (ee_now X) (sq_SandboxID req) m of
        (Inl e, m) \<Rightarrow> skill_failed X req base (Failure e) fs m
      | (Inr box, m) \<Rightarrow>
          let base = addExecutionSandboxMetadata (Some box) base in
          (case skill_package X p fs box of
             Inl e \<Rightarrow> skill_failed X req base (Failure e) fs m
           | Inr (packageRoot, manifest) \<Rightarrow>
               (case skill_input X req of
                  Inl e \<Rightarrow> skill_failed X req base (Failure e) fs m
                | Inr (stdin, env) \<Rightarrow>
                    (case enforceOrganizationExecutionRate X box m of
                       Some e \<Rightarrow> skill_failed X req base e fs m
                     | None \<Rightarrow>
                         (case admission_result X box (skillCommandProfile manifest) of
                            Some e \<Rightarrow> skill_failed X req base e fs m
                          | None \<Rightarrow> skill_execute X req p base box packageRoot manifest stdin env fs m)))))"

end
