(* ===== verification/Sandbox_Renders.thy ===== *)
theory Sandbox_Renders
  imports Sandbox_Templates Sandbox_Runs
begin

text \<open>
  Rendering a template (\<open>RunTemplate\<close> in \<open>executor/service.go\<close>): its limits, the checks, the
  execution with the writer that cuts the output, and the event. The parser and the execution of
  \<open>text/template\<close>, and which of the two branches of the select comes first, are parameters.
\<close>

record template_request =
  tq_Engine :: string
  tq_Template :: string
  tq_Variables :: dict
  tq_Profile :: string
  tq_TimeoutMS :: int
  tq_OutputLimitKB :: int
  tq_OrganizationID :: string
  tq_WorkspaceID :: string
  tq_AppID :: string
  tq_WorkflowRunID :: string
  tq_UserID :: string

record template_result =
  tr_ExecutionID :: string
  tr_Content :: string
  tr_DurationMS :: int
  tr_Truncated :: bool
  tr_Warnings :: "string list"

text \<open>The execution yields the pieces that it writes, each with the state of the context, and its own error.\<close>

record template_env =
  te_parse :: "string \<Rightarrow> string + template_node"
  te_execute :: "string \<Rightarrow> dict \<Rightarrow> (string option \<times> string) list \<times> string option"
  te_timed_out :: bool
  te_DurationMS :: int

definition addTemplateOwnershipMetadata :: "template_request \<Rightarrow> dict \<Rightarrow> dict" where
  "addTemplateOwnershipMetadata req =
     add_string ''user_id'' (tq_UserID req) \<circ> add_string ''workflow_run_id'' (tq_WorkflowRunID req)
     \<circ> add_string ''app_id'' (tq_AppID req) \<circ> add_string ''workspace_id'' (tq_WorkspaceID req)
     \<circ> add_string ''organization_id'' (tq_OrganizationID req)"

definition recordTemplateFailure :: "'c exec_env \<Rightarrow> template_request \<Rightarrow> string \<Rightarrow> 'c manager \<Rightarrow> 'c manager" where
  "recordTemplateFailure X req e m =
     Record (ee_manager X) (ee_now X) ''exec.template.failed'' [] ''template render failed''
       (MetadataWithContext (ee_requestID X) (addTemplateOwnershipMetadata req
         [(''execution_id'', VString (ee_executionID X)), (''engine'', VString (default_string (tq_Engine req) ''go-text'')),
          (''profile'', VString (default_string (tq_Profile req) ''template-short'')),
          (''runtime_backend'', VString (RuntimeBackendName (sv_config (ee_policy X)))), (''status'', VString ''failure''),
          (''error_type'', VString (classifyExecutionError (Failure (Message e))))])) m"

definition template_done ::
    "'c exec_env \<Rightarrow> template_request \<Rightarrow> template_limits \<Rightarrow> template_result \<Rightarrow> 'c manager \<Rightarrow> 'c manager" where
  "template_done X req limits result m =
     Record (ee_manager X) (ee_now X) ''exec.template'' [] ''template rendered''
       (MetadataWithContext (ee_requestID X) (addTemplateOwnershipMetadata req
         [(''execution_id'', VString (ee_executionID X)), (''engine'', VString (tl_Engine limits)),
          (''profile'', VString (tl_Profile limits)), (''duration_ms'', VInt Kint64 (tr_DurationMS result)),
          (''truncated'', VBool (tr_Truncated result)),
          (''runtime_backend'', VString (RuntimeBackendName (sv_config (ee_policy X)))), (''status'', VString ''success'')])) m"

text \<open>The checks before the execution; the check of helpers may panic.\<close>

definition template_checks :: "template_env \<Rightarrow> template_request \<Rightarrow> template_limits \<Rightarrow> string option go" where
  "template_checks T req limits =
     (if int (length (tq_Template req)) > tl_MaxTemplateBytes limits
      then Ret (Some (''template exceeds max size of '' @ show_int (tl_MaxTemplateBytes limits) @ '' bytes''))
      else case validateTemplateVariables limits (tq_Variables req) of
        Some e \<Rightarrow> Ret (Some e)
      | None \<Rightarrow>
          (case te_parse T (tq_Template req) of
             Inl e \<Rightarrow> Ret (Some e)
           | Inr root \<Rightarrow> validateTemplateHelpers root))"

text \<open>The goroutine: what was written, and the error, unless it is the one of the writer that is full.\<close>

definition rendered :: "template_env \<Rightarrow> template_request \<Rightarrow> template_limits \<Rightarrow> string option \<times> template_writer" where
  "rendered T req limits =
     (case te_execute T (tq_Template req) (tq_Variables req) of (pieces, final) \<Rightarrow>
        (case write_pieces pieces (map_option Expired final) (new_writer (tl_OutputLimitBytes limits)) of
           (Some (Expired e), w) \<Rightarrow> (Some e, w) | (_, w) \<Rightarrow> (None, w)))"

definition RunTemplate ::
    "'c exec_env \<Rightarrow> template_env \<Rightarrow> template_request \<Rightarrow> 'c manager \<Rightarrow> ((string + template_result) \<times> 'c manager) go" where
  "RunTemplate X T req m =
     (case NormalizeTemplateLimits (ee_policy X) (tq_Profile req) (tq_Engine req) (tq_TimeoutMS req) (tq_OutputLimitKB req) of
        Inl e \<Rightarrow> Ret (Inl e, recordTemplateFailure X req e m)
      | Inr limits \<Rightarrow>
          (case template_checks T req limits of
             Panic \<Rightarrow> Panic
           | Ret (Some e) \<Rightarrow> Ret (Inl e, recordTemplateFailure X req e m)
           | Ret None \<Rightarrow>
               if te_timed_out T then
                 let e = ''template execution timed out after '' @ show_int (tl_Timeout limits div Millisecond) @ '' ms''
                 in Ret (Inl e, recordTemplateFailure X req e m)
               else case rendered T req limits of
                 (Some e, w) \<Rightarrow> Ret (Inl e, recordTemplateFailure X req e m)
               | (None, w) \<Rightarrow>
                   let result = \<lparr>tr_ExecutionID = ee_executionID X, tr_Content = tw_content w, tr_DurationMS = te_DurationMS T,
                         tr_Truncated = tw_truncated w, tr_Warnings = (if tw_truncated w then [''output truncated''] else [])\<rparr>
                   in Ret (Inr result, template_done X req limits result m)))"

end
