(* ===== verification/Sandbox_Run_Events.thy ===== *)
theory Sandbox_Run_Events
  imports Sandbox_Renders
begin

text \<open>
  Every run leaves an event: which one, for which sandbox, and with which metadata; and what the
  limit on the executions of an organisation counts.
\<close>

section \<open>Metadata\<close>

lemma map_of_update_all:
  "distinct (map fst new) \<Longrightarrow> map_of (update_all new d) k = (case map_of new k of None \<Rightarrow> map_of d k | Some v \<Rightarrow> Some v)"
proof (induction new arbitrary: d)
  case (Cons p new)
  obtain j v where p: "p = (j, v)" by (cases p)
  have "update_all (p # new) d = update_all new (AList.update j v d)" by (simp add: update_all_def p)
  moreover have "map_of new j = None" using Cons.prems p by (simp add: map_of_eq_None_iff)
  ultimately show ?case using Cons p by (cases "k = j") (simp_all add: update_conv' split: option.split)
qed (simp add: update_all_def)

lemma map_of_add_string: "map_of (add_string key v d) k = (if k = key \<and> v \<noteq> [] then Some (VString v) else map_of d k)"
  by (simp add: add_string_def update_conv')

lemma distinct_add_string: "distinct (map fst d) \<Longrightarrow> distinct (map fst (add_string key v d))"
  by (simp add: add_string_def distinct_update)

lemma map_of_context: "k \<noteq> ''request_id'' \<Longrightarrow> map_of (MetadataWithContext r d) k = map_of d k"
  by (simp add: MetadataWithContext_def update_conv')

lemma map_of_backend: "k \<noteq> ''runtime_backend'' \<Longrightarrow> map_of (addRuntimeBackendMetadata b d) k = map_of d k"
  by (simp add: addRuntimeBackendMetadata_def update_conv')

lemma map_of_runner_profile: "k \<noteq> ''dependency_profile_checksum'' \<Longrightarrow> map_of (addRunnerProfileMetadata c d) k = map_of d k"
  by (simp add: addRunnerProfileMetadata_def update_conv')

text \<open>The metadata that names an execution and, if there is one, the organisation of its sandbox.\<close>

definition names_run :: "'c exec_env \<Rightarrow> sandbox option \<Rightarrow> dict \<Rightarrow> bool" where
  "names_run X box d \<longleftrightarrow>
     map_of d ''execution_id'' = Some (VString (ee_executionID X))
     \<and> (\<forall>b. box = Some b \<longrightarrow> sb_OrganizationID b \<noteq> [] \<longrightarrow> map_of d ''organization_id'' = Some (VString (sb_OrganizationID b)))"

lemma names_run_sandbox:
  assumes "map_of d ''execution_id'' = Some (VString (ee_executionID X))"
  shows "names_run X box (addExecutionSandboxMetadata box d)"
  using assms by (cases box)
    (auto simp: names_run_def addExecutionSandboxMetadata_def addOwnershipMetadata_def map_of_add_string)

lemma distinct_sandbox: "distinct (map fst d) \<Longrightarrow> distinct (map fst (addExecutionSandboxMetadata box d))"
  by (cases box) (simp_all add: addExecutionSandboxMetadata_def addOwnershipMetadata_def distinct_add_string)

lemma names_run_profile: "names_run X box d \<Longrightarrow> names_run X box (AList.update ''profile'' v d)"
  by (simp add: names_run_def update_conv')

section \<open>The recorder\<close>

lemma Record_events:
  "0 < rc_limit (mg_recorder m) \<Longrightarrow> \<exists>ident rest.
     rc_events (mg_recorder (Record E now t sid msg d m)) =
       \<lparr>ev_ID = ident, ev_SandboxID = sid, ev_Type = t, ev_Message = msg, ev_CreatedAt = now, ev_Metadata = d\<rparr> # rest"
  by (auto simp: Record_def token_def AppendEvent_def Let_def take_Cons')

lemma limit_Record [simp]: "rc_limit (mg_recorder (Record E now t sid msg d m)) = rc_limit (mg_recorder m)"
  by (simp add: Record_def token_def)

lemma limit_cache [simp]: "mg_recorder (cache_set E now item m) = mg_recorder m" "mg_recorder (cache_delete E sid m) = mg_recorder m"
  "mg_recorder (store_save item m) = mg_recorder m"
  by (simp_all add: cache_set_def cache_delete_def store_save_def)

lemma limit_expire: "expireIfNeeded E now item m = (x, m') \<Longrightarrow> rc_limit (mg_recorder m') = rc_limit (mg_recorder m)"
  by (auto simp: expireIfNeeded_def Let_def split: if_splits)

lemma limit_Get: "Get E now sid m = (x, m') \<Longrightarrow> rc_limit (mg_recorder m') = rc_limit (mg_recorder m)"
  by (auto simp: Get_def Let_def dest!: limit_expire split: prod.splits option.splits if_splits sum.splits)

lemma limit_list_loop: "list_loop E now items m = (x, m') \<Longrightarrow> rc_limit (mg_recorder m') = rc_limit (mg_recorder m)"
  by (induction E now items m arbitrary: x rule: list_loop.induct)
    (fastforce simp: Let_def dest: limit_expire split: prod.splits if_splits)+

lemma limit_List: "List_sandboxes E now m = (x, m') \<Longrightarrow> rc_limit (mg_recorder m') = rc_limit (mg_recorder m)"
  by (auto simp: List_sandboxes_def dest: limit_list_loop split: prod.splits)

lemma limit_check: "check_workspace X box fs m = (x, m') \<Longrightarrow> rc_limit (mg_recorder m') = rc_limit (mg_recorder m)"
  by (auto simp: check_workspace_def enforceWorkspaceByteLimit_def enforce_bytes_def
      enforceOrganizationWorkspaceByteLimitForSize_def organizationWorkspaceByteSize_def Let_def
      dest!: limit_List split: prod.splits sum.splits option.splits if_splits)

section \<open>Every run is recorded\<close>

text \<open>The newest event is the one of this run.\<close>

definition traced :: "'c exec_env \<Rightarrow> string \<Rightarrow> string \<Rightarrow> sandbox option \<Rightarrow> ('e + 'a) \<Rightarrow> 'c manager \<Rightarrow> bool" where
  "traced X sid kind box r m \<longleftrightarrow>
     (\<exists>e rest. rc_events (mg_recorder m) = e # rest \<and> ev_SandboxID e = sid \<and> ev_CreatedAt e = ee_now X
       \<and> ev_Type e = (case r of Inl _ \<Rightarrow> kind @ ''.failed'' | Inr _ \<Rightarrow> kind) \<and> names_run X box (ev_Metadata e))"

lemma traced_failure:
  assumes "0 < rc_limit (mg_recorder m)" and "distinct (map fst d)" and "names_run X box d"
  shows "traced X sid kind box (Inl e') (recordExecutionFailure X (kind @ ''.failed'') sid msg d e m)"
proof -
  have "map_of (MetadataWithContext r (addRuntimeBackendMetadata b (update_all d d'))) k = map_of d k"
    if "map_of d k \<noteq> None" "k \<noteq> ''request_id''" "k \<noteq> ''runtime_backend''" for r b d' k
    using that assms(2) by (auto simp: map_of_context map_of_backend map_of_update_all split: option.splits)
  with assms(3) have "names_run X box (MetadataWithContext r (addRuntimeBackendMetadata b (update_all d d')))" for r b d'
    by (simp add: names_run_def)
  with Record_events [OF assms(1)] show ?thesis
    unfolding traced_def recordExecutionFailure_def Let_def by fastforce
qed

lemma traced_success:
  assumes "0 < rc_limit (mg_recorder m)" and "map_of d ''execution_id'' = Some (VString (ee_executionID X))"
  shows "traced X sid kind box (Inr x) (Record (ee_manager X) (ee_now X) kind sid msg
    (MetadataWithContext r (addRunnerProfileMetadata c (addExecutionSandboxMetadata box d))) m)"
proof -
  have "names_run X box (MetadataWithContext r (addRunnerProfileMetadata c (addExecutionSandboxMetadata box d)))"
    using names_run_sandbox [OF assms(2), of box] by (simp add: names_run_def map_of_context map_of_runner_profile)
  with Record_events [OF assms(1)] show ?thesis unfolding traced_def by fastforce
qed

lemmas traced_failures =
  traced_failure [where kind = "''exec.command''", simplified] traced_failure [where kind = "''exec.code''", simplified]
  traced_failure [where kind = "''exec.skill''", simplified]

abbreviation box_of :: "sb_error + sandbox \<Rightarrow> sandbox option" where
  "box_of g \<equiv> (case g of Inl _ \<Rightarrow> None | Inr b \<Rightarrow> Some b)"

lemma command_metadata:
  assumes "d = [(''execution_id'', VString (ee_executionID X)), (k, v), (''profile'', p)]" and "k \<notin> {''execution_id'', ''profile''}"
  shows "distinct (map fst (addExecutionSandboxMetadata box d))" and "names_run X box (addExecutionSandboxMetadata box d)"
    and "names_run X box (AList.update ''profile'' q (addExecutionSandboxMetadata box d))"
    and "distinct (map fst d)" and "names_run X None d"
  using assms distinct_sandbox [of d] names_run_sandbox [of d X]
  by (auto simp: names_run_profile names_run_def [of X None])

lemma RunCommand_traced:
  assumes "RunCommand X req fs m = (r, fs', m')" and "0 < rc_limit (mg_recorder m)"
  shows "traced X (mq_SandboxID req) ''exec.command'' (box_of (fst (Get (ee_manager X) (ee_now X) (mq_SandboxID req) m))) r m'"
proof -
  let ?base = "[(''execution_id'', VString (ee_executionID X)), (''command'', VString (mq_Command req)),
    (''profile'', VString (default_string (mq_Profile req) ''code-short''))]"
  note meta = command_metadata [where k = "''command''" and X = X and v = "VString (mq_Command req)"
    and p = "VString (default_string (mq_Profile req) ''code-short'')", OF refl, simplified]
  obtain g m1 where get: "Get (ee_manager X) (ee_now X) (mq_SandboxID req) m = (g, m1)" by fastforce
  with assms(2) limit_Get have limit: "0 < rc_limit (mg_recorder m1)" by metis
  show ?thesis
  proof (cases g)
    case (Inl e)
    with assms(1) get limit meta show ?thesis
      by (auto simp: RunCommand_def command_failed_def Let_def intro!: traced_failures)
  next
    case (Inr box)
    have "0 < rc_limit (mg_recorder m2)" if "check_workspace X box fs'' m1 = (x, m2)" for x fs'' m2
      using limit_check [OF that] limit by simp
    with assms(1) get limit meta Inr show ?thesis
      by (auto simp: RunCommand_def command_failed_def command_done_def Let_def distinct_update intro!: traced_failures traced_success
          split: sum.splits option.splits prod.splits)
  qed
qed











section \<open>What the limit on executions counts\<close>

text \<open>
  a refused run counts. A command of an organisation that was refused, for whatever reason, the limit
  on the executions of a minute included, is found by this limit for the next minute: an organisation
  that is over the limit and tries again often enough stays over it.
\<close>

theorem refused_runs_count:
  assumes "RunCommand X req fs m = (Inl e, fs', m')" and "0 < rc_limit (mg_recorder m)"
    and "fst (Get (ee_manager X) (ee_now X) (mq_SandboxID req) m) = Inr box" and "trim_space (sb_OrganizationID box) \<noteq> []"
    and "ee_now X' < ee_now X + Minute" and "0 < limit"
  shows "(\<exists>ev rest. QueryEvents (rate_query X' (sb_OrganizationID box) limit) (mg_recorder m') = ev # rest
      \<and> ev_Type ev = ''exec.command.failed'' \<and> ev_CreatedAt ev = ee_now X \<and> ev_SandboxID ev = mq_SandboxID req)
    \<and> (cf_MaxExecutionsPerMinutePerOrganization (sv_config (ee_policy X')) = 1 \<longrightarrow>
        (\<exists>l. enforceOrganizationExecutionRate X' box m' = Some (Failure (Limit l)) \<and> le_Code l = ''organization_execution_rate_limit_exceeded''))"
proof -
  have org: "sb_OrganizationID box \<noteq> []" using assms(4) by auto
  from RunCommand_traced [OF assms(1,2)] assms(3) obtain ev rest where ev: "rc_events (mg_recorder m') = ev # rest"
    "ev_CreatedAt ev = ee_now X" "ev_Type ev = ''exec.command.failed''" "ev_SandboxID ev = mq_SandboxID req" "names_run X (Some box) (ev_Metadata ev)"
    by (auto simp: traced_def)
  have "metadataString (ev_Metadata ev) ''organization_id'' = sb_OrganizationID box"
    using ev(5) org by (simp add: names_run_def metadataString_def is_string_def)
  with ev(2,3) assms(5) have "query_matches (rate_query X' (sb_OrganizationID box) n) ev" for n
    by (simp add: query_matches_def rate_query_def has_prefix_def)
  with ev(1) have found: "\<exists>rest. QueryEvents (rate_query X' (sb_OrganizationID box) n) (mg_recorder m') = ev # rest" if "0 < n" for n
    using that by (auto simp: QueryEvents_def query_loop_spec rate_query_def take_Cons')
  from found [of limit] found [of 1] ev(2,3,4) assms(4,6) show ?thesis
    by (auto simp: enforceOrganizationExecutionRate_def Let_def)
qed

end
