(* ===== verification/Sandbox_Run_Safety.thy ===== *)
theory Sandbox_Run_Safety
  imports Sandbox_Run_Events Sandbox_Backends Sandbox_Limits
begin

text \<open>
  What reaches the backend: only commands and code that passed every check change the files, and what
  comes back is within the limits of the output.
\<close>

section \<open>Commands\<close>

lemma normalized_env_ok:
  assumes "normalizeCommandEnv env = Inr out" and "map_of out key = Some v"
  shows "env_entry_ok key v"
proof -
  from assms(1) have run: "normalize_env [] env = Inr out" by (simp add: normalizeCommandEnv_def split: if_splits)
  with normalize_env_accepts have "\<forall>(k, v) \<in> set env. env_entry_ok (trim_space k) v" by blast
  with fold_update_trimmed [OF assms(2) [unfolded normalize_env_result [OF run]]] show ?thesis by auto
qed

text \<open>A command as it may reach a backend.\<close>

definition checked_command :: "'c exec_env \<Rightarrow> command_request \<Rightarrow> fsys \<Rightarrow> sandbox \<Rightarrow> command_spec \<Rightarrow> bool" where
  "checked_command X req fs box spec \<longleftrightarrow>
     working_dir X fs box req = Inr (cs_WorkDir spec)
     \<and> cs_Command spec = mq_Command req \<and> cs_Args spec = mq_Args req
     \<and> rejectRuntimeDependencyInstall (cs_Command spec) (cs_Args spec) = None
     \<and> (\<forall>key v. map_of (cs_Env spec) key = Some v \<longrightarrow> env_entry_ok key v)
     \<and> cs_DependencyProfile spec = sb_DependencyProfile box \<and> cs_DependencyArtifactChecksum spec = sb_DependencyArtifactChecksum box
     \<and> 0 < cs_Timeout spec \<and> (0 < max_timeout (ee_policy X) \<longrightarrow> cs_Timeout spec \<le> max (max_timeout (ee_policy X)) (5 * Second))
     \<and> 0 < cs_StdoutLimit spec \<and> 0 < cs_StderrLimit spec
     \<and> (0 < max_output (ee_policy X) \<longrightarrow> cs_StdoutLimit spec \<le> max (max_output (ee_policy X)) (64 * 1024)
          \<and> cs_StderrLimit spec \<le> max (max_output (ee_policy X)) (64 * 1024))"

lemma command_limits_facts:
  assumes "NormalizeCommandLimits s profile seconds ms out err = Inr l"
  shows "0 < cl_Timeout l" "0 < cl_StdoutLimitBytes l" "0 < cl_StderrLimitBytes l"
    "0 < max_timeout s \<Longrightarrow> cl_Timeout l \<le> max (max_timeout s) (5 * Second)"
    "0 < max_output s \<Longrightarrow> cl_StdoutLimitBytes l \<le> max (max_output s) (64 * 1024) \<and> cl_StderrLimitBytes l \<le> max (max_output s) (64 * 1024)"
  by (rule command_limitsE [OF assms], simp add: clamp_pos clamp_le)+

lemma with_defaults_positive:
  "0 < cs_Timeout spec \<Longrightarrow> 0 < cs_StdoutLimit spec \<Longrightarrow> 0 < cs_StderrLimit spec \<Longrightarrow> with_defaults r spec = spec"
  by (simp add: with_defaults_def at_least_one_def)

lemma command_checks_Inr:
  assumes "command_checks X req limits = Inr env"
  shows "rejectRuntimeDependencyInstall (mq_Command req) (mq_Args req) = None" and "normalizeCommandEnv (mq_Env req) = Inr env"
  using assms by (auto simp: command_checks_def split: option.splits if_splits sum.splits)

text \<open>A command that runs: the steps before the backend, and its answer.\<close>

lemma RunCommand_cases:
  assumes "RunCommand X req fs m = (r, fs', m')"
  obtains (refused) e where "r = Inl e" and "fs' = fs"
  | (ran) box workDir limits env out where
      "fst (Get (ee_manager X) (ee_now X) (mq_SandboxID req) m) = Inr box" "working_dir X fs box req = Inr workDir"
      "NormalizeCommandLimits (ee_policy X) (mq_Profile req) (mq_TimeoutSeconds req) (mq_TimeoutMS req)
        (mq_StdoutLimitKB req) (mq_StderrLimitKB req) = Inr limits"
      "command_checks X req limits = Inr env" "admission_result X box (cl_Profile limits) = None" "worker X = None"
      "bk_ExecuteCommand (rn_backend (ee_runner X)) (with_defaults (ee_runner X) (spec_of req box workDir limits env)) fs = (out, fs')"
      "\<And>result. r = Inr result \<Longrightarrow> \<exists>res. out = Inr res \<and> cr_Stdout result = cr_Stdout res \<and> cr_Error result = cr_Error res"
proof -
  have exec: "(\<exists>e. x = Inl e \<and> fs1 = fs) \<or> (worker X = None \<and> (\<exists>out. bk_ExecuteCommand (rn_backend (ee_runner X))
        (with_defaults (ee_runner X) spec) fs = (out, fs1)
      \<and> (\<forall>y. x = Inr y \<longrightarrow> (\<exists>res. out = Inr res \<and> cr_Stdout y = cr_Stdout res \<and> cr_Error y = cr_Error res))))"
    if "ExecuteCommandSpec (ee_runner X) (worker X) spec fs = (x, fs1)" for spec x fs1
    using that by (auto simp: ExecuteCommandSpec_def split: if_splits option.splits prod.splits sum.splits)
  obtain g m1 where get: "Get (ee_manager X) (ee_now X) (mq_SandboxID req) m = (g, m1)" by fastforce
  show ?thesis
  proof (cases g)
    case (Inl e)
    with assms get refused show ?thesis by (auto simp: RunCommand_def command_failed_def Let_def)
  next
    case (Inr box)
    note run = assms [unfolded RunCommand_def Let_def get Inr, simplified]
    show ?thesis
    proof (cases "working_dir X fs box req")
      case (Inl e)
      with run refused show ?thesis by (auto simp: command_failed_def)
    next
      case dir: (Inr workDir)
      show ?thesis
      proof (cases "NormalizeCommandLimits (ee_policy X) (mq_Profile req) (mq_TimeoutSeconds req) (mq_TimeoutMS req)
          (mq_StdoutLimitKB req) (mq_StderrLimitKB req)")
        case (Inl e)
        with run dir refused show ?thesis by (auto simp: command_failed_def)
      next
        case limits: (Inr limits)
        show ?thesis
        proof (cases "\<exists>env. command_checks X req limits = Inr env \<and> enforceOrganizationExecutionRate X box m1 = None
            \<and> admission_result X box (cl_Profile limits) = None")
          case False
          with run dir limits refused show ?thesis by (auto simp: command_failed_def split: sum.splits option.splits)
        next
          case True
          then obtain env where env: "command_checks X req limits = Inr env" "enforceOrganizationExecutionRate X box m1 = None"
            "admission_result X box (cl_Profile limits) = None" by blast
          obtain x fs1 where x: "ExecuteCommandSpec (ee_runner X) (worker X) (spec_of req box workDir limits env) fs = (x, fs1)" by fastforce
          have same: "fs' = fs1" and result: "r = Inr result \<Longrightarrow> \<exists>y. x = Inr y \<and> cr_Stdout result = cr_Stdout y \<and> cr_Error result = cr_Error y"
            and failed: "x = Inl e \<Longrightarrow> r = Inl e" for result e
            using run dir limits env x by (auto simp: command_failed_def split: sum.splits prod.splits option.splits)
          from exec [OF x] show ?thesis
          proof (elim disjE exE conjE)
            fix e assume "x = Inl e" "fs1 = fs"
            with same failed refused show ?thesis by blast
          next
            fix out assume "worker X = None" "bk_ExecuteCommand (rn_backend (ee_runner X)) (with_defaults (ee_runner X) (spec_of req box workDir limits env)) fs = (out, fs1)"
              "\<forall>y. x = Inr y \<longrightarrow> (\<exists>res. out = Inr res \<and> cr_Stdout y = cr_Stdout res \<and> cr_Error y = cr_Error res)"
            with get Inr dir limits env same result show ?thesis by (intro ran) (simp_all, metis)
          qed
        qed
      qed
    qed
  qed
qed

text \<open>
  C11: only checked commands run. A command either fails and leaves all files as they are, or the backend
  runs exactly it, in a sandbox that is active, in its directory or one below it, with its dependency
  profile: after the check for installations, with an environment of safe names, with a positive
  timeout and positive limits of the output that respect the ceilings of the operator, and only
  after the admission and the pool of workers let it pass.
\<close>

theorem only_checked_commands_run:
  assumes "RunCommand X req fs m = (r, fs', m')"
  shows "(\<exists>e. r = Inl e \<and> fs' = fs)
    \<or> (\<exists>box spec out profile. fst (Get (ee_manager X) (ee_now X) (mq_SandboxID req) m) = Inr box \<and> checked_command X req fs box spec
        \<and> admission_result X box profile = None \<and> worker X = None
        \<and> bk_ExecuteCommand (rn_backend (ee_runner X)) spec fs = (out, fs'))"
  using assms
proof (cases rule: RunCommand_cases)
  case (ran box workDir limits env out)
  note limits = command_limits_facts [OF ran(3)] and checks = command_checks_Inr [OF ran(4)]
  have "checked_command X req fs box (spec_of req box workDir limits env)"
    using ran(2) limits checks(1) normalized_env_ok [OF checks(2)] by (simp add: checked_command_def spec_of_def)
  moreover have "with_defaults (ee_runner X) (spec_of req box workDir limits env) = spec_of req box workDir limits env"
    using limits by (intro with_defaults_positive) (simp_all add: spec_of_def)
  ultimately show ?thesis using ran(1,5-7) by metis
qed blast

section \<open>The output of a command\<close>

abbreviation within :: "int \<Rightarrow> capped_buffer \<Rightarrow> bool" where
  "within limit b \<equiv> int (length (cb_buf b)) \<le> limit \<and> cb_limit b = limit"

lemma capped_within: "within limit b \<Longrightarrow> within limit (capped_Write b p)"
  by (auto simp: capped_Write_def Let_def)

lemma captured_within: "0 < limit \<Longrightarrow> within limit (captured limit ps)"
proof (induction ps rule: rev_induct)
  case (snoc p ps)
  have "captured limit (ps @ [p]) = capped_Write (captured limit ps) p" by (simp add: captured_def)
  with snoc capped_within [of "captured limit ps" limit p] show ?case by simp
qed (simp add: captured_def newCappedBuffer_def)

lemma AppendLine_within: "within limit b \<Longrightarrow> within limit (AppendLine b t)"
  unfolding AppendLine_def using capped_within [of b limit] by simp

lemma process_result_length:
  assumes "process_result H t call net out err checksum fs = (Inr res, fs')" and "0 < out" and "0 < err"
  shows "int (length (rs_Stdout res)) \<le> out \<and> int (length (rs_Error res)) \<le> err"
proof -
  obtain o' fs1 where p: "ho_process H call fs = (o', fs1)" by fastforce
  let ?b = "captured err (po_stderr o')"
  from assms(1) p obtain code stderr where c: "process_code H t (po_end o') ?b = Inr (code, stderr)"
    and res: "rs_Stdout res = cb_buf (captured out (po_stdout o'))" "rs_Error res = cb_buf stderr"
    by (auto simp: process_result_def Let_def split: sum.splits prod.splits)
  from c have "stderr = ?b \<or> (\<exists>l. stderr = AppendLine ?b l)"
    by (auto simp: process_code_def exitCodeFromExitError_def split: process_end.splits if_splits)
  then have "within err stderr" using captured_within [OF assms(3)] AppendLine_within [OF captured_within [OF assms(3)]] by (elim disjE exE) simp_all
  with captured_within [OF assms(2)] res show ?thesis by simp
qed

lemma map_sum_Inr: "map_sum id f x = Inr y \<longleftrightarrow> (\<exists>z. x = Inr z \<and> y = f z)"
  by (cases x) auto

lemma secure_length:
  assumes "secure_ExecuteCommand H b spec fs = (Inr res, fs')" and "0 < cs_StdoutLimit spec" and "0 < cs_StderrLimit spec"
  shows "int (length (cr_Stdout res)) \<le> cs_StdoutLimit spec \<and> int (length (cr_Error res)) \<le> cs_StderrLimit spec"
proof -
  from assms(1) obtain r where r: "secure_exec H b (cs_Timeout spec) (cs_WorkDir spec) (cs_DependencyProfile spec) (cs_DependencyArtifactChecksum spec)
      (secure_words b spec) False (cs_StdoutLimit spec) (cs_StderrLimit spec) (cs_Stdin spec) (cs_Env spec) fs = (Inr r, fs')"
    and res: "res = as_command_result spec r"
    by (auto simp: secure_ExecuteCommand_def apfst_def map_prod_def map_sum_Inr split: prod.splits)
  from r obtain call checksum where "process_result H ''execution timed out'' call False (cs_StdoutLimit spec) (cs_StderrLimit spec) checksum fs = (Inr r, fs')"
    by (auto simp: secure_exec_def Let_def split: sum.splits)
  from process_result_length [OF this assms(2,3)] res show ?thesis by (simp add: as_command_result_def)
qed

lemma process_length:
  assumes "process_ExecuteCommand H d spec fs = (Inr res, fs')" and "0 < cs_StdoutLimit spec" and "0 < cs_StderrLimit spec"
  shows "int (length (cr_Stdout res)) \<le> cs_StdoutLimit spec \<and> int (length (cr_Error res)) \<le> cs_StderrLimit spec"
proof -
  from assms(1) obtain checksum r call where "process_result H ''command timed out'' call False (cs_StdoutLimit spec) (cs_StderrLimit spec)
      checksum fs = (Inr r, fs')" and res: "res = as_command_result spec r"
    by (auto simp: process_ExecuteCommand_def apfst_def map_prod_def map_sum_Inr Let_def split: prod.splits sum.splits)
  from process_result_length [OF this(1) assms(2,3)] res show ?thesis by (simp add: as_command_result_def)
qed

text \<open>
  C25: the output of a command is bounded. With either backend, whatever the process writes, in
  whatever pieces, and whatever is added about a signal or a timeout, the outputs that a caller gets
  are not longer than the limits that the request was given.
\<close>

theorem command_output_bounded:
  assumes "RunCommand X req fs m = (Inr result, fs', m')"
    and "rn_backend (ee_runner X) \<in> {linuxSecureBackend H b, processBackend H d}"
    and "NormalizeCommandLimits (ee_policy X) (mq_Profile req) (mq_TimeoutSeconds req) (mq_TimeoutMS req)
      (mq_StdoutLimitKB req) (mq_StderrLimitKB req) = Inr limits"
  shows "int (length (cr_Stdout result)) \<le> cl_StdoutLimitBytes limits \<and> int (length (cr_Error result)) \<le> cl_StderrLimitBytes limits"
  using assms(1)
proof (cases rule: RunCommand_cases)
  case (ran box workDir limits' env out)
  let ?spec = "spec_of req box workDir limits env"
  note pos = command_limits_facts(1-3) [OF assms(3)]
  have "limits' = limits" using ran(3) assms(3) by simp
  then have spec: "with_defaults (ee_runner X) (spec_of req box workDir limits' env) = ?spec"
    using with_defaults_positive [of ?spec] pos by (simp add: spec_of_def)
  from ran(8) obtain res where res: "out = Inr res" "cr_Stdout result = cr_Stdout res" "cr_Error result = cr_Error res" by blast
  have "cs_StdoutLimit ?spec = cl_StdoutLimitBytes limits" "cs_StderrLimit ?spec = cl_StderrLimitBytes limits" by (simp_all add: spec_of_def)
  with ran(7) [unfolded spec res(1)] assms(2) secure_length [of H b ?spec] process_length [of H "trim_space d" ?spec] pos res(2,3)
  show ?thesis by (auto simp: linuxSecureBackend_def processBackend_def)
qed simp

section \<open>Code\<close>





end
