(* ===== verification/Sandbox_Run_Examples.thy ===== *)
theory Sandbox_Run_Examples
  imports Sandbox_Run_Safety Sandbox_Check_Examples
begin

text \<open>
  The theorems on runs applied to the sandbox of the file examples: a command whose process writes two
  bytes, a refused command of an organisation, and code without a sandbox.
\<close>

section \<open>A run\<close>

definition echo_host :: host_env where
  "echo_host = \<lparr>ho_artifacts = \<lparr>ae_os = tree_os, ae_perm = \<lambda>_ _. 493, ae_sha256 = \<lambda>_. [], ae_manifest = \<lambda>_. Inl []\<rparr>,
     ho_environ = [], ho_temp = ''/t'', ho_token = ''0'', ho_signal = \<lambda>_. [],
     ho_process = \<lambda>c fs. (\<lparr>po_stdout = [''o'', ''k''], po_stderr = [], po_DurationMS = 1, po_end = Success\<rparr>, fs)\<rparr>"

definition echo_runner :: runner where
  "echo_runner = \<lparr>rn_maxWorkers = 1, rn_timeout = Second, rn_queueTimeout = Second, rn_outputCap = 64,
     rn_backend = processBackend echo_host []\<rparr>"

definition echo_exec :: "memory_cache exec_env" where
  "echo_exec = \<lparr>ee_manager = tree_env, ee_files = tree_files, ee_json = flag_json, ee_runner = echo_runner, ee_now = 10,
     ee_executionID = ''e'', ee_requestID = [], ee_admission = \<lambda>_ _. None, ee_activeWorkers = 0, ee_wait = Slot\<rparr>"

definition echo_request :: "string \<Rightarrow> command_request" where
  "echo_request profile = \<lparr>mq_SandboxID = ''b'', mq_Command = ''echo'', mq_Args = [''ok''], mq_Stdin = [], mq_Env = [], mq_Profile = profile,
     mq_TimeoutSeconds = 0, mq_TimeoutMS = 0, mq_StdoutLimitKB = 1, mq_StderrLimitKB = 1, mq_WorkingSubpath = []\<rparr>"

lemma echo_words [simp]: "trim_space ''skill-python'' = ''skill-python''" "trim_space ''nope'' = ''nope''" "trim_space ''echo'' = ''echo''"
  "trim_space ''code-short'' = ''code-short''"
  by (simp_all add: graphic_trim_space graphic_def)

lemma echo_allowed: "rejectRuntimeDependencyInstall ''echo'' [''ok''] = None"
proof -
  have "plain_word ''echo''" "plain_word ''ok''" by code_simp+
  then show ?thesis
    by (simp add: rejectRuntimeDependencyInstall_def commandTokens_def compactTokens_def isShellCommand_def clean_plain
        dependencyInstallHeadMatch_def dependencyInstallMatchAt_def isPipCommand_def isPythonCommand_def has_prefix_def Let_def)
qed

lemma echo_limits:
  obtains limits where "NormalizeCommandLimits (me_policy tree_env) [] 0 0 1 1 = Inr limits"
    "cl_StdoutLimitBytes limits = 1024" "cl_StderrLimitBytes limits = 1024" "0 \<le> cl_MaxStdinBytes limits"
proof -
  have "map_of (sv_commandProfiles (me_policy tree_env)) ''skill-python'' = map_of builtin_commands ''skill-python''"
    "cf_CommandTimeout (sv_config (me_policy tree_env)) = 10" "cf_OutputLimitKB (sv_config (me_policy tree_env)) = 64"
    by (simp_all add: tree_env_def NewService_def example_config_def)
  then show ?thesis
    by (intro that) (auto simp: NormalizeCommandLimits_def builtin_commands_def at_least_one_def times_def int64_def Let_def)
qed

lemma echo_sandbox [simp]:
  "sb_DependencyProfile (attachEffectiveLimits E tree_box) = []" "sb_OrganizationID (attachEffectiveLimits E tree_box) = []"
  by (simp_all add: attachEffectiveLimits_def tree_box_def example_box_def created_item_def)

lemma echo_process:
  assumes "cs_DependencyProfile spec = []" and "cs_StdoutLimit spec = 1024" and "cs_StderrLimit spec = 1024"
  obtains res where "process_ExecuteCommand echo_host [] spec tree = (Inr res, tree)" "cr_Stdout res = ''ok''"
proof -
  have out: "cb_buf (captured 1024 [''o'', ''k'']) = ''ok''"
    by (simp add: captured_def newCappedBuffer_def capped_Write_def Let_def)
  have process: "ho_process echo_host c fs = (\<lparr>po_stdout = [''o'', ''k''], po_stderr = [], po_DurationMS = 1, po_end = Success\<rparr>, fs)" for c fs
    by (simp add: echo_host_def)
  have result: "\<exists>r. process_result echo_host t call net 1024 1024 checksum tree = (Inr r, tree) \<and> rs_Stdout r = ''ok''" for t call net checksum
    by (simp add: process_result_def process process_code_def out Let_def)
  have "process_activation echo_host [] tree [] c = Inr no_activation" for c by (simp add: process_activation_def)
  then obtain call where run: "process_ExecuteCommand echo_host [] spec tree =
      apfst (map_sum id (as_command_result spec)) (process_result echo_host ''command timed out'' call False 1024 1024 [] tree)"
    by (simp add: process_ExecuteCommand_def assms no_activation_def Let_def)
  obtain r where "process_result echo_host ''command timed out'' call False 1024 1024 [] tree = (Inr r, tree)" "rs_Stdout r = ''ok''"
    using result by blast
  with run show ?thesis by (intro that [of "as_command_result spec r"]) (simp_all add: as_command_result_def)
qed

lemma echo_run:
  obtains result m' where "RunCommand echo_exec (echo_request []) tree tree_manager = (Inr result, tree, m')" "cr_Stdout result = ''ok''"
proof -
  obtain limits where limits: "NormalizeCommandLimits (me_policy tree_env) [] 0 0 1 1 = Inr limits" "cl_StdoutLimitBytes limits = 1024"
    "cl_StderrLimitBytes limits = 1024" "0 \<le> cl_MaxStdinBytes limits" by (rule echo_limits)
  let ?r = "echo_request []"
  have os: "fe_os tree_files = tree_os" by (simp add: tree_files_def)
  have fields: "ee_manager echo_exec = tree_env" "ee_files echo_exec = tree_files" "ee_runner echo_exec = echo_runner" "ee_now echo_exec = 10"
    by (simp_all add: echo_exec_def)
  have checks: "command_checks echo_exec ?r limits = Inr []" using limits(4) echo_allowed
    by (simp add: command_checks_def echo_request_def normalizeCommandEnv_def)
  have rate: "enforceOrganizationExecutionRate echo_exec (attachEffectiveLimits tree_env tree_box) m = None" for m
    by (simp add: enforceOrganizationExecutionRate_def)
  have workspace: "check_workspace echo_exec (attachEffectiveLimits tree_env tree_box) tree m = (None, m)" for m
    by (simp add: check_workspace_def enforceWorkspaceByteLimit_def enforceWorkspaceFileLimit_def fields os tree_bytes tree_count enforce_bytes_def
        enforceWorkspaceByteLimitForSize_def enforceOrganizationWorkspaceByteLimitForSize_def enforceWorkspaceFileLimitForCount_def)
  let ?spec = "spec_of ?r (attachEffectiveLimits tree_env tree_box) ''/d/b'' limits []"
  have "0 < cl_Timeout limits" using command_limits_facts(1) [OF limits(1)] .
  then have spec: "with_defaults echo_runner ?spec = ?spec" by (intro with_defaults_positive) (simp_all add: spec_of_def limits)
  obtain res where res: "process_ExecuteCommand echo_host [] ?spec tree = (Inr res, tree)" "cr_Stdout res = ''ok''"
    by (rule echo_process [of ?spec]) (simp_all add: spec_of_def limits)
  have "ExecuteCommandSpec echo_runner (worker echo_exec) ?spec tree = (Inr (res\<lparr>cr_Backend := ''preview-process''\<rparr>), tree)"
    using spec res(1) by (simp add: ExecuteCommandSpec_def worker_def acquire_def echo_exec_def echo_runner_def processBackend_def spec_of_def echo_request_def)
  moreover have "working_dir echo_exec tree (attachEffectiveLimits tree_env tree_box) ?r = Inr ''/d/b''"
    by (simp add: working_dir_def echo_request_def)
  moreover have "admission_result echo_exec b p = None" for b p by (simp add: admission_result_def echo_exec_def)
  moreover have "mq_SandboxID ?r = ''b''" "mq_Profile ?r = []" "mq_TimeoutSeconds ?r = 0" "mq_TimeoutMS ?r = 0" "mq_StdoutLimitKB ?r = 1"
    "mq_StderrLimitKB ?r = 1" by (simp_all add: echo_request_def)
  ultimately have "RunCommand echo_exec ?r tree tree_manager
      = (Inr (res\<lparr>cr_Backend := ''preview-process'', cr_ExecutionID := ee_executionID echo_exec\<rparr>), tree,
         command_done echo_exec ?r (attachEffectiveLimits tree_env tree_box) limits (res\<lparr>cr_Backend := ''preview-process''\<rparr>) tree_manager)"
    by (simp add: RunCommand_def Let_def fields tree_Get limits(1) checks rate workspace)
  then show ?thesis by (rule that) (simp add: res(2))
qed

theorem only_checked_commands_run_witness:
  "\<exists>box spec out. fst (Get tree_env 10 ''b'' tree_manager) = Inr box \<and> checked_command echo_exec (echo_request []) tree box spec
    \<and> bk_ExecuteCommand (processBackend echo_host []) spec tree = (out, tree)"
proof -
  obtain result m' where run: "RunCommand echo_exec (echo_request []) tree tree_manager = (Inr result, tree, m')" by (rule echo_run)
  have "ee_manager echo_exec = tree_env" "ee_now echo_exec = 10" "rn_backend (ee_runner echo_exec) = processBackend echo_host []"
    "mq_SandboxID (echo_request []) = ''b''"
    by (simp_all add: echo_exec_def echo_runner_def echo_request_def)
  with only_checked_commands_run [OF run] show ?thesis by auto
qed

theorem command_output_bounded_witness:
  "\<exists>result m'. RunCommand echo_exec (echo_request []) tree tree_manager = (Inr result, tree, m') \<and> cr_Stdout result = ''ok''
    \<and> int (length (cr_Stdout result)) \<le> 1024 \<and> int (length (cr_Error result)) \<le> 1024"
proof -
  obtain result m' where run: "RunCommand echo_exec (echo_request []) tree tree_manager = (Inr result, tree, m')" "cr_Stdout result = ''ok''"
    by (rule echo_run)
  obtain limits where limits: "NormalizeCommandLimits (me_policy tree_env) [] 0 0 1 1 = Inr limits" "cl_StdoutLimitBytes limits = 1024"
    "cl_StderrLimitBytes limits = 1024" by (rule echo_limits)
  have "NormalizeCommandLimits (ee_policy echo_exec) (mq_Profile (echo_request [])) (mq_TimeoutSeconds (echo_request []))
      (mq_TimeoutMS (echo_request [])) (mq_StdoutLimitKB (echo_request [])) (mq_StderrLimitKB (echo_request [])) = Inr limits"
    using limits(1) by (simp add: echo_exec_def echo_request_def)
  moreover have "rn_backend (ee_runner echo_exec) \<in> {linuxSecureBackend echo_host b, processBackend echo_host []}" for b
    by (simp add: echo_exec_def echo_runner_def)
  ultimately show ?thesis using command_output_bounded [OF run(1)] run limits(2,3) by metis
qed


section \<open>A refused run\<close>

definition org_box :: sandbox where
  "org_box = tree_box\<lparr>sb_OrganizationID := ''o''\<rparr>"

definition org_manager :: "memory_cache manager" where
  "org_manager = tree_manager\<lparr>mg_store := \<lparr>ms_sandboxes = [(''b'', org_box)], ms_endpoints = []\<rparr>,
     mg_cache := [(''b'', \<lparr>mi_box = org_box, mi_expiresAt = Some 100\<rparr>)]\<rparr>"

lemma org_Get: "Get tree_env 10 ''b'' org_manager = (Inr (attachEffectiveLimits tree_env org_box), org_manager)"
  by (simp add: Get_def tree_env_def org_manager_def tree_manager_def memorySandboxCache_def memory_Get_def expireIfNeeded_def org_box_def
      tree_box_def example_box_def created_item_def attachEffectiveLimits_def)

theorem refused_runs_count_witness:
  "\<exists>e m' ev rest. RunCommand echo_exec (echo_request ''nope'') tree org_manager = (Inl e, tree, m')
    \<and> QueryEvents (rate_query (echo_exec\<lparr>ee_now := 20\<rparr>) ''o'' 1) (mg_recorder m') = ev # rest \<and> ev_Type ev = ''exec.command.failed''"
proof -
  have "map_of (sv_commandProfiles (me_policy tree_env)) ''nope'' = None"
    by (simp add: tree_env_def NewService_def builtin_commands_def)
  then obtain e m' where run: "RunCommand echo_exec (echo_request ''nope'') tree org_manager = (Inl e, tree, m')"
    by (simp add: RunCommand_def command_failed_def echo_exec_def echo_request_def org_Get working_dir_def NormalizeCommandLimits_def Let_def)
  have "0 < rc_limit (mg_recorder org_manager)" by (simp add: org_manager_def tree_manager_def new_manager_def newRecorder_def)
  moreover have "fst (Get (ee_manager echo_exec) (ee_now echo_exec) (mq_SandboxID (echo_request ''nope'')) org_manager) = Inr (attachEffectiveLimits tree_env org_box)"
    by (simp add: echo_exec_def echo_request_def org_Get)
  moreover have "sb_OrganizationID (attachEffectiveLimits tree_env org_box) = ''o''" by (simp add: attachEffectiveLimits_def org_box_def)
  moreover have "trim_space ''o'' = ''o''" by (simp add: graphic_trim_space graphic_def)
  ultimately show ?thesis
    using refused_runs_count [OF run, of "attachEffectiveLimits tree_env org_box" "echo_exec\<lparr>ee_now := 20\<rparr>" 1] run
    by (simp add: echo_exec_def) blast
qed

section \<open>Code\<close>







end
