(* ===== verification/Spec2Isabelle.thy ===== *)
theory Spec2Isabelle
  imports Engine_Anomalies Engine_Outputs Governance_Examples Sandbox_Admission_Examples
    Sandbox_Check_Examples Sandbox_Isolation Sandbox_Artifact_Safety Sandbox_Run_Examples
begin

text \<open>
  \<^bold>\<open>A verification of the core of ZGI.\<close>

  ZGI is a platform for workflows and agents. This library models and verifies three of its parts,
  which carry the decisions that the rest of the system relies on: the engine that executes
  workflow graphs, the governance of the tool calls of agents, and the policy and life cycle of
  the sandboxes in which code runs. All definitions are executable functions over explicit states,
  in the order of the source, with the names of the source where HOL allows it; a struct is a
  \<open>record\<close> whose fields have a short prefix, an enumeration a \<open>datatype\<close> or its strings, an error a
  value of a sum or option type, and a Go map an association list. Strings are lists of bytes.
  Integers are unbounded where the source cannot leave 64 bits, and go through \<open>int64\<close> where it
  can; addresses and floating point numbers are words.

  \<^bold>\<open>The language.\<close> \<open>Go_Prelude\<close> (integers, strings, maps), \<open>Go_Value\<close> (values of type \<open>any\<close>, floating
  point as words, formatting), \<open>Go_Strings\<close> (trimming, folding of case) and \<open>Go_Netip\<close>
  (addresses, prefixes and their text) model what the source uses of Go and its standard library.
  \<open>Go_Path\<close> (\<open>path/filepath\<close>), \<open>Go_Files\<close> and \<open>Go_Files_Walk\<close> (a Unix file tree with directories, regular
  files and symbolic links, the walk of the kernel along a path, at most forty links, and the
  functions of \<open>os\<close> on it) and \<open>Go_Base64\<close> carry the operations on files.
  \<open>Transition_System\<close> holds the interfaces for step relations: \<open>step_invariant\<close> and
  \<open>progress_system\<close>.

  \<^bold>\<open>The workflow engine\<close> (\<open>src/api/internal/modules/app/workflow/graph_engine\<close>).
  \<^item> \<open>Variable_Pool\<close>: \<open>entities/variable_pool*.go\<close>. Reading after writing, attributes, initialisation.
  \<^item> \<open>Engine_State\<close>: \<open>entities/graph_runtime_state.go\<close>, \<open>runtime_outputs.go\<close>.
  \<^item> \<open>Workflow_Engine\<close>: \<open>workflow_engine.go\<close>, \<open>engine_factory.go\<close>, the graph, leases, and the search
    for cycles. The depth of the search is bounded by the number of nodes, which is enough because
    the nodes on the stack are distinct; \<open>Engine_Preflight\<close> proves the search exact.
  \<^item> \<open>Engine_Scheduler\<close>: \<open>engine_scheduler.go\<close>, \<open>engine_status.go\<close>.
  \<^item> \<open>Engine_Execution\<close>: \<open>engine_execution.go\<close>, \<open>engine_events.go\<close>; a node is a parameter that gives
    the list of its events.
  \<^item> \<open>Engine_Concurrency\<close>: the main goroutine, the goroutines of nodes and the callers of \<open>Stop\<close> as
    a step relation \<open>engine_step\<close> over all interleavings; \<open>Engine_Safety\<close> its invariants,
    \<open>Engine_Liveness\<close> its progress, \<open>Engine_Run\<close> the properties of whole runs: \<open>Execute\<close> returns
    when nobody interferes and a lease is left, a node runs only after its upstreams, the number
    of goroutines is bounded, every node runs once.
  \<^item> \<open>Engine_Outputs\<close>: what a finished node publishes. \<open>Engine_Anomalies\<close>: runs that hang or lose a
    node when a stop, a pause or a single lease comes at the wrong moment.

  \<^bold>\<open>Tool governance\<close> (\<open>src/api/internal/capabilities/toolgovernance\<close>).
  \<^item> \<open>Tool_Governance\<close>: types and normalisers (\<open>types.go\<close>, \<open>normalize.go\<close>), tiers and matching
    (\<open>policy.go\<close>); the normalisers of enumerations share the locale \<open>enum_normaliser\<close>.
  \<^item> \<open>Governance_Decision\<close>: \<open>Decide\<close>, approval events, audit payloads, \<open>ValidateManifest\<close>.
  \<^item> \<open>Governance_Safety\<close>: dangerous calls need an authorisation, the hard checks cannot be overridden,
    an approval is effective, decisions are audited. \<open>Governance_Frozen\<close> (\<open>frozen_invocation.go\<close>):
    frozen invocations are tamper evident; SHA-256 and the encoding of the digest are parameters
    that are assumed injective, the sort of the library is the locale \<open>asset_sorter\<close>.
    \<open>Governance_Examples\<close> applies the theorems to concrete calls.

  \<^bold>\<open>The sandbox service\<close> (\<open>src/sandbox/internal\<close>).
  \<^item> \<open>Sandbox_Model\<close>: \<open>config/config.go\<close>, \<open>sandbox/model.go\<close>. \<open>Sandbox_Dependencies\<close> and \<open>Sandbox_Policy\<close>:
    \<open>policy/service.go\<close>. \<open>Sandbox_Profiles\<close>: identities of profiles are unique, a selected profile
    is safe, a built one can be loaded. \<open>Sandbox_Limits\<close>: the bounds on commands and lifetimes.
  \<^item> \<open>Sandbox_Egress\<close>: \<open>policy/egress.go\<close>; an allowed destination satisfies the policy.
  \<^item> \<open>Sandbox_Observer\<close>: \<open>observer/recorder.go\<close>. \<open>Sandbox_Cache\<close>: \<open>cache/cache.go\<close>, with the contract of a
    cache as the locale \<open>sandbox_cache\<close>, interpreted on both caches of the source.
  \<^item> \<open>Sandbox_Lifecycle\<close>: \<open>lifecycle/manager.go\<close>. \<open>Sandbox_Serve\<close>: the operations as a server of
    requests. \<open>Sandbox_Cache_Refinement\<close>: in the locale, the manager with a cache simulates the one
    without. \<open>Sandbox_States\<close>: the manager refines the step relation \<open>lifecycle_step\<close>.
    \<open>Sandbox_Safety\<close>: the end of a sandbox is final, the limit on active sandboxes, and how a
    renewal or an overlapping creation exceeds it. \<open>Sandbox_Examples\<close>: concrete inputs.
  \<^item> \<open>Sandbox_Admission\<close>: the admission of executions (\<open>executor/service.go\<close>,
    \<open>acquireExecutionAdmission\<close> and its helpers) as a step relation over all interleavings.
    \<open>Sandbox_Admission_Safety\<close>: the counters are the numbers of calls and the limits hold;
    \<open>Sandbox_Admission_Liveness\<close>: no wake-up is lost and every call returns, along a
    lexicographic measure; \<open>Sandbox_Admission_Examples\<close>: a schedule of two calls.
  \<^item> \<open>Sandbox_Files\<close>: the paths, the limits on workspaces and the operations on files of
    \<open>executor/service.go\<close>. \<open>Sandbox_Archive\<close>: archives, their entries, the manifest of a skill, and
    the rollback. \<open>Sandbox_Files_Safety\<close> and \<open>Sandbox_Archive_Safety\<close>: what an operation changes;
    \<open>Sandbox_Confinement\<close>: files stay in the directory of their sandbox, and an archive that
    fails is taken back; \<open>Sandbox_Uploads\<close>: what was uploaded can be downloaded, and the limits of
    the workspace hold. \<open>Sandbox_Manifests\<close>: manifests of files and the execution manifest of a
    skill. \<open>Sandbox_File_Examples\<close>: a small tree.
  \<^item> Checks of runs (\<open>executor/service.go\<close>). \<open>Sandbox_Results\<close>: the expected schema of an output is enforced
    exactly. \<open>Sandbox_Commands\<close>: the environment of a command and the search for installations of
    packages; \<open>Sandbox_Installs\<close>: which commands it refuses and what slips through.
    \<open>Sandbox_Templates\<close>: helpers, variables and the output of templates; a parsed template is a
    datatype with the node types of \<open>text/template/parse\<close> that the walk distinguishes.
    \<open>Sandbox_Check_Examples\<close> applies these theorems.
  \<^item> Runs. \<open>Sandbox_Runs\<close>: \<open>RunCommand\<close>, \<open>RunCode\<close> and \<open>RunSkill\<close>, every branch with its event;
    \<open>Sandbox_Renders\<close>: \<open>RunTemplate\<close>. \<open>Sandbox_Run_Events\<close>: every run leaves one event.
    \<open>Sandbox_Run_Safety\<close>: only checked commands reach a backend, what they print is bounded, and code
    has a network only with permission. \<open>Sandbox_Run_Examples\<close>: a command, a refusal and code.
  \<^item> The runner (\<open>runner/\<close>). \<open>Sandbox_Runner\<close>: \<open>runner.go\<close>. \<open>Sandbox_Backends\<close>: the process backend and
    the bubblewrap backend up to the argument list of the process that they start.
    \<open>Sandbox_Isolation\<close>: what bubblewrap reads in this list. \<open>Sandbox_Artifacts\<close>: \<open>rootfs.go\<close> and
    \<open>profile_artifact.go\<close>; \<open>Sandbox_Artifact_Safety\<close>: what is mounted has been verified.

  \<^bold>\<open>Parameters and hypotheses.\<close> Nodes, clocks, identifiers, callbacks, SHA-256, JSON, the parser of
  URLs, the resolver of names, the creation of directories, random tokens, the zip reader and the failures of
  the device are arguments of the definitions. So are the process that a backend starts (its output
  in pieces, its end, and the files that it leaves: \<open>host_env\<close>), the outcome of the admission in a
  run, the permission bits of directories, and what the template engine writes. How bubblewrap reads
  its arguments is the hypothesis \<open>documented_bwrap\<close>, which is its documented grammar of options. An operation on files runs without interference
  (\<open>wd_ok\<close>: the working directory is absolute; \<open>root_is_dir\<close>: the root of a sandbox is a directory). Hypotheses on them are named in the theorems: injective digests, random names that
  do not repeat, stable sorting. An operation of the manager runs at one instant, and the stores and
  caches in memory are atomic, as their locks make them; the two halves of \<open>Create\<close> are separate
  definitions because nothing locks the store between them.

  \<^bold>\<open>Findings.\<close> The theorems on anomalies state what the code does where it differs from its purpose:
  lost wake-ups and lost stops of the engine, a dropped batch, interrupted nodes that count as
  succeeded, attributes of conversation variables that are not found, approval switches without
  effect, IPv4-mapped addresses that pass the egress policy, sandboxes above the limit, a command that
  bubblewrap reads as an option, a checksum that does not tell artifacts apart, a check of templates
  that panics, and a check for installations that is bypassed.

  \<^bold>\<open>Not modelled.\<close> The implementations of workflow nodes, the conversion of values and the rendering
  of templates; the persistence and streaming of runs; the chat runtime around a language model;
  parsers of document formats; accounts, data sets and the other modules over SQL and HTTP; the
  inside of the processes and containers that a backend starts, the streams of \<open>StartProcess\<close>, the
  probes of the host when the secure backend is made, and the scan of archives for dependencies;
  the SQL store of the sandbox service, its Redis cache and its HTTP server; the metrics of the recorder, which average in floating point; the clients in
  TypeScript. These parts are effects of other systems, or large bodies of glue around them.
\<close>

end
